(* ===== verification/Prelude.thy ===== *)
theory Prelude
  imports Main
begin

text \<open>
  What every component of the wiki editor backend shares: Go's machine integers and
  times, the JSON values that cross service boundaries, Go maps with their nil value,
  the string functions of the standard library that the code calls, and the generic
  lemmas on lists and sums that the component proofs use.

  Strings are Go strings: sequences of bytes, here lists of \<open>char\<close>.
\<close>

section \<open>Collections of facts\<close>

named_theorems clone_simps \<open>equations of the functions that copy documents and maps\<close>
named_theorems store_simps \<open>equations of the page store operations\<close>
named_theorems tx_simps \<open>equations of the transactions run on a page store\<close>

section \<open>Integers and times\<close>

text \<open>
  An \<open>int64\<close> is an integer; \<open>wrap64\<close> is what Go's addition and multiplication do
  with a result that does not fit.
\<close>

definition wrap64 :: "int \<Rightarrow> int" where
  "wrap64 x = (x + 2 ^ 63) mod 2 ^ 64 - 2 ^ 63"

definition max_int64 :: int where
  "max_int64 = 2 ^ 63 - 1"

definition fits64 :: "int \<Rightarrow> bool" where
  "fits64 x \<longleftrightarrow> - (2 ^ 63) \<le> x \<and> x \<le> max_int64"

lemma wrap64_id [simp]: "fits64 x \<Longrightarrow> wrap64 x = x"
  by (simp add: wrap64_def fits64_def max_int64_def)

lemma wrap64_fits [simp]: "fits64 (wrap64 x)"
proof -
  have "0 \<le> (x + 2 ^ 63) mod 2 ^ 64" and "(x + 2 ^ 63) mod 2 ^ 64 < (2 ^ 64 :: int)"
    by simp_all
  then show ?thesis by (simp add: wrap64_def fits64_def max_int64_def)
qed

lemma wrap64_overflow: "wrap64 (max_int64 + 1) = - (2 ^ 63)"
  by (simp add: wrap64_def max_int64_def)

text \<open>
  A \<open>time.Time\<close> is a number of nanoseconds since Go's zero time; a \<open>time.Duration\<close>
  is a number of nanoseconds.
\<close>

type_synonym gotime = int
type_synonym duration = int

abbreviation zero_time :: gotime where
  "zero_time \<equiv> 0"

definition nanosecond :: duration where "nanosecond = 1"
definition millisecond :: duration where "millisecond = 1000000"
definition second :: duration where "second = 1000000000"
definition minute :: duration where "minute = 60 * second"

section \<open>JSON values and Go maps\<close>

text \<open>
  A number is an integer literal or, opaquely, any other literal. An object keeps its
  members in order, duplicates included, as the decoder meets them.
\<close>

datatype json =
    JNull
  | JBool bool
  | JInt int
  | JFloat string
  | JStr string
  | JArr "json list"
  | JObj "(string \<times> json) list"

text \<open>A \<open>map[string]any\<close>: \<open>None\<close> is the nil map.\<close>

type_synonym gmap = "(string \<times> json) list option"

definition gm_lookup :: "gmap \<Rightarrow> string \<Rightarrow> json option" where
  "gm_lookup m k = (case m of None \<Rightarrow> None | Some kvs \<Rightarrow> map_of kvs k)"

text \<open>\<open>m[k] = v\<close>: overwrites in place, else adds.\<close>

fun kv_put :: "string \<Rightarrow> 'v \<Rightarrow> (string \<times> 'v) list \<Rightarrow> (string \<times> 'v) list" where
  "kv_put k v [] = [(k, v)]"
| "kv_put k v ((k', v') # kvs) = (if k = k' then (k, v) # kvs else (k', v') # kv_put k v kvs)"

lemma map_of_kv_put: "map_of (kv_put k v kvs) = (map_of kvs)(k \<mapsto> v)"
  by (induction kvs) auto

lemma keys_kv_put: "set (map fst (kv_put k v kvs)) = insert k (set (map fst kvs))"
  by (induction k v kvs rule: kv_put.induct) (simp_all add: insert_commute)

lemma distinct_kv_put: "distinct (map fst kvs) \<Longrightarrow> distinct (map fst (kv_put k v kvs))"
proof (induction kvs)
  case Nil
  then show ?case by simp
next
  case (Cons kv kvs)
  then show ?case using keys_kv_put [of k v kvs] by (cases kv) auto
qed

text \<open>\<open>cloneMap\<close>, the same function in the page and the collaboration service.\<close>

definition clone_map :: "gmap \<Rightarrow> gmap" where
  "clone_map source = (case source of None \<Rightarrow> None | Some [] \<Rightarrow> None | Some kvs \<Rightarrow> Some kvs)"

lemma clone_map_idem [simp]: "clone_map (clone_map m) = clone_map m"
  by (auto simp: clone_map_def split: option.splits list.splits)

lemma clone_map_lookup [simp]: "gm_lookup (clone_map m) k = gm_lookup m k"
  by (auto simp: clone_map_def gm_lookup_def split: option.splits list.splits)

lemma clone_map_None [simp]: "clone_map None = None"
  by (simp add: clone_map_def)

section \<open>Strings\<close>

text \<open>
  \<open>strings.TrimSpace\<close> removes the Unicode white space at both ends; in UTF-8 these
  are the six ASCII ones, two of two bytes and the rest of three.
\<close>

definition space1 :: "char \<Rightarrow> bool" where
  "space1 c \<longleftrightarrow> c \<in> {CHR 0x09, CHR 0x0A, CHR 0x0B, CHR 0x0C, CHR 0x0D, CHR 0x20}"

definition space2 :: "char \<Rightarrow> char \<Rightarrow> bool" where
  "space2 c d \<longleftrightarrow> c = CHR 0xC2 \<and> (d = CHR 0x85 \<or> d = CHR 0xA0)"

definition space3 :: "char \<Rightarrow> char \<Rightarrow> char \<Rightarrow> bool" where
  "space3 c d e \<longleftrightarrow>
     (c = CHR 0xE1 \<and> d = CHR 0x9A \<and> e = CHR 0x80)
   \<or> (c = CHR 0xE2 \<and> d = CHR 0x80 \<and>
        e \<in> {CHR 0x80, CHR 0x81, CHR 0x82, CHR 0x83, CHR 0x84, CHR 0x85, CHR 0x86, CHR 0x87,
              CHR 0x88, CHR 0x89, CHR 0x8A, CHR 0xA8, CHR 0xA9, CHR 0xAF})
   \<or> (c = CHR 0xE2 \<and> d = CHR 0x81 \<and> e = CHR 0x9F)
   \<or> (c = CHR 0xE3 \<and> d = CHR 0x80 \<and> e = CHR 0x80)"

fun skip_spaces :: "(char \<Rightarrow> bool) \<Rightarrow> (char \<Rightarrow> char \<Rightarrow> bool) \<Rightarrow> (char \<Rightarrow> char \<Rightarrow> char \<Rightarrow> bool) \<Rightarrow> string \<Rightarrow> string" where
  "skip_spaces p1 p2 p3 [] = []"
| "skip_spaces p1 p2 p3 [c] = (if p1 c then [] else [c])"
| "skip_spaces p1 p2 p3 [c, d] =
     (if p1 c then skip_spaces p1 p2 p3 [d] else if p2 c d then [] else [c, d])"
| "skip_spaces p1 p2 p3 (c # d # e # s) =
     (if p1 c then skip_spaces p1 p2 p3 (d # e # s)
      else if p2 c d then skip_spaces p1 p2 p3 (e # s)
      else if p3 c d e then skip_spaces p1 p2 p3 s
      else c # d # e # s)"

definition trim_left :: "string \<Rightarrow> string" where
  "trim_left s = skip_spaces space1 space2 space3 s"

definition trim_right :: "string \<Rightarrow> string" where
  "trim_right s = rev (skip_spaces space1 (\<lambda>d c. space2 c d) (\<lambda>e d c. space3 c d e) (rev s))"

definition trim_space :: "string \<Rightarrow> string" where
  "trim_space s = trim_right (trim_left s)"

text \<open>The letters of ASCII in lower and in upper case.\<close>

definition ascii_lower :: "char \<Rightarrow> char" where
  "ascii_lower c = (if 65 \<le> (of_char c :: int) \<and> (of_char c :: int) \<le> 90
                    then char_of ((of_char c :: int) + 32) else c)"

definition ascii_upper :: "char \<Rightarrow> char" where
  "ascii_upper c = (if 97 \<le> (of_char c :: int) \<and> (of_char c :: int) \<le> 122
                    then char_of ((of_char c :: int) - 32) else c)"

text \<open>\<open>strings.Join(parts, sep)\<close>.\<close>

fun join :: "string \<Rightarrow> string list \<Rightarrow> string" where
  "join sep [] = []"
| "join sep [p] = p"
| "join sep (p # ps) = p @ sep @ join sep ps"

text \<open>\<open>strings.Split(s, sep)\<close> for a separator of one byte.\<close>

fun split_on :: "char \<Rightarrow> string \<Rightarrow> string list" where
  "split_on c [] = [[]]"
| "split_on c (d # s) =
     (if d = c then [] # split_on c s
      else (case split_on c s of [] \<Rightarrow> [[d]] | p # ps \<Rightarrow> (d # p) # ps))"

lemma split_on_part: "c \<notin> set p \<Longrightarrow> split_on c p = [p]"
  by (induction p) auto

lemma split_on_append: "c \<notin> set p \<Longrightarrow> split_on c (p @ c # s) = p # split_on c s"
  by (induction p) auto

lemma split_on_join:
  "ps \<noteq> [] \<Longrightarrow> \<forall>p \<in> set ps. c \<notin> set p \<Longrightarrow> split_on c (join [c] ps) = ps"
  by (induction "[c]" ps rule: join.induct) (auto simp: split_on_part split_on_append)

text \<open>The \<open>firstNonEmpty\<close> helpers of the page and the embed service.\<close>

fun first_non_empty :: "string list \<Rightarrow> string" where
  "first_non_empty [] = ''''"
| "first_non_empty (v # vs) = (if v \<noteq> '''' then v else first_non_empty vs)"

lemma first_non_empty_iff: "first_non_empty vs = '''' \<longleftrightarrow> (\<forall>v \<in> set vs. v = '''')"
  by (induction vs) auto

text \<open>
  A process's supply of identifiers (\<open>uuid.NewString\<close>): the \<open>n\<close>-th it hands out is \<open>gen n\<close>, and
  the state passed along is how many it has handed out.
\<close>

type_synonym id_gen = "nat \<Rightarrow> string"

section \<open>Time stamps\<close>

text \<open>
  \<open>t.UTC().Format(time.RFC3339Nano)\<close>: the civil date and time of a number of nanoseconds
  since January 1 of year 1, the fraction of a second without trailing zeros.
\<close>

definition digit :: "int \<Rightarrow> char" where
  "digit n = char_of (48 + n)"

function decimal :: "int \<Rightarrow> string" where
  "decimal n = (if n < 10 then [digit n] else decimal (n div 10) @ [digit (n mod 10)])"
  by pat_completeness auto
termination
  by (relation "measure nat") auto

declare decimal.simps [simp del]

definition pad :: "nat \<Rightarrow> int \<Rightarrow> string" where
  "pad width n = (let s = decimal n in replicate (width - length s) CHR ''0'' @ s)"

text \<open>\<open>days\<close> counts from 0000-03-01, so that the leap day ends the year.\<close>

definition civil_date :: "int \<Rightarrow> int \<times> int \<times> int" where
  "civil_date days =
     (let era = days div 146097; doe = days mod 146097;
          yoe = (doe - doe div 1460 + doe div 36524 - doe div 146096) div 365;
          doy = doe - (365 * yoe + yoe div 4 - yoe div 100);
          mp = (5 * doy + 2) div 153;
          d = doy - (153 * mp + 2) div 5 + 1;
          m = (if mp < 10 then mp + 3 else mp - 9);
          y = yoe + era * 400 + (if m \<le> 2 then 1 else 0)
      in (y, m, d))"

definition fraction :: "int \<Rightarrow> string" where
  "fraction ns =
     (let s = rev (dropWhile (\<lambda>c. c = CHR ''0'') (rev (pad 9 ns)))
      in if s = [] then [] else CHR ''.'' # s)"

definition rfc3339_nano :: "gotime \<Rightarrow> string" where
  "rfc3339_nano t =
     (let ns = t mod 1000000000; secs = t div 1000000000;
          day = secs div 86400; rem = secs mod 86400;
          (y, m, d) = civil_date (day + 306)
      in pad 4 y @ ''-'' @ pad 2 m @ ''-'' @ pad 2 d @ ''T''
         @ pad 2 (rem div 3600) @ '':'' @ pad 2 (rem div 60 mod 60) @ '':'' @ pad 2 (rem mod 60)
         @ fraction ns @ ''Z'')"

section \<open>Lists and sums\<close>

text \<open>The first element that satisfies a predicate, as a search loop with a break finds it.\<close>

lemma find_append: "find P (xs @ ys) = (case find P xs of None \<Rightarrow> find P ys | Some x \<Rightarrow> Some x)"
  by (induction xs) auto

lemma find_SomeD: "find P xs = Some x \<Longrightarrow> x \<in> set xs \<and> P x"
  by (induction xs) (auto split: if_splits)

lemma find_unique:
  "distinct (map f xs) \<Longrightarrow> x \<in> set xs \<Longrightarrow> find (\<lambda>y. f y = f x) xs = Some x"
  by (induction xs) auto

lemma find_none: "\<forall>x \<in> set xs. \<not> P x \<Longrightarrow> find P xs = None"
  by (induction xs) auto

lemma sum_caseE:
  assumes "(case r of Inl e \<Rightarrow> f e | Inr x \<Rightarrow> g x) = y"
  obtains e where "r = Inl e" and "f e = y" | x where "r = Inr x" and "g x = y"
  using assms by (cases r) auto

text \<open>Adding a value whose key is larger than all others to a sorted list.\<close>

lemma insort_key_snoc:
  "\<forall>y \<in> set xs. f y < f x \<Longrightarrow> insort_key f x xs = xs @ [x]"
  for f :: "'a \<Rightarrow> 'b::linorder"
  by (induction xs) auto

lemma sort_key_snoc:
  fixes f :: "'a \<Rightarrow> 'b::linorder"
  assumes "sorted (map f xs)" and "\<forall>y \<in> set xs. f y < f x"
  shows "sort_key f (xs @ [x]) = xs @ [x]"
proof -
  have "sorted (map f (xs @ [x]))"
    using assms by (auto simp: sorted_append intro: less_imp_le)
  then show ?thesis by (rule sort_key_id_if_sorted)
qed

end
