(* ===== verification/Authz.thy ===== *)
theory Authz
  imports Prelude
begin

text \<open>
  Who may do what. The static policy of \<^verbatim>\<open>pkg/authz/policy.go\<close>, the policy of the auth
  service (\<^verbatim>\<open>services/auth-service/internal/domain/role.go\<close>) with its page grants and
  its authorizer use case, the client that asks it (\<^verbatim>\<open>pkg/runtimeauthz/client.go\<close>) and
  the action authorizers of the page, file, search and collaboration services, which are
  the same function of the same inputs.
\<close>

section \<open>Roles and actions\<close>

text \<open>
  Both packages declare roles and actions as strings with named constants; a string that
  is none of the constants is \<open>RoleOther\<close> or \<open>ActionOther\<close>.
\<close>

datatype role =
    RoleOwner | RoleAdmin | RoleEditor | RoleCommenter | RoleViewer
  | RoleOther string

datatype action =
    ActionPageView | ActionPageEdit | ActionPageArchive | ActionPagePublish
  | ActionPageRestore | ActionPageEmbedTable | ActionFileUpload | ActionFileRead
  | ActionSearchQuery
  | ActionOther string

definition role_of_string :: "string \<Rightarrow> role" where
  "role_of_string s =
     (if s = ''owner'' then RoleOwner
      else if s = ''admin'' then RoleAdmin
      else if s = ''editor'' then RoleEditor
      else if s = ''commenter'' then RoleCommenter
      else if s = ''viewer'' then RoleViewer
      else RoleOther s)"

fun string_of_role :: "role \<Rightarrow> string" where
  "string_of_role RoleOwner = ''owner''"
| "string_of_role RoleAdmin = ''admin''"
| "string_of_role RoleEditor = ''editor''"
| "string_of_role RoleCommenter = ''commenter''"
| "string_of_role RoleViewer = ''viewer''"
| "string_of_role (RoleOther s) = s"

lemma role_string_inverse [simp]: "string_of_role (role_of_string s) = s"
  by (simp add: role_of_string_def)

section \<open>The static policy\<close>

definition editor_actions :: "action list" where
  "editor_actions =
     [ActionPageView, ActionPageEdit, ActionPageArchive, ActionPagePublish,
      ActionPageRestore, ActionPageEmbedTable, ActionFileUpload, ActionFileRead,
      ActionSearchQuery]"

definition reader_actions :: "action list" where
  "reader_actions = [ActionPageView, ActionFileRead, ActionSearchQuery]"

text \<open>\<open>authz.Allowed\<close>: the loop over the raw roles, with its early returns.\<close>

fun allowed :: "string list \<Rightarrow> action \<Rightarrow> bool" where
  "allowed [] action = False"
| "allowed (rawRole # roles) action =
     (case role_of_string rawRole of
        RoleOwner \<Rightarrow> True
      | RoleAdmin \<Rightarrow> True
      | RoleEditor \<Rightarrow> if action \<in> set editor_actions then True else allowed roles action
      | RoleCommenter \<Rightarrow> if action \<in> set reader_actions then True else allowed roles action
      | RoleViewer \<Rightarrow> if action \<in> set reader_actions then True else allowed roles action
      | RoleOther _ \<Rightarrow> allowed roles action)"

section \<open>The policy of the auth service\<close>

fun role_valid :: "role \<Rightarrow> bool" where
  "role_valid (RoleOther _) = False"
| "role_valid _ = True"

fun permits :: "role \<Rightarrow> action \<Rightarrow> bool" where
  "permits RoleOwner action = True"
| "permits RoleAdmin action = True"
| "permits RoleEditor action =
     (action = ActionPageView \<or> action = ActionPageEdit \<or> action = ActionPageArchive
      \<or> action = ActionPagePublish \<or> action = ActionPageRestore
      \<or> action = ActionPageEmbedTable \<or> action = ActionFileUpload
      \<or> action = ActionFileRead \<or> action = ActionSearchQuery)"
| "permits RoleCommenter action =
     (action = ActionPageView \<or> action = ActionFileRead \<or> action = ActionSearchQuery)"
| "permits RoleViewer action =
     (action = ActionPageView \<or> action = ActionFileRead \<or> action = ActionSearchQuery)"
| "permits (RoleOther _) action = False"

record membership =
  mb_workspace :: string
  mb_user :: string
  mb_role :: role

text \<open>A permission is a string with the constants \<open>view\<close> and \<open>edit\<close>.\<close>

record page_grant =
  gr_page :: string
  gr_workspace :: string
  gr_subject :: string
  gr_permission :: string

record authorization_decision =
  ad_allowed :: bool
  ad_role :: role
  ad_permissions :: "string list"
  ad_denial :: string

definition has_grant :: "page_grant list \<Rightarrow> string list \<Rightarrow> bool" where
  "has_grant grants expected \<longleftrightarrow> (\<exists>g \<in> set grants. gr_permission g \<in> set expected)"

definition evaluate_authorization ::
  "role \<Rightarrow> page_grant list \<Rightarrow> action \<Rightarrow> authorization_decision" where
  "evaluate_authorization role grants action =
     (let decision = \<lparr>ad_allowed = False, ad_role = role,
                      ad_permissions = map gr_permission grants, ad_denial = ''''\<rparr>
      in if permits role action then decision\<lparr>ad_allowed := True\<rparr>
         else if action = ActionPageView \<and> has_grant grants [''view'', ''edit'']
           then decision\<lparr>ad_allowed := True\<rparr>
         else if (action = ActionPageEdit \<or> action = ActionPageArchive
                  \<or> action = ActionPageEmbedTable \<or> action = ActionFileUpload)
                 \<and> has_grant grants [''edit'']
           then decision\<lparr>ad_allowed := True\<rparr>
         else decision\<lparr>ad_denial := ''permission_denied''\<rparr>)"

text \<open>
  \<open>Authorizer.Execute\<close>. The repository is a parameter: what it lists for a user, and
  for a user, a workspace and a page.
\<close>

definition authorizer_execute ::
  "(string \<Rightarrow> string + membership list) \<Rightarrow>
   (string \<Rightarrow> string \<Rightarrow> string \<Rightarrow> string + page_grant list) \<Rightarrow>
   string \<Rightarrow> string \<Rightarrow> string \<Rightarrow> action \<Rightarrow> string + authorization_decision" where
  "authorizer_execute list_memberships list_page_grants user workspace page action =
     (case list_memberships user of
        Inl err \<Rightarrow> Inl err
      | Inr memberships \<Rightarrow>
          let role = (case find (\<lambda>m. mb_workspace m = workspace) memberships of
                        None \<Rightarrow> RoleOther ''''
                      | Some m \<Rightarrow> mb_role m)
          in if page \<noteq> '''' then
               (case list_page_grants user workspace page of
                  Inl err \<Rightarrow> Inl err
                | Inr grants \<Rightarrow> Inr (evaluate_authorization role grants action))
             else Inr (evaluate_authorization role [] action))"

section \<open>Asking the auth service, and the services' authorizers\<close>

record check_input =
  ci_actor :: string
  ci_workspace :: string
  ci_page :: string
  ci_action :: action

record decision =
  dn_allowed :: bool
  dn_role :: string
  dn_permissions :: "string list"
  dn_denial :: string

text \<open>
  The remote end of the client is a function from a check to an answer; the client itself
  is nil when there is none. \<open>auth_server\<close> is what the auth service's gRPC server
  answers with.
\<close>

type_synonym remote_authz = "check_input \<Rightarrow> string + decision"

definition auth_server ::
  "(string \<Rightarrow> string + membership list) \<Rightarrow>
   (string \<Rightarrow> string \<Rightarrow> string \<Rightarrow> string + page_grant list) \<Rightarrow> remote_authz" where
  "auth_server list_memberships list_page_grants request =
     (case authorizer_execute list_memberships list_page_grants
             (ci_actor request) (ci_workspace request) (ci_page request) (ci_action request) of
        Inl err \<Rightarrow> Inl err
      | Inr d \<Rightarrow> Inr \<lparr>dn_allowed = ad_allowed d, dn_role = string_of_role (ad_role d),
                      dn_permissions = ad_permissions d, dn_denial = ad_denial d\<rparr>)"

fun batch_results :: "remote_authz \<Rightarrow> check_input list \<Rightarrow> string + decision list" where
  "batch_results remote [] = Inr []"
| "batch_results remote (c # cs) =
     (case remote c of
        Inl err \<Rightarrow> Inl err
      | Inr d \<Rightarrow> (case batch_results remote cs of Inl err \<Rightarrow> Inl err | Inr ds \<Rightarrow> Inr (d # ds)))"

definition client_authorize :: "remote_authz option \<Rightarrow> check_input \<Rightarrow> string + decision" where
  "client_authorize client input =
     (case client of
        None \<Rightarrow> Inr \<lparr>dn_allowed = False, dn_role = '''', dn_permissions = [], dn_denial = ''''\<rparr>
      | Some remote \<Rightarrow> remote input)"

definition client_batch_authorize ::
  "remote_authz option \<Rightarrow> check_input list \<Rightarrow> string + decision list" where
  "client_batch_authorize client inputs =
     (case client of
        None \<Rightarrow> Inr []
      | Some remote \<Rightarrow> if inputs = [] then Inr [] else batch_results remote inputs)"

record authorization_subject =
  as_actor :: string
  as_workspace :: string
  as_page :: string
  as_roles :: "string list"
  as_authenticated :: bool

datatype authz_outcome = AuthzOk | AuthzForbidden | AuthzError string

text \<open>\<open>PageActionAuthorizer.Allowed\<close> and \<open>.Authorize\<close>.\<close>

definition authorizer_allowed ::
  "remote_authz option \<Rightarrow> action \<Rightarrow> authorization_subject \<Rightarrow> string + bool" where
  "authorizer_allowed checker action subject =
     (if \<not> as_authenticated subject then Inr True
      else if checker \<noteq> None then
        (case client_authorize checker
                \<lparr>ci_actor = as_actor subject, ci_workspace = as_workspace subject,
                 ci_page = as_page subject, ci_action = action\<rparr> of
           Inl err \<Rightarrow> Inl err
         | Inr d \<Rightarrow> Inr (dn_allowed d))
      else Inr (allowed (as_roles subject) action))"

definition authorize ::
  "remote_authz option \<Rightarrow> action \<Rightarrow> authorization_subject \<Rightarrow> authz_outcome" where
  "authorize checker action subject =
     (case authorizer_allowed checker action subject of
        Inl err \<Rightarrow> AuthzError err
      | Inr ok \<Rightarrow> if ok then AuthzOk else AuthzForbidden)"

text \<open>
  \<open>FileActionAuthorizer.Authorize\<close>, \<open>SessionAuthorizer.Authorize\<close> and
  \<open>ResultFilter.Require\<close> repeat the decision without the middle step.
\<close>

definition service_authorize ::
  "remote_authz option \<Rightarrow> action \<Rightarrow> authorization_subject \<Rightarrow> authz_outcome" where
  "service_authorize checker action subject =
     (if \<not> as_authenticated subject then AuthzOk
      else if checker \<noteq> None then
        (case client_authorize checker
                \<lparr>ci_actor = as_actor subject, ci_workspace = as_workspace subject,
                 ci_page = as_page subject, ci_action = action\<rparr> of
           Inl err \<Rightarrow> AuthzError err
         | Inr d \<Rightarrow> if dn_allowed d then AuthzOk else AuthzForbidden)
      else if allowed (as_roles subject) action then AuthzOk
      else AuthzForbidden)"

section \<open>Facts about the two policies\<close>

lemma permits_editor_iff: "permits RoleEditor a \<longleftrightarrow> a \<in> set editor_actions"
  by (auto simp: editor_actions_def)

lemma permits_reader_iff:
  "permits RoleCommenter a \<longleftrightarrow> a \<in> set reader_actions"
  "permits RoleViewer a \<longleftrightarrow> a \<in> set reader_actions"
  by (auto simp: reader_actions_def)

lemma allowed_iff_permits: "allowed roles a \<longleftrightarrow> (\<exists>r \<in> set roles. permits (role_of_string r) a)"
proof (induction roles)
  case Nil
  then show ?case by simp
next
  case (Cons r roles)
  then show ?case
    by (cases "role_of_string r")
       (auto simp add: permits_editor_iff permits_reader_iff simp del: permits.simps(3-5))
qed

lemma allowed_append: "allowed (rs @ rs') a \<longleftrightarrow> allowed rs a \<or> allowed rs' a"
  by (auto simp: allowed_iff_permits)

lemma authorize_service_eq: "service_authorize checker a s = authorize checker a s"
  by (auto simp: service_authorize_def authorize_def authorizer_allowed_def split: sum.splits)

lemma authorize_unauthenticated [simp]:
  "\<not> as_authenticated s \<Longrightarrow> authorize checker a s = AuthzOk"
  by (simp add: authorize_def authorizer_allowed_def)

lemma evaluate_allowed_iff:
  "ad_allowed (evaluate_authorization r gs a) \<longleftrightarrow>
     permits r a
     \<or> (a = ActionPageView \<and> has_grant gs [''view'', ''edit''])
     \<or> (a \<in> {ActionPageEdit, ActionPageArchive, ActionPageEmbedTable, ActionFileUpload}
        \<and> has_grant gs [''edit''])"
  by (auto simp: evaluate_authorization_def Let_def)

lemma evaluate_denial_iff:
  "ad_denial (evaluate_authorization r gs a) = ''permission_denied'' \<longleftrightarrow>
     \<not> ad_allowed (evaluate_authorization r gs a)"
  by (simp add: evaluate_authorization_def Let_def)

text \<open>Roles are preordered by what they permit.\<close>

fun role_rank :: "role \<Rightarrow> nat" where
  "role_rank (RoleOther _) = 0"
| "role_rank RoleViewer = 1"
| "role_rank RoleCommenter = 1"
| "role_rank RoleEditor = 2"
| "role_rank RoleAdmin = 3"
| "role_rank RoleOwner = 3"

instantiation role :: preorder
begin

definition less_eq_role :: "role \<Rightarrow> role \<Rightarrow> bool" where
  "less_eq_role r r' \<longleftrightarrow> role_rank r \<le> role_rank r'"

definition less_role :: "role \<Rightarrow> role \<Rightarrow> bool" where
  "less_role r r' \<longleftrightarrow> role_rank r < role_rank r'"

instance
  by standard (auto simp: less_eq_role_def less_role_def)

end

lemma permits_mono: "r \<le> r' \<Longrightarrow> permits r a \<Longrightarrow> permits r' a"
  by (cases r; cases r') (auto simp: less_eq_role_def)

lemma has_grant_mono: "set gs \<subseteq> set gs' \<Longrightarrow> has_grant gs ps \<Longrightarrow> has_grant gs' ps"
  by (auto simp: has_grant_def)

section \<open>Readers\<close>

text \<open>A user who is a viewer or a commenter wherever he is a member, and may edit no page by a grant.\<close>

definition only_reads ::
  "(string \<Rightarrow> string + membership list) \<Rightarrow> (string \<Rightarrow> string \<Rightarrow> string \<Rightarrow> string + page_grant list) \<Rightarrow>
   string \<Rightarrow> bool" where
  "only_reads list_memberships list_page_grants user \<longleftrightarrow>
     (\<forall>ms. list_memberships user = Inr ms \<longrightarrow> (\<forall>m \<in> set ms. mb_role m = RoleViewer \<or> mb_role m = RoleCommenter))
   \<and> (\<forall>workspace page grants. list_page_grants user workspace page = Inr grants \<longrightarrow> \<not> has_grant grants [''edit''])"

lemma reader_decision:
  assumes "only_reads mems grants (ci_actor ci)" and "auth_server mems grants ci = Inr d" and "dn_allowed d"
  shows "ci_action ci \<in> set reader_actions"
proof -
  obtain ms where ms: "mems (ci_actor ci) = Inr ms"
    using assms(2) by (auto simp: auth_server_def authorizer_execute_def split: sum.splits)
  define role where "role = (case find (\<lambda>m. mb_workspace m = ci_workspace ci) ms of
      None \<Rightarrow> RoleOther '''' | Some m \<Rightarrow> mb_role m)"
  have role: "permits role a \<Longrightarrow> a \<in> set reader_actions" for a
  proof (cases "find (\<lambda>m. mb_workspace m = ci_workspace ci) ms")
    case None
    then show "permits role a \<Longrightarrow> a \<in> set reader_actions" by (simp add: role_def)
  next
    case (Some m)
    then have "mb_role m = RoleViewer \<or> mb_role m = RoleCommenter"
      using assms(1) ms find_SomeD [OF Some] by (auto simp: only_reads_def)
    then show "permits role a \<Longrightarrow> a \<in> set reader_actions"
      using Some permits_reader_iff by (auto simp: role_def simp del: permits.simps)
  qed
  obtain gs where gs: "\<not> has_grant gs [''edit'']"
    and allowed: "ad_allowed (evaluate_authorization role gs (ci_action ci))"
  proof (cases "ci_page ci = ''''")
    case True
    then show ?thesis using that [of "[]"] assms(2,3) ms
      by (auto simp: auth_server_def authorizer_execute_def role_def [symmetric] has_grant_def split: sum.splits)
  next
    case False
    then obtain gs where "grants (ci_actor ci) (ci_workspace ci) (ci_page ci) = Inr gs"
      using assms(2) ms by (auto simp: auth_server_def authorizer_execute_def Let_def split: sum.splits)
    then show ?thesis using that [of gs] assms False ms
      by (auto simp: auth_server_def authorizer_execute_def role_def [symmetric] only_reads_def split: sum.splits)
  qed
  show ?thesis using allowed gs role by (auto simp: evaluate_allowed_iff reader_actions_def)
qed

lemma reader_denied:
  assumes "only_reads mems grants (as_actor subject)" and "as_authenticated subject" and "a \<notin> set reader_actions"
  shows "authorize (Some (auth_server mems grants)) a subject = AuthzForbidden
    \<or> (\<exists>err. authorize (Some (auth_server mems grants)) a subject = AuthzError err)"
  using assms reader_decision [of mems grants "\<lparr>ci_actor = as_actor subject, ci_workspace = as_workspace subject,
      ci_page = as_page subject, ci_action = a\<rparr>"]
  by (auto simp: authorize_def authorizer_allowed_def client_authorize_def split: sum.splits)

text \<open>The repository of the auth service lists what it knows of the user.\<close>

definition auth_lists ::
  "(string \<Rightarrow> string + membership list) \<Rightarrow> (string \<Rightarrow> string \<Rightarrow> string \<Rightarrow> string + page_grant list) \<Rightarrow>
   string \<Rightarrow> bool" where
  "auth_lists list_memberships list_page_grants user \<longleftrightarrow>
     (\<exists>ms. list_memberships user = Inr ms) \<and> (\<forall>workspace page. \<exists>gs. list_page_grants user workspace page = Inr gs)"

lemma auth_lists_answers:
  assumes "auth_lists mems grants (as_actor subject)"
  shows "authorize (Some (auth_server mems grants)) a subject \<noteq> AuthzError err"
proof -
  obtain ms where "mems (as_actor subject) = Inr ms" using assms by (auto simp: auth_lists_def)
  moreover obtain gs where "grants (as_actor subject) (as_workspace subject) (as_page subject) = Inr gs"
    using assms unfolding auth_lists_def by blast
  ultimately show ?thesis
    by (simp add: authorize_def authorizer_allowed_def client_authorize_def auth_server_def authorizer_execute_def Let_def)
qed

section \<open>Properties\<close>

text \<open>
  C24: the two copies of the role policy agree: on any list of raw roles the static check of
  \<^verbatim>\<open>pkg/authz\<close> allows an action exactly when the auth service, asked with one of these
  roles and no page grant, allows it.
\<close>

theorem static_policy_matches_auth_service:
  "allowed roles a \<longleftrightarrow>
     (\<exists>r \<in> set roles. ad_allowed (evaluate_authorization (role_of_string r) [] a))"
  by (simp add: allowed_iff_permits evaluate_allowed_iff has_grant_def)

text \<open>
  the decision of the auth service is monotone: a role of at least the same rank and
  a superset of the page grants never lose a permission.
\<close>

theorem authorization_monotone:
  assumes "r \<le> r'" and "set gs \<subseteq> set gs'"
    and "ad_allowed (evaluate_authorization r gs a)"
  shows "ad_allowed (evaluate_authorization r' gs' a)"
  using assms by (auto simp: evaluate_allowed_iff intro: permits_mono has_grant_mono)

theorem authorization_monotone_witness:
  "ad_allowed (evaluate_authorization RoleEditor
     [\<lparr>gr_page = ''p'', gr_workspace = ''w'', gr_subject = ''u'', gr_permission = ''edit''\<rparr>]
     ActionPageEdit)"
proof -
  let ?g = "\<lparr>gr_page = ''p'', gr_workspace = ''w'', gr_subject = ''u'', gr_permission = ''edit''\<rparr>"
  have "ad_allowed (evaluate_authorization RoleViewer [?g] ActionPageEdit)"
    by (simp add: evaluate_allowed_iff has_grant_def)
  then show ?thesis
    by (intro authorization_monotone [of RoleViewer RoleEditor "[?g]" "[?g]"])
       (simp_all add: less_eq_role_def)
qed

text \<open>
  what a page grant can add to a member without a role: viewing, with either grant,
  and with an edit grant editing, archiving, embedding tables and uploading, but never
  publishing, restoring, reading files or searching; a refusal always carries its reason.
\<close>

theorem page_grant_reach:
  "ad_allowed (evaluate_authorization (RoleOther s) gs a) =
     ((a = ActionPageView \<and> has_grant gs [''view'', ''edit''])
      \<or> (a \<in> {ActionPageEdit, ActionPageArchive, ActionPageEmbedTable, ActionFileUpload}
         \<and> has_grant gs [''edit'']))
   \<and> ad_denial (evaluate_authorization (RoleOther s) gs a) =
     (if ad_allowed (evaluate_authorization (RoleOther s) gs a) then '''' else ''permission_denied'')"
  by (auto simp: evaluate_authorization_def Let_def)

end
