(* ===== verification/Document.thy ===== *)
theory Document
  imports Prelude "HOL-Library.Multiset"
begin

text \<open>
  The page document of \<^verbatim>\<open>services/page-service/internal/domain/document.go\<close>: blocks with
  an optional table embed, page link and attachment; its canonical snapshot, the references
  extracted from it, and the hydration of its embeds.
\<close>

section \<open>Data\<close>

definition block_type_paragraph :: string where "block_type_paragraph = ''paragraph''"
definition block_type_heading :: string where "block_type_heading = ''heading''"
definition block_type_checklist :: string where "block_type_checklist = ''checklist''"
definition block_type_quote :: string where "block_type_quote = ''quote''"
definition block_type_code :: string where "block_type_code = ''code''"
definition block_type_table_embed :: string where "block_type_table_embed = ''table_embed''"
definition block_type_page_link :: string where "block_type_page_link = ''page_link''"
definition block_type_image :: string where "block_type_image = ''image''"
definition block_type_file :: string where "block_type_file = ''file''"

record table_embed_descriptor =
  te_table :: string
  te_title :: string
  te_display :: gmap
  te_preview :: string
  te_schema :: gmap
  te_rows :: "gmap list"

record page_link_reference =
  pl_page :: string
  pl_title :: string
  pl_kind :: string

record attachment_reference =
  at_file :: string
  at_block :: string
  at_filename :: string

record document_block =
  bk_id :: string
  bk_type :: string
  bk_text :: string
  bk_attrs :: gmap
  bk_embed :: "table_embed_descriptor option"
  bk_link :: "page_link_reference option"
  bk_attachment :: "attachment_reference option"

record document =
  dc_blocks :: "document_block list"
  dc_metadata :: gmap

record embedded_table_reference =
  er_id :: string
  er_revision :: string
  er_page :: string
  er_block :: string
  er_table :: string
  er_display :: gmap
  er_created :: gotime

record attachment_reference_record =
  ar_id :: string
  ar_revision :: string
  ar_page :: string
  ar_block :: string
  ar_file :: string
  ar_created :: gotime

record page_link_record =
  lr_id :: string
  lr_revision :: string
  lr_source :: string
  lr_target :: string
  lr_block :: string
  lr_kind :: string
  lr_created :: gotime

record document_references =
  rf_tables :: "embedded_table_reference list"
  rf_attachments :: "attachment_reference_record list"
  rf_links :: "page_link_record list"

section \<open>Operations\<close>

definition canonical_block :: "document_block \<Rightarrow> document_block" where
  "canonical_block block =
     (case bk_embed block of
        None \<Rightarrow> block
      | Some e \<Rightarrow> block\<lparr>bk_embed := Some
          \<lparr>te_table = te_table e, te_title = te_title e, te_display = clone_map (te_display e),
           te_preview = '''', te_schema = None, te_rows = []\<rparr>\<rparr>)"

definition canonical_snapshot :: "document \<Rightarrow> document" where
  "canonical_snapshot d =
     \<lparr>dc_blocks = map canonical_block (dc_blocks d), dc_metadata = clone_map (dc_metadata d)\<rparr>"

definition block_tables :: "document_block \<Rightarrow> table_embed_descriptor list" where
  "block_tables b = (case bk_embed b of
     None \<Rightarrow> [] | Some e \<Rightarrow> if te_table e \<noteq> '''' then [e] else [])"

definition block_attachments :: "document_block \<Rightarrow> attachment_reference list" where
  "block_attachments b = (case bk_attachment b of
     None \<Rightarrow> [] | Some a \<Rightarrow> if at_file a \<noteq> '''' then [a] else [])"

definition block_links :: "document_block \<Rightarrow> page_link_reference list" where
  "block_links b = (case bk_link b of
     None \<Rightarrow> [] | Some l \<Rightarrow> if pl_page l \<noteq> '''' then [l] else [])"

text \<open>One turn of the loop of \<open>ExtractReferences\<close>: the embed, the attachment, the link.\<close>

definition extract_embed ::
  "id_gen \<Rightarrow> string \<Rightarrow> string \<Rightarrow> gotime \<Rightarrow> document_block \<Rightarrow>
   document_references \<times> nat \<Rightarrow> document_references \<times> nat" where
  "extract_embed gen pageID revisionID now block = (\<lambda>(refs, n).
     case block_tables block of
       [] \<Rightarrow> (refs, n)
     | e # _ \<Rightarrow>
         (refs\<lparr>rf_tables := rf_tables refs @
            [\<lparr>er_id = gen n, er_revision = revisionID, er_page = pageID, er_block = bk_id block,
              er_table = te_table e, er_display = clone_map (te_display e),
              er_created = now\<rparr>]\<rparr>, n + 1))"

definition extract_attachment ::
  "id_gen \<Rightarrow> string \<Rightarrow> string \<Rightarrow> gotime \<Rightarrow> document_block \<Rightarrow>
   document_references \<times> nat \<Rightarrow> document_references \<times> nat" where
  "extract_attachment gen pageID revisionID now block = (\<lambda>(refs, n).
     case block_attachments block of
       [] \<Rightarrow> (refs, n)
     | a # _ \<Rightarrow>
         (refs\<lparr>rf_attachments := rf_attachments refs @
            [\<lparr>ar_id = gen n, ar_revision = revisionID, ar_page = pageID, ar_block = bk_id block,
              ar_file = at_file a, ar_created = now\<rparr>]\<rparr>, n + 1))"

definition extract_link ::
  "id_gen \<Rightarrow> string \<Rightarrow> string \<Rightarrow> gotime \<Rightarrow> document_block \<Rightarrow>
   document_references \<times> nat \<Rightarrow> document_references \<times> nat" where
  "extract_link gen pageID revisionID now block = (\<lambda>(refs, n).
     case block_links block of
       [] \<Rightarrow> (refs, n)
     | l # _ \<Rightarrow>
         (refs\<lparr>rf_links := rf_links refs @
            [\<lparr>lr_id = gen n, lr_revision = revisionID, lr_source = pageID, lr_target = pl_page l,
              lr_block = bk_id block, lr_kind = first_non_empty [pl_kind l, ''page_ref''],
              lr_created = now\<rparr>]\<rparr>, n + 1))"

fun extract_blocks ::
  "id_gen \<Rightarrow> string \<Rightarrow> string \<Rightarrow> gotime \<Rightarrow> document_block list \<Rightarrow>
   document_references \<times> nat \<Rightarrow> document_references \<times> nat" where
  "extract_blocks gen pageID revisionID now [] acc = acc"
| "extract_blocks gen pageID revisionID now (b # bs) acc =
     extract_blocks gen pageID revisionID now bs
       (extract_link gen pageID revisionID now b
         (extract_attachment gen pageID revisionID now b
           (extract_embed gen pageID revisionID now b acc)))"

definition no_references :: document_references where
  "no_references = \<lparr>rf_tables = [], rf_attachments = [], rf_links = []\<rparr>"

definition extract_references ::
  "id_gen \<Rightarrow> nat \<Rightarrow> document \<Rightarrow> string \<Rightarrow> string \<Rightarrow> gotime \<Rightarrow> document_references \<times> nat" where
  "extract_references gen n d pageID revisionID now =
     extract_blocks gen pageID revisionID now (dc_blocks d) (no_references, n)"

text \<open>A \<open>map[string]TableEmbedDescriptor\<close>, keyed by block identifier.\<close>

type_synonym descriptors = "string \<rightharpoonup> table_embed_descriptor"

definition hydrate_block :: "descriptors \<Rightarrow> document_block \<Rightarrow> document_block" where
  "hydrate_block ds block =
     (case ds (bk_id block) of None \<Rightarrow> block | Some e \<Rightarrow> block\<lparr>bk_embed := Some e\<rparr>)"

definition hydrate_embeds :: "descriptors \<Rightarrow> document \<Rightarrow> document" where
  "hydrate_embeds ds d =
     \<lparr>dc_blocks = map (hydrate_block ds) (dc_blocks d), dc_metadata = clone_map (dc_metadata d)\<rparr>"

definition embed_title_by_block_id :: "document \<Rightarrow> string \<Rightarrow> string" where
  "embed_title_by_block_id d blockID =
     (case find (\<lambda>b. bk_id b = blockID \<and> bk_embed b \<noteq> None) (dc_blocks d) of
        None \<Rightarrow> ''''
      | Some b \<Rightarrow> (case bk_embed b of None \<Rightarrow> '''' | Some e \<Rightarrow> te_title e))"

section \<open>Texts\<close>

text \<open>
  What every client sees of a document, whatever becomes of its embeds, links and attachments:
  the identifiers, types and texts of its blocks.
\<close>

definition texts_of :: "document_block list \<Rightarrow> (string \<times> string \<times> string) list" where
  "texts_of blocks = map (\<lambda>b. (bk_id b, bk_type b, bk_text b)) blocks"

definition block_texts :: "document \<Rightarrow> (string \<times> string \<times> string) list" where
  "block_texts d = texts_of (dc_blocks d)"

section \<open>The canonical snapshot\<close>

lemma canonical_block_idem [simp, clone_simps]: "canonical_block (canonical_block b) = canonical_block b"
  by (simp add: canonical_block_def split: option.splits)

lemma canonical_block_fields [simp, clone_simps]:
  "bk_id (canonical_block b) = bk_id b"
  "bk_type (canonical_block b) = bk_type b"
  "bk_text (canonical_block b) = bk_text b"
  "bk_attrs (canonical_block b) = bk_attrs b"
  "bk_link (canonical_block b) = bk_link b"
  "bk_attachment (canonical_block b) = bk_attachment b"
  "bk_embed (canonical_block b) = None \<longleftrightarrow> bk_embed b = None"
  by (simp_all add: canonical_block_def split: option.splits)

lemma canonical_texts [simp, clone_simps]: "block_texts (canonical_snapshot d) = block_texts d"
  by (simp add: block_texts_def texts_of_def canonical_snapshot_def)

lemma canonical_snapshot_idem [simp, clone_simps]:
  "canonical_snapshot (canonical_snapshot d) = canonical_snapshot d"
  by (simp add: canonical_snapshot_def)

lemma canonical_embed_title [simp, clone_simps]:
  "embed_title_by_block_id (canonical_snapshot d) blockID = embed_title_by_block_id d blockID"
proof -
  have "find (\<lambda>b. bk_id b = blockID \<and> bk_embed b \<noteq> None) (map canonical_block bs) =
        map_option canonical_block (find (\<lambda>b. bk_id b = blockID \<and> bk_embed b \<noteq> None) bs)" for bs
    by (induction bs) (auto simp del: not_None_eq)
  then show ?thesis
    by (auto simp: embed_title_by_block_id_def canonical_snapshot_def canonical_block_def
          split: option.splits)
qed

lemma extract_canonical_block [clone_simps]:
  "extract_embed gen p r now (canonical_block b) = extract_embed gen p r now b"
  "extract_attachment gen p r now (canonical_block b) = extract_attachment gen p r now b"
  "extract_link gen p r now (canonical_block b) = extract_link gen p r now b"
  by (auto simp: extract_embed_def extract_attachment_def extract_link_def block_tables_def
        block_attachments_def block_links_def canonical_block_def split: option.splits)

lemma extract_canonical_blocks [clone_simps]:
  "extract_blocks gen p r now (map canonical_block bs) acc = extract_blocks gen p r now bs acc"
  by (induction bs arbitrary: acc) (simp_all add: extract_canonical_block)

section \<open>The extracted references\<close>

text \<open>What the loop collects, in the order of the blocks.\<close>

definition table_pairs :: "document_block list \<Rightarrow> (string \<times> string) list" where
  "table_pairs bs = concat (map (\<lambda>b. map (\<lambda>e. (bk_id b, te_table e)) (block_tables b)) bs)"

definition attachment_pairs :: "document_block list \<Rightarrow> (string \<times> string) list" where
  "attachment_pairs bs = concat (map (\<lambda>b. map (\<lambda>a. (bk_id b, at_file a)) (block_attachments b)) bs)"

definition link_pairs :: "document_block list \<Rightarrow> (string \<times> string) list" where
  "link_pairs bs = concat (map (\<lambda>b. map (\<lambda>l. (bk_id b, pl_page l)) (block_links b)) bs)"

definition all_ref_ids :: "document_references \<Rightarrow> string list" where
  "all_ref_ids refs = map er_id (rf_tables refs) @ map ar_id (rf_attachments refs)
     @ map lr_id (rf_links refs)"

lemma block_pieces_cases:
  "block_tables b = [] \<or> (\<exists>e. block_tables b = [e])"
  "block_attachments b = [] \<or> (\<exists>a. block_attachments b = [a])"
  "block_links b = [] \<or> (\<exists>l. block_links b = [l])"
  by (auto simp: block_tables_def block_attachments_def block_links_def split: option.splits)

lemma extract_embed_eq:
  "extract_embed gen p r now b (refs, n) =
     (refs\<lparr>rf_tables := rf_tables refs @ map (\<lambda>e.
        \<lparr>er_id = gen n, er_revision = r, er_page = p, er_block = bk_id b, er_table = te_table e,
         er_display = clone_map (te_display e), er_created = now\<rparr>) (block_tables b)\<rparr>,
      n + length (block_tables b))"
  using block_pieces_cases(1) [of b] by (auto simp: extract_embed_def)

lemma extract_attachment_eq:
  "extract_attachment gen p r now b (refs, n) =
     (refs\<lparr>rf_attachments := rf_attachments refs @ map (\<lambda>a.
        \<lparr>ar_id = gen n, ar_revision = r, ar_page = p, ar_block = bk_id b, ar_file = at_file a,
         ar_created = now\<rparr>) (block_attachments b)\<rparr>,
      n + length (block_attachments b))"
  using block_pieces_cases(2) [of b] by (auto simp: extract_attachment_def)

lemma extract_link_eq:
  "extract_link gen p r now b (refs, n) =
     (refs\<lparr>rf_links := rf_links refs @ map (\<lambda>l.
        \<lparr>lr_id = gen n, lr_revision = r, lr_source = p, lr_target = pl_page l, lr_block = bk_id b,
         lr_kind = first_non_empty [pl_kind l, ''page_ref''], lr_created = now\<rparr>) (block_links b)\<rparr>,
      n + length (block_links b))"
  using block_pieces_cases(3) [of b] by (auto simp: extract_link_def)

lemmas extract_step_eqs = extract_embed_eq extract_attachment_eq extract_link_eq

lemma extract_blocks_content:
  "map (\<lambda>t. (er_block t, er_table t)) (rf_tables (fst (extract_blocks gen p r now bs (refs, n)))) =
     map (\<lambda>t. (er_block t, er_table t)) (rf_tables refs) @ table_pairs bs"
  "map (\<lambda>t. (ar_block t, ar_file t)) (rf_attachments (fst (extract_blocks gen p r now bs (refs, n)))) =
     map (\<lambda>t. (ar_block t, ar_file t)) (rf_attachments refs) @ attachment_pairs bs"
  "map (\<lambda>t. (lr_block t, lr_target t)) (rf_links (fst (extract_blocks gen p r now bs (refs, n)))) =
     map (\<lambda>t. (lr_block t, lr_target t)) (rf_links refs) @ link_pairs bs"
  by (induction bs arbitrary: refs n)
     (simp_all add: extract_step_eqs table_pairs_def attachment_pairs_def link_pairs_def comp_def)

text \<open>
  The identifiers handed out are consecutive ones of the supply, each used once:
  \<open>drawn gen (refs, n) (refs', n')\<close> says that \<open>refs'\<close> has, beyond the identifiers of
  \<open>refs\<close>, exactly those numbered from \<open>n\<close> to \<open>n'\<close>.
\<close>

definition drawn ::
  "id_gen \<Rightarrow> document_references \<times> nat \<Rightarrow> document_references \<times> nat \<Rightarrow> bool" where
  "drawn gen a a' \<longleftrightarrow> snd a \<le> snd a' \<and>
     mset (all_ref_ids (fst a')) = mset (all_ref_ids (fst a)) + mset (map gen [snd a..<snd a'])"

lemma drawn_refl: "drawn gen a a"
  by (simp add: drawn_def)

lemma drawn_trans:
  assumes "drawn gen a b" and "drawn gen b c"
  shows "drawn gen a c"
proof -
  from assms have "[snd a..<snd c] = [snd a..<snd b] @ [snd b..<snd c]"
    unfolding drawn_def by (metis le_Suc_ex upt_add_eq_append)
  with assms show ?thesis by (simp add: drawn_def)
qed

lemma drawn_step:
  "drawn gen (refs, n) (extract_embed gen p r now b (refs, n))"
  "drawn gen (refs, n) (extract_attachment gen p r now b (refs, n))"
  "drawn gen (refs, n) (extract_link gen p r now b (refs, n))"
  using block_pieces_cases [of b] by (auto simp: extract_step_eqs drawn_def all_ref_ids_def)

lemma drawn_blocks: "drawn gen acc (extract_blocks gen p r now bs acc)"
proof (induction bs arbitrary: acc)
  case Nil
  show ?case by (simp add: drawn_refl)
next
  case (Cons b bs)
  have "drawn gen acc (extract_link gen p r now b (extract_attachment gen p r now b
          (extract_embed gen p r now b acc)))"
    by (cases acc, cases "extract_embed gen p r now b acc",
        cases "extract_attachment gen p r now b (extract_embed gen p r now b acc)")
       (metis drawn_step drawn_trans)
  then have "drawn gen acc (extract_blocks gen p r now bs (extract_link gen p r now b
      (extract_attachment gen p r now b (extract_embed gen p r now b acc))))"
    by (rule drawn_trans) (rule Cons.IH)
  then show ?case by simp
qed

lemma extract_references_next: "n \<le> snd (extract_references gen n d p r now)"
  using drawn_blocks by (auto simp: extract_references_def drawn_def)

section \<open>Properties\<close>

text \<open>
  the references of a document are complete and in document order: one table
  reference per block with a table embed, one attachment reference per block with a file,
  one link per block with a target page, each naming its block.
\<close>

theorem extracted_references_complete:
  "map (\<lambda>t. (er_block t, er_table t)) (rf_tables (fst (extract_references gen n d p r now)))
     = table_pairs (dc_blocks d)
   \<and> map (\<lambda>t. (ar_block t, ar_file t)) (rf_attachments (fst (extract_references gen n d p r now)))
     = attachment_pairs (dc_blocks d)
   \<and> map (\<lambda>t. (lr_block t, lr_target t)) (rf_links (fst (extract_references gen n d p r now)))
     = link_pairs (dc_blocks d)"
  by (simp add: extract_references_def extract_blocks_content no_references_def)

text \<open>
  when the identifier supply never repeats, the references of one extraction have
  pairwise different identifiers, all drawn from the supply at or after its current
  position.
\<close>

theorem extracted_ids_fresh:
  assumes "inj gen"
  shows "distinct (all_ref_ids (fst (extract_references gen n d p r now)))
   \<and> set (all_ref_ids (fst (extract_references gen n d p r now)))
     = gen ` {n..<snd (extract_references gen n d p r now)}"
proof -
  let ?x = "extract_references gen n d p r now"
  have eq: "mset (all_ref_ids (fst ?x)) = mset (map gen [n..<snd ?x])"
    using drawn_blocks [of gen "(no_references, n)" p r now "dc_blocks d"]
    unfolding extract_references_def drawn_def by (simp add: no_references_def all_ref_ids_def)
  have "distinct (map gen [n..<snd ?x])"
    using inj_on_subset [OF assms subset_UNIV] by (simp add: distinct_map)
  then have "distinct (all_ref_ids (fst ?x))"
    using mset_eq_imp_distinct_iff [OF eq] by simp
  moreover have "set (all_ref_ids (fst ?x)) = set (map gen [n..<snd ?x])"
    using eq by (rule mset_eq_setD)
  ultimately show ?thesis by simp
qed

text \<open>A supply that never repeats: a run of one letter.\<close>

definition letter_gen :: id_gen where
  "letter_gen n = replicate n CHR ''i''"

lemma inj_letter_gen: "inj letter_gen"
  by (rule injI) (metis letter_gen_def length_replicate)

definition sample_block :: document_block where
  "sample_block =
     \<lparr>bk_id = ''b1'', bk_type = ''table_embed'', bk_text = ''hello'', bk_attrs = None,
      bk_embed = Some \<lparr>te_table = ''t1'', te_title = ''T'', te_display = None, te_preview = ''ready'',
                       te_schema = None, te_rows = []\<rparr>,
      bk_link = Some \<lparr>pl_page = ''p2'', pl_title = ''Two'', pl_kind = ''''\<rparr>,
      bk_attachment = None\<rparr>"

definition sample_document :: document where
  "sample_document = \<lparr>dc_blocks = [sample_block], dc_metadata = None\<rparr>"

theorem extracted_ids_fresh_witness:
  "distinct (all_ref_ids (fst (extract_references letter_gen 3 sample_document ''p'' ''r'' 0)))"
  using extracted_ids_fresh [OF inj_letter_gen, of 3 sample_document "''p''" "''r''" 0] by simp

text \<open>
  the canonical snapshot of a document, the form that is stored, drops only what an
  embed's preview adds: it is a fixed point of the snapshot, has the same blocks in the
  same order, the same embed titles and exactly the same references.
\<close>

theorem canonical_snapshot_keeps_content:
  "canonical_snapshot (canonical_snapshot d) = canonical_snapshot d
   \<and> map bk_id (dc_blocks (canonical_snapshot d)) = map bk_id (dc_blocks d)
   \<and> embed_title_by_block_id (canonical_snapshot d) b = embed_title_by_block_id d b
   \<and> extract_references gen n (canonical_snapshot d) p r now = extract_references gen n d p r now"
  by (simp add: extract_references_def)
     (simp add: canonical_snapshot_def extract_canonical_blocks comp_def)

end
