(* ===== verification/PageModel.thy ===== *)
theory PageModel
  imports Document
begin

text \<open>
  Pages and revisions of \<^verbatim>\<open>services/page-service/internal/domain/page.go\<close>, the payloads
  built from them, and the outbox events of \<^verbatim>\<open>usecase/events.go\<close>,
  \<^verbatim>\<open>usecase/extract_links.go\<close> and \<^verbatim>\<open>usecase/create_page.go\<close>. An event's payload is the
  JSON value that is marshalled into it.
\<close>

section \<open>Data\<close>

datatype page_status = StatusDraft | StatusPublished | StatusArchived

fun page_status_string :: "page_status \<Rightarrow> string" where
  "page_status_string StatusDraft = ''draft''"
| "page_status_string StatusPublished = ''published''"
| "page_status_string StatusArchived = ''archived''"

datatype revision_view = ViewDraft | ViewPublished

datatype revision_source = SourceAutosave | SourcePublish | SourceRestore | SourceCollabPatch

text \<open>\<open>RevisionSourceCreate\<close> and \<open>RevisionSourceAutosave\<close> are the same string.\<close>

abbreviation source_create :: revision_source where
  "source_create \<equiv> SourceAutosave"

fun revision_source_string :: "revision_source \<Rightarrow> string" where
  "revision_source_string SourceAutosave = ''rest_autosave''"
| "revision_source_string SourcePublish = ''publish''"
| "revision_source_string SourceRestore = ''restore''"
| "revision_source_string SourceCollabPatch = ''collab_patch''"

datatype outbox_status = OutboxPending | OutboxPublished | OutboxFailed

record page =
  pg_id :: string
  pg_workspace :: string
  pg_slug :: string
  pg_title :: string
  pg_status :: page_status
  pg_created_by :: string
  pg_updated_by :: string
  pg_draft_id :: string
  pg_draft_no :: int
  pg_published_id :: string
  pg_published_no :: int
  pg_created_at :: gotime
  pg_updated_at :: gotime

record page_revision =
  rv_id :: string
  rv_page :: string
  rv_no :: int
  rv_kind :: revision_view
  rv_base :: string
  rv_restored_from :: string
  rv_document :: document
  rv_title :: string
  rv_created_by :: string
  rv_created_via :: revision_source
  rv_created_at :: gotime

record outbox_record =
  ob_id :: string
  ob_aggregate_type :: string
  ob_aggregate_id :: string
  ob_event :: string
  ob_payload :: json
  ob_status :: outbox_status
  ob_created_at :: gotime
  ob_available_at :: gotime

record draft_idempotency =
  id_page :: string
  id_key :: string
  id_revision :: string
  id_revision_no :: int
  id_created_at :: gotime

record conflict_payload =
  cf_reason :: string
  cf_latest_no :: int
  cf_latest_id :: string
  cf_document :: document
  cf_patch :: string

record page_view_payload =
  pv_page :: string
  pv_workspace :: string
  pv_title :: string
  pv_slug :: string
  pv_status :: page_status
  pv_draft_no :: int
  pv_draft_id :: string
  pv_published_no :: "int option"
  pv_published_id :: string
  pv_document :: document
  pv_tables :: "table_embed_descriptor list"

record draft_save_payload =
  ds_page :: string
  ds_no :: int
  ds_id :: string
  ds_status :: string
  ds_document :: document
  ds_tables :: "table_embed_descriptor list"

record draft_recovery_payload =
  dr_page :: string
  dr_no :: int
  dr_id :: string
  dr_document :: document

record page_publish_payload =
  pp_page :: string
  pp_no :: int
  pp_id :: string
  pp_at :: gotime

record page_archive_payload =
  pa_page :: string
  pa_status :: "page_status option"
  pa_no :: int
  pa_id :: string
  pa_at :: gotime

record revision_summary =
  rs_id :: string
  rs_no :: int
  rs_kind :: revision_view
  rs_created_by :: string
  rs_created_via :: revision_source
  rs_created_at :: gotime

section \<open>Building payloads\<close>

fun collect_tables :: "descriptors \<Rightarrow> document_block list \<Rightarrow> table_embed_descriptor list" where
  "collect_tables ds [] = []"
| "collect_tables ds (b # bs) =
     (case ds (bk_id b) of None \<Rightarrow> collect_tables ds bs | Some e \<Rightarrow> e # collect_tables ds bs)"

definition build_page_view :: "page \<Rightarrow> page_revision \<Rightarrow> descriptors \<Rightarrow> page_view_payload" where
  "build_page_view page revision ds =
     \<lparr>pv_page = pg_id page, pv_workspace = pg_workspace page, pv_title = pg_title page,
      pv_slug = pg_slug page, pv_status = pg_status page,
      pv_draft_no = pg_draft_no page, pv_draft_id = pg_draft_id page,
      pv_published_no = (if pg_published_id page \<noteq> '''' then Some (pg_published_no page) else None),
      pv_published_id = pg_published_id page,
      pv_document = hydrate_embeds ds (rv_document revision),
      pv_tables = collect_tables ds (dc_blocks (rv_document revision))\<rparr>"

definition build_draft_save_payload ::
  "string \<Rightarrow> page_revision \<Rightarrow> descriptors \<Rightarrow> draft_save_payload" where
  "build_draft_save_payload pageID revision ds =
     \<lparr>ds_page = pageID, ds_no = rv_no revision, ds_id = rv_id revision, ds_status = ''draft_saved'',
      ds_document = hydrate_embeds ds (rv_document revision),
      ds_tables = collect_tables ds (dc_blocks (rv_document revision))\<rparr>"

definition build_draft_recovery_payload ::
  "string \<Rightarrow> page_revision \<Rightarrow> descriptors \<Rightarrow> draft_recovery_payload" where
  "build_draft_recovery_payload pageID revision ds =
     \<lparr>dr_page = pageID, dr_no = rv_no revision, dr_id = rv_id revision,
      dr_document = hydrate_embeds ds (rv_document revision)\<rparr>"

definition build_version_list_payload :: "page_revision list \<Rightarrow> revision_summary list" where
  "build_version_list_payload revisions =
     map (\<lambda>r. \<lparr>rs_id = rv_id r, rs_no = rv_no r, rs_kind = rv_kind r, rs_created_by = rv_created_by r,
               rs_created_via = rv_created_via r, rs_created_at = rv_created_at r\<rparr>) revisions"

text \<open>\<open>NextRevisionNo\<close>, with the wrap-around of an \<open>int64\<close> addition.\<close>

definition next_revision_no :: "page \<Rightarrow> int" where
  "next_revision_no page =
     (if pg_published_no page \<le> pg_draft_no page then wrap64 (pg_draft_no page + 1)
      else wrap64 (pg_published_no page + 1))"

lemma next_revision_no_above:
  assumes "0 \<le> pg_draft_no p" and "0 \<le> pg_published_no p"
    and "pg_draft_no p < max_int64" and "pg_published_no p < max_int64"
  shows "next_revision_no p = max (pg_draft_no p) (pg_published_no p) + 1"
proof -
  have "fits64 (pg_draft_no p + 1)" and "fits64 (pg_published_no p + 1)"
    using assms by (auto simp: fits64_def)
  then show ?thesis by (auto simp: next_revision_no_def)
qed

section \<open>Event payloads\<close>

definition flatten_block :: "document_block \<Rightarrow> string list" where
  "flatten_block b =
     (if bk_text b \<noteq> '''' then [bk_text b] else [])
     @ (case bk_link b of None \<Rightarrow> [] | Some l \<Rightarrow> if pl_title l \<noteq> '''' then [pl_title l] else [])
     @ (case bk_attachment b of None \<Rightarrow> []
          | Some a \<Rightarrow> if at_filename a \<noteq> '''' then [at_filename a] else [])
     @ (case bk_embed b of None \<Rightarrow> [] | Some e \<Rightarrow> if te_title e \<noteq> '''' then [te_title e] else [])"

definition flatten_searchable_text :: "document \<Rightarrow> string" where
  "flatten_searchable_text d = join '' '' (concat (map flatten_block (dc_blocks d)))"

definition embedded_tables_json :: "document \<Rightarrow> document_references \<Rightarrow> json" where
  "embedded_tables_json d refs = JArr (map (\<lambda>r. JObj
     [(''mws_table_id'', JStr (er_table r)), (''block_id'', JStr (er_block r)),
      (''title'', JStr (embed_title_by_block_id d (er_block r)))]) (rf_tables refs))"

definition attachment_ids_json :: "document_references \<Rightarrow> json" where
  "attachment_ids_json refs = JArr (map (\<lambda>r. JStr (ar_file r)) (rf_attachments refs))"

definition link_title_by_block_id :: "document \<Rightarrow> string \<Rightarrow> string" where
  "link_title_by_block_id d blockID =
     (case find (\<lambda>b. bk_id b = blockID \<and> bk_link b \<noteq> None) (dc_blocks d) of
        None \<Rightarrow> ''''
      | Some b \<Rightarrow> (case bk_link b of None \<Rightarrow> '''' | Some l \<Rightarrow> pl_title l))"

definition canonical_links_json :: "document \<Rightarrow> document_references \<Rightarrow> json" where
  "canonical_links_json d refs = JArr (map (\<lambda>r. JObj
     [(''target_page_id'', JStr (lr_target r)), (''block_id'', JStr (lr_block r)),
      (''target_title'', JStr (link_title_by_block_id d (lr_block r)))]) (rf_links refs))"

definition embedded_titles_json :: "document \<Rightarrow> document_references \<Rightarrow> json" where
  "embedded_titles_json d refs = JArr (map JStr
     (filter (\<lambda>t. t \<noteq> '''') (map (\<lambda>r. embed_title_by_block_id d (er_block r)) (rf_tables refs))))"

definition draft_saved_payload :: "page \<Rightarrow> page_revision \<Rightarrow> document_references \<Rightarrow> json" where
  "draft_saved_payload page revision refs = JObj
     [(''page_id'', JStr (pg_id page)),
      (''workspace_id'', JStr (pg_workspace page)),
      (''revision_no'', JInt (rv_no revision)),
      (''revision_id'', JStr (rv_id revision)),
      (''title'', JStr (rv_title revision)),
      (''saved_via'', JStr (revision_source_string (rv_created_via revision))),
      (''canonical_links'', canonical_links_json (rv_document revision) refs),
      (''embedded_tables'', embedded_tables_json (rv_document revision) refs),
      (''embedded_titles'', embedded_titles_json (rv_document revision) refs),
      (''attachment_ids'', attachment_ids_json refs),
      (''searchable_text'', JStr (flatten_searchable_text (rv_document revision))),
      (''updated_at'', JStr (rfc3339_nano (rv_created_at revision)))]"

definition pending_event ::
  "string \<Rightarrow> page \<Rightarrow> string \<Rightarrow> json \<Rightarrow> gotime \<Rightarrow> outbox_record" where
  "pending_event eventID page event payload occurredAt =
     \<lparr>ob_id = eventID, ob_aggregate_type = ''page'', ob_aggregate_id = pg_id page, ob_event = event,
      ob_payload = payload, ob_status = OutboxPending, ob_created_at = occurredAt,
      ob_available_at = occurredAt\<rparr>"

section \<open>Event builders\<close>

definition build_draft_saved_event ::
  "id_gen \<Rightarrow> nat \<Rightarrow> page \<Rightarrow> page_revision \<Rightarrow> document_references \<Rightarrow> gotime \<Rightarrow> outbox_record \<times> nat" where
  "build_draft_saved_event gen n page revision refs occurredAt =
     (pending_event (gen n) page ''page.draft.saved'' (draft_saved_payload page revision refs) occurredAt,
      n + 1)"

definition build_create_events ::
  "id_gen \<Rightarrow> nat \<Rightarrow> page \<Rightarrow> page_revision \<Rightarrow> document_references \<Rightarrow> gotime \<Rightarrow> outbox_record list \<times> nat" where
  "build_create_events gen n page revision refs occurredAt =
     ([pending_event (gen n) page ''page.created''
         (JObj [(''page_id'', JStr (pg_id page)),
                (''workspace_id'', JStr (pg_workspace page)),
                (''title'', JStr (pg_title page)),
                (''revision_no'', JInt (rv_no revision)),
                (''revision_id'', JStr (rv_id revision)),
                (''status'', JStr (page_status_string (pg_status page)))]) occurredAt,
       pending_event (gen (n + 1)) page ''page.draft.saved''
         (draft_saved_payload page revision refs) occurredAt],
      n + 2)"

text \<open>\<open>buildPublishedEvent\<close> extracts the references again, using up identifiers.\<close>

definition build_published_event ::
  "id_gen \<Rightarrow> nat \<Rightarrow> page \<Rightarrow> page_revision \<Rightarrow> gotime \<Rightarrow> outbox_record \<times> nat" where
  "build_published_event gen n page revision occurredAt =
     (let (refs, n1) = extract_references gen n (rv_document revision) (pg_id page) (rv_id revision) occurredAt
      in (pending_event (gen n1) page ''page.published''
            (JObj [(''page_id'', JStr (pg_id page)),
                   (''workspace_id'', JStr (pg_workspace page)),
                   (''published_revision_no'', JInt (rv_no revision)),
                   (''published_revision_id'', JStr (rv_id revision)),
                   (''title'', JStr (rv_title revision)),
                   (''canonical_links'', canonical_links_json (rv_document revision) refs),
                   (''embedded_tables'', embedded_tables_json (rv_document revision) refs),
                   (''embedded_titles'', embedded_titles_json (rv_document revision) refs),
                   (''attachment_ids'', attachment_ids_json refs),
                   (''searchable_text'', JStr (flatten_searchable_text (rv_document revision))),
                   (''updated_at'', JStr (rfc3339_nano (rv_created_at revision)))]) occurredAt,
          n1 + 1))"

definition build_archived_event :: "id_gen \<Rightarrow> nat \<Rightarrow> page \<Rightarrow> gotime \<Rightarrow> outbox_record \<times> nat" where
  "build_archived_event gen n page occurredAt =
     (pending_event (gen n) page ''page.archived''
        (JObj [(''page_id'', JStr (pg_id page)),
               (''workspace_id'', JStr (pg_workspace page)),
               (''status'', JStr (page_status_string (pg_status page))),
               (''current_revision_no'', JInt (pg_draft_no page)),
               (''current_revision_id'', JStr (pg_draft_id page)),
               (''updated_at'', JStr (rfc3339_nano (pg_updated_at page)))]) occurredAt,
      n + 1)"

definition build_reference_events ::
  "id_gen \<Rightarrow> nat \<Rightarrow> page \<Rightarrow> page_revision \<Rightarrow> document_references \<Rightarrow> gotime \<Rightarrow> outbox_record list \<times> nat" where
  "build_reference_events gen n page revision refs occurredAt =
     ([pending_event (gen n) page ''page.links.extracted''
         (JObj [(''page_id'', JStr (pg_id page)),
                (''workspace_id'', JStr (pg_workspace page)),
                (''revision_id'', JStr (rv_id revision)),
                (''links'', JArr (map (\<lambda>l. JObj
                    [(''target_page_id'', JStr (lr_target l)), (''block_id'', JStr (lr_block l)),
                     (''link_kind'', JStr (lr_kind l))]) (rf_links refs)))]) occurredAt,
       pending_event (gen (n + 1)) page ''page.attachments.changed''
         (JObj [(''page_id'', JStr (pg_id page)),
                (''workspace_id'', JStr (pg_workspace page)),
                (''revision_id'', JStr (rv_id revision)),
                (''attachment_ids'', attachment_ids_json refs)]) occurredAt],
      n + 2)"

lemma pending_event_fields [simp]:
  "ob_id (pending_event i p ev pl t) = i"
  "ob_event (pending_event i p ev pl t) = ev"
  "ob_aggregate_id (pending_event i p ev pl t) = pg_id p"
  "ob_status (pending_event i p ev pl t) = OutboxPending"
  "ob_payload (pending_event i p ev pl t) = pl"
  by (simp_all add: pending_event_def)

section \<open>Hydrated views\<close>

lemma collect_tables_empty: "collect_tables Map.empty bs = []"
  by (induction bs) auto

lemma hydrate_block_id [simp]: "bk_id (hydrate_block ds b) = bk_id b"
  by (simp add: hydrate_block_def split: option.splits)

lemma collect_tables_eq:
  "collect_tables ds bs = List.map_filter (\<lambda>b. ds (bk_id b)) bs"
  by (induction bs) (auto split: option.splits)

end
