(* ===== verification/PageStore.thy ===== *)
theory PageStore
  imports PageModel
begin

text \<open>
  The page store: the interface of \<^verbatim>\<open>services/page-service/internal/ports/repository.go\<close>
  as a record of operations with a locale of the laws its clients rely on, and the
  in-memory implementation of \<^verbatim>\<open>internal/adapters/memory/store.go\<close>.

  The function that a use case hands to \<open>Store.Execute\<close> is always a straight sequence of
  writer calls, left at the first error. It is modelled by the list of its calls.
\<close>

section \<open>The interface\<close>

datatype store_error = ErrNotFound | ErrStaleRevision | ErrStore string

datatype store_write =
    CreatePage page page_revision
  | SaveDraftRevision int page page_revision "draft_idempotency option"
  | SavePublishedRevision int page page_revision
  | ArchivePage int page
  | ReplaceEmbeddedTableRefs string "embedded_table_reference list"
  | ReplaceAttachmentRefs string "attachment_reference_record list"
  | ReplacePageLinks string "page_link_record list"
  | OutboxAdd "outbox_record list"

text \<open>
  \<open>so_share\<close> is what becomes of the store when a caller writes to the blocks of a
  revision it was given: in Go the returned struct shares its slice of blocks with
  whatever the store kept.
\<close>

record 's store_ops =
  so_get_page :: "'s \<Rightarrow> string \<Rightarrow> store_error + page"
  so_get_revision :: "'s \<Rightarrow> string \<Rightarrow> revision_view \<Rightarrow> store_error + page_revision"
  so_get_revision_by_id :: "'s \<Rightarrow> string \<Rightarrow> string \<Rightarrow> store_error + page_revision"
  so_list_revisions :: "'s \<Rightarrow> string \<Rightarrow> store_error + page_revision list"
  so_list_embedded :: "'s \<Rightarrow> string \<Rightarrow> store_error + embedded_table_reference list"
  so_get_idempotency :: "'s \<Rightarrow> string \<Rightarrow> string \<Rightarrow> store_error + draft_idempotency option"
  so_execute :: "store_write list \<Rightarrow> 's \<Rightarrow> store_error option \<times> 's"
  so_share :: "string \<Rightarrow> string \<Rightarrow> document_block list \<Rightarrow> 's \<Rightarrow> 's"

text \<open>The transactions of the use cases.\<close>

definition projection_writes ::
  "string \<Rightarrow> document_references \<Rightarrow> outbox_record list \<Rightarrow> store_write list" where
  "projection_writes revisionID refs events =
     [ReplaceEmbeddedTableRefs revisionID (rf_tables refs),
      ReplaceAttachmentRefs revisionID (rf_attachments refs),
      ReplacePageLinks revisionID (rf_links refs),
      OutboxAdd events]"

definition draft_tx ::
  "int \<Rightarrow> page \<Rightarrow> page_revision \<Rightarrow> draft_idempotency option \<Rightarrow> document_references \<Rightarrow>
   outbox_record list \<Rightarrow> store_write list" where
  "draft_tx base page revision idempotency refs events =
     SaveDraftRevision base page revision idempotency
     # projection_writes (rv_id revision) refs events"

definition publish_tx ::
  "int \<Rightarrow> page \<Rightarrow> page_revision \<Rightarrow> document_references \<Rightarrow> outbox_record list \<Rightarrow> store_write list" where
  "publish_tx base page revision refs events =
     SavePublishedRevision base page revision # projection_writes (rv_id revision) refs events"

definition create_tx ::
  "page \<Rightarrow> page_revision \<Rightarrow> document_references \<Rightarrow> outbox_record list \<Rightarrow> store_write list" where
  "create_tx page revision refs events =
     CreatePage page revision # projection_writes (rv_id revision) refs events"

definition archive_tx :: "int \<Rightarrow> page \<Rightarrow> outbox_record list \<Rightarrow> store_write list" where
  "archive_tx base page events = [ArchivePage base page, OutboxAdd events]"

section \<open>The in-memory store\<close>

record mem_store =
  ms_pages :: "string \<rightharpoonup> page"
  ms_revisions :: "string \<Rightarrow> page_revision list"
  ms_embedded :: "string \<Rightarrow> embedded_table_reference list"
  ms_attachments :: "string \<Rightarrow> attachment_reference_record list"
  ms_links :: "string \<Rightarrow> page_link_record list"
  ms_idempotencies :: "string \<rightharpoonup> draft_idempotency"
  ms_outbox :: "outbox_record list"

definition new_mem_store :: mem_store where
  "new_mem_store = \<lparr>ms_pages = Map.empty, ms_revisions = (\<lambda>_. []), ms_embedded = (\<lambda>_. []),
     ms_attachments = (\<lambda>_. []), ms_links = (\<lambda>_. []), ms_idempotencies = Map.empty, ms_outbox = []\<rparr>"

definition idempotency_map_key :: "string \<Rightarrow> string \<Rightarrow> string" where
  "idempotency_map_key pageID key = pageID @ ''::'' @ key"

definition mem_get_page :: "mem_store \<Rightarrow> string \<Rightarrow> store_error + page" where
  "mem_get_page s pageID =
     (case ms_pages s pageID of None \<Rightarrow> Inl ErrNotFound | Some page \<Rightarrow> Inr page)"

definition mem_get_revision_by_id ::
  "mem_store \<Rightarrow> string \<Rightarrow> string \<Rightarrow> store_error + page_revision" where
  "mem_get_revision_by_id s pageID revisionID =
     (case find (\<lambda>r. rv_id r = revisionID) (ms_revisions s pageID) of
        None \<Rightarrow> Inl ErrNotFound
      | Some r \<Rightarrow> Inr r)"

definition mem_get_revision ::
  "mem_store \<Rightarrow> string \<Rightarrow> revision_view \<Rightarrow> store_error + page_revision" where
  "mem_get_revision s pageID view =
     (if ms_revisions s pageID = [] then Inl ErrNotFound
      else case ms_pages s pageID of
        None \<Rightarrow> Inl ErrNotFound
      | Some page \<Rightarrow>
          let targetID = (if view = ViewPublished \<and> pg_published_id page \<noteq> ''''
                          then pg_published_id page else pg_draft_id page)
          in case find (\<lambda>r. rv_id r = targetID) (ms_revisions s pageID) of
               None \<Rightarrow> Inl ErrNotFound
             | Some r \<Rightarrow> Inr r)"

text \<open>
  \<open>sort.Slice\<close> leaves the order of equal keys open; \<open>sort_key\<close> keeps theirs. Revision
  numbers of one page never collide in the states the invariant describes.
\<close>

definition mem_list_revisions :: "mem_store \<Rightarrow> string \<Rightarrow> store_error + page_revision list" where
  "mem_list_revisions s pageID = Inr (sort_key (\<lambda>r. - rv_no r) (ms_revisions s pageID))"

definition mem_list_embedded ::
  "mem_store \<Rightarrow> string \<Rightarrow> store_error + embedded_table_reference list" where
  "mem_list_embedded s revisionID = Inr (ms_embedded s revisionID)"

definition mem_list_attachments ::
  "mem_store \<Rightarrow> string \<Rightarrow> store_error + attachment_reference_record list" where
  "mem_list_attachments s revisionID = Inr (ms_attachments s revisionID)"

definition mem_list_links :: "mem_store \<Rightarrow> string \<Rightarrow> store_error + page_link_record list" where
  "mem_list_links s revisionID = Inr (ms_links s revisionID)"

definition mem_get_idempotency ::
  "mem_store \<Rightarrow> string \<Rightarrow> string \<Rightarrow> store_error + draft_idempotency option" where
  "mem_get_idempotency s pageID key = Inr (ms_idempotencies s (idempotency_map_key pageID key))"

text \<open>\<open>s.pages[page.ID] = page\<close>, and the revision appended and the slice sorted.\<close>

definition put_revision :: "page \<Rightarrow> page_revision \<Rightarrow> mem_store \<Rightarrow> mem_store" where
  "put_revision page revision s =
     s\<lparr>ms_pages := (ms_pages s)(pg_id page \<mapsto> page),
       ms_revisions := (ms_revisions s)
         (pg_id page := sort_key rv_no (ms_revisions s (pg_id page) @ [revision]))\<rparr>"

definition mem_create_page :: "page \<Rightarrow> page_revision \<Rightarrow> mem_store \<Rightarrow> store_error option \<times> mem_store" where
  "mem_create_page page revision s = (None, put_revision page revision s)"

definition mem_save_draft_revision ::
  "int \<Rightarrow> page \<Rightarrow> page_revision \<Rightarrow> draft_idempotency option \<Rightarrow> mem_store \<Rightarrow> store_error option \<times> mem_store" where
  "mem_save_draft_revision expected page revision idempotency s =
     (case ms_pages s (pg_id page) of
        None \<Rightarrow> (Some ErrNotFound, s)
      | Some current \<Rightarrow>
          if pg_draft_no current \<noteq> expected then (Some ErrStaleRevision, s)
          else let s1 = put_revision page revision s
               in case idempotency of
                    None \<Rightarrow> (None, s1)
                  | Some i \<Rightarrow>
                      if id_key i \<noteq> '''' then
                        (None, s1\<lparr>ms_idempotencies := (ms_idempotencies s1)
                           (idempotency_map_key (pg_id page) (id_key i) \<mapsto> i)\<rparr>)
                      else (None, s1))"

definition mem_save_published_revision ::
  "int \<Rightarrow> page \<Rightarrow> page_revision \<Rightarrow> mem_store \<Rightarrow> store_error option \<times> mem_store" where
  "mem_save_published_revision expected page revision s =
     (case ms_pages s (pg_id page) of
        None \<Rightarrow> (Some ErrNotFound, s)
      | Some current \<Rightarrow>
          if pg_draft_no current \<noteq> expected then (Some ErrStaleRevision, s)
          else (None, put_revision page revision s))"

definition mem_archive_page :: "int \<Rightarrow> page \<Rightarrow> mem_store \<Rightarrow> store_error option \<times> mem_store" where
  "mem_archive_page expected page s =
     (case ms_pages s (pg_id page) of
        None \<Rightarrow> (Some ErrNotFound, s)
      | Some current \<Rightarrow>
          if pg_draft_no current \<noteq> expected then (Some ErrStaleRevision, s)
          else (None, s\<lparr>ms_pages := (ms_pages s)(pg_id page \<mapsto> page)\<rparr>))"

definition mem_replace_embedded ::
  "string \<Rightarrow> embedded_table_reference list \<Rightarrow> mem_store \<Rightarrow> store_error option \<times> mem_store" where
  "mem_replace_embedded revisionID refs s =
     (None, s\<lparr>ms_embedded := (ms_embedded s)(revisionID := refs)\<rparr>)"

definition mem_replace_attachments ::
  "string \<Rightarrow> attachment_reference_record list \<Rightarrow> mem_store \<Rightarrow> store_error option \<times> mem_store" where
  "mem_replace_attachments revisionID refs s =
     (None, s\<lparr>ms_attachments := (ms_attachments s)(revisionID := refs)\<rparr>)"

definition mem_replace_links ::
  "string \<Rightarrow> page_link_record list \<Rightarrow> mem_store \<Rightarrow> store_error option \<times> mem_store" where
  "mem_replace_links revisionID refs s =
     (None, s\<lparr>ms_links := (ms_links s)(revisionID := refs)\<rparr>)"

definition mem_outbox_add :: "outbox_record list \<Rightarrow> mem_store \<Rightarrow> store_error option \<times> mem_store" where
  "mem_outbox_add records s = (None, s\<lparr>ms_outbox := ms_outbox s @ records\<rparr>)"

fun mem_write :: "store_write \<Rightarrow> mem_store \<Rightarrow> store_error option \<times> mem_store" where
  "mem_write (CreatePage page revision) s = mem_create_page page revision s"
| "mem_write (SaveDraftRevision e page revision i) s = mem_save_draft_revision e page revision i s"
| "mem_write (SavePublishedRevision e page revision) s = mem_save_published_revision e page revision s"
| "mem_write (ArchivePage e page) s = mem_archive_page e page s"
| "mem_write (ReplaceEmbeddedTableRefs r refs) s = mem_replace_embedded r refs s"
| "mem_write (ReplaceAttachmentRefs r refs) s = mem_replace_attachments r refs s"
| "mem_write (ReplacePageLinks r refs) s = mem_replace_links r refs s"
| "mem_write (OutboxAdd records) s = mem_outbox_add records s"

text \<open>
  \<open>Store.Execute\<close> holds the lock for the whole function and undoes nothing when the
  function fails.
\<close>

fun mem_execute :: "store_write list \<Rightarrow> mem_store \<Rightarrow> store_error option \<times> mem_store" where
  "mem_execute [] s = (None, s)"
| "mem_execute (w # ws) s =
     (case mem_write w s of
        (Some err, s') \<Rightarrow> (Some err, s')
      | (None, s') \<Rightarrow> mem_execute ws s')"

text \<open>The first revision with the identifier is the one the store handed out.\<close>

fun set_blocks :: "string \<Rightarrow> document_block list \<Rightarrow> page_revision list \<Rightarrow> page_revision list" where
  "set_blocks revisionID blocks [] = []"
| "set_blocks revisionID blocks (r # rs) =
     (if rv_id r = revisionID
      then r\<lparr>rv_document := (rv_document r)\<lparr>dc_blocks := blocks\<rparr>\<rparr> # rs
      else r # set_blocks revisionID blocks rs)"

definition mem_share :: "string \<Rightarrow> string \<Rightarrow> document_block list \<Rightarrow> mem_store \<Rightarrow> mem_store" where
  "mem_share pageID revisionID blocks s =
     s\<lparr>ms_revisions := (ms_revisions s)
         (pageID := set_blocks revisionID blocks (ms_revisions s pageID))\<rparr>"

definition memory_ops :: "mem_store store_ops" where
  "memory_ops =
     \<lparr>so_get_page = mem_get_page, so_get_revision = mem_get_revision,
      so_get_revision_by_id = mem_get_revision_by_id, so_list_revisions = mem_list_revisions,
      so_list_embedded = mem_list_embedded, so_get_idempotency = mem_get_idempotency,
      so_execute = mem_execute, so_share = mem_share\<rparr>"

lemma memory_ops_simps [simp, store_simps]:
  "so_get_page memory_ops = mem_get_page"
  "so_get_revision memory_ops = mem_get_revision"
  "so_get_revision_by_id memory_ops = mem_get_revision_by_id"
  "so_list_revisions memory_ops = mem_list_revisions"
  "so_list_embedded memory_ops = mem_list_embedded"
  "so_get_idempotency memory_ops = mem_get_idempotency"
  "so_execute memory_ops = mem_execute"
  "so_share memory_ops = mem_share"
  by (simp_all add: memory_ops_def)

section \<open>Transactions on the in-memory store\<close>

definition put_projections ::
  "string \<Rightarrow> document_references \<Rightarrow> outbox_record list \<Rightarrow> mem_store \<Rightarrow> mem_store" where
  "put_projections revisionID refs events s =
     s\<lparr>ms_embedded := (ms_embedded s)(revisionID := rf_tables refs),
       ms_attachments := (ms_attachments s)(revisionID := rf_attachments refs),
       ms_links := (ms_links s)(revisionID := rf_links refs),
       ms_outbox := ms_outbox s @ events\<rparr>"

definition put_idempotency :: "string \<Rightarrow> draft_idempotency option \<Rightarrow> mem_store \<Rightarrow> mem_store" where
  "put_idempotency pageID idempotency s =
     (case idempotency of
        None \<Rightarrow> s
      | Some i \<Rightarrow> if id_key i \<noteq> '''' then s\<lparr>ms_idempotencies := (ms_idempotencies s)
                     (idempotency_map_key pageID (id_key i) \<mapsto> i)\<rparr> else s)"

lemma mem_execute_projections [tx_simps]:
  "mem_execute (projection_writes r refs events) s = (None, put_projections r refs events s)"
  by (simp add: projection_writes_def put_projections_def mem_replace_embedded_def
        mem_replace_attachments_def mem_replace_links_def mem_outbox_add_def)

lemma mem_draft_tx [tx_simps]:
  "mem_execute (draft_tx base page revision idem refs events) s =
     (case ms_pages s (pg_id page) of
        None \<Rightarrow> (Some ErrNotFound, s)
      | Some current \<Rightarrow>
          if pg_draft_no current \<noteq> base then (Some ErrStaleRevision, s)
          else (None, put_projections (rv_id revision) refs events
                  (put_idempotency (pg_id page) idem (put_revision page revision s))))"
  by (simp add: draft_tx_def mem_save_draft_revision_def put_idempotency_def mem_execute_projections
        Let_def split: option.splits)

lemma mem_publish_tx [tx_simps]:
  "mem_execute (publish_tx base page revision refs events) s =
     (case ms_pages s (pg_id page) of
        None \<Rightarrow> (Some ErrNotFound, s)
      | Some current \<Rightarrow>
          if pg_draft_no current \<noteq> base then (Some ErrStaleRevision, s)
          else (None, put_projections (rv_id revision) refs events (put_revision page revision s)))"
  by (simp add: publish_tx_def mem_save_published_revision_def mem_execute_projections
        split: option.splits)

lemma mem_create_tx [tx_simps]:
  "mem_execute (create_tx page revision refs events) s =
     (None, put_projections (rv_id revision) refs events (put_revision page revision s))"
  by (simp add: create_tx_def mem_create_page_def mem_execute_projections)

lemma mem_archive_tx [tx_simps]:
  "mem_execute (archive_tx base page events) s =
     (case ms_pages s (pg_id page) of
        None \<Rightarrow> (Some ErrNotFound, s)
      | Some current \<Rightarrow>
          if pg_draft_no current \<noteq> base then (Some ErrStaleRevision, s)
          else (None, s\<lparr>ms_pages := (ms_pages s)(pg_id page \<mapsto> page), ms_outbox := ms_outbox s @ events\<rparr>))"
  by (simp add: archive_tx_def mem_archive_page_def mem_outbox_add_def split: option.splits)

lemma put_fields [simp, store_simps]:
  "ms_pages (put_projections r refs events s) = ms_pages s"
  "ms_revisions (put_projections r refs events s) = ms_revisions s"
  "ms_idempotencies (put_projections r refs events s) = ms_idempotencies s"
  "ms_outbox (put_projections r refs events s) = ms_outbox s @ events"
  "ms_embedded (put_projections r refs events s) = (ms_embedded s)(r := rf_tables refs)"
  "ms_pages (put_idempotency p i s) = ms_pages s"
  "ms_revisions (put_idempotency p i s) = ms_revisions s"
  "ms_outbox (put_idempotency p i s) = ms_outbox s"
  "ms_embedded (put_idempotency p i s) = ms_embedded s"
  "ms_pages (put_revision page rn s) = (ms_pages s)(pg_id page \<mapsto> page)"
  "ms_revisions (put_revision page rn s) = (ms_revisions s)
     (pg_id page := sort_key rv_no (ms_revisions s (pg_id page) @ [rn]))"
  "ms_idempotencies (put_revision page rn s) = ms_idempotencies s"
  "ms_outbox (put_revision page rn s) = ms_outbox s"
  "ms_embedded (put_revision page rn s) = ms_embedded s"
  by (auto simp: put_projections_def put_idempotency_def put_revision_def split: option.splits)

end
