(* ===== verification/StoreContract.thy ===== *)
theory StoreContract
  imports PageStore
begin

text \<open>
  The contract between the use cases and a page store: what a new draft, a publication, a
  new page and an archived page must look like to be stored, and what the store promises
  in return. The locale \<open>page_store\<close> states it.
\<close>

section \<open>What the writers are given\<close>

text \<open>A page record changes only where the use cases change it.\<close>

definition same_identity :: "page \<Rightarrow> page \<Rightarrow> bool" where
  "same_identity p q \<longleftrightarrow> pg_id q = pg_id p \<and> pg_workspace q = pg_workspace p
     \<and> pg_slug q = pg_slug p \<and> pg_created_by q = pg_created_by p \<and> pg_created_at q = pg_created_at p"

definition idempotency_for :: "page_revision \<Rightarrow> draft_idempotency option \<Rightarrow> bool" where
  "idempotency_for r idem = (case idem of None \<Rightarrow> True
     | Some i \<Rightarrow> id_page i = rv_page r \<and> id_revision i = rv_id r \<and> id_revision_no i = rv_no r)"

definition draft_step :: "page \<Rightarrow> page \<Rightarrow> page_revision \<Rightarrow> draft_idempotency option \<Rightarrow> bool" where
  "draft_step cur p r idem \<longleftrightarrow> same_identity cur p
     \<and> pg_status p = pg_status cur
     \<and> pg_published_id p = pg_published_id cur \<and> pg_published_no p = pg_published_no cur
     \<and> pg_draft_id p = rv_id r \<and> pg_draft_no p = rv_no r
     \<and> rv_page r = pg_id cur \<and> rv_kind r = ViewDraft
     \<and> max (pg_draft_no cur) (pg_published_no cur) < rv_no r
     \<and> idempotency_for r idem"

definition publish_step :: "page \<Rightarrow> page \<Rightarrow> page_revision \<Rightarrow> bool" where
  "publish_step cur p r \<longleftrightarrow> same_identity cur p
     \<and> pg_status p = StatusPublished
     \<and> pg_draft_id p = pg_draft_id cur \<and> pg_draft_no p = pg_draft_no cur
     \<and> pg_published_id p = rv_id r \<and> pg_published_no p = rv_no r \<and> rv_id r \<noteq> ''''
     \<and> rv_page r = pg_id cur \<and> rv_kind r = ViewPublished
     \<and> max (pg_draft_no cur) (pg_published_no cur) < rv_no r"

definition create_step :: "page \<Rightarrow> page_revision \<Rightarrow> bool" where
  "create_step p r \<longleftrightarrow> pg_status p = StatusDraft
     \<and> pg_draft_id p = rv_id r \<and> pg_draft_no p = rv_no r \<and> rv_no r = 1
     \<and> pg_published_id p = '''' \<and> pg_published_no p = 0
     \<and> rv_page r = pg_id p \<and> rv_kind r = ViewDraft \<and> rv_base r = '''' \<and> rv_restored_from r = ''''"

definition archive_step :: "page \<Rightarrow> page \<Rightarrow> bool" where
  "archive_step cur p \<longleftrightarrow> same_identity cur p \<and> pg_status p = StatusArchived
     \<and> pg_title p = pg_title cur
     \<and> pg_draft_id p = pg_draft_id cur \<and> pg_draft_no p = pg_draft_no cur
     \<and> pg_published_id p = pg_published_id cur \<and> pg_published_no p = pg_published_no cur"

text \<open>The references that a transaction replaces are those of the revision it stores.\<close>

definition refer_to :: "string \<Rightarrow> document_references \<Rightarrow> bool" where
  "refer_to rid refs \<longleftrightarrow> list_all (\<lambda>r. er_revision r = rid) (rf_tables refs)
     \<and> list_all (\<lambda>r. ar_revision r = rid) (rf_attachments refs) \<and> list_all (\<lambda>r. lr_revision r = rid) (rf_links refs)"

section \<open>What the store promises\<close>

text \<open>
  \<open>unused s i\<close> says that \<open>i\<close> has not been used as an identifier in \<open>s\<close>.
\<close>

definition keeps_revisions :: "'s store_ops \<Rightarrow> 's \<Rightarrow> 's \<Rightarrow> bool" where
  "keeps_revisions ops s s' \<longleftrightarrow>
     (\<forall>pid rid r. so_get_revision_by_id ops s pid rid = Inr r \<longrightarrow>
        so_get_revision_by_id ops s' pid rid = Inr r)"

text \<open>
  The weaker form that writing through a shared slice leaves: documents may change, but not
  the texts of their blocks.
\<close>

definition keeps_history :: "'s store_ops \<Rightarrow> 's \<Rightarrow> 's \<Rightarrow> bool" where
  "keeps_history ops s s' \<longleftrightarrow>
     (\<forall>pid rid r. so_get_revision_by_id ops s pid rid = Inr r \<longrightarrow>
        (\<exists>d. so_get_revision_by_id ops s' pid rid = Inr (r\<lparr>rv_document := d\<rparr>)
           \<and> block_texts d = block_texts (rv_document r)))"

lemma keeps_history_revisions: "keeps_revisions ops s s' \<Longrightarrow> keeps_history ops s s'"
  unfolding keeps_revisions_def keeps_history_def
proof (intro allI impI)
  fix pid rid r
  assume "\<forall>pid rid r. so_get_revision_by_id ops s pid rid = Inr r \<longrightarrow>
      so_get_revision_by_id ops s' pid rid = Inr r" and "so_get_revision_by_id ops s pid rid = Inr r"
  then show "\<exists>d. so_get_revision_by_id ops s' pid rid = Inr (r\<lparr>rv_document := d\<rparr>)
      \<and> block_texts d = block_texts (rv_document r)"
    by (intro exI [of _ "rv_document r"]) simp
qed

lemma keeps_history_refl: "keeps_history ops s s"
  by (rule keeps_history_revisions) (simp add: keeps_revisions_def)

lemma keeps_history_trans: "keeps_history ops s t \<Longrightarrow> keeps_history ops t u \<Longrightarrow> keeps_history ops s u"
  unfolding keeps_history_def by fastforce

definition other_pages_same :: "'s store_ops \<Rightarrow> string \<Rightarrow> 's \<Rightarrow> 's \<Rightarrow> bool" where
  "other_pages_same ops pid s s' \<longleftrightarrow>
     (\<forall>q. q \<noteq> pid \<longrightarrow> so_get_page ops s' q = so_get_page ops s q)"

definition keeps_unused :: "('s \<Rightarrow> string \<Rightarrow> bool) \<Rightarrow> string set \<Rightarrow> 's \<Rightarrow> 's \<Rightarrow> bool" where
  "keeps_unused unused new s s' \<longleftrightarrow> (\<forall>i. unused s i \<longrightarrow> i \<notin> new \<longrightarrow> unused s' i)"

text \<open>The transactions that the use cases run.\<close>

definition is_transaction :: "store_write list \<Rightarrow> bool" where
  "is_transaction ws \<longleftrightarrow>
     (\<exists>base p r idem refs ev. ws = draft_tx base p r idem refs ev)
   \<or> (\<exists>base p r refs ev. ws = publish_tx base p r refs ev)
   \<or> (\<exists>p r refs ev. ws = create_tx p r refs ev)
   \<or> (\<exists>base p ev. ws = archive_tx base p ev)"

lemma is_transaction_txs [simp]:
  "is_transaction (draft_tx base p r idem refs ev)"
  "is_transaction (publish_tx base p r refs ev)"
  "is_transaction (create_tx p r refs ev)"
  "is_transaction (archive_tx base p ev)"
  unfolding is_transaction_def by blast+

text \<open>
  The contract comes in three layers. Every store undoes a transaction that fails; a page store
  keeps what a transaction stores; a versioned store refuses a transaction that was made for another version of
  its page.
\<close>

locale atomic_store =
  fixes ops :: "'s store_ops" and inv :: "'s \<Rightarrow> bool"
  assumes rollback: "inv s \<Longrightarrow> is_transaction ws \<Longrightarrow> so_execute ops ws s = (Some err, s') \<Longrightarrow> s' = s"
begin

lemma tx_failed_same:
  assumes "inv s" and "is_transaction ws" and "fst (so_execute ops ws s) \<noteq> None"
  shows "snd (so_execute ops ws s) = s"
  using rollback [OF assms(1,2)] assms(3) by (cases "so_execute ops ws s") auto

end

text \<open>
  A store need not give back exactly what it was given: \<open>kept\<close> is what it keeps of a page (it may round the
  times), \<open>kept_revision\<close> what it keeps of a revision.
\<close>

locale page_store = atomic_store ops inv
  for ops :: "'s store_ops" and inv :: "'s \<Rightarrow> bool" +
  fixes unused :: "'s \<Rightarrow> string \<Rightarrow> bool"
    and kept :: "page \<Rightarrow> page" and kept_revision :: "page_revision \<Rightarrow> page_revision"
  assumes kept_fields: "kept p = p\<lparr>pg_created_at := pg_created_at (kept p), pg_updated_at := pg_updated_at (kept p)\<rparr>"
    and kept_created: "inv s \<Longrightarrow> so_get_page ops s pid = Inr cur \<Longrightarrow> pg_created_at p = pg_created_at cur \<Longrightarrow>
          pg_created_at (kept p) = pg_created_at p"
    and kept_revision_fields: "rv_id (kept_revision r) = rv_id r \<and> rv_no (kept_revision r) = rv_no r
          \<and> rv_kind (kept_revision r) = rv_kind r \<and> rv_page (kept_revision r) = rv_page r
          \<and> block_texts (rv_document (kept_revision r)) = block_texts (rv_document r)"
    and page_key: "inv s \<Longrightarrow> so_get_page ops s pid = Inr p \<Longrightarrow> pg_id p = pid"
    and page_numbers: "inv s \<Longrightarrow> so_get_page ops s pid = Inr p \<Longrightarrow>
          0 < pg_draft_no p \<and> 0 \<le> pg_published_no p"
    and draft_head: "inv s \<Longrightarrow> so_get_page ops s pid = Inr p \<Longrightarrow>
          \<exists>r. so_get_revision ops s pid ViewDraft = Inr r
            \<and> so_get_revision_by_id ops s pid (pg_draft_id p) = Inr r
            \<and> rv_id r = pg_draft_id p \<and> rv_no r = pg_draft_no p \<and> rv_kind r = ViewDraft"
    and published_head: "inv s \<Longrightarrow> so_get_page ops s pid = Inr p \<Longrightarrow> pg_published_id p \<noteq> '''' \<Longrightarrow>
          \<exists>r. so_get_revision ops s pid ViewPublished = Inr r
            \<and> rv_id r = pg_published_id p \<and> rv_no r = pg_published_no p \<and> rv_kind r = ViewPublished"
    and idempotency_live: "inv s \<Longrightarrow> so_get_idempotency ops s pid key = Inr (Some i) \<Longrightarrow>
          \<exists>r. so_get_revision_by_id ops s (id_page i) (id_revision i) = Inr r
            \<and> rv_no r = id_revision_no i"
    and share_inv: "inv s \<Longrightarrow> inv (so_share ops pid rid blocks s)"
    and share_pages: "so_get_page ops (so_share ops pid rid blocks s) q = so_get_page ops s q"
    and share_unused: "unused (so_share ops pid rid blocks s) k = unused s k"
    and share_history: "(\<And>r. so_get_revision_by_id ops s pid rid = Inr r \<Longrightarrow>
            texts_of blocks = block_texts (rv_document r)) \<Longrightarrow>
          keeps_history ops s (so_share ops pid rid blocks s)"
    and revision_by_id: "inv s \<Longrightarrow> so_get_page ops s pid = Inr p \<Longrightarrow> so_get_revision ops s pid view = Inr r \<Longrightarrow>
          so_get_revision_by_id ops s pid (rv_id r) = Inr r"
    and unused_page: "unused s k \<Longrightarrow> so_get_page ops s k \<noteq> Inr p"
    and draft_done: "inv s \<Longrightarrow> so_get_page ops s (pg_id cur) = Inr cur \<Longrightarrow> unused s (rv_id r) \<Longrightarrow>
          draft_step cur p r idem \<Longrightarrow> refer_to (rv_id r) refs \<Longrightarrow>
          so_execute ops (draft_tx base p r idem refs ev) s = (None, s') \<Longrightarrow>
          inv s' \<and> so_get_page ops s' (pg_id cur) = Inr (kept p)
            \<and> so_get_revision ops s' (pg_id cur) ViewDraft = Inr (kept_revision r)
            \<and> so_get_revision_by_id ops s' (pg_id cur) (rv_id r) = Inr (kept_revision r)
            \<and> keeps_revisions ops s s' \<and> other_pages_same ops (pg_id cur) s s'
            \<and> keeps_unused unused {rv_id r} s s'"
    and publish_done: "inv s \<Longrightarrow> so_get_page ops s (pg_id cur) = Inr cur \<Longrightarrow> unused s (rv_id r) \<Longrightarrow>
          publish_step cur p r \<Longrightarrow> refer_to (rv_id r) refs \<Longrightarrow>
          so_execute ops (publish_tx base p r refs ev) s = (None, s') \<Longrightarrow>
          inv s' \<and> so_get_page ops s' (pg_id cur) = Inr (kept p)
            \<and> so_get_revision ops s' (pg_id cur) ViewPublished = Inr (kept_revision r)
            \<and> so_get_revision ops s' (pg_id cur) ViewDraft = so_get_revision ops s (pg_id cur) ViewDraft
            \<and> keeps_revisions ops s s' \<and> other_pages_same ops (pg_id cur) s s'
            \<and> keeps_unused unused {rv_id r} s s'"
    and create_done: "inv s \<Longrightarrow> unused s (pg_id p) \<Longrightarrow> unused s (rv_id r) \<Longrightarrow> create_step p r \<Longrightarrow>
          refer_to (rv_id r) refs \<Longrightarrow>
          so_execute ops (create_tx p r refs ev) s = (None, s') \<Longrightarrow>
          inv s' \<and> so_get_page ops s' (pg_id p) = Inr (kept p)
            \<and> so_get_revision ops s' (pg_id p) ViewDraft = Inr (kept_revision r)
            \<and> keeps_revisions ops s s' \<and> other_pages_same ops (pg_id p) s s'
            \<and> keeps_unused unused {pg_id p, rv_id r} s s'"
    and archive_done: "inv s \<Longrightarrow> so_get_page ops s (pg_id cur) = Inr cur \<Longrightarrow> archive_step cur p \<Longrightarrow>
          so_execute ops (archive_tx base p ev) s = (None, s') \<Longrightarrow>
          inv s' \<and> so_get_page ops s' (pg_id cur) = Inr (kept p)
            \<and> keeps_revisions ops s s' \<and> other_pages_same ops (pg_id cur) s s'
            \<and> keeps_unused unused {} s s'"
begin

lemma kept_simps:
  "pg_id (kept p) = pg_id p" "pg_workspace (kept p) = pg_workspace p" "pg_slug (kept p) = pg_slug p"
  "pg_title (kept p) = pg_title p" "pg_status (kept p) = pg_status p" "pg_created_by (kept p) = pg_created_by p"
  "pg_updated_by (kept p) = pg_updated_by p" "pg_draft_id (kept p) = pg_draft_id p"
  "pg_draft_no (kept p) = pg_draft_no p" "pg_published_id (kept p) = pg_published_id p"
  "pg_published_no (kept p) = pg_published_no p"
  by (subst kept_fields, simp)+

text \<open>What a step leaves of the identity of a page, the store keeps.\<close>

lemma kept_identity:
  assumes "inv s" and "so_get_page ops s pid = Inr cur" and "same_identity cur p"
  shows "same_identity cur (kept p)"
  using assms kept_created [OF assms(1,2), of p] by (simp add: same_identity_def kept_simps)

lemma draft_head_no:
  assumes "inv s" and "so_get_page ops s pid = Inr p"
    and "so_get_revision ops s pid ViewDraft = Inr r"
  shows "rv_id r = pg_draft_id p \<and> rv_no r = pg_draft_no p"
  using draft_head [OF assms(1,2)] assms(3) by auto

end

locale versioned_store = page_store +
  assumes stale_draft: "inv s \<Longrightarrow> so_get_page ops s (pg_id p) = Inr cur \<Longrightarrow> pg_draft_no cur \<noteq> base \<Longrightarrow>
          so_execute ops (draft_tx base p r idem refs ev) s = (Some ErrStaleRevision, s)"
    and stale_publish: "inv s \<Longrightarrow> so_get_page ops s (pg_id p) = Inr cur \<Longrightarrow> pg_draft_no cur \<noteq> base \<Longrightarrow>
          so_execute ops (publish_tx base p r refs ev) s = (Some ErrStaleRevision, s)"
    and stale_archive: "inv s \<Longrightarrow> so_get_page ops s (pg_id p) = Inr cur \<Longrightarrow> pg_draft_no cur \<noteq> base \<Longrightarrow>
          so_execute ops (archive_tx base p ev) s = (Some ErrStaleRevision, s)"
begin

text \<open>
  Two writers that read the same page and race: once the first has stored its draft, the
  transaction of the second is refused and changes nothing.
\<close>

lemma second_writer_stale:
  assumes "inv s" and "so_get_page ops s (pg_id cur) = Inr cur" and "unused s (rv_id r1)"
    and "draft_step cur p1 r1 i1" and "refer_to (rv_id r1) refs1"
    and "so_execute ops (draft_tx base p1 r1 i1 refs1 ev1) s = (None, s1)"
    and "pg_id p2 = pg_id cur" and "base2 = pg_draft_no cur"
  shows "so_execute ops (draft_tx base2 p2 r2 i2 refs2 ev2) s1 = (Some ErrStaleRevision, s1)"
proof -
  have stored: "inv s1" "so_get_page ops s1 (pg_id cur) = Inr (kept p1)"
    using draft_done [OF assms(1-6)] by auto
  have "pg_draft_no (kept p1) \<noteq> base2"
    using assms(4,8) by (auto simp: draft_step_def kept_simps)
  with stored assms(7) show ?thesis by (intro stale_draft [where cur = "kept p1"]) auto
qed

end

end
