(* ===== verification/ReplayWindow.thy ===== *)
theory ReplayWindow
  imports PageModel
begin

text \<open>
  The replay window of recently accepted revisions that lets an editor resume without a
  reload: the entries of \<^verbatim>\<open>services/page-service/internal/domain/replay_window.go\<close>, the
  interface of \<^verbatim>\<open>ports/replay_window.go\<close> with its contract as the locale
  \<open>replay_window\<close>, and the in-memory store of \<^verbatim>\<open>adapters/memory/replay_window_store.go\<close>.
\<close>

section \<open>Entries\<close>

datatype replay_event_kind =
  ReplayEventCollabPatch | ReplayEventAutosave | ReplayEventPublish | ReplayEventRestore

fun replay_event_kind_string :: "replay_event_kind \<Rightarrow> string" where
  "replay_event_kind_string ReplayEventCollabPatch = ''collab_patch''"
| "replay_event_kind_string ReplayEventAutosave = ''rest_autosave''"
| "replay_event_kind_string ReplayEventPublish = ''publish''"
| "replay_event_kind_string ReplayEventRestore = ''restore''"

record replay_entry =
  re_page :: string
  re_revision :: string
  re_no :: int
  re_kind :: replay_event_kind
  re_patch :: string
  re_created :: gotime
  re_workspace :: string
  re_actor :: string

record resume_token =
  rt_page :: string
  rt_revision :: string
  rt_no :: int
  rt_head_no :: int
  rt_head_patch :: string

section \<open>The interface\<close>

record 'r replay_ops =
  ro_append :: "replay_entry \<Rightarrow> duration \<Rightarrow> 'r \<Rightarrow> string option \<times> 'r"
  ro_list_since :: "'r \<Rightarrow> string \<Rightarrow> int \<Rightarrow> string + replay_entry list"

text \<open>
  What its clients rely on: a listing has only entries of the page, newer than the
  revision asked for; appending leaves other pages alone and invents nothing.
\<close>

locale replay_window =
  fixes ops :: "'r replay_ops" and inv :: "'r \<Rightarrow> bool"
  assumes append_inv: "inv r \<Longrightarrow> ro_append ops e ttl r = (err, r') \<Longrightarrow> inv r'"
    and list_newer: "inv r \<Longrightarrow> ro_list_since ops r p n = Inr es \<Longrightarrow> e \<in> set es \<Longrightarrow>
          n < re_no e \<and> re_page e = p"
    and append_other: "inv r \<Longrightarrow> ro_append ops e ttl r = (err, r') \<Longrightarrow> p \<noteq> re_page e \<Longrightarrow>
          ro_list_since ops r' p n = ro_list_since ops r p n"
    and append_old: "inv r \<Longrightarrow> ro_append ops e ttl r = (err, r') \<Longrightarrow>
          ro_list_since ops r (re_page e) n = Inr es \<Longrightarrow>
          ro_list_since ops r' (re_page e) n = Inr es' \<Longrightarrow> x \<in> set es' \<Longrightarrow>
          x \<in> set es \<or> (re_no x = re_no e \<and> re_patch x = re_patch e \<and> re_kind x = re_kind e)"
begin

text \<open>Nothing is listed that was not appended: if no entry so far and not the new one
  satisfies a property of number, kind and patch, none listed after does.\<close>

lemma append_keeps:
  assumes "inv r" and "ro_append ops e ttl r = (err, r')"
    and "ro_list_since ops r (re_page e) n = Inr es"
    and "ro_list_since ops r' (re_page e) n = Inr es'"
    and "\<forall>x \<in> set es. P (re_no x) (re_kind x) (re_patch x)"
    and "P (re_no e) (re_kind e) (re_patch e)"
  shows "\<forall>x \<in> set es'. P (re_no x) (re_kind x) (re_patch x)"
  using append_old [OF assms(1-4)] assms(5,6) by metis

end

section \<open>The in-memory window\<close>

text \<open>\<open>rw_clock\<close> is what the store's clock reads.\<close>

record mem_replay =
  rw_values :: "string \<Rightarrow> replay_entry list"
  rw_limit :: nat
  rw_clock :: gotime

definition new_mem_replay :: "int \<Rightarrow> gotime \<Rightarrow> mem_replay" where
  "new_mem_replay limit clock =
     \<lparr>rw_values = (\<lambda>_. []), rw_limit = nat (if limit \<le> 0 then 32 else limit), rw_clock = clock\<rparr>"

definition keep_last :: "nat \<Rightarrow> 'a list \<Rightarrow> 'a list" where
  "keep_last limit entries =
     (if limit < length entries then drop (length entries - limit) entries else entries)"

definition mem_append :: "replay_entry \<Rightarrow> duration \<Rightarrow> mem_replay \<Rightarrow> string option \<times> mem_replay" where
  "mem_append entry ttl s =
     (let entry = (if re_created entry = zero_time then entry\<lparr>re_created := rw_clock s\<rparr> else entry);
          entries = rw_values s (re_page entry) @ [entry];
          entries = (if 0 < ttl
                     then let cutoff = rw_clock s - ttl
                          in filter (\<lambda>existing. cutoff < re_created existing
                                                \<or> re_created existing = cutoff) entries
                     else entries);
          entries = keep_last (rw_limit s) entries
      in (None, s\<lparr>rw_values := (rw_values s)(re_page entry := entries)\<rparr>))"

definition mem_list_since :: "mem_replay \<Rightarrow> string \<Rightarrow> int \<Rightarrow> string + replay_entry list" where
  "mem_list_since s pageID fromRevisionNo =
     Inr (filter (\<lambda>entry. fromRevisionNo < re_no entry) (rw_values s pageID))"

definition memory_replay_ops :: "mem_replay replay_ops" where
  "memory_replay_ops = \<lparr>ro_append = mem_append, ro_list_since = mem_list_since\<rparr>"

lemma memory_replay_ops_simps [simp]:
  "ro_append memory_replay_ops = mem_append"
  "ro_list_since memory_replay_ops = mem_list_since"
  by (simp_all add: memory_replay_ops_def)

lemma keep_last_suffix: "\<exists>ys. xs = ys @ keep_last n xs"
  by (metis append_Nil append_take_drop_id keep_last_def)

lemma keep_last_subset: "set (keep_last n xs) \<subseteq> set xs"
  by (auto simp: keep_last_def dest: in_set_dropD)

lemma keep_last_length: "length (keep_last n xs) \<le> n"
  by (auto simp: keep_last_def)

lemma keep_last_snoc: "0 < n \<Longrightarrow> x \<in> set (keep_last n (xs @ [x]))"
  by (auto simp: keep_last_def)

definition replay_inv :: "mem_replay \<Rightarrow> bool" where
  "replay_inv s \<longleftrightarrow> 0 < rw_limit s
     \<and> (\<forall>p. length (rw_values s p) \<le> rw_limit s \<and> (\<forall>e \<in> set (rw_values s p). re_page e = p))"

lemma replay_inv_new: "replay_inv (new_mem_replay limit clock)"
  by (simp add: replay_inv_def new_mem_replay_def)

text \<open>The entry as it is stored, and what becomes of the window of its page.\<close>

definition stamped :: "mem_replay \<Rightarrow> replay_entry \<Rightarrow> replay_entry" where
  "stamped s e = (if re_created e = zero_time then e\<lparr>re_created := rw_clock s\<rparr> else e)"

lemma stamped_fields [simp]:
  "re_page (stamped s e) = re_page e" "re_no (stamped s e) = re_no e"
  "re_kind (stamped s e) = re_kind e" "re_patch (stamped s e) = re_patch e"
  "re_revision (stamped s e) = re_revision e"
  by (simp_all add: stamped_def)

lemma mem_append_eq:
  "mem_append e ttl s = (None, s\<lparr>rw_values := (rw_values s)(re_page e :=
     keep_last (rw_limit s)
       (filter (\<lambda>x. 0 < ttl \<longrightarrow> rw_clock s - ttl \<le> re_created x)
         (rw_values s (re_page e) @ [stamped s e])))\<rparr>)"
proof -
  have cutoff: "(rw_clock s - ttl < re_created x \<or> re_created x = rw_clock s - ttl) =
      (rw_clock s - ttl \<le> re_created x)" for x :: replay_entry
    by auto
  show ?thesis
    by (simp add: mem_append_def Let_def stamped_def [symmetric] cutoff del: filter_append)
qed

lemma mem_append_set:
  assumes "mem_append e ttl s = (err, s')"
  shows "set (rw_values s' p) \<subseteq> set (rw_values s p) \<union> (if p = re_page e then {stamped s e} else {})"
proof -
  have s': "s' = snd (mem_append e ttl s)" using assms by simp
  have "set (rw_values s' (re_page e)) \<subseteq> set (rw_values s (re_page e) @ [stamped s e])"
    unfolding s' mem_append_eq snd_conv
    by (simp del: filter_append set_append) (meson filter_is_subset keep_last_subset subset_trans)
  moreover have "rw_values s' p = rw_values s p" if "p \<noteq> re_page e"
    using that by (simp add: s' mem_append_eq)
  ultimately show ?thesis by auto
qed

lemma mem_append_inv:
  assumes "replay_inv s" and "mem_append e ttl s = (err, s')"
  shows "replay_inv s'"
proof -
  have s': "s' = snd (mem_append e ttl s)" using assms(2) by simp
  have "rw_limit s' = rw_limit s" by (simp add: s' mem_append_eq)
  moreover have "length (rw_values s' p) \<le> rw_limit s" for p
    using assms(1) keep_last_length by (auto simp: s' mem_append_eq replay_inv_def)
  moreover have "re_page x = p" if "x \<in> set (rw_values s' p)" for x p
    using mem_append_set [OF assms(2), of p] that assms(1)
    by (auto simp: replay_inv_def split: if_splits)
  ultimately show ?thesis using assms(1) by (simp add: replay_inv_def)
qed

interpretation mem_window: replay_window memory_replay_ops replay_inv
proof (unfold_locales, goal_cases)
  case (1 r e ttl err r')
  then show ?case using mem_append_inv [of r e ttl err r'] by simp
next
  case (2 r p n es e)
  then show ?case by (auto simp: mem_list_since_def replay_inv_def)
next
  case (3 r e ttl err r' p n)
  then show ?case by (auto simp: mem_append_eq mem_list_since_def)
next
  case (4 r e ttl err r' n es es' x)
  have "set (rw_values r' (re_page e)) \<subseteq> insert (stamped r e) (set (rw_values r (re_page e)))"
    using mem_append_set [of e ttl r err r' "re_page e"] 4(2) by simp
  then have "x = stamped r e \<or> x \<in> set es"
    using 4(3-5) by (auto simp: mem_list_since_def)
  then show ?case by auto
qed

section \<open>Properties\<close>

text \<open>
  C22: the replay window is bounded and recent: after appending an entry the window of its
  page has at most the limit of entries, none older than the time to live, it is what
  remains at the end of the old window with the new entry, and the windows of other pages
  are untouched.
\<close>

theorem replay_window_bounded:
  assumes "replay_inv s" and "0 < ttl"
  shows "length (rw_values (snd (mem_append e ttl s)) (re_page e)) \<le> rw_limit s
   \<and> (\<forall>x \<in> set (rw_values (snd (mem_append e ttl s)) (re_page e)). rw_clock s - ttl \<le> re_created x)
   \<and> (\<exists>dropped. filter (\<lambda>x. rw_clock s - ttl \<le> re_created x) (rw_values s (re_page e) @ [stamped s e])
          = dropped @ rw_values (snd (mem_append e ttl s)) (re_page e))
   \<and> (\<forall>q. q \<noteq> re_page e \<longrightarrow> rw_values (snd (mem_append e ttl s)) q = rw_values s q)
   \<and> replay_inv (snd (mem_append e ttl s))"
proof -
  let ?xs = "filter (\<lambda>x. rw_clock s - ttl \<le> re_created x) (rw_values s (re_page e) @ [stamped s e])"
  let ?s = "snd (mem_append e ttl s)"
  have new: "rw_values ?s (re_page e) = keep_last (rw_limit s) ?xs"
    using assms(2) by (simp add: mem_append_eq del: filter_append)
  have recent: "\<forall>x \<in> set (keep_last (rw_limit s) ?xs). rw_clock s - ttl \<le> re_created x"
    using keep_last_subset [of "rw_limit s" ?xs] by (auto simp del: filter_append)
  have others: "\<forall>q. q \<noteq> re_page e \<longrightarrow> rw_values ?s q = rw_values s q"
    by (simp add: mem_append_eq)
  have "replay_inv ?s" by (rule mem_append_inv [OF assms(1)]) (rule prod.collapse [symmetric])
  then show ?thesis
    unfolding new using recent others keep_last_length keep_last_suffix by blast
qed

definition sample_entry :: "int \<Rightarrow> replay_entry" where
  "sample_entry n = \<lparr>re_page = ''p'', re_revision = ''r'', re_no = n, re_kind = ReplayEventCollabPatch,
     re_patch = ''x'', re_created = n, re_workspace = ''w'', re_actor = ''u''\<rparr>"

theorem replay_window_bounded_witness:
  "replay_inv (snd (mem_append (sample_entry 7) 600 (new_mem_replay 0 100)))"
  using replay_window_bounded [OF replay_inv_new [of 0 100], of 600 "sample_entry 7"] by simp

end
