(* ===== verification/Slug.thy ===== *)
theory Slug
  imports Prelude
begin

text \<open>
  \<open>normalizeSlug\<close> of \<^verbatim>\<open>services/page-service/internal/usecase/create_page.go\<close>, which turns a
  requested slug or a title into the slug that is stored.
\<close>

section \<open>The operations\<close>

definition slug_char :: "char \<Rightarrow> bool" where
  "slug_char c \<longleftrightarrow> (97 \<le> (of_char c :: int) \<and> (of_char c :: int) \<le> 122)
                 \<or> (48 \<le> (of_char c :: int) \<and> (of_char c :: int) \<le> 57)"

text \<open>
  \<open>strings.ToLower\<close>, exact on what has an ASCII lower case: the capital letters, the
  Kelvin sign and the dotted capital I. All other characters keep their bytes here; they
  and their lower case alike are no slug characters and no white space, so the functions
  below cannot tell them apart.
\<close>

fun to_lower :: "string \<Rightarrow> string" where
  "to_lower (c # d # e # s) =
     (if c = CHR 0xE2 \<and> d = CHR 0x84 \<and> e = CHR 0xAA then CHR ''k'' # to_lower s
      else if c = CHR 0xC4 \<and> d = CHR 0xB0 then CHR ''i'' # to_lower (e # s)
      else ascii_lower c # to_lower (d # e # s))"
| "to_lower [c, d] =
     (if c = CHR 0xC4 \<and> d = CHR 0xB0 then [CHR ''i''] else [ascii_lower c, ascii_lower d])"
| "to_lower [c] = [ascii_lower c]"
| "to_lower [] = []"

text \<open>\<open>slugSanitizer.ReplaceAllString(value, "-")\<close>: each maximal run of other characters.\<close>

fun sanitize :: "bool \<Rightarrow> string \<Rightarrow> string" where
  "sanitize inside [] = []"
| "sanitize inside (c # s) =
     (if slug_char c then c # sanitize False s
      else if inside then sanitize True s
      else CHR ''-'' # sanitize True s)"

definition trim_dashes :: "string \<Rightarrow> string" where
  "trim_dashes s = rev (dropWhile (\<lambda>c. c = CHR ''-'') (rev (dropWhile (\<lambda>c. c = CHR ''-'') s)))"

definition normalize_slug :: "string \<Rightarrow> string \<Rightarrow> string" where
  "normalize_slug rawSlug title =
     (let value = trim_space (to_lower rawSlug);
          value = (if value = '''' then trim_space (to_lower title) else value);
          value = trim_dashes (sanitize False value)
      in if value = '''' then ''page'' else value)"

section \<open>Slugs in normal form\<close>

fun no_double_dash :: "string \<Rightarrow> bool" where
  "no_double_dash (c # d # s) \<longleftrightarrow> \<not> (c = CHR ''-'' \<and> d = CHR ''-'') \<and> no_double_dash (d # s)"
| "no_double_dash _ \<longleftrightarrow> True"

definition slug_ok :: "string \<Rightarrow> bool" where
  "slug_ok s \<longleftrightarrow> s \<noteq> '''' \<and> (\<forall>c \<in> set s. slug_char c \<or> c = CHR ''-'')
     \<and> hd s \<noteq> CHR ''-'' \<and> last s \<noteq> CHR ''-'' \<and> no_double_dash s"

lemma dash_not_slug [simp]: "\<not> slug_char CHR ''-''"
  by (simp add: slug_char_def)

lemma sanitize_chars: "c \<in> set (sanitize b s) \<Longrightarrow> slug_char c \<or> c = CHR ''-''"
  by (induction b s rule: sanitize.induct) (auto split: if_splits)

lemma sanitize_inside: "sanitize True s = [] \<or> hd (sanitize True s) \<noteq> CHR ''-''"
proof (induction s)
  case (Cons c s)
  then show ?case by (cases "slug_char c") auto
qed simp

lemma no_double_dash_Cons:
  "no_double_dash (c # s) \<longleftrightarrow> no_double_dash s \<and> \<not> (c = CHR ''-'' \<and> s \<noteq> [] \<and> hd s = CHR ''-'')"
  by (cases s) auto

lemma sanitize_no_double: "no_double_dash (sanitize b s)"
  using sanitize_inside by (induction b s rule: sanitize.induct) (auto simp: no_double_dash_Cons)

lemma no_double_dash_append: "no_double_dash (xs @ ys) \<Longrightarrow> no_double_dash xs \<and> no_double_dash ys"
  by (induction xs) (auto simp: no_double_dash_Cons split: if_splits)

lemma rev_split: "t = rev (dropWhile P (rev t)) @ rev (takeWhile P (rev t))"
proof -
  have "t = rev (takeWhile P (rev t) @ dropWhile P (rev t))" by simp
  then show ?thesis by (simp only: rev_append)
qed

lemma trim_dashes_parts: "\<exists>xs ys. s = xs @ trim_dashes s @ ys"
proof -
  let ?P = "\<lambda>c. c = CHR ''-''"
  let ?t = "dropWhile ?P s"
  have "trim_dashes s @ rev (takeWhile ?P (rev ?t)) = ?t"
    unfolding trim_dashes_def by (rule rev_split [symmetric])
  then have "s = takeWhile ?P s @ trim_dashes s @ rev (takeWhile ?P (rev ?t))"
    by (simp only: takeWhile_dropWhile_id)
  then show ?thesis by (intro exI)
qed

lemma trim_dashes_ends:
  assumes "trim_dashes s \<noteq> []"
  shows "hd (trim_dashes s) \<noteq> CHR ''-''" and "last (trim_dashes s) \<noteq> CHR ''-''"
proof -
  let ?P = "\<lambda>c. c = CHR ''-''"
  let ?t = "dropWhile ?P s"
  let ?u = "dropWhile ?P (rev ?t)"
  have u: "?u \<noteq> []" using assms by (simp add: trim_dashes_def)
  have "last (trim_dashes s) = hd ?u" using u by (simp add: trim_dashes_def last_rev)
  then show "last (trim_dashes s) \<noteq> CHR ''-''" using hd_dropWhile [OF u] by simp
  have t: "?t \<noteq> []"
  proof
    assume "?t = []"
    then have "?u = []" by (simp only: rev.simps dropWhile.simps)
    with u show False by (rule notE)
  qed
  have "hd ?t = hd (rev ?u @ rev (takeWhile ?P (rev ?t)))"
    by (rule arg_cong [OF rev_split])
  then have "hd ?t = hd (trim_dashes s)" using u by (simp add: trim_dashes_def)
  then show "hd (trim_dashes s) \<noteq> CHR ''-''" using hd_dropWhile [OF t] by simp
qed

lemma trim_sanitize_ok:
  assumes "trim_dashes (sanitize b s) \<noteq> []"
  shows "slug_ok (trim_dashes (sanitize b s))"
proof -
  obtain xs ys where parts: "sanitize b s = xs @ trim_dashes (sanitize b s) @ ys"
    using trim_dashes_parts by blast
  have "no_double_dash (xs @ trim_dashes (sanitize b s) @ ys)"
    using sanitize_no_double [of b s] parts by simp
  then have "no_double_dash (trim_dashes (sanitize b s))"
    by (blast dest: no_double_dash_append)
  moreover have "set (trim_dashes (sanitize b s)) \<subseteq> set (sanitize b s)"
    by (subst (2) parts) auto
  then have "\<forall>c \<in> set (trim_dashes (sanitize b s)). slug_char c \<or> c = CHR ''-''"
    using sanitize_chars by blast
  ultimately show ?thesis
    using assms trim_dashes_ends [OF assms] by (simp add: slug_ok_def)
qed

text \<open>A slug in normal form is left as it is.\<close>

lemma slug_char_lower: "slug_char c \<or> c = CHR ''-'' \<Longrightarrow> ascii_lower c = c"
  by (auto simp: slug_char_def ascii_lower_def)

lemma slug_char_ascii: "slug_char c \<Longrightarrow> c \<noteq> CHR 0xE2 \<and> c \<noteq> CHR 0xC4"
  by (auto simp: slug_char_def)

lemma to_lower_slug: "\<forall>c \<in> set s. slug_char c \<or> c = CHR ''-'' \<Longrightarrow> to_lower s = s"
  by (induction s rule: to_lower.induct) (auto simp: slug_char_lower dest: slug_char_ascii)

lemma slug_char_no_space:
  "slug_char c \<Longrightarrow> \<not> space1 c" "slug_char c \<Longrightarrow> \<not> space2 c d" "slug_char c \<Longrightarrow> \<not> space2 d c"
  "slug_char c \<Longrightarrow> \<not> space3 c d e" "slug_char c \<Longrightarrow> \<not> space3 d e c"
  by (auto simp: slug_char_def space1_def space2_def space3_def)

lemma skip_spaces_id:
  "\<not> p1 c \<Longrightarrow> (\<And>d. \<not> p2 c d) \<Longrightarrow> (\<And>d e. \<not> p3 c d e) \<Longrightarrow> skip_spaces p1 p2 p3 (c # s) = c # s"
  by (cases s; cases "tl s") auto

lemma trim_space_slug:
  assumes "s \<noteq> []" and "slug_char (hd s)" and "slug_char (last s)"
  shows "trim_space s = s"
proof -
  have "trim_left s = s"
    using assms slug_char_no_space unfolding trim_left_def
    by (cases s) (auto intro!: skip_spaces_id)
  moreover have "trim_right s = s"
  proof -
    obtain t where t: "rev s = last s # t"
      using assms(1) by (metis append_butlast_last_id rev_eq_Cons_iff rev_rev_ident)
    have "skip_spaces space1 (\<lambda>d c. space2 c d) (\<lambda>e d c. space3 c d e) (last s # t) = last s # t"
      using assms(3) slug_char_no_space by (intro skip_spaces_id) auto
    then show ?thesis by (metis t rev_rev_ident trim_right_def)
  qed
  ultimately show ?thesis by (simp add: trim_space_def)
qed

lemma sanitize_id:
  "\<forall>c \<in> set s. slug_char c \<or> c = CHR ''-'' \<Longrightarrow> no_double_dash s \<Longrightarrow>
   (b \<longrightarrow> s = [] \<or> hd s \<noteq> CHR ''-'') \<Longrightarrow> sanitize b s = s"
  by (induction b s rule: sanitize.induct) (auto simp: no_double_dash_Cons)

lemma trim_dashes_id:
  assumes "s \<noteq> []" and "hd s \<noteq> CHR ''-''" and "last s \<noteq> CHR ''-''"
  shows "trim_dashes s = s"
proof -
  have "dropWhile (\<lambda>c. c = CHR ''-'') s = s" using assms(1,2) by (cases s) auto
  moreover have "dropWhile (\<lambda>c. c = CHR ''-'') (rev s) = rev s"
    using assms(1,3) by (cases s rule: rev_cases) auto
  ultimately show ?thesis by (simp add: trim_dashes_def)
qed

lemma normalize_slug_id:
  assumes "slug_ok s"
  shows "normalize_slug s title = s"
proof -
  have chars: "\<forall>c \<in> set s. slug_char c \<or> c = CHR ''-''" and ne: "s \<noteq> []"
    using assms by (auto simp: slug_ok_def)
  have "slug_char (hd s)" and "slug_char (last s)"
    using assms chars ne by (auto simp: slug_ok_def)
  then have "trim_space (to_lower s) = s"
    using trim_space_slug to_lower_slug chars ne by simp
  moreover have "sanitize False s = s"
    using assms chars by (intro sanitize_id) (auto simp: slug_ok_def)
  moreover have "trim_dashes s = s"
    using assms by (intro trim_dashes_id) (auto simp: slug_ok_def)
  ultimately show ?thesis using ne by (simp add: normalize_slug_def)
qed

lemma page_slug_ok: "slug_ok ''page''"
  by (simp add: slug_ok_def slug_char_def)

section \<open>Properties\<close>

text \<open>
  whatever slug and title are given, the stored slug is in normal form: not empty,
  only small letters, digits and dashes, no dash at an end and no two in a row; and
  normalising it again changes nothing.
\<close>

theorem slug_normal_form:
  "slug_ok (normalize_slug rawSlug title)
   \<and> normalize_slug (normalize_slug rawSlug title) title' = normalize_slug rawSlug title"
proof -
  have "slug_ok (normalize_slug rawSlug title)"
    using trim_sanitize_ok page_slug_ok by (auto simp: normalize_slug_def Let_def)
  then show ?thesis using normalize_slug_id by blast
qed

end
