(* ===== verification/PageService.thy ===== *)
theory PageService
  imports Authz StoreContract ReplayWindow Slug
begin

text \<open>
  What the use cases of \<^verbatim>\<open>services/page-service/internal/usecase\<close> share: their errors, the
  collaborators they are built with, the state they change, authorization, attachment
  validation (\<^verbatim>\<open>attach_file.go\<close>), embed resolution (\<^verbatim>\<open>embed_resolution.go\<close>), the conflict
  payload and the recording in the replay window.
\<close>

section \<open>Errors\<close>

text \<open>
  \<open>ErrStoreFailed\<close>, \<open>ErrAuthorization\<close>, \<open>ErrFileMetadata\<close> and \<open>ErrReplayWindow\<close> are errors of a
  collaborator that a use case hands on as they are.
\<close>

datatype page_error =
    ErrValidation string
  | ErrEmbedUnavailable string
  | ErrPageArchived
  | ErrPageNotFound
  | ErrForbidden
  | RebaseRequired conflict_payload
  | ErrAuthorization string
  | ErrFileMetadata string
  | ErrReplayWindow string
  | ErrStoreFailed store_error

section \<open>Collaborators and state\<close>

record resolve_embed_input =
  ri_page :: string
  ri_workspace :: string
  ri_actor :: string
  ri_token :: string
  ri_allow_degraded :: bool
  ri_reference :: embedded_table_reference
  ri_title :: string

record file_metadata_input =
  fi_file :: string
  fi_page :: string
  fi_workspace :: string
  fi_actor :: string

record file_metadata =
  fm_exists :: bool
  fm_status :: string
  fm_filename :: string
  fm_content_type :: string
  fm_size :: int
  fm_object_key :: string

type_synonym embed_resolver = "resolve_embed_input \<Rightarrow> string + table_embed_descriptor"
type_synonym file_resolver = "file_metadata_input \<Rightarrow> string + file_metadata"

text \<open>
  The resolvers and the authorization client are other services; within one request they
  are functions. \<open>dp_configured\<close> is whether clock and identifier supply are set.
  \<open>dp_hash\<close> is the hexadecimal SHA-256 of a document's JSON text, \<open>dp_encode_token\<close> the
  URL-safe base64 of a token's JSON text and \<open>dp_decode_token\<close> its decoding.
\<close>

record ('s, 'r) deps =
  dp_store :: "'s store_ops"
  dp_replay :: "'r replay_ops option"
  dp_embed :: "embed_resolver option"
  dp_files :: "file_resolver option"
  dp_checker :: "remote_authz option"
  dp_gen :: id_gen
  dp_configured :: bool
  dp_hash :: "document \<Rightarrow> string"
  dp_encode_token :: "resume_token \<Rightarrow> string"
  dp_decode_token :: "string \<Rightarrow> resume_token option"

text \<open>
  The state a use case changes: the page store, the replay window, the number of
  identifiers handed out, and the metrics of \<^verbatim>\<open>metrics.go\<close>: the results that autosaves
  were counted under, the autosave conflicts and the publications.
\<close>

record ('s, 'r) service =
  sv_store :: 's
  sv_replay :: 'r
  sv_next :: nat
  sv_saves :: "string list"
  sv_conflicts :: nat
  sv_publications :: nat

text \<open>What every input has: who acts, and where.\<close>

record request =
  rq_workspace :: string
  rq_actor :: string
  rq_token :: string
  rq_roles :: "string list"
  rq_authenticated :: bool

definition subject_of :: "'a request_scheme \<Rightarrow> string \<Rightarrow> authorization_subject" where
  "subject_of rq pageID =
     \<lparr>as_actor = rq_actor rq, as_workspace = rq_workspace rq, as_page = pageID,
      as_roles = rq_roles rq, as_authenticated = rq_authenticated rq\<rparr>"

section \<open>Authorization\<close>

definition require_action :: "('s, 'r) deps \<Rightarrow> action \<Rightarrow> authorization_subject \<Rightarrow> page_error option" where
  "require_action dp action subject =
     (case authorize (dp_checker dp) action subject of
        AuthzOk \<Rightarrow> None
      | AuthzForbidden \<Rightarrow> Some ErrForbidden
      | AuthzError err \<Rightarrow> Some (ErrAuthorization err))"

definition document_contains_embed :: "document \<Rightarrow> bool" where
  "document_contains_embed d =
     list_ex (\<lambda>b. case bk_embed b of None \<Rightarrow> False | Some e \<Rightarrow> te_table e \<noteq> '''') (dc_blocks d)"

definition authorize_embed_usage ::
  "('s, 'r) deps \<Rightarrow> document \<Rightarrow> authorization_subject \<Rightarrow> page_error option" where
  "authorize_embed_usage dp d subject =
     (if \<not> document_contains_embed d then None
      else require_action dp ActionPageEmbedTable subject)"

definition ensure_page_mutable :: "page \<Rightarrow> page_error option" where
  "ensure_page_mutable page = (if pg_status page = StatusArchived then Some ErrPageArchived else None)"

text \<open>\<open>errors.Is(err, ErrNotFound)\<close> becomes \<open>ErrPageNotFound\<close>; other errors are handed on.\<close>

fun not_found_error :: "store_error \<Rightarrow> page_error" where
  "not_found_error ErrNotFound = ErrPageNotFound"
| "not_found_error err = ErrStoreFailed err"

section \<open>Attachments\<close>

text \<open>
  The loop of \<open>ValidateAndHydrate\<close>, with the slice of blocks as the loop leaves it, which
  is also what the given document's blocks have become.
\<close>

fun hydrate_attachments ::
  "file_resolver \<Rightarrow> string \<Rightarrow> string \<Rightarrow> string \<Rightarrow> document_block list \<Rightarrow>
   page_error option \<times> document_block list" where
  "hydrate_attachments files pageID workspaceID actorID [] = (None, [])"
| "hydrate_attachments files pageID workspaceID actorID (block # blocks) =
     (case bk_attachment block of
        None \<Rightarrow> apsnd (Cons block) (hydrate_attachments files pageID workspaceID actorID blocks)
      | Some a \<Rightarrow>
          if at_file a = '''' then
            apsnd (Cons block) (hydrate_attachments files pageID workspaceID actorID blocks)
          else
            (case files \<lparr>fi_file = at_file a, fi_page = pageID, fi_workspace = workspaceID,
                          fi_actor = actorID\<rparr> of
               Inl err \<Rightarrow> (Some (ErrFileMetadata err), block # blocks)
             | Inr metadata \<Rightarrow>
                 if \<not> fm_exists metadata \<or> fm_status metadata \<noteq> ''ready'' then
                   (Some (ErrValidation (''attachment '' @ at_file a @ '' unavailable'')), block # blocks)
                 else
                   apsnd (Cons (block\<lparr>bk_attachment := Some (a\<lparr>at_filename := fm_filename metadata\<rparr>)\<rparr>))
                     (hydrate_attachments files pageID workspaceID actorID blocks)))"

definition validate_and_hydrate ::
  "file_resolver option \<Rightarrow> document \<Rightarrow> string \<Rightarrow> string \<Rightarrow> string \<Rightarrow>
   (page_error + document) \<times> document_block list" where
  "validate_and_hydrate files d pageID workspaceID actorID =
     (case files of
        None \<Rightarrow> (Inr d, dc_blocks d)
      | Some resolve \<Rightarrow>
          (case hydrate_attachments resolve pageID workspaceID actorID (dc_blocks d) of
             (Some err, blocks) \<Rightarrow> (Inl err, blocks)
           | (None, blocks) \<Rightarrow> (Inr (d\<lparr>dc_blocks := blocks\<rparr>), blocks)))"

text \<open>For a document whose blocks nothing else refers to.\<close>

definition hydrated_copy ::
  "('s, 'r) deps \<Rightarrow> 'a request_scheme \<Rightarrow> document \<Rightarrow> string \<Rightarrow> page_error + document" where
  "hydrated_copy dp rq d pageID =
     fst (validate_and_hydrate (dp_files dp) d pageID (rq_workspace rq) (rq_actor rq))"

lemma hydrate_attachments_texts:
  "hydrate_attachments files p w a bs = (err, bs') \<Longrightarrow> texts_of bs' = texts_of bs"
proof (induction bs arbitrary: err bs')
  case (Cons b bs)
  obtain e xs where rest: "hydrate_attachments files p w a bs = (e, xs)" by fastforce
  show ?case using Cons.prems Cons.IH [OF rest] rest
    by (auto simp: texts_of_def Let_def split: option.splits sum.splits if_splits)
qed simp

lemma validated_texts:
  "validate_and_hydrate files d p w a = (res, blocks) \<Longrightarrow>
     texts_of blocks = block_texts d \<and> (\<forall>d'. res = Inr d' \<longrightarrow> block_texts d' = block_texts d)"
  by (auto simp: validate_and_hydrate_def block_texts_def
      dest!: hydrate_attachments_texts split: option.splits prod.splits)

lemma hydrated_texts: "hydrated_copy dp rq d p = Inr d' \<Longrightarrow> block_texts d' = block_texts d"
  unfolding hydrated_copy_def using validated_texts prod.collapse by metis

section \<open>Embeds\<close>

definition degraded_descriptor :: "document \<Rightarrow> embedded_table_reference \<Rightarrow> table_embed_descriptor" where
  "degraded_descriptor d ref =
     \<lparr>te_table = er_table ref, te_title = embed_title_by_block_id d (er_block ref),
      te_display = er_display ref, te_preview = ''degraded'', te_schema = None, te_rows = []\<rparr>"

definition resolve_input ::
  "'a request_scheme \<Rightarrow> string \<Rightarrow> document \<Rightarrow> bool \<Rightarrow> embedded_table_reference \<Rightarrow> resolve_embed_input" where
  "resolve_input rq pageID d allowDegraded ref =
     \<lparr>ri_page = pageID, ri_workspace = rq_workspace rq, ri_actor = rq_actor rq,
      ri_token = rq_token rq, ri_allow_degraded = allowDegraded, ri_reference = ref,
      ri_title = embed_title_by_block_id d (er_block ref)\<rparr>"

fun resolve_document_embeds ::
  "embed_resolver option \<Rightarrow> 'a request_scheme \<Rightarrow> string \<Rightarrow> document \<Rightarrow> bool \<Rightarrow>
   embedded_table_reference list \<Rightarrow> descriptors \<Rightarrow> page_error + descriptors" where
  "resolve_document_embeds resolver rq pageID d allowDegraded [] ds = Inr ds"
| "resolve_document_embeds resolver rq pageID d allowDegraded (ref # refs) ds =
     (case resolver of
        None \<Rightarrow>
          if allowDegraded then
            resolve_document_embeds resolver rq pageID d allowDegraded refs
              (ds(er_block ref \<mapsto> degraded_descriptor d ref))
          else Inl (ErrEmbedUnavailable ''resolver unavailable'')
      | Some resolve \<Rightarrow>
          (case resolve (resolve_input rq pageID d allowDegraded ref) of
             Inl err \<Rightarrow>
               if allowDegraded then
                 resolve_document_embeds resolver rq pageID d allowDegraded refs
                   (ds(er_block ref \<mapsto> degraded_descriptor d ref))
               else Inl (ErrEmbedUnavailable err)
           | Inr descriptor \<Rightarrow>
               resolve_document_embeds resolver rq pageID d allowDegraded refs
                 (ds(er_block ref \<mapsto> descriptor))))"

text \<open>With degradation allowed no error remains; the callers that allow it use the map.\<close>

definition degraded_embeds ::
  "embed_resolver option \<Rightarrow> 'a request_scheme \<Rightarrow> string \<Rightarrow> document \<Rightarrow>
   embedded_table_reference list \<Rightarrow> descriptors" where
  "degraded_embeds resolver rq pageID d refs =
     (case resolve_document_embeds resolver rq pageID d True refs Map.empty of
        Inl _ \<Rightarrow> Map.empty
      | Inr descriptors \<Rightarrow> descriptors)"

section \<open>Metrics, replay window, conflicts\<close>

definition observe_save :: "string \<Rightarrow> ('s, 'r) service \<Rightarrow> ('s, 'r) service" where
  "observe_save result sv = sv\<lparr>sv_saves := sv_saves sv @ [result]\<rparr>"

definition count_conflict :: "('s, 'r) service \<Rightarrow> ('s, 'r) service" where
  "count_conflict sv = sv\<lparr>sv_saves := sv_saves sv @ [''conflict''], sv_conflicts := sv_conflicts sv + 1\<rparr>"

definition replay_window_ttl :: duration where
  "replay_window_ttl = 10 * minute"

text \<open>\<open>recordReplayWindow\<close>; every caller drops its error.\<close>

definition record_replay_window ::
  "('s, 'r) deps \<Rightarrow> replay_entry \<Rightarrow> ('s, 'r) service \<Rightarrow> ('s, 'r) service" where
  "record_replay_window dp entry sv =
     (case dp_replay dp of
        None \<Rightarrow> sv
      | Some ops \<Rightarrow> sv\<lparr>sv_replay := snd (ro_append ops entry replay_window_ttl (sv_replay sv))\<rparr>)"

definition replay_entry_of ::
  "'a request_scheme \<Rightarrow> string \<Rightarrow> page_revision \<Rightarrow> replay_event_kind \<Rightarrow> string \<Rightarrow> gotime \<Rightarrow> replay_entry" where
  "replay_entry_of rq pageID revision kind patchID now =
     \<lparr>re_page = pageID, re_revision = rv_id revision, re_no = rv_no revision, re_kind = kind,
      re_patch = patchID, re_created = now, re_workspace = rq_workspace rq, re_actor = rq_actor rq\<rparr>"

definition conflict_of :: "page_revision \<Rightarrow> conflict_payload" where
  "conflict_of revision =
     \<lparr>cf_reason = ''stale_revision'', cf_latest_no = rv_no revision, cf_latest_id = rv_id revision,
      cf_document = rv_document revision, cf_patch = ''''\<rparr>"

definition build_conflict_payload ::
  "('s, 'r) deps \<Rightarrow> string \<Rightarrow> ('s, 'r) service \<Rightarrow> store_error + conflict_payload" where
  "build_conflict_payload dp pageID sv =
     (case so_get_revision (dp_store dp) (sv_store sv) pageID ViewDraft of
        Inl err \<Rightarrow> Inl err
      | Inr revision \<Rightarrow> Inr (conflict_of revision))"

definition empty_document :: document where
  "empty_document = \<lparr>dc_blocks = [], dc_metadata = None\<rparr>"

section \<open>What is about to be stored\<close>

text \<open>
  A use case that writes first reads and builds, then runs one transaction. A plan is
  what it has built when the transaction begins: other requests may have changed the
  store in between.
\<close>

record write_plan =
  wp_page :: page
  wp_revision :: page_revision
  wp_idempotency :: "draft_idempotency option"
  wp_references :: document_references
  wp_events :: "outbox_record list"
  wp_descriptors :: descriptors

text \<open>The draft event and the reference events, in the order they get their identifiers.\<close>

definition draft_events ::
  "id_gen \<Rightarrow> nat \<Rightarrow> page \<Rightarrow> page_revision \<Rightarrow> document_references \<Rightarrow> gotime \<Rightarrow> outbox_record list \<times> nat" where
  "draft_events gen n page revision refs now =
     (let (draftEvent, n1) = build_draft_saved_event gen n page revision refs now;
          (refEvents, n2) = build_reference_events gen n1 page revision refs now
      in (draftEvent # refEvents, n2))"

text \<open>The page with a new draft head.\<close>

definition with_draft_head :: "page_revision \<Rightarrow> string \<Rightarrow> gotime \<Rightarrow> page \<Rightarrow> page" where
  "with_draft_head revision actor now page =
     page\<lparr>pg_draft_id := rv_id revision, pg_draft_no := rv_no revision,
          pg_updated_by := actor, pg_updated_at := now\<rparr>"

text \<open>
  \<open>GetDraftIdempotency\<close> followed by \<open>GetRevisionByID\<close>, as autosave and the
  collaborative commit look up an earlier acceptance: any error counts as none.
\<close>

definition saved_before ::
  "('s, 'r) deps \<Rightarrow> string \<Rightarrow> string \<Rightarrow> ('s, 'r) service \<Rightarrow> page_revision option" where
  "saved_before dp pageID key sv =
     (case so_get_idempotency (dp_store dp) (sv_store sv) pageID key of
        Inr (Some record) \<Rightarrow>
          (case so_get_revision_by_id (dp_store dp) (sv_store sv) pageID (id_revision record) of
             Inr revision \<Rightarrow> Some revision
           | Inl _ \<Rightarrow> None)
      | _ \<Rightarrow> None)"

section \<open>Facts\<close>

lemma service_writes [simp]:
  "sv_store (observe_save l sv) = sv_store sv" "sv_next (observe_save l sv) = sv_next sv"
  "sv_replay (observe_save l sv) = sv_replay sv"
  "sv_store (count_conflict sv) = sv_store sv" "sv_next (count_conflict sv) = sv_next sv"
  "sv_replay (count_conflict sv) = sv_replay sv"
  "sv_store (record_replay_window dp e sv) = sv_store sv"
  "sv_next (record_replay_window dp e sv) = sv_next sv"
  by (auto simp: observe_save_def count_conflict_def record_replay_window_def split: option.splits)

lemma draft_events_next:
  "draft_events gen n p r refs now = (evs, n') \<Longrightarrow> n' = n + 3"
  by (auto simp: draft_events_def build_draft_saved_event_def build_reference_events_def Let_def)

text \<open>With degradation allowed, resolving the embeds of a document never fails.\<close>

lemma resolve_degraded_total: "\<exists>ds'. resolve_document_embeds resolver rq p d True refs ds = Inr ds'"
  by (induction refs arbitrary: ds) (auto split: option.splits sum.splits)

lemma hydrate_attachments_shape:
  "hydrate_attachments files p w a bs = (err, bs') \<Longrightarrow>
     map bk_id bs' = map bk_id bs \<and> map bk_text bs' = map bk_text bs
     \<and> map bk_embed bs' = map bk_embed bs \<and> map bk_link bs' = map bk_link bs
     \<and> map (map_option at_file \<circ> bk_attachment) bs' = map (map_option at_file \<circ> bk_attachment) bs"
  by (induction files p w a bs arbitrary: bs' err rule: hydrate_attachments.induct)
     (auto split: option.splits sum.splits if_splits prod.splits simp: apsnd_def map_prod_def)

end
