(* ===== verification/PageCommands.thy ===== *)
theory PageCommands
  imports PageService
begin

text \<open>
  The use cases that write: \<^verbatim>\<open>create_page.go\<close>, \<^verbatim>\<open>autosave_draft.go\<close>,
  \<^verbatim>\<open>commit_collaborative_revision.go\<close>, \<^verbatim>\<open>restore_revision.go\<close>, \<^verbatim>\<open>publish_page.go\<close> and
  \<^verbatim>\<open>archive_page.go\<close>. Each is cut at its one call of \<open>Store.Execute\<close>: \<open>_prepare\<close> reads and
  builds, ending early or with a plan, \<open>_commit\<close> runs the transaction and reports. The
  whole use case is their composition; two requests interleave by running between them.
\<close>

type_synonym ('a, 's, 'r) prepared = "((page_error + 'a) + write_plan) \<times> ('s, 'r) service"

section \<open>Creating a page\<close>

record create_input = request +
  ci_title :: string
  ci_slug :: string
  ci_document :: document

definition create_guard :: "('s, 'r) deps \<Rightarrow> create_input \<Rightarrow> page_error option" where
  "create_guard dp input =
     (if trim_space (rq_workspace input) = '''' \<or> trim_space (ci_title input) = '''' then
        Some (ErrValidation ''workspace_id and title are required'')
      else case require_action dp ActionPageEdit (subject_of input '''') of
        Some err \<Rightarrow> Some err
      | None \<Rightarrow>
          (case authorize_embed_usage dp (ci_document input) (subject_of input '''') of
             Some err \<Rightarrow> Some err
           | None \<Rightarrow>
               if \<not> dp_configured dp then Some (ErrValidation ''create page use case not configured'')
               else None))"

definition new_page :: "create_input \<Rightarrow> string \<Rightarrow> string \<Rightarrow> gotime \<Rightarrow> page" where
  "new_page input pageID revisionID now =
     \<lparr>pg_id = pageID, pg_workspace = rq_workspace input,
      pg_slug = normalize_slug (ci_slug input) (ci_title input), pg_title = ci_title input,
      pg_status = StatusDraft, pg_created_by = rq_actor input, pg_updated_by = rq_actor input,
      pg_draft_id = revisionID, pg_draft_no = 1, pg_published_id = '''', pg_published_no = 0,
      pg_created_at = now, pg_updated_at = now\<rparr>"

definition first_revision :: "create_input \<Rightarrow> string \<Rightarrow> string \<Rightarrow> document \<Rightarrow> gotime \<Rightarrow> page_revision" where
  "first_revision input pageID revisionID d now =
     \<lparr>rv_id = revisionID, rv_page = pageID, rv_no = 1, rv_kind = ViewDraft, rv_base = '''',
      rv_restored_from = '''', rv_document = d, rv_title = ci_title input,
      rv_created_by = rq_actor input, rv_created_via = source_create, rv_created_at = now\<rparr>"

definition create_prepare ::
  "('s, 'r) deps \<Rightarrow> gotime \<Rightarrow> create_input \<Rightarrow> ('s, 'r) service \<Rightarrow> (page_view_payload, 's, 'r) prepared" where
  "create_prepare dp now input sv =
     (case create_guard dp input of
        Some err \<Rightarrow> (Inl (Inl err), sv)
      | None \<Rightarrow>
          let pageID = dp_gen dp (sv_next sv);
              revisionID = dp_gen dp (sv_next sv + 1);
              sv = sv\<lparr>sv_next := sv_next sv + 2\<rparr>
          in case hydrated_copy dp input (canonical_snapshot (ci_document input)) pageID of
               Inl err \<Rightarrow> (Inl (Inl err), sv)
             | Inr d \<Rightarrow>
                 let page = new_page input pageID revisionID now;
                     revision = first_revision input pageID revisionID d now;
                     (refs, n) = extract_references (dp_gen dp) (sv_next sv) d pageID revisionID now;
                     sv = sv\<lparr>sv_next := n\<rparr>
                 in case resolve_document_embeds (dp_embed dp) input pageID d (dp_embed dp = None)
                           (rf_tables refs) Map.empty of
                      Inl err \<Rightarrow> (Inl (Inl err), sv)
                    | Inr descriptors \<Rightarrow>
                        let (events, n) = build_create_events (dp_gen dp) n page revision refs now;
                            (refEvents, n) = build_reference_events (dp_gen dp) n page revision refs now
                        in (Inr \<lparr>wp_page = page, wp_revision = revision, wp_idempotency = None,
                                 wp_references = refs, wp_events = events @ refEvents,
                                 wp_descriptors = descriptors\<rparr>, sv\<lparr>sv_next := n\<rparr>))"

definition create_commit ::
  "('s, 'r) deps \<Rightarrow> write_plan \<Rightarrow> ('s, 'r) service \<Rightarrow>
   (page_error + page_view_payload) \<times> ('s, 'r) service" where
  "create_commit dp plan sv =
     (case so_execute (dp_store dp)
             (create_tx (wp_page plan) (wp_revision plan) (wp_references plan) (wp_events plan))
             (sv_store sv) of
        (Some err, s) \<Rightarrow> (Inl (ErrStoreFailed err), sv\<lparr>sv_store := s\<rparr>)
      | (None, s) \<Rightarrow>
          (Inr (build_page_view (wp_page plan) (wp_revision plan) (wp_descriptors plan)),
           sv\<lparr>sv_store := s\<rparr>))"

definition create_page ::
  "('s, 'r) deps \<Rightarrow> gotime \<Rightarrow> create_input \<Rightarrow> ('s, 'r) service \<Rightarrow>
   (page_error + page_view_payload) \<times> ('s, 'r) service" where
  "create_page dp now input sv =
     (case create_prepare dp now input sv of
        (Inl reply, sv) \<Rightarrow> (reply, sv)
      | (Inr plan, sv) \<Rightarrow> create_commit dp plan sv)"

section \<open>Autosaving a draft\<close>

record autosave_input = request +
  au_page :: string
  au_base :: int
  au_document :: document
  au_key :: string

text \<open>
  What comes before the page is read: the input check, the two authorizations, and the
  answer to a repeated request.
\<close>

definition autosave_guard ::
  "('s, 'r) deps \<Rightarrow> autosave_input \<Rightarrow> ('s, 'r) service \<Rightarrow>
   (page_error + draft_save_payload) option \<times> ('s, 'r) service" where
  "autosave_guard dp input sv =
     (if trim_space (au_page input) = '''' \<or> au_base input \<le> 0 then
        (Some (Inl (ErrValidation '''')), observe_save ''validation_error'' sv)
      else case require_action dp ActionPageEdit (subject_of input (au_page input)) of
        Some err \<Rightarrow> (Some (Inl err), observe_save ''forbidden'' sv)
      | None \<Rightarrow>
          (case authorize_embed_usage dp (au_document input) (subject_of input (au_page input)) of
             Some err \<Rightarrow> (Some (Inl err), observe_save ''forbidden'' sv)
           | None \<Rightarrow>
               let key = trim_space (au_key input)
               in case (if key \<noteq> '''' then saved_before dp (au_page input) key sv else None) of
                    None \<Rightarrow> (None, sv)
                  | Some revision \<Rightarrow>
                      let refs = (case so_list_embedded (dp_store dp) (sv_store sv) (rv_id revision) of
                                    Inl _ \<Rightarrow> [] | Inr refs \<Rightarrow> refs);
                          descriptors = degraded_embeds (dp_embed dp) input (au_page input)
                                          (rv_document revision) refs
                      in (Some (Inr (build_draft_save_payload (au_page input) revision descriptors)),
                          observe_save ''idempotent'' sv)))"

text \<open>Reading the page and its draft head, against the base the client worked on.\<close>

definition autosave_base ::
  "('s, 'r) deps \<Rightarrow> autosave_input \<Rightarrow> ('s, 'r) service \<Rightarrow>
   (page_error + page \<times> page_revision) \<times> ('s, 'r) service" where
  "autosave_base dp input sv =
     (case so_get_page (dp_store dp) (sv_store sv) (au_page input) of
        Inl ErrNotFound \<Rightarrow> (Inl ErrPageNotFound, observe_save ''not_found'' sv)
      | Inl err \<Rightarrow> (Inl (ErrStoreFailed err), observe_save ''error'' sv)
      | Inr page \<Rightarrow>
          (case ensure_page_mutable page of
             Some err \<Rightarrow> (Inl err, observe_save ''validation_error'' sv)
           | None \<Rightarrow>
               if pg_draft_no page \<noteq> au_base input then
                 (case build_conflict_payload dp (au_page input) sv of
                    Inl err \<Rightarrow> (Inl (ErrStoreFailed err), count_conflict sv)
                  | Inr payload \<Rightarrow> (Inl (RebaseRequired payload), count_conflict sv))
               else
                 (case so_get_revision (dp_store dp) (sv_store sv) (au_page input) ViewDraft of
                    Inl err \<Rightarrow> (Inl (ErrStoreFailed err), observe_save ''error'' sv)
                  | Inr baseRevision \<Rightarrow> (Inr (page, baseRevision), sv))))"

definition autosaved_revision ::
  "autosave_input \<Rightarrow> page \<Rightarrow> page_revision \<Rightarrow> string \<Rightarrow> document \<Rightarrow> gotime \<Rightarrow> page_revision" where
  "autosaved_revision input page baseRevision revisionID d now =
     \<lparr>rv_id = revisionID, rv_page = au_page input, rv_no = next_revision_no page,
      rv_kind = ViewDraft, rv_base = rv_id baseRevision, rv_restored_from = '''',
      rv_document = d, rv_title = pg_title page, rv_created_by = rq_actor input,
      rv_created_via = SourceAutosave, rv_created_at = now\<rparr>"

definition autosave_plan ::
  "('s, 'r) deps \<Rightarrow> gotime \<Rightarrow> autosave_input \<Rightarrow> page \<Rightarrow> page_revision \<Rightarrow> ('s, 'r) service \<Rightarrow>
   (page_error + write_plan) \<times> ('s, 'r) service" where
  "autosave_plan dp now input page baseRevision sv =
     (case hydrated_copy dp input (canonical_snapshot (au_document input)) (au_page input) of
        Inl err \<Rightarrow> (Inl err, observe_save ''validation_error'' sv)
      | Inr d \<Rightarrow>
          let revision = autosaved_revision input page baseRevision (dp_gen dp (sv_next sv)) d now;
              updatedPage = with_draft_head revision (rq_actor input) now page;
              (refs, n) = extract_references (dp_gen dp) (sv_next sv + 1) d (au_page input)
                            (rv_id revision) now;
              sv = sv\<lparr>sv_next := n\<rparr>
          in case resolve_document_embeds (dp_embed dp) input (au_page input) d (dp_embed dp = None)
                    (rf_tables refs) Map.empty of
               Inl err \<Rightarrow> (Inl err, observe_save ''embed_unavailable'' sv)
             | Inr descriptors \<Rightarrow>
                 let (events, n) = draft_events (dp_gen dp) n updatedPage revision refs now;
                     key = trim_space (au_key input);
                     idempotency =
                       (if key \<noteq> '''' then
                          Some \<lparr>id_page = au_page input, id_key = key, id_revision = rv_id revision,
                                id_revision_no = rv_no revision, id_created_at = now\<rparr>
                        else None)
                 in (Inr \<lparr>wp_page = updatedPage, wp_revision = revision, wp_idempotency = idempotency,
                          wp_references = refs, wp_events = events, wp_descriptors = descriptors\<rparr>,
                     sv\<lparr>sv_next := n\<rparr>))"

definition autosave_prepare ::
  "('s, 'r) deps \<Rightarrow> gotime \<Rightarrow> autosave_input \<Rightarrow> ('s, 'r) service \<Rightarrow> (draft_save_payload, 's, 'r) prepared" where
  "autosave_prepare dp now input sv =
     (case autosave_guard dp input sv of
        (Some reply, sv) \<Rightarrow> (Inl reply, sv)
      | (None, sv) \<Rightarrow>
          (case autosave_base dp input sv of
             (Inl err, sv) \<Rightarrow> (Inl (Inl err), sv)
           | (Inr (page, baseRevision), sv) \<Rightarrow>
               (case autosave_plan dp now input page baseRevision sv of
                  (Inl err, sv) \<Rightarrow> (Inl (Inl err), sv)
                | (Inr plan, sv) \<Rightarrow> (Inr plan, sv))))"

definition autosave_commit ::
  "('s, 'r) deps \<Rightarrow> gotime \<Rightarrow> autosave_input \<Rightarrow> write_plan \<Rightarrow> ('s, 'r) service \<Rightarrow>
   (page_error + draft_save_payload) \<times> ('s, 'r) service" where
  "autosave_commit dp now input plan sv =
     (case so_execute (dp_store dp)
             (draft_tx (au_base input) (wp_page plan) (wp_revision plan) (wp_idempotency plan)
                (wp_references plan) (wp_events plan)) (sv_store sv) of
        (Some ErrStaleRevision, s) \<Rightarrow>
          let sv = sv\<lparr>sv_store := s\<rparr>
          in (case build_conflict_payload dp (au_page input) sv of
                Inl _ \<Rightarrow> (Inl (ErrStoreFailed ErrStaleRevision), count_conflict sv)
              | Inr payload \<Rightarrow> (Inl (RebaseRequired payload), count_conflict sv))
      | (Some err, s) \<Rightarrow> (Inl (ErrStoreFailed err), observe_save ''error'' (sv\<lparr>sv_store := s\<rparr>))
      | (None, s) \<Rightarrow>
          (Inr (build_draft_save_payload (au_page input) (wp_revision plan) (wp_descriptors plan)),
           observe_save ''success''
             (record_replay_window dp
                (replay_entry_of input (au_page input) (wp_revision plan) ReplayEventAutosave '''' now)
                (sv\<lparr>sv_store := s\<rparr>))))"

definition autosave_draft ::
  "('s, 'r) deps \<Rightarrow> gotime \<Rightarrow> autosave_input \<Rightarrow> ('s, 'r) service \<Rightarrow>
   (page_error + draft_save_payload) \<times> ('s, 'r) service" where
  "autosave_draft dp now input sv =
     (case autosave_prepare dp now input sv of
        (Inl reply, sv) \<Rightarrow> (reply, sv)
      | (Inr plan, sv) \<Rightarrow> autosave_commit dp now input plan sv)"

section \<open>Committing a collaborative revision\<close>

record commit_input = request +
  cm_page :: string
  cm_base :: int
  cm_patch :: string
  cm_document :: document

record commit_payload =
  cp_revision :: string
  cp_no :: int
  cp_hash :: string

definition collab_idempotency_key :: "string \<Rightarrow> string" where
  "collab_idempotency_key patchID = ''collab:'' @ patchID"

definition head_conflict :: "page \<Rightarrow> conflict_payload" where
  "head_conflict page =
     \<lparr>cf_reason = ''stale_revision'', cf_latest_no = pg_draft_no page, cf_latest_id = pg_draft_id page,
      cf_document = empty_document, cf_patch = ''''\<rparr>"

definition commit_guard ::
  "('s, 'r) deps \<Rightarrow> commit_input \<Rightarrow> ('s, 'r) service \<Rightarrow> (page_error + commit_payload) option" where
  "commit_guard dp input sv =
     (if trim_space (cm_page input) = '''' \<or> cm_base input \<le> 0 then Some (Inl (ErrValidation ''''))
      else case require_action dp ActionPageEdit (subject_of input (cm_page input)) of
        Some err \<Rightarrow> Some (Inl err)
      | None \<Rightarrow>
          (case authorize_embed_usage dp (cm_document input) (subject_of input (cm_page input)) of
             Some err \<Rightarrow> Some (Inl err)
           | None \<Rightarrow>
               let key = trim_space (cm_patch input)
               in case (if key \<noteq> '''' then saved_before dp (cm_page input) (collab_idempotency_key key) sv
                        else None) of
                    None \<Rightarrow> None
                  | Some revision \<Rightarrow>
                      Some (Inr \<lparr>cp_revision = rv_id revision, cp_no = rv_no revision,
                                 cp_hash = dp_hash dp (rv_document revision)\<rparr>)))"

definition commit_base ::
  "('s, 'r) deps \<Rightarrow> commit_input \<Rightarrow> ('s, 'r) service \<Rightarrow> page_error + page \<times> page_revision" where
  "commit_base dp input sv =
     (case so_get_page (dp_store dp) (sv_store sv) (cm_page input) of
        Inl err \<Rightarrow> Inl (not_found_error err)
      | Inr page \<Rightarrow>
          (case ensure_page_mutable page of
             Some err \<Rightarrow> Inl err
           | None \<Rightarrow>
               if pg_draft_no page \<noteq> cm_base input then Inl (RebaseRequired (head_conflict page))
               else
                 (case so_get_revision (dp_store dp) (sv_store sv) (cm_page input) ViewDraft of
                    Inl err \<Rightarrow> Inl (ErrStoreFailed err)
                  | Inr baseRevision \<Rightarrow> Inr (page, baseRevision))))"

definition committed_revision ::
  "commit_input \<Rightarrow> page \<Rightarrow> page_revision \<Rightarrow> string \<Rightarrow> document \<Rightarrow> gotime \<Rightarrow> page_revision" where
  "committed_revision input page baseRevision revisionID d now =
     \<lparr>rv_id = revisionID, rv_page = cm_page input, rv_no = next_revision_no page,
      rv_kind = ViewDraft, rv_base = rv_id baseRevision, rv_restored_from = '''',
      rv_document = d, rv_title = pg_title page, rv_created_by = rq_actor input,
      rv_created_via = SourceCollabPatch, rv_created_at = now\<rparr>"

text \<open>The page that was read comes with the plan: a stale transaction reports its head.\<close>

definition commit_plan ::
  "('s, 'r) deps \<Rightarrow> gotime \<Rightarrow> commit_input \<Rightarrow> page \<Rightarrow> page_revision \<Rightarrow> ('s, 'r) service \<Rightarrow>
   (page_error + write_plan) \<times> ('s, 'r) service" where
  "commit_plan dp now input page baseRevision sv =
     (case hydrated_copy dp input (canonical_snapshot (cm_document input)) (cm_page input) of
        Inl err \<Rightarrow> (Inl err, sv)
      | Inr d \<Rightarrow>
          let revision = committed_revision input page baseRevision (dp_gen dp (sv_next sv)) d now;
              updatedPage = with_draft_head revision (rq_actor input) now page;
              (refs, n) = extract_references (dp_gen dp) (sv_next sv + 1) d (cm_page input)
                            (rv_id revision) now;
              (events, n) = draft_events (dp_gen dp) n updatedPage revision refs now;
              key = trim_space (cm_patch input);
              idempotency =
                (if key \<noteq> '''' then
                   Some \<lparr>id_page = cm_page input, id_key = collab_idempotency_key key,
                         id_revision = rv_id revision, id_revision_no = rv_no revision,
                         id_created_at = now\<rparr>
                 else None)
          in (Inr \<lparr>wp_page = updatedPage, wp_revision = revision, wp_idempotency = idempotency,
                   wp_references = refs, wp_events = events, wp_descriptors = Map.empty\<rparr>,
              sv\<lparr>sv_next := n\<rparr>))"

definition commit_prepare ::
  "('s, 'r) deps \<Rightarrow> gotime \<Rightarrow> commit_input \<Rightarrow> ('s, 'r) service \<Rightarrow>
   ((page_error + commit_payload) + page \<times> write_plan) \<times> ('s, 'r) service" where
  "commit_prepare dp now input sv =
     (case commit_guard dp input sv of
        Some reply \<Rightarrow> (Inl reply, sv)
      | None \<Rightarrow>
          (case commit_base dp input sv of
             Inl err \<Rightarrow> (Inl (Inl err), sv)
           | Inr (page, baseRevision) \<Rightarrow>
               (case commit_plan dp now input page baseRevision sv of
                  (Inl err, sv) \<Rightarrow> (Inl (Inl err), sv)
                | (Inr plan, sv) \<Rightarrow> (Inr (page, plan), sv))))"

definition commit_commit ::
  "('s, 'r) deps \<Rightarrow> gotime \<Rightarrow> commit_input \<Rightarrow> page \<Rightarrow> write_plan \<Rightarrow> ('s, 'r) service \<Rightarrow>
   (page_error + commit_payload) \<times> ('s, 'r) service" where
  "commit_commit dp now input page plan sv =
     (case so_execute (dp_store dp)
             (draft_tx (cm_base input) (wp_page plan) (wp_revision plan) (wp_idempotency plan)
                (wp_references plan) (wp_events plan)) (sv_store sv) of
        (Some ErrStaleRevision, s) \<Rightarrow> (Inl (RebaseRequired (head_conflict page)), sv\<lparr>sv_store := s\<rparr>)
      | (Some err, s) \<Rightarrow> (Inl (ErrStoreFailed err), sv\<lparr>sv_store := s\<rparr>)
      | (None, s) \<Rightarrow>
          (Inr \<lparr>cp_revision = rv_id (wp_revision plan), cp_no = rv_no (wp_revision plan),
                cp_hash = dp_hash dp (rv_document (wp_revision plan))\<rparr>,
           record_replay_window dp
             (replay_entry_of input (cm_page input) (wp_revision plan) ReplayEventCollabPatch
                (trim_space (cm_patch input)) now)
             (sv\<lparr>sv_store := s\<rparr>)))"

definition commit_collaborative_revision ::
  "('s, 'r) deps \<Rightarrow> gotime \<Rightarrow> commit_input \<Rightarrow> ('s, 'r) service \<Rightarrow>
   (page_error + commit_payload) \<times> ('s, 'r) service" where
  "commit_collaborative_revision dp now input sv =
     (case commit_prepare dp now input sv of
        (Inl reply, sv) \<Rightarrow> (reply, sv)
      | (Inr (page, plan), sv) \<Rightarrow> commit_commit dp now input page plan sv)"

section \<open>Restoring a revision\<close>

record restore_input = request +
  ro_page :: string
  ro_revision :: string

definition restored_revision ::
  "restore_input \<Rightarrow> page \<Rightarrow> page_revision \<Rightarrow> string \<Rightarrow> document \<Rightarrow> gotime \<Rightarrow> page_revision" where
  "restored_revision input page target revisionID d now =
     \<lparr>rv_id = revisionID, rv_page = ro_page input, rv_no = next_revision_no page,
      rv_kind = ViewDraft, rv_base = pg_draft_id page, rv_restored_from = rv_id target,
      rv_document = d, rv_title = rv_title target, rv_created_by = rq_actor input,
      rv_created_via = SourceRestore, rv_created_at = now\<rparr>"

definition restore_base ::
  "('s, 'r) deps \<Rightarrow> restore_input \<Rightarrow> ('s, 'r) service \<Rightarrow> page_error + page \<times> page_revision" where
  "restore_base dp input sv =
     (case require_action dp ActionPageRestore (subject_of input (ro_page input)) of
        Some err \<Rightarrow> Inl err
      | None \<Rightarrow>
          (case so_get_page (dp_store dp) (sv_store sv) (ro_page input) of
             Inl err \<Rightarrow> Inl (not_found_error err)
           | Inr page \<Rightarrow>
               (case ensure_page_mutable page of
                  Some err \<Rightarrow> Inl err
                | None \<Rightarrow>
                    (case so_get_revision_by_id (dp_store dp) (sv_store sv) (ro_page input)
                            (ro_revision input) of
                       Inl err \<Rightarrow> Inl (not_found_error err)
                     | Inr target \<Rightarrow> Inr (page, target)))))"

definition restore_prepare ::
  "('s, 'r) deps \<Rightarrow> gotime \<Rightarrow> restore_input \<Rightarrow> ('s, 'r) service \<Rightarrow>
   ((page_error + draft_save_payload) + page \<times> write_plan) \<times> ('s, 'r) service" where
  "restore_prepare dp now input sv =
     (case restore_base dp input sv of
        Inl err \<Rightarrow> (Inl (Inl err), sv)
      | Inr (page, target) \<Rightarrow>
          (case hydrated_copy dp input (canonical_snapshot (rv_document target)) (ro_page input) of
             Inl err \<Rightarrow> (Inl (Inl err), sv)
           | Inr d \<Rightarrow>
               (case authorize_embed_usage dp d (subject_of input (ro_page input)) of
                  Some err \<Rightarrow> (Inl (Inl err), sv)
                | None \<Rightarrow>
                    let revision = restored_revision input page target (dp_gen dp (sv_next sv)) d now;
                        updatedPage = (with_draft_head revision (rq_actor input) now page)
                                        \<lparr>pg_title := rv_title target\<rparr>;
                        (refs, n) = extract_references (dp_gen dp) (sv_next sv + 1) d (ro_page input)
                                      (rv_id revision) now;
                        sv = sv\<lparr>sv_next := n\<rparr>
                    in case resolve_document_embeds (dp_embed dp) input (ro_page input) d True
                              (rf_tables refs) Map.empty of
                         Inl err \<Rightarrow> (Inl (Inl err), sv)
                       | Inr descriptors \<Rightarrow>
                           let (events, n) = draft_events (dp_gen dp) n updatedPage revision refs now
                           in (Inr (page,
                                 \<lparr>wp_page = updatedPage, wp_revision = revision, wp_idempotency = None,
                                  wp_references = refs, wp_events = events,
                                  wp_descriptors = descriptors\<rparr>), sv\<lparr>sv_next := n\<rparr>))))"

definition restore_commit ::
  "('s, 'r) deps \<Rightarrow> gotime \<Rightarrow> restore_input \<Rightarrow> page \<Rightarrow> write_plan \<Rightarrow> ('s, 'r) service \<Rightarrow>
   (page_error + draft_save_payload) \<times> ('s, 'r) service" where
  "restore_commit dp now input page plan sv =
     (case so_execute (dp_store dp)
             (draft_tx (pg_draft_no page) (wp_page plan) (wp_revision plan) None
                (wp_references plan) (wp_events plan)) (sv_store sv) of
        (Some err, s) \<Rightarrow> (Inl (ErrStoreFailed err), sv\<lparr>sv_store := s\<rparr>)
      | (None, s) \<Rightarrow>
          (Inr (build_draft_save_payload (ro_page input) (wp_revision plan) (wp_descriptors plan)),
           record_replay_window dp
             (replay_entry_of input (ro_page input) (wp_revision plan) ReplayEventRestore '''' now)
             (sv\<lparr>sv_store := s\<rparr>)))"

definition restore_revision ::
  "('s, 'r) deps \<Rightarrow> gotime \<Rightarrow> restore_input \<Rightarrow> ('s, 'r) service \<Rightarrow>
   (page_error + draft_save_payload) \<times> ('s, 'r) service" where
  "restore_revision dp now input sv =
     (case restore_prepare dp now input sv of
        (Inl reply, sv) \<Rightarrow> (reply, sv)
      | (Inr (page, plan), sv) \<Rightarrow> restore_commit dp now input page plan sv)"

section \<open>Publishing a page\<close>

record publish_input = request +
  pu_page :: string
  pu_base :: int

definition published_revision ::
  "publish_input \<Rightarrow> page \<Rightarrow> page_revision \<Rightarrow> string \<Rightarrow> gotime \<Rightarrow> page_revision" where
  "published_revision input page draft revisionID now =
     \<lparr>rv_id = revisionID, rv_page = pu_page input, rv_no = next_revision_no page,
      rv_kind = ViewPublished, rv_base = rv_id draft, rv_restored_from = '''',
      rv_document = canonical_snapshot (rv_document draft), rv_title = rv_title draft,
      rv_created_by = rq_actor input, rv_created_via = SourcePublish, rv_created_at = now\<rparr>"

definition with_published_head :: "page_revision \<Rightarrow> string \<Rightarrow> gotime \<Rightarrow> page \<Rightarrow> page" where
  "with_published_head revision actor now page =
     page\<lparr>pg_status := StatusPublished, pg_title := rv_title revision, pg_updated_by := actor,
          pg_updated_at := now, pg_published_id := rv_id revision, pg_published_no := rv_no revision\<rparr>"

definition publish_base ::
  "('s, 'r) deps \<Rightarrow> publish_input \<Rightarrow> ('s, 'r) service \<Rightarrow> page_error + page \<times> page_revision" where
  "publish_base dp input sv =
     (case require_action dp ActionPagePublish (subject_of input (pu_page input)) of
        Some err \<Rightarrow> Inl err
      | None \<Rightarrow>
          (case so_get_page (dp_store dp) (sv_store sv) (pu_page input) of
             Inl err \<Rightarrow> Inl (not_found_error err)
           | Inr page \<Rightarrow>
               (case ensure_page_mutable page of
                  Some err \<Rightarrow> Inl err
                | None \<Rightarrow>
                    if pg_draft_no page \<noteq> pu_base input then
                      (case build_conflict_payload dp (pu_page input) sv of
                         Inl err \<Rightarrow> Inl (ErrStoreFailed err)
                       | Inr payload \<Rightarrow> Inl (RebaseRequired payload))
                    else
                      (case so_get_revision (dp_store dp) (sv_store sv) (pu_page input) ViewDraft of
                         Inl err \<Rightarrow> Inl (ErrStoreFailed err)
                       | Inr draft \<Rightarrow> Inr (page, draft)))))"

definition publish_prepare ::
  "('s, 'r) deps \<Rightarrow> gotime \<Rightarrow> publish_input \<Rightarrow> ('s, 'r) service \<Rightarrow>
   (page_publish_payload, 's, 'r) prepared" where
  "publish_prepare dp now input sv =
     (case publish_base dp input sv of
        Inl err \<Rightarrow> (Inl (Inl err), sv)
      | Inr (page, draft) \<Rightarrow>
          let revision = published_revision input page draft (dp_gen dp (sv_next sv)) now;
              updatedPage = with_published_head revision (rq_actor input) now page;
              (refs, n) = extract_references (dp_gen dp) (sv_next sv + 1) (rv_document revision)
                            (pu_page input) (rv_id revision) now;
              (publishedEvent, n) = build_published_event (dp_gen dp) n updatedPage revision now;
              (refEvents, n) = build_reference_events (dp_gen dp) n updatedPage revision refs now
          in (Inr \<lparr>wp_page = updatedPage, wp_revision = revision, wp_idempotency = None,
                   wp_references = refs, wp_events = publishedEvent # refEvents,
                   wp_descriptors = Map.empty\<rparr>, sv\<lparr>sv_next := n\<rparr>))"

definition publish_commit ::
  "('s, 'r) deps \<Rightarrow> gotime \<Rightarrow> publish_input \<Rightarrow> write_plan \<Rightarrow> ('s, 'r) service \<Rightarrow>
   (page_error + page_publish_payload) \<times> ('s, 'r) service" where
  "publish_commit dp now input plan sv =
     (case so_execute (dp_store dp)
             (publish_tx (pu_base input) (wp_page plan) (wp_revision plan) (wp_references plan)
                (wp_events plan)) (sv_store sv) of
        (Some ErrStaleRevision, s) \<Rightarrow>
          let sv = sv\<lparr>sv_store := s\<rparr>
          in (case build_conflict_payload dp (pu_page input) sv of
                Inl _ \<Rightarrow> (Inl (ErrStoreFailed ErrStaleRevision), sv)
              | Inr payload \<Rightarrow> (Inl (RebaseRequired payload), sv))
      | (Some err, s) \<Rightarrow> (Inl (ErrStoreFailed err), sv\<lparr>sv_store := s\<rparr>)
      | (None, s) \<Rightarrow>
          let sv = record_replay_window dp
                     (replay_entry_of input (pu_page input) (wp_revision plan) ReplayEventPublish '''' now)
                     (sv\<lparr>sv_store := s\<rparr>)
          in (Inr \<lparr>pp_page = pu_page input, pp_no = rv_no (wp_revision plan),
                   pp_id = rv_id (wp_revision plan), pp_at = now\<rparr>,
              sv\<lparr>sv_publications := sv_publications sv + 1\<rparr>))"

definition publish_page ::
  "('s, 'r) deps \<Rightarrow> gotime \<Rightarrow> publish_input \<Rightarrow> ('s, 'r) service \<Rightarrow>
   (page_error + page_publish_payload) \<times> ('s, 'r) service" where
  "publish_page dp now input sv =
     (case publish_prepare dp now input sv of
        (Inl reply, sv) \<Rightarrow> (reply, sv)
      | (Inr plan, sv) \<Rightarrow> publish_commit dp now input plan sv)"

section \<open>Archiving a page\<close>

record archive_input = request +
  ar_page_id :: string
  ar_base :: int

definition archive_payload :: "page \<Rightarrow> gotime \<Rightarrow> page_archive_payload" where
  "archive_payload page at =
     \<lparr>pa_page = pg_id page, pa_status = Some (pg_status page), pa_no = pg_draft_no page,
      pa_id = pg_draft_id page, pa_at = at\<rparr>"

definition no_archive_payload :: page_archive_payload where
  "no_archive_payload = \<lparr>pa_page = '''', pa_status = None, pa_no = 0, pa_id = '''', pa_at = zero_time\<rparr>"

text \<open>
  When the base is stale and the draft head cannot be read, the code returns the error of
  \<open>GetPage\<close>, which is nil: an empty payload without an error.
\<close>

definition archive_prepare ::
  "('s, 'r) deps \<Rightarrow> gotime \<Rightarrow> archive_input \<Rightarrow> ('s, 'r) service \<Rightarrow>
   ((page_error + page_archive_payload) + page \<times> outbox_record) \<times> ('s, 'r) service" where
  "archive_prepare dp now input sv =
     (case require_action dp ActionPageArchive (subject_of input (ar_page_id input)) of
        Some err \<Rightarrow> (Inl (Inl err), sv)
      | None \<Rightarrow>
          (case so_get_page (dp_store dp) (sv_store sv) (ar_page_id input) of
             Inl err \<Rightarrow> (Inl (Inl (not_found_error err)), sv)
           | Inr page \<Rightarrow>
               if pg_draft_no page \<noteq> ar_base input then
                 (case so_get_revision (dp_store dp) (sv_store sv) (ar_page_id input) ViewDraft of
                    Inl _ \<Rightarrow> (Inl (Inr no_archive_payload), sv)
                  | Inr revision \<Rightarrow> (Inl (Inl (RebaseRequired (conflict_of revision))), sv))
               else if pg_status page = StatusArchived then
                 (Inl (Inr (archive_payload page (pg_updated_at page))), sv)
               else
                 let page = page\<lparr>pg_status := StatusArchived, pg_updated_by := rq_actor input,
                                 pg_updated_at := now\<rparr>;
                     (event, n) = build_archived_event (dp_gen dp) (sv_next sv) page now
                 in (Inr (page, event), sv\<lparr>sv_next := n\<rparr>)))"

definition archive_commit ::
  "('s, 'r) deps \<Rightarrow> gotime \<Rightarrow> archive_input \<Rightarrow> page \<Rightarrow> outbox_record \<Rightarrow> ('s, 'r) service \<Rightarrow>
   (page_error + page_archive_payload) \<times> ('s, 'r) service" where
  "archive_commit dp now input page event sv =
     (case so_execute (dp_store dp) (archive_tx (ar_base input) page [event]) (sv_store sv) of
        (Some ErrStaleRevision, s) \<Rightarrow>
          let sv = sv\<lparr>sv_store := s\<rparr>
          in (case so_get_revision (dp_store dp) s (ar_page_id input) ViewDraft of
                Inl _ \<Rightarrow> (Inl (ErrStoreFailed ErrStaleRevision), sv)
              | Inr revision \<Rightarrow> (Inl (RebaseRequired (conflict_of revision)), sv))
      | (Some err, s) \<Rightarrow> (Inl (ErrStoreFailed err), sv\<lparr>sv_store := s\<rparr>)
      | (None, s) \<Rightarrow> (Inr (archive_payload page now), sv\<lparr>sv_store := s\<rparr>))"

definition archive_page ::
  "('s, 'r) deps \<Rightarrow> gotime \<Rightarrow> archive_input \<Rightarrow> ('s, 'r) service \<Rightarrow>
   (page_error + page_archive_payload) \<times> ('s, 'r) service" where
  "archive_page dp now input sv =
     (case archive_prepare dp now input sv of
        (Inl reply, sv) \<Rightarrow> (reply, sv)
      | (Inr (page, event), sv) \<Rightarrow> archive_commit dp now input page event sv)"

end
