(* ===== verification/PageQueries.thy ===== *)
theory PageQueries
  imports PageCommands
begin

text \<open>
  The use cases that read: \<^verbatim>\<open>get_page.go\<close>, \<^verbatim>\<open>get_revision_head.go\<close>, \<^verbatim>\<open>list_versions.go\<close>,
  \<^verbatim>\<open>recover_draft.go\<close> and \<^verbatim>\<open>resume_editor_sync.go\<close> of
  \<^verbatim>\<open>services/page-service/internal/usecase\<close>. They hydrate the attachments of the document
  they were given, whose blocks the in-memory store may share: the hydrated file names go
  through to the store, as far as the loop got.
\<close>

definition query_guard :: "('s, 'r) deps \<Rightarrow> 'a request_scheme \<Rightarrow> string \<Rightarrow> page_error option" where
  "query_guard dp rq pageID = require_action dp ActionPageView (subject_of rq pageID)"

text \<open>\<open>revision.Document, err = ValidateAndHydrate(revision.Document)\<close>.\<close>

definition hydrate_in_place ::
  "('s, 'r) deps \<Rightarrow> 'a request_scheme \<Rightarrow> string \<Rightarrow> page_revision \<Rightarrow> ('s, 'r) service \<Rightarrow>
   (page_error + page_revision) \<times> ('s, 'r) service" where
  "hydrate_in_place dp rq pageID revision sv =
     (let (result, blocks) = validate_and_hydrate (dp_files dp) (rv_document revision) pageID
                               (rq_workspace rq) (rq_actor rq);
          sv = sv\<lparr>sv_store := so_share (dp_store dp) pageID (rv_id revision) blocks (sv_store sv)\<rparr>
      in case result of
           Inl err \<Rightarrow> (Inl err, sv)
         | Inr d \<Rightarrow> (Inr (revision\<lparr>rv_document := d\<rparr>), sv))"

section \<open>Viewing a page\<close>

record get_input = request +
  gp_page :: string
  gp_view :: revision_view

definition get_page ::
  "('s, 'r) deps \<Rightarrow> get_input \<Rightarrow> ('s, 'r) service \<Rightarrow>
   (page_error + page_view_payload) \<times> ('s, 'r) service" where
  "get_page dp input sv =
     (case query_guard dp input (gp_page input) of
        Some err \<Rightarrow> (Inl err, sv)
      | None \<Rightarrow>
          (case so_get_page (dp_store dp) (sv_store sv) (gp_page input) of
             Inl err \<Rightarrow> (Inl (not_found_error err), sv)
           | Inr page \<Rightarrow>
               (case so_get_revision (dp_store dp) (sv_store sv) (gp_page input) (gp_view input) of
                  Inl err \<Rightarrow> (Inl (not_found_error err), sv)
                | Inr revision \<Rightarrow>
                    (case so_list_embedded (dp_store dp) (sv_store sv) (rv_id revision) of
                       Inl err \<Rightarrow> (Inl (ErrStoreFailed err), sv)
                     | Inr refs \<Rightarrow>
                         (case hydrate_in_place dp input (gp_page input) revision sv of
                            (Inl err, sv) \<Rightarrow> (Inl err, sv)
                          | (Inr revision, sv) \<Rightarrow>
                              (Inr (build_page_view page revision
                                 (degraded_embeds (dp_embed dp) input (gp_page input)
                                    (rv_document revision) refs)), sv))))))"

section \<open>The draft head\<close>

record head_payload =
  hp_page :: string
  hp_workspace :: string
  hp_revision :: string
  hp_no :: int
  hp_document :: document

definition get_revision_head ::
  "('s, 'r) deps \<Rightarrow> 'a request_scheme \<Rightarrow> string \<Rightarrow> ('s, 'r) service \<Rightarrow>
   (page_error + head_payload) \<times> ('s, 'r) service" where
  "get_revision_head dp rq pageID sv =
     (case query_guard dp rq pageID of
        Some err \<Rightarrow> (Inl err, sv)
      | None \<Rightarrow>
          (case so_get_page (dp_store dp) (sv_store sv) pageID of
             Inl err \<Rightarrow> (Inl (not_found_error err), sv)
           | Inr page \<Rightarrow>
               (case so_get_revision (dp_store dp) (sv_store sv) pageID ViewDraft of
                  Inl err \<Rightarrow> (Inl (not_found_error err), sv)
                | Inr revision \<Rightarrow>
                    (case hydrate_in_place dp rq pageID revision sv of
                       (Inl err, sv) \<Rightarrow> (Inl err, sv)
                     | (Inr revision, sv) \<Rightarrow>
                         (Inr \<lparr>hp_page = pg_id page, hp_workspace = pg_workspace page,
                               hp_revision = rv_id revision, hp_no = rv_no revision,
                               hp_document = rv_document revision\<rparr>, sv)))))"

section \<open>The list of versions\<close>

definition list_versions ::
  "('s, 'r) deps \<Rightarrow> 'a request_scheme \<Rightarrow> string \<Rightarrow> ('s, 'r) service \<Rightarrow>
   page_error + revision_summary list" where
  "list_versions dp rq pageID sv =
     (case query_guard dp rq pageID of
        Some err \<Rightarrow> Inl err
      | None \<Rightarrow>
          (case so_get_page (dp_store dp) (sv_store sv) pageID of
             Inl err \<Rightarrow> Inl (not_found_error err)
           | Inr _ \<Rightarrow>
               (case so_list_revisions (dp_store dp) (sv_store sv) pageID of
                  Inl err \<Rightarrow> Inl (ErrStoreFailed err)
                | Inr revisions \<Rightarrow> Inr (build_version_list_payload revisions))))"

section \<open>Recovering a draft\<close>

definition recover_draft ::
  "('s, 'r) deps \<Rightarrow> 'a request_scheme \<Rightarrow> string \<Rightarrow> ('s, 'r) service \<Rightarrow>
   (page_error + draft_recovery_payload) \<times> ('s, 'r) service" where
  "recover_draft dp rq pageID sv =
     (case query_guard dp rq pageID of
        Some err \<Rightarrow> (Inl err, sv)
      | None \<Rightarrow>
          (case so_get_page (dp_store dp) (sv_store sv) pageID of
             Inl err \<Rightarrow> (Inl (not_found_error err), sv)
           | Inr _ \<Rightarrow>
               (case so_get_revision (dp_store dp) (sv_store sv) pageID ViewDraft of
                  Inl err \<Rightarrow> (Inl (ErrStoreFailed err), sv)
                | Inr revision \<Rightarrow>
                    (case hydrate_in_place dp rq pageID revision sv of
                       (Inl err, sv) \<Rightarrow> (Inl err, sv)
                     | (Inr revision, sv) \<Rightarrow>
                         (case so_list_embedded (dp_store dp) (sv_store sv) (rv_id revision) of
                            Inl err \<Rightarrow> (Inl (ErrStoreFailed err), sv)
                          | Inr refs \<Rightarrow>
                              (Inr (build_draft_recovery_payload pageID revision
                                 (degraded_embeds (dp_embed dp) rq pageID (rv_document revision) refs)),
                               sv))))))"

section \<open>Resuming an editor\<close>

record resume_input = request +
  rs_page :: string
  rs_last_known :: int
  rs_pending :: "string list"
  rs_token :: string

record resume_payload =
  rp_page :: string
  rp_mode :: string
  rp_no :: int
  rp_id :: string
  rp_document :: "document option"
  rp_missing :: "string list"
  rp_replayed :: "string list"
  rp_token :: string

text \<open>The zero token where there are no entries; the last entry is the window's head.\<close>

definition build_resume_token ::
  "('s, 'r) deps \<Rightarrow> string \<Rightarrow> page_revision \<Rightarrow> replay_entry list \<Rightarrow> string" where
  "build_resume_token dp pageID revision entries =
     dp_encode_token dp
       (if entries = [] then
          \<lparr>rt_page = pageID, rt_revision = rv_id revision, rt_no = rv_no revision, rt_head_no = 0,
           rt_head_patch = ''''\<rparr>
        else
          \<lparr>rt_page = pageID, rt_revision = rv_id revision, rt_no = rv_no revision,
           rt_head_no = re_no (last entries), rt_head_patch = re_patch (last entries)\<rparr>)"

definition parse_resume_token :: "('s, 'r) deps \<Rightarrow> string \<Rightarrow> resume_token option" where
  "parse_resume_token dp raw = (if raw = '''' then None else dp_decode_token dp raw)"

definition replayed_set :: "replay_entry list \<Rightarrow> string list" where
  "replayed_set entries = filter (\<lambda>p. p \<noteq> '''') (map (\<lambda>e. trim_space (re_patch e)) entries)"

text \<open>Whether a pending patch is known to be accepted.\<close>

definition patch_known ::
  "('s, 'r) deps \<Rightarrow> string \<Rightarrow> replay_entry list \<Rightarrow> ('s, 'r) service \<Rightarrow> string \<Rightarrow> bool" where
  "patch_known dp pageID entries sv patchID \<longleftrightarrow>
     patchID \<in> set (replayed_set entries)
     \<or> (case so_get_idempotency (dp_store dp) (sv_store sv) pageID (collab_idempotency_key patchID) of
          Inr (Some _) \<Rightarrow> True
        | _ \<Rightarrow> False)"

text \<open>\<open>classifyPendingPatchIDs\<close>, with the set \<open>seen\<close> as a list: replayed and missing.\<close>

fun classify_pending ::
  "(string \<Rightarrow> bool) \<Rightarrow> string list \<Rightarrow> string list \<Rightarrow> string list \<times> string list" where
  "classify_pending known seen [] = ([], [])"
| "classify_pending known seen (patch # patches) =
     (let patchID = trim_space patch
      in if patchID = '''' then classify_pending known seen patches
         else if patchID \<in> set seen then classify_pending known seen patches
         else let (replayed, missing) = classify_pending known (patchID # seen) patches
              in if known patchID then (patchID # replayed, missing)
                 else (replayed, patchID # missing))"

definition list_replay_entries ::
  "('s, 'r) deps \<Rightarrow> string \<Rightarrow> int \<Rightarrow> ('s, 'r) service \<Rightarrow> string + replay_entry list" where
  "list_replay_entries dp pageID fromRevisionNo sv =
     (case dp_replay dp of
        None \<Rightarrow> Inr []
      | Some ops \<Rightarrow> ro_list_since ops (sv_replay sv) pageID fromRevisionNo)"

definition can_resume_without_reload ::
  "('s, 'r) deps \<Rightarrow> resume_input \<Rightarrow> page_revision \<Rightarrow> replay_entry list \<Rightarrow> string list \<Rightarrow> bool" where
  "can_resume_without_reload dp input revision entries replayed =
     (let token = parse_resume_token dp (trim_space (rs_token input))
      in if rs_last_known input = rv_no revision then
           (case token of
              None \<Rightarrow> True
            | Some t \<Rightarrow> rt_page t = rs_page input \<and> rt_no t = rs_last_known input)
         else
           (case token of
              None \<Rightarrow> False
            | Some t \<Rightarrow>
                if rt_page t \<noteq> rs_page input \<or> rt_no t \<noteq> rs_last_known input then False
                else if entries = [] then False
                else list_all (\<lambda>e. re_kind e = ReplayEventCollabPatch
                                   \<and> trim_space (re_patch e) \<in> set replayed) entries))"

definition resume_editor_sync ::
  "('s, 'r) deps \<Rightarrow> resume_input \<Rightarrow> ('s, 'r) service \<Rightarrow>
   (page_error + resume_payload) \<times> ('s, 'r) service" where
  "resume_editor_sync dp input sv =
     (case query_guard dp input (rs_page input) of
        Some err \<Rightarrow> (Inl err, sv)
      | None \<Rightarrow>
      (case so_get_page (dp_store dp) (sv_store sv) (rs_page input) of
         Inl err \<Rightarrow> (Inl (not_found_error err), sv)
       | Inr _ \<Rightarrow>
       (case so_get_revision (dp_store dp) (sv_store sv) (rs_page input) ViewDraft of
          Inl err \<Rightarrow> (Inl (not_found_error err), sv)
        | Inr revision \<Rightarrow>
        (case list_replay_entries dp (rs_page input) (rs_last_known input) sv of
           Inl err \<Rightarrow> (Inl (ErrReplayWindow err), sv)
         | Inr entries \<Rightarrow>
           let (replayed, missing) =
                 classify_pending (patch_known dp (rs_page input) entries sv) [] (rs_pending input);
               token = build_resume_token dp (rs_page input) revision entries
           in if can_resume_without_reload dp input revision entries replayed then
                (Inr \<lparr>rp_page = rs_page input, rp_mode = ''resume'', rp_no = rv_no revision,
                      rp_id = rv_id revision, rp_document = None, rp_missing = missing,
                      rp_replayed = replayed, rp_token = token\<rparr>, sv)
              else
                (case hydrate_in_place dp input (rs_page input) revision sv of
                   (Inl err, sv) \<Rightarrow> (Inl err, sv)
                 | (Inr revision, sv) \<Rightarrow>
                     (case so_list_embedded (dp_store dp) (sv_store sv) (rv_id revision) of
                        Inl err \<Rightarrow> (Inl (ErrStoreFailed err), sv)
                      | Inr refs \<Rightarrow>
                          (Inr \<lparr>rp_page = rs_page input, rp_mode = ''replace'', rp_no = rv_no revision,
                                rp_id = rv_id revision,
                                rp_document = Some (hydrate_embeds
                                  (degraded_embeds (dp_embed dp) input (rs_page input)
                                     (rv_document revision) refs) (rv_document revision)),
                                rp_missing = missing, rp_replayed = replayed, rp_token = token\<rparr>,
                           sv)))))))"

section \<open>Facts\<close>

lemma hydrate_in_place_service:
  "hydrate_in_place dp rq p r sv = (res, sv') \<Longrightarrow>
     \<exists>blocks. sv' = sv\<lparr>sv_store := so_share (dp_store dp) p (rv_id r) blocks (sv_store sv)\<rparr>
       \<and> texts_of blocks = block_texts (rv_document r)"
  by (auto simp: hydrate_in_place_def Let_def dest: validated_texts split: prod.splits sum.splits)

lemma hydrate_in_place_revision:
  "hydrate_in_place dp rq p r sv = (Inr r', sv') \<Longrightarrow>
     rv_id r' = rv_id r \<and> rv_no r' = rv_no r \<and> rv_title r' = rv_title r
       \<and> block_texts (rv_document r') = block_texts (rv_document r)"
  by (auto simp: hydrate_in_place_def Let_def dest: validated_texts split: prod.splits sum.splits)

lemma classify_pending_step:
  "classify_pending known seen (patch # patches) =
     (if trim_space patch = '''' \<or> trim_space patch \<in> set seen then classify_pending known seen patches
      else let rm = classify_pending known (trim_space patch # seen) patches
           in if known (trim_space patch) then (trim_space patch # fst rm, snd rm)
              else (fst rm, trim_space patch # snd rm))"
  by (simp add: Let_def split: prod.splits)

definition pending_of :: "string list \<Rightarrow> string list \<Rightarrow> string set" where
  "pending_of seen patches = {p \<in> trim_space ` set patches. p \<noteq> '''' \<and> p \<notin> set seen}"

lemma pending_of_Cons:
  "pending_of seen (patch # patches) =
     (if trim_space patch = '''' \<or> trim_space patch \<in> set seen then pending_of seen patches
      else insert (trim_space patch) (pending_of (trim_space patch # seen) patches))"
  by (auto simp: pending_of_def)

lemma classify_pending_facts:
  "set (fst (classify_pending known seen patches)) = {p \<in> pending_of seen patches. known p}
   \<and> set (snd (classify_pending known seen patches)) = {p \<in> pending_of seen patches. \<not> known p}
   \<and> distinct (fst (classify_pending known seen patches))
   \<and> distinct (snd (classify_pending known seen patches))"
proof (induction patches arbitrary: seen)
  case Nil
  then show ?case by (simp add: pending_of_def)
next
  case (Cons patch patches)
  let ?p = "trim_space patch"
  show ?case
  proof (cases "?p = '''' \<or> ?p \<in> set seen")
    case True
    then show ?thesis
      using Cons.IH [of seen] by (simp only: classify_pending_step pending_of_Cons if_True)
  next
    case False
    let ?c = "classify_pending known (?p # seen) patches"
    have "?p \<notin> pending_of (?p # seen) patches" by (simp add: pending_of_def)
    moreover have "classify_pending known seen (patch # patches) =
        (if known ?p then (?p # fst ?c, snd ?c) else (fst ?c, ?p # snd ?c))"
      using False by (simp only: classify_pending_step if_False Let_def)
    moreover have "pending_of seen (patch # patches) = insert ?p (pending_of (?p # seen) patches)"
      using False by (simp only: pending_of_Cons if_False)
    ultimately show ?thesis using Cons.IH [of "?p # seen"] by auto
  qed
qed

end
