(* ===== verification/MemoryStore.thy ===== *)
theory MemoryStore
  imports StoreContract
begin

text \<open>
  The in-memory store keeps the contract: the well-formedness invariant of its tables
  (revision numbers strictly increasing, identifiers distinct, both heads stored, every
  idempotency record pointing to a stored revision), its preservation by every
  transaction, and the interpretation of \<open>page_store\<close>.
\<close>

section \<open>The invariant of the in-memory store\<close>

definition revisions_ok :: "page \<Rightarrow> page_revision list \<Rightarrow> bool" where
  "revisions_ok p revs \<longleftrightarrow>
     sorted_wrt (<) (map rv_no revs) \<and> distinct (map rv_id revs)
     \<and> (\<forall>r \<in> set revs. rv_page r = pg_id p \<and> 0 < rv_no r
          \<and> rv_no r \<le> max (pg_draft_no p) (pg_published_no p))"

definition heads_ok :: "page \<Rightarrow> page_revision list \<Rightarrow> bool" where
  "heads_ok p revs \<longleftrightarrow>
     (\<exists>r \<in> set revs. rv_id r = pg_draft_id p \<and> rv_no r = pg_draft_no p \<and> rv_kind r = ViewDraft)
     \<and> (if pg_published_id p = '''' then pg_published_no p = 0 \<and> pg_status p \<noteq> StatusPublished
        else \<exists>r \<in> set revs. rv_id r = pg_published_id p \<and> rv_no r = pg_published_no p
               \<and> rv_kind r = ViewPublished)"

definition page_ok :: "mem_store \<Rightarrow> string \<Rightarrow> bool" where
  "page_ok s pid =
     (case ms_pages s pid of
        None \<Rightarrow> ms_revisions s pid = []
      | Some p \<Rightarrow> pg_id p = pid \<and> revisions_ok p (ms_revisions s pid) \<and> heads_ok p (ms_revisions s pid))"

definition idempotencies_ok :: "mem_store \<Rightarrow> bool" where
  "idempotencies_ok s \<longleftrightarrow> (\<forall>k i. ms_idempotencies s k = Some i \<longrightarrow>
     (\<exists>r \<in> set (ms_revisions s (id_page i)). rv_id r = id_revision i \<and> rv_no r = id_revision_no i))"

definition mem_inv :: "mem_store \<Rightarrow> bool" where
  "mem_inv s \<longleftrightarrow> (\<forall>pid. page_ok s pid) \<and> idempotencies_ok s"

definition mem_unused :: "mem_store \<Rightarrow> string \<Rightarrow> bool" where
  "mem_unused s i \<longleftrightarrow> ms_pages s i = None \<and> (\<forall>pid. i \<notin> rv_id ` set (ms_revisions s pid))"

lemma mem_inv_new: "mem_inv new_mem_store"
  by (simp add: mem_inv_def page_ok_def idempotencies_ok_def new_mem_store_def)

lemma mem_inv_page:
  assumes "mem_inv s" and "ms_pages s pid = Some p"
  shows "pg_id p = pid" and "revisions_ok p (ms_revisions s pid)" and "heads_ok p (ms_revisions s pid)"
  using assms by (auto simp: mem_inv_def page_ok_def split: option.splits dest: spec [where x = pid])

lemma find_revision:
  assumes "distinct (map rv_id revs)" and "r \<in> set revs" and "rv_id r = i"
  shows "find (\<lambda>x. rv_id x = i) revs = Some r"
  using find_unique [OF assms(1,2)] assms(3) by simp

lemma find_revision_snoc:
  assumes "i \<notin> rv_id ` set revs" and "rv_id r = i"
  shows "find (\<lambda>x. rv_id x = i) (revs @ [r]) = Some r"
proof -
  have "find (\<lambda>x. rv_id x = i) revs = None"
    using assms(1) by (intro find_none) auto
  then show ?thesis using assms(2) by (simp add: find_append)
qed

lemma find_revision_old:
  "find (\<lambda>x. rv_id x = i) revs = Some q \<Longrightarrow> find (\<lambda>x. rv_id x = i) (revs @ [r]) = Some q"
  by (simp add: find_append)

lemma sorted_revisions:
  assumes "sorted_wrt (<) (map rv_no revs)" and "\<forall>x \<in> set revs. rv_no x < rv_no r"
  shows "sort_key rv_no (revs @ [r]) = revs @ [r]"
  using assms by (intro sort_key_snoc) (auto simp: strict_sorted_iff)

text \<open>Adding a revision with a higher number keeps the list well formed.\<close>

lemma revisions_ok_snoc:
  assumes "revisions_ok cur revs" and "rv_id r \<notin> rv_id ` set revs"
    and "rv_page r = pg_id cur" and "pg_id p = pg_id cur"
    and "max (pg_draft_no cur) (pg_published_no cur) < rv_no r" and "0 < rv_no r"
    and "rv_no r \<le> max (pg_draft_no p) (pg_published_no p)"
  shows "revisions_ok p (revs @ [r])" and "sort_key rv_no (revs @ [r]) = revs @ [r]"
proof -
  have less: "\<forall>x \<in> set revs. rv_no x < rv_no r"
    using assms(1,5) by (force simp: revisions_ok_def)
  then show "sort_key rv_no (revs @ [r]) = revs @ [r]"
    using assms(1) by (intro sorted_revisions) (auto simp: revisions_ok_def)
  show "revisions_ok p (revs @ [r])"
    using assms less by (fastforce simp: revisions_ok_def sorted_wrt_append)
qed


lemma page_ok_cong:
  "ms_pages s' q = ms_pages s q \<Longrightarrow> ms_revisions s' q = ms_revisions s q \<Longrightarrow> page_ok s' q = page_ok s q"
  by (simp add: page_ok_def split: option.splits)

text \<open>The same for every transaction that adds a revision to an existing page.\<close>

lemma page_ok_put:
  assumes "mem_inv s" and "ms_pages s (pg_id cur) = Some cur" and "mem_unused s (rv_id r)"
    and "rv_page r = pg_id cur" and "pg_id p = pg_id cur"
    and "max (pg_draft_no cur) (pg_published_no cur) < rv_no r" and "0 < rv_no r"
    and "rv_no r \<le> max (pg_draft_no p) (pg_published_no p)"
    and "heads_ok p (ms_revisions s (pg_id cur) @ [r])"
    and "ms_pages s' = (ms_pages s)(pg_id cur \<mapsto> p)"
    and "ms_revisions s' = (ms_revisions s)(pg_id cur := ms_revisions s (pg_id cur) @ [r])"
  shows "page_ok s' pid"
proof (cases "pid = pg_id cur")
  case True
  have "revisions_ok p (ms_revisions s (pg_id cur) @ [r])"
    using assms(3) by (intro revisions_ok_snoc [OF mem_inv_page(2) [OF assms(1,2)] _ assms(4-8)])
                      (auto simp: mem_unused_def)
  then show ?thesis using True assms(5,9,10,11) by (simp add: page_ok_def)
next
  case False
  have "page_ok s pid" using assms(1) by (simp add: mem_inv_def)
  with False show ?thesis using assms(10,11) page_ok_cong [of s' pid s] by simp
qed

lemma idempotencies_ok_extend:
  assumes "idempotencies_ok s" and "\<And>q. set (ms_revisions s q) \<subseteq> set (ms_revisions s' q)"
    and "\<And>k i. ms_idempotencies s' k = Some i \<Longrightarrow> ms_idempotencies s k = Some i
           \<or> (\<exists>r \<in> set (ms_revisions s' (id_page i)). rv_id r = id_revision i \<and> rv_no r = id_revision_no i)"
  shows "idempotencies_ok s'"
  using assms unfolding idempotencies_ok_def by (metis subsetD)

lemma put_idempotency_lookup:
  "ms_idempotencies (put_idempotency pid idem s) k = Some i \<Longrightarrow>
     ms_idempotencies s k = Some i \<or> idem = Some i"
  by (auto simp: put_idempotency_def split: option.splits if_splits)

section \<open>Each transaction keeps the invariant\<close>

lemma mem_draft_step:
  assumes inv: "mem_inv s" and cur: "ms_pages s (pg_id cur) = Some cur"
    and fresh: "mem_unused s (rv_id r)" and step: "draft_step cur p r idem"
  shows "mem_inv (put_projections (rv_id r) refs ev (put_idempotency (pg_id p) idem (put_revision p r s)))"
    and "sort_key rv_no (ms_revisions s (pg_id cur) @ [r]) = ms_revisions s (pg_id cur) @ [r]"
proof -
  let ?revs = "ms_revisions s (pg_id cur)"
  let ?s' = "put_projections (rv_id r) refs ev (put_idempotency (pg_id p) idem (put_revision p r s))"
  note ok = mem_inv_page [OF inv cur]
  have id: "pg_id p = pg_id cur" and page: "rv_page r = pg_id cur"
    and above: "max (pg_draft_no cur) (pg_published_no cur) < rv_no r"
    and below: "rv_no r \<le> max (pg_draft_no p) (pg_published_no p)"
    using step by (auto simp: draft_step_def same_identity_def)
  obtain h where "h \<in> set ?revs" "rv_no h = pg_draft_no cur" using ok(3) by (auto simp: heads_ok_def)
  then have "0 < pg_draft_no cur" using ok(2) by (auto simp: revisions_ok_def)
  then have pos: "0 < rv_no r" using above by simp
  have new: "rv_id r \<notin> rv_id ` set ?revs" using fresh by (auto simp: mem_unused_def)
  show sort: "sort_key rv_no (?revs @ [r]) = ?revs @ [r]"
    by (rule revisions_ok_snoc(2) [OF ok(2) new page id above pos below])
  have heads: "heads_ok p (?revs @ [r])"
    using ok(3) step by (auto simp: heads_ok_def draft_step_def split: if_splits)
  have pages: "page_ok ?s' q" for q
    by (rule page_ok_put [OF inv cur fresh page id above pos below heads])
       (use id sort in simp_all)
  have idem: "idempotencies_ok ?s'"
  proof (rule idempotencies_ok_extend)
    show "idempotencies_ok s" using inv by (simp add: mem_inv_def)
    show "set (ms_revisions s q) \<subseteq> set (ms_revisions ?s' q)" for q
      using id sort by auto
    fix k i assume "ms_idempotencies ?s' k = Some i"
    then have "ms_idempotencies s k = Some i \<or> idem = Some i"
      using put_idempotency_lookup by fastforce
    then show "ms_idempotencies s k = Some i
       \<or> (\<exists>r \<in> set (ms_revisions ?s' (id_page i)). rv_id r = id_revision i \<and> rv_no r = id_revision_no i)"
      using step id sort by (auto simp: draft_step_def idempotency_for_def)
  qed
  show "mem_inv ?s'" using pages idem by (simp add: mem_inv_def)
qed

lemma mem_publish_step:
  assumes inv: "mem_inv s" and cur: "ms_pages s (pg_id cur) = Some cur"
    and fresh: "mem_unused s (rv_id r)" and step: "publish_step cur p r"
  shows "mem_inv (put_projections (rv_id r) refs ev (put_revision p r s))"
    and "sort_key rv_no (ms_revisions s (pg_id cur) @ [r]) = ms_revisions s (pg_id cur) @ [r]"
proof -
  let ?revs = "ms_revisions s (pg_id cur)"
  let ?s' = "put_projections (rv_id r) refs ev (put_revision p r s)"
  note ok = mem_inv_page [OF inv cur]
  have id: "pg_id p = pg_id cur" and page: "rv_page r = pg_id cur"
    and above: "max (pg_draft_no cur) (pg_published_no cur) < rv_no r"
    and below: "rv_no r \<le> max (pg_draft_no p) (pg_published_no p)"
    using step by (auto simp: publish_step_def same_identity_def)
  obtain h where "h \<in> set ?revs" "rv_no h = pg_draft_no cur" using ok(3) by (auto simp: heads_ok_def)
  then have "0 < pg_draft_no cur" using ok(2) by (auto simp: revisions_ok_def)
  then have pos: "0 < rv_no r" using above by simp
  have new: "rv_id r \<notin> rv_id ` set ?revs" using fresh by (auto simp: mem_unused_def)
  show sort: "sort_key rv_no (?revs @ [r]) = ?revs @ [r]"
    by (rule revisions_ok_snoc(2) [OF ok(2) new page id above pos below])
  have heads: "heads_ok p (?revs @ [r])"
    using ok(3) step by (auto simp: heads_ok_def publish_step_def split: if_splits)
  have pages: "page_ok ?s' q" for q
    by (rule page_ok_put [OF inv cur fresh page id above pos below heads])
       (use id sort in simp_all)
  have "idempotencies_ok s" using inv by (simp add: mem_inv_def)
  then have "idempotencies_ok ?s'"
    by (rule idempotencies_ok_extend) (use id sort in auto)
  with pages show "mem_inv ?s'" by (simp add: mem_inv_def)
qed

lemma mem_create_step:
  assumes inv: "mem_inv s" and new: "mem_unused s (pg_id p)" and step: "create_step p r"
  shows "mem_inv (put_projections (rv_id r) refs ev (put_revision p r s))"
    and "ms_revisions s (pg_id p) = []"
proof -
  let ?s' = "put_projections (rv_id r) refs ev (put_revision p r s)"
  have none: "ms_pages s (pg_id p) = None" using new by (simp add: mem_unused_def)
  have "page_ok s (pg_id p)" using inv by (simp add: mem_inv_def)
  with none show empty: "ms_revisions s (pg_id p) = []" by (simp add: page_ok_def)
  have "page_ok ?s' q" for q
  proof (cases "q = pg_id p")
    case True
    then show ?thesis
      using step empty by (auto simp: page_ok_def revisions_ok_def heads_ok_def create_step_def)
  next
    case False
    have "page_ok s q" using inv by (simp add: mem_inv_def)
    with False show ?thesis using page_ok_cong [of ?s' q s] by simp
  qed
  moreover have "idempotencies_ok s" using inv by (simp add: mem_inv_def)
  then have "idempotencies_ok ?s'"
    by (rule idempotencies_ok_extend) (use empty in auto)
  ultimately show "mem_inv ?s'" by (simp add: mem_inv_def)
qed

lemma mem_archive_step:
  assumes inv: "mem_inv s" and cur: "ms_pages s (pg_id cur) = Some cur" and step: "archive_step cur p"
  shows "mem_inv (s\<lparr>ms_pages := (ms_pages s)(pg_id p \<mapsto> p), ms_outbox := ob\<rparr>)" (is "mem_inv ?s'")
proof -
  note ok = mem_inv_page [OF inv cur]
  have id: "pg_id p = pg_id cur" using step by (simp add: archive_step_def same_identity_def)
  have "page_ok ?s' q" for q
  proof (cases "q = pg_id cur")
    case True
    then show ?thesis
      using ok step id by (auto simp: page_ok_def revisions_ok_def heads_ok_def archive_step_def)
  next
    case False
    have "page_ok s q" using inv by (simp add: mem_inv_def)
    with False id show ?thesis using page_ok_cong [of ?s' q s] by simp
  qed
  moreover have "idempotencies_ok ?s'" using inv by (simp add: mem_inv_def idempotencies_ok_def)
  ultimately show ?thesis by (simp add: mem_inv_def)
qed

section \<open>The in-memory store is a page store\<close>

lemma mem_get_page_iff: "mem_get_page s pid = Inr p \<longleftrightarrow> ms_pages s pid = Some p"
  by (auto simp: mem_get_page_def split: option.splits)

lemma mem_get_by_id_iff:
  "mem_get_revision_by_id s pid rid = Inr r \<longleftrightarrow> find (\<lambda>r. rv_id r = rid) (ms_revisions s pid) = Some r"
  by (auto simp: mem_get_revision_by_id_def split: option.splits)

lemma mem_get_revision_eq:
  "ms_pages s pid = Some p \<Longrightarrow> find (\<lambda>x. rv_id x = target) (ms_revisions s pid) = Some r \<Longrightarrow>
   target = (if view = ViewPublished \<and> pg_published_id p \<noteq> '''' then pg_published_id p else pg_draft_id p) \<Longrightarrow>
   mem_get_revision s pid view = Inr r"
  by (auto simp: mem_get_revision_def Let_def)

lemma mem_heads:
  assumes inv: "mem_inv s" and page: "ms_pages s pid = Some p"
  shows "\<exists>r. find (\<lambda>x. rv_id x = pg_draft_id p) (ms_revisions s pid) = Some r \<and> rv_id r = pg_draft_id p
           \<and> rv_no r = pg_draft_no p \<and> rv_kind r = ViewDraft \<and> r \<in> set (ms_revisions s pid)"
    and "pg_published_id p \<noteq> '''' \<Longrightarrow>
         \<exists>r. find (\<lambda>x. rv_id x = pg_published_id p) (ms_revisions s pid) = Some r
           \<and> rv_id r = pg_published_id p \<and> rv_no r = pg_published_no p \<and> rv_kind r = ViewPublished"
    and "0 < pg_draft_no p \<and> 0 \<le> pg_published_no p"
proof -
  note ok = mem_inv_page [OF inv page]
  have dist: "distinct (map rv_id (ms_revisions s pid))" using ok(2) by (simp add: revisions_ok_def)
  obtain r where r: "r \<in> set (ms_revisions s pid)" "rv_id r = pg_draft_id p" "rv_no r = pg_draft_no p"
      "rv_kind r = ViewDraft"
    using ok(3) by (auto simp: heads_ok_def)
  then show "\<exists>r. find (\<lambda>x. rv_id x = pg_draft_id p) (ms_revisions s pid) = Some r \<and> rv_id r = pg_draft_id p
           \<and> rv_no r = pg_draft_no p \<and> rv_kind r = ViewDraft \<and> r \<in> set (ms_revisions s pid)"
    using find_revision [OF dist] by blast
  show "\<exists>r. find (\<lambda>x. rv_id x = pg_published_id p) (ms_revisions s pid) = Some r
           \<and> rv_id r = pg_published_id p \<and> rv_no r = pg_published_no p \<and> rv_kind r = ViewPublished"
    if pub: "pg_published_id p \<noteq> ''''"
  proof -
    obtain q where "q \<in> set (ms_revisions s pid)" "rv_id q = pg_published_id p"
        "rv_no q = pg_published_no p" "rv_kind q = ViewPublished"
      using ok(3) pub by (auto simp: heads_ok_def)
    then show ?thesis using find_revision [OF dist] by blast
  qed
  show "0 < pg_draft_no p \<and> 0 \<le> pg_published_no p"
    using ok(2,3) r by (force simp: revisions_ok_def heads_ok_def split: if_splits)
qed

lemma mem_keeps_snoc:
  assumes "\<And>q. ms_revisions s' q = ms_revisions s q \<or> (\<exists>r. ms_revisions s' q = ms_revisions s q @ [r])"
  shows "keeps_revisions memory_ops s s'"
  unfolding keeps_revisions_def memory_ops_simps mem_get_by_id_iff
proof (intro allI impI)
  fix pid rid r
  assume old: "find (\<lambda>r. rv_id r = rid) (ms_revisions s pid) = Some r"
  consider "ms_revisions s' pid = ms_revisions s pid" | q where "ms_revisions s' pid = ms_revisions s pid @ [q]"
    using assms by blast
  then show "find (\<lambda>r. rv_id r = rid) (ms_revisions s' pid) = Some r"
    by cases (simp_all add: old find_append)
qed

lemma mem_others:
  "ms_pages s' = (ms_pages s)(pid \<mapsto> p) \<Longrightarrow> other_pages_same memory_ops pid s s'"
  by (simp add: other_pages_same_def mem_get_page_def)

lemma mem_keeps_unused:
  assumes "ms_pages s' = (ms_pages s)(pid \<mapsto> p)"
    and "ms_pages s pid = None \<Longrightarrow> pid \<in> new"
    and "\<And>q. rv_id ` set (ms_revisions s' q) \<subseteq> rv_id ` set (ms_revisions s q) \<union> new"
  shows "keeps_unused mem_unused new s s'"
  using assms unfolding keeps_unused_def mem_unused_def by (auto split: if_splits)

lemma mem_after_draft:
  assumes "mem_inv s" and "ms_pages s (pg_id cur) = Some cur" and "mem_unused s (rv_id r)"
    and "draft_step cur p r idem"
    and "mem_execute (draft_tx base p r idem refs ev) s = (None, s')"
  shows "mem_inv s' \<and> mem_get_page s' (pg_id cur) = Inr p
     \<and> mem_get_revision s' (pg_id cur) ViewDraft = Inr r
     \<and> mem_get_revision_by_id s' (pg_id cur) (rv_id r) = Inr r
     \<and> keeps_revisions memory_ops s s' \<and> other_pages_same memory_ops (pg_id cur) s s'
     \<and> keeps_unused mem_unused {rv_id r} s s'"
proof -
  have id: "pg_id p = pg_id cur" and head: "pg_draft_id p = rv_id r"
    using assms(4) by (auto simp: draft_step_def same_identity_def)
  have s': "s' = put_projections (rv_id r) refs ev (put_idempotency (pg_id p) idem (put_revision p r s))"
    using assms(5) by (simp add: mem_draft_tx split: option.splits if_splits)
  note step = mem_draft_step [OF assms(1-4)]
  have pages: "ms_pages s' = (ms_pages s)(pg_id cur \<mapsto> p)"
    and revs: "ms_revisions s' = (ms_revisions s)(pg_id cur := ms_revisions s (pg_id cur) @ [r])"
    using s' id step(2) by simp_all
  have found: "find (\<lambda>x. rv_id x = rv_id r) (ms_revisions s' (pg_id cur)) = Some r"
    using assms(3) revs by (simp add: find_revision_snoc mem_unused_def)
  have "mem_get_revision s' (pg_id cur) ViewDraft = Inr r"
    by (rule mem_get_revision_eq [OF _ found]) (use pages head in auto)
  moreover have "keeps_revisions memory_ops s s'"
    by (rule mem_keeps_snoc) (use revs in auto)
  moreover have "keeps_unused mem_unused {rv_id r} s s'"
    by (rule mem_keeps_unused [OF pages]) (use revs assms(2) in auto)
  ultimately show ?thesis
    using s' step(1) pages found mem_others [OF pages] by (simp add: mem_get_page_iff mem_get_by_id_iff)
qed

lemma mem_after_publish:
  assumes "mem_inv s" and "ms_pages s (pg_id cur) = Some cur" and "mem_unused s (rv_id r)"
    and "publish_step cur p r"
    and "mem_execute (publish_tx base p r refs ev) s = (None, s')"
  shows "mem_inv s' \<and> mem_get_page s' (pg_id cur) = Inr p
     \<and> mem_get_revision s' (pg_id cur) ViewPublished = Inr r
     \<and> mem_get_revision s' (pg_id cur) ViewDraft = mem_get_revision s (pg_id cur) ViewDraft
     \<and> keeps_revisions memory_ops s s' \<and> other_pages_same memory_ops (pg_id cur) s s'
     \<and> keeps_unused mem_unused {rv_id r} s s'"
proof -
  have id: "pg_id p = pg_id cur" and pub: "pg_published_id p = rv_id r" "rv_id r \<noteq> ''''"
    and draft: "pg_draft_id p = pg_draft_id cur"
    using assms(4) by (auto simp: publish_step_def same_identity_def)
  have s': "s' = put_projections (rv_id r) refs ev (put_revision p r s)"
    using assms(5) by (simp add: mem_publish_tx split: option.splits if_splits)
  note step = mem_publish_step [OF assms(1-4)]
  have pages: "ms_pages s' = (ms_pages s)(pg_id cur \<mapsto> p)"
    and revs: "ms_revisions s' = (ms_revisions s)(pg_id cur := ms_revisions s (pg_id cur) @ [r])"
    using s' id step(2) by simp_all
  have found: "find (\<lambda>x. rv_id x = rv_id r) (ms_revisions s' (pg_id cur)) = Some r"
    using assms(3) revs by (simp add: find_revision_snoc mem_unused_def)
  obtain h where h: "find (\<lambda>x. rv_id x = pg_draft_id cur) (ms_revisions s (pg_id cur)) = Some h"
    using mem_heads(1) [OF assms(1,2)] by auto
  have "mem_get_revision s' (pg_id cur) ViewPublished = Inr r"
    by (rule mem_get_revision_eq [OF _ found]) (use pages pub in auto)
  moreover have "mem_get_revision s (pg_id cur) ViewDraft = Inr h"
    by (rule mem_get_revision_eq [OF assms(2) h]) simp
  moreover have "mem_get_revision s' (pg_id cur) ViewDraft = Inr h"
    by (rule mem_get_revision_eq [of _ _ p "pg_draft_id cur"])
       (use pages draft revs find_revision_old [OF h] in auto)
  moreover have "keeps_revisions memory_ops s s'"
    by (rule mem_keeps_snoc) (use revs in auto)
  moreover have "keeps_unused mem_unused {rv_id r} s s'"
    by (rule mem_keeps_unused [OF pages]) (use revs assms(2) in auto)
  ultimately show ?thesis
    using s' step(1) pages mem_others [OF pages] by (simp add: mem_get_page_iff)
qed

lemma mem_after_create:
  assumes "mem_inv s" and "mem_unused s (pg_id p)" and "create_step p r"
    and "mem_execute (create_tx p r refs ev) s = (None, s')"
  shows "mem_inv s' \<and> mem_get_page s' (pg_id p) = Inr p
     \<and> mem_get_revision s' (pg_id p) ViewDraft = Inr r
     \<and> keeps_revisions memory_ops s s' \<and> other_pages_same memory_ops (pg_id p) s s'
     \<and> keeps_unused mem_unused {pg_id p, rv_id r} s s'"
proof -
  have head: "pg_draft_id p = rv_id r" using assms(3) by (simp add: create_step_def)
  have s': "s' = put_projections (rv_id r) refs ev (put_revision p r s)"
    using assms(4) by (simp add: mem_create_tx)
  note step = mem_create_step [OF assms(1-3)]
  have pages: "ms_pages s' = (ms_pages s)(pg_id p \<mapsto> p)"
    and revs: "ms_revisions s' = (ms_revisions s)(pg_id p := [r])"
    using s' step(2) by simp_all
  have "mem_get_revision s' (pg_id p) ViewDraft = Inr r"
    by (rule mem_get_revision_eq [of _ _ p "rv_id r"]) (use pages revs head in auto)
  moreover have "keeps_revisions memory_ops s s'"
    by (rule mem_keeps_snoc) (use revs step(2) in auto)
  moreover have "keeps_unused mem_unused {pg_id p, rv_id r} s s'"
    by (rule mem_keeps_unused [OF pages]) (use revs in auto)
  ultimately show ?thesis
    using s' step(1) pages mem_others [OF pages] by (simp add: mem_get_page_iff)
qed

lemma mem_after_archive:
  assumes "mem_inv s" and "ms_pages s (pg_id cur) = Some cur" and "archive_step cur p"
    and "mem_execute (archive_tx base p ev) s = (None, s')"
  shows "mem_inv s' \<and> mem_get_page s' (pg_id cur) = Inr p
     \<and> keeps_revisions memory_ops s s' \<and> other_pages_same memory_ops (pg_id cur) s s'
     \<and> keeps_unused mem_unused {} s s'"
proof -
  have id: "pg_id p = pg_id cur" using assms(3) by (simp add: archive_step_def same_identity_def)
  have s': "s' = s\<lparr>ms_pages := (ms_pages s)(pg_id p \<mapsto> p), ms_outbox := ms_outbox s @ ev\<rparr>"
    using assms(4) by (simp add: mem_archive_tx split: option.splits if_splits)
  then have "other_pages_same memory_ops (pg_id cur) s s'" using id by (intro mem_others) simp
  moreover have "keeps_revisions memory_ops s s'" by (rule mem_keeps_snoc) (use s' in auto)
  moreover have "mem_inv s'" unfolding s' by (rule mem_archive_step [OF assms(1-3)])
  moreover have "keeps_unused mem_unused {} s s'"
    by (rule mem_keeps_unused [of _ _ "pg_id cur" p]) (use s' id assms(2) in auto)
  ultimately show ?thesis using s' id by (simp add: mem_get_page_iff)
qed

text \<open>Writing through a shared slice changes documents only.\<close>

lemma set_blocks_fields:
  "map rv_id (set_blocks rid blocks revs) = map rv_id revs"
  "map rv_no (set_blocks rid blocks revs) = map rv_no revs"
  "map rv_kind (set_blocks rid blocks revs) = map rv_kind revs"
  "map rv_page (set_blocks rid blocks revs) = map rv_page revs"
  by (induction rid blocks revs rule: set_blocks.induct) auto

lemma set_blocks_ids: "rv_id ` set (set_blocks rid blocks revs) = rv_id ` set revs"
  using set_blocks_fields(1) [of rid blocks revs] by (metis image_set)

lemma set_blocks_find:
  "find (\<lambda>r. rv_id r = i) revs = Some r \<Longrightarrow>
     find (\<lambda>r. rv_id r = i) (set_blocks rid blocks revs) = Some (r\<lparr>rv_document :=
       (if i = rid then (rv_document r)\<lparr>dc_blocks := blocks\<rparr> else rv_document r)\<rparr>)"
  by (induction rid blocks revs rule: set_blocks.induct) (auto split: if_splits)

lemma keep_document [simp]: "\<exists>d. r = r\<lparr>rv_document := d\<rparr>" for r :: page_revision
  by (rule exI [of _ "rv_document r"]) simp

lemma set_blocks_member:
  assumes "x \<in> set (set_blocks rid blocks revs)"
  shows "\<exists>y \<in> set revs. rv_id y = rv_id x \<and> rv_no y = rv_no x \<and> rv_kind y = rv_kind x \<and> rv_page y = rv_page x"
  using assms by (induction rid blocks revs rule: set_blocks.induct) (auto split: if_splits)

lemma set_blocks_image:
  assumes "y \<in> set revs"
  shows "\<exists>x \<in> set (set_blocks rid blocks revs). rv_id x = rv_id y \<and> rv_no x = rv_no y \<and> rv_kind x = rv_kind y"
  using assms by (induction rid blocks revs rule: set_blocks.induct) auto

lemma heads_ok_image:
  assumes "heads_ok p revs"
    and "\<And>y. y \<in> set revs \<Longrightarrow>
           \<exists>x \<in> set revs'. rv_id x = rv_id y \<and> rv_no x = rv_no y \<and> rv_kind x = rv_kind y"
  shows "heads_ok p revs'"
proof -
  have move: "\<exists>x \<in> set revs'. rv_id x = i \<and> rv_no x = n \<and> rv_kind x = k"
    if "\<exists>y \<in> set revs. rv_id y = i \<and> rv_no y = n \<and> rv_kind y = k" for i n k
    using that assms(2) by metis
  then show ?thesis using assms(1) by (simp add: heads_ok_def split: if_splits)
qed

lemma mem_share_inv:
  assumes "mem_inv s"
  shows "mem_inv (mem_share pid rid blocks s)"
proof -
  let ?s' = "mem_share pid rid blocks s"
  have "page_ok ?s' q" for q
  proof (cases "q = pid")
    case False
    have "page_ok s q" using assms by (simp add: mem_inv_def)
    then show ?thesis using False page_ok_cong [of ?s' q s] by (simp add: mem_share_def)
  next
    case True
    have ok: "page_ok s pid" using assms by (simp add: mem_inv_def)
    show ?thesis
    proof (cases "ms_pages s pid")
      case None
      then show ?thesis using ok True by (simp add: page_ok_def mem_share_def)
    next
      case (Some p)
      then have revs: "revisions_ok p (ms_revisions s pid)" and heads: "heads_ok p (ms_revisions s pid)"
        and "pg_id p = pid"
        using ok by (auto simp: page_ok_def)
      have "revisions_ok p (set_blocks rid blocks (ms_revisions s pid))"
        unfolding revisions_ok_def set_blocks_fields
      proof (intro conjI ballI)
        show "sorted_wrt (<) (map rv_no (ms_revisions s pid))" "distinct (map rv_id (ms_revisions s pid))"
          using revs by (auto simp: revisions_ok_def)
        fix x assume "x \<in> set (set_blocks rid blocks (ms_revisions s pid))"
        then obtain y where "y \<in> set (ms_revisions s pid)" "rv_no y = rv_no x" "rv_page y = rv_page x"
          using set_blocks_member by blast
        then show "rv_page x = pg_id p" "0 < rv_no x" "rv_no x \<le> max (pg_draft_no p) (pg_published_no p)"
          using revs by (auto simp: revisions_ok_def)
      qed
      moreover have "heads_ok p (set_blocks rid blocks (ms_revisions s pid))"
        using heads_ok_image [OF heads set_blocks_image] .
      ultimately show ?thesis using Some True \<open>pg_id p = pid\<close> by (simp add: page_ok_def mem_share_def)
    qed
  qed
  moreover have "idempotencies_ok ?s'"
    unfolding idempotencies_ok_def
  proof (intro allI impI)
    fix k i assume "ms_idempotencies ?s' k = Some i"
    then have "ms_idempotencies s k = Some i" by (simp add: mem_share_def)
    then obtain r where "r \<in> set (ms_revisions s (id_page i))" "rv_id r = id_revision i"
        "rv_no r = id_revision_no i"
      using assms unfolding mem_inv_def idempotencies_ok_def by blast
    then show "\<exists>r \<in> set (ms_revisions ?s' (id_page i)). rv_id r = id_revision i \<and> rv_no r = id_revision_no i"
      using set_blocks_image [of r "ms_revisions s (id_page i)" rid blocks]
      by (auto simp: mem_share_def)
  qed
  ultimately show ?thesis by (simp add: mem_inv_def)
qed

interpretation mem: versioned_store memory_ops mem_inv mem_unused "\<lambda>p. p" "\<lambda>r. r"
proof (unfold_locales, goal_cases)
  case (1 s ws err s')
  then show ?case
    by (auto simp: is_transaction_def mem_draft_tx mem_publish_tx mem_create_tx mem_archive_tx
        split: option.splits if_splits)
next
  case (2 p)
  show ?case by simp
next
  case (3 s pid cur p)
  then show ?case by simp
next
  case (4 r)
  show ?case by simp
next
  case (5 s pid p)
  then show ?case by (auto simp: mem_get_page_iff dest: mem_inv_page(1))
next
  case (6 s pid p)
  then show ?case using mem_heads(3) [of s pid p] by (simp add: mem_get_page_iff)
next
  case (7 s pid p)
  then obtain r where "find (\<lambda>x. rv_id x = pg_draft_id p) (ms_revisions s pid) = Some r"
      "rv_id r = pg_draft_id p" "rv_no r = pg_draft_no p" "rv_kind r = ViewDraft"
    using mem_heads(1) [of s pid p] by (auto simp: mem_get_page_iff)
  with 7 show ?case
    by (intro exI [of _ r]) (simp add: mem_get_page_iff mem_get_by_id_iff mem_get_revision_eq)
next
  case (8 s pid p)
  then obtain r where "find (\<lambda>x. rv_id x = pg_published_id p) (ms_revisions s pid) = Some r"
      "rv_id r = pg_published_id p" "rv_no r = pg_published_no p" "rv_kind r = ViewPublished"
    using mem_heads(2) [of s pid p] by (auto simp: mem_get_page_iff)
  with 8 show ?case
    by (intro exI [of _ r]) (simp add: mem_get_page_iff mem_get_revision_eq)
next
  case (9 s pid key i)
  then have "idempotencies_ok s" and found: "ms_idempotencies s (idempotency_map_key pid key) = Some i"
    by (auto simp: mem_inv_def mem_get_idempotency_def)
  then obtain r where r: "r \<in> set (ms_revisions s (id_page i))" "rv_id r = id_revision i"
      "rv_no r = id_revision_no i"
    by (auto simp: idempotencies_ok_def)
  have "page_ok s (id_page i)" using 9 by (simp add: mem_inv_def)
  then have "distinct (map rv_id (ms_revisions s (id_page i)))"
    by (auto simp: page_ok_def revisions_ok_def split: option.splits)
  then show ?case using r find_revision [of "ms_revisions s (id_page i)" r "id_revision i"]
    by (auto simp: mem_get_by_id_iff)
next
  case (10 s pid rid blocks)
  then show ?case using mem_share_inv by simp
next
  case (11 pid rid blocks s q)
  then show ?case by (simp add: mem_share_def mem_get_page_def)
next
  case (12 pid rid blocks s i)
  then show ?case by (auto simp: mem_share_def mem_unused_def set_blocks_ids)
next
  case (13 s pid rid blocks)
  have "\<exists>d. find (\<lambda>r. rv_id r = i) (if q = pid then set_blocks rid blocks (ms_revisions s pid) else ms_revisions s q)
      = Some (r\<lparr>rv_document := d\<rparr>) \<and> block_texts d = block_texts (rv_document r)"
    if "find (\<lambda>r. rv_id r = i) (ms_revisions s q) = Some r" for q i r
  proof (cases "q = pid \<and> i = rid")
    case True
    then show ?thesis
      using set_blocks_find [OF that, of rid blocks] 13 [of r] that
      by (intro exI [of _ "(rv_document r)\<lparr>dc_blocks := blocks\<rparr>"])
        (simp add: mem_get_by_id_iff block_texts_def)
  next
    case False
    then show ?thesis
      using set_blocks_find [OF that, of rid blocks] that by (intro exI [of _ "rv_document r"]) auto
  qed
  then show ?case by (simp add: keeps_history_def mem_get_by_id_iff mem_share_def)
next
  case (14 s pid p view r)
  then obtain target where "find (\<lambda>x. rv_id x = target) (ms_revisions s pid) = Some r"
    by (auto simp: mem_get_revision_def Let_def split: option.splits if_splits)
  moreover from this have "rv_id r = target" by (auto simp: find_Some_iff)
  ultimately show ?case by (simp add: mem_get_by_id_iff)
next
  case (15 s k p)
  then show ?case by (simp add: mem_unused_def mem_get_page_def)
next
  case (16 s cur r p idem refs base ev s')
  then show ?case using mem_after_draft [of s cur r p idem base refs ev s'] by (simp add: mem_get_page_iff)
next
  case (17 s cur r p refs base ev s')
  then show ?case using mem_after_publish [of s cur r p base refs ev s'] by (simp add: mem_get_page_iff)
next
  case (18 s p r refs ev s')
  then show ?case using mem_after_create [of s p r refs ev s'] by simp
next
  case (19 s cur p base ev s')
  then show ?case using mem_after_archive [of s cur p base ev s'] by (simp add: mem_get_page_iff)
next
  case 20
  then show ?case by (simp add: mem_draft_tx mem_get_page_iff)
next
  case 21
  then show ?case by (simp add: mem_publish_tx mem_get_page_iff)
next
  case 22
  then show ?case by (simp add: mem_archive_tx mem_get_page_iff)
qed

end
