(* ===== verification/PageCommandFacts.thy ===== *)
theory PageCommandFacts
  imports PageCommands MemoryStore
begin

text \<open>
  What the writing use cases do on any page store that keeps the contract: the plans they
  build are steps the contract allows, a stale base is refused without a trace, an
  accepted request keeps the invariant of the service. Proved once in \<open>page_store\<close>.
\<close>

section \<open>The invariant of the service\<close>

text \<open>
  The store is well formed, the identifiers still to be handed out are unused in it, and
  no revision number exceeds the number of identifiers handed out, so that below
  \<open>max_int64\<close> of them the numbering does not wrap around.
\<close>

definition service_ok ::
  "'s store_ops \<Rightarrow> ('s \<Rightarrow> bool) \<Rightarrow> ('s \<Rightarrow> string \<Rightarrow> bool) \<Rightarrow> id_gen \<Rightarrow> ('s, 'r) service \<Rightarrow> bool" where
  "service_ok ops good unused gen sv \<longleftrightarrow>
     good (sv_store sv)
     \<and> (\<forall>n \<ge> sv_next sv. unused (sv_store sv) (gen n))
     \<and> (\<forall>pid p. so_get_page ops (sv_store sv) pid = Inr p \<longrightarrow>
          max (pg_draft_no p) (pg_published_no p) \<le> int (sv_next sv))"

definition gen_ok :: "id_gen \<Rightarrow> bool" where
  "gen_ok gen \<longleftrightarrow> inj gen \<and> (\<forall>n. gen n \<noteq> '''')"

text \<open>A plan for a new draft of the page that was read.\<close>

definition draft_plan_ok :: "id_gen \<Rightarrow> nat \<Rightarrow> nat \<Rightarrow> page \<Rightarrow> write_plan \<Rightarrow> bool" where
  "draft_plan_ok gen n n' cur plan \<longleftrightarrow>
     n < n' \<and> rv_id (wp_revision plan) = gen n
     \<and> rv_no (wp_revision plan) = next_revision_no cur
     \<and> rv_kind (wp_revision plan) = ViewDraft \<and> rv_page (wp_revision plan) = pg_id cur
     \<and> same_identity cur (wp_page plan) \<and> pg_status (wp_page plan) = pg_status cur
     \<and> pg_published_id (wp_page plan) = pg_published_id cur
     \<and> pg_published_no (wp_page plan) = pg_published_no cur
     \<and> pg_draft_id (wp_page plan) = rv_id (wp_revision plan)
     \<and> pg_draft_no (wp_page plan) = rv_no (wp_revision plan)
     \<and> idempotency_for (wp_revision plan) (wp_idempotency plan)
     \<and> refer_to (rv_id (wp_revision plan)) (wp_references plan)
     \<and> map ob_event (wp_events plan)
         = [''page.draft.saved'', ''page.links.extracted'', ''page.attachments.changed'']
     \<and> (\<forall>e \<in> set (wp_events plan). ob_aggregate_id e = pg_id cur \<and> ob_status e = OutboxPending)"

lemma draft_events_shape:
  "draft_events gen n p r refs now = (evs, n') \<Longrightarrow>
     map ob_event evs = [''page.draft.saved'', ''page.links.extracted'', ''page.attachments.changed'']
     \<and> (\<forall>e \<in> set evs. ob_aggregate_id e = pg_id p \<and> ob_status e = OutboxPending)"
  by (auto simp: draft_events_def build_draft_saved_event_def build_reference_events_def Let_def)

lemma extract_next: "extract_references gen n d p r now = (refs, n') \<Longrightarrow> n \<le> n'"
  using extract_references_next [of n gen d p r now] by simp

lemma extract_blocks_refer:
  "refer_to rid (fst acc) \<Longrightarrow> refer_to rid (fst (extract_blocks gen p rid now bs acc))"
proof (induction bs arbitrary: acc)
  case (Cons b bs)
  obtain refs n where acc: "acc = (refs, n)" by (cases acc)
  have "refer_to rid (fst (extract_link gen p rid now b (extract_attachment gen p rid now b (extract_embed gen p rid now b acc))))"
    using Cons.prems
    by (auto simp: acc refer_to_def extract_embed_def extract_attachment_def extract_link_def split: list.splits)
  then show ?case using Cons.IH by simp
qed simp

lemma extract_refer: "extract_references gen n d p rid now = (refs, n') \<Longrightarrow> refer_to rid refs"
  using extract_blocks_refer [of rid "(no_references, n)" gen p now "dc_blocks d"]
  by (simp add: extract_references_def refer_to_def no_references_def)

section \<open>Plans\<close>

lemma autosave_plan_facts:
  assumes "autosave_plan dp now input cur b sv = (Inr plan, sv')" and "au_page input = pg_id cur"
  shows "draft_plan_ok (dp_gen dp) (sv_next sv) (sv_next sv') cur plan"
    and "sv_store sv' = sv_store sv" and "sv_replay sv' = sv_replay sv"
    and "hydrated_copy dp input (canonical_snapshot (au_document input)) (au_page input)
           = Inr (rv_document (wp_revision plan))"
    and "rv_created_via (wp_revision plan) = SourceAutosave"
    and "trim_space (au_key input) \<noteq> '''' \<Longrightarrow>
           \<exists>i. wp_idempotency plan = Some i \<and> id_key i = trim_space (au_key input)"
proof -
  obtain d where d: "hydrated_copy dp input (canonical_snapshot (au_document input)) (au_page input) = Inr d"
    using assms(1) by (auto simp: autosave_plan_def split: sum.splits)
  let ?r = "autosaved_revision input cur b (dp_gen dp (sv_next sv)) d now"
  obtain refs n where refs: "extract_references (dp_gen dp) (sv_next sv + 1) d (au_page input) (rv_id ?r) now
      = (refs, n)"
    by fastforce
  obtain evs m where evs: "draft_events (dp_gen dp) n (with_draft_head ?r (rq_actor input) now cur) ?r refs now
      = (evs, m)"
    by fastforce
  have n: "sv_next sv + 1 \<le> n" using refs by (rule extract_next)
  note shape = draft_events_shape [OF evs] draft_events_next [OF evs]
  have eq: "wp_page plan = with_draft_head ?r (rq_actor input) now cur" "wp_revision plan = ?r"
      "wp_events plan = evs" "wp_references plan = refs" "wp_idempotency plan =
         (if trim_space (au_key input) \<noteq> '''' then
            Some \<lparr>id_page = au_page input, id_key = trim_space (au_key input), id_revision = rv_id ?r,
                  id_revision_no = rv_no ?r, id_created_at = now\<rparr> else None)"
      "sv' = sv\<lparr>sv_next := m\<rparr>"
    using assms(1) d refs evs by (auto simp: autosave_plan_def Let_def split: sum.splits)
  show "draft_plan_ok (dp_gen dp) (sv_next sv) (sv_next sv') cur plan"
    using eq n shape assms(2) extract_refer [OF refs]
    by (auto simp: draft_plan_ok_def autosaved_revision_def with_draft_head_def same_identity_def
          idempotency_for_def)
  show "sv_store sv' = sv_store sv" "sv_replay sv' = sv_replay sv" using eq by simp_all
  show "hydrated_copy dp input (canonical_snapshot (au_document input)) (au_page input)
           = Inr (rv_document (wp_revision plan))"
    using d eq by (simp add: autosaved_revision_def)
  show "rv_created_via (wp_revision plan) = SourceAutosave" using eq by (simp add: autosaved_revision_def)
  show "trim_space (au_key input) \<noteq> '''' \<Longrightarrow>
           \<exists>i. wp_idempotency plan = Some i \<and> id_key i = trim_space (au_key input)"
    using eq by simp
qed

lemma commit_plan_facts:
  assumes "commit_plan dp now input cur b sv = (Inr plan, sv')" and "cm_page input = pg_id cur"
  shows "draft_plan_ok (dp_gen dp) (sv_next sv) (sv_next sv') cur plan"
    and "sv_store sv' = sv_store sv" and "sv_replay sv' = sv_replay sv"
    and "hydrated_copy dp input (canonical_snapshot (cm_document input)) (cm_page input)
           = Inr (rv_document (wp_revision plan))"
    and "trim_space (cm_patch input) \<noteq> '''' \<Longrightarrow> \<exists>i. wp_idempotency plan = Some i
           \<and> id_key i = collab_idempotency_key (trim_space (cm_patch input))"
proof -
  obtain d where d: "hydrated_copy dp input (canonical_snapshot (cm_document input)) (cm_page input) = Inr d"
    using assms(1) by (auto simp: commit_plan_def split: sum.splits)
  let ?r = "committed_revision input cur b (dp_gen dp (sv_next sv)) d now"
  obtain refs n where refs: "extract_references (dp_gen dp) (sv_next sv + 1) d (cm_page input) (rv_id ?r) now
      = (refs, n)"
    by fastforce
  obtain evs m where evs: "draft_events (dp_gen dp) n (with_draft_head ?r (rq_actor input) now cur) ?r refs now
      = (evs, m)"
    by fastforce
  have n: "sv_next sv + 1 \<le> n" using refs by (rule extract_next)
  note shape = draft_events_shape [OF evs] draft_events_next [OF evs]
  have eq: "wp_page plan = with_draft_head ?r (rq_actor input) now cur" "wp_revision plan = ?r"
      "wp_events plan = evs" "wp_references plan = refs" "wp_idempotency plan =
         (if trim_space (cm_patch input) \<noteq> '''' then
            Some \<lparr>id_page = cm_page input, id_key = collab_idempotency_key (trim_space (cm_patch input)),
                  id_revision = rv_id ?r, id_revision_no = rv_no ?r, id_created_at = now\<rparr> else None)"
      "sv' = sv\<lparr>sv_next := m\<rparr>"
    using assms(1) d refs evs by (auto simp: commit_plan_def Let_def)
  show "draft_plan_ok (dp_gen dp) (sv_next sv) (sv_next sv') cur plan"
    using eq n shape assms(2) extract_refer [OF refs]
    by (auto simp: draft_plan_ok_def committed_revision_def with_draft_head_def same_identity_def
          idempotency_for_def)
  show "sv_store sv' = sv_store sv" "sv_replay sv' = sv_replay sv" using eq by simp_all
  show "hydrated_copy dp input (canonical_snapshot (cm_document input)) (cm_page input)
           = Inr (rv_document (wp_revision plan))"
    using d eq by (simp add: committed_revision_def)
  show "trim_space (cm_patch input) \<noteq> '''' \<Longrightarrow> \<exists>i. wp_idempotency plan = Some i
           \<and> id_key i = collab_idempotency_key (trim_space (cm_patch input))"
    using eq by simp
qed

lemma restore_prepare_facts:
  assumes "restore_prepare dp now input sv = (Inr (cur, plan), sv')" and "ro_page input = pg_id cur"
  shows "draft_plan_ok (dp_gen dp) (sv_next sv) (sv_next sv') cur plan"
    and "sv_store sv' = sv_store sv" and "sv_replay sv' = sv_replay sv"
    and "wp_idempotency plan = None"
    and "\<exists>target. restore_base dp input sv = Inr (cur, target)
           \<and> hydrated_copy dp input (canonical_snapshot (rv_document target)) (ro_page input)
               = Inr (rv_document (wp_revision plan))
           \<and> rv_restored_from (wp_revision plan) = rv_id target
           \<and> pg_title (wp_page plan) = rv_title target \<and> rv_title (wp_revision plan) = rv_title target
           \<and> rv_base (wp_revision plan) = pg_draft_id cur"
proof -
  obtain target where base: "restore_base dp input sv = Inr (cur, target)"
    using assms(1) by (auto simp: restore_prepare_def Let_def split: sum.splits option.splits prod.splits)
  obtain d where d: "hydrated_copy dp input (canonical_snapshot (rv_document target)) (ro_page input) = Inr d"
    using assms(1) base by (auto simp: restore_prepare_def split: sum.splits)
  have auth: "authorize_embed_usage dp d (subject_of input (ro_page input)) = None"
    using assms(1) base d by (auto simp: restore_prepare_def split: option.splits)
  let ?r = "restored_revision input cur target (dp_gen dp (sv_next sv)) d now"
  let ?p = "(with_draft_head ?r (rq_actor input) now cur)\<lparr>pg_title := rv_title target\<rparr>"
  obtain refs n where refs: "extract_references (dp_gen dp) (sv_next sv + 1) d (ro_page input) (rv_id ?r) now
      = (refs, n)"
    by fastforce
  obtain evs m where evs: "draft_events (dp_gen dp) n ?p ?r refs now = (evs, m)"
    by fastforce
  have n: "sv_next sv + 1 \<le> n" using refs by (rule extract_next)
  note shape = draft_events_shape [OF evs] draft_events_next [OF evs]
  have eq: "wp_page plan = ?p" "wp_revision plan = ?r" "wp_events plan = evs" "wp_references plan = refs"
      "wp_idempotency plan = None" "sv' = sv\<lparr>sv_next := m\<rparr>"
    using assms(1) base d auth refs evs by (auto simp: restore_prepare_def Let_def split: sum.splits)
  show "draft_plan_ok (dp_gen dp) (sv_next sv) (sv_next sv') cur plan"
    using eq n shape assms(2) extract_refer [OF refs]
    by (auto simp: draft_plan_ok_def restored_revision_def with_draft_head_def same_identity_def
          idempotency_for_def)
  show "sv_store sv' = sv_store sv" "sv_replay sv' = sv_replay sv" "wp_idempotency plan = None"
    using eq by simp_all
  show "\<exists>target. restore_base dp input sv = Inr (cur, target)
           \<and> hydrated_copy dp input (canonical_snapshot (rv_document target)) (ro_page input)
               = Inr (rv_document (wp_revision plan))
           \<and> rv_restored_from (wp_revision plan) = rv_id target
           \<and> pg_title (wp_page plan) = rv_title target \<and> rv_title (wp_revision plan) = rv_title target
           \<and> rv_base (wp_revision plan) = pg_draft_id cur"
    using base d eq by (auto simp: restored_revision_def)
qed

lemma publish_prepare_facts:
  assumes "publish_prepare dp now input sv = (Inr plan, sv')"
  shows "\<exists>cur draft. publish_base dp input sv = Inr (cur, draft)
     \<and> wp_revision plan = published_revision input cur draft (dp_gen dp (sv_next sv)) now
     \<and> wp_page plan = with_published_head (wp_revision plan) (rq_actor input) now cur
     \<and> map ob_event (wp_events plan)
         = [''page.published'', ''page.links.extracted'', ''page.attachments.changed'']
     \<and> (\<forall>e \<in> set (wp_events plan). ob_aggregate_id e = pg_id cur \<and> ob_status e = OutboxPending)
     \<and> refer_to (rv_id (wp_revision plan)) (wp_references plan)
     \<and> sv_store sv' = sv_store sv \<and> sv_replay sv' = sv_replay sv \<and> sv_next sv < sv_next sv'"
proof -
  obtain cur draft where base: "publish_base dp input sv = Inr (cur, draft)"
    using assms by (auto simp: publish_prepare_def split: sum.splits)
  let ?r = "published_revision input cur draft (dp_gen dp (sv_next sv)) now"
  let ?p = "with_published_head ?r (rq_actor input) now cur"
  obtain refs n where refs: "extract_references (dp_gen dp) (sv_next sv + 1) (rv_document ?r) (pu_page input)
      (rv_id ?r) now = (refs, n)"
    by fastforce
  obtain refs2 n2 where refs2: "extract_references (dp_gen dp) n (rv_document ?r) (pg_id ?p)
      (rv_id ?r) now = (refs2, n2)"
    by fastforce
  have "sv_next sv + 1 \<le> n" and "n \<le> n2" using refs refs2 by (auto dest: extract_next)
  then have n: "sv_next sv < n2 + 1 + 2" by simp
  obtain e where e: "build_published_event (dp_gen dp) n ?p ?r now = (e, n2 + 1)"
      "ob_event e = ''page.published''" "ob_aggregate_id e = pg_id ?p" "ob_status e = OutboxPending"
    using refs2 by (simp add: build_published_event_def Let_def)
  have "wp_revision plan = ?r" "wp_page plan = ?p" "wp_references plan = refs"
      "map ob_event (wp_events plan)
         = [''page.published'', ''page.links.extracted'', ''page.attachments.changed'']"
      "\<forall>e \<in> set (wp_events plan). ob_aggregate_id e = pg_id ?p \<and> ob_status e = OutboxPending"
      "sv' = sv\<lparr>sv_next := n2 + 1 + 2\<rparr>"
    using assms base refs e
    by (auto simp: publish_prepare_def Let_def build_reference_events_def)
  then show ?thesis using base n extract_refer [OF refs] by (auto simp: with_published_head_def)
qed

lemma create_prepare_facts:
  assumes "create_prepare dp now input sv = (Inr plan, sv')"
  shows "\<exists>d. create_guard dp input = None
     \<and> hydrated_copy dp input (canonical_snapshot (ci_document input)) (dp_gen dp (sv_next sv)) = Inr d
     \<and> wp_revision plan = first_revision input (dp_gen dp (sv_next sv)) (dp_gen dp (sv_next sv + 1)) d now
     \<and> wp_page plan = new_page input (dp_gen dp (sv_next sv)) (dp_gen dp (sv_next sv + 1)) now
     \<and> map ob_event (wp_events plan) = [''page.created'', ''page.draft.saved'',
          ''page.links.extracted'', ''page.attachments.changed'']
     \<and> refer_to (rv_id (wp_revision plan)) (wp_references plan)
     \<and> sv_store sv' = sv_store sv \<and> sv_replay sv' = sv_replay sv \<and> sv_next sv + 2 \<le> sv_next sv'"
proof -
  have guard: "create_guard dp input = None"
    using assms by (auto simp: create_prepare_def split: option.splits)
  let ?i = "dp_gen dp (sv_next sv)" and ?j = "dp_gen dp (sv_next sv + 1)"
  obtain d where d: "hydrated_copy dp input (canonical_snapshot (ci_document input)) ?i = Inr d"
    using assms guard by (auto simp: create_prepare_def Let_def split: sum.splits)
  obtain refs n where refs: "extract_references (dp_gen dp) (sv_next sv + 2) d ?i ?j now = (refs, n)"
    by fastforce
  have n: "sv_next sv + 2 \<le> n" using refs by (rule extract_next)
  have "wp_revision plan = first_revision input ?i ?j d now" "wp_page plan = new_page input ?i ?j now"
      "wp_references plan = refs"
      "map ob_event (wp_events plan) = [''page.created'', ''page.draft.saved'',
          ''page.links.extracted'', ''page.attachments.changed'']"
      "sv' = sv\<lparr>sv_next := n + 2 + 2\<rparr>"
    using assms guard d refs
    by (auto simp: create_prepare_def Let_def build_create_events_def build_reference_events_def
        split: sum.splits)
  then show ?thesis using guard d n extract_refer [OF refs] by (auto simp: first_revision_def)
qed

lemma archive_prepare_facts:
  assumes "archive_prepare dp now input sv = (Inr (page, event), sv')"
  shows "\<exists>cur. so_get_page (dp_store dp) (sv_store sv) (ar_page_id input) = Inr cur
     \<and> pg_draft_no cur = ar_base input \<and> pg_status cur \<noteq> StatusArchived
     \<and> page = cur\<lparr>pg_status := StatusArchived, pg_updated_by := rq_actor input, pg_updated_at := now\<rparr>
     \<and> ob_event event = ''page.archived'' \<and> ob_aggregate_id event = pg_id cur
     \<and> sv_store sv' = sv_store sv \<and> sv_replay sv' = sv_replay sv \<and> sv_next sv < sv_next sv'"
  using assms
  by (auto simp: archive_prepare_def Let_def build_archived_event_def split: option.splits sum.splits if_splits)

lemma autosave_prepare_cases:
  assumes "autosave_prepare dp now input sv = (Inr plan, sv')"
  shows "\<exists>cur b. so_get_page (dp_store dp) (sv_store sv) (au_page input) = Inr cur
     \<and> pg_draft_no cur = au_base input \<and> pg_status cur \<noteq> StatusArchived
     \<and> so_get_revision (dp_store dp) (sv_store sv) (au_page input) ViewDraft = Inr b
     \<and> autosave_plan dp now input cur b sv = (Inr plan, sv')"
proof -
  obtain sv1 where guard: "autosave_guard dp input sv = (None, sv1)"
    using assms by (auto simp: autosave_prepare_def split: prod.splits option.splits)
  then have "sv1 = sv"
    by (auto simp: autosave_guard_def Let_def split: if_splits option.splits)
  with guard assms obtain cur b where base: "autosave_base dp input sv = (Inr (cur, b), sv)"
    and plan: "autosave_plan dp now input cur b sv = (Inr plan, sv')"
    by (auto simp: autosave_prepare_def autosave_base_def
        split: prod.splits sum.splits store_error.splits option.splits if_splits)
  from base have "so_get_page (dp_store dp) (sv_store sv) (au_page input) = Inr cur
     \<and> pg_draft_no cur = au_base input \<and> pg_status cur \<noteq> StatusArchived
     \<and> so_get_revision (dp_store dp) (sv_store sv) (au_page input) ViewDraft = Inr b"
    by (auto simp: autosave_base_def ensure_page_mutable_def
        split: sum.splits store_error.splits option.splits if_splits)
  with plan show ?thesis by blast
qed

lemma commit_prepare_cases:
  assumes "commit_prepare dp now input sv = (Inr (cur, plan), sv')"
  shows "\<exists>b. so_get_page (dp_store dp) (sv_store sv) (cm_page input) = Inr cur
     \<and> pg_draft_no cur = cm_base input \<and> pg_status cur \<noteq> StatusArchived
     \<and> so_get_revision (dp_store dp) (sv_store sv) (cm_page input) ViewDraft = Inr b
     \<and> commit_plan dp now input cur b sv = (Inr plan, sv')"
proof -
  from assms obtain b where base: "commit_base dp input sv = Inr (cur, b)"
    and plan: "commit_plan dp now input cur b sv = (Inr plan, sv')"
    by (auto simp: commit_prepare_def split: option.splits sum.splits prod.splits)
  from base show ?thesis
    using plan
    by (auto simp: commit_base_def ensure_page_mutable_def split: sum.splits option.splits if_splits)
qed

lemma restore_base_cases:
  assumes "restore_base dp input sv = Inr (cur, target)"
  shows "so_get_page (dp_store dp) (sv_store sv) (ro_page input) = Inr cur"
    and "pg_status cur \<noteq> StatusArchived"
    and "so_get_revision_by_id (dp_store dp) (sv_store sv) (ro_page input) (ro_revision input) = Inr target"
  using assms
  by (auto simp: restore_base_def ensure_page_mutable_def split: sum.splits option.splits if_splits)

lemma publish_base_cases:
  assumes "publish_base dp input sv = Inr (cur, draft)"
  shows "so_get_page (dp_store dp) (sv_store sv) (pu_page input) = Inr cur"
    and "pg_status cur \<noteq> StatusArchived" and "pg_draft_no cur = pu_base input"
    and "so_get_revision (dp_store dp) (sv_store sv) (pu_page input) ViewDraft = Inr draft"
  using assms
  by (auto simp: publish_base_def ensure_page_mutable_def split: sum.splits option.splits if_splits)

section \<open>On any page store\<close>

context page_store
begin

lemma numbers_fit:
  assumes "service_ok ops inv unused gen sv" and "int (sv_next sv) < max_int64"
    and "so_get_page ops (sv_store sv) pid = Inr cur"
  shows "next_revision_no cur = max (pg_draft_no cur) (pg_published_no cur) + 1"
    and "next_revision_no cur \<le> int (sv_next sv) + 1"
proof -
  have "0 < pg_draft_no cur \<and> 0 \<le> pg_published_no cur"
    using assms(1,3) page_numbers by (auto simp: service_ok_def)
  moreover have le: "max (pg_draft_no cur) (pg_published_no cur) \<le> int (sv_next sv)"
    using assms(1,3) by (auto simp: service_ok_def)
  ultimately show eq: "next_revision_no cur = max (pg_draft_no cur) (pg_published_no cur) + 1"
    using assms(2) by (intro next_revision_no_above) auto
  show "next_revision_no cur \<le> int (sv_next sv) + 1" using eq le by simp
qed

text \<open>A plan made on the current page is a step the store's contract allows.\<close>

lemma plan_is_step:
  assumes "service_ok ops inv unused gen sv" and "int (sv_next sv) < max_int64"
    and "so_get_page ops (sv_store sv) pid = Inr cur"
    and "draft_plan_ok gen (sv_next sv) n' cur plan"
  shows "draft_step cur (wp_page plan) (wp_revision plan) (wp_idempotency plan)"
  using numbers_fit(1) [OF assms(1-3)] assms(4) by (auto simp: draft_step_def draft_plan_ok_def)

text \<open>An accepted transaction on a page keeps the invariant of the service.\<close>

lemma service_after_write:
  assumes "service_ok ops inv unused gen sv" and "gen_ok gen"
    and "inv s'" and "so_get_page ops s' pid = Inr p" and "other_pages_same ops pid (sv_store sv) s'"
    and "keeps_unused unused new (sv_store sv) s'"
    and "new \<subseteq> gen ` {..<n'}" and "sv_next sv \<le> n'"
    and "max (pg_draft_no p) (pg_published_no p) \<le> int n'"
    and "sv_store sv' = s'" and "sv_next sv' = n'"
  shows "service_ok ops inv unused gen sv'"
proof -
  have "unused s' (gen n)" if "n' \<le> n" for n
  proof -
    have "unused (sv_store sv) (gen n)" using assms(1,8) that by (auto simp: service_ok_def)
    moreover have "gen n \<notin> new"
    proof
      assume "gen n \<in> new"
      then obtain m where "m < n'" "gen n = gen m" using assms(7) by auto
      moreover have "n = m" using \<open>gen n = gen m\<close> assms(2) by (auto simp: gen_ok_def dest: injD)
      ultimately show False using that by simp
    qed
    ultimately show ?thesis using assms(6) by (auto simp: keeps_unused_def)
  qed
  moreover have "max (pg_draft_no q) (pg_published_no q) \<le> int n'"
    if "so_get_page ops s' i = Inr q" for i q
  proof (cases "i = pid")
    case True
    then show ?thesis using that assms(4,9) by simp
  next
    case False
    then have "so_get_page ops (sv_store sv) i = Inr q" using that assms(5) by (simp add: other_pages_same_def)
    then have "max (pg_draft_no q) (pg_published_no q) \<le> int (sv_next sv)"
      using assms(1) by (auto simp: service_ok_def)
    then show ?thesis using assms(8) by linarith
  qed
  ultimately show ?thesis using assms(3,10,11) by (auto simp: service_ok_def)
qed

lemma service_ok_more:
  assumes "service_ok ops inv unused gen sv" and "sv_store sv' = sv_store sv" and "sv_next sv \<le> sv_next sv'"
  shows "service_ok ops inv unused gen sv'"
  using assms by (fastforce simp: service_ok_def)

text \<open>What follows when a draft plan is stored on the state it was made for.\<close>

lemma draft_plan_stored:
  assumes ok: "service_ok ops inv unused gen sv" and gen: "gen_ok gen"
    and bound: "int (sv_next sv) < max_int64"
    and cur: "so_get_page ops (sv_store sv) pid = Inr cur"
    and plan: "draft_plan_ok gen (sv_next sv) n' cur plan"
    and exec: "so_execute ops (draft_tx base (wp_page plan) (wp_revision plan) (wp_idempotency plan) (wp_references plan) ev)
                 (sv_store sv) = (None, s')"
    and sv': "sv_store sv' = s'" "sv_next sv' = n'"
  shows "service_ok ops inv unused gen sv'"
    and "so_get_page ops s' pid = Inr (kept (wp_page plan))"
    and "so_get_revision ops s' pid ViewDraft = Inr (kept_revision (wp_revision plan))"
    and "so_get_revision_by_id ops s' pid (rv_id (wp_revision plan)) = Inr (kept_revision (wp_revision plan))"
    and "rv_no (wp_revision plan) = max (pg_draft_no cur) (pg_published_no cur) + 1"
    and "keeps_revisions ops (sv_store sv) s'" and "other_pages_same ops pid (sv_store sv) s'"
proof -
  have inv: "inv (sv_store sv)" using ok by (simp add: service_ok_def)
  have id: "pg_id cur = pid" using page_key [OF inv cur] .
  have new: "rv_id (wp_revision plan) = gen (sv_next sv)" and n': "sv_next sv < n'"
    and no: "rv_no (wp_revision plan) = next_revision_no cur"
    and refer: "refer_to (rv_id (wp_revision plan)) (wp_references plan)"
    using plan by (auto simp: draft_plan_ok_def)
  have fresh: "unused (sv_store sv) (rv_id (wp_revision plan))"
    using ok new by (simp add: service_ok_def)
  note step = plan_is_step [OF ok bound cur plan]
  have cur': "so_get_page ops (sv_store sv) (pg_id cur) = Inr cur" using cur id by simp
  have stored: "inv s' \<and> so_get_page ops s' (pg_id cur) = Inr (kept (wp_page plan))
      \<and> so_get_revision ops s' (pg_id cur) ViewDraft = Inr (kept_revision (wp_revision plan))
      \<and> so_get_revision_by_id ops s' (pg_id cur) (rv_id (wp_revision plan)) = Inr (kept_revision (wp_revision plan))
      \<and> keeps_revisions ops (sv_store sv) s' \<and> other_pages_same ops (pg_id cur) (sv_store sv) s'
      \<and> keeps_unused unused {rv_id (wp_revision plan)} (sv_store sv) s'"
    by (rule draft_done [OF inv cur' fresh step refer exec])
  then show "so_get_page ops s' pid = Inr (kept (wp_page plan))"
    "so_get_revision ops s' pid ViewDraft = Inr (kept_revision (wp_revision plan))"
    "so_get_revision_by_id ops s' pid (rv_id (wp_revision plan)) = Inr (kept_revision (wp_revision plan))"
    "keeps_revisions ops (sv_store sv) s'" "other_pages_same ops pid (sv_store sv) s'"
    using id by simp_all
  show "rv_no (wp_revision plan) = max (pg_draft_no cur) (pg_published_no cur) + 1"
    using numbers_fit(1) [OF ok bound cur] no by simp
  have "max (pg_draft_no (wp_page plan)) (pg_published_no (wp_page plan)) \<le> int n'"
    using numbers_fit [OF ok bound cur] plan n' by (auto simp: draft_plan_ok_def)
  then have "max (pg_draft_no (kept (wp_page plan))) (pg_published_no (kept (wp_page plan))) \<le> int n'"
    by (simp only: kept_simps)
  moreover have "{rv_id (wp_revision plan)} \<subseteq> gen ` {..<n'}" using new n' by auto
  ultimately show "service_ok ops inv unused gen sv'"
    using stored id n' sv' by (intro service_after_write [OF ok gen, of s' pid "kept (wp_page plan)"
        "{rv_id (wp_revision plan)}" n']) auto
qed

end

end
