(* ===== verification/PageReachability.thy ===== *)
theory PageReachability
  imports PageQueries PageCommandFacts
begin

text \<open>
  The page service as a transition system: one step serves one request, whichever use case
  it is for. What a request may do to a store that keeps the contract (\<open>request_effect\<close>),
  and what therefore holds in every state that requests can reach.
\<close>

section \<open>Requests\<close>

datatype page_request =
    CreateRequest create_input
  | AutosaveRequest autosave_input
  | CommitRequest commit_input
  | RestoreRequest restore_input
  | PublishRequest publish_input
  | ArchiveRequest archive_input
  | GetRequest get_input
  | HeadRequest request string
  | RecoverRequest request string
  | ResumeRequest resume_input

fun error_of :: "(page_error + 'a) \<times> ('s, 'r) service \<Rightarrow> page_error option \<times> ('s, 'r) service" where
  "error_of (Inl err, sv) = (Some err, sv)"
| "error_of (Inr _, sv) = (None, sv)"

fun run_request ::
  "('s, 'r) deps \<Rightarrow> gotime \<Rightarrow> page_request \<Rightarrow> ('s, 'r) service \<Rightarrow> page_error option \<times> ('s, 'r) service" where
  "run_request dp now (CreateRequest i) sv = error_of (create_page dp now i sv)"
| "run_request dp now (AutosaveRequest i) sv = error_of (autosave_draft dp now i sv)"
| "run_request dp now (CommitRequest i) sv = error_of (commit_collaborative_revision dp now i sv)"
| "run_request dp now (RestoreRequest i) sv = error_of (restore_revision dp now i sv)"
| "run_request dp now (PublishRequest i) sv = error_of (publish_page dp now i sv)"
| "run_request dp now (ArchiveRequest i) sv = error_of (archive_page dp now i sv)"
| "run_request dp now (GetRequest i) sv = error_of (get_page dp i sv)"
| "run_request dp now (HeadRequest i p) sv = error_of (get_revision_head dp i p sv)"
| "run_request dp now (RecoverRequest i p) sv = error_of (recover_draft dp i p sv)"
| "run_request dp now (ResumeRequest i) sv = error_of (resume_editor_sync dp i sv)"

section \<open>What a request may do\<close>

definition page_evolution :: "page \<Rightarrow> page \<Rightarrow> bool" where
  "page_evolution p p' \<longleftrightarrow> same_identity p p'
     \<and> (pg_status p = StatusArchived \<longrightarrow> p' = p)
     \<and> pg_draft_no p \<le> pg_draft_no p' \<and> pg_published_no p \<le> pg_published_no p'
     \<and> (pg_published_id p \<noteq> '''' \<longrightarrow> pg_published_id p' \<noteq> '''')"

lemma page_evolution_refl [simp]: "page_evolution p p"
  by (simp add: page_evolution_def same_identity_def)

lemma page_evolution_trans: "page_evolution p q \<Longrightarrow> page_evolution q r \<Longrightarrow> page_evolution p r"
  by (auto simp: page_evolution_def same_identity_def)

definition pages_evolve :: "'s store_ops \<Rightarrow> 's \<Rightarrow> 's \<Rightarrow> bool" where
  "pages_evolve ops s s' \<longleftrightarrow> (\<forall>pid p. so_get_page ops s pid = Inr p \<longrightarrow>
     (\<exists>p'. so_get_page ops s' pid = Inr p' \<and> page_evolution p p'))"

lemma pages_evolve_refl [simp]: "pages_evolve ops s s"
  by (auto simp: pages_evolve_def)

lemma pages_evolve_trans: "pages_evolve ops s t \<Longrightarrow> pages_evolve ops t u \<Longrightarrow> pages_evolve ops s u"
  unfolding pages_evolve_def by (meson page_evolution_trans)

text \<open>One page changes, as allowed.\<close>

lemma pages_evolve_one:
  assumes "other_pages_same ops pid s s'"
    and "\<And>p. so_get_page ops s pid = Inr p \<Longrightarrow> \<exists>p'. so_get_page ops s' pid = Inr p' \<and> page_evolution p p'"
  shows "pages_evolve ops s s'"
  unfolding pages_evolve_def
proof (intro allI impI)
  fix q p assume "so_get_page ops s q = Inr p"
  then show "\<exists>p'. so_get_page ops s' q = Inr p' \<and> page_evolution p p'"
    using assms by (cases "q = pid") (auto simp: other_pages_same_def)
qed

definition request_effect ::
  "'s store_ops \<Rightarrow> ('s \<Rightarrow> bool) \<Rightarrow> ('s \<Rightarrow> string \<Rightarrow> bool) \<Rightarrow> id_gen \<Rightarrow>
   ('s, 'r) service \<Rightarrow> ('s, 'r) service \<Rightarrow> bool" where
  "request_effect ops good unused gen sv sv' \<longleftrightarrow>
     service_ok ops good unused gen sv' \<and> sv_next sv \<le> sv_next sv'
     \<and> pages_evolve ops (sv_store sv) (sv_store sv')
     \<and> keeps_history ops (sv_store sv) (sv_store sv')"

lemma request_effect_trans:
  "request_effect ops good unused gen sv sv1 \<Longrightarrow> request_effect ops good unused gen sv1 sv2 \<Longrightarrow>
   request_effect ops good unused gen sv sv2"
  by (auto simp: request_effect_def intro: pages_evolve_trans keeps_history_trans)

section \<open>Preparing changes nothing but counters\<close>

definition quiet :: "('s, 'r) service \<Rightarrow> ('s, 'r) service \<Rightarrow> bool" where
  "quiet sv sv' \<longleftrightarrow> sv_store sv' = sv_store sv \<and> sv_replay sv' = sv_replay sv \<and> sv_next sv \<le> sv_next sv'"

lemma quiet_refl [simp]: "quiet sv sv"
  by (simp add: quiet_def)

lemma quiet_simps [simp]:
  "quiet sv (observe_save l sv') = quiet sv sv'" "quiet sv (count_conflict sv') = quiet sv sv'"
  by (simp_all add: quiet_def)

lemma quiet_next: "sv_next sv \<le> n \<Longrightarrow> quiet sv (sv\<lparr>sv_next := n\<rparr>)"
  by (simp add: quiet_def)

lemma snd_case_sum [simp]:
  "snd (case x of (r, sv) \<Rightarrow> (case r of Inl e \<Rightarrow> (f e, sv) | Inr y \<Rightarrow> (g y, sv))) = snd x"
  by (simp split: prod.splits sum.splits)

lemma autosave_guard_quiet:
  "fst (autosave_guard dp input sv) = None \<Longrightarrow> snd (autosave_guard dp input sv) = sv"
  "quiet sv (snd (autosave_guard dp input sv))"
  by (auto simp: autosave_guard_def Let_def split: option.splits if_splits)

lemma autosave_base_quiet:
  "fst (autosave_base dp input sv) = Inr x \<Longrightarrow> snd (autosave_base dp input sv) = sv"
  "quiet sv (snd (autosave_base dp input sv))"
  by (auto simp: autosave_base_def split: option.splits sum.splits store_error.splits if_splits)

lemma autosave_plan_quiet: "quiet sv (snd (autosave_plan dp now input cur b sv))"
  by (auto simp: autosave_plan_def Let_def quiet_def split: sum.splits prod.splits
      dest!: draft_events_next extract_next)

lemma autosave_prepare_quiet: "quiet sv (snd (autosave_prepare dp now input sv))"
proof (cases "fst (autosave_guard dp input sv)")
  case (Some reply)
  then show ?thesis using autosave_guard_quiet(2) [of sv dp input]
    by (cases "autosave_guard dp input sv") (simp add: autosave_prepare_def)
next
  case None
  then have guard: "autosave_guard dp input sv = (None, sv)"
    using autosave_guard_quiet(1) [OF None] by (cases "autosave_guard dp input sv") simp
  show ?thesis
  proof (cases "fst (autosave_base dp input sv)")
    case (Inl err)
    then show ?thesis using guard autosave_base_quiet(2) [of sv dp input]
      by (cases "autosave_base dp input sv") (simp add: autosave_prepare_def)
  next
    case (Inr x)
    then have "autosave_base dp input sv = (Inr x, sv)"
      using autosave_base_quiet(1) [OF Inr] by (cases "autosave_base dp input sv") simp
    then show ?thesis using guard autosave_plan_quiet
      by (cases x) (simp add: autosave_prepare_def)
  qed
qed

lemma commit_plan_quiet: "quiet sv (snd (commit_plan dp now input cur b sv))"
  by (auto simp: commit_plan_def Let_def quiet_def split: sum.splits prod.splits
      dest!: draft_events_next extract_next)

lemma commit_prepare_quiet: "quiet sv (snd (commit_prepare dp now input sv))"
proof (cases "commit_base dp input sv")
  case (Inl err)
  then show ?thesis by (simp add: commit_prepare_def split: option.splits)
next
  case (Inr x)
  then show ?thesis
    by (cases x) (simp add: commit_prepare_def commit_plan_quiet split: option.splits)
qed

lemma restore_prepare_quiet: "quiet sv (snd (restore_prepare dp now input sv))"
  by (auto simp: restore_prepare_def Let_def quiet_def split: sum.splits prod.splits option.splits
      dest!: draft_events_next extract_next)

lemma publish_prepare_quiet: "quiet sv (snd (publish_prepare dp now input sv))"
  by (auto simp: publish_prepare_def Let_def quiet_def build_published_event_def
      build_reference_events_def split: sum.splits prod.splits dest!: extract_next)

lemma create_prepare_quiet: "quiet sv (snd (create_prepare dp now input sv))"
  by (auto simp: create_prepare_def Let_def quiet_def build_create_events_def
      build_reference_events_def split: sum.splits prod.splits option.splits dest!: extract_next)

lemma archive_prepare_quiet: "quiet sv (snd (archive_prepare dp now input sv))"
  by (auto simp: archive_prepare_def Let_def quiet_def build_archived_event_def
      split: sum.splits option.splits)

section \<open>Committing runs the transaction\<close>

lemma autosave_commit_store:
  "sv_store (snd (autosave_commit dp now input plan sv)) = snd (so_execute (dp_store dp)
     (draft_tx (au_base input) (wp_page plan) (wp_revision plan) (wp_idempotency plan)
        (wp_references plan) (wp_events plan)) (sv_store sv))"
  "sv_next (snd (autosave_commit dp now input plan sv)) = sv_next sv"
  by (auto simp: autosave_commit_def Let_def split: prod.splits option.splits store_error.splits sum.splits)

lemma commit_commit_store:
  "sv_store (snd (commit_commit dp now input page plan sv)) = snd (so_execute (dp_store dp)
     (draft_tx (cm_base input) (wp_page plan) (wp_revision plan) (wp_idempotency plan)
        (wp_references plan) (wp_events plan)) (sv_store sv))"
  "sv_next (snd (commit_commit dp now input page plan sv)) = sv_next sv"
  by (auto simp: commit_commit_def Let_def split: prod.splits option.splits store_error.splits)

lemma restore_commit_store:
  "sv_store (snd (restore_commit dp now input page plan sv)) = snd (so_execute (dp_store dp)
     (draft_tx (pg_draft_no page) (wp_page plan) (wp_revision plan) None
        (wp_references plan) (wp_events plan)) (sv_store sv))"
  "sv_next (snd (restore_commit dp now input page plan sv)) = sv_next sv"
  by (auto simp: restore_commit_def split: prod.splits option.splits)

lemma publish_commit_store:
  "sv_store (snd (publish_commit dp now input plan sv)) = snd (so_execute (dp_store dp)
     (publish_tx (pu_base input) (wp_page plan) (wp_revision plan) (wp_references plan)
        (wp_events plan)) (sv_store sv))"
  "sv_next (snd (publish_commit dp now input plan sv)) = sv_next sv"
  by (auto simp: publish_commit_def Let_def split: prod.splits option.splits store_error.splits sum.splits)

lemma create_commit_store:
  "sv_store (snd (create_commit dp plan sv)) = snd (so_execute (dp_store dp)
     (create_tx (wp_page plan) (wp_revision plan) (wp_references plan) (wp_events plan)) (sv_store sv))"
  "sv_next (snd (create_commit dp plan sv)) = sv_next sv"
  by (auto simp: create_commit_def split: prod.splits option.splits)

lemma archive_commit_store:
  "sv_store (snd (archive_commit dp now input page event sv)) =
     snd (so_execute (dp_store dp) (archive_tx (ar_base input) page [event]) (sv_store sv))"
  "sv_next (snd (archive_commit dp now input page event sv)) = sv_next sv"
  by (auto simp: archive_commit_def Let_def split: prod.splits option.splits store_error.splits sum.splits)

section \<open>The effect of each request\<close>

context page_store
begin

abbreviation effect :: "id_gen \<Rightarrow> ('s, 'r) service \<Rightarrow> ('s, 'r) service \<Rightarrow> bool" where
  "effect \<equiv> request_effect ops inv unused"

lemma effect_quiet:
  assumes "service_ok ops inv unused gen sv" and "sv_store sv' = sv_store sv" and "sv_next sv \<le> sv_next sv'"
  shows "effect gen sv sv'"
  using assms service_ok_more [OF assms] by (simp add: request_effect_def keeps_history_refl)

lemma effect_share:
  assumes ok: "service_ok ops inv unused gen sv" and "sv' = sv\<lparr>sv_store := so_share ops pid rid blocks (sv_store sv)\<rparr>"
    and same: "\<And>r. so_get_revision_by_id ops (sv_store sv) pid rid = Inr r \<Longrightarrow>
      texts_of blocks = block_texts (rv_document r)"
  shows "effect gen sv sv'"
proof -
  have "service_ok ops inv unused gen sv'"
    using assms(1,2) share_inv by (simp add: service_ok_def share_pages share_unused)
  moreover have "pages_evolve ops (sv_store sv) (sv_store sv')"
    using assms(2) by (simp add: pages_evolve_def share_pages)
  ultimately show ?thesis using assms(2) share_history [OF same] by (simp add: request_effect_def)
qed

lemma kept_evolution:
  assumes "inv s" and "so_get_page ops s pid = Inr cur" and "pg_status cur \<noteq> StatusArchived"
    and "page_evolution cur p"
  shows "page_evolution cur (kept p)"
  using assms kept_identity [OF assms(1,2)] by (simp add: page_evolution_def kept_simps)

lemma effect_draft:
  assumes ok: "service_ok ops inv unused gen sv" and gen: "gen_ok gen"
    and bound: "int (sv_next sv) < max_int64"
    and cur: "so_get_page ops (sv_store sv) pid = Inr cur" and live: "pg_status cur \<noteq> StatusArchived"
    and plan: "draft_plan_ok gen (sv_next sv) (sv_next sv') cur plan"
    and sv': "sv_store sv' = snd (so_execute ops
                (draft_tx base (wp_page plan) (wp_revision plan) (wp_idempotency plan) (wp_references plan) ev) (sv_store sv))"
  shows "effect gen sv sv'"
proof (cases "so_execute ops (draft_tx base (wp_page plan) (wp_revision plan) (wp_idempotency plan) (wp_references plan) ev)
                (sv_store sv)")
  case exec: (Pair err s')
  have le: "sv_next sv \<le> sv_next sv'" using plan by (simp add: draft_plan_ok_def)
  have s': "sv_store sv' = s'" using sv' exec by simp
  show ?thesis
  proof (cases err)
    case (Some e)
    have "inv (sv_store sv)" using ok by (simp add: service_ok_def)
    then have "s' = sv_store sv" using rollback exec Some by (metis is_transaction_txs(1))
    then show ?thesis using s' le by (intro effect_quiet [OF ok]) simp_all
  next
    case None
    note stored = draft_plan_stored [OF ok gen bound cur plan exec [unfolded None] s' refl]
    have "page_evolution cur (wp_page plan)"
      using plan live stored(5) by (auto simp: page_evolution_def draft_plan_ok_def)
    with ok have "page_evolution cur (kept (wp_page plan))"
      by (intro kept_evolution [OF _ cur live]) (simp_all add: service_ok_def)
    then have "pages_evolve ops (sv_store sv) s'"
      using cur stored(2) by (intro pages_evolve_one [OF stored(7)]) auto
    then show ?thesis
      using stored(1,6) le s' by (simp add: request_effect_def keeps_history_revisions)
  qed
qed

lemma autosave_effect:
  assumes ok: "service_ok ops inv unused (dp_gen dp) sv" and gen: "gen_ok (dp_gen dp)"
    and bound: "int (sv_next sv) < max_int64" and dp: "dp_store dp = ops"
  shows "effect (dp_gen dp) sv (snd (autosave_draft dp now input sv))"
proof (cases "autosave_prepare dp now input sv")
  case prep: (Pair x sv1)
  have quiet: "quiet sv sv1" using autosave_prepare_quiet [of sv dp now input] prep by simp
  show ?thesis
  proof (cases x)
    case (Inl reply)
    then show ?thesis using prep quiet
      by (intro effect_quiet [OF ok]) (simp_all add: autosave_draft_def quiet_def)
  next
    case (Inr plan)
    obtain cur b where cur: "so_get_page ops (sv_store sv) (au_page input) = Inr cur"
        "pg_status cur \<noteq> StatusArchived" and plan: "autosave_plan dp now input cur b sv = (Inr plan, sv1)"
      using autosave_prepare_cases prep Inr dp by metis
    have "au_page input = pg_id cur" using page_key cur(1) ok by (auto simp: service_ok_def)
    note facts = autosave_plan_facts [OF plan this]
    show ?thesis
      by (rule effect_draft [OF ok gen bound cur])
         (use facts(1,2) prep Inr dp autosave_commit_store [of dp now input plan sv1]
           in \<open>simp_all add: autosave_draft_def\<close>)
  qed
qed

lemma commit_effect:
  assumes ok: "service_ok ops inv unused (dp_gen dp) sv" and gen: "gen_ok (dp_gen dp)"
    and bound: "int (sv_next sv) < max_int64" and dp: "dp_store dp = ops"
  shows "effect (dp_gen dp) sv (snd (commit_collaborative_revision dp now input sv))"
proof (cases "commit_prepare dp now input sv")
  case prep: (Pair x sv1)
  have quiet: "quiet sv sv1" using commit_prepare_quiet [of sv dp now input] prep by simp
  show ?thesis
  proof (cases x)
    case (Inl reply)
    then show ?thesis using prep quiet
      by (intro effect_quiet [OF ok]) (simp_all add: commit_collaborative_revision_def quiet_def)
  next
    case (Inr cp)
    obtain cur plan where cp: "cp = (cur, plan)" by (cases cp)
    obtain b where cur: "so_get_page ops (sv_store sv) (cm_page input) = Inr cur"
        "pg_status cur \<noteq> StatusArchived" and plan: "commit_plan dp now input cur b sv = (Inr plan, sv1)"
      using commit_prepare_cases prep Inr cp dp by metis
    have "cm_page input = pg_id cur" using page_key cur(1) ok by (auto simp: service_ok_def)
    note facts = commit_plan_facts [OF plan this]
    show ?thesis
      by (rule effect_draft [OF ok gen bound cur])
         (use facts(1,2) prep Inr cp dp commit_commit_store [of dp now input cur plan sv1]
           in \<open>simp_all add: commit_collaborative_revision_def\<close>)
  qed
qed

lemma restore_effect:
  assumes ok: "service_ok ops inv unused (dp_gen dp) sv" and gen: "gen_ok (dp_gen dp)"
    and bound: "int (sv_next sv) < max_int64" and dp: "dp_store dp = ops"
  shows "effect (dp_gen dp) sv (snd (restore_revision dp now input sv))"
proof (cases "restore_prepare dp now input sv")
  case prep: (Pair x sv1)
  have quiet: "quiet sv sv1" using restore_prepare_quiet [of sv dp now input] prep by simp
  show ?thesis
  proof (cases x)
    case (Inl reply)
    then show ?thesis using prep quiet
      by (intro effect_quiet [OF ok]) (simp_all add: restore_revision_def quiet_def)
  next
    case (Inr cp)
    obtain cur plan where cp: "cp = (cur, plan)" by (cases cp)
    obtain target where "restore_base dp input sv = Inr (cur, target)"
      using prep Inr cp by (auto simp: restore_prepare_def Let_def split: sum.splits option.splits prod.splits)
    then have cur: "so_get_page ops (sv_store sv) (ro_page input) = Inr cur" "pg_status cur \<noteq> StatusArchived"
      using restore_base_cases dp by metis+
    have "ro_page input = pg_id cur" using page_key cur(1) ok by (auto simp: service_ok_def)
    note facts = restore_prepare_facts [OF prep [unfolded Inr cp] this]
    have res: "snd (restore_revision dp now input sv) = snd (restore_commit dp now input cur plan sv1)"
      using prep Inr cp by (simp add: restore_revision_def)
    have nxt: "sv_next (snd (restore_revision dp now input sv)) = sv_next sv1"
      by (simp add: res restore_commit_store)
    have store: "sv_store (snd (restore_revision dp now input sv)) = snd (so_execute ops
        (draft_tx (pg_draft_no cur) (wp_page plan) (wp_revision plan) (wp_idempotency plan)
           (wp_references plan) (wp_events plan)) (sv_store sv))"
      by (simp add: res restore_commit_store facts(2,4) dp)
    show ?thesis
      by (rule effect_draft [OF ok gen bound cur _ store]) (simp add: facts(1) nxt)
  qed
qed

lemma publish_effect:
  assumes ok: "service_ok ops inv unused (dp_gen dp) sv" and gen: "gen_ok (dp_gen dp)"
    and bound: "int (sv_next sv) < max_int64" and dp: "dp_store dp = ops"
  shows "effect (dp_gen dp) sv (snd (publish_page dp now input sv))"
proof (cases "publish_prepare dp now input sv")
  case prep: (Pair x sv1)
  have quiet: "quiet sv sv1" using publish_prepare_quiet [of sv dp now input] prep by simp
  show ?thesis
  proof (cases x)
    case (Inl reply)
    then show ?thesis using prep quiet
      by (intro effect_quiet [OF ok]) (simp_all add: publish_page_def quiet_def)
  next
    case (Inr plan)
    obtain cur draft where base: "publish_base dp input sv = Inr (cur, draft)"
      and rev: "wp_revision plan = published_revision input cur draft (dp_gen dp (sv_next sv)) now"
      and page: "wp_page plan = with_published_head (wp_revision plan) (rq_actor input) now cur"
      and refer: "refer_to (rv_id (wp_revision plan)) (wp_references plan)"
      and less: "sv_next sv < sv_next sv1"
      using publish_prepare_facts [OF prep [unfolded Inr]] by blast
    have cur: "so_get_page ops (sv_store sv) (pu_page input) = Inr cur" "pg_status cur \<noteq> StatusArchived"
      using publish_base_cases [OF base] dp by simp_all
    have inv: "inv (sv_store sv)" using ok by (simp add: service_ok_def)
    have id: "pg_id cur = pu_page input" using page_key [OF inv cur(1)] .
    note fit = numbers_fit [OF ok bound cur(1)]
    have step: "publish_step cur (wp_page plan) (wp_revision plan)"
      using rev page fit(1) id gen
      by (auto simp: publish_step_def published_revision_def with_published_head_def same_identity_def
          gen_ok_def)
    have evo: "page_evolution cur (kept (wp_page plan))"
      using step cur(2) by (intro kept_evolution [OF inv cur]) (auto simp: page_evolution_def publish_step_def)
    let ?tx = "publish_tx (pu_base input) (wp_page plan) (wp_revision plan) (wp_references plan) (wp_events plan)"
    have res: "snd (publish_page dp now input sv) = snd (publish_commit dp now input plan sv1)"
      using prep Inr by (simp add: publish_page_def)
    obtain err s' where exec: "so_execute ops ?tx (sv_store sv) = (err, s')" by fastforce
    have store: "sv_store (snd (publish_page dp now input sv)) = s'"
        "sv_next (snd (publish_page dp now input sv)) = sv_next sv1"
      using res exec quiet dp by (simp_all add: publish_commit_store quiet_def)
    show ?thesis
    proof (cases err)
      case (Some e)
      then have "s' = sv_store sv" using rollback inv exec by (metis is_transaction_txs(2))
      then show ?thesis using store less by (intro effect_quiet [OF ok]) simp_all
    next
      case None
      have fresh: "unused (sv_store sv) (rv_id (wp_revision plan))"
        using ok rev by (simp add: service_ok_def published_revision_def)
      have cur': "so_get_page ops (sv_store sv) (pg_id cur) = Inr cur" using cur id by simp
      have stored: "inv s' \<and> so_get_page ops s' (pg_id cur) = Inr (kept (wp_page plan))
          \<and> keeps_revisions ops (sv_store sv) s' \<and> other_pages_same ops (pg_id cur) (sv_store sv) s'
          \<and> keeps_unused unused {rv_id (wp_revision plan)} (sv_store sv) s'"
        using publish_done [OF inv cur' fresh step refer exec [unfolded None]] by blast
      have "max (pg_draft_no (kept (wp_page plan))) (pg_published_no (kept (wp_page plan))) \<le> int (sv_next sv1)"
        using fit less rev step by (auto simp: publish_step_def published_revision_def kept_simps)
      moreover have "{rv_id (wp_revision plan)} \<subseteq> dp_gen dp ` {..<sv_next sv1}"
        using less rev by (auto simp: published_revision_def)
      ultimately have "service_ok ops inv unused (dp_gen dp) (snd (publish_page dp now input sv))"
        using stored less store
        by (intro service_after_write [OF ok gen, of s' "pg_id cur" "kept (wp_page plan)"
              "{rv_id (wp_revision plan)}" "sv_next sv1"]) auto
      moreover have "pages_evolve ops (sv_store sv) s'"
        using cur' stored evo by (intro pages_evolve_one [of _ "pg_id cur"]) auto
      ultimately show ?thesis
        using stored less store by (simp add: request_effect_def keeps_history_revisions)
    qed
  qed
qed

lemma create_effect:
  assumes ok: "service_ok ops inv unused (dp_gen dp) sv" and gen: "gen_ok (dp_gen dp)"
    and dp: "dp_store dp = ops"
  shows "effect (dp_gen dp) sv (snd (create_page dp now input sv))"
proof (cases "create_prepare dp now input sv")
  case prep: (Pair x sv1)
  have quiet: "quiet sv sv1" using create_prepare_quiet [of sv dp now input] prep by simp
  show ?thesis
  proof (cases x)
    case (Inl reply)
    then show ?thesis using prep quiet
      by (intro effect_quiet [OF ok]) (simp_all add: create_page_def quiet_def)
  next
    case (Inr plan)
    let ?i = "dp_gen dp (sv_next sv)" and ?j = "dp_gen dp (sv_next sv + 1)"
    obtain d where rev: "wp_revision plan = first_revision input ?i ?j d now"
      and page: "wp_page plan = new_page input ?i ?j now" and refer: "refer_to (rv_id (wp_revision plan)) (wp_references plan)"
      and less: "sv_next sv + 2 \<le> sv_next sv1"
      using create_prepare_facts [OF prep [unfolded Inr]] by blast
    have inv: "inv (sv_store sv)" using ok by (simp add: service_ok_def)
    have id: "pg_id (wp_page plan) = ?i" "rv_id (wp_revision plan) = ?j"
      using rev page by (simp_all add: first_revision_def new_page_def)
    have fresh: "unused (sv_store sv) (pg_id (wp_page plan))" "unused (sv_store sv) (rv_id (wp_revision plan))"
      using ok id by (simp_all add: service_ok_def)
    have step: "create_step (wp_page plan) (wp_revision plan)"
      using rev page by (simp add: create_step_def first_revision_def new_page_def)
    let ?tx = "create_tx (wp_page plan) (wp_revision plan) (wp_references plan) (wp_events plan)"
    have res: "snd (create_page dp now input sv) = snd (create_commit dp plan sv1)"
      using prep Inr by (simp add: create_page_def)
    obtain err s' where exec: "so_execute ops ?tx (sv_store sv) = (err, s')" by fastforce
    have store: "sv_store (snd (create_page dp now input sv)) = s'"
        "sv_next (snd (create_page dp now input sv)) = sv_next sv1"
      using res exec quiet dp by (simp_all add: create_commit_store quiet_def)
    show ?thesis
    proof (cases err)
      case (Some e)
      then have "s' = sv_store sv" using rollback inv exec by (metis is_transaction_txs(3))
      then show ?thesis using store less by (intro effect_quiet [OF ok]) simp_all
    next
      case None
      have stored: "inv s' \<and> so_get_page ops s' (pg_id (wp_page plan)) = Inr (kept (wp_page plan))
          \<and> keeps_revisions ops (sv_store sv) s'
          \<and> other_pages_same ops (pg_id (wp_page plan)) (sv_store sv) s'
          \<and> keeps_unused unused {pg_id (wp_page plan), rv_id (wp_revision plan)} (sv_store sv) s'"
        using create_done [OF inv fresh step refer exec [unfolded None]] by blast
      have "max (pg_draft_no (kept (wp_page plan))) (pg_published_no (kept (wp_page plan))) \<le> int (sv_next sv1)"
        using less page by (simp add: new_page_def kept_simps)
      moreover have "{pg_id (wp_page plan), rv_id (wp_revision plan)} \<subseteq> dp_gen dp ` {..<sv_next sv1}"
        using less id by auto
      ultimately have "service_ok ops inv unused (dp_gen dp) (snd (create_page dp now input sv))"
        using stored less store
        by (intro service_after_write [OF ok gen, of s' "pg_id (wp_page plan)" "kept (wp_page plan)"
              "{pg_id (wp_page plan), rv_id (wp_revision plan)}" "sv_next sv1"]) auto
      moreover have "pages_evolve ops (sv_store sv) s'"
        using stored unused_page [OF fresh(1)] by (intro pages_evolve_one [of _ "pg_id (wp_page plan)"]) auto
      ultimately show ?thesis
        using stored less store by (simp add: request_effect_def keeps_history_revisions)
    qed
  qed
qed

lemma archive_effect:
  assumes ok: "service_ok ops inv unused (dp_gen dp) sv" and gen: "gen_ok (dp_gen dp)"
    and dp: "dp_store dp = ops"
  shows "effect (dp_gen dp) sv (snd (archive_page dp now input sv))"
proof (cases "archive_prepare dp now input sv")
  case prep: (Pair x sv1)
  have quiet: "quiet sv sv1" using archive_prepare_quiet [of sv dp now input] prep by simp
  show ?thesis
  proof (cases x)
    case (Inl reply)
    then show ?thesis using prep quiet
      by (intro effect_quiet [OF ok]) (simp_all add: archive_page_def quiet_def)
  next
    case (Inr pe)
    obtain page event where pe: "pe = (page, event)" by (cases pe)
    obtain cur where cur: "so_get_page ops (sv_store sv) (ar_page_id input) = Inr cur"
        "pg_status cur \<noteq> StatusArchived"
      and page: "page = cur\<lparr>pg_status := StatusArchived, pg_updated_by := rq_actor input, pg_updated_at := now\<rparr>"
      using archive_prepare_facts [OF prep [unfolded Inr pe]] dp by blast
    have inv: "inv (sv_store sv)" using ok by (simp add: service_ok_def)
    have id: "pg_id cur = ar_page_id input" using page_key [OF inv cur(1)] .
    have step: "archive_step cur page" using page by (simp add: archive_step_def same_identity_def)
    have res: "snd (archive_page dp now input sv) = snd (archive_commit dp now input page event sv1)"
      using prep Inr pe by (simp add: archive_page_def)
    obtain err s' where exec: "so_execute ops (archive_tx (ar_base input) page [event]) (sv_store sv) = (err, s')"
      by fastforce
    have store: "sv_store (snd (archive_page dp now input sv)) = s'"
        "sv_next (snd (archive_page dp now input sv)) = sv_next sv1"
      using res exec quiet dp by (simp_all add: archive_commit_store quiet_def)
    have le: "sv_next sv \<le> sv_next sv1" using quiet by (simp add: quiet_def)
    show ?thesis
    proof (cases err)
      case (Some e)
      then have "s' = sv_store sv" using rollback inv exec by (metis is_transaction_txs(4))
      then show ?thesis using store le by (intro effect_quiet [OF ok]) simp_all
    next
      case None
      have cur': "so_get_page ops (sv_store sv) (pg_id cur) = Inr cur" using cur id by simp
      have stored: "inv s' \<and> so_get_page ops s' (pg_id cur) = Inr (kept page)
          \<and> keeps_revisions ops (sv_store sv) s' \<and> other_pages_same ops (pg_id cur) (sv_store sv) s'
          \<and> keeps_unused unused {} (sv_store sv) s'"
        by (rule archive_done [OF inv cur' step exec [unfolded None]])
      have "max (pg_draft_no cur) (pg_published_no cur) \<le> int (sv_next sv)"
        using ok cur(1) unfolding service_ok_def by blast
      then have "max (pg_draft_no (kept page)) (pg_published_no (kept page)) \<le> int (sv_next sv1)"
        using le page by (simp add: kept_simps)
      then have "service_ok ops inv unused (dp_gen dp) (snd (archive_page dp now input sv))"
        using stored le store
        by (intro service_after_write [OF ok gen, of s' "pg_id cur" "kept page" "{}" "sv_next sv1"]) auto
      moreover have "page_evolution cur (kept page)"
        using step cur(2) by (intro kept_evolution [OF inv cur]) (auto simp: page_evolution_def archive_step_def)
      then have "pages_evolve ops (sv_store sv) s'"
        using cur' stored by (intro pages_evolve_one [of _ "pg_id cur"]) auto
      ultimately show ?thesis
        using stored le store by (simp add: request_effect_def keeps_history_revisions)
    qed
  qed
qed

text \<open>The queries write, if anything, file names into documents.\<close>

lemma hydrate_effect:
  assumes "service_ok ops inv unused gen sv" and "dp_store dp = ops"
    and "so_get_page ops (sv_store sv) p = Inr page" and "so_get_revision ops (sv_store sv) p view = Inr r"
  shows "effect gen sv (snd (hydrate_in_place dp rq p r sv))"
proof -
  obtain blocks where after: "snd (hydrate_in_place dp rq p r sv)
      = sv\<lparr>sv_store := so_share ops p (rv_id r) blocks (sv_store sv)\<rparr>"
    and texts: "texts_of blocks = block_texts (rv_document r)"
    using hydrate_in_place_service [OF prod.collapse [symmetric], of dp rq p r sv] assms(2) by metis
  have "so_get_revision_by_id ops (sv_store sv) p (rv_id r) = Inr r"
    using assms(1,3,4) by (intro revision_by_id) (simp_all add: service_ok_def)
  with texts show ?thesis by (intro effect_share [OF assms(1) after]) simp
qed

lemma effect_refl: "service_ok ops inv unused gen sv \<Longrightarrow> effect gen sv sv"
  by (rule effect_quiet) simp_all

lemma query_effects:
  assumes "service_ok ops inv unused gen sv" and "dp_store dp = ops"
  shows "effect gen sv (snd (get_page dp gi sv))"
    and "effect gen sv (snd (get_revision_head dp rq p sv))"
    and "effect gen sv (snd (recover_draft dp rq p sv))"
    and "effect gen sv (snd (resume_editor_sync dp ri sv))"
proof -
  note same = effect_refl [OF assms(1)]
  have read: "effect gen sv sv'"
    if "hydrate_in_place dp rq p r sv = (res, sv')" and "so_get_page (dp_store dp) (sv_store sv) p = Inr page"
      and "so_get_revision (dp_store dp) (sv_store sv) p view = Inr r"
    for rq :: "'z request_scheme" and p r res sv' page view
    using hydrate_effect [OF assms, of p page view r rq] that assms(2) by simp
  then have read': "effect gen sv (snd (hydrate_in_place dp rq p r sv))"
    if "so_get_page (dp_store dp) (sv_store sv) p = Inr page"
      and "so_get_revision (dp_store dp) (sv_store sv) p view = Inr r"
    for rq :: "'z request_scheme" and p r page view
    using that prod.collapse by metis
  show "effect gen sv (snd (get_page dp gi sv))"
    by (auto simp: get_page_def same read read' split: option.splits sum.splits prod.splits)
  show "effect gen sv (snd (get_revision_head dp rq p sv))"
    by (auto simp: get_revision_head_def same read read' split: option.splits sum.splits prod.splits)
  show "effect gen sv (snd (recover_draft dp rq p sv))"
    by (auto simp: recover_draft_def same read read' split: option.splits sum.splits prod.splits)
  show "effect gen sv (snd (resume_editor_sync dp ri sv))"
    by (auto simp: resume_editor_sync_def same read read' Let_def split: option.splits sum.splits prod.splits)
qed

lemma snd_error_of [simp]: "snd (error_of x) = snd x"
  by (cases x; cases "fst x") auto

theorem run_request_effect:
  assumes "service_ok ops inv unused (dp_gen dp) sv" and "gen_ok (dp_gen dp)"
    and "int (sv_next sv) < max_int64" and "dp_store dp = ops"
  shows "effect (dp_gen dp) sv (snd (run_request dp now q sv))"
  by (cases q) (simp_all add: autosave_effect [OF assms] commit_effect [OF assms]
      restore_effect [OF assms] publish_effect [OF assms] create_effect [OF assms(1,2,4)]
      archive_effect [OF assms(1,2,4)] query_effects [OF assms(1,4)])

end

section \<open>Reachable states\<close>

text \<open>
  From a first state, requests are served one at a time; between them the clock of the
  replay window and its contents may change (entries expire, other processes write). The
  number of identifiers handed out stays below \<open>max_int64\<close>.
\<close>

inductive reachable :: "('s, 'r) deps \<Rightarrow> ('s, 'r) service \<Rightarrow> ('s, 'r) service \<Rightarrow> bool"
  for dp :: "('s, 'r) deps" and sv0 :: "('s, 'r) service" where
  start: "reachable dp sv0 sv0"
| serve: "reachable dp sv0 sv \<Longrightarrow> int (sv_next sv) < max_int64 \<Longrightarrow>
    reachable dp sv0 (snd (run_request dp now q sv))"
| window: "reachable dp sv0 sv \<Longrightarrow> reachable dp sv0 (sv\<lparr>sv_replay := r\<rparr>)"

inductive_cases reachable_cases: "reachable dp sv0 sv"

lemma reachable_trans: "reachable dp sv1 sv2 \<Longrightarrow> reachable dp sv0 sv1 \<Longrightarrow> reachable dp sv0 sv2"
  by (induction rule: reachable.induct) (auto intro: reachable.intros)

context page_store
begin

lemma reachable_effect:
  assumes "reachable dp sv0 sv" and "service_ok ops inv unused (dp_gen dp) sv0"
    and "gen_ok (dp_gen dp)" and "dp_store dp = ops"
  shows "effect (dp_gen dp) sv0 sv"
  using assms(1)
proof (induction rule: reachable.induct)
  case start
  then show ?case by (rule effect_refl [OF assms(2)])
next
  case (serve sv now q)
  have "service_ok ops inv unused (dp_gen dp) sv" using serve.IH by (simp add: request_effect_def)
  then have "effect (dp_gen dp) sv (snd (run_request dp now q sv))"
    using run_request_effect serve.hyps assms(3,4) by blast
  with serve.IH show ?case by (rule request_effect_trans)
next
  case (window sv r)
  then show ?case by (auto simp: request_effect_def service_ok_def)
qed

end

end
