(* ===== verification/PageSamples.thy ===== *)
theory PageSamples
  imports PageReachability
begin

text \<open>
  Concrete services for the witnesses of the page properties: a page service on the
  in-memory store without collaborators, in its first state, with one page, and with one
  saved draft.
\<close>

definition run_gen :: id_gen where
  "run_gen n = replicate (Suc n) CHR ''i''"

lemma gen_ok_run_gen: "gen_ok run_gen"
proof -
  have "inj run_gen" by (rule injI) (metis run_gen_def length_replicate nat.inject)
  then show ?thesis by (simp add: gen_ok_def run_gen_def)
qed

definition sample_deps :: "(mem_store, mem_replay) deps" where
  "sample_deps =
     \<lparr>dp_store = memory_ops, dp_replay = Some memory_replay_ops, dp_embed = None, dp_files = None,
      dp_checker = None, dp_gen = run_gen, dp_configured = True, dp_hash = (\<lambda>_. ''hash''),
      dp_encode_token = (\<lambda>t. rt_page t), dp_decode_token = (\<lambda>_. None)\<rparr>"

definition new_service :: "'r \<Rightarrow> (mem_store, 'r) service" where
  "new_service r = \<lparr>sv_store = new_mem_store, sv_replay = r, sv_next = 0, sv_saves = [],
     sv_conflicts = 0, sv_publications = 0\<rparr>"

definition sample_start :: "(mem_store, mem_replay) service" where
  "sample_start = new_service (new_mem_replay 4 0)"

definition text_block :: "string \<Rightarrow> string \<Rightarrow> document_block" where
  "text_block i t = \<lparr>bk_id = i, bk_type = block_type_paragraph, bk_text = t, bk_attrs = None,
     bk_embed = None, bk_link = None, bk_attachment = None\<rparr>"

definition text_document :: "string \<Rightarrow> document" where
  "text_document t = \<lparr>dc_blocks = [text_block ''b1'' t], dc_metadata = None\<rparr>"

definition sample_request :: request where
  "sample_request = \<lparr>rq_workspace = ''w'', rq_actor = ''u'', rq_token = '''', rq_roles = [''editor''],
     rq_authenticated = True\<rparr>"

definition sample_create :: create_input where
  "sample_create = \<lparr>rq_workspace = ''w'', rq_actor = ''u'', rq_token = '''', rq_roles = [''editor''],
     rq_authenticated = True, ci_title = ''Home'', ci_slug = '''', ci_document = text_document ''one''\<rparr>"

text \<open>The page is the first identifier, its first revision the second.\<close>

definition sample_page :: string where "sample_page = ''i''"

definition sample_autosave :: "string \<Rightarrow> int \<Rightarrow> string \<Rightarrow> autosave_input" where
  "sample_autosave key base t = \<lparr>rq_workspace = ''w'', rq_actor = ''u'', rq_token = '''',
     rq_roles = [''editor''], rq_authenticated = True, au_page = sample_page, au_base = base,
     au_document = text_document t, au_key = key\<rparr>"

definition sample_commit :: "string \<Rightarrow> int \<Rightarrow> string \<Rightarrow> commit_input" where
  "sample_commit patch base t = \<lparr>rq_workspace = ''w'', rq_actor = ''u'', rq_token = '''',
     rq_roles = [''editor''], rq_authenticated = True, cm_page = sample_page, cm_base = base,
     cm_patch = patch, cm_document = text_document t\<rparr>"

definition sample_restore :: "string \<Rightarrow> restore_input" where
  "sample_restore r = \<lparr>rq_workspace = ''w'', rq_actor = ''u'', rq_token = '''',
     rq_roles = [''editor''], rq_authenticated = True, ro_page = sample_page, ro_revision = r\<rparr>"

definition sample_publish :: "int \<Rightarrow> publish_input" where
  "sample_publish base = \<lparr>rq_workspace = ''w'', rq_actor = ''u'', rq_token = '''',
     rq_roles = [''editor''], rq_authenticated = True, pu_page = sample_page, pu_base = base\<rparr>"

definition sample_archive :: "int \<Rightarrow> archive_input" where
  "sample_archive base = \<lparr>rq_workspace = ''w'', rq_actor = ''u'', rq_token = '''',
     rq_roles = [''editor''], rq_authenticated = True, ar_page_id = sample_page, ar_base = base\<rparr>"

definition with_page :: "(mem_store, mem_replay) service" where
  "with_page = snd (create_page sample_deps 10 sample_create sample_start)"

definition with_draft :: "(mem_store, mem_replay) service" where
  "with_draft = snd (autosave_draft sample_deps 20 (sample_autosave ''k'' 1 ''two'') with_page)"

lemma new_service_ok: "service_ok memory_ops mem_inv mem_unused gen (new_service r)"
proof -
  have "ms_pages new_mem_store = Map.empty" "ms_revisions new_mem_store = (\<lambda>_. [])"
    by (simp_all add: new_mem_store_def)
  then show ?thesis
    by (simp add: service_ok_def new_service_def mem_inv_new mem_unused_def mem_get_page_def)
qed

lemma sample_deps_simps [simp]:
  "dp_store sample_deps = memory_ops" "dp_gen sample_deps = run_gen"
  by (simp_all add: sample_deps_def)

lemma sample_start_next: "int (sv_next sample_start) < max_int64"
  by (simp add: sample_start_def new_service_def max_int64_def)

lemma with_page_next: "sv_next with_page = 6"
  by code_simp

lemma with_draft_next: "sv_next with_draft = 10"
  by code_simp

text \<open>The invariant holds in each of them, by the effect of the requests that led there.\<close>

lemma sample_ok:
  "service_ok memory_ops mem_inv mem_unused run_gen sample_start"
  "service_ok memory_ops mem_inv mem_unused run_gen with_page"
  "service_ok memory_ops mem_inv mem_unused run_gen with_draft"
proof -
  show start: "service_ok memory_ops mem_inv mem_unused run_gen sample_start"
    by (simp add: sample_start_def new_service_ok)
  show page: "service_ok memory_ops mem_inv mem_unused run_gen with_page"
    using mem.create_effect [of sample_deps sample_start 10 sample_create] start gen_ok_run_gen
    by (simp add: with_page_def request_effect_def)
  show "service_ok memory_ops mem_inv mem_unused run_gen with_draft"
    using mem.autosave_effect [of sample_deps with_page 20 "sample_autosave ''k'' 1 ''two''"] page
      gen_ok_run_gen with_page_next
    by (simp add: with_draft_def request_effect_def max_int64_def)
qed

end
