(* ===== verification/PageProperties.thy ===== *)
theory PageProperties
  imports PageSamples
begin

text \<open>
  The properties of the page service on its in-memory store: the invariant of reachable
  states, the append-only history, what an accepted and a refused request do, repeated
  requests, publishing and restoring, and what happens when requests interleave.
\<close>

section \<open>Refused requests\<close>

fun is_write :: "page_request \<Rightarrow> bool" where
  "is_write (CreateRequest _) = True"
| "is_write (AutosaveRequest _) = True"
| "is_write (CommitRequest _) = True"
| "is_write (RestoreRequest _) = True"
| "is_write (PublishRequest _) = True"
| "is_write (ArchiveRequest _) = True"
| "is_write _ = False"

lemma error_of_Some: "fst (error_of x) = Some err \<longleftrightarrow> fst x = Inl err"
  by (cases x; cases "fst x") auto

context atomic_store
begin

lemma refused_commits:
  "fst (autosave_commit dp now ai plan sv) = Inl err \<Longrightarrow> fst (so_execute (dp_store dp)
     (draft_tx (au_base ai) (wp_page plan) (wp_revision plan) (wp_idempotency plan)
        (wp_references plan) (wp_events plan)) (sv_store sv)) \<noteq> None"
  "fst (commit_commit dp now ci page plan sv) = Inl err \<Longrightarrow> fst (so_execute (dp_store dp)
     (draft_tx (cm_base ci) (wp_page plan) (wp_revision plan) (wp_idempotency plan)
        (wp_references plan) (wp_events plan)) (sv_store sv)) \<noteq> None"
  "fst (restore_commit dp now ri page plan sv) = Inl err \<Longrightarrow> fst (so_execute (dp_store dp)
     (draft_tx (pg_draft_no page) (wp_page plan) (wp_revision plan) None
        (wp_references plan) (wp_events plan)) (sv_store sv)) \<noteq> None"
  "fst (publish_commit dp now pi plan sv) = Inl err \<Longrightarrow> fst (so_execute (dp_store dp)
     (publish_tx (pu_base pi) (wp_page plan) (wp_revision plan) (wp_references plan)
        (wp_events plan)) (sv_store sv)) \<noteq> None"
  "fst (create_commit dp plan sv) = Inl err \<Longrightarrow> fst (so_execute (dp_store dp)
     (create_tx (wp_page plan) (wp_revision plan) (wp_references plan) (wp_events plan)) (sv_store sv)) \<noteq> None"
  "fst (archive_commit dp now ari page event sv) = Inl err \<Longrightarrow>
     fst (so_execute (dp_store dp) (archive_tx (ar_base ari) page [event]) (sv_store sv)) \<noteq> None"
  by (auto simp: autosave_commit_def commit_commit_def restore_commit_def publish_commit_def
      create_commit_def archive_commit_def Let_def split: prod.splits option.splits)

lemma refused_same_store:
  assumes inv: "inv (sv_store sv)" and dp: "dp_store dp = ops"
  shows "fst (autosave_draft dp now ai sv) = Inl err \<Longrightarrow> sv_store (snd (autosave_draft dp now ai sv)) = sv_store sv"
    and "fst (commit_collaborative_revision dp now ci sv) = Inl err \<Longrightarrow>
           sv_store (snd (commit_collaborative_revision dp now ci sv)) = sv_store sv"
    and "fst (restore_revision dp now ri sv) = Inl err \<Longrightarrow> sv_store (snd (restore_revision dp now ri sv)) = sv_store sv"
    and "fst (publish_page dp now pi sv) = Inl err \<Longrightarrow> sv_store (snd (publish_page dp now pi sv)) = sv_store sv"
    and "fst (create_page dp now cri sv) = Inl err \<Longrightarrow> sv_store (snd (create_page dp now cri sv)) = sv_store sv"
    and "fst (archive_page dp now ari sv) = Inl err \<Longrightarrow> sv_store (snd (archive_page dp now ari sv)) = sv_store sv"
proof -
  note same = tx_failed_same [OF inv]
  show "sv_store (snd (autosave_draft dp now ai sv)) = sv_store sv"
    if "fst (autosave_draft dp now ai sv) = Inl err"
  proof (cases "autosave_prepare dp now ai sv")
    case (Pair x sv1)
    then have "sv_store sv1 = sv_store sv" using autosave_prepare_quiet [of sv dp now ai] by (simp add: quiet_def)
    then show ?thesis using Pair that dp same refused_commits(1) [of dp now ai _ sv1 err]
      by (cases x) (auto simp: autosave_draft_def autosave_commit_store)
  qed
  show "sv_store (snd (commit_collaborative_revision dp now ci sv)) = sv_store sv"
    if "fst (commit_collaborative_revision dp now ci sv) = Inl err"
  proof (cases "commit_prepare dp now ci sv")
    case (Pair x sv1)
    then have "sv_store sv1 = sv_store sv" using commit_prepare_quiet [of sv dp now ci] by (simp add: quiet_def)
    then show ?thesis using Pair that dp same refused_commits(2) [of dp now ci _ _ sv1 err]
      by (cases x) (auto simp: commit_collaborative_revision_def commit_commit_store)
  qed
  show "sv_store (snd (restore_revision dp now ri sv)) = sv_store sv"
    if "fst (restore_revision dp now ri sv) = Inl err"
  proof (cases "restore_prepare dp now ri sv")
    case (Pair x sv1)
    then have "sv_store sv1 = sv_store sv" using restore_prepare_quiet [of sv dp now ri] by (simp add: quiet_def)
    then show ?thesis using Pair that dp same refused_commits(3) [of dp now ri _ _ sv1 err]
      by (cases x) (auto simp: restore_revision_def restore_commit_store)
  qed
  show "sv_store (snd (publish_page dp now pi sv)) = sv_store sv"
    if "fst (publish_page dp now pi sv) = Inl err"
  proof (cases "publish_prepare dp now pi sv")
    case (Pair x sv1)
    then have "sv_store sv1 = sv_store sv" using publish_prepare_quiet [of sv dp now pi] by (simp add: quiet_def)
    then show ?thesis using Pair that dp same refused_commits(4) [of dp now pi _ sv1 err]
      by (cases x) (auto simp: publish_page_def publish_commit_store)
  qed
  show "sv_store (snd (create_page dp now cri sv)) = sv_store sv"
    if "fst (create_page dp now cri sv) = Inl err"
  proof (cases "create_prepare dp now cri sv")
    case (Pair x sv1)
    then have "sv_store sv1 = sv_store sv" using create_prepare_quiet [of sv dp now cri] by (simp add: quiet_def)
    then show ?thesis using Pair that dp same refused_commits(5) [of dp _ sv1 err]
      by (cases x) (auto simp: create_page_def create_commit_store)
  qed
  show "sv_store (snd (archive_page dp now ari sv)) = sv_store sv"
    if "fst (archive_page dp now ari sv) = Inl err"
  proof (cases "archive_prepare dp now ari sv")
    case (Pair x sv1)
    then have "sv_store sv1 = sv_store sv" using archive_prepare_quiet [of sv dp now ari] by (simp add: quiet_def)
    then show ?thesis using Pair that dp same refused_commits(6) [of dp now ari _ _ sv1 err]
      by (cases x) (auto simp: archive_page_def archive_commit_store)
  qed
qed

lemma refused_request_same_store:
  assumes "inv (sv_store sv)" and "dp_store dp = ops" and "is_write q"
    and "fst (run_request dp now q sv) = Some err"
  shows "sv_store (snd (run_request dp now q sv)) = sv_store sv"
  using assms(3,4) refused_same_store [OF assms(1,2)] by (cases q) (auto simp: error_of_Some)

end

section \<open>Properties of every reachable state\<close>

abbreviation mem_service_ok :: "id_gen \<Rightarrow> (mem_store, 'r) service \<Rightarrow> bool" where
  "mem_service_ok \<equiv> service_ok memory_ops mem_inv mem_unused"

lemma reachable_ok:
  assumes "reachable dp (new_service r) sv" and "gen_ok (dp_gen dp)" and "dp_store dp = memory_ops"
  shows "mem_service_ok (dp_gen dp) sv"
  using mem.reachable_effect [OF assms(1) new_service_ok assms(2,3)] by (simp add: request_effect_def)

lemma reachable_page:
  assumes "mem_inv s" and "ms_pages s pid = Some p"
  shows "pg_id p = pid \<and> sorted_wrt (<) (map rv_no (ms_revisions s pid))
     \<and> distinct (map rv_id (ms_revisions s pid))
     \<and> (\<forall>r \<in> set (ms_revisions s pid). rv_page r = pid \<and> 0 < rv_no r)"
  using mem_inv_page [OF assms] by (auto simp: revisions_ok_def)

text \<open>
  C2: in every state that requests can reach from an empty in-memory store, whatever they
  are and in whatever order, each page's revisions have strictly increasing positive
  numbers and distinct identifiers, the page's draft head is one of them, and a published
  page has a published revision as its published head.
\<close>

theorem reachable_pages_well_formed:
  assumes "reachable dp (new_service r) sv" and "gen_ok (dp_gen dp)" and "dp_store dp = memory_ops"
    and "ms_pages (sv_store sv) pid = Some p"
  shows "pg_id p = pid
   \<and> sorted_wrt (<) (map rv_no (ms_revisions (sv_store sv) pid))
   \<and> distinct (map rv_id (ms_revisions (sv_store sv) pid))
   \<and> (\<exists>h. mem_get_revision (sv_store sv) pid ViewDraft = Inr h
        \<and> rv_id h = pg_draft_id p \<and> rv_no h = pg_draft_no p \<and> rv_kind h = ViewDraft)
   \<and> (pg_status p = StatusPublished \<longrightarrow>
        (\<exists>h. mem_get_revision (sv_store sv) pid ViewPublished = Inr h
           \<and> rv_id h = pg_published_id p \<and> rv_no h = pg_published_no p \<and> rv_kind h = ViewPublished))"
proof -
  have inv: "mem_inv (sv_store sv)"
    using reachable_ok [OF assms(1-3)] by (simp add: service_ok_def)
  note heads = mem.draft_head [OF inv, of pid p] mem.published_head [OF inv, of pid p]
  have "pg_status p = StatusPublished \<Longrightarrow> pg_published_id p \<noteq> ''''"
    using mem_inv_page(3) [OF inv assms(4)] by (auto simp: heads_ok_def split: if_splits)
  then show ?thesis
    using heads reachable_page [OF inv assms(4)] assms(4) by (auto simp: mem_get_page_iff)
qed

lemma reachable_with_page: "reachable sample_deps sample_start with_page"
proof -
  have "reachable sample_deps sample_start
      (snd (run_request sample_deps 10 (CreateRequest sample_create) sample_start))"
    by (rule reachable.serve [OF reachable.start sample_start_next])
  then show ?thesis by (simp add: with_page_def)
qed

lemma reachable_with_draft: "reachable sample_deps with_page with_draft"
proof -
  have "int (sv_next with_page) < max_int64" by (simp add: with_page_next max_int64_def)
  then have "reachable sample_deps with_page (snd (run_request sample_deps 20
      (AutosaveRequest (sample_autosave ''k'' 1 ''two'')) with_page))"
    by (rule reachable.serve [OF reachable.start])
  then show ?thesis by (simp add: with_draft_def)
qed

lemma sample_pages:
  "ms_pages (sv_store with_page) sample_page \<noteq> None"
  "ms_pages (sv_store with_draft) sample_page \<noteq> None"
  by code_simp+

theorem reachable_pages_well_formed_witness:
  "distinct (map rv_id (ms_revisions (sv_store with_draft) sample_page))"
proof -
  obtain p where p: "ms_pages (sv_store with_draft) sample_page = Some p"
    using sample_pages(2) by auto
  have "reachable sample_deps (new_service (new_mem_replay 4 0)) with_draft"
    using reachable_trans [OF reachable_with_draft reachable_with_page] by (simp add: sample_start_def)
  then show ?thesis
    using reachable_pages_well_formed [OF _ _ _ p, of sample_deps "new_mem_replay 4 0"] gen_ok_run_gen
    by simp
qed

text \<open>
  C1: the history is append-only: no sequence of requests removes a revision or changes
  anything of it but file names in its document, which a read may fill in: the texts stay;
  pages never disappear or change workspace, slug or creator; revision numbers never go
  back; a published page stays published or becomes archived; an archived page is frozen.
\<close>

theorem history_append_only:
  assumes "mem_service_ok (dp_gen dp) sv" and "reachable dp sv sv'"
    and "gen_ok (dp_gen dp)" and "dp_store dp = memory_ops"
  shows "(\<forall>pid rid r. mem_get_revision_by_id (sv_store sv) pid rid = Inr r \<longrightarrow>
            (\<exists>d. mem_get_revision_by_id (sv_store sv') pid rid = Inr (r\<lparr>rv_document := d\<rparr>)
               \<and> block_texts d = block_texts (rv_document r)))
   \<and> (\<forall>pid p. ms_pages (sv_store sv) pid = Some p \<longrightarrow>
        (\<exists>p'. ms_pages (sv_store sv') pid = Some p' \<and> same_identity p p'
           \<and> pg_draft_no p \<le> pg_draft_no p' \<and> pg_published_no p \<le> pg_published_no p'
           \<and> (pg_published_id p \<noteq> '''' \<longrightarrow> pg_published_id p' \<noteq> '''')
           \<and> (pg_status p = StatusArchived \<longrightarrow> p' = p)))"
proof -
  have effect: "request_effect memory_ops mem_inv mem_unused (dp_gen dp) sv sv'"
    by (rule mem.reachable_effect [OF assms(2,1,3,4)])
  then have "keeps_history memory_ops (sv_store sv) (sv_store sv')"
    and "pages_evolve memory_ops (sv_store sv) (sv_store sv')"
    by (simp_all add: request_effect_def)
  then show ?thesis
    unfolding keeps_history_def pages_evolve_def page_evolution_def memory_ops_simps mem_get_page_iff
    by blast
qed

theorem history_append_only_witness:
  "mem_get_revision_by_id (sv_store with_page) sample_page ''ii'' \<noteq> Inl ErrNotFound
   \<and> mem_get_revision_by_id (sv_store with_draft) sample_page ''ii'' \<noteq> Inl ErrNotFound"
proof -
  have old: "mem_get_revision_by_id (sv_store with_page) sample_page ''ii'' \<noteq> Inl ErrNotFound"
    by code_simp
  then obtain r where "mem_get_revision_by_id (sv_store with_page) sample_page ''ii'' = Inr r"
    by (auto simp: mem_get_revision_by_id_def split: option.splits)
  then show ?thesis
    using old history_append_only [of sample_deps with_page with_draft] sample_ok(2) gen_ok_run_gen
      reachable_with_draft
    by fastforce
qed

text \<open>
  a writing request that is refused, for whatever reason and at whatever point, leaves
  no trace in the store: no page, no revision, no projection, no idempotency record and no
  outbox event.
\<close>

theorem refused_request_leaves_store:
  assumes "mem_inv (sv_store sv)" and "dp_store dp = memory_ops" and "is_write q"
    and "fst (run_request dp now q sv) = Some err"
  shows "sv_store (snd (run_request dp now q sv)) = sv_store sv"
  by (rule mem.refused_request_same_store [OF assms])

theorem refused_request_leaves_store_witness:
  "sv_store (snd (run_request sample_deps 30 (AutosaveRequest (sample_autosave ''k2'' 1 ''late'')) with_draft))
     = sv_store with_draft"
proof -
  have "\<exists>err. fst (run_request sample_deps 30 (AutosaveRequest (sample_autosave ''k2'' 1 ''late'')) with_draft)
      = Some err"
  proof -
    have "fst (run_request sample_deps 30 (AutosaveRequest (sample_autosave ''k2'' 1 ''late'')) with_draft)
        \<noteq> None"
      by code_simp
    then show ?thesis by blast
  qed
  then show ?thesis
    using refused_request_leaves_store [of with_draft sample_deps
        "AutosaveRequest (sample_autosave ''k2'' 1 ''late'')" 30] sample_ok(3)
    by (auto simp: service_ok_def)
qed

end
