(* ===== verification/PageBehaviour.thy ===== *)
theory PageBehaviour
  imports PageProperties
begin

text \<open>
  What an accepted request does on the in-memory store, request by request: autosave and
  its repetition, stale bases, publishing, restoring, archiving, and what two requests do
  whose transactions interleave.
\<close>

section \<open>Accepted requests\<close>

lemma autosave_accepted_cases:
  assumes "fst (autosave_guard dp input sv) = None" and "fst (autosave_draft dp now input sv) = Inr payload"
  obtains cur b plan sv1 s'
  where "autosave_prepare dp now input sv = (Inr plan, sv1)"
    and "so_get_page (dp_store dp) (sv_store sv) (au_page input) = Inr cur"
    and "pg_draft_no cur = au_base input" and "pg_status cur \<noteq> StatusArchived"
    and "so_get_revision (dp_store dp) (sv_store sv) (au_page input) ViewDraft = Inr b"
    and "autosave_plan dp now input cur b sv = (Inr plan, sv1)"
    and "so_execute (dp_store dp) (draft_tx (au_base input) (wp_page plan) (wp_revision plan)
           (wp_idempotency plan) (wp_references plan) (wp_events plan)) (sv_store sv) = (None, s')"
    and "sv_store (snd (autosave_draft dp now input sv)) = s'"
    and "sv_next (snd (autosave_draft dp now input sv)) = sv_next sv1"
    and "payload = build_draft_save_payload (au_page input) (wp_revision plan) (wp_descriptors plan)"
proof -
  obtain x sv1 where prep: "autosave_prepare dp now input sv = (x, sv1)" by fastforce
  have guard: "autosave_guard dp input sv = (None, sv)"
    using assms(1) autosave_guard_quiet(1) by (metis prod.collapse)
  have "\<nexists>reply. x = Inl reply"
  proof
    assume "\<exists>reply. x = Inl reply"
    then obtain reply where x: "x = Inl reply" by blast
    then have "reply = Inr payload" using assms(2) prep by (simp add: autosave_draft_def)
    then show False using prep x guard
      by (auto simp: autosave_prepare_def split: prod.splits sum.splits)
  qed
  then obtain plan where x: "x = Inr plan" by (cases x) auto
  have store: "sv_store sv1 = sv_store sv"
    using autosave_prepare_quiet [of sv dp now input] prep by (simp add: quiet_def)
  obtain cur b where cases: "so_get_page (dp_store dp) (sv_store sv) (au_page input) = Inr cur"
      "pg_draft_no cur = au_base input" "pg_status cur \<noteq> StatusArchived"
      "so_get_revision (dp_store dp) (sv_store sv) (au_page input) ViewDraft = Inr b"
      "autosave_plan dp now input cur b sv = (Inr plan, sv1)"
    using autosave_prepare_cases [OF prep [unfolded x]] by blast
  let ?tx = "draft_tx (au_base input) (wp_page plan) (wp_revision plan)
           (wp_idempotency plan) (wp_references plan) (wp_events plan)"
  obtain err s' where exec: "so_execute (dp_store dp) ?tx (sv_store sv) = (err, s')" by fastforce
  have run: "autosave_draft dp now input sv = autosave_commit dp now input plan sv1"
    using prep x by (simp add: autosave_draft_def)
  have "err = None"
  proof (cases err)
    case (Some e)
    then show ?thesis using assms(2) run exec store
      by (cases e) (auto simp: autosave_commit_def Let_def split: sum.splits)
  qed simp
  then have "payload = build_draft_save_payload (au_page input) (wp_revision plan) (wp_descriptors plan)"
    using assms(2) run exec store by (simp add: autosave_commit_def)
  then show ?thesis
    using that [OF prep [unfolded x] cases] exec \<open>err = None\<close> run store
    by (simp add: autosave_commit_store)
qed

lemma mem_draft_stored_fields:
  assumes "mem_execute (draft_tx base p r idem refs ev) s = (None, s')"
  shows "ms_outbox s' = ms_outbox s @ ev" and "ms_embedded s' (rv_id r) = rf_tables refs"
    and "idem = Some i \<Longrightarrow> id_key i \<noteq> '''' \<Longrightarrow>
           mem_get_idempotency s' (pg_id p) (id_key i) = Inr (Some i)"
  using assms
  by (auto simp: mem_draft_tx mem_get_idempotency_def put_idempotency_def put_projections_def put_revision_def
      split: option.splits if_splits)

text \<open>What an autosave has built when its transaction begins.\<close>

lemma autosave_plan_built:
  assumes "autosave_plan dp now input cur b sv = (Inr plan, sv1)"
  obtains d refs n evs
  where "hydrated_copy dp input (canonical_snapshot (au_document input)) (au_page input) = Inr d"
    and "wp_revision plan = \<lparr>rv_id = dp_gen dp (sv_next sv), rv_page = au_page input, rv_no = next_revision_no cur,
           rv_kind = ViewDraft, rv_base = rv_id b, rv_restored_from = '''', rv_document = d, rv_title = pg_title cur,
           rv_created_by = rq_actor input, rv_created_via = SourceAutosave, rv_created_at = now\<rparr>"
    and "wp_page plan = cur\<lparr>pg_draft_id := rv_id (wp_revision plan), pg_draft_no := rv_no (wp_revision plan),
           pg_updated_by := rq_actor input, pg_updated_at := now\<rparr>"
    and "extract_references (dp_gen dp) (sv_next sv + 1) d (au_page input) (rv_id (wp_revision plan)) now = (refs, n)"
    and "draft_events (dp_gen dp) n (wp_page plan) (wp_revision plan) refs now = (evs, sv_next sv1)"
    and "wp_references plan = refs" and "wp_events plan = evs"
    and "wp_idempotency plan = (if trim_space (au_key input) = '''' then None
           else Some \<lparr>id_page = au_page input, id_key = trim_space (au_key input), id_revision = rv_id (wp_revision plan),
             id_revision_no = rv_no (wp_revision plan), id_created_at = now\<rparr>)"
proof -
  obtain d where d: "hydrated_copy dp input (canonical_snapshot (au_document input)) (au_page input) = Inr d"
    using assms by (auto simp: autosave_plan_def split: sum.splits)
  let ?r = "autosaved_revision input cur b (dp_gen dp (sv_next sv)) d now"
  obtain refs n where refs: "extract_references (dp_gen dp) (sv_next sv + 1) d (au_page input) (rv_id ?r) now = (refs, n)"
    by fastforce
  obtain evs m where evs: "draft_events (dp_gen dp) n (with_draft_head ?r (rq_actor input) now cur) ?r refs now = (evs, m)"
    by fastforce
  have "wp_page plan = with_draft_head ?r (rq_actor input) now cur" "wp_revision plan = ?r" "wp_events plan = evs"
      "wp_references plan = refs" "wp_idempotency plan = (if trim_space (au_key input) = '''' then None
         else Some \<lparr>id_page = au_page input, id_key = trim_space (au_key input), id_revision = rv_id ?r,
           id_revision_no = rv_no ?r, id_created_at = now\<rparr>)" "sv_next sv1 = m"
    using assms d refs evs by (auto simp: autosave_plan_def Let_def split: sum.splits)
  then show thesis
    using d refs evs by (intro that [of d refs n evs]) (simp_all add: autosaved_revision_def with_draft_head_def)
qed

text \<open>
  C3: an autosave is accepted only for a page that is not archived and whose draft head has the number the
  client worked on. It leaves the store as it was but for this: the accepted document, in canonical form and
  with its attachments validated, is a new revision after the page's others, with the next number, the old head
  as its base and the page's title, and is what is read back; the page has it as its draft head, the actor and
  the time as its last update, and every other field as before; its references are those of the document; a
  key, if there is one, names it; and exactly its three events are queued behind the others. The response names
  the new head.
\<close>

theorem autosave_accepted:
  assumes "mem_service_ok (dp_gen dp) sv" and "gen_ok (dp_gen dp)" and "dp_store dp = memory_ops"
    and "int (sv_next sv) < max_int64"
    and "fst (autosave_guard dp input sv) = None" and "autosave_draft dp now input sv = (Inr payload, sv')"
  shows "\<exists>cur d r p refs n evs. ms_pages (sv_store sv) (au_page input) = Some cur
     \<and> pg_draft_no cur = au_base input \<and> pg_status cur \<noteq> StatusArchived
     \<and> hydrated_copy dp input (canonical_snapshot (au_document input)) (au_page input) = Inr d
     \<and> r = \<lparr>rv_id = dp_gen dp (sv_next sv), rv_page = au_page input,
            rv_no = max (pg_draft_no cur) (pg_published_no cur) + 1, rv_kind = ViewDraft, rv_base = pg_draft_id cur,
            rv_restored_from = '''', rv_document = d, rv_title = pg_title cur, rv_created_by = rq_actor input,
            rv_created_via = SourceAutosave, rv_created_at = now\<rparr>
     \<and> p = cur\<lparr>pg_draft_id := rv_id r, pg_draft_no := rv_no r, pg_updated_by := rq_actor input, pg_updated_at := now\<rparr>
     \<and> extract_references (dp_gen dp) (sv_next sv + 1) d (au_page input) (rv_id r) now = (refs, n)
     \<and> draft_events (dp_gen dp) n p r refs now = (evs, sv_next sv')
     \<and> map ob_event evs = [''page.draft.saved'', ''page.links.extracted'', ''page.attachments.changed'']
     \<and> (\<forall>e \<in> set evs. ob_aggregate_id e = au_page input \<and> ob_status e = OutboxPending)
     \<and> sv_store sv' = (sv_store sv)
         \<lparr>ms_pages := (ms_pages (sv_store sv))(au_page input \<mapsto> p),
          ms_revisions := (ms_revisions (sv_store sv))(au_page input := ms_revisions (sv_store sv) (au_page input) @ [r]),
          ms_embedded := (ms_embedded (sv_store sv))(rv_id r := rf_tables refs),
          ms_attachments := (ms_attachments (sv_store sv))(rv_id r := rf_attachments refs),
          ms_links := (ms_links (sv_store sv))(rv_id r := rf_links refs),
          ms_idempotencies := (if trim_space (au_key input) = '''' then ms_idempotencies (sv_store sv)
            else (ms_idempotencies (sv_store sv))(idempotency_map_key (au_page input) (trim_space (au_key input)) \<mapsto>
              \<lparr>id_page = au_page input, id_key = trim_space (au_key input), id_revision = rv_id r,
               id_revision_no = rv_no r, id_created_at = now\<rparr>)),
          ms_outbox := ms_outbox (sv_store sv) @ evs\<rparr>
     \<and> mem_get_revision (sv_store sv') (au_page input) ViewDraft = Inr r
     \<and> ds_id payload = rv_id r \<and> ds_no payload = rv_no r"
proof -
  have accepted: "fst (autosave_draft dp now input sv) = Inr payload" using assms(6) by simp
  show ?thesis
  proof (rule autosave_accepted_cases [OF assms(5) accepted])
    fix cur b plan sv1 s'
    assume cur: "so_get_page (dp_store dp) (sv_store sv) (au_page input) = Inr cur"
      and head: "pg_draft_no cur = au_base input" "pg_status cur \<noteq> StatusArchived"
      and b: "so_get_revision (dp_store dp) (sv_store sv) (au_page input) ViewDraft = Inr b"
      and plan: "autosave_plan dp now input cur b sv = (Inr plan, sv1)"
      and exec: "so_execute (dp_store dp) (draft_tx (au_base input) (wp_page plan) (wp_revision plan)
             (wp_idempotency plan) (wp_references plan) (wp_events plan)) (sv_store sv) = (None, s')"
      and s': "sv_store (snd (autosave_draft dp now input sv)) = s'"
      and nxt: "sv_next (snd (autosave_draft dp now input sv)) = sv_next sv1"
      and payload: "payload = build_draft_save_payload (au_page input) (wp_revision plan) (wp_descriptors plan)"
    note mem_dp = assms(3)
    have inv: "mem_inv (sv_store sv)" using assms(1) by (simp add: service_ok_def)
    have cur': "so_get_page memory_ops (sv_store sv) (au_page input) = Inr cur" using cur mem_dp by simp
    have id: "au_page input = pg_id cur" using mem.page_key [OF inv cur'] by simp
    have pages: "ms_pages (sv_store sv) (au_page input) = Some cur" using cur' by (simp add: mem_get_page_iff)
    have plan_ok: "draft_plan_ok (dp_gen dp) (sv_next sv) (sv_next sv1) cur plan" by (rule autosave_plan_facts [OF plan id])
    have exec': "so_execute memory_ops (draft_tx (au_base input) (wp_page plan) (wp_revision plan)
             (wp_idempotency plan) (wp_references plan) (wp_events plan)) (sv_store sv) = (None, s')"
      using exec mem_dp by simp
    note stored = mem.draft_plan_stored [OF assms(1,2,4) cur' plan_ok exec' s' nxt]
    have base: "rv_id b = pg_draft_id cur" using mem.draft_head_no [OF inv cur'] b mem_dp by simp
    have fresh: "mem_unused (sv_store sv) (rv_id (wp_revision plan))"
      using assms(1) plan_ok by (simp add: service_ok_def draft_plan_ok_def)
    have pid: "pg_id (wp_page plan) = au_page input" using plan_ok id by (simp add: draft_plan_ok_def same_identity_def)
    have sorted: "sort_key rv_no (ms_revisions (sv_store sv) (au_page input) @ [wp_revision plan])
        = ms_revisions (sv_store sv) (au_page input) @ [wp_revision plan]"
      using mem_draft_step(2) [OF inv _ fresh mem.plan_is_step [OF assms(1,4) cur' plan_ok]] pages id by simp
    have store: "s' = put_projections (rv_id (wp_revision plan)) (wp_references plan) (wp_events plan)
        (put_idempotency (au_page input) (wp_idempotency plan) (put_revision (wp_page plan) (wp_revision plan) (sv_store sv)))"
      using exec' pages head pid by (simp add: mem_draft_tx)
    show ?thesis
    proof (rule autosave_plan_built [OF plan])
      fix d refs n evs
      assume built: "hydrated_copy dp input (canonical_snapshot (au_document input)) (au_page input) = Inr d"
        "wp_revision plan = \<lparr>rv_id = dp_gen dp (sv_next sv), rv_page = au_page input, rv_no = next_revision_no cur,
           rv_kind = ViewDraft, rv_base = rv_id b, rv_restored_from = '''', rv_document = d, rv_title = pg_title cur,
           rv_created_by = rq_actor input, rv_created_via = SourceAutosave, rv_created_at = now\<rparr>"
        "wp_page plan = cur\<lparr>pg_draft_id := rv_id (wp_revision plan), pg_draft_no := rv_no (wp_revision plan),
           pg_updated_by := rq_actor input, pg_updated_at := now\<rparr>"
        "extract_references (dp_gen dp) (sv_next sv + 1) d (au_page input) (rv_id (wp_revision plan)) now = (refs, n)"
        "draft_events (dp_gen dp) n (wp_page plan) (wp_revision plan) refs now = (evs, sv_next sv1)"
        "wp_references plan = refs" "wp_events plan = evs"
        "wp_idempotency plan = (if trim_space (au_key input) = '''' then None
           else Some \<lparr>id_page = au_page input, id_key = trim_space (au_key input), id_revision = rv_id (wp_revision plan),
             id_revision_no = rv_no (wp_revision plan), id_created_at = now\<rparr>)"
      have no: "next_revision_no cur = max (pg_draft_no cur) (pg_published_no cur) + 1"
        using stored(5) built(2) by simp
      have store': "s' = (sv_store sv)
         \<lparr>ms_pages := (ms_pages (sv_store sv))(au_page input \<mapsto> wp_page plan),
          ms_revisions := (ms_revisions (sv_store sv))(au_page input := ms_revisions (sv_store sv) (au_page input) @ [wp_revision plan]),
          ms_embedded := (ms_embedded (sv_store sv))(rv_id (wp_revision plan) := rf_tables refs),
          ms_attachments := (ms_attachments (sv_store sv))(rv_id (wp_revision plan) := rf_attachments refs),
          ms_links := (ms_links (sv_store sv))(rv_id (wp_revision plan) := rf_links refs),
          ms_idempotencies := (if trim_space (au_key input) = '''' then ms_idempotencies (sv_store sv)
            else (ms_idempotencies (sv_store sv))(idempotency_map_key (au_page input) (trim_space (au_key input)) \<mapsto>
              \<lparr>id_page = au_page input, id_key = trim_space (au_key input), id_revision = rv_id (wp_revision plan),
               id_revision_no = rv_no (wp_revision plan), id_created_at = now\<rparr>)),
          ms_outbox := ms_outbox (sv_store sv) @ evs\<rparr>"
        unfolding store using sorted pid
        by (simp add: put_projections_def put_idempotency_def put_revision_def built(6-8))
      show ?thesis
        using assms(6) s' nxt head pages stored(3) plan_ok payload id built(1,4,5,7) store'
        by (intro exI [of _ cur] exI [of _ d] exI [of _ "wp_revision plan"] exI [of _ "wp_page plan"]
            exI [of _ refs] exI [of _ n] exI [of _ evs])
           (simp add: draft_plan_ok_def build_draft_save_payload_def built(2,3) no base)
    qed
  qed
qed

lemma sample_autosave_accepted:
  "fst (autosave_guard sample_deps (sample_autosave ''k'' 1 ''two'') with_page) = None"
  "fst (autosave_draft sample_deps 20 (sample_autosave ''k'' 1 ''two'') with_page)
     = Inr (build_draft_save_payload sample_page
         \<lparr>rv_id = run_gen 6, rv_page = sample_page, rv_no = 2, rv_kind = ViewDraft, rv_base = run_gen 1,
          rv_restored_from = '''', rv_document = text_document ''two'', rv_title = ''Home'',
          rv_created_by = ''u'', rv_created_via = SourceAutosave, rv_created_at = 20\<rparr> Map.empty)"
  by (code_simp, simp add: build_draft_save_payload_def, code_simp)

theorem autosave_accepted_witness:
  "\<exists>r p. mem_get_revision (sv_store with_draft) sample_page ViewDraft = Inr r
     \<and> rv_document r = text_document ''two'' \<and> rv_no r = 2
     \<and> ms_pages (sv_store with_draft) sample_page = Some p \<and> pg_status p = StatusDraft \<and> pg_title p = ''Home''"
proof -
  have doc: "hydrated_copy sample_deps (sample_autosave ''k'' 1 ''two'')
      (canonical_snapshot (au_document (sample_autosave ''k'' 1 ''two'')))
      (au_page (sample_autosave ''k'' 1 ''two'')) = Inr (text_document ''two'')"
    by code_simp
  have "int (sv_next with_page) < max_int64" by (simp add: with_page_next max_int64_def)
  moreover obtain payload where "autosave_draft sample_deps 20 (sample_autosave ''k'' 1 ''two'') with_page = (Inr payload, with_draft)"
    using sample_autosave_accepted(2) by (auto simp: with_draft_def prod_eq_iff)
  moreover have "map_option (\<lambda>p. (pg_draft_no p, pg_published_no p, pg_status p, pg_title p)) (ms_pages (sv_store with_page) sample_page)
      = Some (1, 0, StatusDraft, ''Home'')"
    by code_simp
  ultimately show ?thesis
    using autosave_accepted [of sample_deps with_page "sample_autosave ''k'' 1 ''two''" 20 payload with_draft]
      doc sample_ok(2) gen_ok_run_gen sample_autosave_accepted(1) by (auto simp: sample_autosave_def)
qed

section \<open>Repeated and stale requests\<close>

text \<open>
  C6: repeating an autosave is safe. After an accepted autosave with an idempotency key, a
  request with the same key for the same page that is authorized, whatever its base and
  document, is answered with the revision that was accepted, and stores nothing.
\<close>

theorem autosave_repeated:
  assumes "mem_service_ok (dp_gen dp) sv" and "gen_ok (dp_gen dp)" and "dp_store dp = memory_ops"
    and "int (sv_next sv) < max_int64"
    and "fst (autosave_guard dp input sv) = None" and "fst (autosave_draft dp now input sv) = Inr payload"
    and "trim_space (au_key input) \<noteq> ''''"
    and "trim_space (au_key again) = trim_space (au_key input)" and "au_page again = au_page input"
    and "0 < au_base again" and "trim_space (au_page again) \<noteq> ''''"
    and "require_action dp ActionPageEdit (subject_of again (au_page again)) = None"
    and "authorize_embed_usage dp (au_document again) (subject_of again (au_page again)) = None"
  shows "\<exists>payload'. fst (autosave_draft dp later again (snd (autosave_draft dp now input sv))) = Inr payload'
     \<and> ds_id payload' = ds_id payload \<and> ds_no payload' = ds_no payload
     \<and> sv_store (snd (autosave_draft dp later again (snd (autosave_draft dp now input sv))))
         = sv_store (snd (autosave_draft dp now input sv))"
proof (rule autosave_accepted_cases [OF assms(5,6)])
  fix cur b plan sv1 s'
  assume cur: "so_get_page (dp_store dp) (sv_store sv) (au_page input) = Inr cur"
    and plan: "autosave_plan dp now input cur b sv = (Inr plan, sv1)"
    and exec: "so_execute (dp_store dp) (draft_tx (au_base input) (wp_page plan) (wp_revision plan)
           (wp_idempotency plan) (wp_references plan) (wp_events plan)) (sv_store sv) = (None, s')"
    and s': "sv_store (snd (autosave_draft dp now input sv)) = s'"
    and nxt: "sv_next (snd (autosave_draft dp now input sv)) = sv_next sv1"
    and payload: "payload = build_draft_save_payload (au_page input) (wp_revision plan) (wp_descriptors plan)"
  note mem_dp = assms(3)
  have inv: "mem_inv (sv_store sv)" using assms(1) by (simp add: service_ok_def)
  have cur': "so_get_page memory_ops (sv_store sv) (au_page input) = Inr cur" using cur mem_dp by simp
  have id: "au_page input = pg_id cur" using mem.page_key [OF inv cur'] by simp
  note facts = autosave_plan_facts [OF plan id]
  have exec': "so_execute memory_ops (draft_tx (au_base input) (wp_page plan) (wp_revision plan)
           (wp_idempotency plan) (wp_references plan) (wp_events plan)) (sv_store sv) = (None, s')"
    using exec mem_dp by simp
  note stored = mem.draft_plan_stored [OF assms(1,2,4) cur' facts(1) exec' s' nxt]
  obtain i where i: "wp_idempotency plan = Some i" "id_key i = trim_space (au_key input)"
      "id_revision i = rv_id (wp_revision plan)"
    using facts(1,6) assms(7) by (auto simp: draft_plan_ok_def idempotency_for_def)
  have "pg_id (wp_page plan) = au_page input"
    using facts(1) id by (simp add: draft_plan_ok_def same_identity_def)
  then have found: "mem_get_idempotency s' (au_page input) (trim_space (au_key input)) = Inr (Some i)"
    using mem_draft_stored_fields(3) [OF exec' [simplified]] i assms(7) by simp
  have saved: "saved_before dp (au_page again) (trim_space (au_key again))
      (snd (autosave_draft dp now input sv)) = Some (wp_revision plan)"
    using found i stored(4) assms(8,9) mem_dp s' by (simp add: saved_before_def)
  let ?sv = "snd (autosave_draft dp now input sv)"
  obtain p' sv' where guard: "autosave_guard dp again ?sv = (Some (Inr p'), observe_save ''idempotent'' ?sv)"
      "ds_id p' = rv_id (wp_revision plan)" "ds_no p' = rv_no (wp_revision plan)"
    using saved assms(7,8,10-13)
    by (simp add: autosave_guard_def Let_def build_draft_save_payload_def)
  then have "autosave_draft dp later again ?sv = (Inr p', observe_save ''idempotent'' ?sv)"
    by (simp add: autosave_draft_def autosave_prepare_def)
  then show ?thesis
    using guard payload by (simp add: build_draft_save_payload_def)
qed

theorem autosave_repeated_witness:
  "sv_store (snd (autosave_draft sample_deps 30 (sample_autosave '' k '' 7 ''other'') with_draft))
     = sv_store with_draft"
proof -
  have "int (sv_next with_page) < max_int64" by (simp add: with_page_next max_int64_def)
  moreover have "trim_space ''k'' = ''k''" "trim_space '' k '' = ''k''" "trim_space sample_page \<noteq> ''''"
    by code_simp+
  moreover have "require_action sample_deps ActionPageEdit
      (subject_of (sample_autosave '' k '' 7 ''other'') sample_page) = None"
    "authorize_embed_usage sample_deps (text_document ''other'')
      (subject_of (sample_autosave '' k '' 7 ''other'') sample_page) = None"
    by code_simp+
  ultimately show ?thesis
    using autosave_repeated [of sample_deps with_page "sample_autosave ''k'' 1 ''two''" 20 _
        "sample_autosave '' k '' 7 ''other''" 30] sample_ok(2) gen_ok_run_gen sample_autosave_accepted
    by (auto simp: with_draft_def sample_autosave_def)
qed

text \<open>
  C5: optimistic concurrency. An autosave of a page that is not archived, on a base that is
  not the draft head, is refused with the current head, number, identifier and document,
  for the client to rebase on; it is counted as a conflict and stores nothing.
\<close>

theorem stale_autosave_refused:
  assumes "mem_inv (sv_store sv)" and "dp_store dp = memory_ops"
    and "autosave_guard dp input sv = (None, sv)"
    and "ms_pages (sv_store sv) (au_page input) = Some cur" and "pg_status cur \<noteq> StatusArchived"
    and "pg_draft_no cur \<noteq> au_base input"
  shows "\<exists>head. mem_get_revision (sv_store sv) (au_page input) ViewDraft = Inr head
     \<and> rv_id head = pg_draft_id cur \<and> rv_no head = pg_draft_no cur
     \<and> autosave_draft dp now input sv = (Inl (RebaseRequired (conflict_of head)), count_conflict sv)"
proof -
  have cur: "so_get_page memory_ops (sv_store sv) (au_page input) = Inr cur"
    using assms(4) by (simp add: mem_get_page_iff)
  obtain head where head: "mem_get_revision (sv_store sv) (au_page input) ViewDraft = Inr head"
      "rv_id head = pg_draft_id cur" "rv_no head = pg_draft_no cur"
    using mem.draft_head [OF assms(1) cur] by auto
  have "autosave_base dp input sv = (Inl (RebaseRequired (conflict_of head)), count_conflict sv)"
    using cur head assms(2,5,6)
    by (simp add: autosave_base_def ensure_page_mutable_def build_conflict_payload_def)
  then have "autosave_draft dp now input sv = (Inl (RebaseRequired (conflict_of head)), count_conflict sv)"
    using assms(3) by (simp add: autosave_draft_def autosave_prepare_def)
  then show ?thesis using head by blast
qed

theorem stale_autosave_refused_witness:
  "sv_store (snd (autosave_draft sample_deps 30 (sample_autosave '''' 1 ''late'') with_draft))
     = sv_store with_draft"
proof -
  have guard: "autosave_guard sample_deps (sample_autosave '''' 1 ''late'') with_draft = (None, with_draft)"
  proof -
    have "fst (autosave_guard sample_deps (sample_autosave '''' 1 ''late'') with_draft) = None" by code_simp
    then show ?thesis using autosave_guard_quiet(1) by (metis prod.collapse)
  qed
  obtain p where p: "ms_pages (sv_store with_draft) sample_page = Some p" using sample_pages(2) by auto
  have "map_option pg_status (ms_pages (sv_store with_draft) sample_page) = Some StatusDraft"
    "map_option pg_draft_no (ms_pages (sv_store with_draft) sample_page) = Some 2"
    by code_simp+
  with p have "pg_status p \<noteq> StatusArchived" "pg_draft_no p \<noteq> 1" by simp_all
  then show ?thesis
    using stale_autosave_refused [OF _ _ guard, of p 30] p sample_ok(3)
    by (auto simp: service_ok_def sample_autosave_def)
qed

section \<open>Publishing, restoring, archiving\<close>

lemma publish_accepted_cases:
  assumes "fst (publish_page dp now input sv) = Inr payload"
  obtains cur draft plan sv1 s'
  where "publish_prepare dp now input sv = (Inr plan, sv1)"
    and "publish_base dp input sv = Inr (cur, draft)"
    and "wp_revision plan = published_revision input cur draft (dp_gen dp (sv_next sv)) now"
    and "wp_page plan = with_published_head (wp_revision plan) (rq_actor input) now cur"
    and "map ob_event (wp_events plan)
           = [''page.published'', ''page.links.extracted'', ''page.attachments.changed'']"
    and "so_execute (dp_store dp) (publish_tx (pu_base input) (wp_page plan) (wp_revision plan)
           (wp_references plan) (wp_events plan)) (sv_store sv) = (None, s')"
    and "sv_store (snd (publish_page dp now input sv)) = s'"
    and "payload = \<lparr>pp_page = pu_page input, pp_no = rv_no (wp_revision plan),
           pp_id = rv_id (wp_revision plan), pp_at = now\<rparr>"
proof -
  obtain x sv1 where prep: "publish_prepare dp now input sv = (x, sv1)" by fastforce
  have "\<nexists>reply. x = Inl reply"
  proof
    assume "\<exists>reply. x = Inl reply"
    then show False using assms prep
      by (auto simp: publish_page_def publish_prepare_def Let_def split: sum.splits prod.splits)
  qed
  then obtain plan where x: "x = Inr plan" by (cases x) auto
  have store: "sv_store sv1 = sv_store sv"
    using publish_prepare_quiet [of sv dp now input] prep by (simp add: quiet_def)
  obtain err s' where exec: "so_execute (dp_store dp) (publish_tx (pu_base input) (wp_page plan)
      (wp_revision plan) (wp_references plan) (wp_events plan)) (sv_store sv) = (err, s')" by fastforce
  have run: "publish_page dp now input sv = publish_commit dp now input plan sv1"
    using prep x by (simp add: publish_page_def)
  have "err = None"
  proof (cases err)
    case (Some e)
    then show ?thesis using assms run exec store
      by (cases e) (auto simp: publish_commit_def Let_def split: sum.splits)
  qed simp
  moreover have "payload = \<lparr>pp_page = pu_page input, pp_no = rv_no (wp_revision plan),
           pp_id = rv_id (wp_revision plan), pp_at = now\<rparr>"
    using assms run exec store calculation by (simp add: publish_commit_def Let_def)
  ultimately show ?thesis
    using that prep x exec run store publish_prepare_facts [OF prep [unfolded x]]
    by (metis publish_commit_store(1) snd_conv)
qed

text \<open>
  C19: publishing takes a snapshot. An accepted publication makes the canonical form of the
  current draft head the published view, under the draft's title and a number above both
  heads; the draft head stays what it was, so that editing goes on from it, and later
  drafts do not reach the published view until the next publication.
\<close>

theorem publish_snapshot:
  assumes "mem_service_ok (dp_gen dp) sv" and "gen_ok (dp_gen dp)" and "dp_store dp = memory_ops"
    and "int (sv_next sv) < max_int64" and "fst (publish_page dp now input sv) = Inr payload"
  shows "\<exists>draft r. mem_get_revision (sv_store sv) (pu_page input) ViewDraft = Inr draft
     \<and> rv_no draft = pu_base input
     \<and> mem_get_revision (sv_store (snd (publish_page dp now input sv))) (pu_page input) ViewPublished = Inr r
     \<and> mem_get_revision (sv_store (snd (publish_page dp now input sv))) (pu_page input) ViewDraft = Inr draft
     \<and> rv_document r = canonical_snapshot (rv_document draft) \<and> rv_title r = rv_title draft
     \<and> rv_base r = rv_id draft \<and> rv_no draft < rv_no r
     \<and> pp_id payload = rv_id r \<and> pp_no payload = rv_no r
     \<and> (\<exists>p. ms_pages (sv_store (snd (publish_page dp now input sv))) (pu_page input) = Some p
          \<and> pg_status p = StatusPublished \<and> pg_title p = rv_title draft)"
proof (rule publish_accepted_cases [OF assms(5)])
  fix cur draft plan sv1 s'
  assume prep: "publish_prepare dp now input sv = (Inr plan, sv1)"
    and base: "publish_base dp input sv = Inr (cur, draft)"
    and rev: "wp_revision plan = published_revision input cur draft (dp_gen dp (sv_next sv)) now"
    and page: "wp_page plan = with_published_head (wp_revision plan) (rq_actor input) now cur"
    and exec: "so_execute (dp_store dp) (publish_tx (pu_base input) (wp_page plan) (wp_revision plan)
           (wp_references plan) (wp_events plan)) (sv_store sv) = (None, s')"
    and s': "sv_store (snd (publish_page dp now input sv)) = s'"
    and payload: "payload = \<lparr>pp_page = pu_page input, pp_no = rv_no (wp_revision plan),
           pp_id = rv_id (wp_revision plan), pp_at = now\<rparr>"
  note mem_dp = assms(3)
  have inv: "mem_inv (sv_store sv)" using assms(1) by (simp add: service_ok_def)
  have cur: "so_get_page memory_ops (sv_store sv) (pu_page input) = Inr cur"
      "pg_draft_no cur = pu_base input"
      "so_get_revision memory_ops (sv_store sv) (pu_page input) ViewDraft = Inr draft"
    using publish_base_cases [OF base] mem_dp by simp_all
  have id: "pg_id cur = pu_page input" using mem.page_key [OF inv cur(1)] .
  note fit = mem.numbers_fit [OF assms(1,4) cur(1)]
  have step: "publish_step cur (wp_page plan) (wp_revision plan)"
    using rev page fit(1) id assms(2)
    by (auto simp: publish_step_def published_revision_def with_published_head_def same_identity_def
        gen_ok_def)
  have fresh: "mem_unused (sv_store sv) (rv_id (wp_revision plan))"
    using assms(1) rev by (simp add: service_ok_def published_revision_def)
  have cur': "so_get_page memory_ops (sv_store sv) (pg_id cur) = Inr cur" using cur(1) id by simp
  have refer: "refer_to (rv_id (wp_revision plan)) (wp_references plan)"
    using publish_prepare_facts [OF prep] by blast
  note stored = mem.publish_done [OF inv cur' fresh step refer exec [unfolded mem_dp]]
  have heads: "rv_no draft = pg_draft_no cur" using mem.draft_head_no [OF inv cur(1,3)] by simp
  show ?thesis
    using stored id cur heads rev page fit(1) payload
    by (intro exI [of _ draft] exI [of _ "wp_revision plan"])
       (auto simp: s' published_revision_def with_published_head_def mem_get_page_iff)
qed

lemma sample_published:
  "fst (publish_page sample_deps 30 (sample_publish 2) with_draft)
     = Inr \<lparr>pp_page = sample_page, pp_no = 3, pp_id = run_gen 10, pp_at = 30\<rparr>"
  by code_simp

theorem publish_snapshot_witness:
  "\<exists>r. mem_get_revision (sv_store (snd (publish_page sample_deps 30 (sample_publish 2) with_draft)))
         sample_page ViewPublished = Inr r \<and> rv_document r = text_document ''two''"
proof -
  have "int (sv_next with_draft) < max_int64" by (simp add: with_draft_next max_int64_def)
  moreover have "(case mem_get_revision (sv_store with_draft) sample_page ViewDraft of Inl _ \<Rightarrow> empty_document
      | Inr r \<Rightarrow> canonical_snapshot (rv_document r)) = text_document ''two''"
    by code_simp
  ultimately show ?thesis
    using publish_snapshot [OF _ _ _ _ sample_published] sample_ok(3) gen_ok_run_gen
    by (fastforce simp: sample_publish_def)
qed

lemma restore_accepted_cases:
  assumes "fst (restore_revision dp now input sv) = Inr payload"
  obtains cur plan sv1 s'
  where "restore_prepare dp now input sv = (Inr (cur, plan), sv1)"
    and "so_execute (dp_store dp) (draft_tx (pg_draft_no cur) (wp_page plan) (wp_revision plan) None
           (wp_references plan) (wp_events plan)) (sv_store sv) = (None, s')"
    and "sv_store (snd (restore_revision dp now input sv)) = s'"
    and "sv_next (snd (restore_revision dp now input sv)) = sv_next sv1"
    and "payload = build_draft_save_payload (ro_page input) (wp_revision plan) (wp_descriptors plan)"
proof -
  obtain x sv1 where prep: "restore_prepare dp now input sv = (x, sv1)" by fastforce
  have "\<nexists>reply. x = Inl reply"
  proof
    assume "\<exists>reply. x = Inl reply"
    then show False using assms prep
      by (auto simp: restore_revision_def restore_prepare_def Let_def
          split: sum.splits prod.splits option.splits)
  qed
  then obtain cur plan where x: "x = Inr (cur, plan)" by (cases x) auto
  have store: "sv_store sv1 = sv_store sv"
    using restore_prepare_quiet [of sv dp now input] prep by (simp add: quiet_def)
  obtain err s' where exec: "so_execute (dp_store dp) (draft_tx (pg_draft_no cur) (wp_page plan)
      (wp_revision plan) None (wp_references plan) (wp_events plan)) (sv_store sv) = (err, s')" by fastforce
  have run: "restore_revision dp now input sv = restore_commit dp now input cur plan sv1"
    using prep x by (simp add: restore_revision_def)
  have "err = None" using assms run exec store by (cases err) (simp_all add: restore_commit_def)
  then show ?thesis
    using that [OF prep [unfolded x]] exec run store assms
    by (simp add: restore_commit_store) (simp add: restore_commit_def)
qed

text \<open>
  C20: restoring adds to the history instead of rewriting it. An accepted restore makes a
  new draft head, numbered after all others, with the canonical form of the restored
  revision's document and its title; it names that revision and the head it replaces, and
  both are still there, as is everything else.
\<close>

theorem restore_adds_revision:
  assumes "mem_service_ok (dp_gen dp) sv" and "gen_ok (dp_gen dp)" and "dp_store dp = memory_ops"
    and "int (sv_next sv) < max_int64" and "fst (restore_revision dp now input sv) = Inr payload"
  shows "\<exists>cur target r. ms_pages (sv_store sv) (ro_page input) = Some cur \<and> pg_status cur \<noteq> StatusArchived
     \<and> mem_get_revision_by_id (sv_store sv) (ro_page input) (ro_revision input) = Inr target
     \<and> mem_get_revision (sv_store (snd (restore_revision dp now input sv))) (ro_page input) ViewDraft = Inr r
     \<and> hydrated_copy dp input (canonical_snapshot (rv_document target)) (ro_page input) = Inr (rv_document r)
     \<and> rv_restored_from r = rv_id target \<and> rv_base r = pg_draft_id cur \<and> rv_title r = rv_title target
     \<and> rv_no r = max (pg_draft_no cur) (pg_published_no cur) + 1
     \<and> ds_id payload = rv_id r \<and> ds_no payload = rv_no r
     \<and> keeps_revisions memory_ops (sv_store sv) (sv_store (snd (restore_revision dp now input sv)))"
proof (rule restore_accepted_cases [OF assms(5)])
  fix cur plan sv1 s'
  assume prep: "restore_prepare dp now input sv = (Inr (cur, plan), sv1)"
    and exec: "so_execute (dp_store dp) (draft_tx (pg_draft_no cur) (wp_page plan) (wp_revision plan) None
           (wp_references plan) (wp_events plan)) (sv_store sv) = (None, s')"
    and s': "sv_store (snd (restore_revision dp now input sv)) = s'"
    and nxt: "sv_next (snd (restore_revision dp now input sv)) = sv_next sv1"
    and payload: "payload = build_draft_save_payload (ro_page input) (wp_revision plan) (wp_descriptors plan)"
  note mem_dp = assms(3)
  have inv: "mem_inv (sv_store sv)" using assms(1) by (simp add: service_ok_def)
  obtain t where "restore_base dp input sv = Inr (cur, t)"
    using prep by (auto simp: restore_prepare_def Let_def split: sum.splits option.splits prod.splits)
  then have cur: "so_get_page memory_ops (sv_store sv) (ro_page input) = Inr cur"
      "pg_status cur \<noteq> StatusArchived"
    using restore_base_cases mem_dp by metis+
  have id: "ro_page input = pg_id cur" using mem.page_key [OF inv cur(1)] by simp
  note facts = restore_prepare_facts [OF prep id]
  obtain target where target: "restore_base dp input sv = Inr (cur, target)"
      "hydrated_copy dp input (canonical_snapshot (rv_document target)) (ro_page input)
         = Inr (rv_document (wp_revision plan))"
      "rv_restored_from (wp_revision plan) = rv_id target" "rv_title (wp_revision plan) = rv_title target"
      "rv_base (wp_revision plan) = pg_draft_id cur"
    using facts(5) by blast
  have found: "mem_get_revision_by_id (sv_store sv) (ro_page input) (ro_revision input) = Inr target"
    using restore_base_cases(3) [OF target(1)] mem_dp by simp
  have plan_ok: "draft_plan_ok (dp_gen dp) (sv_next sv) (sv_next sv1) cur plan" by (rule facts(1))
  have exec': "so_execute memory_ops (draft_tx (pg_draft_no cur) (wp_page plan) (wp_revision plan)
      (wp_idempotency plan) (wp_references plan) (wp_events plan)) (sv_store sv) = (None, s')"
    using exec by (simp add: facts(4) mem_dp)
  note stored = mem.draft_plan_stored [OF assms(1,2,4) cur(1) plan_ok exec' s' nxt]
  show ?thesis
    using cur target found stored(3,5,6) payload
    by (intro exI [of _ cur] exI [of _ target] exI [of _ "wp_revision plan"])
       (simp add: s' mem_get_page_iff build_draft_save_payload_def)
qed

lemma sample_restored:
  "map_sum (\<lambda>_. ()) (\<lambda>p. ds_no p) (fst (restore_revision sample_deps 30 (sample_restore ''ii'') with_draft))
     = Inr 3"
  by code_simp

theorem restore_adds_revision_witness:
  "\<exists>r. mem_get_revision (sv_store (snd (restore_revision sample_deps 30 (sample_restore ''ii'') with_draft)))
         sample_page ViewDraft = Inr r \<and> rv_no r = 3"
proof -
  have "int (sv_next with_draft) < max_int64" by (simp add: with_draft_next max_int64_def)
  moreover obtain payload where "fst (restore_revision sample_deps 30 (sample_restore ''ii'') with_draft)
      = Inr payload" "ds_no payload = 3"
    using sample_restored by (cases "fst (restore_revision sample_deps 30 (sample_restore ''ii'') with_draft)") auto
  ultimately show ?thesis
    using restore_adds_revision [of sample_deps with_draft 30 "sample_restore ''ii''" payload]
      sample_ok(3) gen_ok_run_gen
    by (fastforce simp: sample_restore_def)
qed

end
