(* ===== verification/PageRaces.thy ===== *)
theory PageRaces
  imports PageBehaviour
begin

text \<open>
  Requests whose transactions interleave on the in-memory store: both have read the page
  before either stores. Between two drafts the store's check of the head number decides;
  a publication or an archiving does not move that number, so a draft that was prepared
  before it is accepted after it.
\<close>

text \<open>
  C4: of two autosaves prepared on the same draft head, at most one is accepted: once the
  first is stored, the second is refused with the first one's revision to rebase on, and
  changes nothing but the conflict counter.
\<close>

theorem racing_autosaves:
  assumes "mem_service_ok (dp_gen dp) sv" and "gen_ok (dp_gen dp)" and "dp_store dp = memory_ops"
    and "int (sv_next sv) < max_int64"
    and "autosave_prepare dp t1 i1 sv = (Inr plan1, sv1)"
    and "autosave_prepare dp t2 i2 sv1 = (Inr plan2, sv2)"
    and "au_page i2 = au_page i1"
    and "autosave_commit dp t1 i1 plan1 sv2 = (Inr payload, sv3)"
  shows "autosave_commit dp t2 i2 plan2 sv3
    = (Inl (RebaseRequired (conflict_of (wp_revision plan1))), count_conflict sv3)"
proof -
  note mem_dp = assms(3)
  have inv: "mem_inv (sv_store sv)" using assms(1) by (simp add: service_ok_def)
  have s1: "sv_store sv1 = sv_store sv" using autosave_prepare_quiet [of sv dp t1 i1] assms(5) by (simp add: quiet_def)
  have s2: "sv_store sv2 = sv_store sv" using autosave_prepare_quiet [of sv1 dp t2 i2] assms(6) s1 by (simp add: quiet_def)
  obtain cur b where c1: "so_get_page memory_ops (sv_store sv) (au_page i1) = Inr cur"
      "pg_draft_no cur = au_base i1" and p1: "autosave_plan dp t1 i1 cur b sv = (Inr plan1, sv1)"
    using autosave_prepare_cases [OF assms(5)] mem_dp by auto
  obtain cur2 b2 where c2: "so_get_page memory_ops (sv_store sv) (au_page i1) = Inr cur2"
      "pg_draft_no cur2 = au_base i2" and p2: "autosave_plan dp t2 i2 cur2 b2 sv1 = (Inr plan2, sv2)"
    using autosave_prepare_cases [OF assms(6)] mem_dp s1 assms(7) by auto
  have same: "cur2 = cur" using c1(1) c2(1) by simp
  have id: "au_page i1 = pg_id cur" using mem.page_key [OF inv c1(1)] by simp
  note facts1 = autosave_plan_facts [OF p1 id]
  have id2: "au_page i2 = pg_id cur2" using id assms(7) same by simp
  note facts2 = autosave_plan_facts [OF p2 id2]
  have cur: "so_get_page memory_ops (sv_store sv) (pg_id cur) = Inr cur" using c1(1) id by simp
  note step = mem.plan_is_step [OF assms(1,4) c1(1) facts1(1)]
  have fresh: "mem_unused (sv_store sv) (rv_id (wp_revision plan1))"
    using assms(1) facts1(1) by (simp add: service_ok_def draft_plan_ok_def)
  have refer: "refer_to (rv_id (wp_revision plan1)) (wp_references plan1)"
    using facts1(1) unfolding draft_plan_ok_def by blast
  let ?tx = "draft_tx (au_base i1) (wp_page plan1) (wp_revision plan1) (wp_idempotency plan1)
      (wp_references plan1) (wp_events plan1)"
  obtain err s' where exec: "so_execute memory_ops ?tx (sv_store sv) = (err, s')" by fastforce
  have "err = None"
  proof (cases err)
    case (Some e)
    then show ?thesis using assms(8) exec s2 mem_dp
      by (cases e) (auto simp: autosave_commit_def Let_def split: sum.splits)
  qed simp
  have s3: "sv_store sv3 = s'"
    using autosave_commit_store(1) [of dp t1 i1 plan1 sv2] assms(8) exec s2 mem_dp by simp
  note stored = mem.draft_done [OF inv cur fresh step refer exec [unfolded \<open>err = None\<close>]]
  have stale: "so_execute memory_ops (draft_tx (au_base i2) (wp_page plan2) (wp_revision plan2)
      (wp_idempotency plan2) (wp_references plan2) (wp_events plan2)) (sv_store sv3)
      = (Some ErrStaleRevision, sv_store sv3)"
    unfolding s3
  proof (rule mem.second_writer_stale [OF inv cur fresh step refer exec [unfolded \<open>err = None\<close>]])
    show "pg_id (wp_page plan2) = pg_id cur"
      using facts2(1) same by (simp add: draft_plan_ok_def same_identity_def)
    show "au_base i2 = pg_draft_no cur" using c2(2) same by simp
  qed
  have head: "mem_get_revision (sv_store sv3) (au_page i2) ViewDraft = Inr (wp_revision plan1)"
    using stored id2 same s3 by simp
  have keep: "sv3\<lparr>sv_store := sv_store sv3\<rparr> = sv3" by simp
  show ?thesis
    unfolding autosave_commit_def mem_dp stale
    by (simp add: keep head mem_dp build_conflict_payload_def Let_def)
qed

definition first_plan :: "((page_error + draft_save_payload) + write_plan) \<times> (mem_store, mem_replay) service" where
  "first_plan = autosave_prepare sample_deps 30 (sample_autosave '''' 2 ''left'') with_draft"

definition second_plan :: "((page_error + draft_save_payload) + write_plan) \<times> (mem_store, mem_replay) service" where
  "second_plan = autosave_prepare sample_deps 31 (sample_autosave '''' 2 ''right'') (snd first_plan)"

fun is_plan :: "('e + write_plan) \<Rightarrow> bool" where
  "is_plan (Inr _) = True"
| "is_plan (Inl _) = False"

lemma is_planE: "is_plan x \<Longrightarrow> \<exists>p. x = Inr p"
  by (cases x) auto

fun plan_of :: "('e + write_plan) \<Rightarrow> write_plan" where
  "plan_of (Inr p) = p"

lemma first_second_plans:
  "is_plan (fst first_plan)" "is_plan (fst second_plan)"
  "map_sum (\<lambda>_. ()) (\<lambda>_. ()) (fst (autosave_commit sample_deps 30 (sample_autosave '''' 2 ''left'')
     (plan_of (fst first_plan)) (snd second_plan))) = Inr ()"
  by code_simp+

lemma map_sum_InrE: "map_sum f (\<lambda>_. ()) x = Inr () \<Longrightarrow> \<exists>y. x = Inr y"
  by (cases x) auto

theorem racing_autosaves_witness:
  "\<exists>sv3 latest. snd (autosave_commit sample_deps 30 (sample_autosave '''' 2 ''left'')
       (plan_of (fst first_plan)) (snd second_plan)) = sv3
   \<and> autosave_commit sample_deps 31 (sample_autosave '''' 2 ''right'') (plan_of (fst second_plan)) sv3
       = (Inl (RebaseRequired latest), count_conflict sv3)"
proof -
  obtain p1 sv1 where p1: "autosave_prepare sample_deps 30 (sample_autosave '''' 2 ''left'') with_draft
      = (Inr p1, sv1)"
    using first_second_plans(1) is_planE by (metis first_plan_def prod.collapse)
  then have f1: "first_plan = (Inr p1, sv1)" by (simp add: first_plan_def)
  obtain p2 sv2 where p2: "autosave_prepare sample_deps 31 (sample_autosave '''' 2 ''right'') sv1
      = (Inr p2, sv2)"
    using first_second_plans(2) is_planE f1 by (metis second_plan_def prod.collapse snd_conv)
  then have f2: "second_plan = (Inr p2, sv2)" unfolding second_plan_def f1 snd_conv .
  obtain payload sv3 where c: "autosave_commit sample_deps 30 (sample_autosave '''' 2 ''left'') p1 sv2
      = (Inr payload, sv3)"
    using map_sum_InrE [OF first_second_plans(3) [unfolded f1 f2 fst_conv snd_conv plan_of.simps]]
    by (metis prod.collapse)
  have "int (sv_next with_draft) < max_int64" by (simp add: with_draft_next max_int64_def)
  then show ?thesis
    using racing_autosaves [OF _ _ _ _ p1 p2 _ c] sample_ok(3) gen_ok_run_gen
    unfolding f1 f2 fst_conv snd_conv plan_of.simps c
    by (simp add: sample_autosave_def)
qed

section \<open>A draft and a publication or an archiving\<close>

lemma mem_publish_exec:
  assumes "mem_execute (publish_tx base p r refs ev) s = (None, s')"
  shows "ms_pages s' = (ms_pages s)(pg_id p \<mapsto> p)"
  using assms by (auto simp: mem_publish_tx split: option.splits if_splits)

lemma mem_archive_exec:
  assumes "mem_execute (archive_tx base p ev) s = (None, s')"
  shows "ms_pages s' = (ms_pages s)(pg_id p \<mapsto> p)"
  using assms by (auto simp: mem_archive_tx split: option.splits if_splits)

text \<open>A prepared draft is stored whenever the draft number is still the one it was based on.\<close>

lemma late_draft_stored:
  assumes "dp_store dp = memory_ops" and "ms_pages (sv_store sv) (pg_id (wp_page plan)) = Some p"
    and "pg_draft_no p = au_base input"
  shows "fst (autosave_commit dp now input plan sv)
      = Inr (build_draft_save_payload (au_page input) (wp_revision plan) (wp_descriptors plan))"
    and "ms_pages (sv_store (snd (autosave_commit dp now input plan sv))) (pg_id (wp_page plan))
      = Some (wp_page plan)"
proof -
  obtain s' where exec: "mem_execute (draft_tx (au_base input) (wp_page plan) (wp_revision plan)
      (wp_idempotency plan) (wp_references plan) (wp_events plan)) (sv_store sv) = (None, s')"
      "ms_pages s' (pg_id (wp_page plan)) = Some (wp_page plan)"
    using assms(2,3) by (simp add: mem_draft_tx)
  then show "fst (autosave_commit dp now input plan sv)
      = Inr (build_draft_save_payload (au_page input) (wp_revision plan) (wp_descriptors plan))"
    "ms_pages (sv_store (snd (autosave_commit dp now input plan sv))) (pg_id (wp_page plan))
      = Some (wp_page plan)"
    using assms(1) by (simp_all add: autosave_commit_def)
qed

lemma autosave_prepared_page:
  assumes "mem_service_ok (dp_gen dp) sv" and "dp_store dp = memory_ops"
    and "autosave_prepare dp now input sv = (Inr plan, sv1)"
  obtains cur where "ms_pages (sv_store sv) (au_page input) = Some cur" and "pg_draft_no cur = au_base input"
    and "pg_status cur \<noteq> StatusArchived" and "pg_id cur = au_page input"
    and "draft_plan_ok (dp_gen dp) (sv_next sv) (sv_next sv1) cur plan" and "sv_store sv1 = sv_store sv"
proof -
  have inv: "mem_inv (sv_store sv)" using assms(1) by (simp add: service_ok_def)
  obtain cur b where c: "so_get_page memory_ops (sv_store sv) (au_page input) = Inr cur"
      "pg_draft_no cur = au_base input" "pg_status cur \<noteq> StatusArchived"
    and p: "autosave_plan dp now input cur b sv = (Inr plan, sv1)"
    using autosave_prepare_cases [OF assms(3)] assms(2) by auto
  have id: "pg_id cur = au_page input" using mem.page_key [OF inv c(1)] .
  show ?thesis
    using that c autosave_plan_facts(1,2) [OF p id [symmetric]] id by (simp add: mem_get_page_iff)
qed

text \<open>
  a publication can be lost. When a page is published after an autosave has read it
  and before that autosave is stored, the in-memory store accepts the autosave all the
  same and writes back the page as it was: the page has the status and the published head
  it had before the publication, and the draft has the number the publication was given.
\<close>

theorem racing_autosave_undoes_publication:
  assumes "mem_service_ok (dp_gen dp) sv" and "gen_ok (dp_gen dp)" and "dp_store dp = memory_ops"
    and "int (sv_next sv1) < max_int64"
    and "autosave_prepare dp t1 i sv = (Inr plan, sv1)"
    and "publish_page dp t2 j sv1 = (Inr published, sv2)" and "pu_page j = au_page i"
  shows "\<exists>cur p payload. ms_pages (sv_store sv) (au_page i) = Some cur
     \<and> fst (autosave_commit dp t1 i plan sv2) = Inr payload
     \<and> ms_pages (sv_store (snd (autosave_commit dp t1 i plan sv2))) (au_page i) = Some p
     \<and> pg_status p = pg_status cur \<and> pg_published_id p = pg_published_id cur
     \<and> pg_published_no p = pg_published_no cur
     \<and> ds_no payload = pp_no published"
proof (rule autosave_prepared_page [OF assms(1,3,5)])
  fix cur
  assume cur: "ms_pages (sv_store sv) (au_page i) = Some cur" "pg_draft_no cur = au_base i"
      "pg_id cur = au_page i"
    and plan: "draft_plan_ok (dp_gen dp) (sv_next sv) (sv_next sv1) cur plan"
    and s1: "sv_store sv1 = sv_store sv"
  note mem_dp = assms(3)
  have fst: "fst (publish_page dp t2 j sv1) = Inr published" using assms(6) by simp
  obtain cur2 draft pplan sv1' s' where p: "publish_prepare dp t2 j sv1 = (Inr pplan, sv1')"
      "publish_base dp j sv1 = Inr (cur2, draft)"
      "wp_revision pplan = published_revision j cur2 draft (dp_gen dp (sv_next sv1)) t2"
      "wp_page pplan = with_published_head (wp_revision pplan) (rq_actor j) t2 cur2"
      "map ob_event (wp_events pplan)
           = [''page.published'', ''page.links.extracted'', ''page.attachments.changed'']"
      "so_execute (dp_store dp) (publish_tx (pu_base j) (wp_page pplan) (wp_revision pplan)
           (wp_references pplan) (wp_events pplan)) (sv_store sv1) = (None, s')"
      "sv_store (snd (publish_page dp t2 j sv1)) = s'"
      "published = \<lparr>pp_page = pu_page j, pp_no = rv_no (wp_revision pplan),
           pp_id = rv_id (wp_revision pplan), pp_at = t2\<rparr>"
    by (rule publish_accepted_cases [OF fst])
  have s2: "sv_store sv2 = s'" using p(7) assms(6) by simp
  have "cur2 = cur"
    using publish_base_cases(1) [OF p(2)] mem_dp s1 cur(1) assms(7) by (simp add: mem_get_page_iff)
  then have pages: "ms_pages (sv_store sv2) (au_page i) = Some (wp_page pplan)"
      "pg_draft_no (wp_page pplan) = au_base i"
    using mem_publish_exec [OF p(6) [unfolded mem_dp memory_ops_simps]] p(4) s2 cur(2,3)
    by (simp_all add: with_published_head_def)
  have id: "pg_id (wp_page plan) = au_page i"
    using plan cur(3) by (simp add: draft_plan_ok_def same_identity_def)
  have late: "fst (autosave_commit dp t1 i plan sv2)
      = Inr (build_draft_save_payload (au_page i) (wp_revision plan) (wp_descriptors plan))"
    "ms_pages (sv_store (snd (autosave_commit dp t1 i plan sv2))) (au_page i) = Some (wp_page plan)"
    using late_draft_stored [OF mem_dp, of sv2 plan "wp_page pplan" i t1] pages id by simp_all
  have "rv_no (wp_revision plan) = pp_no published"
    using plan p(3,8) \<open>cur2 = cur\<close> by (simp add: draft_plan_ok_def published_revision_def)
  then show ?thesis
    using cur(1) late plan by (auto simp: draft_plan_ok_def build_draft_save_payload_def)
qed

lemma first_plan_then_published:
  "map_sum (\<lambda>_. ()) (\<lambda>_. ()) (fst (publish_page sample_deps 40 (sample_publish 2) (snd first_plan))) = Inr ()"
  "sv_next (snd first_plan) = 14"
  "map_option pg_published_id (ms_pages (sv_store with_draft) sample_page) = Some ''''"
  by code_simp+

lemma first_planE:
  obtains p1 sv1 where "autosave_prepare sample_deps 30 (sample_autosave '''' 2 ''left'') with_draft
      = (Inr p1, sv1)" and "first_plan = (Inr p1, sv1)"
  using first_second_plans(1) is_planE by (metis first_plan_def prod.collapse)

theorem racing_autosave_undoes_publication_witness:
  "\<exists>p. ms_pages (sv_store (snd (autosave_commit sample_deps 30 (sample_autosave '''' 2 ''left'')
        (plan_of (fst first_plan)) (snd (publish_page sample_deps 40 (sample_publish 2) (snd first_plan))))))
        sample_page = Some p
     \<and> pg_published_id p = ''''"
proof (rule first_planE)
  fix p1 sv1
  assume p1: "autosave_prepare sample_deps 30 (sample_autosave '''' 2 ''left'') with_draft = (Inr p1, sv1)"
    and f1: "first_plan = (Inr p1, sv1)"
  obtain published sv2 where p2: "publish_page sample_deps 40 (sample_publish 2) sv1 = (Inr published, sv2)"
    using map_sum_InrE [OF first_plan_then_published(1)] f1 by (metis prod.collapse snd_conv)
  have "int (sv_next sv1) < max_int64" using first_plan_then_published(2) unfolding f1 snd_conv by (simp add: max_int64_def)
  then show ?thesis
    using racing_autosave_undoes_publication [OF _ _ _ _ p1 p2] sample_ok(3) gen_ok_run_gen
      first_plan_then_published(3)
    unfolding f1 fst_conv snd_conv plan_of.simps p2
    by (fastforce simp: sample_autosave_def sample_publish_def)
qed

text \<open>
  in the same way an archiving can be undone: an autosave that has read the page before
  it was archived is accepted after it, and the page has its old status again.
\<close>

theorem racing_autosave_undoes_archiving:
  assumes "mem_service_ok (dp_gen dp) sv" and "dp_store dp = memory_ops"
    and "autosave_prepare dp t1 i sv = (Inr plan, sv1)"
    and "archive_page dp t2 j sv1 = (Inr archived, sv2)"
    and "ar_page_id j = au_page i" and "ar_base j = au_base i"
  shows "pa_status archived = Some StatusArchived
     \<and> (\<exists>p payload. fst (autosave_commit dp t1 i plan sv2) = Inr payload
          \<and> ms_pages (sv_store (snd (autosave_commit dp t1 i plan sv2))) (au_page i) = Some p
          \<and> pg_status p \<noteq> StatusArchived)"
proof (rule autosave_prepared_page [OF assms(1-3)])
  fix cur
  assume cur: "ms_pages (sv_store sv) (au_page i) = Some cur" "pg_draft_no cur = au_base i"
      "pg_status cur \<noteq> StatusArchived" "pg_id cur = au_page i"
    and plan: "draft_plan_ok (dp_gen dp) (sv_next sv) (sv_next sv1) cur plan"
    and s1: "sv_store sv1 = sv_store sv"
  note mem_dp = assms(2)
  let ?page = "cur\<lparr>pg_status := StatusArchived, pg_updated_by := rq_actor j, pg_updated_at := t2\<rparr>"
  obtain x sv1' where prep: "archive_prepare dp t2 j sv1 = (x, sv1')" by fastforce
  have "\<exists>event. x = Inr (?page, event)"
    using prep assms(4-6) cur s1 mem_dp
    by (auto simp: archive_page_def archive_prepare_def Let_def mem_get_page_def
        split: option.splits prod.splits)
  then obtain event where x: "x = Inr (?page, event)" by blast
  have s1': "sv_store sv1' = sv_store sv"
    using archive_prepare_quiet [of sv1 dp t2 j] prep s1 by (simp add: quiet_def)
  have run: "archive_commit dp t2 j ?page event sv1' = (Inr archived, sv2)"
    using assms(4) prep x by (simp add: archive_page_def)
  have "mem_execute (archive_tx (ar_base j) ?page [event]) (sv_store sv) =
      (None, (sv_store sv)\<lparr>ms_pages := (ms_pages (sv_store sv))(pg_id ?page \<mapsto> ?page),
                           ms_outbox := ms_outbox (sv_store sv) @ [event]\<rparr>)"
    using cur assms(6) by (simp add: mem_archive_tx)
  then have pages: "ms_pages (sv_store sv2) (au_page i) = Some ?page"
    and archived: "pa_status archived = Some StatusArchived"
    using run s1' mem_dp cur(4) by (auto simp: archive_commit_def archive_payload_def)
  have id: "pg_id (wp_page plan) = au_page i"
    using plan cur(4) by (simp add: draft_plan_ok_def same_identity_def)
  have late: "fst (autosave_commit dp t1 i plan sv2)
      = Inr (build_draft_save_payload (au_page i) (wp_revision plan) (wp_descriptors plan))"
    "ms_pages (sv_store (snd (autosave_commit dp t1 i plan sv2))) (au_page i) = Some (wp_page plan)"
    using late_draft_stored [OF mem_dp, of sv2 plan ?page i t1] pages id cur(2) by simp_all
  then show ?thesis using archived cur(3) plan by (auto simp: draft_plan_ok_def)
qed

lemma first_plan_then_archived:
  "map_sum (\<lambda>_. ()) (\<lambda>_. ()) (fst (archive_page sample_deps 40 (sample_archive 2) (snd first_plan))) = Inr ()"
  by code_simp

theorem racing_autosave_undoes_archiving_witness:
  "\<exists>p. ms_pages (sv_store (snd (autosave_commit sample_deps 30 (sample_autosave '''' 2 ''left'')
        (plan_of (fst first_plan)) (snd (archive_page sample_deps 40 (sample_archive 2) (snd first_plan))))))
        sample_page = Some p
     \<and> pg_status p \<noteq> StatusArchived"
proof (rule first_planE)
  fix p1 sv1
  assume p1: "autosave_prepare sample_deps 30 (sample_autosave '''' 2 ''left'') with_draft = (Inr p1, sv1)"
    and f1: "first_plan = (Inr p1, sv1)"
  obtain archived sv2 where p2: "archive_page sample_deps 40 (sample_archive 2) sv1 = (Inr archived, sv2)"
    using map_sum_InrE [OF first_plan_then_archived] f1 by (metis prod.collapse snd_conv)
  show ?thesis
    using racing_autosave_undoes_archiving [OF _ _ p1 p2] sample_ok(3)
    unfolding f1 fst_conv snd_conv plan_of.simps p2
    by (fastforce simp: sample_autosave_def sample_archive_def)
qed

end
