(* ===== verification/Outbox.thy ===== *)
theory Outbox
  imports PageStore
begin

text \<open>
  The transactional outbox: bounded retries (\<^verbatim>\<open>pkg/messaging/retry.go\<close>), the relay that
  polls pending events and publishes them (\<^verbatim>\<open>pkg/messaging/outbox.go\<close>), and the relay's
  side of the in-memory page store (\<^verbatim>\<open>internal/adapters/memory/store.go\<close>).

  What lies outside the process, the message bus, the timers and the clock, is a state of
  type \<open>'w\<close> with the operations of a \<open>relay_env\<close>.
\<close>

section \<open>Retries\<close>

record retry_policy =
  rp_max_attempts :: int
  rp_backoff :: duration
  rp_max_backoff :: duration

datatype run_error = RunFailed string | RunCancelled

definition with_defaults :: "retry_policy \<Rightarrow> retry_policy" where
  "with_defaults policy =
     \<lparr>rp_max_attempts = (if rp_max_attempts policy \<le> 0 then 1 else rp_max_attempts policy),
      rp_backoff = (if rp_backoff policy \<le> 0 then 250 * millisecond else rp_backoff policy),
      rp_max_backoff = (if rp_max_backoff policy \<le> 0 then 5 * second else rp_max_backoff policy)\<rparr>"

definition next_delay :: "duration \<Rightarrow> duration \<Rightarrow> duration" where
  "next_delay maxBackoff delay =
     (let delay = wrap64 (delay * 2) in if maxBackoff < delay then maxBackoff else delay)"

text \<open>
  The loop, by the number of attempts left. \<open>wait\<close> sleeps and says whether the context was
  cancelled meanwhile.
\<close>

fun retry_loop ::
  "nat \<Rightarrow> duration \<Rightarrow> duration \<Rightarrow> ('w \<Rightarrow> string option \<times> 'w) \<Rightarrow> (duration \<Rightarrow> 'w \<Rightarrow> bool \<times> 'w) \<Rightarrow>
   'w \<Rightarrow> run_error option \<times> 'w" where
  "retry_loop 0 maxBackoff delay fn wait w = (Some (RunFailed ''retry exhausted''), w)"
| "retry_loop (Suc left) maxBackoff delay fn wait w =
     (case fn w of
        (None, w) \<Rightarrow> (None, w)
      | (Some err, w) \<Rightarrow>
          if left = 0 then (Some (RunFailed err), w)
          else (case wait delay w of
                  (True, w) \<Rightarrow> (Some RunCancelled, w)
                | (False, w) \<Rightarrow> retry_loop left maxBackoff (next_delay maxBackoff delay) fn wait w))"

definition retry ::
  "retry_policy \<Rightarrow> ('w \<Rightarrow> string option \<times> 'w) \<Rightarrow> (duration \<Rightarrow> 'w \<Rightarrow> bool \<times> 'w) \<Rightarrow>
   'w \<Rightarrow> run_error option \<times> 'w" where
  "retry policy fn wait w =
     (let policy = with_defaults policy
      in retry_loop (nat (rp_max_attempts policy)) (rp_max_backoff policy) (rp_backoff policy) fn wait w)"

section \<open>The relay\<close>

record outbox_message =
  om_id :: string
  om_subject :: string
  om_payload :: json
  om_headers :: "(string \<times> string) list"
  om_attempts :: int
  om_last_error :: string
  om_occurred_at :: gotime
  om_available_at :: gotime

record 's outbox_ops =
  oo_claim :: "int \<Rightarrow> 's \<Rightarrow> string + outbox_message list"
  oo_mark_published :: "string \<Rightarrow> gotime \<Rightarrow> 's \<Rightarrow> string option \<times> 's"
  oo_mark_failed :: "string \<Rightarrow> string \<Rightarrow> gotime \<Rightarrow> 's \<Rightarrow> string option \<times> 's"

record 'w relay_env =
  en_publish :: "string \<Rightarrow> json \<Rightarrow> (string \<times> string) list \<Rightarrow> 'w \<Rightarrow> string option \<times> 'w"
  en_wait :: "duration \<Rightarrow> 'w \<Rightarrow> bool \<times> 'w"
  en_now :: "'w \<Rightarrow> gotime"
  en_published :: "outbox_message \<Rightarrow> 'w \<Rightarrow> 'w"
  en_failed :: "outbox_message \<Rightarrow> run_error \<Rightarrow> 'w \<Rightarrow> 'w"

text \<open>\<open>error.Error()\<close> of what \<open>Retry\<close> returns.\<close>

fun run_error_text :: "run_error \<Rightarrow> string" where
  "run_error_text (RunFailed err) = err"
| "run_error_text RunCancelled = ''context canceled''"

fun flush_messages ::
  "'s outbox_ops \<Rightarrow> 'w relay_env \<Rightarrow> retry_policy \<Rightarrow> outbox_message list \<Rightarrow> 's \<times> 'w \<Rightarrow>
   string option \<times> 's \<times> 'w" where
  "flush_messages ops env policy [] (s, w) = (None, s, w)"
| "flush_messages ops env policy (message # messages) (s, w) =
     (case retry policy (en_publish env (om_subject message) (om_payload message) (om_headers message))
             (en_wait env) w of
        (Some publishErr, w) \<Rightarrow>
          let nextAttemptAt = en_now env w + rp_backoff policy;
              nextAttemptAt = (if nextAttemptAt = zero_time then en_now env w + second else nextAttemptAt)
          in (case oo_mark_failed ops (om_id message) (run_error_text publishErr) nextAttemptAt s of
                (Some err, s) \<Rightarrow> (Some err, s, w)
              | (None, s) \<Rightarrow> flush_messages ops env policy messages (s, en_failed env message publishErr w))
      | (None, w) \<Rightarrow>
          (case oo_mark_published ops (om_id message) (en_now env w) s of
             (Some err, s) \<Rightarrow> (Some err, s, w)
           | (None, s) \<Rightarrow> flush_messages ops env policy messages (s, en_published env message w)))"

definition flush_once ::
  "'s outbox_ops \<Rightarrow> 'w relay_env \<Rightarrow> retry_policy \<Rightarrow> int \<Rightarrow> 's \<times> 'w \<Rightarrow> string option \<times> 's \<times> 'w" where
  "flush_once ops env policy batchSize sw =
     (case oo_claim ops batchSize (fst sw) of
        Inl err \<Rightarrow> (Some err, sw)
      | Inr messages \<Rightarrow> flush_messages ops env policy messages sw)"

text \<open>
  \<open>Run\<close>, for as many ticks as are given, after which the context is cancelled. A store
  error other than a cancellation ends the loop.
\<close>

fun relay_loop ::
  "'s outbox_ops \<Rightarrow> 'w relay_env \<Rightarrow> retry_policy \<Rightarrow> int \<Rightarrow> nat \<Rightarrow> 's \<times> 'w \<Rightarrow> string \<times> 's \<times> 'w" where
  "relay_loop ops env policy batchSize ticks sw =
     (case flush_once ops env policy batchSize sw of
        (err, sw) \<Rightarrow>
          if err \<noteq> None \<and> err \<noteq> Some ''context canceled'' then (the err, sw)
          else (case ticks of
                  0 \<Rightarrow> (''context canceled'', sw)
                | Suc n \<Rightarrow> relay_loop ops env policy batchSize n sw))"

definition relay_run ::
  "'s outbox_ops option \<Rightarrow> 'w relay_env option \<Rightarrow> retry_policy \<Rightarrow> int \<Rightarrow> nat \<Rightarrow> 's \<times> 'w \<Rightarrow> string \<times> 's \<times> 'w" where
  "relay_run store publisher policy batchSize ticks sw =
     (case store of
        None \<Rightarrow> (''outbox store is required'', sw)
      | Some ops \<Rightarrow>
          (case publisher of
             None \<Rightarrow> (''outbox publisher is required'', sw)
           | Some env \<Rightarrow> relay_loop ops env policy (if batchSize \<le> 0 then 25 else batchSize) ticks sw))"

section \<open>The in-memory outbox\<close>

definition message_of :: "outbox_record \<Rightarrow> outbox_message" where
  "message_of record =
     \<lparr>om_id = ob_id record, om_subject = ob_event record, om_payload = ob_payload record,
      om_headers = [], om_attempts = 0, om_last_error = '''', om_occurred_at = ob_created_at record,
      om_available_at = ob_available_at record\<rparr>"

text \<open>The loop over the records; it looks at the batch size only after adding a message.\<close>

fun claim_loop :: "int \<Rightarrow> int \<Rightarrow> outbox_record list \<Rightarrow> outbox_message list" where
  "claim_loop batchSize taken [] = []"
| "claim_loop batchSize taken (record # records) =
     (if ob_status record \<noteq> OutboxPending then claim_loop batchSize taken records
      else if batchSize \<le> taken + 1 then [message_of record]
      else message_of record # claim_loop batchSize (taken + 1) records)"

definition mem_claim_pending :: "int \<Rightarrow> mem_store \<Rightarrow> string + outbox_message list" where
  "mem_claim_pending batchSize s = Inr (claim_loop batchSize 0 (ms_outbox s))"

fun set_status ::
  "string \<Rightarrow> outbox_status \<Rightarrow> gotime \<Rightarrow> outbox_record list \<Rightarrow> outbox_record list" where
  "set_status i status at [] = []"
| "set_status i status at (record # records) =
     (if ob_id record = i then record\<lparr>ob_status := status, ob_available_at := at\<rparr> # records
      else record # set_status i status at records)"

definition mem_mark_published :: "string \<Rightarrow> gotime \<Rightarrow> mem_store \<Rightarrow> string option \<times> mem_store" where
  "mem_mark_published i publishedAt s =
     (None, s\<lparr>ms_outbox := set_status i OutboxPublished publishedAt (ms_outbox s)\<rparr>)"

definition mem_mark_failed :: "string \<Rightarrow> string \<Rightarrow> gotime \<Rightarrow> mem_store \<Rightarrow> string option \<times> mem_store" where
  "mem_mark_failed i lastError nextAttemptAt s =
     (None, s\<lparr>ms_outbox := set_status i OutboxFailed nextAttemptAt (ms_outbox s)\<rparr>)"

definition memory_outbox_ops :: "mem_store outbox_ops" where
  "memory_outbox_ops =
     \<lparr>oo_claim = mem_claim_pending, oo_mark_published = mem_mark_published,
      oo_mark_failed = mem_mark_failed\<rparr>"

lemma memory_outbox_ops_simps [simp]:
  "oo_claim memory_outbox_ops = mem_claim_pending"
  "oo_mark_published memory_outbox_ops = mem_mark_published"
  "oo_mark_failed memory_outbox_ops = mem_mark_failed"
  by (simp_all add: memory_outbox_ops_def)

section \<open>Retry facts\<close>

text \<open>The attempts and the waits, counted beside the outside state.\<close>

definition counted :: "('w \<Rightarrow> 'e option \<times> 'w) \<Rightarrow> nat \<times> duration list \<times> 'w \<Rightarrow> 'e option \<times> nat \<times> duration list \<times> 'w" where
  "counted fn x = (case x of (n, ds, w) \<Rightarrow> (case fn w of (e, w') \<Rightarrow> (e, n + 1, ds, w')))"

definition logged :: "(duration \<Rightarrow> 'w \<Rightarrow> bool \<times> 'w) \<Rightarrow> duration \<Rightarrow> nat \<times> duration list \<times> 'w \<Rightarrow> bool \<times> nat \<times> duration list \<times> 'w" where
  "logged wait d x = (case x of (n, ds, w) \<Rightarrow> (case wait d w of (b, w') \<Rightarrow> (b, n, ds @ [d], w')))"

lemma counted_apply: "counted fn (n, ds, w) = (case fn w of (e, w') \<Rightarrow> (e, n + 1, ds, w'))"
  by (simp add: counted_def)

lemma logged_apply: "logged wait d (n, ds, w) = (case wait d w of (b, w') \<Rightarrow> (b, n, ds @ [d], w'))"
  by (simp add: logged_def)

fun delays :: "nat \<Rightarrow> duration \<Rightarrow> duration \<Rightarrow> duration list" where
  "delays 0 maxBackoff delay = []"
| "delays (Suc n) maxBackoff delay = delay # delays n maxBackoff (next_delay maxBackoff delay)"

lemma length_delays [simp]: "length (delays n m d) = n"
  by (induction n arbitrary: d) auto

lemma retry_loop_counts:
  assumes "retry_loop left m d (counted fn) (logged wait) (n, ds, w) = (res, n', ds', w')" and "0 < left"
  shows "\<exists>k. n < n' \<and> n' \<le> n + left \<and> k \<le> n' - n \<and> k < left \<and> ds' = ds @ delays k m d
    \<and> (res = None \<longrightarrow> k = n' - n - 1)
    \<and> (\<forall>e. res = Some (RunFailed e) \<longrightarrow> n' = n + left)"
  using assms
proof (induction left arbitrary: d n ds w)
  case 0
  then show ?case by simp
next
  case (Suc left)
  obtain e w1 where fn: "fn w = (e, w1)" by fastforce
  show ?case
  proof (cases "e = None \<or> left = 0")
    case True
    then show ?thesis
      using Suc.prems fn by (intro exI [of _ 0]) (auto simp: counted_apply split: option.splits)
  next
    case False
    then obtain err where err: "e = Some err" by auto
    obtain b w2 where wait: "wait d w1 = (b, w2)" by fastforce
    show ?thesis
    proof (cases b)
      case True
      then show ?thesis
        using Suc.prems fn err wait False
        by (intro exI [of _ 1]) (auto simp: counted_apply logged_apply)
    next
      case b: False
      have "retry_loop left m (next_delay m d) (counted fn) (logged wait) (n + 1, ds @ [d], w2)
          = (res, n', ds', w')"
        using Suc.prems fn err wait False b by (simp add: counted_apply logged_apply)
      from Suc.IH [OF this] False obtain k where k: "n + 1 < n'" "n' \<le> n + 1 + left"
          "k \<le> n' - (n + 1)" "k < left" "ds' = (ds @ [d]) @ delays k m (next_delay m d)"
          "res = None \<longrightarrow> k = n' - (n + 1) - 1"
          "\<forall>e. res = Some (RunFailed e) \<longrightarrow> n' = n + 1 + left"
        by auto
      then show ?thesis by (intro exI [of _ "Suc k"]) auto
    qed
  qed
qed

lemma next_delay_bound:
  assumes "0 < d" and "d \<le> 2 ^ 61" and "0 < m" and "m \<le> 2 ^ 61"
  shows "0 < next_delay m d" and "next_delay m d \<le> m" and "next_delay m d \<le> 2 * d"
    and "next_delay m d = min m (2 * d)"
proof -
  have "fits64 (d * 2)" using assms by (simp add: fits64_def max_int64_def)
  then have "next_delay m d = min m (2 * d)" by (auto simp: next_delay_def Let_def)
  then show "0 < next_delay m d" "next_delay m d \<le> m" "next_delay m d \<le> 2 * d"
    "next_delay m d = min m (2 * d)"
    using assms by auto
qed

lemma delays_bounded:
  assumes "0 < d" and "d \<le> 2 ^ 61" and "0 < m" and "m \<le> 2 ^ 61"
  shows "\<forall>i < n. 0 < delays n m d ! i \<and> delays n m d ! i \<le> max d m
     \<and> (0 < i \<longrightarrow> delays n m d ! i \<le> m \<and> delays n m d ! i = min m (2 * delays n m d ! (i - 1)))"
  using assms
proof (induction n arbitrary: d)
  case 0
  then show ?case by simp
next
  case (Suc n)
  note b = next_delay_bound [OF Suc.prems]
  have small: "next_delay m d \<le> 2 ^ 61" using b(2) Suc.prems by linarith
  note ih = Suc.IH [OF b(1) small Suc.prems(3,4)]
  show ?case
  proof (intro allI impI)
    fix i assume i: "i < Suc n"
    show "0 < delays (Suc n) m d ! i \<and> delays (Suc n) m d ! i \<le> max d m
     \<and> (0 < i \<longrightarrow> delays (Suc n) m d ! i \<le> m
          \<and> delays (Suc n) m d ! i = min m (2 * delays (Suc n) m d ! (i - 1)))"
    proof (cases i)
      case 0
      then show ?thesis using Suc.prems by simp
    next
      case (Suc j)
      then have j: "j < n" using i by simp
      from ih j have h: "0 < delays n m (next_delay m d) ! j" "delays n m (next_delay m d) ! j \<le> m"
        "0 < j \<longrightarrow> delays n m (next_delay m d) ! j = min m (2 * delays n m (next_delay m d) ! (j - 1))"
        using b(2) by (auto simp: max_def split: if_splits)
      show ?thesis
      proof (cases j)
        case 0
        have "delays n m (next_delay m d) ! 0 = next_delay m d"
          using j 0 by (cases n) auto
        then show ?thesis using Suc 0 h b by auto
      next
        case (Suc k)
        then show ?thesis using \<open>i = Suc j\<close> h by auto
      qed
    qed
  qed
qed

section \<open>Facts about the in-memory outbox\<close>

lemma claim_loop_eq:
  assumes "0 \<le> taken"
  shows "claim_loop b taken rs =
     take (nat (max 1 (b - taken))) (map message_of (filter (\<lambda>r. ob_status r = OutboxPending) rs))"
  using assms
proof (induction b taken rs rule: claim_loop.induct)
  case (1 b taken)
  then show ?case by simp
next
  case (2 b taken r rs)
  consider "ob_status r \<noteq> OutboxPending" | "ob_status r = OutboxPending" "b \<le> taken + 1"
    | "ob_status r = OutboxPending" "\<not> b \<le> taken + 1"
    by blast
  then show ?case
  proof cases
    case 1
    then show ?thesis using 2 by simp
  next
    case 2
    then have "nat (max 1 (b - taken)) = 1" by simp
    then show ?thesis using 2 by simp
  next
    case 3
    then have "nat (max 1 (b - taken)) = Suc (nat (max 1 (b - (taken + 1))))" by simp
    then show ?thesis using 2 3 by simp
  qed
qed

lemma claimed_pending:
  assumes "mem_claim_pending b s = Inr ms" and "m \<in> set ms"
  shows "\<exists>r \<in> set (ms_outbox s). ob_status r = OutboxPending \<and> om_id m = ob_id r"
proof -
  have "m \<in> set (map message_of (filter (\<lambda>r. ob_status r = OutboxPending) (ms_outbox s)))"
    using assms by (auto simp: mem_claim_pending_def claim_loop_eq dest: in_set_takeD)
  then show ?thesis by (auto simp: message_of_def)
qed

lemma claimed_distinct:
  assumes "mem_claim_pending b s = Inr ms" and "distinct (map ob_id (ms_outbox s))"
  shows "distinct (map om_id ms)"
proof -
  let ?p = "filter (\<lambda>r. ob_status r = OutboxPending) (ms_outbox s)"
  have ms: "ms = take (nat (max 1 b)) (map message_of ?p)"
    using assms(1) by (simp add: mem_claim_pending_def claim_loop_eq)
  have "map om_id ms = take (nat (max 1 b)) (map ob_id ?p)"
    by (simp add: ms take_map [symmetric] message_of_def comp_def)
  moreover have "distinct (map ob_id ?p)" using assms(2) by (simp add: distinct_map_filter)
  ultimately show ?thesis by (simp only: distinct_take)
qed

lemma set_status_map:
  "distinct (map ob_id rs) \<Longrightarrow> set_status i st at rs =
     map (\<lambda>r. if ob_id r = i then r\<lparr>ob_status := st, ob_available_at := at\<rparr> else r) rs"
proof (induction i st at rs rule: set_status.induct)
  case (2 i st at r rs)
  have "map (\<lambda>r. if ob_id r = i then r\<lparr>ob_status := st, ob_available_at := at\<rparr> else r) rs = rs"
    if "ob_id r = i"
  proof -
    have "\<forall>x \<in> set rs. ob_id x \<noteq> i" using 2(2) that by (auto simp: image_iff)
    then show ?thesis by (intro map_idI) simp
  qed
  then show ?case using 2 by auto
qed simp

lemma set_status_ids [simp]: "map ob_id (set_status i st at rs) = map ob_id rs"
  by (induction i st at rs rule: set_status.induct) auto

lemma set_status_keeps:
  "r \<in> set rs \<Longrightarrow> ob_id r \<noteq> i \<Longrightarrow> r \<in> set (set_status i st at rs)"
  by (induction i st at rs rule: set_status.induct) auto

lemma flush_messages_keeps:
  assumes "flush_messages memory_outbox_ops env policy ms (s, w) = (err, s', w')"
    and "r \<in> set (ms_outbox s)" and "ob_id r \<notin> om_id ` set ms"
  shows "r \<in> set (ms_outbox s') \<and> map ob_id (ms_outbox s') = map ob_id (ms_outbox s) \<and> err = None"
  using assms
proof (induction ms arbitrary: s w)
  case Nil
  then show ?case by simp
next
  case (Cons m ms)
  obtain e w1 where r: "retry policy (en_publish env (om_subject m) (om_payload m) (om_headers m))
      (en_wait env) w = (e, w1)" by fastforce
  obtain st at w2 where nxt: "flush_messages memory_outbox_ops env policy ms
      (s\<lparr>ms_outbox := set_status (om_id m) st at (ms_outbox s)\<rparr>, w2) = (err, s', w')"
    using Cons.prems(1) r
    by (cases e) (auto simp: mem_mark_failed_def mem_mark_published_def Let_def)
  have "r \<in> set (ms_outbox (s\<lparr>ms_outbox := set_status (om_id m) st at (ms_outbox s)\<rparr>))"
    using Cons.prems(2,3) by (auto intro: set_status_keeps)
  from Cons.IH [OF nxt this] Cons.prems(3) show ?case by simp
qed

lemma flush_once_keeps:
  assumes "flush_once memory_outbox_ops env policy b (s, w) = (err, s', w')"
    and "distinct (map ob_id (ms_outbox s))"
    and "r \<in> set (ms_outbox s)" and "ob_status r \<noteq> OutboxPending"
  shows "r \<in> set (ms_outbox s') \<and> map ob_id (ms_outbox s') = map ob_id (ms_outbox s)"
proof -
  obtain ms where ms: "mem_claim_pending b s = Inr ms" by (simp add: mem_claim_pending_def)
  have "ob_id r \<notin> om_id ` set ms"
  proof
    assume "ob_id r \<in> om_id ` set ms"
    then obtain m where "m \<in> set ms" "ob_id r = om_id m" by blast
    then obtain q where "q \<in> set (ms_outbox s)" "ob_status q = OutboxPending" "ob_id q = ob_id r"
      using claimed_pending [OF ms] by metis
    then show False using assms(2,3,4) by (metis distinct_map inj_onD)
  qed
  then show ?thesis
    using flush_messages_keeps [of env policy ms s w err s' w' r] assms(1,3) ms
    by (simp add: flush_once_def)
qed

section \<open>Properties\<close>

text \<open>
  retries are bounded. The function is called at least once and at most as often as
  the policy says (once when it says nothing), until it succeeds; a failure is reported
  only after all attempts; the waits between attempts are positive, double from one to the
  next up to the maximum, and only the first can exceed the maximum.
\<close>

theorem retry_bounded:
  assumes "retry policy (counted fn) (logged wait) (0, [], w) = (res, n, ds, w')"
    and "rp_backoff policy \<le> 2 ^ 61" and "rp_max_backoff policy \<le> 2 ^ 61"
  shows "1 \<le> n \<and> int n \<le> max 1 (rp_max_attempts policy) \<and> length ds < nat (max 1 (rp_max_attempts policy))
   \<and> (res = None \<longrightarrow> length ds = n - 1)
   \<and> (\<forall>e. res = Some (RunFailed e) \<longrightarrow> int n = max 1 (rp_max_attempts policy))
   \<and> (\<forall>i < length ds. 0 < ds ! i \<and> (i = 0 \<longrightarrow> ds ! i = rp_backoff (with_defaults policy))
        \<and> (0 < i \<longrightarrow> ds ! i = min (rp_max_backoff (with_defaults policy)) (2 * ds ! (i - 1))))"
proof -
  let ?p = "with_defaults policy"
  have pos: "0 < rp_backoff ?p" "rp_backoff ?p \<le> 2 ^ 61" "0 < rp_max_backoff ?p" "rp_max_backoff ?p \<le> 2 ^ 61"
    using assms(2,3) by (auto simp: with_defaults_def millisecond_def second_def)
  have att: "nat (rp_max_attempts ?p) = nat (max 1 (rp_max_attempts policy))"
      "0 < nat (rp_max_attempts ?p)"
    by (auto simp: with_defaults_def max_def)
  have "retry_loop (nat (rp_max_attempts ?p)) (rp_max_backoff ?p) (rp_backoff ?p) (counted fn) (logged wait)
      (0, [], w) = (res, n, ds, w')"
    using assms(1) by (simp add: retry_def Let_def)
  from retry_loop_counts [OF this att(2)] obtain k where k: "0 < n" "n \<le> nat (rp_max_attempts ?p)"
      "k < nat (rp_max_attempts ?p)" "ds = delays k (rp_max_backoff ?p) (rp_backoff ?p)"
      "res = None \<longrightarrow> k = n - 1" "\<forall>e. res = Some (RunFailed e) \<longrightarrow> n = nat (rp_max_attempts ?p)"
    by auto
  have first: "0 < k \<Longrightarrow> ds ! 0 = rp_backoff ?p" using k(4) by (cases k) auto
  have steps: "\<forall>i < k. 0 < ds ! i
      \<and> (0 < i \<longrightarrow> ds ! i = min (rp_max_backoff ?p) (2 * ds ! (i - 1)))"
    using delays_bounded [OF pos, of k] k(4) by auto
  show ?thesis
    using k first steps att by auto
qed

definition failing_publisher :: "nat \<Rightarrow> string option \<times> nat" where
  "failing_publisher n = (if n < 2 then Some ''down'' else None, n + 1)"

definition sample_policy :: retry_policy where
  "sample_policy = \<lparr>rp_max_attempts = 4, rp_backoff = 300, rp_max_backoff = 500\<rparr>"

lemma sample_retry:
  "retry sample_policy (counted failing_publisher) (logged (\<lambda>d n. (False, n))) (0, [], 0)
     = (None, 3, [300, 500], 3)"
  by code_simp

theorem retry_bounded_witness:
  "length [300 :: int, 500] < nat (max 1 (rp_max_attempts sample_policy))
   \<and> [300, 500] ! 1 = min (rp_max_backoff (with_defaults sample_policy)) (2 * [300 :: int, 500] ! 0)"
  using retry_bounded [OF sample_retry] by (auto simp: sample_policy_def)

text \<open>
  an event that could not be published is never tried again. Once a record is marked
  failed, no number of polls with any publisher changes it, whatever the next attempt time
  it carries: only pending records are claimed.
\<close>

theorem failed_event_never_retried:
  assumes "relay_loop memory_outbox_ops env policy b ticks (s, w) = (err, s', w')"
    and "distinct (map ob_id (ms_outbox s))"
    and "r \<in> set (ms_outbox s)" and "ob_status r = OutboxFailed"
  shows "r \<in> set (ms_outbox s')"
  using assms(1-3)
proof (induction ticks arbitrary: s w)
  case 0
  obtain e s1 w1 where f: "flush_once memory_outbox_ops env policy b (s, w) = (e, s1, w1)"
    by (metis prod_cases3)
  then have "s' = s1" using 0(1) by (auto split: if_splits)
  then show ?case using flush_once_keeps [OF f 0(2,3)] assms(4) by simp
next
  case (Suc ticks)
  obtain e s1 w1 where f: "flush_once memory_outbox_ops env policy b (s, w) = (e, s1, w1)"
    by (metis prod_cases3)
  have kept: "r \<in> set (ms_outbox s1)" "distinct (map ob_id (ms_outbox s1))"
    using flush_once_keeps [OF f Suc.prems(2,3)] assms(4) Suc.prems(2) by auto
  show ?case
  proof (cases "e \<noteq> None \<and> e \<noteq> Some ''context canceled''")
    case True
    then show ?thesis using Suc.prems(1) f kept(1) by simp
  next
    case False
    then have "relay_loop memory_outbox_ops env policy b ticks (s1, w1) = (err, s', w')"
      using Suc.prems(1) f by (simp split: if_splits)
    then show ?thesis by (rule Suc.IH) (use kept in auto)
  qed
qed

text \<open>A bus that takes some messages and refuses others, and keeps what it took.\<close>

definition logging_env :: "(string \<Rightarrow> json \<Rightarrow> bool) \<Rightarrow> gotime \<Rightarrow> (string \<times> json) list relay_env" where
  "logging_env ok t =
     \<lparr>en_publish = (\<lambda>subject payload headers log.
        if ok subject payload then (None, log @ [(subject, payload)]) else (Some ''unreachable'', log)),
      en_wait = (\<lambda>_ log. (False, log)), en_now = (\<lambda>_. t),
      en_published = (\<lambda>_ log. log), en_failed = (\<lambda>_ _ log. log)\<rparr>"

lemma logging_env_simps:
  "en_now (logging_env ok t) log = t" "en_published (logging_env ok t) msg log = log"
  "en_failed (logging_env ok t) msg err log = log"
  by (simp_all add: logging_env_def)

lemma message_of_fields:
  "om_id (message_of r) = ob_id r" "om_subject (message_of r) = ob_event r"
  "om_payload (message_of r) = ob_payload r"
  by (simp_all add: message_of_def)

lemma retry_loop_fails:
  assumes "\<And>w. fn w = (Some e, w)" and "\<And>d w. wait d w = (False, w)" and "0 < left"
  shows "retry_loop left m d fn wait w = (Some (RunFailed e), w)"
  using assms(3) by (induction left arbitrary: d) (auto simp: assms(1,2))

lemma retry_logging:
  "retry policy (en_publish (logging_env ok t) subject payload hs) (en_wait (logging_env ok t)) log =
     (if ok subject payload then (None, log @ [(subject, payload)])
      else (Some (RunFailed ''unreachable''), log))"
proof -
  obtain left where left: "nat (rp_max_attempts (with_defaults policy)) = Suc left"
    by (cases "nat (rp_max_attempts (with_defaults policy))")
       (auto simp: with_defaults_def split: if_splits)
  show ?thesis
  proof (cases "ok subject payload")
    case True
    then show ?thesis by (simp add: retry_def left logging_env_def Let_def)
  next
    case False
    then show ?thesis
      using retry_loop_fails [of "en_publish (logging_env ok t) subject payload hs" "''unreachable''"
          "en_wait (logging_env ok t)" "Suc left"]
      by (simp add: retry_def left logging_env_def Let_def)
  qed
qed

definition after_poll ::
  "(string \<Rightarrow> json \<Rightarrow> bool) \<Rightarrow> gotime \<Rightarrow> retry_policy \<Rightarrow> outbox_record \<Rightarrow> outbox_record" where
  "after_poll ok t policy r =
     (if ok (ob_event r) (ob_payload r) then r\<lparr>ob_status := OutboxPublished, ob_available_at := t\<rparr>
      else r\<lparr>ob_status := OutboxFailed,
             ob_available_at := (if t + rp_backoff policy = 0 then t + second else t + rp_backoff policy)\<rparr>)"

lemma flush_messages_logging:
  assumes "distinct (map ob_id (ms_outbox s))" and "set rs \<subseteq> set (ms_outbox s)" and "distinct (map ob_id rs)"
  shows "flush_messages memory_outbox_ops (logging_env ok t) policy (map message_of rs) (s, log) =
    (None,
     s\<lparr>ms_outbox := map (\<lambda>r. if ob_id r \<in> ob_id ` set rs then after_poll ok t policy r else r) (ms_outbox s)\<rparr>,
     log @ map (\<lambda>r. (ob_event r, ob_payload r)) (filter (\<lambda>r. ok (ob_event r) (ob_payload r)) rs))"
  using assms
proof (induction rs arbitrary: s log)
  case Nil
  then show ?case by simp
next
  case (Cons m rs)
  let ?upd = "\<lambda>r. if ob_id r = ob_id m then after_poll ok t policy r else r"
  let ?s = "s\<lparr>ms_outbox := map ?upd (ms_outbox s)\<rparr>"
  let ?log = "log @ (if ok (ob_event m) (ob_payload m) then [(ob_event m, ob_payload m)] else [])"
  have same: "r = m" if "r \<in> set (ms_outbox s)" "ob_id r = ob_id m" for r
    using Cons.prems(1,2) that by (auto simp: distinct_map inj_on_def)
  have status: "set_status (ob_id m) (if ok (ob_event m) (ob_payload m) then OutboxPublished else OutboxFailed)
      (if ok (ob_event m) (ob_payload m) then t
       else if t + rp_backoff policy = 0 then t + second else t + rp_backoff policy) (ms_outbox s)
      = map ?upd (ms_outbox s)"
    unfolding set_status_map [OF Cons.prems(1)]
    by (intro map_cong refl) (auto simp: after_poll_def dest: same)
  have step: "flush_messages memory_outbox_ops (logging_env ok t) policy (map message_of (m # rs)) (s, log) =
      flush_messages memory_outbox_ops (logging_env ok t) policy (map message_of rs) (?s, ?log)"
    using status
    by (simp add: retry_logging message_of_fields mem_mark_published_def mem_mark_failed_def Let_def
        logging_env_simps split: if_splits)
  have ids: "map ob_id (ms_outbox ?s) = map ob_id (ms_outbox s)"
    by (auto simp: after_poll_def)
  have "r \<in> set (ms_outbox ?s)" if "r \<in> set rs" for r
  proof -
    have "ob_id r \<noteq> ob_id m" using Cons.prems(3) that by (auto simp: image_iff)
    then have "?upd r = r" by simp
    then show ?thesis using Cons.prems(2) that by (force simp: image_iff)
  qed
  then have "set rs \<subseteq> set (ms_outbox ?s)" by blast
  moreover have "distinct (map ob_id (ms_outbox ?s))" unfolding ids by (rule Cons.prems(1))
  moreover have "distinct (map ob_id rs)" using Cons.prems(3) by simp
  ultimately have rest: "flush_messages memory_outbox_ops (logging_env ok t) policy (map message_of rs) (?s, ?log) =
    (None,
     ?s\<lparr>ms_outbox := map (\<lambda>r. if ob_id r \<in> ob_id ` set rs then after_poll ok t policy r else r) (ms_outbox ?s)\<rparr>,
     ?log @ map (\<lambda>r. (ob_event r, ob_payload r)) (filter (\<lambda>r. ok (ob_event r) (ob_payload r)) rs))"
    by (intro Cons.IH)
  have "ob_id m \<notin> ob_id ` set rs" using Cons.prems(3) by simp
  then have "map (\<lambda>r. if ob_id r \<in> ob_id ` set rs then after_poll ok t policy r else r) (map ?upd (ms_outbox s)) =
      map (\<lambda>r. if ob_id r \<in> ob_id ` set (m # rs) then after_poll ok t policy r else r) (ms_outbox s)"
    by (auto simp: after_poll_def)
  then show ?case unfolding step rest by simp
qed

lemma flush_once_logging:
  assumes "distinct (map ob_id (ms_outbox s))"
    and "batch = take (nat (max 1 b)) (filter (\<lambda>r. ob_status r = OutboxPending) (ms_outbox s))"
  shows "flush_once memory_outbox_ops (logging_env ok t) policy b (s, log) =
    (None,
     s\<lparr>ms_outbox := map (\<lambda>r. if ob_id r \<in> ob_id ` set batch then after_poll ok t policy r else r) (ms_outbox s)\<rparr>,
     log @ map (\<lambda>r. (ob_event r, ob_payload r)) (filter (\<lambda>r. ok (ob_event r) (ob_payload r)) batch))"
proof -
  have "set batch \<subseteq> set (ms_outbox s)" using assms(2) by (auto dest: in_set_takeD)
  moreover have "distinct (map ob_id batch)"
    using assms by (simp add: take_map [symmetric] distinct_map_filter)
  moreover have "mem_claim_pending b s = Inr (map message_of batch)"
    by (simp add: mem_claim_pending_def claim_loop_eq assms(2) take_map)
  ultimately show ?thesis
    using flush_messages_logging [OF assms(1)] by (simp add: flush_once_def)
qed

text \<open>
  one poll of the relay, with any batch size and any set of messages the bus takes:
  it handles the oldest pending events up to the batch size, hands those the bus takes to
  it once each in the order they were queued, marks exactly these published and the others
  of the batch failed, and touches nothing else of the store.
\<close>

theorem relay_poll:
  assumes "distinct (map ob_id (ms_outbox s))"
    and "batch = take (nat (max 1 b)) (filter (\<lambda>r. ob_status r = OutboxPending) (ms_outbox s))"
  shows "flush_once memory_outbox_ops (logging_env ok t) policy b (s, log) =
    (None,
     s\<lparr>ms_outbox := map (\<lambda>r. if ob_id r \<in> ob_id ` set batch then after_poll ok t policy r else r) (ms_outbox s)\<rparr>,
     log @ map (\<lambda>r. (ob_event r, ob_payload r)) (filter (\<lambda>r. ok (ob_event r) (ob_payload r)) batch))"
  using assms by (rule flush_once_logging)

definition sample_event :: "string \<Rightarrow> outbox_status \<Rightarrow> outbox_record" where
  "sample_event i st = \<lparr>ob_id = i, ob_aggregate_type = ''page'', ob_aggregate_id = ''p'',
     ob_event = ''page.created'', ob_payload = JNull, ob_status = st, ob_created_at = 1, ob_available_at = 1\<rparr>"

definition sample_outbox :: mem_store where
  "sample_outbox = new_mem_store\<lparr>ms_outbox :=
     [sample_event ''a'' OutboxPublished, sample_event ''b'' OutboxFailed, sample_event ''c'' OutboxPending]\<rparr>"

theorem relay_poll_witness:
  "map ob_status (ms_outbox (fst (snd (flush_once memory_outbox_ops (logging_env (\<lambda>_ _. True) 9)
     sample_policy 5 (sample_outbox, []))))) = [OutboxPublished, OutboxFailed, OutboxPublished]"
proof -
  have "distinct (map ob_id (ms_outbox sample_outbox))"
    by (simp add: sample_outbox_def sample_event_def)
  then show ?thesis
    using relay_poll [of sample_outbox _ 5 "\<lambda>_ _. True" 9 sample_policy "[]"]
    by (simp add: sample_outbox_def sample_event_def after_poll_def)
qed

theorem failed_event_never_retried_witness:
  "sample_event ''b'' OutboxFailed \<in> set (ms_outbox (fst (snd (relay_loop memory_outbox_ops
     (logging_env (\<lambda>_ _. True) 9) sample_policy 5 3 (sample_outbox, [])))))"
proof -
  have "distinct (map ob_id (ms_outbox sample_outbox))"
    by (simp add: sample_outbox_def sample_event_def)
  moreover have "sample_event ''b'' OutboxFailed \<in> set (ms_outbox sample_outbox)"
    "ob_status (sample_event ''b'' OutboxFailed) = OutboxFailed"
    by (simp_all add: sample_outbox_def sample_event_def)
  ultimately show ?thesis
    using failed_event_never_retried [of "logging_env (\<lambda>_ _. True) 9" sample_policy 5 3 sample_outbox "[]"]
    by (metis prod.collapse)
qed

section \<open>Draining the outbox\<close>

definition pending :: "outbox_record list \<Rightarrow> outbox_record list" where
  "pending records = filter (\<lambda>r. ob_status r = OutboxPending) records"

lemma filter_not_taken:
  "distinct (map ob_id xs) \<Longrightarrow> filter (\<lambda>r. ob_id r \<notin> ob_id ` set (take n xs)) xs = drop n xs"
proof (induction xs arbitrary: n)
  case (Cons x xs)
  then show ?case
  proof (cases n)
    case (Suc m)
    have "filter (\<lambda>r. ob_id r \<notin> ob_id ` set (take m xs)) xs = drop m xs" using Cons by simp
    moreover have "ob_id r \<noteq> ob_id x" if "r \<in> set xs" for r using Cons.prems that by (auto simp: image_iff)
    ultimately show ?thesis using Suc by (auto cong: filter_cong)
  qed simp
qed simp

lemma pending_after_poll:
  assumes "distinct (map ob_id records)"
  shows "pending (map (\<lambda>r. if ob_id r \<in> ob_id ` set (take n (pending records)) then after_poll ok t policy r else r) records) =
    drop n (pending records)"
proof -
  let ?taken = "ob_id ` set (take n (pending records))"
  have "pending (map (\<lambda>r. if ob_id r \<in> ids then after_poll ok t policy r else r) rs) =
      filter (\<lambda>r. ob_id r \<notin> ids) (pending rs)" for ids rs
    by (induction rs) (auto simp: pending_def after_poll_def)
  moreover have "distinct (map ob_id (pending records))"
    using assms by (simp add: pending_def distinct_map_filter)
  ultimately show ?thesis by (simp add: filter_not_taken)
qed

lemma relay_loop_drains:
  assumes "distinct (map ob_id (ms_outbox s))"
  shows "\<exists>s'. relay_loop memory_outbox_ops (logging_env ok t) policy b ticks (s, log) =
      (''context canceled'', s',
       log @ map (\<lambda>r. (ob_event r, ob_payload r))
         (filter (\<lambda>r. ok (ob_event r) (ob_payload r)) (take (Suc ticks * nat (max 1 b)) (pending (ms_outbox s)))))
    \<and> pending (ms_outbox s') = drop (Suc ticks * nat (max 1 b)) (pending (ms_outbox s))
    \<and> (\<exists>ob. s' = s\<lparr>ms_outbox := ob\<rparr>)"
  using assms
proof (induction ticks arbitrary: s log)
  case 0
  from flush_once_logging [OF this refl] show ?case
    by (auto simp: pending_def [symmetric] pending_after_poll [OF 0])
next
  case (Suc ticks)
  let ?n = "nat (max 1 b)"
  let ?s = "s\<lparr>ms_outbox := map (\<lambda>r. if ob_id r \<in> ob_id ` set (take ?n (pending (ms_outbox s)))
      then after_poll ok t policy r else r) (ms_outbox s)\<rparr>"
  let ?log = "log @ map (\<lambda>r. (ob_event r, ob_payload r))
      (filter (\<lambda>r. ok (ob_event r) (ob_payload r)) (take ?n (pending (ms_outbox s))))"
  have step: "flush_once memory_outbox_ops (logging_env ok t) policy b (s, log) = (None, ?s, ?log)"
    using flush_once_logging [OF Suc.prems refl] by (simp add: pending_def)
  have left: "pending (ms_outbox ?s) = drop ?n (pending (ms_outbox s))"
    using pending_after_poll [OF Suc.prems] by simp
  have "map ob_id (ms_outbox ?s) = map ob_id (ms_outbox s)" by (auto simp: after_poll_def)
  then have "distinct (map ob_id (ms_outbox ?s))" using Suc.prems by metis
  from Suc.IH [OF this, of ?log, unfolded left] obtain s' where
    rest: "relay_loop memory_outbox_ops (logging_env ok t) policy b ticks (?s, ?log) = (''context canceled'', s',
      ?log @ map (\<lambda>r. (ob_event r, ob_payload r)) (filter (\<lambda>r. ok (ob_event r) (ob_payload r))
        (take (Suc ticks * ?n) (drop ?n (pending (ms_outbox s))))))"
    and left': "pending (ms_outbox s') = drop (Suc ticks * ?n) (drop ?n (pending (ms_outbox s)))"
    and outbox: "\<exists>ob. s' = ?s\<lparr>ms_outbox := ob\<rparr>" by blast
  have "relay_loop memory_outbox_ops (logging_env ok t) policy b (Suc ticks) (s, log) =
      relay_loop memory_outbox_ops (logging_env ok t) policy b ticks (?s, ?log)"
    by (subst relay_loop.simps) (simp add: step del: relay_loop.simps)
  moreover have "Suc (Suc ticks) * ?n = ?n + Suc ticks * ?n" by simp
  ultimately show ?case
    using rest left' outbox by (auto simp: take_add add.commute [of "Suc ticks * ?n"] simp del: relay_loop.simps mult_Suc)
qed

text \<open>What the bus has got once the relay has polled that often.\<close>

lemma relay_run_log:
  assumes "distinct (map ob_id (ms_outbox s))"
    and "relay_run (Some memory_outbox_ops) (Some (logging_env ok t)) policy b ticks (s, []) = (err, s', log)"
  shows "log = map (\<lambda>r. (ob_event r, ob_payload r)) (filter (\<lambda>r. ok (ob_event r) (ob_payload r))
      (take (Suc ticks * nat (if b \<le> 0 then 25 else b)) (pending (ms_outbox s))))"
    and "\<exists>ob. s' = s\<lparr>ms_outbox := ob\<rparr>"
proof -
  have "nat (max 1 (if b \<le> 0 then 25 else b)) = nat (if b \<le> 0 then 25 else b)" by simp
  moreover obtain s1 where "relay_run (Some memory_outbox_ops) (Some (logging_env ok t)) policy b ticks (s, []) =
      (''context canceled'', s1, [] @ map (\<lambda>r. (ob_event r, ob_payload r)) (filter (\<lambda>r. ok (ob_event r) (ob_payload r))
        (take (Suc ticks * nat (max 1 (if b \<le> 0 then 25 else b))) (pending (ms_outbox s)))))"
    and "\<exists>ob. s1 = s\<lparr>ms_outbox := ob\<rparr>"
    using relay_loop_drains [OF assms(1), of ok t policy "if b \<le> 0 then 25 else b" ticks "[]"]
    unfolding relay_run_def option.case by blast
  ultimately show "log = map (\<lambda>r. (ob_event r, ob_payload r)) (filter (\<lambda>r. ok (ob_event r) (ob_payload r))
      (take (Suc ticks * nat (if b \<le> 0 then 25 else b)) (pending (ms_outbox s))))"
    and "\<exists>ob. s' = s\<lparr>ms_outbox := ob\<rparr>"
    using assms(2) by simp_all
qed

text \<open>
  C18: the relay empties the outbox: once it has polled often enough for the pending events at its batch
  size (25 where none is set), none is left pending, and what the bus took are the events it accepts,
  once each, in the order they were queued.
\<close>

theorem relay_drains:
  assumes "distinct (map ob_id (ms_outbox s))"
    and "length (pending (ms_outbox s)) \<le> Suc ticks * nat (if b \<le> 0 then 25 else b)"
  shows "\<exists>s'. relay_run (Some memory_outbox_ops) (Some (logging_env ok t)) policy b ticks (s, []) =
      (''context canceled'', s', map (\<lambda>r. (ob_event r, ob_payload r))
         (filter (\<lambda>r. ok (ob_event r) (ob_payload r)) (pending (ms_outbox s))))
    \<and> pending (ms_outbox s') = []"
proof -
  have "nat (max 1 (if b \<le> 0 then 25 else b)) = nat (if b \<le> 0 then 25 else b)" by simp
  then show ?thesis
    using relay_loop_drains [OF assms(1), of ok t policy "if b \<le> 0 then 25 else b" ticks "[]"] assms(2)
    unfolding relay_run_def option.case by (fastforce simp del: relay_loop.simps mult_Suc)
qed

theorem relay_drains_witness:
  "\<exists>s'. relay_run (Some memory_outbox_ops) (Some (logging_env (\<lambda>_ _. True) 9)) sample_policy 1 1 (sample_outbox, []) =
      (''context canceled'', s', [(''page.created'', JNull)]) \<and> pending (ms_outbox s') = []"
proof -
  have "distinct (map ob_id (ms_outbox sample_outbox))"
    by (simp add: sample_outbox_def sample_event_def)
  then show ?thesis
    using relay_drains [of sample_outbox 1 1 "\<lambda>_ _. True" 9 sample_policy]
    by (simp add: sample_outbox_def sample_event_def pending_def)
qed

end
