(* ===== verification/Editor.thy ===== *)
theory Editor
  imports PageService
begin

text \<open>
  What an editor may offer: the block catalogue, the slash menu, the hotkeys and the
  capabilities of \<^verbatim>\<open>internal/domain/editor_catalog.go\<close> (page service), and the use case that
  asks the policy for them, \<^verbatim>\<open>internal/usecase/get_editor_metadata.go\<close>.
\<close>

section \<open>The catalogue\<close>

record block_entry =
  be_type :: string
  be_label :: string
  be_children :: bool
  be_collab :: bool

record slash_item =
  si_key :: string
  si_label :: string
  si_category :: string
  si_block :: string
  si_hotkey :: bool

record hotkey_definition =
  hk_key :: string
  hk_action :: string
  hk_description :: string

record embed_entry =
  ee_source :: string
  ee_label :: string
  ee_allowed :: bool

record editor_metadata =
  em_blocks :: "block_entry list"
  em_slash :: "slash_item list"
  em_hotkeys :: "hotkey_definition list"
  em_capabilities :: "(string \<times> bool) list"
  em_embeds :: "embed_entry list"

record editor_options =
  eo_edit :: bool
  eo_upload :: bool
  eo_embed :: bool
  eo_collaborate :: bool
  eo_publish :: bool
  eo_restore :: bool
  eo_realtime :: bool
  eo_replay :: bool
  eo_files :: bool
  eo_embeds :: bool

definition block_entry_of :: "string \<Rightarrow> string \<Rightarrow> bool \<Rightarrow> bool \<Rightarrow> block_entry" where
  "block_entry_of t l ch co = \<lparr>be_type = t, be_label = l, be_children = ch, be_collab = co\<rparr>"

definition slash_item_of :: "string \<Rightarrow> string \<Rightarrow> string \<Rightarrow> string \<Rightarrow> bool \<Rightarrow> slash_item" where
  "slash_item_of k l c b h =
     \<lparr>si_key = k, si_label = l, si_category = c, si_block = b, si_hotkey = h\<rparr>"

definition hotkey_of :: "string \<Rightarrow> string \<Rightarrow> string \<Rightarrow> hotkey_definition" where
  "hotkey_of k a d = \<lparr>hk_key = k, hk_action = a, hk_description = d\<rparr>"

definition block_catalog :: "editor_options \<Rightarrow> block_entry list" where
  "block_catalog options =
     [block_entry_of block_type_paragraph ''Paragraph'' False True,
      block_entry_of block_type_heading ''Heading'' False True,
      block_entry_of block_type_checklist ''Checklist'' True True,
      block_entry_of block_type_quote ''Quote'' False True,
      block_entry_of block_type_code ''Code block'' False False,
      block_entry_of block_type_page_link ''Page link'' False True]
     @ (if eo_embed options \<and> eo_embeds options then
          [block_entry_of block_type_table_embed ''MWS table'' False False] else [])
     @ (if eo_upload options \<and> eo_files options then
          [block_entry_of block_type_image ''Image'' False False,
           block_entry_of block_type_file ''File'' False False] else [])"

definition slash_menu :: "editor_options \<Rightarrow> slash_item list" where
  "slash_menu options =
     [slash_item_of ''insert_paragraph'' ''Paragraph'' ''basic'' block_type_paragraph False,
      slash_item_of ''insert_heading'' ''Heading'' ''basic'' block_type_heading True,
      slash_item_of ''insert_checklist'' ''Checklist'' ''basic'' block_type_checklist True,
      slash_item_of ''insert_quote'' ''Quote'' ''basic'' block_type_quote False,
      slash_item_of ''insert_code'' ''Code block'' ''basic'' block_type_code False,
      slash_item_of ''insert_page_link'' ''Page link'' ''references'' block_type_page_link False]
     @ (if eo_embed options \<and> eo_embeds options then
          [slash_item_of ''insert_mws_table'' ''MWS table'' ''embeds'' block_type_table_embed False]
        else [])
     @ (if eo_upload options \<and> eo_files options then
          [slash_item_of ''insert_image'' ''Image'' ''media'' block_type_image False,
           slash_item_of ''attach_file'' ''File'' ''media'' block_type_file False] else [])"

definition hotkeys :: "editor_options \<Rightarrow> hotkey_definition list" where
  "hotkeys options =
     [hotkey_of ''mod+/'' ''open_slash_menu'' ''Open slash menu'',
      hotkey_of ''mod+alt+1'' ''insert_heading'' ''Insert heading'',
      hotkey_of ''mod+shift+7'' ''insert_checklist'' ''Insert checklist'']
     @ (if eo_publish options then
          [hotkey_of ''mod+shift+p'' ''publish_page'' ''Publish current draft''] else [])"

definition capabilities :: "editor_options \<Rightarrow> (string \<times> bool) list" where
  "capabilities options =
     [(''supports_slash_menu'', True),
      (''supports_hotkeys'', True),
      (''supports_sync_resume'', True),
      (''supports_resume_replay_window'', eo_replay options),
      (''supports_realtime_collaboration'', eo_collaborate options \<and> eo_realtime options),
      (''supports_files'', eo_upload options \<and> eo_files options),
      (''supports_embed'', eo_embed options \<and> eo_embeds options),
      (''supports_mws_tables'', eo_embed options \<and> eo_embeds options),
      (''supports_publish'', eo_publish options),
      (''supports_restore'', eo_restore options)]"

definition build_editor_metadata :: "editor_options \<Rightarrow> editor_metadata" where
  "build_editor_metadata options =
     \<lparr>em_blocks = block_catalog options, em_slash = slash_menu options,
      em_hotkeys = hotkeys options, em_capabilities = capabilities options,
      em_embeds = [\<lparr>ee_source = ''mws_table'', ee_label = ''MWS Table'',
                     ee_allowed = (eo_embed options \<and> eo_embeds options)\<rparr>]\<rparr>"

section \<open>The use case\<close>

record runtime_capabilities =
  rc_realtime :: bool
  rc_replay :: bool
  rc_files :: bool
  rc_embeds :: bool

text \<open>The authorizer's answers in the order they are asked for; the first error is returned.\<close>

definition get_editor_metadata ::
  "remote_authz option \<Rightarrow> runtime_capabilities \<Rightarrow> authorization_subject \<Rightarrow> page_error + editor_metadata" where
  "get_editor_metadata checker runtime subject =
     (case authorize checker ActionPageView subject of
        AuthzForbidden \<Rightarrow> Inl ErrForbidden
      | AuthzError err \<Rightarrow> Inl (ErrAuthorization err)
      | AuthzOk \<Rightarrow>
      (case authorizer_allowed checker ActionPageEdit subject of
         Inl err \<Rightarrow> Inl (ErrAuthorization err)
       | Inr canEdit \<Rightarrow>
      (case authorizer_allowed checker ActionFileUpload subject of
         Inl err \<Rightarrow> Inl (ErrAuthorization err)
       | Inr canUploadFiles \<Rightarrow>
      (case authorizer_allowed checker ActionPageEmbedTable subject of
         Inl err \<Rightarrow> Inl (ErrAuthorization err)
       | Inr canEmbedTables \<Rightarrow>
      (case authorizer_allowed checker ActionPagePublish subject of
         Inl err \<Rightarrow> Inl (ErrAuthorization err)
       | Inr canPublish \<Rightarrow>
      (case authorizer_allowed checker ActionPageRestore subject of
         Inl err \<Rightarrow> Inl (ErrAuthorization err)
       | Inr canRestore \<Rightarrow>
           Inr (build_editor_metadata
             \<lparr>eo_edit = canEdit, eo_upload = canUploadFiles, eo_embed = canEmbedTables,
              eo_collaborate = canEdit, eo_publish = canPublish, eo_restore = canRestore,
              eo_realtime = rc_realtime runtime, eo_replay = rc_replay runtime,
              eo_files = rc_files runtime, eo_embeds = rc_embeds runtime\<rparr>)))))))"

section \<open>Facts\<close>

lemmas editor_defs = build_editor_metadata_def block_catalog_def slash_menu_def hotkeys_def
  capabilities_def block_entry_of_def slash_item_of_def hotkey_of_def

lemmas block_types = block_type_paragraph_def block_type_heading_def block_type_checklist_def
  block_type_quote_def block_type_code_def block_type_table_embed_def block_type_page_link_def
  block_type_image_def block_type_file_def

text \<open>
  The catalogue is consistent, whatever the options: the slash menu offers exactly the
  blocks of the catalogue, in its order and each once; tables are among them exactly where
  they are allowed and the embed integration runs, which is also what the capabilities and
  the embed catalogue say, and files likewise; a menu item claims a hotkey exactly when a
  hotkey with its action is defined; and everything but code, tables and files is offered
  for collaborative editing.
\<close>

theorem editor_catalog_consistent:
  fixes options :: editor_options
  defines "m \<equiv> build_editor_metadata options"
  shows "map si_block (em_slash m) = map be_type (em_blocks m)
     \<and> distinct (map be_type (em_blocks m))
     \<and> distinct (map si_key (em_slash m))
     \<and> distinct (map fst (em_capabilities m))
     \<and> (block_type_table_embed \<in> set (map be_type (em_blocks m)) \<longleftrightarrow>
           map_of (em_capabilities m) ''supports_embed'' = Some True)
     \<and> map_of (em_capabilities m) ''supports_mws_tables'' = map_of (em_capabilities m) ''supports_embed''
     \<and> map_of (em_capabilities m) ''supports_embed'' = Some (list_ex ee_allowed (em_embeds m))
     \<and> (block_type_file \<in> set (map be_type (em_blocks m)) \<longleftrightarrow>
           map_of (em_capabilities m) ''supports_files'' = Some True)
     \<and> (block_type_image \<in> set (map be_type (em_blocks m)) \<longleftrightarrow>
           map_of (em_capabilities m) ''supports_files'' = Some True)
     \<and> list_all (\<lambda>i. si_hotkey i = (si_key i \<in> set (map hk_action (em_hotkeys m)))) (em_slash m)
     \<and> list_all (\<lambda>b. be_collab b = (be_type b \<notin> {block_type_table_embed, block_type_image,
           block_type_file, block_type_code})) (em_blocks m)"
proof -
  obtain t f where t: "(eo_embed options \<and> eo_embeds options) = t"
    and f: "(eo_upload options \<and> eo_files options) = f" by blast
  have g1: "map si_block (em_slash m) = map be_type (em_blocks m)"
    unfolding m_def editor_defs t f by (cases t; cases f; simp)
  have g2: "distinct (map be_type (em_blocks m))"
    unfolding m_def editor_defs t f by (cases t; cases f; simp add: block_types)
  have g3: "distinct (map si_key (em_slash m))"
    unfolding m_def editor_defs t f by (cases t; cases f; simp)
  have g4: "distinct (map fst (em_capabilities m))"
    unfolding m_def editor_defs t f by (cases t; cases f; simp)
  have g5: "block_type_table_embed \<in> set (map be_type (em_blocks m)) \<longleftrightarrow>
          map_of (em_capabilities m) ''supports_embed'' = Some True"
    unfolding m_def editor_defs t f by (cases t; cases f; simp add: block_types)
  have g6: "map_of (em_capabilities m) ''supports_mws_tables'' = map_of (em_capabilities m) ''supports_embed''"
    unfolding m_def editor_defs t f by (cases t; cases f; simp)
  have g7: "map_of (em_capabilities m) ''supports_embed'' = Some (list_ex ee_allowed (em_embeds m))"
    unfolding m_def editor_defs t f by (cases t; cases f; simp)
  have g8: "block_type_file \<in> set (map be_type (em_blocks m)) \<longleftrightarrow>
          map_of (em_capabilities m) ''supports_files'' = Some True"
    unfolding m_def editor_defs t f by (cases t; cases f; simp add: block_types)
  have g9: "block_type_image \<in> set (map be_type (em_blocks m)) \<longleftrightarrow>
          map_of (em_capabilities m) ''supports_files'' = Some True"
    unfolding m_def editor_defs t f by (cases t; cases f; simp add: block_types)
  have g10: "list_all (\<lambda>i. si_hotkey i = (si_key i \<in> set (map hk_action (em_hotkeys m)))) (em_slash m)"
    unfolding m_def editor_defs t f by (cases t; cases f; cases "eo_publish options"; simp)
  have g11: "list_all (\<lambda>b. be_collab b = (be_type b \<notin> {block_type_table_embed, block_type_image,
          block_type_file, block_type_code})) (em_blocks m)"
    unfolding m_def editor_defs t f by (cases t; cases f; simp add: block_types)
  show ?thesis using g1 g2 g3 g4 g5 g6 g7 g8 g9 g10 g11 by blast
qed

text \<open>
  The metadata an editor is given follows the policy. Under the static policy an
  authenticated user who may not view the page is refused, and everyone else is offered
  tables, uploads, publishing, restoring and collaboration exactly as the roles allow it and
  the runtime supports it. An unauthenticated request, which the policy is not asked about,
  is offered everything the runtime supports.
\<close>

theorem editor_metadata_follows_policy:
  fixes runtime :: runtime_capabilities and subject :: authorization_subject
  defines "r \<equiv> get_editor_metadata None runtime subject"
    and "may \<equiv> \<lambda>a. (if as_authenticated subject then allowed (as_roles subject) a else True)"
    and "says \<equiv> \<lambda>c b. (case get_editor_metadata None runtime subject of Inl _ \<Rightarrow> False
          | Inr m \<Rightarrow> map_of (em_capabilities m) c = Some b)"
  shows "(r = Inl ErrForbidden \<longleftrightarrow> \<not> may ActionPageView)
     \<and> (may ActionPageView \<longleftrightarrow> says ''supports_publish'' (may ActionPagePublish))
     \<and> (may ActionPageView \<longleftrightarrow> says ''supports_restore'' (may ActionPageRestore))
     \<and> (may ActionPageView \<longleftrightarrow> says ''supports_files'' (may ActionFileUpload \<and> rc_files runtime))
     \<and> (may ActionPageView \<longleftrightarrow> says ''supports_embed'' (may ActionPageEmbedTable \<and> rc_embeds runtime))
     \<and> (may ActionPageView \<longleftrightarrow>
           says ''supports_realtime_collaboration'' (may ActionPageEdit \<and> rc_realtime runtime))"
  unfolding r_def may_def says_def
  by (intro conjI) (auto simp: get_editor_metadata_def authorize_def authorizer_allowed_def editor_defs)

end
