(* ===== verification/Http.thy ===== *)
theory Http
  imports Authz
begin

text \<open>
  The HTTP layer the services share: headers, bearer tokens, the identity headers that the
  gateway sends and the services read (\<^verbatim>\<open>bearerToken\<close>, \<^verbatim>\<open>parseRoles\<close>, \<^verbatim>\<open>isAuthenticated\<close> and
  \<^verbatim>\<open>writeError\<close> of the \<^verbatim>\<open>api/rest\<close> packages), and the request identifier of
  \<^verbatim>\<open>pkg/transport/request_id.go\<close>.
\<close>

section \<open>Headers\<close>

text \<open>
  An \<open>http.Header\<close>: canonical names to their values. \<open>Get\<close>, \<open>Set\<close> and \<open>Del\<close> canonicalise
  the name; where the name is a constant it is written in canonical form here.
\<close>

type_synonym headers = "string \<Rightarrow> string list"

definition header_get :: "headers \<Rightarrow> string \<Rightarrow> string" where
  "header_get h k = (case h k of [] \<Rightarrow> '''' | v # _ \<Rightarrow> v)"

definition header_set :: "string \<Rightarrow> string \<Rightarrow> headers \<Rightarrow> headers" where
  "header_set k v h = h(k := [v])"

definition header_del :: "string \<Rightarrow> headers \<Rightarrow> headers" where
  "header_del k h = h(k := [])"

lemma header_get_set [simp]: "header_get (header_set k v h) k' = (if k' = k then v else header_get h k')"
  by (simp add: header_get_def header_set_def)

lemma header_get_del [simp]: "header_get (header_del k h) k' = (if k' = k then '''' else header_get h k')"
  by (simp add: header_get_def header_del_def)

text \<open>
  \<open>textproto.CanonicalMIMEHeaderKey\<close> on names made of token characters, which are all the
  names that a request can have.
\<close>

fun canonical_from :: "bool \<Rightarrow> string \<Rightarrow> string" where
  "canonical_from up [] = []"
| "canonical_from up (c # s) =
     (if up then ascii_upper c else ascii_lower c) # canonical_from (c = CHR ''-'') s"

definition canonical_key :: "string \<Rightarrow> string" where
  "canonical_key k = canonical_from True k"

section \<open>Requests and answers\<close>

text \<open>
  The body is what the JSON decoder made of it, or its error. The query and the path
  parameters give the empty string where there is none.
\<close>

record 'b http_request =
  hr_headers :: headers
  hr_query :: "string \<Rightarrow> string"
  hr_param :: "string \<Rightarrow> string"
  hr_body :: "string + 'b"
  hr_request_id :: string
  hr_correlation_id :: string

text \<open>
  An answer has a payload, or an error with code, message and the identifier of the request.
\<close>

datatype 'a http_body = Payload 'a | ErrorBody string string string

record 'a http_response =
  hx_status :: int
  hx_request_id :: string
  hx_body :: "'a http_body"

definition write_json :: "'b http_request \<Rightarrow> int \<Rightarrow> 'a \<Rightarrow> 'a http_response" where
  "write_json r statusCode payload =
     \<lparr>hx_status = statusCode, hx_request_id = hr_request_id r, hx_body = Payload payload\<rparr>"

definition write_error :: "'b http_request \<Rightarrow> int \<Rightarrow> string \<Rightarrow> string \<Rightarrow> 'a http_response" where
  "write_error r statusCode code message =
     \<lparr>hx_status = statusCode, hx_request_id = hr_request_id r,
      hx_body = ErrorBody code message (hr_request_id r)\<rparr>"

text \<open>
  \<open>RequestContextMiddleware\<close>: the identifiers the handlers see, from the headers or from a
  fresh opaque identifier.
\<close>

definition with_request_ids :: "string \<Rightarrow> 'b http_request \<Rightarrow> 'b http_request" where
  "with_request_ids fresh r =
     (let given = header_get (hr_headers r) ''X-Request-Id'';
          requestID = (if given = '''' then fresh else given);
          correlation = header_get (hr_headers r) ''X-Correlation-Id'';
          correlationID = (if correlation = '''' then requestID else correlation)
      in r\<lparr>hr_request_id := requestID, hr_correlation_id := correlationID\<rparr>)"

section \<open>Who is asking\<close>

text \<open>
  \<open>strings.EqualFold\<close> against a word whose letters have no case variants outside ASCII
  (neither k nor s is among them).
\<close>

definition equal_fold :: "string \<Rightarrow> string \<Rightarrow> bool" where
  "equal_fold s t \<longleftrightarrow> map ascii_lower s = map ascii_lower t"

text \<open>\<open>strings.SplitN(header, " ", 2)\<close> has two parts exactly when there is a space.\<close>

definition bearer_token :: "string \<Rightarrow> string" where
  "bearer_token header =
     (if header = '''' then ''''
      else (case dropWhile (\<lambda>c. c \<noteq> CHR '' '') header of
              [] \<Rightarrow> ''''
            | _ # rest \<Rightarrow>
                if \<not> equal_fold (takeWhile (\<lambda>c. c \<noteq> CHR '' '') header) ''Bearer'' then '''' else rest))"

definition parse_roles :: "string \<Rightarrow> string list" where
  "parse_roles header = (if trim_space header = '''' then [] else split_on (CHR '','') header)"

definition is_authenticated :: "headers \<Rightarrow> bool" where
  "is_authenticated h = equal_fold (header_get h ''X-Auth-Authenticated'') ''true''"

text \<open>
  The subject a handler hands to its use case, from the identity headers; the page is the
  handler's own.
\<close>

definition header_actor :: "headers \<Rightarrow> string" where
  "header_actor h = trim_space (header_get h ''X-Auth-User-Id'')"

definition header_workspace :: "headers \<Rightarrow> string" where
  "header_workspace h = trim_space (header_get h ''X-Workspace-Id'')"

definition header_roles :: "headers \<Rightarrow> string list" where
  "header_roles h = parse_roles (header_get h ''X-Auth-Roles'')"

definition header_token :: "headers \<Rightarrow> string" where
  "header_token h = bearer_token (header_get h ''Authorization'')"

lemma bearer_token_scheme:
  "equal_fold scheme ''Bearer'' \<Longrightarrow> bearer_token (scheme @ CHR '' '' # token) = token"
proof -
  assume s: "equal_fold scheme ''Bearer''"
  have "CHR '' '' \<notin> set scheme"
  proof
    assume "CHR '' '' \<in> set scheme"
    then have "ascii_lower (CHR '' '') \<in> set (map ascii_lower ''Bearer'')"
      using s unfolding equal_fold_def by (metis image_eqI list.set_map)
    moreover have "ascii_lower (CHR '' '') \<notin> set (map ascii_lower ''Bearer'')" by code_simp
    ultimately show False by blast
  qed
  then have "takeWhile (\<lambda>c. c \<noteq> CHR '' '') (scheme @ CHR '' '' # token) = scheme"
    and "dropWhile (\<lambda>c. c \<noteq> CHR '' '') (scheme @ CHR '' '' # token) = CHR '' '' # token"
    by (auto simp: takeWhile_append dropWhile_append takeWhile_eq_all_conv dropWhile_eq_Nil_conv)
  then show ?thesis using s by (simp add: bearer_token_def)
qed

end
