(* ===== verification/PageRest.thy ===== *)
theory PageRest
  imports PageQueries Editor Http
begin

text \<open>
  The REST interface of the page service, \<^verbatim>\<open>services/page-service/api/rest\<close>: what each handler
  reads from a request, the use case it runs, and the answer it gives for the result. A body
  that could not be decoded is answered before anything else is done.
\<close>

section \<open>Errors as texts\<close>

definition int_text :: "int \<Rightarrow> string" where
  "int_text n = (if n < 0 then CHR ''-'' # decimal (- n) else decimal n)"

definition wrapped :: "string \<Rightarrow> string \<Rightarrow> string" where
  "wrapped err detail = (if detail = '''' then err else err @ '': '' @ detail)"

fun store_error_text :: "store_error \<Rightarrow> string" where
  "store_error_text ErrNotFound = ''page not found''"
| "store_error_text ErrStaleRevision = ''stale revision''"
| "store_error_text (ErrStore err) = err"

fun page_error_text :: "page_error \<Rightarrow> string" where
  "page_error_text (ErrValidation detail) = wrapped ''validation error'' detail"
| "page_error_text (ErrEmbedUnavailable detail) = wrapped ''embed unavailable'' detail"
| "page_error_text ErrPageArchived = ''page archived''"
| "page_error_text ErrPageNotFound = ''page not found''"
| "page_error_text ErrForbidden = ''forbidden''"
| "page_error_text (RebaseRequired payload) =
     ''rebase required: latest revision '' @ int_text (cf_latest_no payload)"
| "page_error_text (ErrAuthorization err) = err"
| "page_error_text (ErrFileMetadata err) = err"
| "page_error_text (ErrReplayWindow err) = err"
| "page_error_text (ErrStoreFailed err) = store_error_text err"

section \<open>Answers to errors\<close>

text \<open>A conflict is answered with its payload.\<close>

type_synonym 'a page_response = "(conflict_payload + 'a) http_response"

definition internal_error :: "'b http_request \<Rightarrow> page_error \<Rightarrow> 'a page_response" where
  "internal_error r err = write_error r 500 ''internal_error'' (page_error_text err)"

fun create_error_answer :: "'b http_request \<Rightarrow> page_error \<Rightarrow> 'a page_response" where
  "create_error_answer r ErrForbidden = write_error r 403 ''forbidden'' (page_error_text ErrForbidden)"
| "create_error_answer r (ErrValidation d) =
     write_error r 400 ''validation_error'' (page_error_text (ErrValidation d))"
| "create_error_answer r (ErrEmbedUnavailable d) =
     write_error r 502 ''embed_unavailable'' (page_error_text (ErrEmbedUnavailable d))"
| "create_error_answer r err = internal_error r err"

text \<open>Of viewing, recovering, resuming and restoring.\<close>

fun read_error_answer :: "'b http_request \<Rightarrow> page_error \<Rightarrow> 'a page_response" where
  "read_error_answer r ErrForbidden = write_error r 403 ''forbidden'' (page_error_text ErrForbidden)"
| "read_error_answer r ErrPageNotFound =
     write_error r 404 ''page_not_found'' (page_error_text ErrPageNotFound)"
| "read_error_answer r err = internal_error r err"

fun autosave_error_answer :: "'b http_request \<Rightarrow> page_error \<Rightarrow> 'a page_response" where
  "autosave_error_answer r ErrForbidden = write_error r 403 ''forbidden'' (page_error_text ErrForbidden)"
| "autosave_error_answer r (RebaseRequired payload) = write_json r 409 (Inl payload)"
| "autosave_error_answer r ErrPageArchived =
     write_error r 409 ''page_state_conflict'' (page_error_text ErrPageArchived)"
| "autosave_error_answer r (ErrValidation d) =
     write_error r 400 ''validation_error'' (page_error_text (ErrValidation d))"
| "autosave_error_answer r ErrPageNotFound =
     write_error r 404 ''page_not_found'' (page_error_text ErrPageNotFound)"
| "autosave_error_answer r (ErrEmbedUnavailable d) =
     write_error r 502 ''embed_unavailable'' (page_error_text (ErrEmbedUnavailable d))"
| "autosave_error_answer r err = internal_error r err"

fun publish_error_answer :: "'b http_request \<Rightarrow> page_error \<Rightarrow> 'a page_response" where
  "publish_error_answer r ErrForbidden = write_error r 403 ''forbidden'' (page_error_text ErrForbidden)"
| "publish_error_answer r (RebaseRequired payload) = write_json r 409 (Inl payload)"
| "publish_error_answer r ErrPageArchived =
     write_error r 409 ''page_state_conflict'' (page_error_text ErrPageArchived)"
| "publish_error_answer r ErrPageNotFound =
     write_error r 404 ''page_not_found'' (page_error_text ErrPageNotFound)"
| "publish_error_answer r err = internal_error r err"

fun versions_error_answer :: "'b http_request \<Rightarrow> page_error \<Rightarrow> 'a page_response" where
  "versions_error_answer r ErrForbidden = write_error r 403 ''forbidden'' (page_error_text ErrForbidden)"
| "versions_error_answer r ErrPageArchived =
     write_error r 409 ''page_state_conflict'' (page_error_text ErrPageArchived)"
| "versions_error_answer r ErrPageNotFound =
     write_error r 404 ''page_not_found'' (page_error_text ErrPageNotFound)"
| "versions_error_answer r err = internal_error r err"

fun archive_error_answer :: "'b http_request \<Rightarrow> page_error \<Rightarrow> 'a page_response" where
  "archive_error_answer r ErrForbidden = write_error r 403 ''forbidden'' (page_error_text ErrForbidden)"
| "archive_error_answer r (RebaseRequired payload) = write_json r 409 (Inl payload)"
| "archive_error_answer r ErrPageNotFound =
     write_error r 404 ''page_not_found'' (page_error_text ErrPageNotFound)"
| "archive_error_answer r ErrPageArchived =
     write_error r 409 ''page_state_conflict'' (page_error_text ErrPageArchived)"
| "archive_error_answer r (ErrValidation d) =
     write_error r 409 ''page_state_conflict'' (page_error_text (ErrValidation d))"
| "archive_error_answer r err = internal_error r err"

fun editor_error_answer :: "'b http_request \<Rightarrow> page_error \<Rightarrow> 'a page_response" where
  "editor_error_answer r ErrForbidden = write_error r 403 ''forbidden'' (page_error_text ErrForbidden)"
| "editor_error_answer r err = internal_error r err"

text \<open>The answer to a result: the payload with its status, or the answer to its error.\<close>

definition answer ::
  "('b http_request \<Rightarrow> page_error \<Rightarrow> 'a page_response) \<Rightarrow> int \<Rightarrow> 'b http_request \<Rightarrow> page_error + 'a \<Rightarrow>
   'a page_response" where
  "answer error_answer status r result =
     (case result of Inl err \<Rightarrow> error_answer r err | Inr x \<Rightarrow> write_json r status (Inr x))"

definition invalid_payload :: "'b http_request \<Rightarrow> string \<Rightarrow> 'a page_response" where
  "invalid_payload r err = write_error r 400 ''invalid_payload'' err"

section \<open>Bodies\<close>

record create_body =
  cy_workspace :: string
  cy_title :: string
  cy_slug :: string
  cy_document :: document

record autosave_body =
  ay_base :: int
  ay_document :: document

record base_body =
  by_base :: int

record resume_body =
  sy_page :: string
  sy_last_known :: int
  sy_pending :: "string list"
  sy_token :: string

section \<open>The handlers\<close>

definition handle_create_page ::
  "('s, 'r) deps \<Rightarrow> gotime \<Rightarrow> create_body http_request \<Rightarrow> ('s, 'r) service \<Rightarrow>
   page_view_payload page_response \<times> ('s, 'r) service" where
  "handle_create_page dp now r sv =
     (case hr_body r of
        Inl err \<Rightarrow> (invalid_payload r err, sv)
      | Inr body \<Rightarrow>
          (case create_page dp now
                  \<lparr>rq_workspace = cy_workspace body, rq_actor = header_actor (hr_headers r),
                   rq_token = header_token (hr_headers r), rq_roles = header_roles (hr_headers r),
                   rq_authenticated = is_authenticated (hr_headers r), ci_title = cy_title body,
                   ci_slug = cy_slug body, ci_document = cy_document body\<rparr> sv of
             (result, sv) \<Rightarrow> (answer create_error_answer 201 r result, sv)))"

definition requested_view :: "string \<Rightarrow> revision_view option" where
  "requested_view v =
     (if v = '''' \<or> v = ''draft'' then Some ViewDraft
      else if v = ''published'' then Some ViewPublished else None)"

definition handle_get_page ::
  "('s, 'r) deps \<Rightarrow> unit http_request \<Rightarrow> ('s, 'r) service \<Rightarrow>
   page_view_payload page_response \<times> ('s, 'r) service" where
  "handle_get_page dp r sv =
     (case requested_view (hr_query r ''view'') of
        None \<Rightarrow> (write_error r 400 ''validation_error'' ''view must be draft or published'', sv)
      | Some view \<Rightarrow>
          (case get_page dp
                  \<lparr>rq_workspace = header_workspace (hr_headers r), rq_actor = header_actor (hr_headers r),
                   rq_token = header_token (hr_headers r), rq_roles = header_roles (hr_headers r),
                   rq_authenticated = is_authenticated (hr_headers r), gp_page = hr_param r ''pageID'',
                   gp_view = view\<rparr> sv of
             (result, sv) \<Rightarrow> (answer read_error_answer 200 r result, sv)))"

definition handle_autosave_draft ::
  "('s, 'r) deps \<Rightarrow> gotime \<Rightarrow> autosave_body http_request \<Rightarrow> ('s, 'r) service \<Rightarrow>
   draft_save_payload page_response \<times> ('s, 'r) service" where
  "handle_autosave_draft dp now r sv =
     (case hr_body r of
        Inl err \<Rightarrow> (invalid_payload r err, sv)
      | Inr body \<Rightarrow>
          (case autosave_draft dp now
                  \<lparr>rq_workspace = header_workspace (hr_headers r), rq_actor = header_actor (hr_headers r),
                   rq_token = header_token (hr_headers r), rq_roles = header_roles (hr_headers r),
                   rq_authenticated = is_authenticated (hr_headers r), au_page = hr_param r ''pageID'',
                   au_base = ay_base body, au_document = ay_document body,
                   au_key = trim_space (header_get (hr_headers r) ''Idempotency-Key'')\<rparr> sv of
             (result, sv) \<Rightarrow> (answer autosave_error_answer 200 r result, sv)))"

text \<open>The requests that name only a page, with the token or, in two handlers, without it.\<close>

definition header_request :: "bool \<Rightarrow> headers \<Rightarrow> request" where
  "header_request with_token h =
     \<lparr>rq_workspace = header_workspace h, rq_actor = header_actor h,
      rq_token = (if with_token then header_token h else ''''), rq_roles = header_roles h,
      rq_authenticated = is_authenticated h\<rparr>"

definition handle_recover_draft ::
  "('s, 'r) deps \<Rightarrow> unit http_request \<Rightarrow> ('s, 'r) service \<Rightarrow>
   draft_recovery_payload page_response \<times> ('s, 'r) service" where
  "handle_recover_draft dp r sv =
     (case recover_draft dp (header_request True (hr_headers r)) (hr_param r ''pageID'') sv of
        (result, sv) \<Rightarrow> (answer read_error_answer 200 r result, sv))"

definition handle_list_versions ::
  "('s, 'r) deps \<Rightarrow> unit http_request \<Rightarrow> ('s, 'r) service \<Rightarrow>
   revision_summary list page_response \<times> ('s, 'r) service" where
  "handle_list_versions dp r sv =
     (answer versions_error_answer 200 r
        (list_versions dp (header_request False (hr_headers r)) (hr_param r ''pageID'') sv), sv)"

definition handle_publish_page ::
  "('s, 'r) deps \<Rightarrow> gotime \<Rightarrow> base_body http_request \<Rightarrow> ('s, 'r) service \<Rightarrow>
   page_publish_payload page_response \<times> ('s, 'r) service" where
  "handle_publish_page dp now r sv =
     (case hr_body r of
        Inl err \<Rightarrow> (invalid_payload r err, sv)
      | Inr body \<Rightarrow>
          (case publish_page dp now
                  \<lparr>rq_workspace = header_workspace (hr_headers r), rq_actor = header_actor (hr_headers r),
                   rq_token = '''', rq_roles = header_roles (hr_headers r),
                   rq_authenticated = is_authenticated (hr_headers r), pu_page = hr_param r ''pageID'',
                   pu_base = by_base body\<rparr> sv of
             (result, sv) \<Rightarrow> (answer publish_error_answer 200 r result, sv)))"

definition handle_restore_revision ::
  "('s, 'r) deps \<Rightarrow> gotime \<Rightarrow> unit http_request \<Rightarrow> ('s, 'r) service \<Rightarrow>
   draft_save_payload page_response \<times> ('s, 'r) service" where
  "handle_restore_revision dp now r sv =
     (case restore_revision dp now
             \<lparr>rq_workspace = header_workspace (hr_headers r), rq_actor = header_actor (hr_headers r),
              rq_token = header_token (hr_headers r), rq_roles = header_roles (hr_headers r),
              rq_authenticated = is_authenticated (hr_headers r), ro_page = hr_param r ''pageID'',
              ro_revision = hr_param r ''revisionID''\<rparr> sv of
        (result, sv) \<Rightarrow> (answer read_error_answer 200 r result, sv))"

definition handle_archive_page ::
  "('s, 'r) deps \<Rightarrow> gotime \<Rightarrow> base_body http_request \<Rightarrow> ('s, 'r) service \<Rightarrow>
   page_archive_payload page_response \<times> ('s, 'r) service" where
  "handle_archive_page dp now r sv =
     (case hr_body r of
        Inl err \<Rightarrow> (invalid_payload r err, sv)
      | Inr body \<Rightarrow>
          (case archive_page dp now
                  \<lparr>rq_workspace = header_workspace (hr_headers r), rq_actor = header_actor (hr_headers r),
                   rq_token = '''', rq_roles = header_roles (hr_headers r),
                   rq_authenticated = is_authenticated (hr_headers r), ar_page_id = hr_param r ''pageID'',
                   ar_base = by_base body\<rparr> sv of
             (result, sv) \<Rightarrow> (answer archive_error_answer 200 r result, sv)))"

definition handle_resume_editor_sync ::
  "('s, 'r) deps \<Rightarrow> resume_body http_request \<Rightarrow> ('s, 'r) service \<Rightarrow>
   resume_payload page_response \<times> ('s, 'r) service" where
  "handle_resume_editor_sync dp r sv =
     (case hr_body r of
        Inl err \<Rightarrow> (invalid_payload r err, sv)
      | Inr body \<Rightarrow>
          (case resume_editor_sync dp
                  \<lparr>rq_workspace = header_workspace (hr_headers r), rq_actor = header_actor (hr_headers r),
                   rq_token = header_token (hr_headers r), rq_roles = header_roles (hr_headers r),
                   rq_authenticated = is_authenticated (hr_headers r), rs_page = sy_page body,
                   rs_last_known = sy_last_known body, rs_pending = sy_pending body,
                   rs_token = sy_token body\<rparr> sv of
             (result, sv) \<Rightarrow> (answer read_error_answer 200 r result, sv)))"

text \<open>\<open>firstNonEmpty\<close> of the editor handler looks at the trimmed values.\<close>

fun first_non_blank :: "string list \<Rightarrow> string" where
  "first_non_blank [] = ''''"
| "first_non_blank (v # vs) = (if trim_space v \<noteq> '''' then v else first_non_blank vs)"

definition handle_get_editor_metadata ::
  "remote_authz option \<Rightarrow> runtime_capabilities \<Rightarrow> unit http_request \<Rightarrow> editor_metadata page_response" where
  "handle_get_editor_metadata checker runtime r =
     answer editor_error_answer 200 r
       (get_editor_metadata checker runtime
          \<lparr>as_actor = header_actor (hr_headers r),
           as_workspace = first_non_blank [trim_space (hr_query r ''workspace_id''), header_workspace (hr_headers r)],
           as_page = trim_space (hr_query r ''page_id''), as_roles = header_roles (hr_headers r),
           as_authenticated = is_authenticated (hr_headers r)\<rparr>)"

end
