(* ===== verification/PageApi.thy ===== *)
theory PageApi
  imports PageRest PageSamples
begin

text \<open>
  What a client of the page service's REST interface can rely on: who may write at all, and
  how the handlers answer for archived pages.
\<close>

section \<open>Readers\<close>

text \<open>
  An authenticated request of a user whom the auth service, which the page service asks, knows as a reader. What
  roles the request names does not matter.
\<close>

definition reader_request ::
  "('s, 'r) deps \<Rightarrow> (string \<Rightarrow> string + membership list) \<Rightarrow>
   (string \<Rightarrow> string \<Rightarrow> string \<Rightarrow> string + page_grant list) \<Rightarrow> headers \<Rightarrow> bool" where
  "reader_request dp mems grants h \<longleftrightarrow>
     dp_checker dp = Some (auth_server mems grants) \<and> is_authenticated h \<and> only_reads mems grants (header_actor h)"

definition denial :: "('s, 'r) deps \<Rightarrow> action \<Rightarrow> authorization_subject \<Rightarrow> page_error" where
  "denial dp a subject = the (require_action dp a subject)"

definition reader_denials ::
  "(string \<Rightarrow> string + membership list) \<Rightarrow> (string \<Rightarrow> string \<Rightarrow> string \<Rightarrow> string + page_grant list) \<Rightarrow>
   headers \<Rightarrow> page_error set" where
  "reader_denials mems grants h =
     insert ErrForbidden (if auth_lists mems grants (header_actor h) then {} else range ErrAuthorization)"

lemma reader_refused:
  assumes "reader_request dp mems grants h" and "a \<notin> set reader_actions"
    and "as_actor subject = header_actor h" and "as_authenticated subject = is_authenticated h"
  shows "require_action dp a subject = Some (denial dp a subject) \<and> denial dp a subject \<in> reader_denials mems grants h"
  using assms reader_denied [of mems grants subject a] auth_lists_answers [of mems grants subject a]
  by (auto simp: reader_request_def require_action_def denial_def reader_denials_def split: authz_outcome.splits)

lemmas writer_actions = reader_actions_def action.distinct

text \<open>
  A refused request: the status, and a service whose store, replay window and identifiers
  are as before (metrics may have counted it).
\<close>

definition untouched :: "('s, 'r) service \<Rightarrow> ('s, 'r) service \<Rightarrow> bool" where
  "untouched sv sv' \<longleftrightarrow>
     sv_store sv' = sv_store sv \<and> sv_replay sv' = sv_replay sv \<and> sv_next sv' = sv_next sv"

definition refused :: "int set \<Rightarrow> 'a http_response \<times> ('s, 'r) service \<Rightarrow> ('s, 'r) service \<Rightarrow> bool" where
  "refused statuses result sv \<longleftrightarrow> hx_status (fst result) \<in> statuses \<and> untouched sv (snd result)"

text \<open>Malformed, forbidden, or not answered by the auth service.\<close>

definition reader_statuses ::
  "(string \<Rightarrow> string + membership list) \<Rightarrow> (string \<Rightarrow> string \<Rightarrow> string \<Rightarrow> string + page_grant list) \<Rightarrow>
   headers \<Rightarrow> int set" where
  "reader_statuses mems grants h = {400, 403} \<union> (if auth_lists mems grants (header_actor h) then {} else {500})"

lemma untouched_simps [simp]: "untouched sv sv" "untouched sv (observe_save s sv)"
  by (simp_all add: untouched_def observe_save_def)

lemma write_simps [simp]:
  "hx_status (write_error r n c m) = n" "hx_status (write_json r n x) = n"
  by (simp_all add: write_error_def write_json_def)

lemma denial_answers:
  assumes "e \<in> reader_denials mems grants h"
  shows "hx_status (create_error_answer r e) \<in> reader_statuses mems grants h"
    and "hx_status (autosave_error_answer r e) \<in> reader_statuses mems grants h"
    and "hx_status (publish_error_answer r e) \<in> reader_statuses mems grants h"
    and "hx_status (archive_error_answer r e) \<in> reader_statuses mems grants h"
    and "hx_status (read_error_answer r e) \<in> reader_statuses mems grants h"
  using assms by (auto simp: reader_denials_def reader_statuses_def internal_error_def split: if_splits)

lemma malformed_answer: "400 \<in> reader_statuses mems grants h"
  by (simp add: reader_statuses_def)

lemma reader_create_refused:
  assumes "reader_request dp mems grants (hr_headers r)"
  shows "refused (reader_statuses mems grants (hr_headers r)) (handle_create_page dp now r sv) sv"
proof -
  have "require_action dp ActionPageEdit (subject_of rq '''') = Some (denial dp ActionPageEdit (subject_of rq ''''))
      \<and> denial dp ActionPageEdit (subject_of rq '''') \<in> reader_denials mems grants (hr_headers r)"
    if "rq_actor rq = header_actor (hr_headers r)" and "rq_authenticated rq = is_authenticated (hr_headers r)"
    for rq :: create_input
    using that by (intro reader_refused [OF assms]) (simp_all add: subject_of_def writer_actions)
  then show ?thesis
    by (auto simp: refused_def malformed_answer intro!: denial_answers simp: handle_create_page_def invalid_payload_def create_page_def
        create_prepare_def create_guard_def answer_def split: sum.splits)
qed

lemma reader_autosave_refused:
  assumes "reader_request dp mems grants (hr_headers r)"
  shows "refused (reader_statuses mems grants (hr_headers r)) (handle_autosave_draft dp now r sv) sv"
proof -
  have "require_action dp ActionPageEdit (subject_of rq p) = Some (denial dp ActionPageEdit (subject_of rq p))
      \<and> denial dp ActionPageEdit (subject_of rq p) \<in> reader_denials mems grants (hr_headers r)"
    if "rq_actor rq = header_actor (hr_headers r)" and "rq_authenticated rq = is_authenticated (hr_headers r)"
    for rq :: autosave_input and p
    using that by (intro reader_refused [OF assms]) (simp_all add: subject_of_def writer_actions)
  then show ?thesis
    by (auto simp: refused_def malformed_answer intro!: denial_answers simp: handle_autosave_draft_def invalid_payload_def autosave_draft_def
        autosave_prepare_def autosave_guard_def answer_def split: sum.splits)
qed

lemma reader_publish_refused:
  assumes "reader_request dp mems grants (hr_headers r)"
  shows "refused (reader_statuses mems grants (hr_headers r)) (handle_publish_page dp now r sv) sv"
proof -
  have "require_action dp ActionPagePublish (subject_of rq p) = Some (denial dp ActionPagePublish (subject_of rq p))
      \<and> denial dp ActionPagePublish (subject_of rq p) \<in> reader_denials mems grants (hr_headers r)"
    if "rq_actor rq = header_actor (hr_headers r)" and "rq_authenticated rq = is_authenticated (hr_headers r)"
    for rq :: publish_input and p
    using that by (intro reader_refused [OF assms]) (simp_all add: subject_of_def writer_actions)
  then show ?thesis
    by (auto simp: refused_def malformed_answer intro!: denial_answers simp: handle_publish_page_def invalid_payload_def publish_page_def
        publish_prepare_def publish_base_def answer_def split: sum.splits)
qed

lemma reader_archive_refused:
  assumes "reader_request dp mems grants (hr_headers r)"
  shows "refused (reader_statuses mems grants (hr_headers r)) (handle_archive_page dp now r sv) sv"
proof -
  have "require_action dp ActionPageArchive (subject_of rq p) = Some (denial dp ActionPageArchive (subject_of rq p))
      \<and> denial dp ActionPageArchive (subject_of rq p) \<in> reader_denials mems grants (hr_headers r)"
    if "rq_actor rq = header_actor (hr_headers r)" and "rq_authenticated rq = is_authenticated (hr_headers r)"
    for rq :: archive_input and p
    using that by (intro reader_refused [OF assms]) (simp_all add: subject_of_def writer_actions)
  then show ?thesis
    by (auto simp: refused_def malformed_answer intro!: denial_answers simp: handle_archive_page_def invalid_payload_def archive_page_def
        archive_prepare_def answer_def split: sum.splits)
qed

lemma reader_restore_refused:
  assumes "reader_request dp mems grants (hr_headers r)"
  shows "refused (reader_statuses mems grants (hr_headers r)) (handle_restore_revision dp now r sv) sv"
proof -
  have "require_action dp ActionPageRestore (subject_of rq p) = Some (denial dp ActionPageRestore (subject_of rq p))
      \<and> denial dp ActionPageRestore (subject_of rq p) \<in> reader_denials mems grants (hr_headers r)"
    if "rq_actor rq = header_actor (hr_headers r)" and "rq_authenticated rq = is_authenticated (hr_headers r)"
    for rq :: restore_input and p
    using that by (intro reader_refused [OF assms]) (simp_all add: subject_of_def writer_actions)
  then show ?thesis
    by (auto simp: refused_def intro!: denial_answers simp: handle_restore_revision_def restore_revision_def restore_prepare_def
        restore_base_def answer_def)
qed

text \<open>
  C29: Readers cannot write. A page service that asks the auth service refuses, by every handler that writes,
  each authenticated request of a user whom the auth service knows as a viewer or commenter of his workspaces,
  without a grant to edit a page, whatever roles the headers claim: it answers 400 or 403, or 500 where
  the auth service cannot look the user up, and leaves the store, the replay window and the identifier
  supply as they were.
\<close>

theorem readers_cannot_write:
  assumes "reader_request dp mems grants h"
    and "hr_headers create = h" and "hr_headers autosave = h" and "hr_headers publish = h"
    and "hr_headers archive = h" and "hr_headers restore = h"
  shows "refused (reader_statuses mems grants h) (handle_create_page dp now create sv) sv
     \<and> refused (reader_statuses mems grants h) (handle_autosave_draft dp now autosave sv) sv
     \<and> refused (reader_statuses mems grants h) (handle_publish_page dp now publish sv) sv
     \<and> refused (reader_statuses mems grants h) (handle_archive_page dp now archive sv) sv
     \<and> refused (reader_statuses mems grants h) (handle_restore_revision dp now restore sv) sv"
  using assms reader_create_refused [of dp mems grants create] reader_autosave_refused [of dp mems grants autosave]
    reader_publish_refused [of dp mems grants publish] reader_archive_refused [of dp mems grants archive]
    reader_restore_refused [of dp mems grants restore]
  by simp

section \<open>Archived pages\<close>

text \<open>
  The handlers disagree about an archived page. A request to change one that is otherwise
  allowed and well-formed is a conflict (409) to autosaving, publishing and archiving with a
  stale base or is answered with the archived page, but restoring a revision of it is
  answered as an internal error of the server (500).
\<close>

theorem archived_page_answers:
  assumes "so_get_page (dp_store dp) (sv_store sv) p = Inr page" and "pg_status page = StatusArchived"
    and "dp_checker dp = None" and "\<not> is_authenticated h"
    and "hr_headers restore = h" and "hr_param restore ''pageID'' = p"
    and "hr_headers publish = h" and "hr_param publish ''pageID'' = p" and "hr_body publish = Inr body"
    and "hr_headers archive = h" and "hr_param archive ''pageID'' = p" and "hr_body archive = Inr body"
    and "by_base body = pg_draft_no page"
  shows "hx_status (fst (handle_publish_page dp now publish sv)) = 409
     \<and> hx_status (fst (handle_archive_page dp now archive sv)) = 200
     \<and> hx_status (fst (handle_restore_revision dp now restore sv)) = 500"
proof -
  have ok: "require_action dp a \<lparr>as_actor = x, as_workspace = w, as_page = q, as_roles = rs,
      as_authenticated = False\<rparr> = None" for a x w q rs
    by (simp add: require_action_def authorize_def authorizer_allowed_def)
  note simps = assms ok subject_of_def answer_def
  have "hx_status (fst (handle_publish_page dp now publish sv)) = 409"
    by (simp add: simps handle_publish_page_def publish_page_def publish_prepare_def publish_base_def
        ensure_page_mutable_def)
  moreover have "hx_status (fst (handle_archive_page dp now archive sv)) = 200"
    by (simp add: simps handle_archive_page_def archive_page_def archive_prepare_def)
  moreover have "hx_status (fst (handle_restore_revision dp now restore sv)) = 500"
    by (simp add: simps handle_restore_revision_def restore_revision_def restore_prepare_def
        restore_base_def ensure_page_mutable_def internal_error_def)
  ultimately show ?thesis by blast
qed

section \<open>Witnesses\<close>

definition sample_rest :: "headers \<Rightarrow> 'b \<Rightarrow> 'b http_request" where
  "sample_rest h body = \<lparr>hr_headers = h, hr_query = (\<lambda>_. ''''),
     hr_param = (\<lambda>k. if k = ''pageID'' then sample_page else ''''), hr_body = Inr body,
     hr_request_id = ''r1'', hr_correlation_id = ''r1''\<rparr>"

text \<open>A viewer who claims to be an owner.\<close>

definition viewer_headers :: headers where
  "viewer_headers = header_set ''X-Auth-Authenticated'' ''True'' (header_set ''X-Auth-User-Id'' ''u''
     (header_set ''X-Auth-Roles'' ''owner'' (header_set ''X-Workspace-Id'' ''w'' (\<lambda>_. []))))"

definition viewer_lists :: "string \<Rightarrow> string + membership list" where
  "viewer_lists user = Inr [\<lparr>mb_workspace = ''w'', mb_user = user, mb_role = RoleViewer\<rparr>]"

definition viewer_deps :: "(mem_store, mem_replay) deps" where
  "viewer_deps = sample_deps\<lparr>dp_checker := Some (auth_server viewer_lists (\<lambda>_ _ _. Inr []))\<rparr>"

definition archived_sample :: "(mem_store, mem_replay) service" where
  "archived_sample = snd (archive_page sample_deps 30 (sample_archive 1) with_page)"

theorem readers_cannot_write_witness:
  "hx_status (fst (handle_autosave_draft viewer_deps 30
       (sample_rest viewer_headers \<lparr>ay_base = 1, ay_document = text_document ''x''\<rparr>) with_page)) \<in> {400, 403}"
proof -
  have "is_authenticated viewer_headers" by code_simp
  then have "reader_request viewer_deps viewer_lists (\<lambda>_ _ _. Inr []) viewer_headers"
    by (simp add: reader_request_def viewer_deps_def only_reads_def viewer_lists_def has_grant_def)
  from readers_cannot_write [OF this, of
      "sample_rest viewer_headers \<lparr>cy_workspace = ''w'', cy_title = ''T'', cy_slug = '''', cy_document = text_document ''x''\<rparr>"
      "sample_rest viewer_headers \<lparr>ay_base = 1, ay_document = text_document ''x''\<rparr>"
      "sample_rest viewer_headers \<lparr>by_base = 1\<rparr>" "sample_rest viewer_headers \<lparr>by_base = 1\<rparr>"
      "sample_rest viewer_headers ()" 30 with_page]
  show ?thesis
    by (simp add: refused_def sample_rest_def reader_statuses_def auth_lists_def viewer_lists_def)
qed

theorem archived_page_answers_witness:
  "hx_status (fst (handle_restore_revision sample_deps 40 (sample_rest (\<lambda>_. []) ()) archived_sample)) = 500"
proof -
  obtain page where page: "so_get_page (dp_store sample_deps) (sv_store archived_sample) sample_page = Inr page"
    "pg_status page = StatusArchived"
  proof -
    have "(case so_get_page (dp_store sample_deps) (sv_store archived_sample) sample_page of
            Inl _ \<Rightarrow> False | Inr page \<Rightarrow> pg_status page = StatusArchived)" by code_simp
    then show thesis using that by (auto split: sum.splits)
  qed
  have "dp_checker sample_deps = None" by (simp add: sample_deps_def)
  moreover have "\<not> is_authenticated (\<lambda>_. [])" by code_simp
  ultimately show ?thesis
    using archived_page_answers [OF page, of "\<lambda>_. []" "sample_rest (\<lambda>_. []) ()"
        "sample_rest (\<lambda>_. []) \<lparr>by_base = pg_draft_no page\<rparr>" "\<lparr>by_base = pg_draft_no page\<rparr>"
        "sample_rest (\<lambda>_. []) \<lparr>by_base = pg_draft_no page\<rparr>" 40]
    by (simp add: sample_rest_def)
qed

end
