(* ===== verification/Json.thy ===== *)
theory Json
  imports Prelude
begin

text \<open>
  What \<open>encoding/json\<close> does when it decodes a JSON value into a Go value, as far as the
  services rely on it. The decoder meets the members of an object in order; it matches them
  to the fields of a struct without regard to case; \<open>null\<close> leaves a field as it is, except
  that it makes a map, a slice or a pointer nil; a map that is decoded twice collects the
  members of both. A value of the wrong type is an error.

  A Go map is a list of its members in some order. The marshaller writes them in the order of
  their keys and turns a number of a free-form value into the shortest literal of a double;
  neither is modelled.
\<close>

section \<open>Decoding\<close>

text \<open>
  Field names fold as \<open>foldName\<close> does: letters to upper case, the Kelvin sign to K and the
  long s to S; other characters never fold to a letter of a field name.
\<close>

fun fold_name :: "string \<Rightarrow> string" where
  "fold_name (c # d # e # s) =
     (if c = CHR 0xE2 \<and> d = CHR 0x84 \<and> e = CHR 0xAA then CHR ''K'' # fold_name s
      else if c = CHR 0xC5 \<and> d = CHR 0xBF then CHR ''S'' # fold_name (e # s)
      else ascii_upper c # fold_name (d # e # s))"
| "fold_name [c, d] =
     (if c = CHR 0xC5 \<and> d = CHR 0xBF then [CHR ''S''] else [ascii_upper c, ascii_upper d])"
| "fold_name [c] = [ascii_upper c]"
| "fold_name [] = []"

definition is_field :: "string \<Rightarrow> string \<Rightarrow> bool" where
  "is_field name key \<longleftrightarrow> fold_name key = fold_name name"

text \<open>Decoding into a string, a map, an \<open>int\<close> and an \<open>*int\<close> that has a value already.\<close>

fun decode_string :: "string \<Rightarrow> json \<Rightarrow> string option" where
  "decode_string old (JStr s) = Some s"
| "decode_string old JNull = Some old"
| "decode_string old _ = None"

fun decode_map :: "gmap \<Rightarrow> json \<Rightarrow> gmap option" where
  "decode_map old (JObj kvs) =
     Some (Some (fold (\<lambda>(k, v). kv_put k v) kvs (case old of None \<Rightarrow> [] | Some m \<Rightarrow> m)))"
| "decode_map old JNull = Some None"
| "decode_map old _ = None"

fun decode_int :: "int \<Rightarrow> json \<Rightarrow> int option" where
  "decode_int old (JInt n) = (if fits64 n then Some n else None)"
| "decode_int old JNull = Some old"
| "decode_int old _ = None"

fun decode_int_pointer :: "int option \<Rightarrow> json \<Rightarrow> int option option" where
  "decode_int_pointer old (JInt n) = (if fits64 n then Some (Some n) else None)"
| "decode_int_pointer old JNull = Some None"
| "decode_int_pointer old _ = None"

text \<open>Decoding into a struct: its fields are set one member after the other.\<close>

fun decode_members :: "(string \<Rightarrow> json \<Rightarrow> 'a \<Rightarrow> 'a option) \<Rightarrow> (string \<times> json) list \<Rightarrow> 'a \<Rightarrow> 'a option" where
  "decode_members set_field [] x = Some x"
| "decode_members set_field ((k, v) # kvs) x =
     (case set_field k v x of None \<Rightarrow> None | Some x \<Rightarrow> decode_members set_field kvs x)"

fun decode_struct :: "(string \<Rightarrow> json \<Rightarrow> 'a \<Rightarrow> 'a option) \<Rightarrow> 'a \<Rightarrow> json \<Rightarrow> 'a option" where
  "decode_struct set_field old (JObj kvs) = decode_members set_field kvs old"
| "decode_struct set_field old JNull = Some old"
| "decode_struct set_field old _ = None"

text \<open>Decoding into a slice that is fresh, each element into a fresh value.\<close>

fun decode_each :: "(json \<Rightarrow> 'a option) \<Rightarrow> json list \<Rightarrow> 'a list option" where
  "decode_each f [] = Some []"
| "decode_each f (v # vs) =
     (case f v of
        None \<Rightarrow> None
      | Some x \<Rightarrow> (case decode_each f vs of None \<Rightarrow> None | Some xs \<Rightarrow> Some (x # xs)))"

fun decode_slice :: "(json \<Rightarrow> 'a option) \<Rightarrow> json \<Rightarrow> 'a list option" where
  "decode_slice f (JArr vs) = decode_each f vs"
| "decode_slice f JNull = Some []"
| "decode_slice f _ = None"

text \<open>Decoding into a pointer to a struct, which is allocated where it is nil.\<close>

definition decode_pointer :: "(string \<Rightarrow> json \<Rightarrow> 'a \<Rightarrow> 'a option) \<Rightarrow> 'a \<Rightarrow> 'a option \<Rightarrow> json \<Rightarrow> 'a option option" where
  "decode_pointer set_field zero old v =
     (if v = JNull then Some None
      else map_option Some (decode_struct set_field (case old of None \<Rightarrow> zero | Some x \<Rightarrow> x) v))"

section \<open>Encoding\<close>

definition json_of_map :: "gmap \<Rightarrow> json" where
  "json_of_map m = (case m of None \<Rightarrow> JNull | Some kvs \<Rightarrow> JObj kvs)"

text \<open>Members with \<open>omitempty\<close>.\<close>

definition opt_string :: "string \<Rightarrow> string \<Rightarrow> (string \<times> json) list" where
  "opt_string k s = (if s = '''' then [] else [(k, JStr s)])"

definition opt_map :: "string \<Rightarrow> gmap \<Rightarrow> (string \<times> json) list" where
  "opt_map k m = (case m of None \<Rightarrow> [] | Some kvs \<Rightarrow> if kvs = [] then [] else [(k, JObj kvs)])"

definition opt_member :: "string \<Rightarrow> ('a \<Rightarrow> json) \<Rightarrow> 'a option \<Rightarrow> (string \<times> json) list" where
  "opt_member k f x = (case x of None \<Rightarrow> [] | Some y \<Rightarrow> [(k, f y)])"

section \<open>Facts\<close>

definition wf_map :: "gmap \<Rightarrow> bool" where
  "wf_map m \<longleftrightarrow> (case m of None \<Rightarrow> True | Some kvs \<Rightarrow> distinct (map fst kvs))"

lemma kv_put_new: "k \<notin> set (map fst kvs) \<Longrightarrow> kv_put k v kvs = kvs @ [(k, v)]"
  by (induction kvs) auto

lemma fold_kv_put:
  "distinct (map fst (kvs @ kvs')) \<Longrightarrow> fold (\<lambda>(k, v). kv_put k v) kvs' kvs = kvs @ kvs'"
  by (induction kvs' arbitrary: kvs) (auto simp: kv_put_new)

lemma decode_map_object: "distinct (map fst kvs) \<Longrightarrow> decode_map None (JObj kvs) = Some (Some kvs)"
  using fold_kv_put [of "[]" kvs] by simp

lemma decode_members_append:
  "decode_members set_field (kvs @ kvs') x =
     (case decode_members set_field kvs x of None \<Rightarrow> None | Some x \<Rightarrow> decode_members set_field kvs' x)"
  by (induction kvs arbitrary: x) (auto split: option.splits)

lemma decode_each_map:
  "(\<And>x. x \<in> set xs \<Longrightarrow> f (g x) = Some (h x)) \<Longrightarrow> decode_each f (map g xs) = Some (map h xs)"
  by (induction xs) auto

end
