(* ===== verification/CollabPatch.thy ===== *)
theory CollabPatch
  imports Json "HOL-Library.Multiset"
begin

text \<open>
  Documents and patches of the collaboration service
  (\<^verbatim>\<open>services/collaboration-service/internal/domain/session.go\<close>), with the values that the
  operations decode.
\<close>

section \<open>Documents\<close>

record cblock =
  cb_id :: string
  cb_type :: string
  cb_text :: string
  cb_attrs :: gmap
  cb_embed :: gmap
  cb_link :: gmap
  cb_attachment :: gmap

record cdocument =
  cd_blocks :: "cblock list"
  cd_metadata :: gmap

text \<open>A missing value is \<open>None\<close>; the decoder refuses it like any text that is not JSON.\<close>

record patch_op =
  po_op :: string
  po_block :: string
  po_value :: "json option"

record validation_error =
  ve_block :: string
  ve_message :: string

definition invalid :: "string \<Rightarrow> string \<Rightarrow> validation_error + 'a" where
  "invalid blockID message = Inl \<lparr>ve_block = blockID, ve_message = message\<rparr>"

definition clone_block :: "cblock \<Rightarrow> cblock" where
  "clone_block b =
     \<lparr>cb_id = cb_id b, cb_type = cb_type b, cb_text = cb_text b, cb_attrs = clone_map (cb_attrs b),
      cb_embed = clone_map (cb_embed b), cb_link = clone_map (cb_link b),
      cb_attachment = clone_map (cb_attachment b)\<rparr>"

definition clone_document :: "cdocument \<Rightarrow> cdocument" where
  "clone_document d =
     \<lparr>cd_blocks = map clone_block (cd_blocks d), cd_metadata = clone_map (cd_metadata d)\<rparr>"

section \<open>Decoding the values\<close>

text \<open>The fields of a block.\<close>

definition set_block_field :: "string \<Rightarrow> json \<Rightarrow> cblock \<Rightarrow> cblock option" where
  "set_block_field k v b =
     (if is_field ''id'' k then map_option (\<lambda>s. b\<lparr>cb_id := s\<rparr>) (decode_string (cb_id b) v)
      else if is_field ''type'' k then map_option (\<lambda>s. b\<lparr>cb_type := s\<rparr>) (decode_string (cb_type b) v)
      else if is_field ''text'' k then map_option (\<lambda>s. b\<lparr>cb_text := s\<rparr>) (decode_string (cb_text b) v)
      else if is_field ''attrs'' k then map_option (\<lambda>m. b\<lparr>cb_attrs := m\<rparr>) (decode_map (cb_attrs b) v)
      else if is_field ''embed'' k then map_option (\<lambda>m. b\<lparr>cb_embed := m\<rparr>) (decode_map (cb_embed b) v)
      else if is_field ''link'' k then map_option (\<lambda>m. b\<lparr>cb_link := m\<rparr>) (decode_map (cb_link b) v)
      else if is_field ''attachment'' k then
        map_option (\<lambda>m. b\<lparr>cb_attachment := m\<rparr>) (decode_map (cb_attachment b) v)
      else Some b)"

definition zero_block :: cblock where
  "zero_block = \<lparr>cb_id = '''', cb_type = '''', cb_text = '''', cb_attrs = None, cb_embed = None,
     cb_link = None, cb_attachment = None\<rparr>"

text \<open>The anonymous structs of \<open>insert_block\<close>, \<open>replace_embed_config\<close> and \<open>move_block\<close>.\<close>

record insert_value =
  iv_block :: cblock
  iv_index :: "int option"
  iv_after :: string

definition set_insert_field :: "string \<Rightarrow> json \<Rightarrow> insert_value \<Rightarrow> insert_value option" where
  "set_insert_field k v x =
     (if is_field ''block'' k then
        map_option (\<lambda>b. x\<lparr>iv_block := b\<rparr>) (decode_struct set_block_field (iv_block x) v)
      else if is_field ''index'' k then
        map_option (\<lambda>i. x\<lparr>iv_index := i\<rparr>) (decode_int_pointer (iv_index x) v)
      else if is_field ''after_block_id'' k then
        map_option (\<lambda>s. x\<lparr>iv_after := s\<rparr>) (decode_string (iv_after x) v)
      else Some x)"

definition set_config_field :: "string \<Rightarrow> json \<Rightarrow> gmap \<Rightarrow> gmap option" where
  "set_config_field k v x = (if is_field ''display_config'' k then decode_map x v else Some x)"

definition set_move_field :: "string \<Rightarrow> json \<Rightarrow> int \<Rightarrow> int option" where
  "set_move_field k v x = (if is_field ''to_index'' k then decode_int x v else Some x)"

definition decode_insert :: "json option \<Rightarrow> insert_value option" where
  "decode_insert value = Option.bind value
     (decode_struct set_insert_field \<lparr>iv_block = zero_block, iv_index = None, iv_after = ''''\<rparr>)"

section \<open>Applying a patch\<close>

fun block_index :: "cblock list \<Rightarrow> string \<Rightarrow> nat option" where
  "block_index [] blockID = None"
| "block_index (b # bs) blockID =
     (if cb_id b = blockID then Some 0 else map_option Suc (block_index bs blockID))"

definition insert_at :: "nat \<Rightarrow> 'a \<Rightarrow> 'a list \<Rightarrow> 'a list" where
  "insert_at i x xs = take i xs @ x # drop i xs"

definition delete_at :: "nat \<Rightarrow> 'a list \<Rightarrow> 'a list" where
  "delete_at i xs = take i xs @ drop (Suc i) xs"

text \<open>\<open>len(blocks)\<close>, the given index, or the place behind the named block.\<close>

definition insert_position :: "cblock list \<Rightarrow> insert_value \<Rightarrow> validation_error + int" where
  "insert_position blocks x =
     (case iv_index x of
        Some i \<Rightarrow> Inr i
      | None \<Rightarrow>
          if iv_after x \<noteq> '''' then
            (case block_index blocks (iv_after x) of
               None \<Rightarrow> invalid (iv_after x) ''after_block_id does not exist''
             | Some position \<Rightarrow> Inr (int position + 1))
          else Inr (int (length blocks)))"

definition apply_op :: "cblock list \<Rightarrow> patch_op \<Rightarrow> validation_error + cblock list" where
  "apply_op blocks op =
     (if po_op op = ''replace_block_text'' then
        (case block_index blocks (po_block op) of
           None \<Rightarrow> invalid (po_block op) ''target block does not exist''
         | Some i \<Rightarrow>
             (case Option.bind (po_value op) (decode_string '''') of
                None \<Rightarrow> invalid (po_block op) ''value must be a string''
              | Some t \<Rightarrow> Inr (blocks[i := (blocks ! i)\<lparr>cb_text := t\<rparr>])))
      else if po_op op = ''replace_block_attrs'' then
        (case block_index blocks (po_block op) of
           None \<Rightarrow> invalid (po_block op) ''target block does not exist''
         | Some i \<Rightarrow>
             (case Option.bind (po_value op) (decode_map None) of
                None \<Rightarrow> invalid (po_block op) ''value must be an object''
              | Some attrs \<Rightarrow> Inr (blocks[i := (blocks ! i)\<lparr>cb_attrs := attrs\<rparr>])))
      else if po_op op = ''replace_embed_config'' then
        (case block_index blocks (po_block op) of
           None \<Rightarrow> invalid (po_block op) ''target block does not exist''
         | Some i \<Rightarrow>
             (case Option.bind (po_value op) (decode_struct set_config_field None) of
                None \<Rightarrow> invalid (po_block op) ''value must contain display_config''
              | Some config \<Rightarrow>
                  let embed = (case cb_embed (blocks ! i) of None \<Rightarrow> [] | Some m \<Rightarrow> m)
                  in Inr (blocks[i := (blocks ! i)\<lparr>cb_embed :=
                       Some (kv_put ''display_config'' (json_of_map config) embed)\<rparr>])))
      else if po_op op = ''insert_block'' then
        (case decode_insert (po_value op) of
           None \<Rightarrow> invalid '''' ''value must contain block''
         | Some value \<Rightarrow>
             (case insert_position blocks value of
                Inl err \<Rightarrow> Inl err
              | Inr insertAt \<Rightarrow>
                  if insertAt < 0 \<or> int (length blocks) < insertAt then
                    invalid '''' ''insert index out of range''
                  else Inr (insert_at (nat insertAt) (iv_block value) blocks)))
      else if po_op op = ''move_block'' then
        (case block_index blocks (po_block op) of
           None \<Rightarrow> invalid (po_block op) ''target block does not exist''
         | Some i \<Rightarrow>
             (case Option.bind (po_value op) (decode_struct set_move_field 0) of
                None \<Rightarrow> invalid (po_block op) ''value must contain to_index''
              | Some to \<Rightarrow>
                  if to < 0 \<or> int (length blocks) \<le> to then
                    invalid (po_block op) ''to_index out of range''
                  else Inr (insert_at (nat to) (blocks ! i) (delete_at i blocks))))
      else if po_op op = ''delete_block'' then
        (case block_index blocks (po_block op) of
           None \<Rightarrow> invalid (po_block op) ''target block does not exist''
         | Some i \<Rightarrow> Inr (delete_at i blocks))
      else invalid (po_block op) ''unsupported operation'')"

fun apply_ops :: "patch_op list \<Rightarrow> cblock list \<Rightarrow> validation_error + cblock list" where
  "apply_ops [] blocks = Inr blocks"
| "apply_ops (op # ops) blocks =
     (case apply_op blocks op of Inl err \<Rightarrow> Inl err | Inr blocks \<Rightarrow> apply_ops ops blocks)"

definition apply_patch :: "cdocument \<Rightarrow> patch_op list \<Rightarrow> validation_error + cdocument" where
  "apply_patch d ops =
     (let copy = clone_document d
      in case apply_ops ops (cd_blocks copy) of
           Inl err \<Rightarrow> Inl err
         | Inr blocks \<Rightarrow> Inr (copy\<lparr>cd_blocks := blocks\<rparr>))"

section \<open>Facts\<close>

lemma block_index_Some:
  "block_index bs k = Some i \<Longrightarrow> i < length bs \<and> cb_id (bs ! i) = k \<and> k \<notin> set (map cb_id (take i bs))"
  by (induction bs arbitrary: i) (auto split: if_splits)

lemma block_index_ids: "map cb_id bs = map cb_id cs \<Longrightarrow> block_index bs k = block_index cs k"
proof (induction bs arbitrary: cs)
  case (Cons b bs)
  then show ?case by (cases cs) auto
qed simp

lemma split_at_block:
  assumes "block_index bs k = Some i"
  shows "bs = take i bs @ bs ! i # drop (Suc i) bs" and "cb_id (bs ! i) = k" and "i < length bs"
  using block_index_Some [OF assms] by (auto simp: id_take_nth_drop)

text \<open>The four ways in which an operation can succeed.\<close>

lemma apply_op_cases:
  assumes "apply_op bs op = Inr bs'"
  obtains
    (update) i f where "block_index bs (po_block op) = Some i" and "bs' = bs[i := f (bs ! i)]"
      and "\<And>b. cb_id (f b) = cb_id b"
      and "po_op op = ''replace_block_text'' \<and> (\<exists>t. Option.bind (po_value op) (decode_string '''') = Some t \<and> (\<forall>b. cb_text (f b) = t))
        \<or> po_op op \<in> {''replace_block_attrs'', ''replace_embed_config''} \<and> (\<forall>b. cb_text (f b) = cb_text b)"
  | (insert) n x where "decode_insert (po_value op) = Some x" and "n \<le> length bs"
      and "bs' = insert_at n (iv_block x) bs" and "po_op op = ''insert_block''"
      and "insert_position bs x = Inr (int n)"
  | (move) i n where "block_index bs (po_block op) = Some i" and "n < length bs"
      and "bs' = insert_at n (bs ! i) (delete_at i bs)" and "po_op op = ''move_block''"
      and "Option.bind (po_value op) (decode_struct set_move_field 0) = Some (int n)"
  | (delete) i where "block_index bs (po_block op) = Some i" and "bs' = delete_at i bs"
      and "po_op op = ''delete_block''"
proof -
  consider (t) "po_op op = ''replace_block_text''" | (a) "po_op op = ''replace_block_attrs''"
    | (e) "po_op op = ''replace_embed_config''" | (i) "po_op op = ''insert_block''"
    | (m) "po_op op = ''move_block''" | (d) "po_op op = ''delete_block''"
    using assms by (auto simp: apply_op_def invalid_def split: if_splits)
  then show thesis
  proof cases
    case t
    with assms obtain i s where "block_index bs (po_block op) = Some i"
      and "bs' = bs[i := (bs ! i)\<lparr>cb_text := s\<rparr>]" and "Option.bind (po_value op) (decode_string '''') = Some s"
      by (auto simp: apply_op_def invalid_def split: option.splits)
    with t show thesis by (intro update [of i "\<lambda>b. b\<lparr>cb_text := s\<rparr>"]) auto
  next
    case a
    with assms obtain i s where "block_index bs (po_block op) = Some i"
      and "bs' = bs[i := (bs ! i)\<lparr>cb_attrs := s\<rparr>]"
      by (auto simp: apply_op_def invalid_def split: option.splits)
    with a show thesis by (intro update [of i "\<lambda>b. b\<lparr>cb_attrs := s\<rparr>"]) auto
  next
    case e
    with assms obtain i s where "block_index bs (po_block op) = Some i"
      and "bs' = bs[i := (bs ! i)\<lparr>cb_embed := s\<rparr>]"
      by (auto simp: apply_op_def invalid_def Let_def split: option.splits)
    with e show thesis by (intro update [of i "\<lambda>b. b\<lparr>cb_embed := s\<rparr>"]) auto
  next
    case i
    with assms obtain x n where "decode_insert (po_value op) = Some x"
      and "insert_position bs x = Inr n" and "\<not> (n < 0 \<or> int (length bs) < n)"
      and "bs' = insert_at (nat n) (iv_block x) bs"
      by (auto simp: apply_op_def invalid_def split: option.splits sum.splits if_splits)
    with i show thesis by (intro insert [of x "nat n"]) auto
  next
    case m
    with assms obtain i n where "block_index bs (po_block op) = Some i"
      and "\<not> (n < 0 \<or> int (length bs) \<le> n)"
      and "bs' = insert_at (nat n) (bs ! i) (delete_at i bs)"
      and "Option.bind (po_value op) (decode_struct set_move_field 0) = Some n"
      by (auto simp: apply_op_def invalid_def split: option.splits if_splits)
    with m show thesis by (intro move [of i "nat n"]) auto
  next
    case d
    with assms obtain i where "block_index bs (po_block op) = Some i" and "bs' = delete_at i bs"
      by (auto simp: apply_op_def invalid_def split: option.splits)
    with d show thesis by (intro delete [of i]) auto
  qed
qed

lemma apply_ops_append:
  "apply_ops (ops @ ops') bs =
     (case apply_ops ops bs of Inl err \<Rightarrow> Inl err | Inr bs \<Rightarrow> apply_ops ops' bs)"
  by (induction ops arbitrary: bs) (auto split: sum.splits)

section \<open>What a patch leaves alone\<close>

text \<open>The identifiers that a patch names, or brings with a new block.\<close>

definition op_ids :: "patch_op \<Rightarrow> string set" where
  "op_ids op = insert (po_block op)
     (case decode_insert (po_value op) of None \<Rightarrow> {} | Some x \<Rightarrow> {cb_id (iv_block x)})"

definition patch_ids :: "patch_op list \<Rightarrow> string set" where
  "patch_ids ops = (\<Union>op \<in> set ops. op_ids op)"

lemma filter_delete_at:
  assumes "i < length xs" and "\<not> P (xs ! i)"
  shows "filter P (delete_at i xs) = filter P xs"
proof -
  have "filter P xs = filter P (take i xs @ xs ! i # drop (Suc i) xs)"
    by (simp only: id_take_nth_drop [OF assms(1), symmetric])
  also have "\<dots> = filter P (delete_at i xs)" using assms(2) by (simp add: delete_at_def)
  finally show ?thesis by simp
qed

lemma filter_insert_at: "\<not> P x \<Longrightarrow> filter P (insert_at i x xs) = filter P xs"
  by (metis append_take_drop_id filter.simps(2) filter_append insert_at_def)

lemma filter_update:
  assumes "i < length xs" and "\<not> P (xs ! i)" and "\<not> P x"
  shows "filter P (xs[i := x]) = filter P xs"
proof -
  have "filter P xs = filter P (take i xs @ xs ! i # drop (Suc i) xs)"
    by (simp only: id_take_nth_drop [OF assms(1), symmetric])
  then show ?thesis using assms by (simp add: upd_conv_take_nth_drop)
qed

lemma apply_op_local:
  assumes "apply_op bs op = Inr bs'" and "op_ids op \<subseteq> touched"
  shows "filter (\<lambda>b. cb_id b \<notin> touched) bs' = filter (\<lambda>b. cb_id b \<notin> touched) bs"
proof -
  have named: "po_block op \<in> touched" using assms(2) by (simp add: op_ids_def)
  show ?thesis
  using assms(1)
  proof (cases rule: apply_op_cases)
    case (update i f)
    then show ?thesis using split_at_block(2,3) [OF update(1)] named
      by (simp add: filter_update)
  next
    case (insert n x)
    then have "cb_id (iv_block x) \<in> touched" using assms(2) by (simp add: op_ids_def)
    then show ?thesis using insert(3) by (simp add: filter_insert_at)
  next
    case (move i n)
    then show ?thesis using split_at_block(2,3) [OF move(1)] named
      by (simp add: filter_insert_at filter_delete_at)
  next
    case (delete i)
    then show ?thesis using split_at_block(2,3) [OF delete(1)] named
      by (simp add: filter_delete_at)
  qed
qed

lemma apply_ops_local:
  "apply_ops ops bs = Inr bs' \<Longrightarrow> patch_ids ops \<subseteq> touched \<Longrightarrow>
     filter (\<lambda>b. cb_id b \<notin> touched) bs' = filter (\<lambda>b. cb_id b \<notin> touched) bs"
proof (induction ops arbitrary: bs)
  case (Cons op ops)
  then obtain cs where cs: "apply_op bs op = Inr cs" "apply_ops ops cs = Inr bs'"
    by (auto split: sum.splits)
  then show ?case using Cons.IH [OF cs(2)] apply_op_local [OF cs(1), of touched] Cons.prems(2)
    by (simp add: patch_ids_def)
qed simp

section \<open>Copies\<close>

abbreviation clone_blocks :: "cblock list \<Rightarrow> cblock list" where
  "clone_blocks \<equiv> map clone_block"

lemma clone_block_idem [simp]: "clone_block (clone_block b) = clone_block b"
  by (simp add: clone_block_def)

lemma clone_block_id [simp]: "cb_id (clone_block b) = cb_id b"
  by (simp add: clone_block_def)

lemma clone_blocks_idem [simp]: "clone_blocks (clone_blocks bs) = clone_blocks bs"
  by (simp add: comp_def)

lemma clone_blocks_ids [simp]: "map cb_id (clone_blocks bs) = map cb_id bs"
  by (simp add: comp_def)

lemma block_index_clone [simp]: "block_index (clone_blocks bs) k = block_index bs k"
  by (rule block_index_ids) simp

lemma insert_position_clone [simp]: "insert_position (clone_blocks bs) x = insert_position bs x"
  by (simp add: insert_position_def split: option.split)

lemma map_insert_at [simp]: "map f (insert_at n x xs) = insert_at n (f x) (map f xs)"
  by (simp add: insert_at_def take_map drop_map)

lemma map_delete_at [simp]: "map f (delete_at n xs) = delete_at n (map f xs)"
  by (simp add: delete_at_def take_map drop_map)

lemma clone_block_update:
  "clone_block ((clone_block b)\<lparr>cb_text := t\<rparr>) = clone_block (b\<lparr>cb_text := t\<rparr>)"
  "clone_block ((clone_block b)\<lparr>cb_attrs := m\<rparr>) = clone_block (b\<lparr>cb_attrs := m\<rparr>)"
  "clone_block ((clone_block b)\<lparr>cb_embed := m\<rparr>) = clone_block (b\<lparr>cb_embed := m\<rparr>)"
  by (simp_all add: clone_block_def)

lemma clone_block_embed:
  "(case cb_embed (clone_block b) of None \<Rightarrow> [] | Some m \<Rightarrow> m) =
   (case cb_embed b of None \<Rightarrow> [] | Some m \<Rightarrow> m)"
  by (auto simp: clone_block_def clone_map_def split: option.splits list.splits)

abbreviation result_clone :: "'e + cblock list \<Rightarrow> 'e + cblock list" where
  "result_clone \<equiv> map_sum id clone_blocks"

text \<open>Whether an empty map is nil makes no difference to an operation.\<close>

lemma apply_op_clone: "result_clone (apply_op (clone_blocks bs) op) = result_clone (apply_op bs op)"
proof -
  have upd: "clone_blocks ((clone_blocks bs)[i := f (clone_blocks bs ! i)]) = clone_blocks (bs[i := f (bs ! i)])"
    if "block_index bs k = Some i" and "clone_block (f (clone_block (bs ! i))) = clone_block (f (bs ! i))"
    for f i k
  proof -
    have "clone_blocks bs ! i = clone_block (bs ! i)" using split_at_block(3) [OF that(1)] by simp
    then show ?thesis using that(2) by (simp add: map_update comp_def)
  qed
  have nth: "clone_blocks bs ! i = clone_block (bs ! i)" if "block_index bs k = Some i" for i k
    using split_at_block(3) [OF that] by simp
  consider (t) "po_op op = ''replace_block_text''" | (a) "po_op op = ''replace_block_attrs''"
    | (e) "po_op op = ''replace_embed_config''" | (i) "po_op op = ''insert_block''"
    | (m) "po_op op = ''move_block''" | (d) "po_op op = ''delete_block''"
    | (u) "po_op op \<notin> {''replace_block_text'', ''replace_block_attrs'', ''replace_embed_config'',
             ''insert_block'', ''move_block'', ''delete_block''}" by blast
  then show ?thesis
  proof cases
    case t
    show ?thesis
      using upd [of "po_block op" _ "\<lambda>b. b\<lparr>cb_text := _\<rparr>"]
      by (auto simp: apply_op_def t invalid_def clone_block_update split: option.splits)
  next
    case a
    show ?thesis
      using upd [of "po_block op" _ "\<lambda>b. b\<lparr>cb_attrs := _\<rparr>"]
      by (auto simp: apply_op_def a invalid_def clone_block_update split: option.splits)
  next
    case e
    show ?thesis
      by (auto simp: apply_op_def e invalid_def Let_def nth map_update clone_block_embed
          clone_block_update comp_def split: option.splits)
  next
    case i
    show ?thesis
      by (auto simp: apply_op_def i invalid_def comp_def split: option.splits sum.splits)
  next
    case m
    show ?thesis
      by (auto simp: apply_op_def m invalid_def nth comp_def split: option.splits)
  next
    case d
    show ?thesis
      by (auto simp: apply_op_def d invalid_def comp_def split: option.splits)
  next
    case u
    then show ?thesis by (simp add: apply_op_def invalid_def)
  qed
qed

lemma apply_op_same:
  "clone_blocks bs = clone_blocks cs \<Longrightarrow> result_clone (apply_op bs op) = result_clone (apply_op cs op)"
  by (metis apply_op_clone)

lemma apply_ops_same:
  "clone_blocks bs = clone_blocks cs \<Longrightarrow> result_clone (apply_ops ops bs) = result_clone (apply_ops ops cs)"
proof (induction ops arbitrary: bs cs)
  case (Cons op ops)
  note same = apply_op_same [OF Cons.prems, of op]
  show ?case
  proof (cases "apply_op bs op")
    case (Inl err)
    then have "apply_op cs op = Inl err" using same by (cases "apply_op cs op") auto
    then show ?thesis using Inl by simp
  next
    case (Inr bs')
    then obtain cs' where "apply_op cs op = Inr cs'" and "clone_blocks bs' = clone_blocks cs'"
      using same by (cases "apply_op cs op") auto
    then show ?thesis using Inr Cons.IH [of bs' cs'] by simp
  qed
qed simp

lemma apply_patch_eq:
  "apply_patch d ops = map_sum id (\<lambda>bs. \<lparr>cd_blocks = bs, cd_metadata = clone_map (cd_metadata d)\<rparr>)
     (apply_ops ops (clone_blocks (cd_blocks d)))"
  by (auto simp: apply_patch_def clone_document_def Let_def split: sum.splits)

text \<open>
  Patches compose: sending a patch as one batch and sending it in two parts, the second
  on top of the document that the first one gave, end in the same document or in the same
  error (documents are compared as the code copies them, an empty map being nil).
\<close>

theorem patch_batches:
  "map_sum id clone_document (apply_patch d (ops @ ops')) =
     (case apply_patch d ops of
        Inl err \<Rightarrow> Inl err
      | Inr d' \<Rightarrow> map_sum id clone_document (apply_patch d' ops'))"
proof (cases "apply_ops ops (clone_blocks (cd_blocks d))")
  case (Inl err)
  then show ?thesis by (simp add: apply_patch_eq apply_ops_append)
next
  case (Inr bs)
  have "result_clone (apply_ops ops' (clone_blocks bs)) = result_clone (apply_ops ops' bs)"
    by (rule apply_ops_same) simp
  then show ?thesis using Inr
    by (cases "apply_ops ops' bs"; cases "apply_ops ops' (clone_blocks bs)")
      (simp_all add: apply_patch_eq apply_ops_append clone_document_def)
qed

section \<open>The outline of a document\<close>

text \<open>
  The specification of a patch on the sequence of block identifiers with their texts. A new text replaces that
  of the first block with the identifier, and no other edit is seen. A new block comes to the index that is
  given, else directly behind the first block with the given identifier, else to the end. Moving takes the first
  block with the identifier to where the given number of blocks stand before it, and deleting removes it.
\<close>

type_synonym outline_entry = "string \<times> string"

definition outline_of :: "cblock \<Rightarrow> outline_entry" where
  "outline_of b = (cb_id b, cb_text b)"

inductive outline_step :: "patch_op \<Rightarrow> outline_entry list \<Rightarrow> outline_entry list \<Rightarrow> bool" where
  new_text: "po_op op = ''replace_block_text'' \<Longrightarrow> Option.bind (po_value op) (decode_string '''') = Some t' \<Longrightarrow>
    po_block op \<notin> fst ` set us \<Longrightarrow> outline_step op (us @ (po_block op, t) # vs) (us @ (po_block op, t') # vs)"
| keep: "po_op op \<in> {''replace_block_attrs'', ''replace_embed_config''} \<Longrightarrow>
    po_block op \<in> fst ` set ids \<Longrightarrow> outline_step op ids ids"
| insert_index: "po_op op = ''insert_block'' \<Longrightarrow> decode_insert (po_value op) = Some x \<Longrightarrow>
    iv_index x = Some (int (length us)) \<Longrightarrow>
    outline_step op (us @ vs) (us @ outline_of (iv_block x) # vs)"
| insert_behind: "po_op op = ''insert_block'' \<Longrightarrow> decode_insert (po_value op) = Some x \<Longrightarrow>
    iv_index x = None \<Longrightarrow> iv_after x \<noteq> '''' \<Longrightarrow> iv_after x \<notin> fst ` set us \<Longrightarrow>
    outline_step op (us @ (iv_after x, t) # vs) (us @ (iv_after x, t) # outline_of (iv_block x) # vs)"
| insert_end: "po_op op = ''insert_block'' \<Longrightarrow> decode_insert (po_value op) = Some x \<Longrightarrow>
    iv_index x = None \<Longrightarrow> iv_after x = '''' \<Longrightarrow> outline_step op ids (ids @ [outline_of (iv_block x)])"
| move: "po_op op = ''move_block'' \<Longrightarrow> po_block op \<notin> fst ` set us \<Longrightarrow> us @ vs = us' @ vs' \<Longrightarrow>
    Option.bind (po_value op) (decode_struct set_move_field 0) = Some (int (length us')) \<Longrightarrow>
    outline_step op (us @ (po_block op, t) # vs) (us' @ (po_block op, t) # vs')"
| delete: "po_op op = ''delete_block'' \<Longrightarrow> po_block op \<notin> fst ` set us \<Longrightarrow>
    outline_step op (us @ (po_block op, t) # vs) (us @ vs)"

inductive outline_steps :: "patch_op list \<Rightarrow> outline_entry list \<Rightarrow> outline_entry list \<Rightarrow> bool" where
  none: "outline_steps [] ids ids"
| step: "outline_step op ids ids' \<Longrightarrow> outline_steps ops ids' ids'' \<Longrightarrow> outline_steps (op # ops) ids ids''"

inductive_cases outline_stepE: "outline_step op ids ids'"

definition outline :: "cdocument \<Rightarrow> outline_entry list" where
  "outline d = map outline_of (cd_blocks d)"

lemma outline_split:
  assumes "block_index bs k = Some i"
  shows "map outline_of bs = take i (map outline_of bs) @ (k, cb_text (bs ! i)) # drop (Suc i) (map outline_of bs)"
    and "k \<notin> fst ` set (take i (map outline_of bs))"
proof -
  note i = block_index_Some [OF assms]
  show "map outline_of bs = take i (map outline_of bs) @ (k, cb_text (bs ! i)) # drop (Suc i) (map outline_of bs)"
    using i id_take_nth_drop [of i "map outline_of bs"] by (simp add: outline_of_def)
  show "k \<notin> fst ` set (take i (map outline_of bs))"
    using i by (auto simp: outline_of_def take_map)
qed

text \<open>A block that is inserted comes to its place.\<close>

lemma inserted_outline:
  assumes "po_op op = ''insert_block''" and x: "decode_insert (po_value op) = Some x" and n: "n \<le> length bs"
    and at: "insert_position bs x = Inr (int n)"
  shows "outline_step op (map outline_of bs) (insert_at n (outline_of (iv_block x)) (map outline_of bs))"
proof -
  let ?ids = "map outline_of bs" and ?new = "outline_of (iv_block x)"
  have whole: "take n ?ids @ drop n ?ids = ?ids" by simp
  consider (index) "iv_index x = Some (int n)"
    | (behind) i where "iv_index x = None" "iv_after x \<noteq> ''''" "block_index bs (iv_after x) = Some i" "n = Suc i"
    | (last) "iv_index x = None" "iv_after x = ''''" "n = length bs"
    using at by (auto simp: insert_position_def invalid_def split: option.splits if_splits)
  then show ?thesis
  proof cases
    case index
    then have "outline_step op (take n ?ids @ drop n ?ids) (take n ?ids @ ?new # drop n ?ids)"
      using assms(1) x n by (intro outline_step.insert_index) simp_all
    then show ?thesis unfolding whole insert_at_def .
  next
    case behind
    note s = outline_split [OF behind(3)]
    have "outline_step op (take i ?ids @ (iv_after x, cb_text (bs ! i)) # drop (Suc i) ?ids)
        (take i ?ids @ (iv_after x, cb_text (bs ! i)) # ?new # drop (Suc i) ?ids)"
      using assms(1) x behind(1,2) s(2) by (intro outline_step.insert_behind)
    moreover have "take n ?ids = take i ?ids @ [(iv_after x, cb_text (bs ! i))]"
      using behind(4) block_index_Some [OF behind(3)] by (simp add: take_Suc_conv_app_nth outline_of_def)
    ultimately show ?thesis using s(1) behind(4) by (simp add: insert_at_def)
  next
    case last
    then show ?thesis using outline_step.insert_end [OF assms(1) x, of ?ids] by (simp add: insert_at_def)
  qed
qed

lemma apply_op_outline:
  assumes "apply_op bs op = Inr bs'"
  shows "outline_step op (map outline_of bs) (map outline_of bs')"
  using assms
proof (cases rule: apply_op_cases)
  case (update i f)
  note i = block_index_Some [OF update(1)] and s = outline_split [OF update(1)]
  have bs': "map outline_of bs' = take i (map outline_of bs) @ (po_block op, cb_text (f (bs ! i))) # drop (Suc i) (map outline_of bs)"
    using i update(2,3) by (simp add: upd_conv_take_nth_drop outline_of_def take_map drop_map)
  from update(4) show ?thesis
  proof
    assume "po_op op = ''replace_block_text''
      \<and> (\<exists>t. Option.bind (po_value op) (decode_string '''') = Some t \<and> (\<forall>b. cb_text (f b) = t))"
    then have "outline_step op (take i (map outline_of bs) @ (po_block op, cb_text (bs ! i)) # drop (Suc i) (map outline_of bs))
        (take i (map outline_of bs) @ (po_block op, cb_text (f (bs ! i))) # drop (Suc i) (map outline_of bs))"
      using s(2) by (intro outline_step.new_text) auto
    then show ?thesis using s(1) bs' by simp
  next
    assume other: "po_op op \<in> {''replace_block_attrs'', ''replace_embed_config''} \<and> (\<forall>b. cb_text (f b) = cb_text b)"
    then have "map outline_of bs' = map outline_of bs" using bs' s(1) by simp
    moreover have "po_block op \<in> fst ` set (map outline_of bs)" by (subst s(1)) simp
    ultimately show ?thesis using other by (simp only: outline_step.keep)
  qed
next
  case (insert n x)
  then show ?thesis using inserted_outline [OF insert(4,1,2,5)] by simp
next
  case (move i n)
  note i = block_index_Some [OF move(1)] and s = outline_split [OF move(1)]
  let ?rest = "delete_at i (map outline_of bs)"
  have len: "length (take n ?rest) = n" using move(2) i by (auto simp: delete_at_def)
  have "take i (map outline_of bs) @ drop (Suc i) (map outline_of bs) = take n ?rest @ drop n ?rest"
    by (simp only: append_take_drop_id delete_at_def)
  then have "outline_step op
      (take i (map outline_of bs) @ (po_block op, cb_text (bs ! i)) # drop (Suc i) (map outline_of bs))
      (take n ?rest @ (po_block op, cb_text (bs ! i)) # drop n ?rest)"
    using move(4,5) s(2) len by (intro outline_step.move) simp_all
  moreover have "map outline_of bs' = take n ?rest @ (po_block op, cb_text (bs ! i)) # drop n ?rest"
    using move(3) i by (simp add: insert_at_def outline_of_def flip: take_map drop_map)
  ultimately show ?thesis using s(1) by simp
next
  case (delete i)
  note s = outline_split [OF delete(1)]
  have "outline_step op (take i (map outline_of bs) @ (po_block op, cb_text (bs ! i)) # drop (Suc i) (map outline_of bs))
          (take i (map outline_of bs) @ drop (Suc i) (map outline_of bs))"
    using s(2) delete(3) by (intro outline_step.delete)
  then show ?thesis using delete(2) s(1) by (simp add: delete_at_def flip: take_map drop_map)
qed

lemma apply_ops_outline:
  "apply_ops ops bs = Inr bs' \<Longrightarrow> outline_steps ops (map outline_of bs) (map outline_of bs')"
proof (induction ops arbitrary: bs)
  case (Cons op ops)
  then obtain cs where "apply_op bs op = Inr cs" "apply_ops ops cs = Inr bs'"
    by (auto split: sum.splits)
  then show ?case using Cons.IH apply_op_outline by (blast intro: outline_steps.step)
qed (simp add: outline_steps.none)

lemma outline_step_account:
  assumes "outline_step op ids ids'"
  shows "mset (map fst ids') + (if po_op op = ''delete_block'' then {#po_block op#} else {#}) =
     mset (map fst ids) + (if po_op op = ''insert_block'' then
                   (case decode_insert (po_value op) of None \<Rightarrow> {#} | Some x \<Rightarrow> {#cb_id (iv_block x)#})
                 else {#})"
  using assms
proof cases
  case (move us vs us' vs' t)
  then have "mset (map fst us) + mset (map fst vs) = mset (map fst us') + mset (map fst vs')"
    by (metis map_append mset_append)
  then show ?thesis using move by simp
qed (auto simp: outline_of_def)

text \<open>The identifiers that a patch deletes and those that it brings, in order.\<close>

definition deleted_ids :: "patch_op list \<Rightarrow> string list" where
  "deleted_ids ops = map po_block (filter (\<lambda>op. po_op op = ''delete_block'') ops)"

definition inserted_ids :: "patch_op list \<Rightarrow> string list" where
  "inserted_ids ops = concat (map (\<lambda>op. if po_op op = ''insert_block'' then
     (case decode_insert (po_value op) of None \<Rightarrow> [] | Some x \<Rightarrow> [cb_id (iv_block x)]) else []) ops)"

lemma outline_steps_account:
  "outline_steps ops ids ids' \<Longrightarrow>
     mset (map fst ids') + mset (deleted_ids ops) = mset (map fst ids) + mset (inserted_ids ops)"
proof (induction rule: outline_steps.induct)
  case (step op ids ids' ops ids'')
  then show ?case using outline_step_account [OF step.hyps(1)]
    by (auto simp: deleted_ids_def inserted_ids_def add_ac split: option.splits if_splits)
qed (simp add: deleted_ids_def inserted_ids_def)

text \<open>
  C25: An accepted patch refines the specification on the outline: the sequence of block identifiers with their
  texts changes by one permitted step per operation, in the order of the operations, a text at the block that is
  named, a new block at the given index, directly behind the block that is named or at the end, a moved block
  at the given index. So edits and moves neither lose nor duplicate a block: the identifiers afterwards, with
  those deleted, are the identifiers before, with those inserted, counted with their multiplicity. Nothing stops
  an inserted block from bringing an identifier that is taken.
\<close>

theorem patch_refines_outline:
  assumes "apply_patch d ops = Inr d'"
  shows "outline_steps ops (outline d) (outline d')
     \<and> mset (map fst (outline d')) + mset (deleted_ids ops) = mset (map fst (outline d)) + mset (inserted_ids ops)"
proof -
  obtain bs where "apply_ops ops (clone_blocks (cd_blocks d)) = Inr bs" and "cd_blocks d' = bs"
    using assms by (cases "apply_ops ops (clone_blocks (cd_blocks d))") (auto simp: apply_patch_eq)
  moreover have "map outline_of (clone_blocks bs') = map outline_of bs'" for bs'
    by (simp add: outline_of_def clone_block_def)
  ultimately have "outline_steps ops (outline d) (outline d')"
    using apply_ops_outline [of ops "clone_blocks (cd_blocks d)" bs] by (simp add: outline_def del: map_map)
  then show ?thesis using outline_steps_account by blast
qed

text \<open>
  An accepted patch leaves alone what it does not name: the blocks whose identifiers are
  neither the target of an operation nor that of an inserted block are the same before and
  after, in the same order, and so is the metadata (up to empty maps, which become nil).
\<close>

theorem patch_locality:
  assumes "apply_patch d ops = Inr d'"
  shows "filter (\<lambda>b. cb_id b \<notin> patch_ids ops) (cd_blocks d')
           = clone_blocks (filter (\<lambda>b. cb_id b \<notin> patch_ids ops) (cd_blocks d))
     \<and> cd_metadata d' = clone_map (cd_metadata d)"
proof -
  have "filter P (clone_blocks bs) = clone_blocks (filter P bs)" if "\<And>b. P (clone_block b) = P b" for P bs
    using that by (induction bs) auto
  then show ?thesis
    using assms apply_ops_local [of ops "clone_blocks (cd_blocks d)" _ "patch_ids ops"]
    by (cases "apply_ops ops (clone_blocks (cd_blocks d))") (auto simp: apply_patch_eq)
qed

section \<open>Witnesses\<close>

definition sample_cblock :: "string \<Rightarrow> string \<Rightarrow> cblock" where
  "sample_cblock i t = zero_block\<lparr>cb_id := i, cb_type := ''paragraph'', cb_text := t\<rparr>"

definition sample_cdocument :: cdocument where
  "sample_cdocument = \<lparr>cd_blocks = [sample_cblock ''a'' ''one'', sample_cblock ''b'' ''two'',
     sample_cblock ''c'' ''three''], cd_metadata = None\<rparr>"

definition patch_of :: "string \<Rightarrow> string \<Rightarrow> json \<Rightarrow> patch_op" where
  "patch_of op block value = \<lparr>po_op = op, po_block = block, po_value = Some value\<rparr>"

text \<open>A patch of all kinds; it brings a second block \<open>b\<close>.\<close>

definition sample_patch :: "patch_op list" where
  "sample_patch =
     [patch_of ''replace_block_text'' ''a'' (JStr ''ONE''),
      patch_of ''insert_block'' '''' (JObj [(''Block'', JObj [(''id'', JStr ''b'')]), (''INDEX'', JInt 0)]),
      patch_of ''move_block'' ''a'' (JObj [(''to_index'', JInt 3)])]"

definition sample_patched :: cdocument where
  "sample_patched = \<lparr>cd_blocks = [zero_block\<lparr>cb_id := ''b''\<rparr>, sample_cblock ''b'' ''two'',
     sample_cblock ''c'' ''three'', sample_cblock ''a'' ''ONE''], cd_metadata = None\<rparr>"

lemma sample_patch_accepted: "apply_patch sample_cdocument sample_patch = Inr sample_patched"
  by code_simp

theorem patch_refines_outline_witness:
  "outline_steps sample_patch [(''a'', ''one''), (''b'', ''two''), (''c'', ''three'')]
     [(''b'', ''''), (''b'', ''two''), (''c'', ''three''), (''a'', ''ONE'')]"
proof -
  have "outline sample_cdocument = [(''a'', ''one''), (''b'', ''two''), (''c'', ''three'')]"
    and "outline sample_patched = [(''b'', ''''), (''b'', ''two''), (''c'', ''three''), (''a'', ''ONE'')]" by code_simp+
  then show ?thesis using patch_refines_outline [OF sample_patch_accepted] by simp
qed

theorem patch_locality_witness:
  "filter (\<lambda>b. cb_id b \<notin> patch_ids sample_patch) (cd_blocks sample_patched) = [sample_cblock ''c'' ''three'']"
proof -
  have "patch_ids sample_patch = {''a'', ''b'', ''''}" by code_simp
  then show ?thesis
    using patch_locality [OF sample_patch_accepted]
    by (simp add: sample_cdocument_def sample_cblock_def zero_block_def clone_block_def)
qed

end
