(* ===== verification/CollabStores.thy ===== *)
theory CollabStores
  imports CollabPatch
begin

text \<open>
  Rooms and presence of the collaboration service: the states of \<^verbatim>\<open>internal/domain/session.go\<close>,
  the store interfaces of \<^verbatim>\<open>internal/ports/store.go\<close> with the contracts their clients rely on,
  and the in-memory stores of \<^verbatim>\<open>internal/adapters/memory/store.go\<close>. Each operation reads the
  clock once; the time it reads is a parameter.
\<close>

section \<open>States\<close>

record room_state =
  rm_id :: string
  rm_page :: string
  rm_workspace :: string
  rm_revision :: string
  rm_no :: int
  rm_last_patch :: string
  rm_document :: cdocument
  rm_expires :: gotime

record cursor =
  cu_block :: string
  cu_offset :: int

record selection =
  sl_from :: string
  sl_to :: string

record presence_member =
  pm_room :: string
  pm_session :: string
  pm_user :: string
  pm_name :: string
  pm_cursor :: "cursor option"
  pm_selection :: "selection option"
  pm_last_seen :: gotime
  pm_last_patch :: string
  pm_workspace :: string
  pm_page :: string

definition room_key :: "string \<Rightarrow> string \<Rightarrow> string" where
  "room_key workspaceID pageID = workspaceID @ ''::'' @ pageID"

section \<open>The store interfaces\<close>

datatype presence_error = ErrSessionNotFound | ErrPresence string

record 'r room_ops =
  rm_get :: "gotime \<Rightarrow> string \<Rightarrow> 'r \<Rightarrow> string + room_state option"
  rm_save :: "gotime \<Rightarrow> room_state \<Rightarrow> duration \<Rightarrow> 'r \<Rightarrow> string option \<times> 'r"
  rm_delete :: "string \<Rightarrow> 'r \<Rightarrow> string option \<times> 'r"

record 'p presence_ops =
  pr_upsert :: "gotime \<Rightarrow> presence_member \<Rightarrow> duration \<Rightarrow> 'p \<Rightarrow> string option \<times> 'p"
  pr_touch :: "string \<Rightarrow> string \<Rightarrow> cursor option \<Rightarrow> selection option \<Rightarrow> gotime \<Rightarrow> duration \<Rightarrow> 'p \<Rightarrow>
    (presence_error + presence_member) \<times> 'p"
  pr_remove :: "string \<Rightarrow> string \<Rightarrow> 'p \<Rightarrow> string option \<times> 'p"
  pr_list :: "gotime \<Rightarrow> string \<Rightarrow> 'p \<Rightarrow> (string + presence_member list) \<times> 'p"

text \<open>
  A room store answers with the room that was saved last, as long as it has not expired.
  \<open>room\<close> is the abstract state: the room under a key at a time.
\<close>

locale room_store =
  fixes ops :: "'r room_ops" and keyed :: "'r \<Rightarrow> bool"
    and room :: "'r \<Rightarrow> gotime \<Rightarrow> string \<Rightarrow> room_state option"
  assumes get_room: "rm_get ops now k s = Inr found \<Longrightarrow> found = room s now k"
    and room_id: "keyed s \<Longrightarrow> room s t k = Some st \<Longrightarrow> rm_id st = k"
    and save_room: "keyed s \<Longrightarrow> rm_save ops now st ttl s = (None, s') \<Longrightarrow>
      keyed s' \<and> room s' t k = (if k = rm_id st then
        (if t \<le> now + ttl \<or> now + ttl = zero_time then Some (st\<lparr>rm_expires := now + ttl\<rparr>) else None)
        else room s t k)"
    and save_failed: "keyed s \<Longrightarrow> rm_save ops now st ttl s = (Some err, s') \<Longrightarrow>
      keyed s' \<and> room s' = room s"
    and delete_room: "keyed s \<Longrightarrow> rm_delete ops k s = (None, s') \<Longrightarrow>
      keyed s' \<and> room s' t k' = (if k' = k then None else room s t k')"

text \<open>
  A presence store knows the sessions of a room that were seen within their time to live.
  \<open>live\<close> is the abstract state: the sessions of a room at a time. \<open>fits\<close> are the names of rooms and sessions
  and \<open>lasts\<close> the times to live that the store can hold, and \<open>until\<close> says whether what was stored at one time
  with a time to live is still there at another.
\<close>

locale presence_store =
  fixes ops :: "'p presence_ops" and inv :: "'p \<Rightarrow> bool"
    and live :: "'p \<Rightarrow> gotime \<Rightarrow> string \<Rightarrow> string set"
    and fits :: "string \<Rightarrow> string \<Rightarrow> bool" and lasts :: "duration \<Rightarrow> bool"
    and until :: "gotime \<Rightarrow> duration \<Rightarrow> gotime \<Rightarrow> bool"
  assumes list_live: "inv s \<Longrightarrow> pr_list ops now k s = (Inr members, s') \<Longrightarrow>
      set (map pm_session members) = live s now k"
    and list_keeps: "inv s \<Longrightarrow> pr_list ops now k s = (r, s') \<Longrightarrow>
      inv s' \<and> (\<forall>t k'. now \<le> t \<longrightarrow> live s' t k' = live s t k')"
    and upsert_live: "inv s \<Longrightarrow> fits (pm_room m) (pm_session m) \<Longrightarrow> lasts ttl \<Longrightarrow>
      pr_upsert ops now m ttl s = (None, s') \<Longrightarrow>
      inv s' \<and> live s' t k = (if k \<noteq> pm_room m then live s t k
        else if until now ttl t then insert (pm_session m) (live s t k)
        else live s t k - {pm_session m})"
    and remove_live: "inv s \<Longrightarrow> fits k i \<Longrightarrow> pr_remove ops k i s = (None, s') \<Longrightarrow>
      inv s' \<and> live s' t k' = (if k' = k then live s t k' - {i} else live s t k')"
    and touch_live: "inv s \<Longrightarrow> fits k i \<Longrightarrow> lasts ttl \<Longrightarrow> pr_touch ops k i c sel seenAt ttl s = (Inr m, s') \<Longrightarrow>
      inv s' \<and> live s' t k' = (if k' \<noteq> k then live s t k'
        else if until seenAt ttl t then insert i (live s t k')
        else live s t k' - {i})"
    and touch_failed: "inv s \<Longrightarrow> fits k i \<Longrightarrow> lasts ttl \<Longrightarrow> pr_touch ops k i c sel seenAt ttl s = (Inl err, s') \<Longrightarrow>
      inv s' \<and> (live s' t k' = live s t k' \<or> live s' t k' = (if k' \<noteq> k then live s t k'
        else if until seenAt ttl t then insert i (live s t k')
        else live s t k' - {i}))"
begin

text \<open>
  A heartbeat brings nobody in: a session that is listed after one was listed before, or is the one that was
  touched. And a session that has left is not listed until it joins again.
\<close>

lemma touched_listed:
  assumes "inv s" and "fits k i" and "lasts ttl" and "pr_touch ops k i c sel seenAt ttl s = (r, s')"
    and "pr_list ops now k' s' = (Inr members, s'')"
  shows "set (map pm_session members) \<subseteq> insert i (live s now k')"
proof (cases r)
  case (Inl err)
  then have "inv s'" and "live s' now k' = live s now k' \<or> live s' now k' = (if k' \<noteq> k then live s now k'
      else if until seenAt ttl now then insert i (live s now k') else live s now k' - {i})"
    using touch_failed [OF assms(1-3)] assms(4) by auto
  then show ?thesis using list_live [OF _ assms(5)] by (auto split: if_splits)
next
  case (Inr m)
  then have "inv s'" and "live s' now k' = (if k' \<noteq> k then live s now k'
      else if until seenAt ttl now then insert i (live s now k') else live s now k' - {i})"
    using touch_live [OF assms(1-3)] assms(4) by auto
  then show ?thesis using list_live [OF _ assms(5)] by (auto split: if_splits)
qed

lemma removed_not_listed:
  assumes "inv s" and "fits k i" and "pr_remove ops k i s = (None, s')"
    and "pr_list ops now k s' = (Inr members, s'')"
  shows "i \<notin> set (map pm_session members)"
proof -
  have "inv s'" and "live s' now k = live s now k - {i}" using remove_live [OF assms(1-3), of now k] by auto
  then show ?thesis using list_live [OF _ assms(4)] by auto
qed

end

section \<open>The in-memory room store\<close>

type_synonym mem_rooms = "string \<Rightarrow> room_state option"

text \<open>\<open>!ExpiresAt.IsZero() && now.After(ExpiresAt)\<close>.\<close>

definition expired :: "gotime \<Rightarrow> gotime \<Rightarrow> bool" where
  "expired now at \<longleftrightarrow> at \<noteq> zero_time \<and> at < now"

definition mem_room_get :: "gotime \<Rightarrow> string \<Rightarrow> mem_rooms \<Rightarrow> string + room_state option" where
  "mem_room_get now roomID values =
     (case values roomID of
        None \<Rightarrow> Inr None
      | Some st \<Rightarrow> if expired now (rm_expires st) then Inr None else Inr (Some st))"

definition mem_room_save :: "gotime \<Rightarrow> room_state \<Rightarrow> duration \<Rightarrow> mem_rooms \<Rightarrow> string option \<times> mem_rooms" where
  "mem_room_save now st ttl values = (None, values(rm_id st := Some (st\<lparr>rm_expires := now + ttl\<rparr>)))"

definition mem_room_delete :: "string \<Rightarrow> mem_rooms \<Rightarrow> string option \<times> mem_rooms" where
  "mem_room_delete roomID values = (None, values(roomID := None))"

definition memory_room_ops :: "mem_rooms room_ops" where
  "memory_room_ops = \<lparr>rm_get = mem_room_get, rm_save = mem_room_save, rm_delete = mem_room_delete\<rparr>"

definition mem_room :: "mem_rooms \<Rightarrow> gotime \<Rightarrow> string \<Rightarrow> room_state option" where
  "mem_room values now k =
     (case values k of None \<Rightarrow> None | Some st \<Rightarrow> if expired now (rm_expires st) then None else Some st)"

lemma memory_room_ops_simps [simp]:
  "rm_get memory_room_ops = mem_room_get" "rm_save memory_room_ops = mem_room_save"
  "rm_delete memory_room_ops = mem_room_delete"
  by (simp_all add: memory_room_ops_def)

definition mem_rooms_keyed :: "mem_rooms \<Rightarrow> bool" where
  "mem_rooms_keyed values \<longleftrightarrow> (\<forall>k st. values k = Some st \<longrightarrow> rm_id st = k)"

interpretation mem_rooms: room_store memory_room_ops mem_rooms_keyed mem_room
proof (unfold_locales, unfold memory_room_ops_simps, goal_cases)
  case (1 now k s found)
  then show ?case by (cases "s k") (auto simp: mem_room_get_def mem_room_def split: if_splits)
next
  case (2 s t k st)
  then show ?case by (simp add: mem_rooms_keyed_def mem_room_def split: option.splits if_splits)
next
  case (3 s now st ttl s' t k)
  then have s': "s' = s(rm_id st := Some (st\<lparr>rm_expires := now + ttl\<rparr>))" by (simp add: mem_room_save_def)
  have "mem_rooms_keyed s'" using 3(1) by (simp add: mem_rooms_keyed_def s')
  moreover have "expired t (now + ttl) \<longleftrightarrow> \<not> (t \<le> now + ttl \<or> now + ttl = zero_time)"
    by (auto simp: expired_def)
  ultimately show ?case by (simp add: mem_room_def s')
next
  case (4 s now st ttl err s')
  then show ?case by (simp add: mem_room_save_def)
next
  case (5 s k s' t k')
  then have s': "s' = s(k := None)" by (simp add: mem_room_delete_def)
  show ?case using 5(1) by (simp add: mem_rooms_keyed_def mem_room_def s')
qed

section \<open>The in-memory presence store\<close>

text \<open>
  The members of each room, by session; a room without members and a room that was never
  there are the same. The map's iteration order is left open by Go: here it is the order of
  the list, and nothing below depends on it.
\<close>

type_synonym mem_presence = "string \<Rightarrow> (string \<times> presence_member) list"

definition mem_upsert :: "gotime \<Rightarrow> presence_member \<Rightarrow> duration \<Rightarrow> mem_presence \<Rightarrow> string option \<times> mem_presence" where
  "mem_upsert now member ttl members =
     (let member = member\<lparr>pm_last_seen := now + ttl\<rparr>
      in (None, members(pm_room member := kv_put (pm_session member) member (members (pm_room member)))))"

definition mem_touch ::
  "string \<Rightarrow> string \<Rightarrow> cursor option \<Rightarrow> selection option \<Rightarrow> gotime \<Rightarrow> duration \<Rightarrow> mem_presence \<Rightarrow>
   (presence_error + presence_member) \<times> mem_presence" where
  "mem_touch roomID sessionID c sel seenAt ttl members =
     (case map_of (members roomID) sessionID of
        None \<Rightarrow> (Inl ErrSessionNotFound, members)
      | Some member \<Rightarrow>
          let member = member\<lparr>pm_cursor := c\<rparr>;
              member = (if sel \<noteq> None then member\<lparr>pm_selection := sel\<rparr> else member);
              member = member\<lparr>pm_last_seen := seenAt + ttl\<rparr>
          in (Inr member, members(roomID := kv_put sessionID member (members roomID))))"

definition mem_remove :: "string \<Rightarrow> string \<Rightarrow> mem_presence \<Rightarrow> string option \<times> mem_presence" where
  "mem_remove roomID sessionID members =
     (None, members(roomID := filter (\<lambda>(k, _). k \<noteq> sessionID) (members roomID)))"

definition mem_list :: "gotime \<Rightarrow> string \<Rightarrow> mem_presence \<Rightarrow> (string + presence_member list) \<times> mem_presence" where
  "mem_list now roomID members =
     (let kept = filter (\<lambda>(_, m). \<not> expired now (pm_last_seen m)) (members roomID)
      in (Inr (map snd kept), members(roomID := kept)))"

definition memory_presence_ops :: "mem_presence presence_ops" where
  "memory_presence_ops = \<lparr>pr_upsert = mem_upsert, pr_touch = mem_touch, pr_remove = mem_remove,
     pr_list = mem_list\<rparr>"

lemma memory_presence_ops_simps [simp]:
  "pr_upsert memory_presence_ops = mem_upsert" "pr_touch memory_presence_ops = mem_touch"
  "pr_remove memory_presence_ops = mem_remove" "pr_list memory_presence_ops = mem_list"
  by (simp_all add: memory_presence_ops_def)

definition mem_presence_inv :: "mem_presence \<Rightarrow> bool" where
  "mem_presence_inv members \<longleftrightarrow>
     (\<forall>k. distinct (map fst (members k))
        \<and> (\<forall>(i, m) \<in> set (members k). pm_session m = i \<and> pm_room m = k))"

definition mem_live :: "mem_presence \<Rightarrow> gotime \<Rightarrow> string \<Rightarrow> string set" where
  "mem_live members now k =
     {i. \<exists>m. map_of (members k) i = Some m \<and> \<not> expired now (pm_last_seen m)}"

lemma mem_presence_invD:
  assumes "mem_presence_inv members"
  shows "distinct (map fst (members k))"
    and "map_of (members k) i = Some m \<Longrightarrow> pm_session m = i \<and> pm_room m = k"
  using assms by (auto simp: mem_presence_inv_def dest!: map_of_SomeD)

lemma mem_presence_inv_member:
  "mem_presence_inv members \<Longrightarrow> kv \<in> set (members k) \<Longrightarrow> pm_session (snd kv) = fst kv"
  unfolding mem_presence_inv_def by (metis (mono_tags, lifting) case_prod_unfold)

lemma set_kv_put: "set (kv_put k v kvs) \<subseteq> insert (k, v) (set kvs)"
  by (induction k v kvs rule: kv_put.induct) auto

text \<open>Writing a member of its own room keeps the invariant.\<close>

lemma mem_presence_inv_put:
  assumes "mem_presence_inv members" and "pm_session m = i" and "pm_room m = k"
  shows "mem_presence_inv (members(k := kv_put i m (members k)))"
  using assms set_kv_put [of i m "members k"]
  by (auto simp: mem_presence_inv_def distinct_kv_put dest!: subsetD)

lemma mem_live_put:
  "mem_live (members(k := kv_put i m (members k))) t k' =
     (if k' \<noteq> k then mem_live members t k'
      else if expired t (pm_last_seen m) then mem_live members t k' - {i}
      else insert i (mem_live members t k'))"
  by (auto simp: mem_live_def map_of_kv_put split: if_splits)

lemma mem_presence_inv_filter:
  assumes "mem_presence_inv members"
  shows "mem_presence_inv (members(k := filter P (members k)))"
  using assms by (auto simp: mem_presence_inv_def distinct_map_filter)

lemma map_of_filter_key:
  "map_of (filter (\<lambda>(k, _). k \<noteq> i) kvs) j = (if j = i then None else map_of kvs j)"
  by (induction kvs) auto

lemma map_of_filter_value:
  "distinct (map fst kvs) \<Longrightarrow>
     map_of (filter (\<lambda>(_, m). P m) kvs) i =
       (case map_of kvs i of None \<Rightarrow> None | Some m \<Rightarrow> if P m then Some m else None)"
proof (induction kvs)
  case (Cons kv kvs)
  have "map_of (filter (\<lambda>(_, m). P m) kvs) (fst kv) = None" if "fst kv \<notin> fst ` set kvs"
    using that by (auto simp: map_of_eq_None_iff)
  then show ?case using Cons by (cases kv) auto
qed simp

lemma mem_list_facts:
  assumes "mem_presence_inv members" and "mem_list now k members = (r, members')"
  shows "\<exists>ms. r = Inr ms \<and> set (map pm_session ms) = mem_live members now k
     \<and> mem_presence_inv members' \<and> (\<forall>t k'. now \<le> t \<longrightarrow> mem_live members' t k' = mem_live members t k')"
proof -
  let ?kept = "filter (\<lambda>(_, m). \<not> expired now (pm_last_seen m)) (members k)"
  have r: "r = Inr (map snd ?kept)" and m': "members' = members(k := ?kept)"
    using assms(2) by (auto simp: mem_list_def Let_def)
  have d: "distinct (map fst (members k))" using mem_presence_invD(1) [OF assms(1)] .
  note look = map_of_filter_value [OF d, of "\<lambda>m. \<not> expired now (pm_last_seen m)"]
  have "pm_session (snd kv) = fst kv" if "kv \<in> set ?kept" for kv
    using that mem_presence_inv_member [OF assms(1), of kv k] by simp
  then have "pm_session ` snd ` set ?kept = fst ` set ?kept"
    by (simp only: image_image cong: image_cong)
  also have "\<dots> = {i. \<exists>m. (i, m) \<in> set ?kept}" by force
  also have "\<dots> = mem_live members now k"
    using map_of_eq_Some_iff [OF d] by (simp add: mem_live_def)
  finally have "pm_session ` snd ` set ?kept = mem_live members now k" .
  moreover have "mem_live members' t k' = mem_live members t k'" if "now \<le> t" for t k'
  proof -
    have "expired now x \<Longrightarrow> expired t x" for x using that by (auto simp: expired_def)
    then show ?thesis unfolding m' by (auto simp: mem_live_def look split: option.splits if_splits)
  qed
  ultimately show ?thesis
    using r mem_presence_inv_filter [OF assms(1)] m' by (auto simp: image_comp)
qed

text \<open>A map holds any names and times; an expiry at the zero time is none.\<close>

interpretation mem_presence: presence_store memory_presence_ops mem_presence_inv mem_live "\<lambda>_ _. True" "\<lambda>_. True"
  "\<lambda>now ttl t. t \<le> now + ttl \<or> now + ttl = zero_time"
proof (unfold_locales, simp_all, goal_cases)
  case (1 s now k members s')
  then show ?case using mem_list_facts by fastforce
next
  case (2 s now k r s')
  then show ?case using mem_list_facts by blast
next
  case (3 s m ttl now s' t k)
  then show ?case
    using mem_presence_inv_put [of s "m\<lparr>pm_last_seen := now + ttl\<rparr>" "pm_session m" "pm_room m"]
    by (auto simp: mem_upsert_def Let_def mem_live_put expired_def)
next
  case (4 s k i s' t k')
  then show ?case
    using mem_presence_inv_filter [of s k]
    by (auto simp: mem_remove_def mem_live_def map_of_filter_key split: if_splits)
next
  case (5 s k i ttl c sel seenAt m s' t k')
  then obtain m0 where m0: "map_of (s k) i = Some m0"
    and m: "pm_session m = pm_session m0" "pm_room m = pm_room m0" "pm_last_seen m = seenAt + ttl"
    and s': "s' = s(k := kv_put i m (s k))"
    by (auto simp: mem_touch_def Let_def split: option.splits if_splits)
  then show ?case
    using mem_presence_inv_put [of s m i k] mem_presence_invD(2) [OF 5(1) m0]
    by (auto simp: mem_live_put expired_def 5)
next
  case (6 s k i ttl c sel seenAt err s' t k')
  then show ?case by (auto simp: mem_touch_def Let_def split: option.splits if_splits)
qed

end
