(* ===== verification/CollabSession.thy ===== *)
theory CollabSession
  imports CollabStores
begin

text \<open>
  The use cases of the collaboration service: \<^verbatim>\<open>internal/usecase/session_lifecycle.go\<close> (joining,
  presence, refreshing a room) and \<^verbatim>\<open>internal/usecase/submit_patch.go\<close>. The page service is
  reached through the client of \<^verbatim>\<open>internal/ports/store.go\<close>: two operations on a state.
\<close>

section \<open>The page client\<close>

record request_context =
  rx_request :: string
  rx_correlation :: string

record head_input =
  hi_page :: string
  hi_request :: string
  hi_correlation :: string
  hi_actor :: string
  hi_workspace :: string

record page_head =
  ph_page :: string
  ph_workspace :: string
  ph_revision :: string
  ph_no :: int
  ph_document :: cdocument

record commit_revision_input =
  ki_page :: string
  ki_base :: int
  ki_patch :: string
  ki_ops :: "patch_op list"
  ki_document :: cdocument
  ki_request :: string
  ki_correlation :: string
  ki_actor :: string
  ki_workspace :: string

record commit_revision_result =
  kr_revision :: string
  kr_no :: int
  kr_hash :: string

text \<open>A gRPC error, with the one status code that matters apart.\<close>

datatype rpc_error = RpcAborted string | RpcFailed string

record 'q page_client =
  pc_head :: "head_input \<Rightarrow> 'q \<Rightarrow> (rpc_error + page_head) \<times> 'q"
  pc_commit :: "commit_revision_input \<Rightarrow> 'q \<Rightarrow> (rpc_error + commit_revision_result) \<times> 'q"

datatype collab_error =
    CollabSessionNotFound
  | CollabStore string
  | CollabPage rpc_error

section \<open>Collaborators and state\<close>

record ('r, 'p, 'q) collab_deps =
  ck_rooms :: "'r room_ops"
  ck_presence :: "'p presence_ops"
  ck_page :: "'q page_client"
  ck_gen :: "nat \<Rightarrow> string"

record ('r, 'p, 'q) collab =
  cl_rooms :: 'r
  cl_presence :: 'p
  cl_page :: 'q
  cl_next :: nat

section \<open>Payloads\<close>

record session_joined =
  sj_session :: string
  sj_page :: string
  sj_workspace :: string
  sj_no :: int
  sj_revision :: string
  sj_document :: cdocument
  sj_heartbeat_seconds :: int
  sj_ttl_seconds :: int

record rebase_payload =
  rb_session :: string
  rb_reason :: string
  rb_no :: int
  rb_revision :: string
  rb_document :: cdocument
  rb_patch :: string

record presence_state =
  ps_session :: string
  ps_members :: "presence_member list"

record pong_payload =
  po_session :: string
  po_received :: gotime

record patch_accepted =
  pt_session :: string
  pt_page :: string
  pt_no :: int
  pt_revision :: string
  pt_patch :: string
  pt_ops :: "patch_op list"

record patch_rejected =
  pj_session :: string
  pj_patch :: string
  pj_reason :: string
  pj_details :: "validation_error option"

section \<open>Rooms and the page\<close>

definition room_of_head :: "string \<Rightarrow> string \<Rightarrow> page_head \<Rightarrow> room_state" where
  "room_of_head pageID workspaceID head =
     \<lparr>rm_id = room_key workspaceID pageID, rm_page = pageID, rm_workspace = workspaceID,
      rm_revision = ph_revision head, rm_no = ph_no head, rm_last_patch = '''',
      rm_document = ph_document head, rm_expires = zero_time\<rparr>"

definition head_request :: "request_context \<Rightarrow> string \<Rightarrow> string \<Rightarrow> string \<Rightarrow> head_input" where
  "head_request cx pageID workspaceID actor =
     \<lparr>hi_page = pageID, hi_request = rx_request cx, hi_correlation = rx_correlation cx,
      hi_actor = actor, hi_workspace = workspaceID\<rparr>"

definition refresh_snapshot ::
  "('r, 'p, 'q) collab_deps \<Rightarrow> request_context \<Rightarrow> string \<Rightarrow> string \<Rightarrow> ('r, 'p, 'q) collab \<Rightarrow>
   (collab_error + room_state) \<times> ('r, 'p, 'q) collab" where
  "refresh_snapshot ck cx pageID workspaceID sv =
     (case pc_head (ck_page ck) (head_request cx pageID workspaceID '''') (cl_page sv) of
        (Inl err, q) \<Rightarrow> (Inl (CollabPage err), sv\<lparr>cl_page := q\<rparr>)
      | (Inr head, q) \<Rightarrow> (Inr (room_of_head pageID workspaceID head), sv\<lparr>cl_page := q\<rparr>))"

text \<open>Saving a room and going on with a value.\<close>

definition save_room_then ::
  "('r, 'p, 'q) collab_deps \<Rightarrow> gotime \<Rightarrow> room_state \<Rightarrow> duration \<Rightarrow> 'a \<Rightarrow> ('r, 'p, 'q) collab \<Rightarrow>
   (collab_error + 'a) \<times> ('r, 'p, 'q) collab" where
  "save_room_then ck now st ttl x sv =
     (case rm_save (ck_rooms ck) now st ttl (cl_rooms sv) of
        (Some err, r) \<Rightarrow> (Inl (CollabStore err), sv\<lparr>cl_rooms := r\<rparr>)
      | (None, r) \<Rightarrow> (Inr x, sv\<lparr>cl_rooms := r\<rparr>))"

section \<open>Joining\<close>

record join_input =
  ji_page :: string
  ji_workspace :: string
  ji_actor :: string
  ji_name :: string
  ji_last_no :: int
  ji_last_patch :: string
  ji_ttl :: duration
  ji_heartbeat :: duration

record join_result =
  jr_joined :: "session_joined option"
  jr_presence :: presence_state
  jr_rebase :: "rebase_payload option"

text \<open>\<open>int(d.Seconds())\<close>, exact for the durations that fit a double's fraction.\<close>

definition whole_seconds :: "duration \<Rightarrow> int" where
  "whole_seconds d = (if 0 \<le> d then d div second else - ((- d) div second))"

definition join_room ::
  "('r, 'p, 'q) collab_deps \<Rightarrow> request_context \<Rightarrow> gotime \<Rightarrow> join_input \<Rightarrow> ('r, 'p, 'q) collab \<Rightarrow>
   (collab_error + room_state) \<times> ('r, 'p, 'q) collab" where
  "join_room ck cx now input sv =
     (case rm_get (ck_rooms ck) now (room_key (ji_workspace input) (ji_page input)) (cl_rooms sv) of
        Inl err \<Rightarrow> (Inl (CollabStore err), sv)
      | Inr (Some st) \<Rightarrow> (Inr st, sv)
      | Inr None \<Rightarrow>
          (case refresh_snapshot ck cx (ji_page input) (ji_workspace input) sv of
             (Inl err, sv) \<Rightarrow> (Inl err, sv)
           | (Inr st, sv) \<Rightarrow> save_room_then ck now st (ji_ttl input) st sv))"

definition join_member :: "join_input \<Rightarrow> string \<Rightarrow> gotime \<Rightarrow> presence_member" where
  "join_member input sessionID now =
     \<lparr>pm_room = room_key (ji_workspace input) (ji_page input), pm_session = sessionID,
      pm_user = ji_actor input, pm_name = ji_name input, pm_cursor = None, pm_selection = None,
      pm_last_seen = now, pm_last_patch = '''', pm_workspace = ji_workspace input,
      pm_page = ji_page input\<rparr>"

definition join_session ::
  "('r, 'p, 'q) collab_deps \<Rightarrow> request_context \<Rightarrow> gotime \<Rightarrow> join_input \<Rightarrow> ('r, 'p, 'q) collab \<Rightarrow>
   (collab_error + join_result) \<times> ('r, 'p, 'q) collab" where
  "join_session ck cx now input sv =
     (case join_room ck cx now input sv of
        (Inl err, sv) \<Rightarrow> (Inl err, sv)
      | (Inr st, sv) \<Rightarrow>
          if 0 < ji_last_no input \<and> ji_last_no input < rm_no st then
            (Inr \<lparr>jr_joined = None, jr_presence = \<lparr>ps_session = '''', ps_members = []\<rparr>,
                  jr_rebase = Some \<lparr>rb_session = '''', rb_reason = ''stale_patch'', rb_no = rm_no st,
                    rb_revision = rm_revision st, rb_document = rm_document st,
                    rb_patch = ji_last_patch input\<rparr>\<rparr>, sv)
          else
            let sessionID = ck_gen ck (cl_next sv);
                sv = sv\<lparr>cl_next := Suc (cl_next sv)\<rparr>
            in (case pr_upsert (ck_presence ck) now (join_member input sessionID now) (ji_ttl input)
                       (cl_presence sv) of
                  (Some err, p) \<Rightarrow> (Inl (CollabStore err), sv\<lparr>cl_presence := p\<rparr>)
                | (None, p) \<Rightarrow>
                    (case pr_list (ck_presence ck) now (room_key (ji_workspace input) (ji_page input)) p of
                       (Inl err, p) \<Rightarrow> (Inl (CollabStore err), sv\<lparr>cl_presence := p\<rparr>)
                     | (Inr members, p) \<Rightarrow>
                         (Inr \<lparr>jr_joined = Some \<lparr>sj_session = sessionID, sj_page = ji_page input,
                                 sj_workspace = ji_workspace input, sj_no = rm_no st,
                                 sj_revision = rm_revision st, sj_document = rm_document st,
                                 sj_heartbeat_seconds = whole_seconds (ji_heartbeat input),
                                 sj_ttl_seconds = whole_seconds (ji_ttl input)\<rparr>,
                               jr_presence = \<lparr>ps_session = sessionID, ps_members = members\<rparr>,
                               jr_rebase = None\<rparr>, sv\<lparr>cl_presence := p\<rparr>))))"

section \<open>Presence\<close>

definition update_presence ::
  "('r, 'p, 'q) collab_deps \<Rightarrow> gotime \<Rightarrow> string \<Rightarrow> string \<Rightarrow> cursor option \<Rightarrow> selection option \<Rightarrow>
   duration \<Rightarrow> ('r, 'p, 'q) collab \<Rightarrow> (collab_error + presence_member) \<times> ('r, 'p, 'q) collab" where
  "update_presence ck now roomID sessionID c sel ttl sv =
     (case pr_touch (ck_presence ck) roomID sessionID c sel now ttl (cl_presence sv) of
        (Inl ErrSessionNotFound, p) \<Rightarrow> (Inl CollabSessionNotFound, sv\<lparr>cl_presence := p\<rparr>)
      | (Inl (ErrPresence err), p) \<Rightarrow> (Inl (CollabStore err), sv\<lparr>cl_presence := p\<rparr>)
      | (Inr m, p) \<Rightarrow> (Inr m, sv\<lparr>cl_presence := p\<rparr>))"

definition heartbeat ::
  "('r, 'p, 'q) collab_deps \<Rightarrow> gotime \<Rightarrow> string \<Rightarrow> string \<Rightarrow> cursor option \<Rightarrow> duration \<Rightarrow>
   ('r, 'p, 'q) collab \<Rightarrow> (collab_error + pong_payload \<times> presence_member) \<times> ('r, 'p, 'q) collab" where
  "heartbeat ck now roomID sessionID c ttl sv =
     (case update_presence ck now roomID sessionID c None ttl sv of
        (Inl err, sv) \<Rightarrow> (Inl err, sv)
      | (Inr m, sv) \<Rightarrow> (Inr (\<lparr>po_session = sessionID, po_received = now\<rparr>, m), sv))"

definition leave_session ::
  "('r, 'p, 'q) collab_deps \<Rightarrow> string \<Rightarrow> string \<Rightarrow> ('r, 'p, 'q) collab \<Rightarrow>
   collab_error option \<times> ('r, 'p, 'q) collab" where
  "leave_session ck roomID sessionID sv =
     (case pr_remove (ck_presence ck) roomID sessionID (cl_presence sv) of
        (err, p) \<Rightarrow> (map_option CollabStore err, sv\<lparr>cl_presence := p\<rparr>))"

definition list_presence ::
  "('r, 'p, 'q) collab_deps \<Rightarrow> gotime \<Rightarrow> string \<Rightarrow> ('r, 'p, 'q) collab \<Rightarrow>
   (collab_error + presence_member list) \<times> ('r, 'p, 'q) collab" where
  "list_presence ck now roomID sv =
     (case pr_list (ck_presence ck) now roomID (cl_presence sv) of
        (Inl err, p) \<Rightarrow> (Inl (CollabStore err), sv\<lparr>cl_presence := p\<rparr>)
      | (Inr members, p) \<Rightarrow> (Inr members, sv\<lparr>cl_presence := p\<rparr>))"

section \<open>Refreshing a room that is there\<close>

text \<open>
  In two halves, between which other requests may run: reading the head of the page, and
  saving it under the room. The first answers what there is to save, with its time to live.
\<close>

definition refresh_read ::
  "('r, 'p, 'q) collab_deps \<Rightarrow> request_context \<Rightarrow> gotime \<Rightarrow> string \<Rightarrow> string \<Rightarrow> duration \<Rightarrow>
   ('r, 'p, 'q) collab \<Rightarrow> (collab_error + (room_state \<times> duration) option) \<times> ('r, 'p, 'q) collab" where
  "refresh_read ck cx now pageID workspaceID ttl sv =
     (case rm_get (ck_rooms ck) now (room_key workspaceID pageID) (cl_rooms sv) of
        Inl err \<Rightarrow> (Inl (CollabStore err), sv)
      | Inr None \<Rightarrow> (Inr None, sv)
      | Inr (Some old) \<Rightarrow>
          (case refresh_snapshot ck cx pageID workspaceID sv of
             (Inl err, sv) \<Rightarrow> (Inl err, sv)
           | (Inr st, sv) \<Rightarrow>
               let ttl = (if ttl \<le> 0 then rm_expires old - now else ttl);
                   ttl = (if ttl \<le> 0 then 45 * second else ttl)
               in (Inr (Some (st, ttl)), sv)))"

definition refresh_save ::
  "('r, 'p, 'q) collab_deps \<Rightarrow> gotime \<Rightarrow> (room_state \<times> duration) option \<Rightarrow> ('r, 'p, 'q) collab \<Rightarrow>
   collab_error option \<times> ('r, 'p, 'q) collab" where
  "refresh_save ck now refreshed sv =
     (case refreshed of
        None \<Rightarrow> (None, sv)
      | Some (st, ttl) \<Rightarrow>
          (case save_room_then ck now st ttl () sv of
             (Inl err, sv) \<Rightarrow> (Some err, sv)
           | (Inr _, sv) \<Rightarrow> (None, sv)))"

definition refresh_existing_room ::
  "('r, 'p, 'q) collab_deps \<Rightarrow> request_context \<Rightarrow> gotime \<Rightarrow> string \<Rightarrow> string \<Rightarrow> duration \<Rightarrow>
   ('r, 'p, 'q) collab \<Rightarrow> collab_error option \<times> ('r, 'p, 'q) collab" where
  "refresh_existing_room ck cx now pageID workspaceID ttl sv =
     (case refresh_read ck cx now pageID workspaceID ttl sv of
        (Inl err, sv) \<Rightarrow> (Some err, sv)
      | (Inr refreshed, sv) \<Rightarrow> refresh_save ck now refreshed sv)"

section \<open>Submitting a patch\<close>

record submit_input =
  sb_session :: string
  sb_page :: string
  sb_workspace :: string
  sb_actor :: string
  sb_base :: int
  sb_patch :: string
  sb_ops :: "patch_op list"
  sb_ttl :: duration

datatype submit_result =
    Accepted patch_accepted
  | Rebase rebase_payload
  | Rejected patch_rejected

definition submit_room ::
  "('r, 'p, 'q) collab_deps \<Rightarrow> request_context \<Rightarrow> gotime \<Rightarrow> submit_input \<Rightarrow> ('r, 'p, 'q) collab \<Rightarrow>
   (collab_error + room_state) \<times> ('r, 'p, 'q) collab" where
  "submit_room ck cx now input sv =
     (case rm_get (ck_rooms ck) now (room_key (sb_workspace input) (sb_page input)) (cl_rooms sv) of
        Inl err \<Rightarrow> (Inl (CollabStore err), sv)
      | Inr (Some st) \<Rightarrow> (Inr st, sv)
      | Inr None \<Rightarrow>
          (case pc_head (ck_page ck)
                  (head_request cx (sb_page input) (sb_workspace input) (sb_actor input)) (cl_page sv) of
             (Inl err, q) \<Rightarrow> (Inl (CollabPage err), sv\<lparr>cl_page := q\<rparr>)
           | (Inr head, q) \<Rightarrow>
               let st = room_of_head (sb_page input) (sb_workspace input) head
               in save_room_then ck now st (sb_ttl input) st (sv\<lparr>cl_page := q\<rparr>)))"

definition stale_patch :: "submit_input \<Rightarrow> int \<Rightarrow> string \<Rightarrow> cdocument \<Rightarrow> rebase_payload" where
  "stale_patch input no revision d =
     \<lparr>rb_session = sb_session input, rb_reason = ''stale_patch'', rb_no = no, rb_revision = revision,
      rb_document = d, rb_patch = sb_patch input\<rparr>"

definition commit_input_of :: "request_context \<Rightarrow> submit_input \<Rightarrow> cdocument \<Rightarrow> commit_revision_input" where
  "commit_input_of cx input d =
     \<lparr>ki_page = sb_page input, ki_base = sb_base input, ki_patch = sb_patch input, ki_ops = sb_ops input,
      ki_document = d, ki_request = rx_request cx, ki_correlation = rx_correlation cx,
      ki_actor = sb_actor input, ki_workspace = sb_workspace input\<rparr>"

text \<open>After a commit that was aborted: the head of the page becomes the room.\<close>

definition submit_aborted ::
  "('r, 'p, 'q) collab_deps \<Rightarrow> request_context \<Rightarrow> gotime \<Rightarrow> submit_input \<Rightarrow> ('r, 'p, 'q) collab \<Rightarrow>
   (collab_error + submit_result) \<times> ('r, 'p, 'q) collab" where
  "submit_aborted ck cx now input sv =
     (case pc_head (ck_page ck)
             (head_request cx (sb_page input) (sb_workspace input) (sb_actor input)) (cl_page sv) of
        (Inl err, q) \<Rightarrow> (Inl (CollabPage err), sv\<lparr>cl_page := q\<rparr>)
      | (Inr head, q) \<Rightarrow>
          save_room_then ck now (room_of_head (sb_page input) (sb_workspace input) head) (sb_ttl input)
            (Rebase (stale_patch input (ph_no head) (ph_revision head) (ph_document head)))
            (sv\<lparr>cl_page := q\<rparr>))"

definition patched_room :: "room_state \<Rightarrow> submit_input \<Rightarrow> cdocument \<Rightarrow> commit_revision_result \<Rightarrow> room_state" where
  "patched_room st input d result =
     st\<lparr>rm_document := d, rm_revision := kr_revision result, rm_no := kr_no result,
        rm_last_patch := trim_space (sb_patch input)\<rparr>"

definition submit_patch ::
  "('r, 'p, 'q) collab_deps \<Rightarrow> request_context \<Rightarrow> gotime \<Rightarrow> submit_input \<Rightarrow> ('r, 'p, 'q) collab \<Rightarrow>
   (collab_error + submit_result) \<times> ('r, 'p, 'q) collab" where
  "submit_patch ck cx now input sv =
     (case submit_room ck cx now input sv of
        (Inl err, sv) \<Rightarrow> (Inl err, sv)
      | (Inr st, sv) \<Rightarrow>
      (case pr_list (ck_presence ck) now (room_key (sb_workspace input) (sb_page input)) (cl_presence sv) of
         (Inl err, p) \<Rightarrow> (Inl (CollabStore err), sv\<lparr>cl_presence := p\<rparr>)
       | (Inr members, p) \<Rightarrow>
           let sv = sv\<lparr>cl_presence := p\<rparr>
           in if \<not> list_ex (\<lambda>m. pm_session m = sb_session input) members then
                (Inr (Rejected \<lparr>pj_session = sb_session input, pj_patch = sb_patch input,
                   pj_reason = ''session_not_found'', pj_details = None\<rparr>), sv)
              else if rm_no st \<noteq> sb_base input then
                (Inr (Rebase (stale_patch input (rm_no st) (rm_revision st) (rm_document st))), sv)
              else
                (case apply_patch (rm_document st) (sb_ops input) of
                   Inl err \<Rightarrow>
                     (Inr (Rejected \<lparr>pj_session = sb_session input, pj_patch = sb_patch input,
                        pj_reason = ''validation_failed'', pj_details = Some err\<rparr>), sv)
                 | Inr nextDocument \<Rightarrow>
                     (case pc_commit (ck_page ck) (commit_input_of cx input nextDocument) (cl_page sv) of
                        (Inl (RpcAborted msg), q) \<Rightarrow> submit_aborted ck cx now input (sv\<lparr>cl_page := q\<rparr>)
                      | (Inl (RpcFailed msg), q) \<Rightarrow> (Inl (CollabPage (RpcFailed msg)), sv\<lparr>cl_page := q\<rparr>)
                      | (Inr result, q) \<Rightarrow>
                          save_room_then ck now (patched_room st input nextDocument result) (sb_ttl input)
                            (Accepted \<lparr>pt_session = sb_session input, pt_page = sb_page input,
                               pt_no = kr_no result, pt_revision = kr_revision result,
                               pt_patch = sb_patch input, pt_ops = sb_ops input\<rparr>)
                            (sv\<lparr>cl_page := q\<rparr>)))))"

end
