(* ===== verification/CollabFacts.thy ===== *)
theory CollabFacts
  imports CollabSession
begin

text \<open>
  What a submitted patch does to the rooms, the presence and the page, proved for any store
  that keeps the contracts, and used on the in-memory stores.
\<close>

section \<open>Steps\<close>

lemma save_room_then_cases:
  assumes "save_room_then ck now st ttl x sv = (res, sv')"
  obtains (failed) err r where "rm_save (ck_rooms ck) now st ttl (cl_rooms sv) = (Some err, r)"
      and "res = Inl (CollabStore err)" and "sv' = sv\<lparr>cl_rooms := r\<rparr>"
  | (saved) r where "rm_save (ck_rooms ck) now st ttl (cl_rooms sv) = (None, r)"
      and "res = Inr x" and "sv' = sv\<lparr>cl_rooms := r\<rparr>"
  using assms by (auto simp: save_room_then_def split: prod.splits option.splits)

lemma refresh_snapshot_state:
  "refresh_snapshot ck cx p w sv = (res, sv') \<Longrightarrow>
     cl_rooms sv' = cl_rooms sv \<and> cl_presence sv' = cl_presence sv \<and> cl_next sv' = cl_next sv"
  by (auto simp: refresh_snapshot_def split: prod.splits sum.splits)

text \<open>The room a patch is applied to: the stored one, or the page's head when there is none.\<close>

definition base_room ::
  "('r, 'p, 'q) collab_deps \<Rightarrow> request_context \<Rightarrow> submit_input \<Rightarrow> room_state option \<Rightarrow> 'q \<Rightarrow> room_state \<Rightarrow> 'q \<Rightarrow> bool" where
  "base_room ck cx input stored q st q' \<longleftrightarrow>
     (case stored of
        Some st' \<Rightarrow> st = st' \<and> q' = q
      | None \<Rightarrow> (\<exists>head. pc_head (ck_page ck)
                   (head_request cx (sb_page input) (sb_workspace input) (sb_actor input)) q = (Inr head, q')
                 \<and> st = room_of_head (sb_page input) (sb_workspace input) head))"

locale collab_stores =
  rooms: room_store rops keyed room + presence: presence_store pops inv live fits lasts until
  for rops :: "'r room_ops" and keyed :: "'r \<Rightarrow> bool" and room :: "'r \<Rightarrow> gotime \<Rightarrow> string \<Rightarrow> room_state option"
    and pops :: "'p presence_ops" and inv :: "'p \<Rightarrow> bool" and live :: "'p \<Rightarrow> gotime \<Rightarrow> string \<Rightarrow> string set"
    and fits :: "string \<Rightarrow> string \<Rightarrow> bool" and lasts :: "duration \<Rightarrow> bool"
    and until :: "gotime \<Rightarrow> duration \<Rightarrow> gotime \<Rightarrow> bool"
begin

lemma submit_room_facts:
  fixes sv :: "('r, 'p, 'q) collab"
  assumes "ck_rooms ck = rops" and "keyed (cl_rooms sv)"
    and "submit_room ck cx now input sv = (Inr st, sv')"
  shows "base_room ck cx input (room (cl_rooms sv) now (room_key (sb_workspace input) (sb_page input)))
           (cl_page sv) st (cl_page sv')
     \<and> keyed (cl_rooms sv') \<and> rm_id st = room_key (sb_workspace input) (sb_page input)
     \<and> (\<forall>t k. k \<noteq> room_key (sb_workspace input) (sb_page input) \<longrightarrow>
           room (cl_rooms sv') t k = room (cl_rooms sv) t k)
     \<and> cl_presence sv' = cl_presence sv \<and> cl_next sv' = cl_next sv"
proof -
  let ?k = "room_key (sb_workspace input) (sb_page input)"
  obtain found where found: "rm_get rops now ?k (cl_rooms sv) = Inr found"
    using assms(1,3) by (auto simp: submit_room_def split: sum.splits)
  note is_room = rooms.get_room [OF found]
  show ?thesis
  proof (cases found)
    case (Some st')
    then have "sv' = sv" and "st = st'" using assms(1,3) found by (auto simp: submit_room_def)
    moreover have r: "room (cl_rooms sv) now ?k = Some st'" using is_room Some by simp
    ultimately show ?thesis
      using assms(2) rooms.room_id [OF assms(2) r] by (simp add: base_room_def)
  next
    case None
    then obtain head q where head: "pc_head (ck_page ck)
        (head_request cx (sb_page input) (sb_workspace input) (sb_actor input)) (cl_page sv) = (Inr head, q)"
      and save: "save_room_then ck now (room_of_head (sb_page input) (sb_workspace input) head) (sb_ttl input)
        (room_of_head (sb_page input) (sb_workspace input) head) (sv\<lparr>cl_page := q\<rparr>) = (Inr st, sv')"
      using assms(1,3) found by (auto simp: submit_room_def Let_def split: sum.splits prod.splits)
    from save show ?thesis
    proof (cases rule: save_room_then_cases)
      case (saved r)
      then show ?thesis
        using rooms.save_room [of "cl_rooms sv" now "room_of_head (sb_page input) (sb_workspace input) head"
            "sb_ttl input" r] assms(1,2) is_room None head
        by (auto simp: base_room_def room_of_head_def)
    qed simp
  qed
qed

text \<open>The four answers to a submitted patch.\<close>

lemma submit_patch_cases:
  fixes sv :: "('r, 'p, 'q) collab"
  assumes "ck_rooms ck = rops" and "ck_presence ck = pops" and "keyed (cl_rooms sv)" and "inv (cl_presence sv)"
    and "submit_patch ck cx now input sv = (Inr result, sv')"
  defines "k \<equiv> room_key (sb_workspace input) (sb_page input)"
  obtains (unknown) st where "sb_session input \<notin> live (cl_presence sv) now k"
      and "result = Rejected \<lparr>pj_session = sb_session input, pj_patch = sb_patch input,
             pj_reason = ''session_not_found'', pj_details = None\<rparr>"
      and "base_room ck cx input (room (cl_rooms sv) now k) (cl_page sv) st (cl_page sv')"
  | (stale) st where "sb_session input \<in> live (cl_presence sv) now k" and "rm_no st \<noteq> sb_base input"
      and "result = Rebase (stale_patch input (rm_no st) (rm_revision st) (rm_document st))"
      and "base_room ck cx input (room (cl_rooms sv) now k) (cl_page sv) st (cl_page sv')"
  | (invalid) st err where "sb_session input \<in> live (cl_presence sv) now k" and "rm_no st = sb_base input"
      and "apply_patch (rm_document st) (sb_ops input) = Inl err"
      and "result = Rejected \<lparr>pj_session = sb_session input, pj_patch = sb_patch input,
             pj_reason = ''validation_failed'', pj_details = Some err\<rparr>"
      and "base_room ck cx input (room (cl_rooms sv) now k) (cl_page sv) st (cl_page sv')"
  | (aborted) st d msg q q' sv'' where "sb_session input \<in> live (cl_presence sv) now k"
      and "rm_no st = sb_base input" and "apply_patch (rm_document st) (sb_ops input) = Inr d"
      and "base_room ck cx input (room (cl_rooms sv) now k) (cl_page sv) st q"
      and "pc_commit (ck_page ck) (commit_input_of cx input d) q = (Inl (RpcAborted msg), q')"
      and "cl_page sv'' = q'" and "keyed (cl_rooms sv'')"
      and "submit_aborted ck cx now input sv'' = (Inr result, sv')"
  | (accepted) st d res q where "sb_session input \<in> live (cl_presence sv) now k"
      and "rm_no st = sb_base input" and "apply_patch (rm_document st) (sb_ops input) = Inr d"
      and "base_room ck cx input (room (cl_rooms sv) now k) (cl_page sv) st q"
      and "pc_commit (ck_page ck) (commit_input_of cx input d) q = (Inr res, cl_page sv')"
      and "result = Accepted \<lparr>pt_session = sb_session input, pt_page = sb_page input, pt_no = kr_no res,
             pt_revision = kr_revision res, pt_patch = sb_patch input, pt_ops = sb_ops input\<rparr>"
      and "room (cl_rooms sv') now k = (if 0 \<le> sb_ttl input \<or> now + sb_ttl input = zero_time
             then Some ((patched_room st input d res)\<lparr>rm_expires := now + sb_ttl input\<rparr>) else None)"
      and "\<And>t k'. k' \<noteq> k \<Longrightarrow> room (cl_rooms sv') t k' = room (cl_rooms sv) t k'"
      and "\<And>t k'. now \<le> t \<Longrightarrow> live (cl_presence sv') t k' = live (cl_presence sv) t k'"
proof -
  obtain st sv1 where room1: "submit_room ck cx now input sv = (Inr st, sv1)"
    using assms(5) by (auto simp: submit_patch_def split: sum.splits prod.splits)
  note f = submit_room_facts [OF assms(1,3) room1, folded k_def]
  obtain members p where list: "pr_list pops now k (cl_presence sv1) = (Inr members, p)"
    using assms(2,5) room1 by (auto simp: submit_patch_def k_def split: sum.splits prod.splits)
  have inv1: "inv (cl_presence sv1)" using f assms(4) by simp
  have member: "list_ex (\<lambda>m. pm_session m = sb_session input) members \<longleftrightarrow>
      sb_session input \<in> live (cl_presence sv) now k"
  proof -
    have "live (cl_presence sv) now k = pm_session ` set members"
      using presence.list_live [OF inv1 list] f by simp
    then show ?thesis by (force simp: list_ex_iff)
  qed
  have keeps: "\<And>t k'. now \<le> t \<Longrightarrow> live p t k' = live (cl_presence sv) t k'"
    using presence.list_keeps [OF inv1 list] f by auto
  let ?sv = "sv1\<lparr>cl_presence := p\<rparr>"
  note run = assms(5) [unfolded submit_patch_def room1 k_def [symmetric] assms(2) prod.case sum.case list Let_def]
  have base: "base_room ck cx input (room (cl_rooms sv) now k) (cl_page sv) st (cl_page sv1)"
    using f by simp
  show thesis
  proof (cases "sb_session input \<in> live (cl_presence sv) now k")
    case False
    then show thesis using run base unknown member by auto
  next
    case live: True
    show thesis
    proof (cases "rm_no st = sb_base input")
      case False
      then show thesis using run base stale [OF live] member live by auto
    next
      case no: True
      show thesis
      proof (cases "apply_patch (rm_document st) (sb_ops input)")
        case (Inl err)
        then show thesis using run base invalid [OF live no] member live no by auto
      next
        case d: (Inr d)
        obtain c q' where commit: "pc_commit (ck_page ck) (commit_input_of cx input d) (cl_page sv1) = (c, q')"
          by fastforce
        show thesis
        proof (cases c)
          case (Inl err)
          then obtain msg where "err = RpcAborted msg"
            and "submit_aborted ck cx now input (?sv\<lparr>cl_page := q'\<rparr>) = (Inr result, sv')"
            using run member live no d commit by (cases err) auto
          then show thesis
            using commit Inl f by (intro aborted [OF live no d base, of msg q' "?sv\<lparr>cl_page := q'\<rparr>"]) auto
        next
          case (Inr res)
          then have save: "save_room_then ck now (patched_room st input d res) (sb_ttl input)
              (Accepted \<lparr>pt_session = sb_session input, pt_page = sb_page input, pt_no = kr_no res,
                 pt_revision = kr_revision res, pt_patch = sb_patch input, pt_ops = sb_ops input\<rparr>)
              (?sv\<lparr>cl_page := q'\<rparr>) = (Inr result, sv')"
            using run member live no d commit by auto
          from save show thesis
          proof (cases rule: save_room_then_cases)
            case (saved r)
            have "keyed (cl_rooms sv1)" and "rm_id (patched_room st input d res) = k"
              using f by (simp_all add: patched_room_def)
            then show thesis
              using saved assms(1) f keeps commit Inr
                rooms.save_room [of "cl_rooms sv1" now "patched_room st input d res" "sb_ttl input" r]
              by (intro accepted [OF live no d base]) auto
          qed simp
        qed
      qed
    qed
  qed
qed

end

interpretation mem_collab: collab_stores memory_room_ops mem_rooms_keyed mem_room
  memory_presence_ops mem_presence_inv mem_live "\<lambda>_ _. True" "\<lambda>_. True"
  "\<lambda>now ttl t. t \<le> now + ttl \<or> now + ttl = zero_time"
  by unfold_locales

end
