(* ===== verification/CollabSocket.thy ===== *)
theory CollabSocket
  imports CollabFacts Http
begin

text \<open>
  The websocket interface of the collaboration service, \<^verbatim>\<open>api/websocket/handler.go\<close>: the
  connections of clients, who is in which room, the handler of each event and what it sends.
  A connection is a number; writing to it appends to what was sent, unless the connection is
  broken. The order in which Go ranges over the clients of a room is the order of a list.
  The wording of a decoding error is left open: it is one fixed text here.
\<close>

section \<open>Events\<close>

text \<open>The payload of an envelope that is sent, one constructor for each type of event.\<close>

datatype outgoing =
    OutError string string bool
  | OutJoined session_joined
  | OutPresence presence_state
  | OutChanged string string presence_member
  | OutPong pong_payload
  | OutRebase rebase_payload
  | OutRejected patch_rejected
  | OutAccepted patch_accepted

fun event_type :: "outgoing \<Rightarrow> string" where
  "event_type (OutError _ _ _) = ''error''"
| "event_type (OutJoined _) = ''session_joined''"
| "event_type (OutPresence _) = ''presence_state''"
| "event_type (OutChanged _ _ _) = ''presence_changed''"
| "event_type (OutPong _) = ''pong''"
| "event_type (OutRebase _) = ''rebase_required''"
| "event_type (OutRejected _) = ''patch_rejected''"
| "event_type (OutAccepted _) = ''patch_accepted''"

record envelope =
  ev_request :: string
  ev_sent :: gotime
  ev_payload :: outgoing

record incoming =
  im_type :: string
  im_request :: string
  im_payload :: "json option"

record join_payload =
  jp_page :: string
  jp_workspace :: string
  jp_last_no :: int
  jp_last_patch :: string

record heartbeat_payload =
  hp_session :: string
  hp_cursor :: "cursor option"

record presence_payload =
  pp_session :: string
  pp_cursor :: "cursor option"
  pp_selection :: "selection option"

record submit_payload =
  sp_session :: string
  sp_page :: string
  sp_base :: int
  sp_patch :: string
  sp_ops :: "patch_op list"

section \<open>Decoding payloads\<close>

definition decode_payload :: "(string \<Rightarrow> json \<Rightarrow> 'a \<Rightarrow> 'a option) \<Rightarrow> 'a \<Rightarrow> json option \<Rightarrow> 'a option" where
  "decode_payload set_field zero payload = Option.bind payload (decode_struct set_field zero)"

definition set_join_field :: "string \<Rightarrow> json \<Rightarrow> join_payload \<Rightarrow> join_payload option" where
  "set_join_field k v x =
     (if is_field ''page_id'' k then map_option (\<lambda>s. x\<lparr>jp_page := s\<rparr>) (decode_string (jp_page x) v)
      else if is_field ''workspace_id'' k then
        map_option (\<lambda>s. x\<lparr>jp_workspace := s\<rparr>) (decode_string (jp_workspace x) v)
      else if is_field ''last_known_revision_no'' k then
        map_option (\<lambda>n. x\<lparr>jp_last_no := n\<rparr>) (decode_int (jp_last_no x) v)
      else if is_field ''last_known_patch_id'' k then
        map_option (\<lambda>s. x\<lparr>jp_last_patch := s\<rparr>) (decode_string (jp_last_patch x) v)
      else Some x)"

definition set_cursor_field :: "string \<Rightarrow> json \<Rightarrow> cursor \<Rightarrow> cursor option" where
  "set_cursor_field k v x =
     (if is_field ''block_id'' k then map_option (\<lambda>s. x\<lparr>cu_block := s\<rparr>) (decode_string (cu_block x) v)
      else if is_field ''offset'' k then map_option (\<lambda>n. x\<lparr>cu_offset := n\<rparr>) (decode_int (cu_offset x) v)
      else Some x)"

definition set_selection_field :: "string \<Rightarrow> json \<Rightarrow> selection \<Rightarrow> selection option" where
  "set_selection_field k v x =
     (if is_field ''from_block_id'' k then map_option (\<lambda>s. x\<lparr>sl_from := s\<rparr>) (decode_string (sl_from x) v)
      else if is_field ''to_block_id'' k then map_option (\<lambda>s. x\<lparr>sl_to := s\<rparr>) (decode_string (sl_to x) v)
      else Some x)"

definition decode_cursor :: "cursor option \<Rightarrow> json \<Rightarrow> cursor option option" where
  "decode_cursor = decode_pointer set_cursor_field \<lparr>cu_block = '''', cu_offset = 0\<rparr>"

definition set_heartbeat_field :: "string \<Rightarrow> json \<Rightarrow> heartbeat_payload \<Rightarrow> heartbeat_payload option" where
  "set_heartbeat_field k v x =
     (if is_field ''session_id'' k then map_option (\<lambda>s. x\<lparr>hp_session := s\<rparr>) (decode_string (hp_session x) v)
      else if is_field ''cursor'' k then map_option (\<lambda>c. x\<lparr>hp_cursor := c\<rparr>) (decode_cursor (hp_cursor x) v)
      else Some x)"

definition set_presence_field :: "string \<Rightarrow> json \<Rightarrow> presence_payload \<Rightarrow> presence_payload option" where
  "set_presence_field k v x =
     (if is_field ''session_id'' k then map_option (\<lambda>s. x\<lparr>pp_session := s\<rparr>) (decode_string (pp_session x) v)
      else if is_field ''cursor'' k then map_option (\<lambda>c. x\<lparr>pp_cursor := c\<rparr>) (decode_cursor (pp_cursor x) v)
      else if is_field ''selection'' k then
        map_option (\<lambda>s. x\<lparr>pp_selection := s\<rparr>)
          (decode_pointer set_selection_field \<lparr>sl_from = '''', sl_to = ''''\<rparr> (pp_selection x) v)
      else Some x)"

definition set_leave_field :: "string \<Rightarrow> json \<Rightarrow> string \<Rightarrow> string option" where
  "set_leave_field k v x = (if is_field ''session_id'' k then decode_string x v else Some x)"

definition set_op_field :: "string \<Rightarrow> json \<Rightarrow> patch_op \<Rightarrow> patch_op option" where
  "set_op_field k v x =
     (if is_field ''op'' k then map_option (\<lambda>s. x\<lparr>po_op := s\<rparr>) (decode_string (po_op x) v)
      else if is_field ''block_id'' k then map_option (\<lambda>s. x\<lparr>po_block := s\<rparr>) (decode_string (po_block x) v)
      else if is_field ''value'' k then Some (x\<lparr>po_value := Some v\<rparr>)
      else Some x)"

definition set_submit_field :: "string \<Rightarrow> json \<Rightarrow> submit_payload \<Rightarrow> submit_payload option" where
  "set_submit_field k v x =
     (if is_field ''session_id'' k then map_option (\<lambda>s. x\<lparr>sp_session := s\<rparr>) (decode_string (sp_session x) v)
      else if is_field ''page_id'' k then map_option (\<lambda>s. x\<lparr>sp_page := s\<rparr>) (decode_string (sp_page x) v)
      else if is_field ''base_revision_no'' k then
        map_option (\<lambda>n. x\<lparr>sp_base := n\<rparr>) (decode_int (sp_base x) v)
      else if is_field ''patch_id'' k then map_option (\<lambda>s. x\<lparr>sp_patch := s\<rparr>) (decode_string (sp_patch x) v)
      else if is_field ''ops'' k then
        map_option (\<lambda>os. x\<lparr>sp_ops := os\<rparr>)
          (decode_slice (decode_struct set_op_field \<lparr>po_op = '''', po_block = '''', po_value = None\<rparr>) v)
      else Some x)"

section \<open>Connections and rooms\<close>

record client_conn =
  cn_room :: string
  cn_session :: string
  cn_page :: string
  cn_workspace :: string
  cn_user :: string
  cn_name :: string
  cn_roles :: "string list"
  cn_authenticated :: bool

text \<open>
  The handler's state: the open connections, the clients of each room, what a write to a
  connection fails with, everything that was sent, and the state of the use cases.
\<close>

record ('r, 'p, 'q) hub =
  hb_conns :: "nat \<Rightarrow> client_conn option"
  hb_clients :: "string \<Rightarrow> nat list"
  hb_broken :: "nat \<Rightarrow> string option"
  hb_sent :: "(nat \<times> envelope) list"
  hb_collab :: "('r, 'p, 'q) collab"

record ('r, 'p, 'q) socket_deps =
  sd_collab :: "('r, 'p, 'q) collab_deps"
  sd_checker :: "remote_authz option"
  sd_heartbeat :: duration
  sd_ttl :: duration

definition add_client :: "string \<Rightarrow> nat \<Rightarrow> ('r, 'p, 'q) hub \<Rightarrow> ('r, 'p, 'q) hub" where
  "add_client roomID c h = h\<lparr>hb_clients := (hb_clients h)(roomID := List.insert c (hb_clients h roomID))\<rparr>"

definition remove_client :: "string \<Rightarrow> nat \<Rightarrow> ('r, 'p, 'q) hub \<Rightarrow> ('r, 'p, 'q) hub" where
  "remove_client roomID c h = h\<lparr>hb_clients := (hb_clients h)(roomID := removeAll c (hb_clients h roomID))\<rparr>"

definition write_envelope :: "nat \<Rightarrow> envelope \<Rightarrow> ('r, 'p, 'q) hub \<Rightarrow> string option \<times> ('r, 'p, 'q) hub" where
  "write_envelope c e h =
     (case hb_broken h c of
        Some err \<Rightarrow> (Some err, h)
      | None \<Rightarrow> (None, h\<lparr>hb_sent := hb_sent h @ [(c, e)]\<rparr>))"

text \<open>The loop of \<open>broadcast\<close> stops at the first connection that fails.\<close>

fun write_all :: "nat list \<Rightarrow> envelope \<Rightarrow> ('r, 'p, 'q) hub \<Rightarrow> string option \<times> ('r, 'p, 'q) hub" where
  "write_all [] e h = (None, h)"
| "write_all (c # cs) e h =
     (case write_envelope c e h of (Some err, h) \<Rightarrow> (Some err, h) | (None, h) \<Rightarrow> write_all cs e h)"

definition broadcast :: "string \<Rightarrow> envelope \<Rightarrow> nat option \<Rightarrow> ('r, 'p, 'q) hub \<Rightarrow> string option \<times> ('r, 'p, 'q) hub" where
  "broadcast roomID e skip h = write_all (filter (\<lambda>c. skip \<noteq> Some c) (hb_clients h roomID)) e h"

section \<open>Handlers\<close>

datatype handler_error = SessionGone | HandlerFailed string

fun rpc_error_text :: "rpc_error \<Rightarrow> string" where
  "rpc_error_text (RpcAborted err) = err"
| "rpc_error_text (RpcFailed err) = err"

fun handler_error_of :: "collab_error \<Rightarrow> handler_error" where
  "handler_error_of CollabSessionNotFound = SessionGone"
| "handler_error_of (CollabStore err) = HandlerFailed err"
| "handler_error_of (CollabPage err) = HandlerFailed (rpc_error_text err)"

definition decoding_error :: string where
  "decoding_error = ''invalid JSON''"

type_synonym ('r, 'p, 'q) handled = "handler_error option \<times> ('r, 'p, 'q) hub"

text \<open>The last write of a handler, and a write it goes on after.\<close>

definition finish :: "string option \<times> ('r, 'p, 'q) hub \<Rightarrow> ('r, 'p, 'q) handled" where
  "finish = apfst (map_option HandlerFailed)"

definition and_then ::
  "string option \<times> ('r, 'p, 'q) hub \<Rightarrow> (('r, 'p, 'q) hub \<Rightarrow> ('r, 'p, 'q) handled) \<Rightarrow> ('r, 'p, 'q) handled" where
  "and_then w k = (case w of (Some err, h) \<Rightarrow> (Some (HandlerFailed err), h) | (None, h) \<Rightarrow> k h)"

definition reply :: "gotime \<Rightarrow> incoming \<Rightarrow> outgoing \<Rightarrow> envelope" where
  "reply now m payload = \<lparr>ev_request = im_request m, ev_sent = now, ev_payload = payload\<rparr>"

definition client_subject :: "client_conn \<Rightarrow> string \<Rightarrow> string \<Rightarrow> authorization_subject" where
  "client_subject cl workspaceID pageID =
     \<lparr>as_actor = cn_user cl, as_workspace = workspaceID, as_page = pageID, as_roles = cn_roles cl,
      as_authenticated = cn_authenticated cl\<rparr>"

text \<open>The member that joining and leaving announce: only these fields are set.\<close>

definition announced :: "string \<Rightarrow> string \<Rightarrow> string \<Rightarrow> presence_member" where
  "announced sessionID user name =
     \<lparr>pm_room = '''', pm_session = sessionID, pm_user = user, pm_name = name, pm_cursor = None,
      pm_selection = None, pm_last_seen = zero_time, pm_last_patch = '''', pm_workspace = '''', pm_page = ''''\<rparr>"

definition join_input_of :: "('r, 'p, 'q) socket_deps \<Rightarrow> client_conn \<Rightarrow> join_payload \<Rightarrow> join_input" where
  "join_input_of sd cl payload =
     \<lparr>ji_page = jp_page payload, ji_workspace = jp_workspace payload, ji_actor = cn_user cl,
      ji_name = cn_name cl, ji_last_no = jp_last_no payload, ji_last_patch = jp_last_patch payload,
      ji_ttl = sd_ttl sd, ji_heartbeat = sd_heartbeat sd\<rparr>"

definition joined_conn :: "join_payload \<Rightarrow> string \<Rightarrow> client_conn \<Rightarrow> client_conn" where
  "joined_conn payload sessionID cl =
     cl\<lparr>cn_room := room_key (jp_workspace payload) (jp_page payload), cn_session := sessionID,
        cn_workspace := jp_workspace payload, cn_page := jp_page payload\<rparr>"

definition zero_join :: join_payload where
  "zero_join = \<lparr>jp_page = '''', jp_workspace = '''', jp_last_no = 0, jp_last_patch = ''''\<rparr>"

definition handle_join ::
  "('r, 'p, 'q) socket_deps \<Rightarrow> request_context \<Rightarrow> gotime \<Rightarrow> nat \<Rightarrow> client_conn \<Rightarrow> incoming \<Rightarrow> ('r, 'p, 'q) hub \<Rightarrow>
   ('r, 'p, 'q) handled" where
  "handle_join sd cx now c cl m h =
     (case decode_payload set_join_field zero_join (im_payload m) of
        None \<Rightarrow> finish (write_envelope c (reply now m (OutError ''invalid_payload'' decoding_error False)) h)
      | Some payload \<Rightarrow>
          if service_authorize (sd_checker sd) ActionPageView
               (client_subject cl (jp_workspace payload) (jp_page payload)) \<noteq> AuthzOk then
            finish (write_envelope c
              (reply now m (OutError ''forbidden'' ''page view permission is required'' False)) h)
          else
            (case join_session (sd_collab sd) cx now (join_input_of sd cl payload) (hb_collab h) of
               (Inl err, sv) \<Rightarrow> (Some (handler_error_of err), h\<lparr>hb_collab := sv\<rparr>)
             | (Inr result, sv) \<Rightarrow>
                 let h = h\<lparr>hb_collab := sv\<rparr>
                 in (case jr_rebase result of
                       Some rebase \<Rightarrow> finish (write_envelope c (reply now m (OutRebase rebase)) h)
                     | None \<Rightarrow>
                         let joined = the (jr_joined result);
                             cl = joined_conn payload (sj_session joined) cl;
                             h = h\<lparr>hb_conns := (hb_conns h)(c := Some cl)\<rparr>;
                             h = add_client (cn_room cl) c h
                         in and_then (write_envelope c (reply now m (OutJoined joined)) h) (\<lambda>h.
                            and_then (write_envelope c (reply now m (OutPresence (jr_presence result))) h) (\<lambda>h.
                            finish (broadcast (cn_room cl)
                              (reply now m (OutChanged (cn_session cl) ''joined''
                                 (announced (cn_session cl) (cn_user cl) (cn_name cl)))) (Some c) h))))))"

definition handle_heartbeat ::
  "('r, 'p, 'q) socket_deps \<Rightarrow> gotime \<Rightarrow> nat \<Rightarrow> client_conn \<Rightarrow> incoming \<Rightarrow> ('r, 'p, 'q) hub \<Rightarrow> ('r, 'p, 'q) handled" where
  "handle_heartbeat sd now c cl m h =
     (case decode_payload set_heartbeat_field \<lparr>hp_session = '''', hp_cursor = None\<rparr> (im_payload m) of
        None \<Rightarrow> (Some (HandlerFailed decoding_error), h)
      | Some payload \<Rightarrow>
          (case heartbeat (sd_collab sd) now (cn_room cl) (hp_session payload) (hp_cursor payload) (sd_ttl sd)
                  (hb_collab h) of
             (Inl err, sv) \<Rightarrow> (Some (handler_error_of err), h\<lparr>hb_collab := sv\<rparr>)
           | (Inr (pong, member), sv) \<Rightarrow>
               and_then (write_envelope c (reply now m (OutPong pong)) (h\<lparr>hb_collab := sv\<rparr>)) (\<lambda>h.
               finish (broadcast (cn_room cl)
                 (reply now m (OutChanged (pm_session member) ''updated'' member)) (Some c) h))))"

definition handle_presence ::
  "('r, 'p, 'q) socket_deps \<Rightarrow> gotime \<Rightarrow> client_conn \<Rightarrow> incoming \<Rightarrow> ('r, 'p, 'q) hub \<Rightarrow> ('r, 'p, 'q) handled" where
  "handle_presence sd now cl m h =
     (case decode_payload set_presence_field \<lparr>pp_session = '''', pp_cursor = None, pp_selection = None\<rparr>
             (im_payload m) of
        None \<Rightarrow> (Some (HandlerFailed decoding_error), h)
      | Some payload \<Rightarrow>
          (case update_presence (sd_collab sd) now (cn_room cl) (pp_session payload) (pp_cursor payload)
                  (pp_selection payload) (sd_ttl sd) (hb_collab h) of
             (Inl err, sv) \<Rightarrow> (Some (handler_error_of err), h\<lparr>hb_collab := sv\<rparr>)
           | (Inr member, sv) \<Rightarrow>
               finish (broadcast (cn_room cl)
                 (reply now m (OutChanged (pp_session payload) ''updated'' member)) None (h\<lparr>hb_collab := sv\<rparr>))))"

definition submit_input_of :: "('r, 'p, 'q) socket_deps \<Rightarrow> client_conn \<Rightarrow> submit_payload \<Rightarrow> submit_input" where
  "submit_input_of sd cl payload =
     \<lparr>sb_session = sp_session payload, sb_page = sp_page payload, sb_workspace = cn_workspace cl,
      sb_actor = cn_user cl, sb_base = sp_base payload, sb_patch = sp_patch payload, sb_ops = sp_ops payload,
      sb_ttl = sd_ttl sd\<rparr>"

definition zero_submit :: submit_payload where
  "zero_submit = \<lparr>sp_session = '''', sp_page = '''', sp_base = 0, sp_patch = '''', sp_ops = []\<rparr>"

definition handle_patch ::
  "('r, 'p, 'q) socket_deps \<Rightarrow> request_context \<Rightarrow> gotime \<Rightarrow> nat \<Rightarrow> client_conn \<Rightarrow> incoming \<Rightarrow> ('r, 'p, 'q) hub \<Rightarrow>
   ('r, 'p, 'q) handled" where
  "handle_patch sd cx now c cl m h =
     (if service_authorize (sd_checker sd) ActionPageEdit
           (client_subject cl (cn_workspace cl) (cn_page cl)) \<noteq> AuthzOk then
        finish (write_envelope c
          (reply now m (OutError ''forbidden'' ''page edit permission is required'' False)) h)
      else
        (case decode_payload set_submit_field zero_submit (im_payload m) of
           None \<Rightarrow> (Some (HandlerFailed decoding_error), h)
         | Some payload \<Rightarrow>
             (case submit_patch (sd_collab sd) cx now (submit_input_of sd cl payload) (hb_collab h) of
                (Inl err, sv) \<Rightarrow> (Some (handler_error_of err), h\<lparr>hb_collab := sv\<rparr>)
              | (Inr (Rebase rebase), sv) \<Rightarrow>
                  finish (write_envelope c (reply now m (OutRebase rebase)) (h\<lparr>hb_collab := sv\<rparr>))
              | (Inr (Rejected rejected), sv) \<Rightarrow>
                  finish (write_envelope c (reply now m (OutRejected rejected)) (h\<lparr>hb_collab := sv\<rparr>))
              | (Inr (Accepted accepted), sv) \<Rightarrow>
                  finish (broadcast (cn_room cl) (reply now m (OutAccepted accepted)) None
                    (h\<lparr>hb_collab := sv\<rparr>)))))"

definition handle_leave ::
  "('r, 'p, 'q) socket_deps \<Rightarrow> gotime \<Rightarrow> nat \<Rightarrow> client_conn \<Rightarrow> incoming \<Rightarrow> ('r, 'p, 'q) hub \<Rightarrow> ('r, 'p, 'q) handled" where
  "handle_leave sd now c cl m h =
     (case decode_payload set_leave_field '''' (im_payload m) of
        None \<Rightarrow> (Some (HandlerFailed decoding_error), h)
      | Some sessionID \<Rightarrow>
          (case leave_session (sd_collab sd) (cn_room cl) sessionID (hb_collab h) of
             (Some err, sv) \<Rightarrow> (Some (handler_error_of err), h\<lparr>hb_collab := sv\<rparr>)
           | (None, sv) \<Rightarrow>
               finish (broadcast (cn_room cl)
                 (reply now m (OutChanged sessionID ''left'' (announced sessionID (cn_user cl) '''')))
                 None (remove_client (cn_room cl) c (h\<lparr>hb_collab := sv\<rparr>)))))"

definition dispatch ::
  "('r, 'p, 'q) socket_deps \<Rightarrow> request_context \<Rightarrow> gotime \<Rightarrow> nat \<Rightarrow> client_conn \<Rightarrow> incoming \<Rightarrow> ('r, 'p, 'q) hub \<Rightarrow>
   ('r, 'p, 'q) handled" where
  "dispatch sd cx now c cl m h =
     (if im_type m = ''join_session'' then handle_join sd cx now c cl m h
      else if im_type m = ''heartbeat'' then handle_heartbeat sd now c cl m h
      else if im_type m = ''update_presence'' then handle_presence sd now cl m h
      else if im_type m = ''submit_patch'' then handle_patch sd cx now c cl m h
      else if im_type m = ''leave_session'' then handle_leave sd now c cl m h
      else finish (write_envelope c
             (reply now m (OutError ''invalid_payload'' ''unsupported event type'' False)) h))"

section \<open>The life of a connection\<close>

text \<open>Opening needs a user; the rest of the identity is read from the headers.\<close>

definition open_socket :: "nat \<Rightarrow> headers \<Rightarrow> ('r, 'p, 'q) hub \<Rightarrow> ('r, 'p, 'q) hub option" where
  "open_socket c hs h =
     (if header_actor hs = '''' then None
      else Some (h\<lparr>hb_conns := (hb_conns h)(c := Some
        \<lparr>cn_room = '''', cn_session = '''', cn_page = '''', cn_workspace = '''', cn_user = header_actor hs,
         cn_name = trim_space (header_get hs ''X-Auth-Display-Name''), cn_roles = header_roles hs,
         cn_authenticated = equal_fold (trim_space (header_get hs ''X-Auth-Authenticated'')) ''true''\<rparr>)\<rparr>))"

text \<open>One message: what the handler failed with is sent back, and the result of that write ignored.\<close>

definition serve_message ::
  "('r, 'p, 'q) socket_deps \<Rightarrow> request_context \<Rightarrow> gotime \<Rightarrow> nat \<Rightarrow> incoming \<Rightarrow> ('r, 'p, 'q) hub \<Rightarrow> ('r, 'p, 'q) hub" where
  "serve_message sd cx now c m h =
     (case hb_conns h c of
        None \<Rightarrow> h
      | Some cl \<Rightarrow>
          (case dispatch sd cx now c cl m h of
             (None, h) \<Rightarrow> h
           | (Some SessionGone, h) \<Rightarrow>
               snd (write_envelope c (reply now m
                 (OutError ''session_not_found'' ''session expired or unknown'' True)) h)
           | (Some (HandlerFailed err), h) \<Rightarrow>
               snd (write_envelope c (reply now m (OutError ''page_unavailable'' err True)) h)))"

text \<open>
  The end of a connection, when reading from it fails: the session of the last join leaves its
  room, whether or not that works. Writing to the connection fails from then on.
\<close>

definition close_socket ::
  "('r, 'p, 'q) socket_deps \<Rightarrow> nat \<Rightarrow> ('r, 'p, 'q) hub \<Rightarrow> ('r, 'p, 'q) hub" where
  "close_socket sd c h =
     (case hb_conns h c of
        None \<Rightarrow> h
      | Some cl \<Rightarrow>
          let h = (if cn_room cl \<noteq> '''' then
                     remove_client (cn_room cl) c
                       (h\<lparr>hb_collab := snd (leave_session (sd_collab sd) (cn_room cl) (cn_session cl) (hb_collab h))\<rparr>)
                   else h)
          in h\<lparr>hb_conns := (hb_conns h)(c := None), hb_broken := (hb_broken h)(c := Some ''closed'')\<rparr>)"

end
