(* ===== verification/SocketFacts.thy ===== *)
theory SocketFacts
  imports CollabSocket
begin

text \<open>
  Who is in which room, and who is told what: the frame of every handler, the invariant of the
  rooms as long as no client joins twice, what happens when one does, and what an accepted
  patch is checked against and who hears of it.
\<close>

section \<open>Writes leave everything but the record of them\<close>

lemma write_envelope_frame [simp]:
  "hb_conns (snd (write_envelope c e h)) = hb_conns h" "hb_clients (snd (write_envelope c e h)) = hb_clients h"
  "hb_broken (snd (write_envelope c e h)) = hb_broken h" "hb_collab (snd (write_envelope c e h)) = hb_collab h"
  by (simp_all add: write_envelope_def split: option.split)

lemma write_envelope_result:
  "write_envelope c e h = (err, h') \<Longrightarrow> hb_conns h' = hb_conns h \<and> hb_clients h' = hb_clients h
     \<and> hb_broken h' = hb_broken h \<and> hb_collab h' = hb_collab h"
  using write_envelope_frame [of c e h] by simp

lemma write_all_result:
  "write_all cs e h = (err, h') \<Longrightarrow> hb_conns h' = hb_conns h \<and> hb_clients h' = hb_clients h
     \<and> hb_broken h' = hb_broken h \<and> hb_collab h' = hb_collab h"
proof (induction cs arbitrary: h)
  case (Cons c cs)
  obtain e1 h1 where w: "write_envelope c e h = (e1, h1)" by fastforce
  show ?case using Cons.prems Cons.IH [of h1] write_envelope_result [OF w] w by (cases e1) auto
qed simp

lemma broadcast_result:
  "broadcast r e skip h = (err, h') \<Longrightarrow> hb_conns h' = hb_conns h \<and> hb_clients h' = hb_clients h
     \<and> hb_broken h' = hb_broken h \<and> hb_collab h' = hb_collab h"
  unfolding broadcast_def by (rule write_all_result)

lemma broadcast_frame [simp]:
  "hb_conns (snd (broadcast r e skip h)) = hb_conns h" "hb_clients (snd (broadcast r e skip h)) = hb_clients h"
  "hb_broken (snd (broadcast r e skip h)) = hb_broken h" "hb_collab (snd (broadcast r e skip h)) = hb_collab h"
  using broadcast_result [OF prod.collapse [symmetric], of r e skip h] by simp_all

lemma finish_result: "finish w = (err, h') \<longleftrightarrow> (\<exists>e. w = (e, h') \<and> err = map_option HandlerFailed e)"
  by (cases w) (auto simp: finish_def)

lemma and_then_result:
  "and_then w k = (err, h') \<longleftrightarrow>
     (\<exists>e h. w = (Some e, h) \<and> err = Some (HandlerFailed e) \<and> h' = h) \<or> (\<exists>h. w = (None, h) \<and> k h = (err, h'))"
  by (auto simp: and_then_def split: prod.splits option.splits)

lemmas write_results = write_envelope_result broadcast_result

section \<open>Which handlers move a client\<close>

definition same_rooms :: "('r, 'p, 'q) hub \<Rightarrow> ('r, 'p, 'q) hub \<Rightarrow> bool" where
  "same_rooms h h' \<longleftrightarrow> hb_conns h' = hb_conns h \<and> hb_clients h' = hb_clients h \<and> hb_broken h' = hb_broken h"

lemma heartbeat_rooms: "handle_heartbeat sd now c cl m h = (err, h') \<Longrightarrow> same_rooms h h'"
  by (auto simp: handle_heartbeat_def same_rooms_def finish_result and_then_result
      dest!: write_results split: option.splits sum.splits prod.splits)

lemma presence_rooms: "handle_presence sd now cl m h = (err, h') \<Longrightarrow> same_rooms h h'"
  by (auto simp: handle_presence_def same_rooms_def finish_result
      dest!: write_results split: option.splits sum.splits prod.splits)

lemma patch_rooms: "handle_patch sd cx now c cl m h = (err, h') \<Longrightarrow> same_rooms h h'"
  by (auto simp: handle_patch_def same_rooms_def finish_result
      dest!: write_results split: option.splits sum.splits prod.splits submit_result.splits if_splits)

lemma leave_rooms:
  "handle_leave sd now c cl m h = (err, h') \<Longrightarrow>
     same_rooms h h' \<or> same_rooms (remove_client (cn_room cl) c h) h'"
  by (auto simp: handle_leave_def same_rooms_def finish_result remove_client_def
      dest!: write_results split: option.splits sum.splits prod.splits)

lemma join_rooms:
  "handle_join sd cx now c cl m h = (err, h') \<Longrightarrow>
     same_rooms h h' \<or> (\<exists>payload s. decode_payload set_join_field zero_join (im_payload m) = Some payload
       \<and> same_rooms (add_client (cn_room (joined_conn payload s cl)) c
           (h\<lparr>hb_conns := (hb_conns h)(c := Some (joined_conn payload s cl))\<rparr>)) h')"
  by (auto simp: handle_join_def same_rooms_def finish_result and_then_result Let_def add_client_def
      dest!: write_results split: option.splits sum.splits prod.splits if_splits)

lemma room_key_nonempty [simp]: "room_key w p \<noteq> ''''"
  by (simp add: room_key_def)

lemma joined_conn_room [simp]: "cn_room (joined_conn payload s cl) \<noteq> ''''"
  by (simp add: joined_conn_def)

text \<open>
  The rooms are tidy: a room lists each client once, only open connections, and only those
  that joined it last.
\<close>

definition tidy :: "('r, 'p, 'q) hub \<Rightarrow> bool" where
  "tidy h \<longleftrightarrow> (\<forall>r. distinct (hb_clients h r)
     \<and> (\<forall>c \<in> set (hb_clients h r). \<exists>cl. hb_conns h c = Some cl \<and> cn_room cl = r \<and> r \<noteq> ''''))"

lemma tidyD:
  assumes "tidy h"
  shows "distinct (hb_clients h r)"
    and "c \<in> set (hb_clients h r) \<Longrightarrow> \<exists>cl. hb_conns h c = Some cl \<and> cn_room cl = r \<and> r \<noteq> ''''"
  using assms by (simp_all add: tidy_def)

lemma tidy_same: "tidy h \<Longrightarrow> same_rooms h h' \<Longrightarrow> tidy h'"
  by (simp add: tidy_def same_rooms_def)

lemma tidy_remove: "tidy h \<Longrightarrow> tidy (remove_client r c h)"
  by (auto simp: tidy_def remove_client_def distinct_removeAll)

lemma tidy_collab [simp]: "tidy (h\<lparr>hb_collab := sv\<rparr>) = tidy h"
  by (simp add: tidy_def)

lemma tidy_add:
  assumes "tidy h" and "\<And>r. c \<notin> set (hb_clients h r)" and "cn_room cl \<noteq> ''''"
  shows "tidy (add_client (cn_room cl) c (h\<lparr>hb_conns := (hb_conns h)(c := Some cl)\<rparr>))"
  using assms by (fastforce simp: tidy_def add_client_def)

lemma tidy_unlisted:
  assumes "tidy h" and "\<And>r. c \<notin> set (hb_clients h r)"
  shows "tidy (h\<lparr>hb_conns := (hb_conns h)(c := x)\<rparr>)"
  using assms by (fastforce simp: tidy_def)

lemma tidy_broken [simp]: "tidy (h\<lparr>hb_broken := b\<rparr>) = tidy h"
  by (simp add: tidy_def)

lemma dispatch_tidy:
  assumes "dispatch sd cx now c cl m h = (err, h')" and "tidy h"
    and "im_type m = ''join_session'' \<Longrightarrow> \<forall>r. c \<notin> set (hb_clients h r)"
  shows "tidy h'"
proof (cases "im_type m = ''join_session''")
  case True
  then have "handle_join sd cx now c cl m h = (err, h')" using assms(1) by (simp add: dispatch_def)
  from join_rooms [OF this] show ?thesis
  proof (elim disjE exE conjE)
    assume "same_rooms h h'"
    then show ?thesis by (rule tidy_same [OF assms(2)])
  next
    fix payload s
    let ?cl = "joined_conn payload s cl"
    assume after: "same_rooms (add_client (cn_room ?cl) c (h\<lparr>hb_conns := (hb_conns h)(c := Some ?cl)\<rparr>)) h'"
    have "tidy (add_client (cn_room ?cl) c (h\<lparr>hb_conns := (hb_conns h)(c := Some ?cl)\<rparr>))"
      using assms(3) [OF True] by (intro tidy_add assms(2)) simp_all
    then show ?thesis by (rule tidy_same [OF _ after])
  qed
next
  case False
  then show ?thesis
    using assms(1,2)
    by (auto simp: dispatch_def finish_result split: if_splits
        dest!: heartbeat_rooms presence_rooms patch_rooms leave_rooms write_envelope_result
        intro: tidy_same tidy_remove)
      (auto simp: tidy_def)
qed

lemma serve_tidy:
  assumes "tidy h" and "im_type m = ''join_session'' \<Longrightarrow> \<forall>r. c \<notin> set (hb_clients h r)"
  shows "tidy (serve_message sd cx now c m h)"
proof (cases "hb_conns h c")
  case (Some cl)
  obtain err h' where run: "dispatch sd cx now c cl m h = (err, h')" by fastforce
  have "tidy (snd (write_envelope c e h'))" for e
    using dispatch_tidy [OF run assms] by (simp add: tidy_def)
  then show ?thesis
    using Some run dispatch_tidy [OF run assms]
    by (auto simp: serve_message_def split: option.splits handler_error.splits)
qed (simp add: serve_message_def assms(1))

lemma close_tidy:
  assumes "tidy h"
  shows "tidy (close_socket sd c h)"
proof (cases "hb_conns h c")
  case (Some cl)
  let ?h = "remove_client (cn_room cl) c
    (h\<lparr>hb_collab := snd (leave_session (sd_collab sd) (cn_room cl) (cn_session cl) (hb_collab h))\<rparr>)"
  have "c \<notin> set (hb_clients ?h r)" for r
    using tidyD(2) [OF assms, of c r] Some by (auto simp: remove_client_def)
  moreover have "c \<notin> set (hb_clients h r)" if "cn_room cl = ''''" for r
    using tidyD(2) [OF assms, of c r] Some that by auto
  ultimately show ?thesis
    using Some assms tidy_remove [of h "cn_room cl" c]
      tidy_unlisted [of ?h c None] tidy_unlisted [of h c None]
    by (auto simp: close_socket_def Let_def tidy_remove)
qed (simp add: close_socket_def assms)

text \<open>
  The runs of the handler in which no client that is in a room joins: connections open under
  new numbers, send messages, break and close, with whatever collaborators and at whatever
  times. The handler itself takes such a join, and then leaves the client in the list of the room
  that it was in.
\<close>

inductive hub_run :: "('r, 'p, 'q) hub \<Rightarrow> ('r, 'p, 'q) hub \<Rightarrow> bool" for h0 :: "('r, 'p, 'q) hub" where
  start: "hub_run h0 h0"
| opened: "hub_run h0 h \<Longrightarrow> hb_conns h c = None \<Longrightarrow> open_socket c hs h = Some h' \<Longrightarrow> hub_run h0 h'"
| served: "hub_run h0 h \<Longrightarrow> (im_type m = ''join_session'' \<Longrightarrow> \<forall>r. c \<notin> set (hb_clients h r)) \<Longrightarrow>
    hub_run h0 (serve_message sd cx now c m h)"
| broke: "hub_run h0 h \<Longrightarrow> hub_run h0 (h\<lparr>hb_broken := (hb_broken h)(c := Some err)\<rparr>)"
| closed: "hub_run h0 h \<Longrightarrow> hub_run h0 (close_socket sd c h)"

lemma hub_run_tidy:
  assumes "hub_run h0 h" and "tidy h0"
  shows "tidy h"
  using assms
proof (induction rule: hub_run.induct)
  case (opened h c hs h')
  have "c \<notin> set (hb_clients h r)" for r
    using tidyD(2) [OF opened.IH [OF opened.prems], of c r] opened.hyps by auto
  then show ?case
    using opened tidy_unlisted [of h c] by (auto simp: open_socket_def split: if_splits)
qed (simp_all add: serve_tidy close_tidy)

section \<open>Who is told what\<close>

lemma write_all_sent:
  assumes "\<And>c. c \<in> set cs \<Longrightarrow> hb_broken h c = None"
  shows "write_all cs e h = (None, h\<lparr>hb_sent := hb_sent h @ map (\<lambda>c. (c, e)) cs\<rparr>)"
  using assms
proof (induction cs arbitrary: h)
  case (Cons c cs)
  have "write_envelope c e h = (None, h\<lparr>hb_sent := hb_sent h @ [(c, e)]\<rparr>)"
    using Cons.prems by (simp add: write_envelope_def)
  then show ?case using Cons.IH [of "h\<lparr>hb_sent := hb_sent h @ [(c, e)]\<rparr>"] Cons.prems by simp
qed simp

lemma write_all_stops:
  assumes "hb_broken h c = Some err" and "\<And>c'. c' \<in> set cs \<Longrightarrow> hb_broken h c' = None"
  shows "write_all (cs @ c # cs') e h = (Some err, h\<lparr>hb_sent := hb_sent h @ map (\<lambda>c. (c, e)) cs\<rparr>)"
  using assms
proof (induction cs arbitrary: h)
  case Nil
  then show ?case by (simp add: write_envelope_def)
next
  case (Cons d cs)
  have "write_envelope d e h = (None, h\<lparr>hb_sent := hb_sent h @ [(d, e)]\<rparr>)"
    using Cons.prems by (simp add: write_envelope_def)
  then show ?case using Cons.IH [of "h\<lparr>hb_sent := hb_sent h @ [(d, e)]\<rparr>"] Cons.prems by simp
qed

lemma write_all_broken:
  "c \<in> set cs \<Longrightarrow> hb_broken h c = Some err \<Longrightarrow> fst (write_all cs e h) \<noteq> None"
proof (induction cs arbitrary: h)
  case (Cons d cs)
  obtain e1 h1 where w: "write_envelope d e h = (e1, h1)" by fastforce
  have "e1 = hb_broken h d" using w by (auto simp: write_envelope_def split: option.splits)
  then show ?case
    using Cons.prems Cons.IH [of h1] w write_envelope_result [OF w] by (cases "hb_broken h d") auto
qed simp

end
