(* ===== verification/Wire.thy ===== *)
theory Wire
  imports Document CollabPatch
begin

text \<open>
  Documents on the wire between the page service and the collaboration service: both marshal
  their own document type, the one with typed embeds, links and attachments
  (\<^verbatim>\<open>page-service/internal/domain/document.go\<close>), the other with free-form ones
  (\<^verbatim>\<open>collaboration-service/internal/domain/session.go\<close>), into the same JSON. The members and
  their \<open>omitempty\<close> are those of the struct tags.
\<close>

section \<open>The page service's documents\<close>

definition embed_json :: "table_embed_descriptor \<Rightarrow> json" where
  "embed_json e = JObj
     ([(''mws_table_id'', JStr (te_table e))] @ opt_string ''title'' (te_title e)
      @ opt_map ''display_config'' (te_display e) @ opt_string ''preview_state'' (te_preview e)
      @ opt_map ''schema'' (te_schema e)
      @ (if te_rows e = [] then [] else [(''preview_rows'', JArr (map json_of_map (te_rows e)))]))"

definition link_json :: "page_link_reference \<Rightarrow> json" where
  "link_json l = JObj
     ([(''page_id'', JStr (pl_page l))] @ opt_string ''title'' (pl_title l) @ opt_string ''link_kind'' (pl_kind l))"

definition attachment_json :: "attachment_reference \<Rightarrow> json" where
  "attachment_json a = JObj
     ([(''file_id'', JStr (at_file a))] @ opt_string ''block_id'' (at_block a)
      @ opt_string ''filename'' (at_filename a))"

definition block_json :: "document_block \<Rightarrow> json" where
  "block_json b = JObj
     ([(''id'', JStr (bk_id b)), (''type'', JStr (bk_type b))] @ opt_string ''text'' (bk_text b)
      @ opt_map ''attrs'' (bk_attrs b) @ opt_member ''embed'' embed_json (bk_embed b)
      @ opt_member ''link'' link_json (bk_link b)
      @ opt_member ''attachment'' attachment_json (bk_attachment b))"

definition document_json :: "document \<Rightarrow> json" where
  "document_json d = JObj
     ([(''blocks'', JArr (map block_json (dc_blocks d)))] @ opt_map ''metadata'' (dc_metadata d))"

definition set_embed_field :: "string \<Rightarrow> json \<Rightarrow> table_embed_descriptor \<Rightarrow> table_embed_descriptor option" where
  "set_embed_field k v e =
     (if is_field ''mws_table_id'' k then map_option (\<lambda>s. e\<lparr>te_table := s\<rparr>) (decode_string (te_table e) v)
      else if is_field ''title'' k then map_option (\<lambda>s. e\<lparr>te_title := s\<rparr>) (decode_string (te_title e) v)
      else if is_field ''display_config'' k then
        map_option (\<lambda>m. e\<lparr>te_display := m\<rparr>) (decode_map (te_display e) v)
      else if is_field ''preview_state'' k then
        map_option (\<lambda>s. e\<lparr>te_preview := s\<rparr>) (decode_string (te_preview e) v)
      else if is_field ''schema'' k then map_option (\<lambda>m. e\<lparr>te_schema := m\<rparr>) (decode_map (te_schema e) v)
      else if is_field ''preview_rows'' k then
        map_option (\<lambda>rows. e\<lparr>te_rows := rows\<rparr>) (decode_slice (decode_map None) v)
      else Some e)"

definition set_link_field :: "string \<Rightarrow> json \<Rightarrow> page_link_reference \<Rightarrow> page_link_reference option" where
  "set_link_field k v l =
     (if is_field ''page_id'' k then map_option (\<lambda>s. l\<lparr>pl_page := s\<rparr>) (decode_string (pl_page l) v)
      else if is_field ''title'' k then map_option (\<lambda>s. l\<lparr>pl_title := s\<rparr>) (decode_string (pl_title l) v)
      else if is_field ''link_kind'' k then map_option (\<lambda>s. l\<lparr>pl_kind := s\<rparr>) (decode_string (pl_kind l) v)
      else Some l)"

definition set_attachment_field :: "string \<Rightarrow> json \<Rightarrow> attachment_reference \<Rightarrow> attachment_reference option" where
  "set_attachment_field k v a =
     (if is_field ''file_id'' k then map_option (\<lambda>s. a\<lparr>at_file := s\<rparr>) (decode_string (at_file a) v)
      else if is_field ''block_id'' k then map_option (\<lambda>s. a\<lparr>at_block := s\<rparr>) (decode_string (at_block a) v)
      else if is_field ''filename'' k then
        map_option (\<lambda>s. a\<lparr>at_filename := s\<rparr>) (decode_string (at_filename a) v)
      else Some a)"

definition zero_embed :: table_embed_descriptor where
  "zero_embed = \<lparr>te_table = '''', te_title = '''', te_display = None, te_preview = '''',
     te_schema = None, te_rows = []\<rparr>"

definition zero_link :: page_link_reference where
  "zero_link = \<lparr>pl_page = '''', pl_title = '''', pl_kind = ''''\<rparr>"

definition zero_attachment :: attachment_reference where
  "zero_attachment = \<lparr>at_file = '''', at_block = '''', at_filename = ''''\<rparr>"

definition zero_document_block :: document_block where
  "zero_document_block = \<lparr>bk_id = '''', bk_type = '''', bk_text = '''', bk_attrs = None,
     bk_embed = None, bk_link = None, bk_attachment = None\<rparr>"

definition set_document_block_field :: "string \<Rightarrow> json \<Rightarrow> document_block \<Rightarrow> document_block option" where
  "set_document_block_field k v b =
     (if is_field ''id'' k then map_option (\<lambda>s. b\<lparr>bk_id := s\<rparr>) (decode_string (bk_id b) v)
      else if is_field ''type'' k then map_option (\<lambda>s. b\<lparr>bk_type := s\<rparr>) (decode_string (bk_type b) v)
      else if is_field ''text'' k then map_option (\<lambda>s. b\<lparr>bk_text := s\<rparr>) (decode_string (bk_text b) v)
      else if is_field ''attrs'' k then map_option (\<lambda>m. b\<lparr>bk_attrs := m\<rparr>) (decode_map (bk_attrs b) v)
      else if is_field ''embed'' k then
        map_option (\<lambda>e. b\<lparr>bk_embed := e\<rparr>) (decode_pointer set_embed_field zero_embed (bk_embed b) v)
      else if is_field ''link'' k then
        map_option (\<lambda>l. b\<lparr>bk_link := l\<rparr>) (decode_pointer set_link_field zero_link (bk_link b) v)
      else if is_field ''attachment'' k then
        map_option (\<lambda>a. b\<lparr>bk_attachment := a\<rparr>)
          (decode_pointer set_attachment_field zero_attachment (bk_attachment b) v)
      else Some b)"

definition set_document_field :: "string \<Rightarrow> json \<Rightarrow> document \<Rightarrow> document option" where
  "set_document_field k v d =
     (if is_field ''blocks'' k then
        map_option (\<lambda>bs. d\<lparr>dc_blocks := bs\<rparr>)
          (decode_slice (decode_struct set_document_block_field zero_document_block) v)
      else if is_field ''metadata'' k then
        map_option (\<lambda>m. d\<lparr>dc_metadata := m\<rparr>) (decode_map (dc_metadata d) v)
      else Some d)"

definition document_of_json :: "json \<Rightarrow> document option" where
  "document_of_json v = decode_struct set_document_field \<lparr>dc_blocks = [], dc_metadata = None\<rparr> v"

section \<open>The collaboration service's documents\<close>

definition cblock_json :: "cblock \<Rightarrow> json" where
  "cblock_json b = JObj
     ([(''id'', JStr (cb_id b)), (''type'', JStr (cb_type b))] @ opt_string ''text'' (cb_text b)
      @ opt_map ''attrs'' (cb_attrs b) @ opt_map ''embed'' (cb_embed b) @ opt_map ''link'' (cb_link b)
      @ opt_map ''attachment'' (cb_attachment b))"

definition cdocument_json :: "cdocument \<Rightarrow> json" where
  "cdocument_json d = JObj
     ([(''blocks'', JArr (map cblock_json (cd_blocks d)))] @ opt_map ''metadata'' (cd_metadata d))"

definition set_cdocument_field :: "string \<Rightarrow> json \<Rightarrow> cdocument \<Rightarrow> cdocument option" where
  "set_cdocument_field k v d =
     (if is_field ''blocks'' k then
        map_option (\<lambda>bs. d\<lparr>cd_blocks := bs\<rparr>) (decode_slice (decode_struct set_block_field zero_block) v)
      else if is_field ''metadata'' k then
        map_option (\<lambda>m. d\<lparr>cd_metadata := m\<rparr>) (decode_map (cd_metadata d) v)
      else Some d)"

definition cdocument_of_json :: "json \<Rightarrow> cdocument option" where
  "cdocument_of_json v = decode_struct set_cdocument_field \<lparr>cd_blocks = [], cd_metadata = None\<rparr> v"

section \<open>Field names\<close>

text \<open>Names in lower case match only themselves.\<close>

definition plain_char :: "char \<Rightarrow> bool" where
  "plain_char c \<longleftrightarrow> c = CHR ''_'' \<or> (97 \<le> (of_char c :: int) \<and> (of_char c :: int) \<le> 122)"

definition plain_name :: "string \<Rightarrow> bool" where
  "plain_name s \<longleftrightarrow> list_all plain_char s"

lemma plain_char_bytes: "plain_char c \<Longrightarrow> c \<noteq> CHR 0xE2 \<and> c \<noteq> CHR 0xC5"
  by (auto simp: plain_char_def)

lemma fold_plain: "plain_name s \<Longrightarrow> fold_name s = map ascii_upper s"
  by (induction s rule: fold_name.induct) (auto simp: plain_name_def dest: plain_char_bytes)

lemma ascii_upper_inj:
  assumes "plain_char c" and "plain_char d" and "ascii_upper c = ascii_upper d"
  shows "c = d"
proof -
  have up: "(of_char (ascii_upper c) :: int) = (if c = CHR ''_'' then 95 else of_char c - 32)"
    if "plain_char c" for c
  proof -
    have "(of_char (char_of ((of_char c :: int) - 32) :: char) :: int) = of_char c - 32"
      if "97 \<le> (of_char c :: int)" and "(of_char c :: int) \<le> 122"
    proof -
      have "(of_char (char_of ((of_char c :: int) - 32) :: char) :: int) = ((of_char c :: int) - 32) mod 256"
        by simp
      then show ?thesis using that by simp
    qed
    then show ?thesis using that by (auto simp: plain_char_def ascii_upper_def)
  qed
  have range: "97 \<le> (of_char e :: int) \<and> (of_char e :: int) \<le> 122" if "plain_char e" and "e \<noteq> CHR ''_''" for e
    using that unfolding plain_char_def by blast
  have same: "(if c = CHR ''_'' then 95 else (of_char c :: int) - 32) =
      (if d = CHR ''_'' then 95 else of_char d - 32)"
    using up [OF assms(1)] up [OF assms(2)] assms(3) by metis
  show ?thesis
  proof (cases "c = CHR ''_''")
    case True
    then show ?thesis using same range [OF assms(2)] by (cases "d = CHR ''_''") simp_all
  next
    case False
    then have "(of_char c :: int) = of_char d"
      using same range [OF assms(1)] by (cases "d = CHR ''_''") simp_all
    then show ?thesis by (simp only: of_char_eq_iff)
  qed
qed

lemma map_ascii_upper_inj:
  "list_all plain_char s \<Longrightarrow> list_all plain_char t \<Longrightarrow> map ascii_upper s = map ascii_upper t \<Longrightarrow> s = t"
proof (induction s arbitrary: t)
  case (Cons c s)
  then show ?case by (cases t) (auto dest: ascii_upper_inj)
qed simp

lemma is_field_plain: "plain_name a \<Longrightarrow> plain_name b \<Longrightarrow> is_field a b \<longleftrightarrow> a = b"
  unfolding is_field_def using fold_plain map_ascii_upper_inj plain_name_def by metis

lemma plain_names:
  "plain_name ''id''" "plain_name ''type''" "plain_name ''text''" "plain_name ''attrs''"
  "plain_name ''embed''" "plain_name ''link''" "plain_name ''attachment''" "plain_name ''blocks''"
  "plain_name ''metadata''" "plain_name ''mws_table_id''" "plain_name ''title''"
  "plain_name ''display_config''" "plain_name ''preview_state''" "plain_name ''schema''"
  "plain_name ''preview_rows''" "plain_name ''page_id''" "plain_name ''link_kind''"
  "plain_name ''file_id''" "plain_name ''block_id''" "plain_name ''filename''"
  by code_simp+

lemmas field_simps = is_field_plain plain_names

section \<open>Decoding what was encoded\<close>

lemma decode_opt_map:
  "wf_map m \<Longrightarrow> opt_map k m = (case clone_map m of None \<Rightarrow> [] | Some kvs \<Rightarrow> [(k, JObj kvs)])"
  "wf_map m \<Longrightarrow> clone_map m = Some kvs \<Longrightarrow> decode_map None (JObj kvs) = Some (Some kvs)"
  by (auto simp: opt_map_def clone_map_def wf_map_def decode_map_object
      simp del: decode_map.simps(1) split: option.splits list.splits if_splits)

lemma decode_json_of_map: "wf_map m \<Longrightarrow> decode_map None (json_of_map m) = Some m"
  by (auto simp: json_of_map_def wf_map_def decode_map_object simp del: decode_map.simps(1) split: option.splits)

lemmas decode_steps = opt_string_def decode_members_append field_simps decode_opt_map(1)

definition wire_embed :: "table_embed_descriptor \<Rightarrow> table_embed_descriptor" where
  "wire_embed e = e\<lparr>te_display := clone_map (te_display e), te_schema := clone_map (te_schema e)\<rparr>"

definition wf_embed :: "table_embed_descriptor \<Rightarrow> bool" where
  "wf_embed e \<longleftrightarrow> wf_map (te_display e) \<and> wf_map (te_schema e) \<and> list_all wf_map (te_rows e)"

lemma decode_embed:
  assumes "wf_embed e"
  shows "decode_struct set_embed_field zero_embed (embed_json e) = Some (wire_embed e)"
proof -
  have wf: "wf_map (te_display e)" "wf_map (te_schema e)" using assms by (simp_all add: wf_embed_def)
  have rows: "decode_each (decode_map None) (map json_of_map (te_rows e)) = Some (te_rows e)"
    using assms decode_each_map [of "te_rows e" "decode_map None" json_of_map "\<lambda>m. m"]
    by (simp add: wf_embed_def list_all_iff decode_json_of_map)
  show ?thesis
    using wf rows
    by (auto simp: embed_json_def decode_steps set_embed_field_def zero_embed_def wire_embed_def
        decode_opt_map(2) simp del: decode_map.simps(1) split: option.splits)
qed

lemma decode_link: "decode_struct set_link_field zero_link (link_json l) = Some l"
  by (auto simp: link_json_def decode_steps set_link_field_def zero_link_def)

lemma decode_attachment:
  "decode_struct set_attachment_field zero_attachment (attachment_json a) = Some a"
  by (auto simp: attachment_json_def decode_steps set_attachment_field_def zero_attachment_def)

definition wire_block :: "document_block \<Rightarrow> document_block" where
  "wire_block b = b\<lparr>bk_attrs := clone_map (bk_attrs b), bk_embed := map_option wire_embed (bk_embed b)\<rparr>"

definition wire_document :: "document \<Rightarrow> document" where
  "wire_document d =
     \<lparr>dc_blocks = map wire_block (dc_blocks d), dc_metadata = clone_map (dc_metadata d)\<rparr>"

definition wf_block :: "document_block \<Rightarrow> bool" where
  "wf_block b \<longleftrightarrow> wf_map (bk_attrs b) \<and> (case bk_embed b of None \<Rightarrow> True | Some e \<Rightarrow> wf_embed e)"

text \<open>Every map of the document has each key once, as Go maps do.\<close>

definition wf_document :: "document \<Rightarrow> bool" where
  "wf_document d \<longleftrightarrow> list_all wf_block (dc_blocks d) \<and> wf_map (dc_metadata d)"

lemma json_not_null:
  "embed_json e \<noteq> JNull" "link_json l \<noteq> JNull" "attachment_json a \<noteq> JNull"
  by (simp_all add: embed_json_def link_json_def attachment_json_def)

lemma decode_document_block_members:
  "decode_members set_document_block_field [(''id'', JStr i), (''type'', JStr t)] b =
     Some (b\<lparr>bk_id := i, bk_type := t\<rparr>)"
  "decode_members set_document_block_field (opt_string ''text'' s) b =
     Some (if s = '''' then b else b\<lparr>bk_text := s\<rparr>)"
  "wf_map m \<Longrightarrow> bk_attrs b = None \<Longrightarrow>
     decode_members set_document_block_field (opt_map ''attrs'' m) b = Some (b\<lparr>bk_attrs := clone_map m\<rparr>)"
  "(case e of None \<Rightarrow> True | Some e \<Rightarrow> wf_embed e) \<Longrightarrow> bk_embed b = None \<Longrightarrow>
     decode_members set_document_block_field (opt_member ''embed'' embed_json e) b =
       Some (b\<lparr>bk_embed := map_option wire_embed e\<rparr>)"
  "bk_link b = None \<Longrightarrow>
     decode_members set_document_block_field (opt_member ''link'' link_json l) b = Some (b\<lparr>bk_link := l\<rparr>)"
  "bk_attachment b = None \<Longrightarrow>
     decode_members set_document_block_field (opt_member ''attachment'' attachment_json a) b =
       Some (b\<lparr>bk_attachment := a\<rparr>)"
  by (auto simp: set_document_block_field_def field_simps opt_string_def decode_opt_map opt_member_def
      decode_pointer_def json_not_null decode_embed decode_link decode_attachment
      simp del: decode_map.simps(1) decode_struct.simps split: option.splits)

lemma decode_document_block:
  assumes "wf_block b"
  shows "decode_struct set_document_block_field zero_document_block (block_json b) = Some (wire_block b)"
  using assms
  by (simp add: block_json_def decode_members_append decode_document_block_members wf_block_def
      zero_document_block_def wire_block_def del: append.append_Cons decode_members.simps(2))

text \<open>\<open>json.Unmarshal(json.Marshal(d))\<close> is \<open>d\<close>, but for empty maps, which become nil.\<close>

lemma document_json_inverse:
  assumes "wf_document d"
  shows "document_of_json (document_json d) = Some (wire_document d)"
proof -
  have "decode_each (decode_struct set_document_block_field zero_document_block) (map block_json (dc_blocks d)) =
      Some (map wire_block (dc_blocks d))"
    using assms by (intro decode_each_map) (simp add: wf_document_def list_all_iff decode_document_block)
  then show ?thesis using assms
    by (auto simp: document_of_json_def document_json_def wf_document_def set_document_field_def
        field_simps decode_opt_map wire_document_def simp del: decode_map.simps(1) split: option.splits)
qed

section \<open>The same document on the other side\<close>

text \<open>The members of a JSON object, as a free-form map.\<close>

fun object_members :: "json \<Rightarrow> gmap" where
  "object_members (JObj kvs) = Some kvs"
| "object_members _ = None"

definition collab_block :: "document_block \<Rightarrow> cblock" where
  "collab_block b =
     \<lparr>cb_id = bk_id b, cb_type = bk_type b, cb_text = bk_text b, cb_attrs = clone_map (bk_attrs b),
      cb_embed = Option.bind (bk_embed b) (object_members \<circ> embed_json),
      cb_link = Option.bind (bk_link b) (object_members \<circ> link_json),
      cb_attachment = Option.bind (bk_attachment b) (object_members \<circ> attachment_json)\<rparr>"

definition collab_document :: "document \<Rightarrow> cdocument" where
  "collab_document d =
     \<lparr>cd_blocks = map collab_block (dc_blocks d), cd_metadata = clone_map (dc_metadata d)\<rparr>"

lemma object_members_distinct:
  "\<exists>kvs. embed_json e = JObj kvs \<and> distinct (map fst kvs) \<and> kvs \<noteq> []"
  "\<exists>kvs. link_json l = JObj kvs \<and> distinct (map fst kvs) \<and> kvs \<noteq> []"
  "\<exists>kvs. attachment_json a = JObj kvs \<and> distinct (map fst kvs) \<and> kvs \<noteq> []"
  by (auto simp: embed_json_def link_json_def attachment_json_def opt_string_def opt_map_def
      split: option.splits)

lemma decode_object_members:
  "decode_map None (embed_json e) = Some (object_members (embed_json e))"
  "decode_map None (link_json l) = Some (object_members (link_json l))"
  "decode_map None (attachment_json a) = Some (object_members (attachment_json a))"
  using object_members_distinct(1) [of e] object_members_distinct(2) [of l]
    object_members_distinct(3) [of a]
  by (auto simp: decode_map_object simp del: decode_map.simps(1))

lemma decode_cblock_members:
  "decode_members set_block_field [(''id'', JStr i), (''type'', JStr t)] b = Some (b\<lparr>cb_id := i, cb_type := t\<rparr>)"
  "decode_members set_block_field (opt_string ''text'' s) b = Some (if s = '''' then b else b\<lparr>cb_text := s\<rparr>)"
  "wf_map m \<Longrightarrow> cb_attrs b = None \<Longrightarrow>
     decode_members set_block_field (opt_map ''attrs'' m) b = Some (b\<lparr>cb_attrs := clone_map m\<rparr>)"
  "cb_embed b = None \<Longrightarrow>
     decode_members set_block_field (opt_member ''embed'' embed_json e) b =
       Some (b\<lparr>cb_embed := Option.bind e (object_members \<circ> embed_json)\<rparr>)"
  "cb_link b = None \<Longrightarrow>
     decode_members set_block_field (opt_member ''link'' link_json l) b =
       Some (b\<lparr>cb_link := Option.bind l (object_members \<circ> link_json)\<rparr>)"
  "cb_attachment b = None \<Longrightarrow>
     decode_members set_block_field (opt_member ''attachment'' attachment_json a) b =
       Some (b\<lparr>cb_attachment := Option.bind a (object_members \<circ> attachment_json)\<rparr>)"
  by (auto simp: set_block_field_def field_simps opt_string_def decode_opt_map opt_member_def
      decode_object_members simp del: decode_map.simps(1) split: option.splits)

lemma decode_cblock:
  assumes "wf_block b"
  shows "decode_struct set_block_field zero_block (block_json b) = Some (collab_block b)"
  using assms
  by (simp add: block_json_def decode_members_append decode_cblock_members wf_block_def
      zero_block_def collab_block_def del: append.append_Cons decode_members.simps(2))

lemma collab_document_decoded:
  assumes "wf_document d"
  shows "cdocument_of_json (document_json d) = Some (collab_document d)"
proof -
  have "decode_each (decode_struct set_block_field zero_block) (map block_json (dc_blocks d)) =
      Some (map collab_block (dc_blocks d))"
    using assms by (intro decode_each_map) (simp add: wf_document_def list_all_iff decode_cblock)
  then show ?thesis using assms
    by (auto simp: cdocument_of_json_def document_json_def wf_document_def set_cdocument_field_def
        field_simps decode_opt_map collab_document_def simp del: decode_map.simps(1) split: option.splits)
qed

lemma opt_map_members:
  "\<exists>kvs. v = JObj kvs \<and> distinct (map fst kvs) \<and> kvs \<noteq> [] \<Longrightarrow> opt_map k (object_members v) = [(k, v)]"
  by (auto simp: opt_map_def)

lemma opt_map_object:
  "opt_map k (Option.bind e (object_members \<circ> embed_json)) = opt_member k embed_json e"
  "opt_map k (Option.bind l (object_members \<circ> link_json)) = opt_member k link_json l"
  "opt_map k (Option.bind a (object_members \<circ> attachment_json)) = opt_member k attachment_json a"
  using opt_map_members [OF object_members_distinct(1)] opt_map_members [OF object_members_distinct(2)]
    opt_map_members [OF object_members_distinct(3)]
  by (simp_all add: opt_member_def opt_map_def [of k None] split: option.split)

lemma opt_map_clone [simp]: "opt_map k (clone_map m) = opt_map k m"
  by (auto simp: opt_map_def clone_map_def split: option.splits list.splits)

lemma cblock_json_collab: "cblock_json (collab_block b) = block_json b"
  by (simp add: cblock_json_def block_json_def collab_block_def opt_map_object)

lemma cdocument_json_collab: "cdocument_json (collab_document d) = document_json d"
  by (simp add: cdocument_json_def document_json_def collab_document_def cblock_json_collab)

text \<open>
  C26: A document survives the trip to the collaboration service and back: the service decodes
  what the page service marshals, and what it marshals of it is, decoded by the page service,
  the same document with empty maps nil. Nothing of an embed, a link or an attachment gets
  lost on the way, although the collaboration service has no types for them.
\<close>

theorem document_round_trip:
  assumes "wf_document d"
  shows "\<exists>c. cdocument_of_json (document_json d) = Some c
     \<and> document_of_json (cdocument_json c) = Some (wire_document d)
     \<and> map cb_id (cd_blocks c) = map bk_id (dc_blocks d)"
proof (intro exI conjI)
  show "cdocument_of_json (document_json d) = Some (collab_document d)"
    using assms by (rule collab_document_decoded)
  show "document_of_json (cdocument_json (collab_document d)) = Some (wire_document d)"
    using document_json_inverse [OF assms] by (simp only: cdocument_json_collab)
  show "map cb_id (cd_blocks (collab_document d)) = map bk_id (dc_blocks d)"
    by (simp add: collab_document_def collab_block_def)
qed

theorem document_round_trip_witness:
  "\<exists>c. cdocument_of_json (document_json sample_document) = Some c
     \<and> document_of_json (cdocument_json c) = Some (wire_document sample_document)"
proof -
  have "wf_document sample_document" by code_simp
  from document_round_trip [OF this] show ?thesis by blast
qed

end
