(* ===== verification/PageGrpc.thy ===== *)
theory PageGrpc
  imports CollabFacts Wire PageRest
begin

text \<open>
  How the collaboration service reaches the page service: the messages of
  \<^verbatim>\<open>pkg/contracts/pagev1/page.go\<close>, the server \<^verbatim>\<open>page-service/api/grpc/server.go\<close> and the client
  \<^verbatim>\<open>collaboration-service/internal/adapters/page_client.go\<close>. A message carries a document as
  the JSON of its sender. A call that the transport loses is not modelled: the page service
  answers every call, in the order in which they are made.
\<close>

section \<open>Messages\<close>

record identity_context =
  ic_request :: string
  ic_correlation :: string
  ic_actor :: string
  ic_workspace :: string

record head_message =
  hm_identity :: identity_context
  hm_page :: string

record head_reply =
  hy_page :: string
  hy_workspace :: string
  hy_revision :: string
  hy_no :: int
  hy_document :: json

record commit_message =
  mm_identity :: identity_context
  mm_page :: string
  mm_base :: int
  mm_patch :: string
  mm_ops :: "patch_op list"
  mm_document :: json

record commit_reply =
  my_revision :: string
  my_no :: int
  my_hash :: string

datatype grpc_code = NotFound | Internal | InvalidArgument | Aborted | FailedPrecondition

type_synonym grpc_error = "grpc_code \<times> string"

section \<open>The server\<close>

text \<open>The subject of a call: the actor and workspace of the message, no roles, not authenticated.\<close>

definition grpc_request :: "identity_context \<Rightarrow> request" where
  "grpc_request ic =
     \<lparr>rq_workspace = ic_workspace ic, rq_actor = ic_actor ic, rq_token = '''', rq_roles = [],
      rq_authenticated = False\<rparr>"

fun head_error :: "page_error \<Rightarrow> grpc_error" where
  "head_error ErrPageNotFound = (NotFound, page_error_text ErrPageNotFound)"
| "head_error err = (Internal, page_error_text err)"

definition grpc_get_revision_head ::
  "('s, 'r) deps \<Rightarrow> head_message \<Rightarrow> ('s, 'r) service \<Rightarrow> (grpc_error + head_reply) \<times> ('s, 'r) service" where
  "grpc_get_revision_head dp m sv =
     (case get_revision_head dp (grpc_request (hm_identity m)) (hm_page m) sv of
        (Inl err, sv) \<Rightarrow> (Inl (head_error err), sv)
      | (Inr h, sv) \<Rightarrow>
          (Inr \<lparr>hy_page = hp_page h, hy_workspace = hp_workspace h, hy_revision = hp_revision h,
                hy_no = hp_no h, hy_document = document_json (hp_document h)\<rparr>, sv))"

fun commit_error :: "page_error \<Rightarrow> grpc_error" where
  "commit_error (RebaseRequired payload) = (Aborted, page_error_text (RebaseRequired payload))"
| "commit_error ErrPageArchived = (FailedPrecondition, page_error_text ErrPageArchived)"
| "commit_error (ErrValidation d) = (InvalidArgument, page_error_text (ErrValidation d))"
| "commit_error ErrPageNotFound = (NotFound, page_error_text ErrPageNotFound)"
| "commit_error err = (Internal, page_error_text err)"

definition commit_request_of :: "commit_message \<Rightarrow> document \<Rightarrow> commit_input" where
  "commit_request_of m snapshot =
     request.extend (grpc_request (mm_identity m))
       (commit_input.fields (mm_page m) (mm_base m) (mm_patch m) snapshot)"

definition grpc_commit ::
  "('s, 'r) deps \<Rightarrow> gotime \<Rightarrow> commit_message \<Rightarrow> ('s, 'r) service \<Rightarrow>
   (grpc_error + commit_reply) \<times> ('s, 'r) service" where
  "grpc_commit dp now m sv =
     (case document_of_json (mm_document m) of
        None \<Rightarrow> (Inl (InvalidArgument, ''invalid document''), sv)
      | Some snapshot \<Rightarrow>
          (case commit_collaborative_revision dp now (commit_request_of m snapshot) sv of
             (Inl err, sv) \<Rightarrow> (Inl (commit_error err), sv)
           | (Inr p, sv) \<Rightarrow>
               (Inr \<lparr>my_revision = cp_revision p, my_no = cp_no p, my_hash = cp_hash p\<rparr>, sv)))"

section \<open>The client\<close>

definition rpc_error_of :: "grpc_error \<Rightarrow> rpc_error" where
  "rpc_error_of err = (if fst err = Aborted then RpcAborted (snd err) else RpcFailed (snd err))"

definition identity_of :: "string \<Rightarrow> string \<Rightarrow> string \<Rightarrow> string \<Rightarrow> identity_context" where
  "identity_of requestID correlationID actor workspaceID =
     \<lparr>ic_request = requestID, ic_correlation = correlationID, ic_actor = actor, ic_workspace = workspaceID\<rparr>"

definition client_head ::
  "(head_message \<Rightarrow> 'q \<Rightarrow> (grpc_error + head_reply) \<times> 'q) \<Rightarrow> head_input \<Rightarrow> 'q \<Rightarrow>
   (rpc_error + page_head) \<times> 'q" where
  "client_head call input q =
     (case call \<lparr>hm_identity = identity_of (hi_request input) (hi_correlation input) (hi_actor input)
                   (hi_workspace input), hm_page = hi_page input\<rparr> q of
        (Inl err, q) \<Rightarrow> (Inl (rpc_error_of err), q)
      | (Inr reply, q) \<Rightarrow>
          (case cdocument_of_json (hy_document reply) of
             None \<Rightarrow> (Inl (RpcFailed ''invalid document''), q)
           | Some d \<Rightarrow>
               (Inr \<lparr>ph_page = hy_page reply, ph_workspace = hy_workspace reply,
                     ph_revision = hy_revision reply, ph_no = hy_no reply, ph_document = d\<rparr>, q)))"

definition commit_message_of :: "commit_revision_input \<Rightarrow> commit_message" where
  "commit_message_of input =
     \<lparr>mm_identity = identity_of (ki_request input) (ki_correlation input) (ki_actor input)
        (ki_workspace input), mm_page = ki_page input, mm_base = ki_base input,
      mm_patch = ki_patch input, mm_ops = ki_ops input,
      mm_document = cdocument_json (ki_document input)\<rparr>"

definition client_commit ::
  "(commit_message \<Rightarrow> 'q \<Rightarrow> (grpc_error + commit_reply) \<times> 'q) \<Rightarrow> commit_revision_input \<Rightarrow> 'q \<Rightarrow>
   (rpc_error + commit_revision_result) \<times> 'q" where
  "client_commit call input q =
     (case call (commit_message_of input) q of
        (Inl err, q) \<Rightarrow> (Inl (rpc_error_of err), q)
      | (Inr reply, q) \<Rightarrow>
          (Inr \<lparr>kr_revision = my_revision reply, kr_no = my_no reply, kr_hash = my_hash reply\<rparr>, q))"

definition page_client_of :: "('s, 'r) deps \<Rightarrow> gotime \<Rightarrow> ('s, 'r) service page_client" where
  "page_client_of dp now =
     \<lparr>pc_head = client_head (grpc_get_revision_head dp), pc_commit = client_commit (grpc_commit dp now)\<rparr>"

lemma page_client_of_simps [simp]:
  "pc_head (page_client_of dp now) = client_head (grpc_get_revision_head dp)"
  "pc_commit (page_client_of dp now) = client_commit (grpc_commit dp now)"
  by (simp_all add: page_client_of_def)

lemma grpc_request_simps [simp]:
  "rq_workspace (grpc_request ic) = ic_workspace ic" "rq_actor (grpc_request ic) = ic_actor ic"
  "rq_roles (grpc_request ic) = []" "\<not> rq_authenticated (grpc_request ic)"
  by (simp_all add: grpc_request_def)

lemma commit_request_simps [simp]:
  "cm_page (commit_request_of m d) = mm_page m" "cm_base (commit_request_of m d) = mm_base m"
  "cm_patch (commit_request_of m d) = mm_patch m" "cm_document (commit_request_of m d) = d"
  "\<not> rq_authenticated (commit_request_of m d)"
  by (simp_all add: commit_request_of_def request.defs commit_input.defs grpc_request_def)

lemma commit_message_simps [simp]:
  "mm_page (commit_message_of i) = ki_page i" "mm_base (commit_message_of i) = ki_base i"
  "mm_patch (commit_message_of i) = ki_patch i"
  "mm_document (commit_message_of i) = cdocument_json (ki_document i)"
  by (simp_all add: commit_message_of_def)

lemma rpc_aborted: "rpc_error_of err = RpcAborted msg \<longleftrightarrow> err = (Aborted, msg)"
  by (cases err) (auto simp: rpc_error_of_def)

text \<open>What an answered call did on the page service.\<close>

lemma client_commit_Inr:
  assumes "client_commit (grpc_commit dp now) input q = (Inr res, q')"
  obtains snapshot p where "document_of_json (cdocument_json (ki_document input)) = Some snapshot"
    and "commit_collaborative_revision dp now (commit_request_of (commit_message_of input) snapshot) q = (Inr p, q')"
    and "kr_revision res = cp_revision p" and "kr_no res = cp_no p"
  using assms
  by (auto simp: client_commit_def grpc_commit_def
      split: prod.splits sum.splits option.splits)

lemma client_head_Inr:
  assumes "client_head (grpc_get_revision_head dp) input q = (Inr head, q')"
  obtains h where "get_revision_head dp (grpc_request (identity_of (hi_request input) (hi_correlation input)
        (hi_actor input) (hi_workspace input))) (hi_page input) q = (Inr h, q')"
    and "cdocument_of_json (document_json (hp_document h)) = Some (ph_document head)"
    and "ph_no head = hp_no h" and "ph_revision head = hp_revision h"
    and "ph_page head = hp_page h" and "ph_workspace head = hp_workspace h"
  using assms
  by (auto simp: client_head_def grpc_get_revision_head_def
      split: prod.splits sum.splits option.splits)

end
