(* ===== verification/Marshalling.thy ===== *)
theory Marshalling
  imports Wire
begin

text \<open>
  What survives marshalling, whatever maps a document has: the identifiers, types and texts of its blocks, from
  the page service to the collaboration service, back, and into a column of a table and out of it; a page
  document that was marshalled is always read back without an error.
\<close>

section \<open>Blocks on both sides\<close>

definition cblock_texts :: "cdocument \<Rightarrow> (string \<times> string \<times> string) list" where
  "cblock_texts d = map (\<lambda>b. (cb_id b, cb_type b, cb_text b)) (cd_blocks d)"

text \<open>Decoding what the collaboration service marshals keeps them, whatever else is in a block.\<close>

lemma decode_members_keep:
  assumes "decode_members set_document_block_field kvs b = Some b'"
    and "\<And>k. k \<in> set (map fst kvs) \<Longrightarrow> \<not> is_field ''id'' k \<and> \<not> is_field ''type'' k \<and> \<not> is_field ''text'' k"
  shows "bk_id b' = bk_id b \<and> bk_type b' = bk_type b \<and> bk_text b' = bk_text b"
  using assms
proof (induction kvs arbitrary: b)
  case (Cons kv kvs)
  obtain k v where kv: "kv = (k, v)" by fastforce
  obtain c where step: "set_document_block_field k v b = Some c"
    and rest: "decode_members set_document_block_field kvs c = Some b'"
    using Cons.prems(1) kv by (auto split: option.splits)
  have "\<not> is_field ''id'' k \<and> \<not> is_field ''type'' k \<and> \<not> is_field ''text'' k"
    using Cons.prems(2) kv by simp
  then have "bk_id c = bk_id b \<and> bk_type c = bk_type b \<and> bk_text c = bk_text b"
    using step by (auto simp: set_document_block_field_def split: if_splits)
  then show ?case using Cons.IH [OF rest] Cons.prems(2) by simp
qed simp

lemma decode_cblock_texts:
  assumes "decode_struct set_document_block_field zero_document_block (cblock_json b) = Some b'"
  shows "bk_id b' = cb_id b \<and> bk_type b' = cb_type b \<and> bk_text b' = cb_text b"
proof -
  let ?rest = "opt_map ''attrs'' (cb_attrs b) @ opt_map ''embed'' (cb_embed b) @ opt_map ''link'' (cb_link b)
      @ opt_map ''attachment'' (cb_attachment b)"
  have names: "\<not> is_field ''id'' k \<and> \<not> is_field ''type'' k \<and> \<not> is_field ''text'' k" if "k \<in> set (map fst ?rest)" for k
    using that by (auto simp: opt_map_def field_simps split: option.splits if_splits)
  obtain c where c: "decode_members set_document_block_field
      ([(''id'', JStr (cb_id b)), (''type'', JStr (cb_type b))] @ opt_string ''text'' (cb_text b)) zero_document_block
      = Some c" and rest: "decode_members set_document_block_field ?rest c = Some b'"
    using assms
    by (auto simp: cblock_json_def decode_members_append simp del: append.append_Cons decode_members.simps(2)
        split: option.splits)
  have "bk_id c = cb_id b \<and> bk_type c = cb_type b \<and> bk_text c = cb_text b"
    using c by (auto simp: decode_members_append decode_document_block_members zero_document_block_def
        simp del: append.append_Cons decode_members.simps(2) split: if_splits)
  then show ?thesis using decode_members_keep [OF rest names] by simp
qed

lemma decode_each_texts:
  "decode_each (decode_struct set_document_block_field zero_document_block) (map cblock_json bs) = Some bs' \<Longrightarrow>
     map (\<lambda>b. (bk_id b, bk_type b, bk_text b)) bs' = map (\<lambda>b. (cb_id b, cb_type b, cb_text b)) bs"
  by (induction bs arbitrary: bs') (auto split: option.splits dest: decode_cblock_texts)

lemma decoded_texts:
  assumes "document_of_json (cdocument_json c) = Some d"
  shows "block_texts d = cblock_texts c"
proof -
  obtain bs where bs: "decode_each (decode_struct set_document_block_field zero_document_block)
      (map cblock_json (cd_blocks c)) = Some bs" and "dc_blocks d = bs"
    using assms
    by (auto simp: document_of_json_def cdocument_json_def set_document_field_def opt_map_def field_simps
        split: option.splits if_splits)
  then show ?thesis using decode_each_texts [OF bs] by (simp add: block_texts_def texts_of_def cblock_texts_def)
qed

section \<open>Texts of a page in a room\<close>

lemma decode_block_keep:
  assumes "decode_members set_block_field kvs b = Some b'"
    and "\<And>k. k \<in> set (map fst kvs) \<Longrightarrow> \<not> is_field ''id'' k \<and> \<not> is_field ''type'' k \<and> \<not> is_field ''text'' k"
  shows "cb_id b' = cb_id b \<and> cb_type b' = cb_type b \<and> cb_text b' = cb_text b"
  using assms
proof (induction kvs arbitrary: b)
  case (Cons kv kvs)
  obtain k v where kv: "kv = (k, v)" by fastforce
  obtain c where step: "set_block_field k v b = Some c" and rest: "decode_members set_block_field kvs c = Some b'"
    using Cons.prems(1) kv by (auto split: option.splits)
  have "\<not> is_field ''id'' k \<and> \<not> is_field ''type'' k \<and> \<not> is_field ''text'' k"
    using Cons.prems(2) kv by simp
  then have "cb_id c = cb_id b \<and> cb_type c = cb_type b \<and> cb_text c = cb_text b"
    using step by (auto simp: set_block_field_def split: if_splits)
  then show ?case using Cons.IH [OF rest] Cons.prems(2) by simp
qed simp

lemma decode_block_texts:
  assumes "decode_struct set_block_field zero_block (block_json b) = Some b'"
  shows "cb_id b' = bk_id b \<and> cb_type b' = bk_type b \<and> cb_text b' = bk_text b"
proof -
  let ?rest = "opt_map ''attrs'' (bk_attrs b) @ opt_member ''embed'' embed_json (bk_embed b)
      @ opt_member ''link'' link_json (bk_link b) @ opt_member ''attachment'' attachment_json (bk_attachment b)"
  have names: "\<not> is_field ''id'' k \<and> \<not> is_field ''type'' k \<and> \<not> is_field ''text'' k" if "k \<in> set (map fst ?rest)" for k
    using that by (auto simp: opt_map_def opt_member_def field_simps split: option.splits if_splits)
  obtain c where c: "decode_members set_block_field
      ([(''id'', JStr (bk_id b)), (''type'', JStr (bk_type b))] @ opt_string ''text'' (bk_text b)) zero_block = Some c"
    and rest: "decode_members set_block_field ?rest c = Some b'"
    using assms
    by (auto simp: block_json_def decode_members_append simp del: append.append_Cons decode_members.simps(2)
        split: option.splits)
  have "cb_id c = bk_id b \<and> cb_type c = bk_type b \<and> cb_text c = bk_text b"
    using c by (auto simp: decode_members_append decode_cblock_members zero_block_def
        simp del: append.append_Cons decode_members.simps(2) split: if_splits)
  then show ?thesis using decode_block_keep [OF rest names] by simp
qed

lemma head_texts:
  assumes "cdocument_of_json (document_json d) = Some c"
  shows "cblock_texts c = block_texts d"
proof -
  have each: "decode_each (decode_struct set_block_field zero_block) (map block_json bs) = Some bs' \<Longrightarrow>
      map (\<lambda>b. (cb_id b, cb_type b, cb_text b)) bs' = texts_of bs" for bs bs'
    by (induction bs arbitrary: bs') (auto simp: texts_of_def split: option.splits dest: decode_block_texts)
  obtain bs where "decode_each (decode_struct set_block_field zero_block) (map block_json (dc_blocks d)) = Some bs"
    and "cd_blocks c = bs"
    using assms
    by (auto simp: cdocument_of_json_def document_json_def set_cdocument_field_def opt_map_def field_simps
        split: option.splits if_splits)
  then show ?thesis using each by (simp add: block_texts_def cblock_texts_def)
qed

section \<open>Reading back a page document\<close>

lemma decode_members_total:
  "list_all (\<lambda>(k, v). \<forall>x. set_field k v x \<noteq> None) kvs \<Longrightarrow> decode_members set_field kvs x \<noteq> None"
  by (induction kvs arbitrary: x) (auto split: option.splits)

lemma decode_each_total: "(\<And>x. f (g x) \<noteq> None) \<Longrightarrow> decode_each f (map g xs) \<noteq> None"
  by (induction xs) (auto split: option.splits)

lemma decode_pointer_total:
  assumes "list_all (\<lambda>(k, v). \<forall>x. set_field k v x \<noteq> None) kvs"
  shows "decode_pointer set_field zero old (JObj kvs) \<noteq> None"
  using decode_members_total [OF assms] by (auto simp: decode_pointer_def split: option.splits)

lemma decode_json_of_map_total: "decode_map None (json_of_map m) \<noteq> None"
  by (cases m) (auto simp: json_of_map_def)

lemmas member_defs = opt_string_def opt_map_def opt_member_def field_simps

lemma embed_total: "decode_pointer set_embed_field zero_embed old (embed_json e) \<noteq> None"
  unfolding embed_json_def
proof (rule decode_pointer_total)
  have "decode_each (decode_map None) (map json_of_map (te_rows e)) \<noteq> None"
    by (intro decode_each_total decode_json_of_map_total)
  then show "list_all (\<lambda>(k, v). \<forall>x. set_embed_field k v x \<noteq> None)
     ([(''mws_table_id'', JStr (te_table e))] @ opt_string ''title'' (te_title e)
      @ opt_map ''display_config'' (te_display e) @ opt_string ''preview_state'' (te_preview e)
      @ opt_map ''schema'' (te_schema e)
      @ (if te_rows e = [] then [] else [(''preview_rows'', JArr (map json_of_map (te_rows e)))]))"
    by (auto simp: set_embed_field_def member_defs split: option.splits)
qed

lemma link_total: "decode_pointer set_link_field zero_link old (link_json l) \<noteq> None"
  unfolding link_json_def by (rule decode_pointer_total) (auto simp: set_link_field_def member_defs)

lemma attachment_total: "decode_pointer set_attachment_field zero_attachment old (attachment_json a) \<noteq> None"
  unfolding attachment_json_def by (rule decode_pointer_total) (auto simp: set_attachment_field_def member_defs)

lemma block_total: "decode_struct set_document_block_field x (block_json b) \<noteq> None"
  unfolding block_json_def decode_struct.simps
  by (rule decode_members_total)
     (auto simp: set_document_block_field_def member_defs embed_total [simplified] link_total [simplified]
       attachment_total [simplified] split: option.splits)

text \<open>What was marshalled is unmarshalled without an error, whatever maps the document has.\<close>

lemma document_total: "document_of_json (document_json d) \<noteq> None"
proof -
  have "decode_each (decode_struct set_document_block_field zero_document_block) (map block_json (dc_blocks d)) \<noteq> None"
    by (intro decode_each_total block_total)
  then show ?thesis
    unfolding document_of_json_def document_json_def decode_struct.simps
    by (intro decode_members_total) (auto simp: set_document_field_def member_defs split: option.splits)
qed

lemma document_texts:
  assumes "document_of_json (document_json d) = Some d'"
  shows "block_texts d' = block_texts d"
proof -
  have "document_of_json (cdocument_json (collab_document d)) = Some d'" using assms by (simp add: cdocument_json_collab)
  from decoded_texts [OF this] show ?thesis
    by (simp add: cblock_texts_def collab_document_def collab_block_def block_texts_def texts_of_def comp_def)
qed

end
