(* ===== verification/CollabPage.thy ===== *)
theory CollabPage
  imports PageGrpc PageBehaviour Marshalling
begin

text \<open>
  The two services together: the collaboration service on its in-memory stores, its page
  client answered by a page service on its in-memory store. What is compared is the blocks'
  identifiers, types and texts: embeds, links and attachments are free-form in a room and
  typed on a page, so a page drops members of them that a room keeps.
\<close>

section \<open>An accepted commit\<close>

text \<open>A commit that is not answered with an earlier revision stores its document as the new head.\<close>

lemma commit_accepted:
  assumes "mem_service_ok (dp_gen dp) sv" and "gen_ok (dp_gen dp)" and "dp_store dp = memory_ops"
    and "int (sv_next sv) < max_int64" and "commit_guard dp input sv = None"
    and "commit_collaborative_revision dp now input sv = (Inr p, sv')"
  obtains cur r where "ms_pages (sv_store sv) (cm_page input) = Some cur"
    and "pg_draft_no cur = cm_base input" and "pg_status cur \<noteq> StatusArchived"
    and "mem_get_revision (sv_store sv') (cm_page input) ViewDraft = Inr r"
    and "mem_get_revision_by_id (sv_store sv') (cm_page input) (rv_id r) = Inr r"
    and "rv_no r = max (pg_draft_no cur) (pg_published_no cur) + 1"
    and "cp_revision p = rv_id r" and "cp_no p = rv_no r"
    and "block_texts (rv_document r) = block_texts (cm_document input)"
    and "keeps_revisions memory_ops (sv_store sv) (sv_store sv')"
    and "other_pages_same memory_ops (cm_page input) (sv_store sv) (sv_store sv')"
    and "mem_service_ok (dp_gen dp) sv'"
proof -
  obtain cur plan sv1 where prep: "commit_prepare dp now input sv = (Inr (cur, plan), sv1)"
    and commit: "commit_commit dp now input cur plan sv1 = (Inr p, sv')"
    using assms(5,6)
    by (auto simp: commit_collaborative_revision_def commit_prepare_def split: prod.splits sum.splits)
  obtain b where cur: "so_get_page memory_ops (sv_store sv) (cm_page input) = Inr cur"
    and head: "pg_draft_no cur = cm_base input" "pg_status cur \<noteq> StatusArchived"
    and plan: "commit_plan dp now input cur b sv = (Inr plan, sv1)"
    using commit_prepare_cases [OF prep] assms(3) by auto
  have inv: "mem_inv (sv_store sv)" using assms(1) by (simp add: service_ok_def)
  have id: "cm_page input = pg_id cur" using mem.page_key [OF inv cur] by simp
  note facts = commit_plan_facts [OF plan id]
  obtain s' where exec: "so_execute memory_ops (draft_tx (cm_base input) (wp_page plan) (wp_revision plan)
      (wp_idempotency plan) (wp_references plan) (wp_events plan)) (sv_store sv) = (None, s')"
    and sv': "sv_store sv' = s'" "sv_next sv' = sv_next sv1"
    and p: "cp_revision p = rv_id (wp_revision plan)" "cp_no p = rv_no (wp_revision plan)"
    using commit facts(2) assms(3)
    by (auto simp: commit_commit_def split: prod.splits option.splits store_error.splits)
  note stored = mem.draft_plan_stored [OF assms(1,2,4) cur facts(1) exec sv']
  show thesis
    by (rule that [of cur "wp_revision plan"])
      (use cur head stored sv' p hydrated_texts [OF facts(4)] in
        \<open>simp_all add: mem_get_page_iff\<close>)
qed

lemma commit_not_repeated:
  assumes "commit_collaborative_revision dp now input sv = (Inr p, sv')"
    and "trim_space (cm_patch input) \<noteq> '''' \<Longrightarrow>
      saved_before dp (cm_page input) (collab_idempotency_key (trim_space (cm_patch input))) sv = None"
  shows "commit_guard dp input sv = None"
  using assms
  by (auto simp: commit_collaborative_revision_def commit_prepare_def commit_guard_def Let_def
      split: if_splits option.splits)

section \<open>Patches of an open room\<close>

text \<open>The collaborators: in-memory stores, and the page service behind its gRPC interface.\<close>

definition collab_with :: "('s, 'r) deps \<Rightarrow> gotime \<Rightarrow> id_gen \<Rightarrow> (mem_rooms, mem_presence, ('s, 'r) service) collab_deps" where
  "collab_with dp now gen =
     \<lparr>ck_rooms = memory_room_ops, ck_presence = memory_presence_ops, ck_page = page_client_of dp now, ck_gen = gen\<rparr>"

lemma collab_with_simps [simp]:
  "ck_rooms (collab_with dp now gen) = memory_room_ops"
  "ck_presence (collab_with dp now gen) = memory_presence_ops"
  "ck_page (collab_with dp now gen) = page_client_of dp now"
  "ck_gen (collab_with dp now gen) = gen"
  by (simp_all add: collab_with_def)

definition collab_ok :: "id_gen \<Rightarrow> (mem_rooms, mem_presence, (mem_store, 'r) service) collab \<Rightarrow> bool" where
  "collab_ok gen sv \<longleftrightarrow> mem_rooms_keyed (cl_rooms sv) \<and> mem_presence_inv (cl_presence sv)
     \<and> mem_service_ok gen (cl_page sv)"

abbreviation patch_saved :: "('s, 'r) deps \<Rightarrow> submit_input \<Rightarrow> ('s, 'r) service \<Rightarrow> page_revision option" where
  "patch_saved dp input q \<equiv>
     saved_before dp (sb_page input) (collab_idempotency_key (trim_space (sb_patch input))) q"

abbreviation room_of :: "submit_input \<Rightarrow> string" where
  "room_of input \<equiv> room_key (sb_workspace input) (sb_page input)"

text \<open>An accepted patch of an open room was committed on the page of the room.\<close>

lemma open_room_accepted:
  fixes sv :: "(mem_rooms, mem_presence, (mem_store, 'r) service) collab"
  assumes "collab_ok gen' sv" and "mem_room (cl_rooms sv) now (room_of input) = Some st"
    and "submit_patch (collab_with dp now gen) cx now input sv = (Inr (Accepted pa), sv')"
    and "0 \<le> sb_ttl input"
  obtains d snapshot m p where "rm_no st = sb_base input" and "apply_patch (rm_document st) (sb_ops input) = Inr d"
    and "document_of_json (cdocument_json d) = Some snapshot" and "block_texts snapshot = cblock_texts d"
    and "m = commit_message_of (commit_input_of cx input d)"
    and "commit_collaborative_revision dp now (commit_request_of m snapshot) (cl_page sv) = (Inr p, cl_page sv')"
    and "pt_no pa = cp_no p" and "pt_revision pa = cp_revision p"
    and "mem_room (cl_rooms sv') now (room_of input) = Some (st\<lparr>rm_document := d, rm_revision := cp_revision p,
           rm_no := cp_no p, rm_last_patch := trim_space (sb_patch input), rm_expires := now + sb_ttl input\<rparr>)"
    and "\<And>t k. k \<noteq> room_of input \<Longrightarrow> mem_room (cl_rooms sv') t k = mem_room (cl_rooms sv) t k"
    and "sb_session input \<in> mem_live (cl_presence sv) now (room_of input)"
proof -
  have ok: "ck_rooms (collab_with dp now gen) = memory_room_ops" "ck_presence (collab_with dp now gen) = memory_presence_ops"
    "mem_rooms_keyed (cl_rooms sv)" "mem_presence_inv (cl_presence sv)"
    using assms(1) by (simp_all add: collab_ok_def)
  from ok assms(3) show thesis
  proof (cases rule: mem_collab.submit_patch_cases)
    case (accepted st' d res q)
    have st': "st' = st" "q = cl_page sv" using accepted(4) assms(2) by (simp_all add: base_room_def)
    obtain snapshot p where call: "document_of_json (cdocument_json d) = Some snapshot"
        "commit_collaborative_revision dp now
           (commit_request_of (commit_message_of (commit_input_of cx input d)) snapshot) (cl_page sv) = (Inr p, cl_page sv')"
      and res: "kr_revision res = cp_revision p" "kr_no res = cp_no p"
      using accepted(5) st'(2) by (auto elim: client_commit_Inr simp: commit_input_of_def)
    show thesis
      by (rule that [OF _ accepted(3) [unfolded st'(1)] call(1) decoded_texts [OF call(1)] refl call(2)])
        (use accepted st' res assms(4) in \<open>auto simp: patched_room_def\<close>)
  next
    case (aborted st d msg q q' sv'')
    then show thesis
      by (auto simp: submit_aborted_def save_room_then_def split: prod.splits sum.splits option.splits)
  qed auto
qed

lemma open_room_patch_stored:
  fixes sv sv' :: "(mem_rooms, mem_presence, (mem_store, 'r) service) collab"
  assumes "collab_ok (dp_gen dp) sv" and "gen_ok (dp_gen dp)" and "dp_store dp = memory_ops"
    and "mem_room (cl_rooms sv) now (room_of input) = Some st" and "0 \<le> sb_ttl input"
    and "patch_saved dp input (cl_page sv) = None" and "int (sv_next (cl_page sv)) < max_int64"
    and "submit_patch (collab_with dp now gen) cx now input sv = (Inr (Accepted pa), sv')"
  shows "\<exists>cur d r st'. rm_no st = sb_base input
     \<and> ms_pages (sv_store (cl_page sv)) (sb_page input) = Some cur \<and> pg_draft_no cur = sb_base input
     \<and> apply_patch (rm_document st) (sb_ops input) = Inr d
     \<and> mem_get_revision (sv_store (cl_page sv')) (sb_page input) ViewDraft = Inr r
     \<and> rv_no r = max (pg_draft_no cur) (pg_published_no cur) + 1
     \<and> pt_no pa = rv_no r \<and> pt_revision pa = rv_id r
     \<and> block_texts (rv_document r) = cblock_texts d
     \<and> mem_room (cl_rooms sv') now (room_of input) = Some st'
     \<and> rm_no st' = rv_no r \<and> rm_revision st' = rv_id r \<and> rm_document st' = d
     \<and> keeps_revisions memory_ops (sv_store (cl_page sv)) (sv_store (cl_page sv'))
     \<and> other_pages_same memory_ops (sb_page input) (sv_store (cl_page sv)) (sv_store (cl_page sv'))
     \<and> (\<forall>t k. k \<noteq> room_of input \<longrightarrow> mem_room (cl_rooms sv') t k = mem_room (cl_rooms sv) t k)"
proof (rule open_room_accepted [OF assms(1,4,8,5)])
  fix d snapshot m p
  assume base: "rm_no st = sb_base input" and d: "apply_patch (rm_document st) (sb_ops input) = Inr d"
    and texts: "block_texts snapshot = cblock_texts d" and m: "m = commit_message_of (commit_input_of cx input d)"
    and commit: "commit_collaborative_revision dp now (commit_request_of m snapshot) (cl_page sv) = (Inr p, cl_page sv')"
    and pa: "pt_no pa = cp_no p" "pt_revision pa = cp_revision p"
    and after: "mem_room (cl_rooms sv') now (room_of input) = Some (st\<lparr>rm_document := d, rm_revision := cp_revision p,
           rm_no := cp_no p, rm_last_patch := trim_space (sb_patch input), rm_expires := now + sb_ttl input\<rparr>)"
    and others: "\<And>t k. k \<noteq> room_of input \<Longrightarrow> mem_room (cl_rooms sv') t k = mem_room (cl_rooms sv) t k"
  have page: "mem_service_ok (dp_gen dp) (cl_page sv)" using assms(1) by (simp add: collab_ok_def)
  have input: "cm_page (commit_request_of m snapshot) = sb_page input"
    "cm_base (commit_request_of m snapshot) = sb_base input"
    "cm_patch (commit_request_of m snapshot) = sb_patch input"
    using m by (simp_all add: commit_input_of_def)
  have guard: "commit_guard dp (commit_request_of m snapshot) (cl_page sv) = None"
    using commit assms(6) input by (intro commit_not_repeated) auto
  from page assms(2,3,7) guard commit show ?thesis
    by (rule commit_accepted) (use base d texts pa after others input in auto)
qed

text \<open>
  C31: a patch that is accepted in an open room, under an identifier that the page service has not
  saved before, becomes the draft head of its page. The room was at the base the client worked on, and so was the page; the patched blocks are stored as
  the next revision, with the number and identifier that the answer carries, and are what is
  read back; the room is left holding the same blocks under the same revision; no earlier
  revision, no other page and no other room changes. Both services keep their data in memory.
\<close>

theorem collab_patch_becomes_head:
  fixes sv sv' :: "(mem_rooms, mem_presence, (mem_store, 'r) service) collab"
  assumes "collab_ok (dp_gen dp) sv" and "gen_ok (dp_gen dp)" and "dp_store dp = memory_ops"
    and "mem_room (cl_rooms sv) now (room_of input) = Some st" and "0 \<le> sb_ttl input"
    and "patch_saved dp input (cl_page sv) = None" and "int (sv_next (cl_page sv)) < max_int64"
    and "submit_patch (collab_with dp now gen) cx now input sv = (Inr (Accepted pa), sv')"
  shows "\<exists>cur d r st'. rm_no st = sb_base input
     \<and> ms_pages (sv_store (cl_page sv)) (sb_page input) = Some cur \<and> pg_draft_no cur = sb_base input
     \<and> apply_patch (rm_document st) (sb_ops input) = Inr d
     \<and> mem_get_revision (sv_store (cl_page sv')) (sb_page input) ViewDraft = Inr r
     \<and> rv_no r = max (pg_draft_no cur) (pg_published_no cur) + 1
     \<and> pt_no pa = rv_no r \<and> pt_revision pa = rv_id r
     \<and> block_texts (rv_document r) = cblock_texts d
     \<and> mem_room (cl_rooms sv') now (room_of input) = Some st'
     \<and> rm_no st' = rv_no r \<and> rm_revision st' = rv_id r \<and> rm_document st' = d
     \<and> keeps_revisions memory_ops (sv_store (cl_page sv)) (sv_store (cl_page sv'))
     \<and> other_pages_same memory_ops (sb_page input) (sv_store (cl_page sv)) (sv_store (cl_page sv'))
     \<and> (\<forall>t k. k \<noteq> room_of input \<longrightarrow> mem_room (cl_rooms sv') t k = mem_room (cl_rooms sv) t k)"
  by (rule open_room_patch_stored [OF assms])

lemma unauthenticated_allowed:
  "\<not> rq_authenticated rq \<Longrightarrow> require_action dp a (subject_of rq p) = None"
  "\<not> rq_authenticated rq \<Longrightarrow> authorize_embed_usage dp d (subject_of rq p) = None"
  by (simp_all add: require_action_def authorize_embed_usage_def authorize_def authorizer_allowed_def subject_of_def)

lemma commit_repeated:
  assumes "0 < cm_base input" and "trim_space (cm_page input) \<noteq> ''''" and "\<not> rq_authenticated input"
    and "trim_space (cm_patch input) \<noteq> ''''"
    and "saved_before dp (cm_page input) (collab_idempotency_key (trim_space (cm_patch input))) sv = Some e"
  shows "commit_collaborative_revision dp now input sv =
     (Inr \<lparr>cp_revision = rv_id e, cp_no = rv_no e, cp_hash = dp_hash dp (rv_document e)\<rparr>, sv)"
  using assms
  by (simp add: commit_collaborative_revision_def commit_prepare_def commit_guard_def unauthenticated_allowed)

lemma mem_room_get_room: "mem_room_get now k rs = Inr (mem_room rs now k)"
  by (simp add: mem_room_get_def mem_room_def split: option.splits)

lemma mem_list_live:
  assumes "mem_presence_inv ms" and "i \<in> mem_live ms now k"
  obtains members ms' where "mem_list now k ms = (Inr members, ms')"
    and "list_ex (\<lambda>m. pm_session m = i) members"
proof -
  obtain members ms' where l: "mem_list now k ms = (Inr members, ms')" by (simp add: mem_list_def Let_def)
  then have "i \<in> pm_session ` set members"
    using mem_presence.list_live [of ms now k members ms'] assms by simp
  then show thesis using that [OF l] by (auto simp: list_ex_iff)
qed

text \<open>
  a patch identifier that comes again divides the room from its page. When the page has
  stored a revision under the identifier already and the room is where the patch says, the page
  service answers with that earlier revision and stores nothing, but the patch is applied to the
  room once more and accepted: the room then shows, under the number of the earlier revision,
  blocks that no revision of the page has.
\<close>

theorem repeated_patch_diverges:
  fixes sv :: "(mem_rooms, mem_presence, (mem_store, 'r) service) collab"
  assumes "mem_presence_inv (cl_presence sv)" and "sb_session input \<in> mem_live (cl_presence sv) now (room_of input)"
    and "mem_room (cl_rooms sv) now (room_of input) = Some st" and "rm_id st = room_of input"
    and "rm_no st = sb_base input" and "0 < sb_base input" and "0 \<le> sb_ttl input"
    and "trim_space (sb_page input) \<noteq> ''''" and "trim_space (sb_patch input) \<noteq> ''''"
    and "patch_saved dp input (cl_page sv) = Some earlier"
    and "apply_patch (rm_document st) (sb_ops input) = Inr d"
    and "document_of_json (cdocument_json d) = Some snapshot"
  shows "\<exists>pa sv' st'. submit_patch (collab_with dp now gen) cx now input sv = (Inr (Accepted pa), sv')
     \<and> cl_page sv' = cl_page sv \<and> pt_no pa = rv_no earlier \<and> pt_revision pa = rv_id earlier
     \<and> mem_room (cl_rooms sv') now (room_of input) = Some st'
     \<and> rm_no st' = rv_no earlier \<and> rm_revision st' = rv_id earlier \<and> rm_document st' = d"
proof -
  obtain members p where l: "mem_list now (room_of input) (cl_presence sv) = (Inr members, p)"
    and found: "list_ex (\<lambda>m. pm_session m = sb_session input) members"
    using mem_list_live [OF assms(1,2)] by blast
  have commit: "commit_collaborative_revision dp now
      (commit_request_of (commit_message_of (commit_input_of cx input d)) snapshot) (cl_page sv) =
      (Inr \<lparr>cp_revision = rv_id earlier, cp_no = rv_no earlier, cp_hash = dp_hash dp (rv_document earlier)\<rparr>, cl_page sv)"
    using assms by (intro commit_repeated) (simp_all add: commit_input_of_def)
  have call: "client_commit (grpc_commit dp now) (commit_input_of cx input d) (cl_page sv) =
      (Inr \<lparr>kr_revision = rv_id earlier, kr_no = rv_no earlier, kr_hash = dp_hash dp (rv_document earlier)\<rparr>, cl_page sv)"
    using assms(12) commit by (simp add: client_commit_def grpc_commit_def commit_input_of_def [of cx input d])
  have room: "submit_room (collab_with dp now gen) cx now input sv = (Inr st, sv)"
    using assms(3) by (simp add: submit_room_def mem_room_get_room)
  show ?thesis
    using assms l found call room
    by (auto simp: submit_patch_def save_room_then_def mem_room_save_def mem_room_def expired_def patched_room_def)
qed

section \<open>Opening a room\<close>

lemma hydrate_in_place_next: "hydrate_in_place dp rq p r sv = (res, sv') \<Longrightarrow> sv_next sv' = sv_next sv"
  by (auto simp: hydrate_in_place_def Let_def split: prod.splits sum.splits)

lemma revision_head_keeps:
  assumes "get_revision_head dp rq p q = (res, q')" and "mem_service_ok gen q" and "dp_store dp = memory_ops"
  shows "mem_service_ok gen q' \<and> sv_next q' = sv_next q"
proof
  show "mem_service_ok gen q'"
    using mem.query_effects(2) [OF assms(2,3), of rq p] assms(1) by (simp add: request_effect_def)
  show "sv_next q' = sv_next q"
    using assms(1) by (auto simp: get_revision_head_def dest!: hydrate_in_place_next
        split: option.splits sum.splits prod.splits)
qed

lemma client_head_keeps:
  assumes "client_head (grpc_get_revision_head dp) input q = (res, q')" and "mem_service_ok gen q"
    and "dp_store dp = memory_ops"
  shows "mem_service_ok gen q' \<and> sv_next q' = sv_next q"
  using assms(1) revision_head_keeps [OF _ assms(2,3)]
  by (fastforce simp: client_head_def grpc_get_revision_head_def split: prod.splits sum.splits option.splits)

lemma room_saved_keyed: "mem_rooms_keyed rs \<Longrightarrow> mem_room_save now st ttl rs = (e, rs') \<Longrightarrow> mem_rooms_keyed rs'"
  by (auto simp: mem_room_save_def mem_rooms_keyed_def split: if_splits)

lemma presence_kept:
  "mem_upsert now m ttl ms = (e, ms') \<Longrightarrow> mem_presence_inv ms \<Longrightarrow> mem_presence_inv ms'"
  "mem_list now k ms = (l, ms') \<Longrightarrow> mem_presence_inv ms \<Longrightarrow> mem_presence_inv ms'"
  using mem_presence.upsert_live [of ms now m ttl ms'] mem_presence.list_keeps [of ms now k l ms']
  by (auto simp: mem_upsert_def Let_def)

lemma join_keeps_ok:
  assumes "join_session (collab_with dp now gen) cx t input sv = (res, sv')" and "collab_ok gen' sv"
    and "dp_store dp = memory_ops"
  shows "collab_ok gen' sv'"
proof -
  obtain r1 sv1 where room: "join_room (collab_with dp now gen) cx t input sv = (r1, sv1)" by fastforce
  have ok1: "collab_ok gen' sv1"
    using room assms(2,3)
    by (auto simp: join_room_def refresh_snapshot_def save_room_then_def collab_ok_def
        dest: client_head_keeps room_saved_keyed split: sum.splits option.splits prod.splits)
  then show ?thesis
    using assms(1) room
    by (auto simp: join_session_def Let_def collab_ok_def dest!: presence_kept
        split: sum.splits option.splits prod.splits if_splits)
qed

lemma client_commit_keeps:
  assumes "client_commit (grpc_commit dp now) input q = (res, q')" and "mem_service_ok (dp_gen dp) q"
    and "gen_ok (dp_gen dp)" and "dp_store dp = memory_ops" and "int (sv_next q) < max_int64"
  shows "mem_service_ok (dp_gen dp) q'"
proof -
  have "mem_service_ok (dp_gen dp) (snd (commit_collaborative_revision dp now i q))" for i
    using mem.commit_effect [OF assms(2,3,5,4), of now i] by (simp add: request_effect_def)
  then have "commit_collaborative_revision dp now i q = (r, q1) \<Longrightarrow> mem_service_ok (dp_gen dp) q1" for i r q1
    by (metis snd_conv)
  then show ?thesis
    using assms(1,2) by (auto simp: client_commit_def grpc_commit_def split: prod.splits sum.splits option.splits)
qed

lemma save_room_then_ok:
  "save_room_then (collab_with dp now gen) t st ttl x sv = (res, sv') \<Longrightarrow> collab_ok gen' sv \<Longrightarrow> collab_ok gen' sv'"
  by (auto simp: save_room_then_def collab_ok_def dest: room_saved_keyed split: prod.splits option.splits)

lemma submit_room_ok:
  assumes "submit_room (collab_with dp now gen) cx t input sv = (res, sv')" and "collab_ok gen' sv"
    and "dp_store dp = memory_ops"
  shows "collab_ok gen' sv' \<and> sv_next (cl_page sv') = sv_next (cl_page sv)"
  using assms
  by (auto simp: submit_room_def save_room_then_def Let_def collab_ok_def dest: client_head_keeps room_saved_keyed
      split: sum.splits option.splits prod.splits)

lemma submit_aborted_ok:
  assumes "submit_aborted (collab_with dp now gen) cx t input sv = (res, sv')" and "collab_ok gen' sv"
    and "dp_store dp = memory_ops"
  shows "collab_ok gen' sv'"
  using assms
  by (auto simp: submit_aborted_def save_room_then_def collab_ok_def dest: client_head_keeps room_saved_keyed
      split: sum.splits option.splits prod.splits)

lemma submit_keeps_ok:
  assumes "submit_patch (collab_with dp now gen) cx t input sv = (res, sv')" and "collab_ok (dp_gen dp) sv"
    and "gen_ok (dp_gen dp)" and "dp_store dp = memory_ops" and "int (sv_next (cl_page sv)) < max_int64"
  shows "collab_ok (dp_gen dp) sv'"
proof -
  obtain r1 sv1 where room: "submit_room (collab_with dp now gen) cx t input sv = (r1, sv1)" by fastforce
  note ok1 = submit_room_ok [OF room assms(2,4)]
  obtain l p where list: "mem_list t (room_of input) (cl_presence sv1) = (l, p)" by fastforce
  have ok2: "collab_ok (dp_gen dp) (sv1\<lparr>cl_presence := p\<rparr>)"
    using ok1 presence_kept(2) [OF list] by (simp add: collab_ok_def)
  have commit: "collab_ok (dp_gen dp) (sv1\<lparr>cl_presence := p, cl_page := q\<rparr>)"
    if "client_commit (grpc_commit dp now) i (cl_page sv1) = (c, q)" for i c q
    using ok1 ok2 client_commit_keeps [OF that] assms(3-5) by (simp add: collab_ok_def)
  show ?thesis
    using assms(1) room ok1 ok2 list commit
    by (auto simp: submit_patch_def Let_def dest: save_room_then_ok submit_aborted_ok [OF _ _ assms(4)]
        split: sum.splits prod.splits rpc_error.splits if_splits)
qed

section \<open>A sample session\<close>

definition sample_context :: request_context where
  "sample_context = \<lparr>rx_request = ''q'', rx_correlation = ''c''\<rparr>"

definition closed_collab :: "(mem_rooms, mem_presence, (mem_store, mem_replay) service) collab" where
  "closed_collab = \<lparr>cl_rooms = Map.empty, cl_presence = (\<lambda>_. []), cl_page = with_page, cl_next = 0\<rparr>"

definition sample_join :: join_input where
  "sample_join = \<lparr>ji_page = sample_page, ji_workspace = ''w'', ji_actor = ''u'', ji_name = ''U'', ji_last_no = 0,
     ji_last_patch = '''', ji_ttl = 45 * second, ji_heartbeat = 15 * second\<rparr>"

definition open_collab :: "(mem_rooms, mem_presence, (mem_store, mem_replay) service) collab" where
  "open_collab = snd (join_session (collab_with sample_deps 20 run_gen) sample_context 20 sample_join closed_collab)"

definition sample_submit :: "int \<Rightarrow> submit_input" where
  "sample_submit base = \<lparr>sb_session = run_gen 0, sb_page = sample_page, sb_workspace = ''w'', sb_actor = ''u'',
     sb_base = base, sb_patch = ''p'',
     sb_ops = [patch_of ''insert_block'' '''' (JObj [])], sb_ttl = 45 * second\<rparr>"

definition sample_twice :: cdocument where
  "sample_twice = \<lparr>cd_blocks = [zero_block\<lparr>cb_id := ''b1'', cb_type := ''paragraph'', cb_text := ''one''\<rparr>,
     zero_block, zero_block], cd_metadata = None\<rparr>"

definition patched_collab :: "(mem_rooms, mem_presence, (mem_store, mem_replay) service) collab" where
  "patched_collab = snd (submit_patch (collab_with sample_deps 30 run_gen) sample_context 30 (sample_submit 1) open_collab)"

text \<open>
  Joining a page with one block, and a patch that inserts another. What the second patch, the
  same one sent again, would make of the room is \<open>sample_twice\<close>.
\<close>

lemma sample_steps:
  "(case join_session (collab_with sample_deps 20 run_gen) sample_context 20 sample_join closed_collab of
     (joined, sv) \<Rightarrow>
       (map_option rm_no (mem_room (cl_rooms sv) 30 (room_of (sample_submit 1))) = Some 1
        \<and> patch_saved sample_deps (sample_submit 1) (cl_page sv) = None \<and> sv_next (cl_page sv) = 6
        \<and> (case submit_patch (collab_with sample_deps 30 run_gen) sample_context 30 (sample_submit 1) sv of
             (res, sv) \<Rightarrow>
               res = Inr (Accepted \<lparr>pt_session = run_gen 0, pt_page = sample_page, pt_no = 2, pt_revision = run_gen 6,
                 pt_patch = ''p'', pt_ops = sb_ops (sample_submit 1)\<rparr>)
               \<and> map_option (\<lambda>st. (rm_no st, rm_id st, apply_patch (rm_document st) (sb_ops (sample_submit 2))))
                   (mem_room (cl_rooms sv) 40 (room_of (sample_submit 2)))
                 = Some (2, room_of (sample_submit 2), Inr sample_twice)
               \<and> map_option pm_last_seen (map_of (cl_presence sv (room_of (sample_submit 2))) (run_gen 0))
                 = Some (20 + 45 * second)
               \<and> map_option (\<lambda>r. (rv_no r, rv_id r)) (patch_saved sample_deps (sample_submit 2) (cl_page sv))
                 = Some (2, run_gen 6)
               \<and> map_sum id (\<lambda>r. (rv_no r, rv_id r, length (block_texts (rv_document r))))
                   (mem_get_revision (sv_store (cl_page sv)) sample_page ViewDraft) = Inr (2, run_gen 6, 2))))"
  by code_simp

lemmas sample_facts = sample_steps [unfolded case_prod_beta, folded open_collab_def, folded patched_collab_def]

lemma sample_collab_ok: "collab_ok run_gen open_collab"
proof -
  have "collab_ok run_gen closed_collab"
    using sample_ok(2)
    by (simp add: collab_ok_def closed_collab_def mem_rooms_keyed_def mem_presence_inv_def)
  then show ?thesis
    using join_keeps_ok [OF prod.collapse [symmetric], of run_gen closed_collab sample_deps 20 run_gen sample_context 20 sample_join]
    by (simp add: open_collab_def)
qed

lemma sample_submit_ttl: "0 \<le> sb_ttl (sample_submit n)"
  by (simp add: sample_submit_def second_def)

theorem collab_patch_becomes_head_witness:
  "\<exists>r. mem_get_revision (sv_store (cl_page patched_collab)) sample_page ViewDraft = Inr r
     \<and> rv_no r = 2 \<and> rv_id r = run_gen 6"
proof -
  obtain st where st: "mem_room (cl_rooms open_collab) 30 (room_of (sample_submit 1)) = Some st"
    using sample_facts by auto
  obtain pa where run: "submit_patch (collab_with sample_deps 30 run_gen) sample_context 30 (sample_submit 1) open_collab
      = (Inr (Accepted pa), patched_collab)" and pa: "pt_no pa = 2" "pt_revision pa = run_gen 6"
    using sample_facts by (auto simp: patched_collab_def prod_eq_iff)
  have "patch_saved sample_deps (sample_submit 1) (cl_page open_collab) = None"
    and "int (sv_next (cl_page open_collab)) < max_int64"
    using sample_facts by (simp_all add: max_int64_def)
  from collab_patch_becomes_head [of sample_deps, OF _ _ _ st sample_submit_ttl this run] pa show ?thesis
    using sample_collab_ok gen_ok_run_gen by (auto simp: sample_submit_def)
qed

theorem repeated_patch_diverges_witness:
  "\<exists>(sv' :: (mem_rooms, mem_presence, (mem_store, mem_replay) service) collab) st r.
     cl_page sv' = cl_page patched_collab
     \<and> mem_room (cl_rooms sv') 40 (room_of (sample_submit 2)) = Some st
     \<and> mem_get_revision (sv_store (cl_page sv')) sample_page ViewDraft = Inr r
     \<and> rm_no st = rv_no r \<and> rm_revision st = rv_id r
     \<and> length (cblock_texts (rm_document st)) = 3 \<and> length (block_texts (rv_document r)) = 2"
proof -
  have ok: "collab_ok run_gen patched_collab"
    using submit_keeps_ok [OF prod.collapse [symmetric], of sample_deps open_collab 30 run_gen sample_context 30
        "sample_submit 1"] sample_collab_ok gen_ok_run_gen sample_facts
    by (simp add: patched_collab_def max_int64_def)
  then have inv: "mem_presence_inv (cl_presence patched_collab)" by (simp add: collab_ok_def)
  have live: "sb_session (sample_submit 2) \<in> mem_live (cl_presence patched_collab) 40 (room_of (sample_submit 2))"
    using sample_facts by (auto simp: mem_live_def expired_def sample_submit_def second_def)
  obtain st where st: "mem_room (cl_rooms patched_collab) 40 (room_of (sample_submit 2)) = Some st"
    and room: "rm_id st = room_of (sample_submit 2)" "rm_no st = sb_base (sample_submit 2)"
    and patch: "apply_patch (rm_document st) (sb_ops (sample_submit 2)) = Inr sample_twice"
    using sample_facts by (auto simp: sample_submit_def)
  obtain e where e: "patch_saved sample_deps (sample_submit 2) (cl_page patched_collab) = Some e"
    and saved: "rv_no e = 2" "rv_id e = run_gen 6"
    using sample_facts by auto
  have input: "0 < sb_base (sample_submit 2)" "trim_space (sb_page (sample_submit 2)) \<noteq> ''''"
    "trim_space (sb_patch (sample_submit 2)) \<noteq> ''''"
    by code_simp+
  obtain snapshot where decoded: "document_of_json (cdocument_json sample_twice) = Some snapshot"
  proof -
    have "document_of_json (cdocument_json sample_twice) \<noteq> None" by code_simp
    then show thesis using that by blast
  qed
  obtain r where r: "mem_get_revision (sv_store (cl_page patched_collab)) sample_page ViewDraft = Inr r"
    and head: "rv_no r = 2" "rv_id r = run_gen 6" "length (block_texts (rv_document r)) = 2"
    using sample_facts by (cases "mem_get_revision (sv_store (cl_page patched_collab)) sample_page ViewDraft") auto
  have "length (cblock_texts sample_twice) = 3" by code_simp
  with repeated_patch_diverges [OF inv live st room input(1) sample_submit_ttl input(2,3) e patch decoded,
      of run_gen sample_context] saved r head
  show ?thesis by metis
qed

end
