(* ===== verification/SocketProperties.thy ===== *)
theory SocketProperties
  imports SocketFacts CollabPage
begin

text \<open>
  The properties of the websocket interface: the rooms of the handler, the reach of an accepted
  patch, and three things a client can do that it should not: join twice, end the session of
  another, and patch a page that it may not edit.
\<close>

section \<open>A sample hub\<close>

definition no_hub :: "('r, 'p, 'q) collab \<Rightarrow> ('r, 'p, 'q) hub" where
  "no_hub sv = \<lparr>hb_conns = (\<lambda>_. None), hb_clients = (\<lambda>_. []), hb_broken = (\<lambda>_. None), hb_sent = [], hb_collab = sv\<rparr>"

definition sample_socket :: "remote_authz option \<Rightarrow> gotime \<Rightarrow>
    (mem_rooms, mem_presence, (mem_store, mem_replay) service) socket_deps" where
  "sample_socket checker now =
     \<lparr>sd_collab = collab_with sample_deps now run_gen, sd_checker = checker, sd_heartbeat = 15 * second,
      sd_ttl = 45 * second\<rparr>"

definition user_headers :: "string \<Rightarrow> headers" where
  "user_headers user =
     (header_set ''X-Auth-Roles'' ''editor'' (header_set ''X-Auth-Authenticated'' ''true''
       (header_set ''X-Auth-User-Id'' user (\<lambda>_. []))))"

definition join_message :: "string \<Rightarrow> incoming" where
  "join_message page = \<lparr>im_type = ''join_session'', im_request = '''',
     im_payload = Some (JObj [(''page_id'', JStr page), (''workspace_id'', JStr ''w'')])\<rparr>"

section \<open>Rooms\<close>

lemma tidy_no_hub: "tidy (no_hub sv)"
  by (simp add: tidy_def no_hub_def)

text \<open>
  C32: as long as no client that is in a room joins again, a room lists each of its clients
  once, and only clients whose connection is open and that joined this room last, whatever
  other messages they send, and however connections open, break and close. (The code lets a client join again.)
\<close>

theorem rooms_stay_tidy:
  assumes "hub_run (no_hub sv) h"
  shows "distinct (hb_clients h r)
     \<and> (\<forall>c \<in> set (hb_clients h r). \<exists>cl. hb_conns h c = Some cl \<and> cn_room cl = r)"
  using hub_run_tidy [OF assms tidy_no_hub] by (auto simp: tidy_def)

theorem rooms_stay_tidy_witness:
  "\<exists>h h'. open_socket 1 (user_headers ''u'') (no_hub closed_collab) = Some h
     \<and> h' = serve_message (sample_socket None 20) sample_context 20 1 (join_message sample_page) h
     \<and> distinct (hb_clients h' (room_key ''w'' sample_page)) \<and> hb_clients h' (room_key ''w'' sample_page) = [1]"
proof -
  let ?serve = "serve_message (sample_socket None 20) sample_context 20 1 (join_message sample_page)"
  have user: "header_actor (user_headers ''u'') \<noteq> ''''" by code_simp
  obtain h where opened: "open_socket 1 (user_headers ''u'') (no_hub closed_collab) = Some h"
    using user by (simp add: open_socket_def)
  have run: "hub_run (no_hub closed_collab) h"
    by (rule hub_run.opened [OF hub_run.start _ opened]) (simp add: no_hub_def)
  have "hub_run (no_hub closed_collab) (?serve h)"
    using opened by (intro hub_run.served [OF run]) (auto simp: open_socket_def no_hub_def split: if_splits)
  from rooms_stay_tidy [OF this] have tidy: "distinct (hb_clients (?serve h) (room_key ''w'' sample_page))" by blast
  have "map_option (\<lambda>h. hb_clients (?serve h) (room_key ''w'' sample_page))
      (open_socket 1 (user_headers ''u'') (no_hub closed_collab)) = Some [1]"
    by code_simp
  with opened tidy show ?thesis by auto
qed

text \<open>
  C33: an accepted patch is told to every client of the room the sender is in, the sender
  included, in one message each, as long as none of their connections is broken.
\<close>

theorem accepted_patch_broadcast:
  assumes "service_authorize (sd_checker sd) ActionPageEdit
      (client_subject cl (cn_workspace cl) (cn_page cl)) = AuthzOk"
    and "decode_payload set_submit_field zero_submit (im_payload m) = Some payload"
    and "submit_patch (sd_collab sd) cx now (submit_input_of sd cl payload) (hb_collab h) = (Inr (Accepted pa), sv)"
    and "\<And>c'. c' \<in> set (hb_clients h (cn_room cl)) \<Longrightarrow> hb_broken h c' = None"
  shows "handle_patch sd cx now c cl m h =
     (None, h\<lparr>hb_collab := sv,
        hb_sent := hb_sent h @ map (\<lambda>c. (c, reply now m (OutAccepted pa))) (hb_clients h (cn_room cl))\<rparr>)"
proof -
  have "broadcast (cn_room cl) (reply now m (OutAccepted pa)) None (h\<lparr>hb_collab := sv\<rparr>) =
      (None, h\<lparr>hb_collab := sv,
        hb_sent := hb_sent h @ map (\<lambda>c. (c, reply now m (OutAccepted pa))) (hb_clients h (cn_room cl))\<rparr>)"
    using assms(4) by (simp add: broadcast_def write_all_sent)
  then show ?thesis using assms(1-3) by (simp add: handle_patch_def finish_def)
qed

text \<open>A client that edits page \<open>a\<close>, in a hub where the session of the sample page is live.\<close>

definition sample_client :: client_conn where
  "sample_client = \<lparr>cn_room = room_key ''w'' ''a'', cn_session = ''s'', cn_page = ''a'', cn_workspace = ''w'',
     cn_user = ''u'', cn_name = ''U'', cn_roles = [], cn_authenticated = True\<rparr>"

definition sample_hub :: "(mem_rooms, mem_presence, (mem_store, mem_replay) service) hub" where
  "sample_hub = (no_hub open_collab)\<lparr>hb_conns := [1 \<mapsto> sample_client], hb_clients := (\<lambda>_. [])(room_key ''w'' ''a'' := [1])\<rparr>"

definition patch_message :: incoming where
  "patch_message = \<lparr>im_type = ''submit_patch'', im_request = '''',
     im_payload = Some (JObj [(''session_id'', JStr (run_gen 0)), (''page_id'', JStr sample_page),
       (''base_revision_no'', JInt 1), (''patch_id'', JStr ''p''),
       (''ops'', JArr [JObj [(''op'', JStr ''insert_block''), (''value'', JObj [])]])])\<rparr>"

definition sample_payload :: submit_payload where
  "sample_payload = \<lparr>sp_session = run_gen 0, sp_page = sample_page, sp_base = 1, sp_patch = ''p'',
     sp_ops = sb_ops (sample_submit 1)\<rparr>"

text \<open>A viewer of the workspace with a grant to edit page \<open>a\<close>.\<close>

definition page_editor :: remote_authz where
  "page_editor = auth_server (\<lambda>user. Inr [\<lparr>mb_workspace = ''w'', mb_user = user, mb_role = RoleViewer\<rparr>])
     (\<lambda>user workspace page. Inr (if page = ''a'' then
        [\<lparr>gr_page = page, gr_workspace = workspace, gr_subject = user, gr_permission = ''edit''\<rparr>] else []))"

lemma sample_message:
  "decode_payload set_submit_field zero_submit (im_payload patch_message) = Some sample_payload"
  "submit_input_of (sample_socket checker 30) sample_client sample_payload = sample_submit 1"
  by code_simp (simp add: submit_input_of_def sample_socket_def sample_client_def sample_payload_def sample_submit_def)

lemma sample_editor:
  "service_authorize (Some page_editor) ActionPageEdit (client_subject sample_client ''w'' ''a'') = AuthzOk"
  "service_authorize (Some page_editor) ActionPageEdit (client_subject sample_client ''w'' sample_page) = AuthzForbidden"
  by code_simp+

lemma sample_hub_simps:
  "hb_clients sample_hub (cn_room sample_client) = [1]" "hb_broken sample_hub c = None"
  "hb_collab sample_hub = open_collab" "cn_workspace sample_client = ''w''" "cn_page sample_client = ''a''"
  "sd_checker (sample_socket checker t) = checker" "sd_collab (sample_socket checker t) = collab_with sample_deps t run_gen"
  "sd_ttl (sample_socket checker t) = 45 * second" "hb_sent sample_hub = []" "sp_page sample_payload = sample_page"
  by (simp_all add: sample_hub_def no_hub_def sample_client_def sample_socket_def sample_payload_def)

lemma sample_accepted:
  obtains pa where "submit_patch (collab_with sample_deps 30 run_gen) sample_context 30 (sample_submit 1) open_collab
    = (Inr (Accepted pa), patched_collab)"
  using sample_facts by (auto simp: patched_collab_def prod_eq_iff)

theorem accepted_patch_broadcast_witness:
  "\<exists>pa. map fst (hb_sent (snd (handle_patch (sample_socket (Some page_editor) 30) sample_context 30 1 sample_client
     patch_message sample_hub))) = [1]
   \<and> map (ev_payload \<circ> snd) (hb_sent (snd (handle_patch (sample_socket (Some page_editor) 30) sample_context 30 1
       sample_client patch_message sample_hub))) = [OutAccepted pa]"
proof (rule sample_accepted)
  fix pa
  assume run: "submit_patch (collab_with sample_deps 30 run_gen) sample_context 30 (sample_submit 1) open_collab
    = (Inr (Accepted pa), patched_collab)"
  show ?thesis
    using accepted_patch_broadcast [of "sample_socket (Some page_editor) 30" sample_client patch_message
        sample_payload sample_context 30 sample_hub pa patched_collab 1] run sample_editor(1)
    by (simp add: sample_hub_simps sample_message reply_def)
qed

section \<open>What a client can do to others\<close>

text \<open>
  the permission to edit is checked for the page that was joined, the patch is applied to
  the page that it names. With a session in the room of a page that the policy forbids to edit,
  a client that may edit another page of the workspace, and joined that one, changes the draft
  head of the forbidden page.
\<close>

theorem forbidden_page_patched:
  fixes h :: "(mem_rooms, mem_presence, (mem_store, 'r) service) hub" and sd cx now c cl m
  defines "h' \<equiv> snd (handle_patch sd cx now c cl m h)"
  assumes "service_authorize (sd_checker sd) ActionPageEdit
      (client_subject cl (cn_workspace cl) (cn_page cl)) = AuthzOk"
    and "service_authorize (sd_checker sd) ActionPageEdit
      (client_subject cl (cn_workspace cl) (sp_page payload)) = AuthzForbidden"
    and "decode_payload set_submit_field zero_submit (im_payload m) = Some payload"
    and "sd_collab sd = collab_with dp now gen" and "collab_ok (dp_gen dp) (hb_collab h)"
    and "gen_ok (dp_gen dp)" and "dp_store dp = memory_ops" and "0 \<le> sd_ttl sd"
    and "mem_room (cl_rooms (hb_collab h)) now (room_key (cn_workspace cl) (sp_page payload)) = Some st"
    and "patch_saved dp (submit_input_of sd cl payload) (cl_page (hb_collab h)) = None"
    and "int (sv_next (cl_page (hb_collab h))) < max_int64"
    and "submit_patch (collab_with dp now gen) cx now (submit_input_of sd cl payload) (hb_collab h)
      = (Inr (Accepted pa), sv)"
  shows "\<exists>r d. mem_get_revision (sv_store (cl_page (hb_collab h'))) (sp_page payload) ViewDraft = Inr r
     \<and> sp_base payload < rv_no r \<and> apply_patch (rm_document st) (sp_ops payload) = Inr d
     \<and> block_texts (rv_document r) = cblock_texts d"
proof -
  have h': "hb_collab h' = sv"
    using assms(2,4,5,13)
    by (simp add: h'_def handle_patch_def finish_def)
  have input: "sb_page (submit_input_of sd cl payload) = sp_page payload" "0 \<le> sb_ttl (submit_input_of sd cl payload)"
    "sb_workspace (submit_input_of sd cl payload) = cn_workspace cl" "sb_base (submit_input_of sd cl payload) = sp_base payload"
    "sb_ops (submit_input_of sd cl payload) = sp_ops payload"
    using assms(9) by (simp_all add: submit_input_of_def)
  have room: "mem_room (cl_rooms (hb_collab h)) now (room_of (submit_input_of sd cl payload)) = Some st"
    using assms(10) input by simp
  show ?thesis
    using open_room_patch_stored [OF assms(6,7,8) room input(2) assms(11-13)] input
    by (auto simp: h')
qed

theorem forbidden_page_patched_witness:
  "\<exists>r. mem_get_revision (sv_store (cl_page (hb_collab (snd (handle_patch (sample_socket (Some page_editor) 30)
       sample_context 30 1 sample_client patch_message sample_hub))))) sample_page ViewDraft = Inr r \<and> 1 < rv_no r"
proof (rule sample_accepted)
  fix pa
  assume run: "submit_patch (collab_with sample_deps 30 run_gen) sample_context 30 (sample_submit 1) open_collab
    = (Inr (Accepted pa), patched_collab)"
  let ?sd = "sample_socket (Some page_editor) 30"
  obtain st where st: "mem_room (cl_rooms open_collab) 30 (room_of (sample_submit 1)) = Some st"
    using sample_facts by auto
  have room: "mem_room (cl_rooms (hb_collab sample_hub)) 30
      (room_key (cn_workspace sample_client) (sp_page sample_payload)) = Some st"
    using st by (simp add: sample_hub_simps) (simp add: sample_submit_def)
  have facts: "patch_saved sample_deps (submit_input_of ?sd sample_client sample_payload) (cl_page (hb_collab sample_hub)) = None"
    "int (sv_next (cl_page (hb_collab sample_hub))) < max_int64" "collab_ok run_gen (hb_collab sample_hub)"
    "submit_patch (collab_with sample_deps 30 run_gen) sample_context 30
       (submit_input_of ?sd sample_client sample_payload) (hb_collab sample_hub) = (Inr (Accepted pa), patched_collab)"
    "0 \<le> sd_ttl ?sd"
    using sample_facts sample_collab_ok run
    by (simp_all add: sample_hub_simps sample_message max_int64_def second_def)
  have base: "sp_base sample_payload = 1" by (simp add: sample_payload_def)
  from forbidden_page_patched [where sd = ?sd and cl = sample_client and m = patch_message and payload = sample_payload
      and dp = sample_deps and now = 30 and gen = run_gen and h = sample_hub and cx = sample_context and c = 1,
      OF _ _ sample_message(1) _ _ _ _ facts(5) room facts(1,2,4)] facts(3) gen_ok_run_gen
  show ?thesis
    by (fastforce simp: sample_hub_simps sample_editor base)
qed

text \<open>
  a client that joins another room stays listed in the room it came from. When its
  connection closes, only its last room forgets it, and from then on telling the first room
  anything fails, for whoever is listed after it.
\<close>

theorem rejoined_client_left_behind:
  assumes "hb_conns h c = Some cl" and "c \<in> set (hb_clients h (cn_room cl))"
    and "handle_join sd cx now c cl m h = (err, h1)"
    and "hb_conns h1 c = Some cl1" and "cn_room cl1 \<noteq> cn_room cl"
  shows "c \<in> set (hb_clients (close_socket sd' c h1) (cn_room cl))
     \<and> hb_conns (close_socket sd' c h1) c = None
     \<and> fst (broadcast (cn_room cl) e None (close_socket sd' c h1)) \<noteq> None"
proof -
  have listed: "c \<in> set (hb_clients h1 (cn_room cl))"
    using join_rooms [OF assms(3)] assms(2) by (auto simp: same_rooms_def add_client_def)
  let ?h = "close_socket sd' c h1"
  have closed: "c \<in> set (hb_clients ?h (cn_room cl))" "hb_conns ?h c = None" "hb_broken ?h c = Some ''closed''"
    using assms(4,5) listed by (auto simp: close_socket_def Let_def remove_client_def)
  moreover have "fst (broadcast (cn_room cl) e None ?h) \<noteq> None"
    using closed unfolding broadcast_def by (intro write_all_broken [of c]) simp_all
  ultimately show ?thesis by blast
qed

theorem rejoined_client_left_behind_witness:
  "\<exists>h e. hb_conns h 1 = None \<and> fst (broadcast (room_key ''w'' ''a'') e None
     (h :: (mem_rooms, mem_presence, (mem_store, mem_replay) service) hub)) \<noteq> None"
proof -
  let ?join = "handle_join (sample_socket None 30) sample_context 30 1 (sample_client\<lparr>cn_roles := [''viewer'']\<rparr>)
    (join_message sample_page) (sample_hub\<lparr>hb_conns := [1 \<mapsto> sample_client\<lparr>cn_roles := [''viewer'']\<rparr>]\<rparr>)"
  let ?cl = "sample_client\<lparr>cn_roles := [''viewer'']\<rparr>"
  have "map_option cn_room (hb_conns (snd ?join) 1) = Some (room_key ''w'' sample_page)" by code_simp
  then obtain cl1 where cl1: "hb_conns (snd ?join) 1 = Some cl1" "cn_room cl1 = room_key ''w'' sample_page" by auto
  have room: "cn_room ?cl = room_key ''w'' ''a''" "cn_room cl1 \<noteq> cn_room ?cl"
    by (simp_all add: sample_client_def cl1 room_key_def sample_page_def)
  have "1 \<in> set (hb_clients (sample_hub\<lparr>hb_conns := [1 \<mapsto> ?cl]\<rparr>) (cn_room ?cl))"
    by (simp add: sample_hub_def room)
  from rejoined_client_left_behind [where c = 1, OF _ this prod.collapse [symmetric] cl1(1) room(2)] room(1)
  show ?thesis by fastforce
qed

text \<open>
  leaving names a session, and any session of the room will do: the session leaves, whoever
  it belongs to, and the next patch of its owner is refused because the session is not found.
\<close>

theorem foreign_session_removed:
  fixes h :: "(mem_rooms, mem_presence, 'q) hub" and sd now c cl m
  defines "h' \<equiv> snd (handle_leave sd now c cl m h)"
  assumes "decode_payload set_leave_field '''' (im_payload m) = Some (sb_session input)"
    and "ck_presence (sd_collab sd) = memory_presence_ops" and "ck_rooms (sd_collab sd) = memory_room_ops"
    and "mem_presence_inv (cl_presence (hb_collab h))" and "mem_rooms_keyed (cl_rooms (hb_collab h))"
    and "room_of input = cn_room cl"
    and "submit_patch (sd_collab sd) cx t input (hb_collab h') = (Inr result, sv)"
  shows "result = Rejected \<lparr>pj_session = sb_session input, pj_patch = sb_patch input,
     pj_reason = ''session_not_found'', pj_details = None\<rparr>"
proof -
  let ?ms = "snd (mem_remove (cn_room cl) (sb_session input) (cl_presence (hb_collab h)))"
  have h': "cl_presence (hb_collab h') = ?ms" "cl_rooms (hb_collab h') = cl_rooms (hb_collab h)"
    using assms(2,3)
    by (simp_all add: h'_def handle_leave_def leave_session_def mem_remove_def finish_def remove_client_def)
  have gone: "mem_presence_inv ?ms" "sb_session input \<notin> mem_live ?ms t (room_of input)"
    using mem_presence.remove_live [OF assms(5), of "cn_room cl" "sb_session input" ?ms t "room_of input"] assms(7)
    by (simp_all add: mem_remove_def)
  have keyed: "mem_rooms_keyed (cl_rooms (hb_collab h'))" "mem_presence_inv (cl_presence (hb_collab h'))"
    using assms(6) gone h' by simp_all
  from assms(4,3) keyed assms(8) show ?thesis
    by (cases rule: mem_collab.submit_patch_cases) (use gone h' in auto)
qed

definition other_client :: client_conn where
  "other_client = sample_client\<lparr>cn_room := room_of (sample_submit 1), cn_user := ''other''\<rparr>"

definition leave_message :: incoming where
  "leave_message = \<lparr>im_type = ''leave_session'', im_request = '''',
     im_payload = Some (JObj [(''session_id'', JStr (run_gen 0))])\<rparr>"

theorem foreign_session_removed_witness:
  "fst (submit_patch (collab_with sample_deps 30 run_gen) sample_context 30 (sample_submit 1)
     (hb_collab (snd (handle_leave (sample_socket None 30) 30 2 other_client leave_message (no_hub open_collab)))))
   = Inr (Rejected \<lparr>pj_session = run_gen 0, pj_patch = ''p'', pj_reason = ''session_not_found'', pj_details = None\<rparr>)"
proof -
  let ?h = "snd (handle_leave (sample_socket None 30) 30 2 other_client leave_message (no_hub open_collab))"
  let ?run = "submit_patch (collab_with sample_deps 30 run_gen) sample_context 30 (sample_submit 1) (hb_collab ?h)"
  have "(case fst ?run of Inl _ \<Rightarrow> False | Inr _ \<Rightarrow> True)" by code_simp
  then obtain result sv where run: "?run = (Inr result, sv)" by (cases ?run) (auto split: sum.splits)
  have payload: "decode_payload set_leave_field '''' (im_payload leave_message) = Some (sb_session (sample_submit 1))"
    by code_simp
  have "mem_presence_inv (cl_presence open_collab)" "mem_rooms_keyed (cl_rooms open_collab)"
    using sample_collab_ok by (simp_all add: collab_ok_def)
  then show ?thesis
    using foreign_session_removed [where sd = "sample_socket None 30" and h = "no_hub open_collab" and cl = other_client
        and m = leave_message and input = "sample_submit 1" and now = 30 and c = 2 and t = 30 and cx = sample_context
        and result = result and sv = sv] payload run
    by (simp add: sample_hub_simps other_client_def no_hub_def sample_submit_def)
qed

end
