(* ===== verification/CollabRefresh.thy ===== *)
theory CollabRefresh
  imports CollabPage
begin

text \<open>
  Refreshing a room when its page changed, the consumer of
  \<^verbatim>\<open>collaboration-service/internal/adapters/nats_consumer.go\<close>; and the invariant that ties the
  rooms to the pages: whatever clients, editors and the consumer do, and however a refresh
  interleaves with patches, a room holds the texts of the revision that it names.
\<close>

record changed_page =
  cg_page :: string
  cg_workspace :: string

definition set_changed_field :: "string \<Rightarrow> json \<Rightarrow> changed_page \<Rightarrow> changed_page option" where
  "set_changed_field k v x =
     (if is_field ''page_id'' k then map_option (\<lambda>s. x\<lparr>cg_page := s\<rparr>) (decode_string (cg_page x) v)
      else if is_field ''workspace_id'' k then
        map_option (\<lambda>s. x\<lparr>cg_workspace := s\<rparr>) (decode_string (cg_workspace x) v)
      else Some x)"

text \<open>A message that is not JSON is \<open>None\<close>. What refreshing fails with is dropped.\<close>

definition refresh_on_message ::
  "('r, 'p, 'q) collab_deps \<Rightarrow> request_context \<Rightarrow> gotime \<Rightarrow> bool \<Rightarrow> json option \<Rightarrow> ('r, 'p, 'q) collab \<Rightarrow>
   ('r, 'p, 'q) collab" where
  "refresh_on_message ck cx now cancelled message sv =
     (if cancelled then sv
      else case Option.bind message (decode_struct set_changed_field \<lparr>cg_page = '''', cg_workspace = ''''\<rparr>) of
        None \<Rightarrow> sv
      | Some payload \<Rightarrow>
          if cg_page payload = '''' \<or> cg_workspace payload = '''' then sv
          else snd (refresh_existing_room ck cx now (cg_page payload) (cg_workspace payload) (45 * second) sv))"

section \<open>Keys of rooms\<close>

definition colon_free :: "string \<Rightarrow> bool" where
  "colon_free s \<longleftrightarrow> CHR '':'' \<notin> set s"

lemma room_key_inj:
  assumes "room_key w p = room_key w' p'" and "colon_free w" and "colon_free w'"
  shows "w = w' \<and> p = p'"
proof -
  have "takeWhile (\<lambda>c. c \<noteq> CHR '':'') (room_key w p) = w"
    and "takeWhile (\<lambda>c. c \<noteq> CHR '':'') (room_key w' p') = w'"
    using assms(2,3) by (auto simp: room_key_def colon_free_def takeWhile_tail)
  then have "w = w'" using assms(1) by simp
  then show ?thesis using assms(1) by (simp add: room_key_def)
qed

section \<open>What a room holds\<close>

definition room_ok :: "mem_store \<Rightarrow> string \<Rightarrow> room_state \<Rightarrow> bool" where
  "room_ok s k st \<longleftrightarrow> rm_id st = k \<and> k = room_key (rm_workspace st) (rm_page st) \<and> colon_free (rm_workspace st)
     \<and> (\<exists>r. mem_get_revision_by_id s (rm_page st) (rm_revision st) = Inr r \<and> rv_no r = rm_no st
            \<and> block_texts (rv_document r) = cblock_texts (rm_document st))"

definition rooms_ok :: "(mem_rooms, mem_presence, (mem_store, 'r) service) collab \<Rightarrow> bool" where
  "rooms_ok sv \<longleftrightarrow> (\<forall>k st. cl_rooms sv k = Some st \<longrightarrow> room_ok (sv_store (cl_page sv)) k st)"

lemma kept_revision:
  assumes "keeps_history memory_ops s s'" and "mem_get_revision_by_id s p i = Inr r"
  obtains d where "mem_get_revision_by_id s' p i = Inr (r\<lparr>rv_document := d\<rparr>)"
    and "block_texts d = block_texts (rv_document r)"
  using assms unfolding keeps_history_def memory_ops_simps by blast

lemma room_ok_later:
  assumes "room_ok s k st" and "keeps_history memory_ops s s'"
  shows "room_ok s' k st"
proof -
  obtain r where "mem_get_revision_by_id s (rm_page st) (rm_revision st) = Inr r" and "rv_no r = rm_no st"
    and "block_texts (rv_document r) = cblock_texts (rm_document st)"
    using assms(1) by (auto simp: room_ok_def)
  moreover from this obtain d where "mem_get_revision_by_id s' (rm_page st) (rm_revision st) = Inr (r\<lparr>rv_document := d\<rparr>)"
    and "block_texts d = block_texts (rv_document r)"
    using kept_revision [OF assms(2)] by blast
  ultimately show ?thesis using assms(1) by (auto simp: room_ok_def)
qed

lemma rooms_ok_page:
  assumes "rooms_ok sv" and "keeps_history memory_ops (sv_store (cl_page sv)) (sv_store q)"
  shows "rooms_ok (sv\<lparr>cl_page := q\<rparr>)"
  using assms(1) room_ok_later [OF _ assms(2)] by (simp add: rooms_ok_def)

lemma rooms_ok_save:
  assumes "rooms_ok sv" and "room_ok (sv_store (cl_page sv)) (rm_id st) st"
    and "mem_room_save now st ttl (cl_rooms sv) = (e, rs)"
  shows "rooms_ok (sv\<lparr>cl_rooms := rs\<rparr>)"
  using assms by (auto simp: rooms_ok_def mem_room_save_def room_ok_def split: if_splits)

lemma rooms_ok_presence [simp]:
  "rooms_ok (sv\<lparr>cl_presence := p\<rparr>) = rooms_ok sv" "rooms_ok (sv\<lparr>cl_next := n\<rparr>) = rooms_ok sv"
  by (simp_all add: rooms_ok_def)

text \<open>The room made from the head of a page holds it.\<close>

lemma head_room_ok:
  assumes "client_head (grpc_get_revision_head dp) (head_request cx p w a) q = (Inr head, q')"
    and "mem_service_ok (dp_gen dp) q" and "dp_store dp = memory_ops" and "colon_free w"
  shows "room_ok (sv_store q') (room_key w p) (room_of_head p w head)"
proof -
  obtain rq :: request and h where run: "get_revision_head dp rq p q = (Inr h, q')"
    and doc: "cdocument_of_json (document_json (hp_document h)) = Some (ph_document head)"
    and no: "ph_no head = hp_no h" "ph_revision head = hp_revision h"
    using assms(1) by (auto elim!: client_head_Inr simp: head_request_def)
  have inv: "mem_inv (sv_store q)" using assms(2) by (simp add: service_ok_def)
  obtain page r r' where page: "so_get_page memory_ops (sv_store q) p = Inr page"
    and r: "so_get_revision memory_ops (sv_store q) p ViewDraft = Inr r"
    and hyd: "hydrate_in_place dp rq p r q = (Inr r', q')"
    and h: "hp_no h = rv_no r'" "hp_revision h = rv_id r'" "hp_document h = rv_document r'"
    using run assms(3) by (auto simp: get_revision_head_def split: option.splits sum.splits prod.splits)
  note r' = hydrate_in_place_revision [OF hyd]
  have "keeps_history memory_ops (sv_store q) (sv_store q')"
    using mem.query_effects(2) [OF assms(2,3), of rq p] run by (simp add: request_effect_def)
  moreover have "mem_get_revision_by_id (sv_store q) p (rv_id r) = Inr r"
    using mem.revision_by_id [OF inv page r] by simp
  ultimately obtain d where "mem_get_revision_by_id (sv_store q') p (rv_id r) = Inr (r\<lparr>rv_document := d\<rparr>)"
    and "block_texts d = block_texts (rv_document r)"
    by (rule kept_revision)
  then show ?thesis
    using r' h no head_texts [OF doc] assms(4) by (auto simp: room_ok_def room_of_head_def)
qed

section \<open>Calls of the page service\<close>

lemma revision_head_idempotency:
  assumes "get_revision_head dp rq p q = (res, q')" and "dp_store dp = memory_ops"
  shows "mem_get_idempotency (sv_store q') = mem_get_idempotency (sv_store q)"
proof -
  have share: "mem_get_idempotency (mem_share x y bs s) = mem_get_idempotency s" for x y bs s
    by (auto simp: fun_eq_iff mem_get_idempotency_def mem_share_def)
  have "mem_get_idempotency (sv_store sv') = mem_get_idempotency (sv_store q)"
    if "hydrate_in_place dp rq p r q = (res', sv')" for r res' sv'
    using hydrate_in_place_service [OF that] assms(2) by (auto simp: share)
  then show ?thesis
    using assms(1) by (auto simp: get_revision_head_def split: option.splits sum.splits prod.splits)
qed

lemma client_head_kept:
  assumes "client_head (grpc_get_revision_head dp) i q = (res, q')" and "mem_service_ok (dp_gen dp) q"
    and "dp_store dp = memory_ops"
  shows "keeps_history memory_ops (sv_store q) (sv_store q')
     \<and> mem_get_idempotency (sv_store q') = mem_get_idempotency (sv_store q)"
proof -
  obtain rq :: request and p r where run: "get_revision_head dp rq p q = (r, q')"
    using assms(1)
    by (auto simp: client_head_def grpc_get_revision_head_def split: prod.splits sum.splits option.splits)
  have "keeps_history memory_ops (sv_store q) (sv_store q')"
    using mem.query_effects(2) [OF assms(2,3), of rq p] run by (simp add: request_effect_def)
  then show ?thesis using revision_head_idempotency [OF run assms(3)] by simp
qed

lemma client_commit_kept:
  assumes "client_commit (grpc_commit dp now) i q = (res, q')" and "mem_service_ok (dp_gen dp) q"
    and "gen_ok (dp_gen dp)" and "dp_store dp = memory_ops" and "int (sv_next q) < max_int64"
  shows "keeps_history memory_ops (sv_store q) (sv_store q')"
proof -
  have kept: "keeps_history memory_ops (sv_store q) (sv_store q1)"
    if "commit_collaborative_revision dp now c q = (r, q1)" for c r q1
    using mem.commit_effect [OF assms(2,3,5,4), of now c] that by (simp add: request_effect_def)
  then show ?thesis
    using assms(1) keeps_history_refl [of memory_ops "sv_store q"]
    by (auto simp: client_commit_def grpc_commit_def split: prod.splits sum.splits option.splits)
qed

abbreviation fresh_patch :: "submit_input \<Rightarrow> (mem_store, 'r) service \<Rightarrow> bool" where
  "fresh_patch input q \<equiv> trim_space (sb_patch input) = ''''
     \<or> mem_get_idempotency (sv_store q) (sb_page input) (collab_idempotency_key (trim_space (sb_patch input))) = Inr None"

text \<open>A patch that is committed under a fresh identifier leaves the patched room in order.\<close>

lemma committed_room_ok:
  assumes "client_commit (grpc_commit dp now) (commit_input_of cx input d) q = (Inr res, q')"
    and "mem_service_ok (dp_gen dp) q" and "gen_ok (dp_gen dp)" and "dp_store dp = memory_ops"
    and "int (sv_next q) < max_int64" and "fresh_patch input q"
    and "room_ok s (room_of input) st" and "rm_page st = sb_page input"
  shows "room_ok (sv_store q') (room_of input) (patched_room st input d res)"
proof (rule client_commit_Inr [OF assms(1)])
  fix snapshot p
  let ?i = "commit_request_of (commit_message_of (commit_input_of cx input d)) snapshot"
  assume doc: "document_of_json (cdocument_json (ki_document (commit_input_of cx input d))) = Some snapshot"
    and run: "commit_collaborative_revision dp now ?i q = (Inr p, q')"
    and res: "kr_revision res = cp_revision p" "kr_no res = cp_no p"
  have input: "cm_page ?i = sb_page input" "cm_patch ?i = sb_patch input" "cm_document ?i = snapshot"
    by (simp_all add: commit_input_of_def)
  have "commit_guard dp ?i q = None"
    using assms(4,6) input
    by (intro commit_not_repeated [OF run]) (auto simp: saved_before_def)
  from assms(2,3,4,5) this run show ?thesis
  proof (rule commit_accepted)
    fix cur r
    assume "mem_get_revision_by_id (sv_store q') (cm_page ?i) (rv_id r) = Inr r"
      and "cp_revision p = rv_id r" and "cp_no p = rv_no r"
      and "block_texts (rv_document r) = block_texts (cm_document ?i)"
    then show ?thesis
      using assms(7,8) res input decoded_texts [OF doc]
      by (auto simp: room_ok_def patched_room_def commit_input_of_def)
  qed
qed

section \<open>Every operation keeps the rooms in order\<close>

definition rooms_step ::
  "(mem_rooms, mem_presence, (mem_store, 'r) service) collab \<Rightarrow>
   (mem_rooms, mem_presence, (mem_store, 'r) service) collab \<Rightarrow> bool" where
  "rooms_step sv sv' \<longleftrightarrow>
     rooms_ok sv' \<and> keeps_history memory_ops (sv_store (cl_page sv)) (sv_store (cl_page sv'))"

lemma rooms_step_trans: "rooms_step sv sv1 \<Longrightarrow> rooms_step sv1 sv2 \<Longrightarrow> rooms_step sv sv2"
  by (auto simp: rooms_step_def intro: keeps_history_trans)

lemma rooms_step_refl: "rooms_ok sv \<Longrightarrow> rooms_step sv sv"
  by (simp add: rooms_step_def keeps_history_refl)

lemma rooms_step_save:
  assumes "rooms_ok sv" and "room_ok (sv_store (cl_page sv)) (rm_id st) st"
    and "save_room_then (collab_with dp now gen) t st ttl x sv = (res, sv')"
  shows "rooms_step sv sv'"
  using assms(3) rooms_ok_save [OF assms(1,2)]
  by (auto simp: save_room_then_def rooms_step_def keeps_history_refl split: prod.splits option.splits)

lemma rooms_step_head:
  assumes "client_head (grpc_get_revision_head dp) i (cl_page sv) = (r, q)" and "rooms_ok sv"
    and "collab_ok (dp_gen dp) sv" and "dp_store dp = memory_ops"
  shows "rooms_step sv (sv\<lparr>cl_page := q\<rparr>)"
  using client_head_kept [OF assms(1) _ assms(4)] assms(2,3) rooms_ok_page [of sv q]
  by (simp add: rooms_step_def collab_ok_def)

text \<open>Reading the head of a page and saving it as a room.\<close>

lemma rooms_step_reload:
  assumes "client_head (grpc_get_revision_head dp) (head_request cx p w a) (cl_page sv) = (Inr head, q)"
    and "save_room_then (collab_with dp now gen) t (room_of_head p w head) ttl x (sv\<lparr>cl_page := q\<rparr>) = (res, sv')"
    and "rooms_ok sv" and "collab_ok (dp_gen dp) sv" and "dp_store dp = memory_ops" and "colon_free w"
  shows "rooms_step sv sv' \<and> room_ok (sv_store (cl_page sv')) (room_key w p) (room_of_head p w head)
     \<and> mem_get_idempotency (sv_store (cl_page sv')) = mem_get_idempotency (sv_store (cl_page sv))"
proof -
  have service: "mem_service_ok (dp_gen dp) (cl_page sv)" using assms(4) by (simp add: collab_ok_def)
  have step: "rooms_step sv (sv\<lparr>cl_page := q\<rparr>)" by (rule rooms_step_head [OF assms(1,3,4,5)])
  have room: "room_ok (sv_store q) (room_key w p) (room_of_head p w head)"
    by (rule head_room_ok [OF assms(1) service assms(5,6)])
  have "rooms_step (sv\<lparr>cl_page := q\<rparr>) sv'"
    using step room by (intro rooms_step_save [OF _ _ assms(2)]) (auto simp: rooms_step_def room_ok_def)
  moreover have "cl_page sv' = q"
    using assms(2) by (auto simp: save_room_then_def split: prod.splits option.splits)
  ultimately show ?thesis
    using step room client_head_kept [OF assms(1) service assms(5)] by (auto intro: rooms_step_trans)
qed

lemma found_room_ok:
  assumes "rooms_ok sv" and "mem_room_get now (room_key w p) (cl_rooms sv) = Inr (Some st)" and "colon_free w"
  shows "room_ok (sv_store (cl_page sv)) (room_key w p) st \<and> rm_page st = p"
proof -
  have "cl_rooms sv (room_key w p) = Some st"
    using assms(2) by (auto simp: mem_room_get_def split: option.splits if_splits)
  then have ok: "room_ok (sv_store (cl_page sv)) (room_key w p) st" using assms(1) by (simp add: rooms_ok_def)
  then have "room_key w p = room_key (rm_workspace st) (rm_page st)" and "colon_free (rm_workspace st)"
    by (simp_all add: room_ok_def)
  then show ?thesis using room_key_inj [of w p "rm_workspace st" "rm_page st"] assms(3) ok by simp
qed

lemma join_rooms_step:
  assumes "join_session (collab_with dp now gen) cx t input sv = (res, sv')" and "rooms_ok sv"
    and "collab_ok (dp_gen dp) sv" and "dp_store dp = memory_ops" and "colon_free (ji_workspace input)"
  shows "rooms_step sv sv'"
proof -
  obtain r1 sv1 where room: "join_room (collab_with dp now gen) cx t input sv = (r1, sv1)" by fastforce
  have step: "rooms_step sv sv1"
    using room rooms_step_refl [OF assms(2)] rooms_step_head [OF _ assms(2-4)]
      rooms_step_reload [OF _ _ assms(2-5)]
    by (fastforce simp: join_room_def refresh_snapshot_def split: sum.splits option.splits prod.splits)
  have "rooms_step sv1 sv'"
    using assms(1) room step
    by (auto simp: join_session_def Let_def rooms_step_def keeps_history_refl rooms_ok_def
        split: sum.splits option.splits prod.splits if_splits)
  then show ?thesis using step by (rule rooms_step_trans [rotated])
qed

lemma submit_room_step:
  assumes "submit_room (collab_with dp now gen) cx t input sv = (res, sv')" and "rooms_ok sv"
    and "collab_ok (dp_gen dp) sv" and "dp_store dp = memory_ops" and "colon_free (sb_workspace input)"
  shows "rooms_step sv sv' \<and> (\<forall>st. res = Inr st \<longrightarrow>
       room_ok (sv_store (cl_page sv')) (room_of input) st \<and> rm_page st = sb_page input)
     \<and> (fresh_patch input (cl_page sv) \<longrightarrow> fresh_patch input (cl_page sv'))"
proof (cases "mem_room_get t (room_of input) (cl_rooms sv)")
  case (Inl err)
  then show ?thesis using assms(1) rooms_step_refl [OF assms(2)] by (auto simp: submit_room_def)
next
  case found: (Inr room)
  show ?thesis
  proof (cases room)
    case (Some st)
    then show ?thesis
      using assms(1) found rooms_step_refl [OF assms(2)] found_room_ok [OF assms(2) _ assms(5)]
      by (auto simp: submit_room_def)
  next
    case None
    obtain h q where head: "client_head (grpc_get_revision_head dp)
        (head_request cx (sb_page input) (sb_workspace input) (sb_actor input)) (cl_page sv) = (h, q)" by fastforce
    show ?thesis
    proof (cases h)
      case (Inl err)
      then show ?thesis
        using assms(1) found None head rooms_step_head [OF head assms(2-4)]
          client_head_kept [OF head _ assms(4)] assms(3)
        by (auto simp: submit_room_def collab_ok_def)
    next
      case (Inr hd)
      let ?st = "room_of_head (sb_page input) (sb_workspace input) hd"
      have save: "save_room_then (collab_with dp now gen) t ?st (sb_ttl input) ?st (sv\<lparr>cl_page := q\<rparr>) = (res, sv')"
        using assms(1) found None head Inr by (simp add: submit_room_def Let_def)
      have "res = Inr st \<Longrightarrow> st = ?st" for st
        using save by (auto simp: save_room_then_def split: prod.splits option.splits)
      moreover have "rm_page ?st = sb_page input" by (simp add: room_of_head_def)
      ultimately show ?thesis
        using rooms_step_reload [OF head [unfolded Inr] save assms(2-5)] by auto
    qed
  qed
qed

lemma submit_rooms_step:
  assumes "submit_patch (collab_with dp now gen) cx t input sv = (res, sv')" and "rooms_ok sv"
    and "collab_ok (dp_gen dp) sv" and "dp_store dp = memory_ops" and "colon_free (sb_workspace input)"
    and "gen_ok (dp_gen dp)" and "int (sv_next (cl_page sv)) < max_int64" and "fresh_patch input (cl_page sv)"
  shows "rooms_step sv sv'"
proof -
  obtain r1 sv1 where room: "submit_room (collab_with dp now gen) cx t input sv = (r1, sv1)" by fastforce
  note step1 = submit_room_step [OF room assms(2-5)] and ok1 = submit_room_ok [OF room assms(3,4)]
  obtain l p where list: "mem_list t (room_of input) (cl_presence sv1) = (l, p)" by fastforce
  let ?sv = "sv1\<lparr>cl_presence := p\<rparr>"
  have step2: "rooms_step sv ?sv" using step1 by (auto simp: rooms_step_def)
  have ok2: "collab_ok (dp_gen dp) ?sv" using ok1 presence_kept(2) [OF list] by (simp add: collab_ok_def)
  have page: "mem_service_ok (dp_gen dp) (cl_page sv1)" using ok1 by (simp add: collab_ok_def)
  have committed: "rooms_step ?sv (?sv\<lparr>cl_page := q\<rparr>) \<and> collab_ok (dp_gen dp) (?sv\<lparr>cl_page := q\<rparr>)"
    if "client_commit (grpc_commit dp now) i (cl_page sv1) = (c, q)" for i c q
    using client_commit_kept [OF that page assms(6,4)] client_commit_keeps [OF that page assms(6,4)]
      ok1 ok2 assms(7) step2 rooms_ok_page [of ?sv q]
    by (auto simp: rooms_step_def collab_ok_def)
  have aborted: "rooms_step sv sv'"
    if "client_commit (grpc_commit dp now) i (cl_page sv1) = (c, q)"
      and "submit_aborted (collab_with dp now gen) cx t input (?sv\<lparr>cl_page := q\<rparr>) = (res, sv')" for i c q
  proof -
    note c = committed [OF that(1)]
    obtain h q' where head: "client_head (grpc_get_revision_head dp)
        (head_request cx (sb_page input) (sb_workspace input) (sb_actor input)) q = (h, q')" by fastforce
    have r: "rooms_ok (?sv\<lparr>cl_page := q\<rparr>)" using c by (simp add: rooms_step_def)
    have "rooms_step (?sv\<lparr>cl_page := q\<rparr>) sv'"
    proof (cases h)
      case (Inl err)
      then show ?thesis
        using that(2) head rooms_step_head [of dp _ "?sv\<lparr>cl_page := q\<rparr>" h q', OF _ r _ assms(4)] c
        by (auto simp: submit_aborted_def)
    next
      case (Inr hd)
      then have save: "save_room_then (collab_with dp now gen) t (room_of_head (sb_page input) (sb_workspace input) hd)
          (sb_ttl input) (Rebase (stale_patch input (ph_no hd) (ph_revision hd) (ph_document hd)))
          (?sv\<lparr>cl_page := q, cl_page := q'\<rparr>) = (res, sv')"
        using that(2) head by (simp add: submit_aborted_def)
      have "client_head (grpc_get_revision_head dp) (head_request cx (sb_page input) (sb_workspace input)
          (sb_actor input)) (cl_page (?sv\<lparr>cl_page := q\<rparr>)) = (Inr hd, q')"
        using head Inr by simp
      from rooms_step_reload [OF this save r _ assms(4,5)] show ?thesis using c by blast
    qed
    then show ?thesis using c step2 by (meson rooms_step_trans)
  qed
  have accepted: "rooms_step sv sv'"
    if st: "r1 = Inr st" and d: "client_commit (grpc_commit dp now) (commit_input_of cx input d) (cl_page sv1) = (Inr r, q)"
      and save: "save_room_then (collab_with dp now gen) t (patched_room st input d r) (sb_ttl input) x
            (?sv\<lparr>cl_page := q\<rparr>) = (res, sv')" for st d r q x
  proof -
    note c = committed [OF d]
    have "room_ok (sv_store q) (room_of input) (patched_room st input d r)"
      using step1 ok1 st assms(7,8) by (intro committed_room_ok [OF d page assms(6,4)]) auto
    then have "rooms_step (?sv\<lparr>cl_page := q\<rparr>) sv'"
      using c by (intro rooms_step_save [OF _ _ save]) (auto simp: rooms_step_def room_ok_def)
    then show ?thesis using c step2 by (meson rooms_step_trans)
  qed
  show ?thesis
    using assms(1) room step1 step2 list committed aborted accepted
    by (auto simp: submit_patch_def Let_def intro: rooms_step_trans
        split: sum.splits prod.splits rpc_error.splits if_splits)
qed

lemma refresh_snapshot_step:
  assumes "refresh_snapshot (collab_with dp now gen) cx p w sv = (res, sv')" and "rooms_ok sv"
    and "collab_ok (dp_gen dp) sv" and "dp_store dp = memory_ops" and "colon_free w"
  shows "rooms_step sv sv' \<and> collab_ok (dp_gen dp) sv'
     \<and> (\<forall>st. res = Inr st \<longrightarrow> room_ok (sv_store (cl_page sv')) (rm_id st) st)"
proof -
  have page: "mem_service_ok (dp_gen dp) (cl_page sv)" using assms(3) by (simp add: collab_ok_def)
  obtain h q where head: "client_head (grpc_get_revision_head dp) (head_request cx p w '''') (cl_page sv) = (h, q)"
    by fastforce
  have sv': "sv' = sv\<lparr>cl_page := q\<rparr>" and res: "\<And>st. res = Inr st \<Longrightarrow> \<exists>hd. h = Inr hd \<and> st = room_of_head p w hd"
    using assms(1) head by (auto simp: refresh_snapshot_def split: sum.splits)
  have "room_ok (sv_store q) (rm_id st) st" if "res = Inr st" for st
    using res [OF that] head head_room_ok [OF _ page assms(4,5), of cx p "''''" _ q]
    by (auto simp: room_of_head_def room_ok_def)
  moreover have "collab_ok (dp_gen dp) sv'"
    using client_head_keeps [OF head page assms(4)] assms(3) sv' by (simp add: collab_ok_def)
  ultimately show ?thesis using rooms_step_head [OF head assms(2-4)] sv' by simp
qed

lemma refresh_read_step:
  assumes "refresh_read (collab_with dp now gen) cx t p w ttl sv = (res, sv')" and "rooms_ok sv"
    and "collab_ok (dp_gen dp) sv" and "dp_store dp = memory_ops" and "colon_free w"
  shows "rooms_step sv sv' \<and> collab_ok (dp_gen dp) sv'
     \<and> (\<forall>st d. res = Inr (Some (st, d)) \<longrightarrow> room_ok (sv_store (cl_page sv')) (rm_id st) st)"
proof (cases "\<exists>old. mem_room_get t (room_key w p) (cl_rooms sv) = Inr (Some old)")
  case False
  then have "sv' = sv \<and> (\<forall>x. res \<noteq> Inr (Some x))"
    using assms(1) by (auto simp: refresh_read_def split: sum.splits option.splits)
  then show ?thesis using rooms_step_refl [OF assms(2)] assms(3) by simp
next
  case True
  obtain h q where snap: "refresh_snapshot (collab_with dp now gen) cx p w sv = (h, q)" by fastforce
  then have "sv' = q" and "\<And>st d. res = Inr (Some (st, d)) \<Longrightarrow> h = Inr st"
    using assms(1) True by (auto simp: refresh_read_def Let_def split: sum.splits)
  with refresh_snapshot_step [OF snap assms(2-5)] show ?thesis by blast
qed

section \<open>Runs of both services\<close>

text \<open>
  Clients join, touch and leave sessions and send patches, editors send requests to the page
  service, and refreshes are read and saved, each at its own time: what was read waits in a
  list, and is saved whenever, even more than once. So are the rooms that joins open: \<open>joined\<close> is a
  join without interruption, \<open>joining\<close> the read of one that saves its room later. The code takes any patch and any
  workspace; these runs leave out two of its behaviours, under which a room can hold what no page
  holds: a patch whose identifier the page service has saved before (for which it answers the old
  revision, while the room takes the new blocks), and a workspace with a colon in its name (which can
  share the key of its room with the room of another page).
\<close>

type_synonym 'r collab_state =
  "(mem_rooms, mem_presence, (mem_store, 'r) service) collab \<times> (room_state \<times> duration) list"

inductive collab_run :: "(mem_store, 'r) deps \<Rightarrow> 'r collab_state \<Rightarrow> 'r collab_state \<Rightarrow> bool"
  for dp :: "(mem_store, 'r) deps" and x0 :: "'r collab_state" where
  start: "collab_run dp x0 x0"
| joined: "collab_run dp x0 (sv, ps) \<Longrightarrow> colon_free (ji_workspace input) \<Longrightarrow>
    collab_run dp x0 (snd (join_session (collab_with dp now gen) cx now input sv), ps)"
| touched: "collab_run dp x0 (sv, ps) \<Longrightarrow>
    collab_run dp x0 (snd (update_presence (collab_with dp now gen) now room i c sel ttl sv), ps)"
| left: "collab_run dp x0 (sv, ps) \<Longrightarrow>
    collab_run dp x0 (snd (leave_session (collab_with dp now gen) room i sv), ps)"
| patched: "collab_run dp x0 (sv, ps) \<Longrightarrow> colon_free (sb_workspace input) \<Longrightarrow>
    fresh_patch input (cl_page sv) \<Longrightarrow> int (sv_next (cl_page sv)) < max_int64 \<Longrightarrow>
    collab_run dp x0 (snd (submit_patch (collab_with dp now gen) cx now input sv), ps)"
| served: "collab_run dp x0 (sv, ps) \<Longrightarrow> int (sv_next (cl_page sv)) < max_int64 \<Longrightarrow>
    collab_run dp x0 (sv\<lparr>cl_page := snd (run_request dp now q (cl_page sv))\<rparr>, ps)"
| refreshing: "collab_run dp x0 (sv, ps) \<Longrightarrow> colon_free w \<Longrightarrow>
    refresh_read (collab_with dp now gen) cx now p w ttl sv = (res, sv') \<Longrightarrow>
    collab_run dp x0 (sv', (case res of Inr (Some x) \<Rightarrow> x # ps | _ \<Rightarrow> ps))"
| joining: "collab_run dp x0 (sv, ps) \<Longrightarrow> colon_free w \<Longrightarrow>
    refresh_snapshot (collab_with dp now gen) cx p w sv = (opened, sv') \<Longrightarrow>
    collab_run dp x0 (sv', (case opened of Inr st \<Rightarrow> (st, ttl) # ps | _ \<Rightarrow> ps))"
| refreshed: "collab_run dp x0 (sv, ps) \<Longrightarrow> x \<in> set ps \<Longrightarrow>
    collab_run dp x0 (snd (refresh_save (collab_with dp now gen) now (Some x) sv), ps)"

definition state_ok :: "(mem_store, 'r) deps \<Rightarrow> 'r collab_state \<Rightarrow> bool" where
  "state_ok dp = (\<lambda>(sv, ps). collab_ok (dp_gen dp) sv \<and> rooms_ok sv
     \<and> (\<forall>(st, d) \<in> set ps. room_ok (sv_store (cl_page sv)) (rm_id st) st))"

lemma state_ok_step:
  assumes "state_ok dp (sv, ps)" and "rooms_step sv sv'" and "collab_ok (dp_gen dp) sv'"
  shows "state_ok dp (sv', ps)"
  using assms room_ok_later by (fastforce simp: state_ok_def rooms_step_def)

lemma presence_step:
  assumes "rooms_ok sv" and "collab_ok gen' sv"
  shows "rooms_step sv (snd (update_presence (collab_with dp now gen) now room i c sel ttl sv))
       \<and> collab_ok gen' (snd (update_presence (collab_with dp now gen) now room i c sel ttl sv))"
    and "rooms_step sv (snd (leave_session (collab_with dp now gen) room i sv))
       \<and> collab_ok gen' (snd (leave_session (collab_with dp now gen) room i sv))"
proof -
  have inv: "mem_presence_inv (cl_presence sv)" using assms(2) by (simp add: collab_ok_def)
  have touch: "mem_presence_inv p" if "mem_touch room i c sel now ttl (cl_presence sv) = (r, p)" for r p
    using mem_presence.touch_live [OF inv, where s' = p]
      mem_presence.touch_failed [OF inv, where s' = p] that by (cases r) (simp; blast)+
  then show "rooms_step sv (snd (update_presence (collab_with dp now gen) now room i c sel ttl sv))
       \<and> collab_ok gen' (snd (update_presence (collab_with dp now gen) now room i c sel ttl sv))"
    using assms
    by (auto simp: update_presence_def rooms_step_def rooms_ok_def keeps_history_refl collab_ok_def
        split: prod.splits sum.splits presence_error.splits)
  have "mem_presence_inv (snd (mem_remove room i (cl_presence sv)))"
    using mem_presence.remove_live [OF inv, of room i] by (simp add: mem_remove_def)
  then show "rooms_step sv (snd (leave_session (collab_with dp now gen) room i sv))
       \<and> collab_ok gen' (snd (leave_session (collab_with dp now gen) room i sv))"
    using assms
    by (auto simp: leave_session_def rooms_step_def rooms_ok_def keeps_history_refl collab_ok_def split: prod.splits)
qed

lemma collab_run_ok:
  assumes "collab_run dp x0 x" and "state_ok dp x0" and "gen_ok (dp_gen dp)" and "dp_store dp = memory_ops"
  shows "state_ok dp x"
  using assms(1)
proof (induction rule: collab_run.induct)
  case start
  show ?case by (rule assms(2))
next
  case (joined sv ps input now gen cx)
  then show ?case
    using join_rooms_step [OF prod.collapse [symmetric], of sv dp input now gen cx now]
      join_keeps_ok [OF prod.collapse [symmetric], of "dp_gen dp" sv dp now gen cx now input] assms(4)
    by (intro state_ok_step [OF joined.IH]) (auto simp: state_ok_def)
next
  case (touched sv ps now gen room i c sel ttl)
  then show ?case
    using presence_step(1) [of sv "dp_gen dp" dp now gen room i c sel ttl]
    by (intro state_ok_step [OF touched.IH]) (auto simp: state_ok_def)
next
  case (left sv ps now gen room i)
  then show ?case
    using presence_step(2) [of sv "dp_gen dp" dp now gen room i]
    by (intro state_ok_step [OF left.IH]) (auto simp: state_ok_def)
next
  case (patched sv ps input now gen cx)
  then show ?case
    using submit_rooms_step [OF prod.collapse [symmetric], of sv dp input now gen cx now]
      submit_keeps_ok [OF prod.collapse [symmetric], of dp sv now gen cx now input] assms(3,4)
    by (intro state_ok_step [OF patched.IH]) (auto simp: state_ok_def)
next
  case (served sv ps now q)
  have "mem_service_ok (dp_gen dp) (cl_page sv)" using served.IH by (auto simp: state_ok_def collab_ok_def)
  from mem.run_request_effect [OF this assms(3) served.hyps(2) assms(4), of now q]
  show ?case
    using served.IH rooms_ok_page [of sv "snd (run_request dp now q (cl_page sv))"]
    by (intro state_ok_step [OF served.IH]) (auto simp: state_ok_def rooms_step_def request_effect_def collab_ok_def)
next
  case (refreshing sv ps w now gen cx p ttl res sv')
  then have step: "rooms_step sv sv' \<and> collab_ok (dp_gen dp) sv'
     \<and> (\<forall>st d. res = Inr (Some (st, d)) \<longrightarrow> room_ok (sv_store (cl_page sv')) (rm_id st) st)"
    using assms(4) by (intro refresh_read_step) (auto simp: state_ok_def)
  then have "state_ok dp (sv', ps)" by (intro state_ok_step [OF refreshing.IH]) auto
  then show ?case using step by (auto simp: state_ok_def split: sum.splits option.splits)
next
  case (joining sv ps w now gen cx p opened sv' ttl)
  then have step: "rooms_step sv sv' \<and> collab_ok (dp_gen dp) sv'
     \<and> (\<forall>st. opened = Inr st \<longrightarrow> room_ok (sv_store (cl_page sv')) (rm_id st) st)"
    using assms(4) by (intro refresh_snapshot_step) (auto simp: state_ok_def)
  then have "state_ok dp (sv', ps)" by (intro state_ok_step [OF joining.IH]) auto
  then show ?case using step by (auto simp: state_ok_def split: sum.splits)
next
  case (refreshed sv ps x now gen)
  obtain st d where x: "x = (st, d)" by fastforce
  have ok: "rooms_ok sv" "room_ok (sv_store (cl_page sv)) (rm_id st) st" "collab_ok (dp_gen dp) sv"
    using refreshed.IH refreshed.hyps(2) x by (auto simp: state_ok_def)
  obtain r sv1 where save: "save_room_then (collab_with dp now gen) now st d () sv = (r, sv1)" by fastforce
  have "rooms_step sv sv1" and "collab_ok (dp_gen dp) sv1"
    using rooms_step_save [OF ok(1,2) save] save_room_then_ok [OF save ok(3)] by auto
  moreover have "snd (refresh_save (collab_with dp now gen) now (Some x) sv) = sv1"
    using x save by (auto simp: refresh_save_def split: sum.splits)
  ultimately show ?case by (intro state_ok_step [OF refreshed.IH]) simp_all
qed

section \<open>Properties\<close>

text \<open>
  C30: a room holds what its page holds. As long as no patch comes under an identifier that was saved
  before and no workspace has a colon in its name, whatever clients, editors and refreshes do, and
  in whatever order, the room of a page names a revision of this page by its identifier and
  number, and shows its blocks, with their identifiers, types and texts. It need not be the
  latest revision. Both services keep their data in memory.
\<close>

theorem rooms_hold_revisions:
  fixes sv sv0 :: "(mem_rooms, mem_presence, (mem_store, 'r) service) collab"
  assumes "collab_run dp (sv0, []) (sv, ps)" and "collab_ok (dp_gen dp) sv0" and "cl_rooms sv0 = Map.empty"
    and "gen_ok (dp_gen dp)" and "dp_store dp = memory_ops" and "cl_rooms sv k = Some st"
  shows "\<exists>r. mem_get_revision_by_id (sv_store (cl_page sv)) (rm_page st) (rm_revision st) = Inr r
     \<and> rv_no r = rm_no st \<and> block_texts (rv_document r) = cblock_texts (rm_document st)
     \<and> k = room_key (rm_workspace st) (rm_page st)"
proof -
  have "state_ok dp (sv0, [])" using assms(2,3) by (simp add: state_ok_def rooms_ok_def)
  from collab_run_ok [OF assms(1) this assms(4,5)] have "rooms_ok sv" by (simp add: state_ok_def)
  then have "room_ok (sv_store (cl_page sv)) k st" using assms(6) by (simp add: rooms_ok_def)
  then show ?thesis by (auto simp: room_ok_def)
qed

lemma closed_collab_ok: "collab_ok run_gen closed_collab"
  using sample_ok(2)
  by (simp add: collab_ok_def closed_collab_def mem_rooms_keyed_def mem_presence_inv_def)

lemma patched_collab_run: "collab_run sample_deps (closed_collab, []) (patched_collab, [])"
proof -
  have free: "colon_free (ji_workspace sample_join)" "colon_free (sb_workspace (sample_submit 1))"
    by (simp_all add: colon_free_def sample_join_def sample_submit_def)
  have run: "collab_run sample_deps (closed_collab, []) (open_collab, [])"
    unfolding open_collab_def by (rule collab_run.joined [OF collab_run.start free(1)])
  have "mem_get_idempotency (sv_store (cl_page open_collab)) sample_page (collab_idempotency_key ''p'') = Inr None"
    by code_simp
  moreover have "trim_space ''p'' = ''p''" by code_simp
  ultimately have "fresh_patch (sample_submit 1) (cl_page open_collab)" by (simp add: sample_submit_def)
  moreover have "int (sv_next (cl_page open_collab)) < max_int64" using sample_facts by (simp add: max_int64_def)
  ultimately show ?thesis
    unfolding patched_collab_def by (rule collab_run.patched [OF run free(2)])
qed

theorem rooms_hold_revisions_witness:
  "\<exists>st r. cl_rooms patched_collab (room_of (sample_submit 2)) = Some st \<and> rm_no st = 2
     \<and> mem_get_revision_by_id (sv_store (cl_page patched_collab)) (rm_page st) (rm_revision st) = Inr r
     \<and> block_texts (rv_document r) = cblock_texts (rm_document st)"
proof -
  obtain st where st: "cl_rooms patched_collab (room_of (sample_submit 2)) = Some st" "rm_no st = 2"
    using sample_facts by (auto simp: mem_room_def split: option.splits if_splits)
  have start: "collab_ok (dp_gen sample_deps) closed_collab" "cl_rooms closed_collab = Map.empty"
    "gen_ok (dp_gen sample_deps)" "dp_store sample_deps = memory_ops"
    using closed_collab_ok gen_ok_run_gen by (simp_all add: closed_collab_def)
  from rooms_hold_revisions [OF patched_collab_run start st(1)] st show ?thesis by blast
qed

section \<open>A refresh that races with a patch\<close>

lemma refresh_read_head:
  assumes "refresh_read (collab_with dp now gen) cx t p w ttl sv = (Inr (Some (st, d)), sv')"
    and "collab_ok (dp_gen dp) sv" and "dp_store dp = memory_ops"
  obtains cur where "ms_pages (sv_store (cl_page sv')) p = Some cur" and "rm_no st = pg_draft_no cur"
    and "rm_id st = room_key w p" and "0 < d" and "cl_rooms sv' = cl_rooms sv"
    and "cl_presence sv' = cl_presence sv"
proof -
  have inv: "mem_inv (sv_store (cl_page sv))" using assms(2) by (simp add: collab_ok_def service_ok_def)
  obtain hd q where head: "client_head (grpc_get_revision_head dp) (head_request cx p w '''') (cl_page sv) = (Inr hd, q)"
    and st: "st = room_of_head p w hd" and sv': "sv' = sv\<lparr>cl_page := q\<rparr>" and d: "0 < d"
    using assms(1)
    by (auto simp: refresh_read_def refresh_snapshot_def Let_def second_def
        split: sum.splits option.splits prod.splits if_splits)
  obtain rq :: request and h where run: "get_revision_head dp rq p (cl_page sv) = (Inr h, q)" and no: "ph_no hd = hp_no h"
    using head by (auto elim!: client_head_Inr simp: head_request_def)
  obtain page r r' where page: "so_get_page memory_ops (sv_store (cl_page sv)) p = Inr page"
    and r: "so_get_revision memory_ops (sv_store (cl_page sv)) p ViewDraft = Inr r"
    and hyd: "hydrate_in_place dp rq p r (cl_page sv) = (Inr r', q)" and h: "hp_no h = rv_no r'"
    using run assms(3) by (auto simp: get_revision_head_def split: option.splits sum.splits prod.splits)
  have "so_get_page memory_ops (sv_store q) p = Inr page"
    using hydrate_in_place_service [OF hyd] page assms(3) mem.share_pages by auto
  moreover have "rv_no r' = pg_draft_no page"
    using hydrate_in_place_revision [OF hyd] mem.draft_head_no [OF inv page r] by simp
  ultimately show thesis
    using that [of page] st no h d sv' by (simp add: mem_get_page_iff room_of_head_def)
qed

text \<open>
  refreshing takes no lock. A patch that is accepted between the two halves of a refresh
  is taken out of the room again: the room goes back to the base of the patch, although its
  page has moved on.
\<close>

theorem refresh_undoes_patch:
  fixes sv sv' sv2 :: "(mem_rooms, mem_presence, (mem_store, 'r) service) collab"
  assumes "collab_ok (dp_gen dp) sv" and "gen_ok (dp_gen dp)" and "dp_store dp = memory_ops"
    and "refresh_read (collab_with dp now gen) cx now (sb_page input) (sb_workspace input) ttl sv
      = (Inr (Some (old, d)), sv')"
    and "collab_ok (dp_gen dp) sv'" and "mem_room (cl_rooms sv') now (room_of input) = Some st" and "0 \<le> sb_ttl input"
    and "patch_saved dp input (cl_page sv') = None" and "int (sv_next (cl_page sv')) < max_int64"
    and "submit_patch (collab_with dp now gen) cx now input sv' = (Inr (Accepted pa), sv2)"
  shows "\<exists>st' sv3. refresh_save (collab_with dp later gen) later (Some (old, d)) sv2 = (None, sv3)
     \<and> mem_room (cl_rooms sv3) later (room_of input) = Some st' \<and> cl_page sv3 = cl_page sv2
     \<and> rm_no st' = sb_base input \<and> sb_base input < pt_no pa"
proof -
  obtain cur where cur: "ms_pages (sv_store (cl_page sv')) (sb_page input) = Some cur" and no: "rm_no old = pg_draft_no cur"
    and id: "rm_id old = room_of input" and d: "0 < d"
    by (rule refresh_read_head [OF assms(4,1,3)])
  obtain cur' where "ms_pages (sv_store (cl_page sv')) (sb_page input) = Some cur'"
    and base: "pg_draft_no cur' = sb_base input"
    and "pt_no pa = max (pg_draft_no cur') (pg_published_no cur') + 1"
    using open_room_patch_stored [OF assms(5,2,3,6,7,8,9,10)] by fastforce
  then have "rm_no old = sb_base input" and "sb_base input < pt_no pa" using cur no by auto
  then show ?thesis
    using id d by (auto simp: refresh_save_def save_room_then_def mem_room_save_def mem_room_def expired_def)
qed

definition refreshing_collab :: "(mem_rooms, mem_presence, (mem_store, mem_replay) service) collab" where
  "refreshing_collab = snd (refresh_read (collab_with sample_deps 30 run_gen) sample_context 30 sample_page ''w''
     (45 * second) open_collab)"

lemma refreshing_steps:
  "(case refresh_read (collab_with sample_deps 30 run_gen) sample_context 30 sample_page ''w'' (45 * second) open_collab of
     (res, sv) \<Rightarrow>
       (case res of Inr (Some (st, d)) \<Rightarrow> True | _ \<Rightarrow> False)
       \<and> map_option rm_no (mem_room (cl_rooms sv) 30 (room_of (sample_submit 1))) = Some 1
       \<and> patch_saved sample_deps (sample_submit 1) (cl_page sv) = None \<and> sv_next (cl_page sv) = 6
       \<and> (case fst (submit_patch (collab_with sample_deps 30 run_gen) sample_context 30 (sample_submit 1) sv) of
            Inr (Accepted pa) \<Rightarrow> pt_no pa = 2 | _ \<Rightarrow> False))"
  by code_simp

lemmas refreshing_facts = refreshing_steps [unfolded case_prod_beta, folded refreshing_collab_def]

theorem refresh_undoes_patch_witness:
  "\<exists>st' (sv3 :: (mem_rooms, mem_presence, (mem_store, mem_replay) service) collab).
     mem_room (cl_rooms sv3) 40 (room_of (sample_submit 1)) = Some st' \<and> rm_no st' = 1"
proof -
  let ?read = "refresh_read (collab_with sample_deps 30 run_gen) sample_context 30 sample_page ''w'' (45 * second) open_collab"
  obtain old d where read: "?read = (Inr (Some (old, d)), refreshing_collab)"
    using refreshing_facts by (cases ?read) (auto simp: refreshing_collab_def split: sum.splits option.splits)
  have open_run: "collab_run sample_deps (closed_collab, []) (open_collab, [])"
    unfolding open_collab_def
    by (rule collab_run.joined [OF collab_run.start]) (simp add: colon_free_def sample_join_def)
  have "state_ok sample_deps (closed_collab, [])"
    using closed_collab_ok by (simp add: state_ok_def rooms_ok_def) (simp add: closed_collab_def)
  from collab_run_ok [OF open_run this] have opened: "collab_ok run_gen open_collab" "rooms_ok open_collab"
    using gen_ok_run_gen by (simp_all add: state_ok_def)
  have ok: "collab_ok run_gen refreshing_collab"
    using refresh_read_step [OF read opened(2)] opened(1) by (simp add: colon_free_def)
  obtain st where st: "mem_room (cl_rooms refreshing_collab) 30 (room_of (sample_submit 1)) = Some st"
    using refreshing_facts by auto
  let ?run = "submit_patch (collab_with sample_deps 30 run_gen) sample_context 30 (sample_submit 1) refreshing_collab"
  obtain pa sv2 where run: "?run = (Inr (Accepted pa), sv2)"
    using refreshing_facts by (cases ?run) (auto split: sum.splits submit_result.splits)
  have facts: "patch_saved sample_deps (sample_submit 1) (cl_page refreshing_collab) = None"
    "int (sv_next (cl_page refreshing_collab)) < max_int64"
    using refreshing_facts by (simp_all add: max_int64_def)
  have read': "refresh_read (collab_with sample_deps 30 run_gen) sample_context 30 (sb_page (sample_submit 1))
      (sb_workspace (sample_submit 1)) (45 * second) open_collab = (Inr (Some (old, d)), refreshing_collab)"
    using read by (simp add: sample_submit_def)
  from refresh_undoes_patch [of sample_deps, OF _ _ _ read' _ st sample_submit_ttl facts run] opened(1) ok gen_ok_run_gen
  show ?thesis by (fastforce simp: sample_submit_def)
qed

end
