(* ===== verification/Gateway.thy ===== *)
theory Gateway
  imports Http
begin

text \<open>
  The API gateway, \<^verbatim>\<open>services/api-gateway/internal/adapters/http\<close>: authentication and
  authorization of a request (\<^verbatim>\<open>middleware.go\<close>), the claims of an access token (\<^verbatim>\<open>jwks.go\<close>) and
  the request that reaches a service behind it (\<^verbatim>\<open>router.go\<close>, \<^verbatim>\<open>ws_proxy.go\<close>), including what
  \<open>httputil.ReverseProxy\<close> does to its headers and path.
\<close>

section \<open>Authentication\<close>

record identity =
  in_user :: string
  in_email :: string
  in_name :: string
  in_workspace :: string
  in_roles :: "string list"

text \<open>The claims of a token that the JWT library has verified, as a JSON object.\<close>

type_synonym claims = "(string \<times> json) list"

definition claim_as_string :: "claims \<Rightarrow> string \<Rightarrow> string" where
  "claim_as_string cs k = (case map_of cs k of Some (JStr s) \<Rightarrow> s | _ \<Rightarrow> '''')"

definition validate_access_claims :: "claims \<Rightarrow> string + claims" where
  "validate_access_claims cs =
     (if claim_as_string cs ''token_type'' \<noteq> ''access'' then Inl ''unexpected token type'' else Inr cs)"

definition validate_access_token :: "(string \<Rightarrow> string + claims) \<Rightarrow> string \<Rightarrow> string + identity" where
  "validate_access_token parse rawToken =
     (case parse rawToken of
        Inl err \<Rightarrow> Inl err
      | Inr cs \<Rightarrow>
          (case validate_access_claims cs of
             Inl err \<Rightarrow> Inl err
           | Inr cs \<Rightarrow> Inr \<lparr>in_user = claim_as_string cs ''sub'', in_email = claim_as_string cs ''email'',
                            in_name = claim_as_string cs ''display_name'', in_workspace = '''',
                            in_roles = []\<rparr>))"

definition resolve_workspace_id :: "'b http_request \<Rightarrow> string" where
  "resolve_workspace_id r =
     (let workspaceID = header_workspace (hr_headers r)
      in if workspaceID \<noteq> '''' then workspaceID else trim_space (hr_query r ''workspace_id''))"

definition resolve_page_id :: "'b http_request \<Rightarrow> string" where
  "resolve_page_id r =
     (let pageID = trim_space (hr_param r ''pageID'')
      in if pageID \<noteq> '''' then pageID else trim_space (hr_query r ''page_id''))"

text \<open>\<open>RequireAuth\<close>: the answer it gives itself, or the identity it puts into the context.\<close>

definition require_auth ::
  "(string \<Rightarrow> string + identity) \<Rightarrow> 'b http_request \<Rightarrow> 'a http_response + identity" where
  "require_auth validate r =
     (let token = header_token (hr_headers r)
      in if token = '''' then
           Inl (write_error r 401 ''missing_token'' ''authorization header is required'')
         else
           (case validate token of
              Inl err \<Rightarrow> Inl (write_error r 401 ''invalid_token'' err)
            | Inr who \<Rightarrow> Inr (who\<lparr>in_workspace := resolve_workspace_id r\<rparr>)))"

text \<open>\<open>RequireAction\<close>: the answer it gives itself, or nothing where the request goes on.\<close>

definition gateway_require_action ::
  "remote_authz option \<Rightarrow> action \<Rightarrow> identity option \<Rightarrow> 'b http_request \<Rightarrow> 'a http_response option" where
  "gateway_require_action checker action who r =
     (case who of
        None \<Rightarrow> Some (write_error r 403 ''forbidden'' ''permission denied'')
      | Some who \<Rightarrow>
          if checker \<noteq> None then
            (case client_authorize checker
                    \<lparr>ci_actor = in_user who, ci_workspace = in_workspace who,
                     ci_page = resolve_page_id r, ci_action = action\<rparr> of
               Inl err \<Rightarrow> Some (write_error r 503 ''authorization_unavailable''
                                 ''authorization dependency unavailable'')
             | Inr d \<Rightarrow> if \<not> dn_allowed d then Some (write_error r 403 ''forbidden'' ''permission denied'')
                       else None)
          else if \<not> allowed (in_roles who) action then
            Some (write_error r 403 ''forbidden'' ''permission denied'')
          else None)"

section \<open>The request that goes on\<close>

definition apply_identity_headers :: "identity option \<Rightarrow> headers \<Rightarrow> headers" where
  "apply_identity_headers who h =
     (case who of
        None \<Rightarrow> h
      | Some who \<Rightarrow>
          (let h = header_set ''X-Auth-User-Id'' (in_user who) h;
               h = header_set ''X-Auth-Email'' (in_email who) h;
               h = header_set ''X-Auth-Display-Name'' (in_name who) h;
               h = header_set ''X-Auth-Authenticated'' ''true'' h;
               h = (if in_workspace who \<noteq> '''' then header_set ''X-Workspace-Id'' (in_workspace who) h
                    else h)
           in header_set ''X-Auth-Roles'' (join '','' (in_roles who)) h))"

text \<open>
  \<open>ReverseProxy\<close> removes the hop-by-hop headers after the director has run: first those
  that the client named in \<open>Connection\<close>, then a fixed list. It keeps \<open>Upgrade\<close> for a
  protocol switch, which no handler reads, and adds \<open>X-Forwarded-For\<close>.
\<close>

definition http_space :: "char \<Rightarrow> bool" where
  "http_space c \<longleftrightarrow> c \<in> {CHR '' '', CHR 0x09, CHR 0x0A, CHR 0x0D}"

definition trim_http :: "string \<Rightarrow> string" where
  "trim_http s = rev (dropWhile http_space (rev (dropWhile http_space s)))"

definition connection_options :: "headers \<Rightarrow> string list" where
  "connection_options h =
     map canonical_key (filter (\<lambda>f. f \<noteq> '''') (map trim_http (concat (map (split_on (CHR '','')) (h ''Connection'')))))"

definition hop_headers :: "string list" where
  "hop_headers = [''Connection'', ''Proxy-Connection'', ''Keep-Alive'', ''Proxy-Authenticate'',
     ''Proxy-Authorization'', ''Te'', ''Trailer'', ''Transfer-Encoding'', ''Upgrade'']"

definition remove_hop_by_hop :: "headers \<Rightarrow> headers" where
  "remove_hop_by_hop h = fold header_del hop_headers (fold header_del (connection_options h) h)"

text \<open>The headers behind \<open>proxyTo(base, prefix, enrich)\<close>.\<close>

definition proxied_headers :: "bool \<Rightarrow> identity option \<Rightarrow> headers \<Rightarrow> headers" where
  "proxied_headers enrichAuthHeaders who h =
     remove_hop_by_hop (if enrichAuthHeaders then apply_identity_headers who h else h)"

text \<open>The headers behind \<open>wsProxyTo\<close>, which also hands the request identifiers on.\<close>

definition ws_proxied_headers :: "identity option \<Rightarrow> 'b http_request \<Rightarrow> headers" where
  "ws_proxied_headers who r =
     remove_hop_by_hop
       (header_set ''X-Correlation-Id'' (hr_correlation_id r)
         (header_set ''X-Request-Id'' (hr_request_id r) (apply_identity_headers who (hr_headers r))))"

text \<open>
  Paths. The director of \<open>NewSingleHostReverseProxy\<close> joins the target's path and the
  request's; the gateway's own director runs after it, on its result.
\<close>

definition trim_prefix :: "string \<Rightarrow> string \<Rightarrow> string" where
  "trim_prefix s p = (if take (length p) s = p then drop (length p) s else s)"

definition trim_suffix :: "string \<Rightarrow> string \<Rightarrow> string" where
  "trim_suffix s p = rev (trim_prefix (rev s) (rev p))"

definition join_path :: "string \<Rightarrow> string \<Rightarrow> string" where
  "join_path basePath requestPath =
     (let cleanBase = trim_suffix basePath ''/''; cleanRequest = trim_prefix requestPath ''/''
      in if cleanBase = '''' then ''/'' @ cleanRequest
         else if cleanRequest = '''' then cleanBase
         else cleanBase @ ''/'' @ cleanRequest)"

definition single_joining_slash :: "string \<Rightarrow> string \<Rightarrow> string" where
  "single_joining_slash a b =
     (let aslash = (a \<noteq> '''' \<and> last a = CHR ''/''); bslash = (b \<noteq> '''' \<and> hd b = CHR ''/'')
      in if aslash \<and> bslash then a @ tl b
         else if \<not> aslash \<and> \<not> bslash then a @ ''/'' @ b
         else a @ b)"

definition upstream_path :: "string \<Rightarrow> string \<Rightarrow> string \<Rightarrow> string" where
  "upstream_path target stripPrefix path =
     join_path target (trim_prefix (single_joining_slash target path) stripPrefix)"

section \<open>Facts\<close>

lemma fold_header_del: "header_get (fold header_del ks h) k = (if k \<in> set ks then '''' else header_get h k)"
  by (induction ks arbitrary: h) auto

lemma remove_hop_by_hop_get:
  "header_get (remove_hop_by_hop h) k =
     (if k \<in> set hop_headers \<or> k \<in> set (connection_options h) then '''' else header_get h k)"
  by (simp add: remove_hop_by_hop_def fold_header_del)

lemma connection_options_identity [simp]:
  "connection_options (apply_identity_headers who h) = connection_options h"
  by (cases who) (simp_all add: connection_options_def apply_identity_headers_def header_set_def Let_def)

definition identity_headers :: "string list" where
  "identity_headers = [''X-Auth-User-Id'', ''X-Auth-Authenticated'', ''X-Auth-Roles'', ''X-Workspace-Id'']"

lemma proxied_identity_header:
  assumes "k \<in> set identity_headers" and "k \<notin> set (connection_options h)"
  shows "header_get (proxied_headers True who h) k = header_get (apply_identity_headers who h) k"
proof -
  have "k \<notin> set hop_headers" using assms(1) by (auto simp: identity_headers_def hop_headers_def)
  then show ?thesis using assms(2) by (simp add: proxied_headers_def remove_hop_by_hop_get)
qed

lemma identity_header_values:
  "header_get (apply_identity_headers (Some who) h) ''X-Auth-User-Id'' = in_user who"
  "header_get (apply_identity_headers (Some who) h) ''X-Auth-Authenticated'' = ''true''"
  "header_get (apply_identity_headers (Some who) h) ''X-Auth-Roles'' = join '','' (in_roles who)"
  "header_get (apply_identity_headers (Some who) h) ''X-Workspace-Id'' =
     (if in_workspace who \<noteq> '''' then in_workspace who else header_get h ''X-Workspace-Id'')"
  by (simp_all add: apply_identity_headers_def Let_def)

lemma roles_round_trip:
  assumes "\<forall>r \<in> set roles. CHR '','' \<notin> set r" and "roles = [] \<or> trim_space (join '','' roles) \<noteq> ''''"
  shows "parse_roles (join '','' roles) = roles"
proof (cases "roles = []")
  case True
  then show ?thesis by (simp add: parse_roles_def trim_space_def trim_left_def trim_right_def)
next
  case False
  then show ?thesis using assms split_on_join [of roles "CHR '',''"] by (auto simp: parse_roles_def)
qed

lemma trim_prefix_append [simp]: "trim_prefix (p @ s) p = s"
  by (simp add: trim_prefix_def)

lemma trim_suffix_slash: "b \<noteq> '''' \<Longrightarrow> last b \<noteq> CHR ''/'' \<Longrightarrow> trim_suffix b ''/'' = b"
  by (cases b rule: rev_cases) (auto simp: trim_suffix_def trim_prefix_def)

section \<open>What the services behind the gateway see\<close>

text \<open>
  C23: A request that passes the gateway's authentication reaches the service as that of the
  token's user: whatever identity headers the client sent itself, the service reads the
  user and the roles of the validated token and the workspace the gateway resolved, and
  takes the request for authenticated. This needs that the client's \<open>Connection\<close> header
  names none of the identity headers; roles must not contain commas, which separate them.
\<close>

theorem gateway_identity_forwarded:
  fixes r :: "'b http_request"
  assumes "set identity_headers \<inter> set (connection_options (hr_headers r)) = {}"
    and "(require_auth validate r :: 'a http_response + identity) = Inr who"
    and "\<forall>x \<in> set (in_roles who). CHR '','' \<notin> set x"
    and "in_roles who = [] \<or> trim_space (join '','' (in_roles who)) \<noteq> ''''"
  defines "up \<equiv> proxied_headers True (Some who) (hr_headers r)"
  shows "is_authenticated up
     \<and> header_actor up = trim_space (in_user who)
     \<and> header_roles up = in_roles who
     \<and> header_workspace up = trim_space (resolve_workspace_id r)
     \<and> (\<exists>claimed. validate (header_token (hr_headers r)) = Inr claimed
           \<and> in_user who = in_user claimed \<and> in_roles who = in_roles claimed)"
proof -
  have get: "header_get up k = header_get (apply_identity_headers (Some who) (hr_headers r)) k"
    if "k \<in> set identity_headers" for k
    using that assms(1) unfolding up_def by (intro proxied_identity_header) auto
  note vals = identity_header_values get identity_headers_def
  from assms(2) obtain claimed where claimed: "validate (header_token (hr_headers r)) = Inr claimed"
    and who: "who = claimed\<lparr>in_workspace := resolve_workspace_id r\<rparr>"
    by (auto simp: require_auth_def Let_def split: if_splits sum.splits)
  have g1: "is_authenticated up" by (simp add: is_authenticated_def vals equal_fold_def)
  have g2: "header_actor up = trim_space (in_user who)" by (simp add: header_actor_def vals)
  have g3: "header_roles up = in_roles who"
    using roles_round_trip [OF assms(3,4)] by (simp add: header_roles_def vals)
  have empty: "trim_space '''' = ''''" by (simp add: trim_space_def trim_left_def trim_right_def)
  have "resolve_workspace_id r = '''' \<Longrightarrow> header_workspace (hr_headers r) = ''''"
    by (simp add: resolve_workspace_id_def Let_def split: if_splits)
  then have g5: "header_workspace up = trim_space (resolve_workspace_id r)"
    by (cases "resolve_workspace_id r = ''''")
      (simp_all add: header_workspace_def [of up] vals who empty,
       simp_all add: header_workspace_def)
  have g4: "\<exists>claimed. validate (header_token (hr_headers r)) = Inr claimed
           \<and> in_user who = in_user claimed \<and> in_roles who = in_roles claimed"
    using claimed by (auto simp: who)
  show ?thesis using g1 g2 g3 g4 g5 by blast
qed

text \<open>
  A client can take its own authentication away on the other side of the gateway: if
  its \<open>Connection\<close> header names \<open>X-Auth-Authenticated\<close>, in any case, the proxy removes the
  header that the gateway has just set, and the service behind it, taking the request for an
  internal one, allows every action without asking anyone.
\<close>

theorem gateway_identity_stripped:
  fixes h :: headers and who :: identity
  assumes "''X-Auth-Authenticated'' \<in> set (connection_options h)"
  defines "up \<equiv> proxied_headers True (Some who) h"
  shows "\<not> is_authenticated up
     \<and> authorizer_allowed checker action
           \<lparr>as_actor = header_actor up, as_workspace = header_workspace up, as_page = page,
            as_roles = header_roles up, as_authenticated = is_authenticated up\<rparr> = Inr True
     \<and> service_authorize checker action
           \<lparr>as_actor = header_actor up, as_workspace = header_workspace up, as_page = page,
            as_roles = header_roles up, as_authenticated = is_authenticated up\<rparr> = AuthzOk"
proof -
  have "header_get up ''X-Auth-Authenticated'' = ''''"
    using assms(1) unfolding up_def by (simp add: proxied_headers_def remove_hop_by_hop_get)
  then have "\<not> is_authenticated up" by (simp add: is_authenticated_def equal_fold_def)
  then show ?thesis by (simp add: authorizer_allowed_def service_authorize_def)
qed

text \<open>
  Where a service's base URL has no path, its public path is forwarded without the
  prefix. Where it has one, the gateway joins it twice and keeps the prefix, because its
  director works on a path that the standard director has already joined.
\<close>

theorem upstream_path_shape:
  fixes base rest :: string
  assumes "base \<noteq> ''''" and "hd base = CHR ''/''" and "last base \<noteq> CHR ''/''"
    and "take (length ''/api/v1'') (base @ ''/api/v1/'' @ rest) \<noteq> ''/api/v1''"
  shows "upstream_path '''' ''/api/v1'' (''/api/v1/'' @ rest) = ''/'' @ rest
     \<and> upstream_path base ''/api/v1'' (''/api/v1/'' @ rest) = base @ base @ ''/api/v1/'' @ rest"
proof -
  have g1: "upstream_path '''' ''/api/v1'' (''/api/v1/'' @ rest) = ''/'' @ rest"
    by (simp add: upstream_path_def single_joining_slash_def trim_prefix_def join_path_def
        trim_suffix_def Let_def)
  obtain b where b: "base = CHR ''/'' # b" using assms by (cases base) auto
  have "trim_suffix base ''/'' = base" using assms by (intro trim_suffix_slash)
  moreover have "trim_prefix (base @ ''/api/v1/'' @ rest) ''/api/v1'' = base @ ''/api/v1/'' @ rest"
    using assms(4) unfolding trim_prefix_def by (simp only: if_False)
  moreover have "trim_prefix (base @ ''/api/v1/'' @ rest) ''/'' = b @ ''/api/v1/'' @ rest"
    by (simp add: b trim_prefix_def)
  moreover have "single_joining_slash base (''/api/v1/'' @ rest) = base @ ''/api/v1/'' @ rest"
    using assms by (simp add: single_joining_slash_def)
  ultimately have g2: "upstream_path base ''/api/v1'' (''/api/v1/'' @ rest) = base @ base @ ''/api/v1/'' @ rest"
    using assms by (simp add: upstream_path_def join_path_def Let_def b)
  show ?thesis using g1 g2 by blast
qed

section \<open>Witnesses\<close>

definition sample_identity :: identity where
  "sample_identity = \<lparr>in_user = ''u1'', in_email = ''u1@example.com'', in_name = ''U'',
     in_workspace = '''', in_roles = [''editor'', ''viewer'']\<rparr>"

text \<open>A client that claims to be an owner itself.\<close>

definition sample_http :: "string \<Rightarrow> unit http_request" where
  "sample_http connection =
     \<lparr>hr_headers = header_set ''Connection'' connection (header_set ''X-Auth-User-Id'' ''root''
        (header_set ''X-Auth-Roles'' ''owner'' (header_set ''Authorization'' ''bearer t''
          (header_set ''X-Workspace-Id'' '' w1 '' (\<lambda>_. []))))),
      hr_query = (\<lambda>_. ''''), hr_param = (\<lambda>_. ''''), hr_body = Inr (), hr_request_id = ''r1'',
      hr_correlation_id = ''r1''\<rparr>"

definition sample_forwarded :: headers where
  "sample_forwarded = proxied_headers True (Some (sample_identity\<lparr>in_workspace := ''w1''\<rparr>))
     (hr_headers (sample_http ''keep-alive''))"

theorem gateway_identity_forwarded_witness:
  "is_authenticated sample_forwarded \<and> header_actor sample_forwarded = ''u1''
   \<and> header_roles sample_forwarded = [''editor'', ''viewer'']
   \<and> header_workspace sample_forwarded = ''w1''"
proof -
  let ?r = "sample_http ''keep-alive''" and ?who = "sample_identity\<lparr>in_workspace := ''w1''\<rparr>"
  have c: "set identity_headers \<inter> set (connection_options (hr_headers ?r)) = {}" by code_simp
  have a: "(require_auth (\<lambda>_. Inr sample_identity) ?r :: unit http_response + identity) = Inr ?who"
    by code_simp
  have r: "\<forall>x \<in> set (in_roles ?who). CHR '','' \<notin> set x" by code_simp
  have n: "in_roles ?who = [] \<or> trim_space (join '','' (in_roles ?who)) \<noteq> ''''" by code_simp
  have "trim_space (in_user ?who) = ''u1''" "in_roles ?who = [''editor'', ''viewer'']"
    "trim_space (resolve_workspace_id ?r) = ''w1''" by code_simp+
  then show ?thesis
    using gateway_identity_forwarded [OF c a r n] unfolding sample_forwarded_def by simp
qed

theorem gateway_identity_stripped_witness:
  "authorizer_allowed None ActionPageEdit
     \<lparr>as_actor = ''u1'', as_workspace = ''w2'', as_page = ''p'', as_roles = [''viewer''],
      as_authenticated = is_authenticated (proxied_headers True (Some sample_identity)
        (hr_headers (sample_http ''close, x-auth-authenticated'')))\<rparr> = Inr True"
proof -
  have "''X-Auth-Authenticated'' \<in> set (connection_options
          (hr_headers (sample_http ''close, x-auth-authenticated'')))" by code_simp
  from gateway_identity_stripped [OF this, of sample_identity None ActionPageEdit]
  show ?thesis by (simp add: authorizer_allowed_def)
qed

theorem upstream_path_shape_witness:
  "upstream_path ''/wiki'' ''/api/v1'' ''/api/v1/pages'' = ''/wiki/wiki/api/v1/pages''"
  using upstream_path_shape [of "''/wiki''" "''pages''"] by simp

end
