(* ===== verification/Auth.thy ===== *)
theory Auth
  imports Gateway
begin

text \<open>
  The auth service: users, memberships and refresh sessions (\<^verbatim>\<open>services/auth-service/internal/domain\<close>,
  \<^verbatim>\<open>internal/ports\<close>), the tokens it issues (\<^verbatim>\<open>internal/adapters/security/token.go\<close>), logging in,
  refreshing and reading the current user (\<^verbatim>\<open>internal/usecase\<close>), its repository on PostgreSQL
  (\<^verbatim>\<open>internal/adapters/postgres/repository.go\<close>) as the rows of its tables, and its REST handlers
  (\<^verbatim>\<open>api/rest/handler.go\<close>). Signing and verifying JSON web tokens, bcrypt and \<open>strings.ToLower\<close> are
  parameters.
\<close>

section \<open>Users, sessions, tokens\<close>

record user =
  us_id :: string
  us_email :: string
  us_name :: string
  us_hash :: string
  us_status :: string

record refresh_session =
  fs_id :: string
  fs_user :: string
  fs_expires :: gotime
  fs_agent :: string
  fs_ip :: string

record token_pair =
  tk_access :: string
  tk_refresh :: string
  tk_type :: string
  tk_expires_in :: int

record access_claims =
  ac_subject :: string
  ac_email :: string
  ac_name :: string
  ac_expires :: gotime

record refresh_claims =
  rc_subject :: string
  rc_session :: string
  rc_expires :: gotime

section \<open>The token service\<close>

text \<open>
  \<open>ts_sign\<close> signs claims under the identifier of a key; \<open>ts_parse\<close> verifies a token at a time: its
  signature and algorithm, its audience, issuer and expiry.
\<close>

record token_service =
  ts_issuer :: string
  ts_audience :: string
  ts_access_ttl :: duration
  ts_refresh_ttl :: duration
  ts_key :: string
  ts_sign :: "string \<Rightarrow> claims \<Rightarrow> string + string"
  ts_parse :: "gotime \<Rightarrow> string \<Rightarrow> string + claims"

definition hour :: duration where
  "hour = 60 * minute"

definition new_token_service :: "token_service \<Rightarrow> token_service" where
  "new_token_service cfg =
     (let cfg = (if ts_access_ttl cfg \<le> 0 then cfg\<lparr>ts_access_ttl := 15 * minute\<rparr> else cfg);
          cfg = (if ts_refresh_ttl cfg \<le> 0 then cfg\<lparr>ts_refresh_ttl := 30 * 24 * hour\<rparr> else cfg)
      in if ts_key cfg = '''' then cfg\<lparr>ts_key := ''local-demo-key''\<rparr> else cfg)"

text \<open>\<open>t.Unix()\<close> and \<open>time.Unix(n, 0)\<close>: seconds since 1970, which is so many after Go's zero time.\<close>

definition epoch :: int where
  "epoch = 62135596800"

definition unix_seconds :: "gotime \<Rightarrow> int" where
  "unix_seconds t = t div second - epoch"

fun unix_time :: "json option \<Rightarrow> gotime" where
  "unix_time (Some (JInt n)) = (n + epoch) * second"
| "unix_time _ = zero_time"

definition access_token_claims :: "token_service \<Rightarrow> user \<Rightarrow> gotime \<Rightarrow> string \<Rightarrow> claims" where
  "access_token_claims ts u now jti =
     [(''sub'', JStr (us_id u)), (''email'', JStr (us_email u)), (''display_name'', JStr (us_name u)),
      (''token_type'', JStr ''access''), (''iss'', JStr (ts_issuer ts)), (''aud'', JStr (ts_audience ts)),
      (''iat'', JInt (unix_seconds now)), (''exp'', JInt (unix_seconds (now + ts_access_ttl ts))),
      (''jti'', JStr jti)]"

definition refresh_token_claims :: "token_service \<Rightarrow> user \<Rightarrow> gotime \<Rightarrow> string \<Rightarrow> claims" where
  "refresh_token_claims ts u now jti =
     [(''sub'', JStr (us_id u)), (''token_type'', JStr ''refresh''), (''iss'', JStr (ts_issuer ts)),
      (''aud'', JStr (ts_audience ts)), (''iat'', JInt (unix_seconds now)),
      (''exp'', JInt (unix_seconds (now + ts_refresh_ttl ts))), (''jti'', JStr jti)]"

definition whole_seconds_of :: "duration \<Rightarrow> int" where
  "whole_seconds_of d = (if 0 \<le> d then d div second else - ((- d) div second))"

text \<open>The pair of tokens, the identifier of the refresh session and when it expires.\<close>

definition issue_tokens ::
  "token_service \<Rightarrow> id_gen \<Rightarrow> gotime \<Rightarrow> user \<Rightarrow> nat \<Rightarrow> (string + token_pair \<times> string \<times> gotime) \<times> nat" where
  "issue_tokens ts gen now u n =
     (let refreshID = gen n
      in case ts_sign ts (ts_key ts) (access_token_claims ts u now (gen (n + 1))) of
           Inl err \<Rightarrow> (Inl err, n + 2)
         | Inr accessToken \<Rightarrow>
             (case ts_sign ts (ts_key ts) (refresh_token_claims ts u now refreshID) of
                Inl err \<Rightarrow> (Inl err, n + 2)
              | Inr refreshToken \<Rightarrow>
                  (Inr (\<lparr>tk_access = accessToken, tk_refresh = refreshToken, tk_type = ''Bearer'',
                         tk_expires_in = whole_seconds_of (ts_access_ttl ts)\<rparr>,
                        refreshID, now + ts_refresh_ttl ts), n + 2)))"

definition parse_claims :: "token_service \<Rightarrow> gotime \<Rightarrow> string \<Rightarrow> string \<Rightarrow> string + claims" where
  "parse_claims ts now rawToken expectedType =
     (case ts_parse ts now rawToken of
        Inl err \<Rightarrow> Inl err
      | Inr cs \<Rightarrow>
          if claim_as_string cs ''token_type'' \<noteq> expectedType then Inl ''unexpected token type'' else Inr cs)"

definition parse_access_token :: "token_service \<Rightarrow> gotime \<Rightarrow> string \<Rightarrow> string + access_claims" where
  "parse_access_token ts now token =
     (case parse_claims ts now token ''access'' of
        Inl err \<Rightarrow> Inl err
      | Inr cs \<Rightarrow> Inr \<lparr>ac_subject = claim_as_string cs ''sub'', ac_email = claim_as_string cs ''email'',
                       ac_name = claim_as_string cs ''display_name'', ac_expires = unix_time (map_of cs ''exp'')\<rparr>)"

definition parse_refresh_token :: "token_service \<Rightarrow> gotime \<Rightarrow> string \<Rightarrow> string + refresh_claims" where
  "parse_refresh_token ts now token =
     (case parse_claims ts now token ''refresh'' of
        Inl err \<Rightarrow> Inl err
      | Inr cs \<Rightarrow> Inr \<lparr>rc_subject = claim_as_string cs ''sub'', rc_session = claim_as_string cs ''jti'',
                       rc_expires = unix_time (map_of cs ''exp'')\<rparr>)"

section \<open>The repository\<close>

text \<open>What cannot be found and what fails are both errors to the use cases.\<close>

record 'd repository =
  ur_user_by_email :: "string \<Rightarrow> 'd \<Rightarrow> string + user"
  ur_user_by_id :: "string \<Rightarrow> 'd \<Rightarrow> string + user"
  ur_memberships :: "string \<Rightarrow> 'd \<Rightarrow> string + membership list"
  ur_page_grants :: "string \<Rightarrow> string \<Rightarrow> string \<Rightarrow> 'd \<Rightarrow> string + page_grant list"
  ur_create_session :: "refresh_session \<Rightarrow> 'd \<Rightarrow> string option \<times> 'd"
  ur_get_session :: "string \<Rightarrow> 'd \<Rightarrow> string + refresh_session"
  ur_revoke_session :: "string \<Rightarrow> string \<Rightarrow> gotime \<Rightarrow> 'd \<Rightarrow> string option \<times> 'd"

text \<open>
  What the use cases rely on: \<open>live\<close> are the sessions that can still be used, \<open>known\<close> the
  identifiers that were ever used for one. An operation that answers an error has changed neither.
\<close>

locale session_repository =
  fixes ops :: "'d repository" and live :: "'d \<Rightarrow> string \<Rightarrow> refresh_session option" and known :: "'d \<Rightarrow> string set"
  assumes get_live: "ur_get_session ops i d = Inr s \<Longrightarrow> live d i = Some s"
    and live_id: "live d i = Some s \<Longrightarrow> fs_id s = i"
    and live_known: "live d i = Some s \<Longrightarrow> i \<in> known d"
    and created: "ur_create_session ops s d = (None, d') \<Longrightarrow>
      fs_id s \<notin> known d \<and> live d' = (live d)(fs_id s := Some s) \<and> known d' = insert (fs_id s) (known d)"
    and not_created: "ur_create_session ops s d = (Some err, d') \<Longrightarrow> live d' = live d \<and> known d' = known d"
    and not_revoked: "ur_revoke_session ops i j t d = (Some err, d') \<Longrightarrow> live d' = live d \<and> known d' = known d"

section \<open>The repository on PostgreSQL\<close>

text \<open>
  The rows of the tables of \<^verbatim>\<open>migrations/0001_auth_foundation.up.sql\<close>, in the order the queries ask
  for. A statement of the repository sees and leaves a state of them. The database can refuse any
  statement with an error of its own: \<open>fault\<close> gives it for a statement and its arguments. Inserting a
  session also fails on a primary key that is there, or a user that is not.
\<close>

record session_row =
  sr_session :: refresh_session
  sr_revoked_at :: "gotime option"
  sr_replaced_by :: "string option"

record auth_db =
  db_users :: "user list"
  db_memberships :: "membership list"
  db_grants :: "page_grant list"
  db_sessions :: "session_row list"

datatype auth_statement =
  SelectUserByEmail | SelectUserByID | SelectMemberships | SelectPageGrants | InsertSession | SelectSession | UpdateSession

type_synonym pg_fault = "auth_statement \<Rightarrow> string list \<Rightarrow> string option"

definition not_found :: string where
  "not_found = ''not found''"

definition scan_user :: "string option \<Rightarrow> user option \<Rightarrow> string + user" where
  "scan_user fault row =
     (case fault of Some err \<Rightarrow> Inl err | None \<Rightarrow> (case row of None \<Rightarrow> Inl not_found | Some u \<Rightarrow> Inr u))"

definition scan_rows :: "string option \<Rightarrow> 'a list \<Rightarrow> string + 'a list" where
  "scan_rows fault rows = (case fault of Some err \<Rightarrow> Inl err | None \<Rightarrow> Inr rows)"

definition pg_user_by_email :: "pg_fault \<Rightarrow> string \<Rightarrow> auth_db \<Rightarrow> string + user" where
  "pg_user_by_email fault email d =
     scan_user (fault SelectUserByEmail [email]) (find (\<lambda>u. us_email u = email) (db_users d))"

definition pg_user_by_id :: "pg_fault \<Rightarrow> string \<Rightarrow> auth_db \<Rightarrow> string + user" where
  "pg_user_by_id fault userID d =
     scan_user (fault SelectUserByID [userID]) (find (\<lambda>u. us_id u = userID) (db_users d))"

definition pg_memberships :: "pg_fault \<Rightarrow> string \<Rightarrow> auth_db \<Rightarrow> string + membership list" where
  "pg_memberships fault userID d =
     scan_rows (fault SelectMemberships [userID]) (filter (\<lambda>m. mb_user m = userID) (db_memberships d))"

definition pg_page_grants ::
  "pg_fault \<Rightarrow> string \<Rightarrow> string \<Rightarrow> string \<Rightarrow> auth_db \<Rightarrow> string + page_grant list" where
  "pg_page_grants fault userID workspaceID pageID d =
     scan_rows (fault SelectPageGrants [userID, workspaceID, pageID])
       (filter (\<lambda>g. gr_subject g = userID \<and> gr_workspace g = workspaceID \<and> gr_page g = pageID) (db_grants d))"

definition pg_create_session :: "pg_fault \<Rightarrow> refresh_session \<Rightarrow> auth_db \<Rightarrow> string option \<times> auth_db" where
  "pg_create_session fault s d =
     (case fault InsertSession [fs_id s, fs_user s] of
        Some err \<Rightarrow> (Some err, d)
      | None \<Rightarrow>
          if list_ex (\<lambda>row. fs_id (sr_session row) = fs_id s) (db_sessions d) then (Some ''duplicate key'', d)
          else if \<not> list_ex (\<lambda>u. us_id u = fs_user s) (db_users d) then (Some ''foreign key'', d)
          else (None, d\<lparr>db_sessions := db_sessions d @
            [\<lparr>sr_session = s, sr_revoked_at = None, sr_replaced_by = None\<rparr>]\<rparr>))"

definition pg_get_session :: "pg_fault \<Rightarrow> string \<Rightarrow> auth_db \<Rightarrow> string + refresh_session" where
  "pg_get_session fault sessionID d =
     (case fault SelectSession [sessionID] of
        Some err \<Rightarrow> Inl err
      | None \<Rightarrow>
          (case find (\<lambda>row. fs_id (sr_session row) = sessionID \<and> sr_revoked_at row = None) (db_sessions d) of
             None \<Rightarrow> Inl not_found
           | Some row \<Rightarrow> Inr (sr_session row)))"

text \<open>
  The statement assigns \<open>NULLIF($3, '')\<close> to the column \<open>replaced_by\<close>. A parameter of unknown type and a string
  literal are compared as text, so the expression is a text; the column is a UUID, to which PostgreSQL does not
  cast a text in an assignment. It refuses the statement when it is prepared, whatever its arguments.
\<close>

definition replaced_by_type :: string where
  "replaced_by_type = ''column replaced_by is of type uuid but expression is of type text''"

definition pg_revoke_session ::
  "pg_fault \<Rightarrow> string \<Rightarrow> string \<Rightarrow> gotime \<Rightarrow> auth_db \<Rightarrow> string option \<times> auth_db" where
  "pg_revoke_session fault sessionID replacedBy revokedAt d =
     (case fault UpdateSession [sessionID, replacedBy] of
        Some err \<Rightarrow> (Some err, d)
      | None \<Rightarrow> (Some replaced_by_type, d))"

definition postgres_repository :: "pg_fault \<Rightarrow> auth_db repository" where
  "postgres_repository fault =
     \<lparr>ur_user_by_email = pg_user_by_email fault, ur_user_by_id = pg_user_by_id fault,
      ur_memberships = pg_memberships fault, ur_page_grants = pg_page_grants fault,
      ur_create_session = pg_create_session fault, ur_get_session = pg_get_session fault,
      ur_revoke_session = pg_revoke_session fault\<rparr>"

lemma postgres_repository_simps [simp]:
  "ur_user_by_email (postgres_repository fault) = pg_user_by_email fault"
  "ur_user_by_id (postgres_repository fault) = pg_user_by_id fault"
  "ur_memberships (postgres_repository fault) = pg_memberships fault"
  "ur_page_grants (postgres_repository fault) = pg_page_grants fault"
  "ur_create_session (postgres_repository fault) = pg_create_session fault"
  "ur_get_session (postgres_repository fault) = pg_get_session fault"
  "ur_revoke_session (postgres_repository fault) = pg_revoke_session fault"
  by (simp_all add: postgres_repository_def)

definition pg_live :: "auth_db \<Rightarrow> string \<Rightarrow> refresh_session option" where
  "pg_live d i = map_option sr_session
     (find (\<lambda>row. fs_id (sr_session row) = i \<and> sr_revoked_at row = None) (db_sessions d))"

definition pg_known :: "auth_db \<Rightarrow> string set" where
  "pg_known d = (\<lambda>row. fs_id (sr_session row)) ` set (db_sessions d)"

lemma find_snoc: "find P (xs @ [x]) = (case find P xs of None \<Rightarrow> if P x then Some x else None | Some y \<Rightarrow> Some y)"
  by (induction xs) auto

lemma pg_live_created:
  assumes "fs_id s \<notin> pg_known d"
  shows "pg_live (d\<lparr>db_sessions := db_sessions d @ [\<lparr>sr_session = s, sr_revoked_at = None, sr_replaced_by = None\<rparr>]\<rparr>)
    = (pg_live d)(fs_id s := Some s)"
proof
  fix k
  have "find (\<lambda>row. fs_id (sr_session row) = fs_id s \<and> sr_revoked_at row = None) (db_sessions d) = None"
    using assms by (force simp: find_None_iff pg_known_def)
  then show "pg_live (d\<lparr>db_sessions := db_sessions d @ [\<lparr>sr_session = s, sr_revoked_at = None, sr_replaced_by = None\<rparr>]\<rparr>) k
    = ((pg_live d)(fs_id s := Some s)) k"
    by (auto simp: pg_live_def find_snoc split: option.splits)
qed

interpretation pg_repository: session_repository "postgres_repository fault" pg_live pg_known for fault
proof (unfold_locales, goal_cases)
  case (1 i d s)
  then show ?case by (auto simp: pg_get_session_def pg_live_def split: option.splits)
next
  case (2 d i s)
  then show ?case by (auto simp: pg_live_def find_Some_iff)
next
  case (3 d i s)
  then show ?case by (auto simp: pg_live_def pg_known_def find_Some_iff)
next
  case (4 s d d')
  then have "fs_id s \<notin> pg_known d" and "d' = d\<lparr>db_sessions := db_sessions d @
      [\<lparr>sr_session = s, sr_revoked_at = None, sr_replaced_by = None\<rparr>]\<rparr>"
    by (auto simp: pg_create_session_def pg_known_def list_ex_iff split: if_splits option.splits)
  then show ?case using pg_live_created by (auto simp: pg_known_def)
next
  case (5 s d err d')
  then show ?case by (auto simp: pg_create_session_def split: if_splits option.splits)
next
  case (6 i j t d err d')
  then show ?case by (auto simp: pg_revoke_session_def split: option.splits)
qed

section \<open>Logging in, refreshing, reading the current user\<close>

text \<open>
  \<open>au_lower\<close> is \<open>strings.ToLower\<close>, \<open>au_compare\<close> is bcrypt's comparison of a hash with a password.
\<close>

record 'd auth_deps =
  au_repository :: "'d repository"
  au_tokens :: token_service
  au_compare :: "string \<Rightarrow> string \<Rightarrow> bool"
  au_lower :: "string \<Rightarrow> string"
  au_gen :: id_gen

datatype auth_error = ErrInvalidCredentials | ErrInvalidRefreshToken | ErrAuthFailure string

fun auth_error_text :: "auth_error \<Rightarrow> string" where
  "auth_error_text ErrInvalidCredentials = ''invalid credentials''"
| "auth_error_text ErrInvalidRefreshToken = ''invalid refresh token''"
| "auth_error_text (ErrAuthFailure err) = err"

record login_result =
  lo_tokens :: token_pair
  lo_user :: user
  lo_memberships :: "membership list"

text \<open>What both end with: the memberships of the user.\<close>

definition login_result ::
  "'d auth_deps \<Rightarrow> token_pair \<Rightarrow> user \<Rightarrow> 'd \<Rightarrow> auth_error + login_result" where
  "login_result dp tokens u d =
     (case ur_memberships (au_repository dp) (us_id u) d of
        Inl err \<Rightarrow> Inl (ErrAuthFailure err)
      | Inr memberships \<Rightarrow> Inr \<lparr>lo_tokens = tokens, lo_user = u, lo_memberships = memberships\<rparr>)"

definition new_session :: "string \<Rightarrow> user \<Rightarrow> gotime \<Rightarrow> refresh_session" where
  "new_session sessionID u expiresAt =
     \<lparr>fs_id = sessionID, fs_user = us_id u, fs_expires = expiresAt, fs_agent = '''', fs_ip = ''''\<rparr>"

definition login ::
  "'d auth_deps \<Rightarrow> gotime \<Rightarrow> string \<Rightarrow> string \<Rightarrow> nat \<times> 'd \<Rightarrow> (auth_error + login_result) \<times> nat \<times> 'd" where
  "login dp now email password = (\<lambda>(n, d).
     case ur_user_by_email (au_repository dp) (trim_space (au_lower dp email)) d of
       Inl _ \<Rightarrow> (Inl ErrInvalidCredentials, n, d)
     | Inr u \<Rightarrow>
         if \<not> au_compare dp (us_hash u) password then (Inl ErrInvalidCredentials, n, d)
         else (case issue_tokens (au_tokens dp) (au_gen dp) now u n of
           (Inl err, n) \<Rightarrow> (Inl (ErrAuthFailure err), n, d)
         | (Inr (tokens, sessionID, refreshExpiresAt), n) \<Rightarrow>
             (case ur_create_session (au_repository dp) (new_session sessionID u refreshExpiresAt) d of
                (Some err, d) \<Rightarrow> (Inl (ErrAuthFailure err), n, d)
              | (None, d) \<Rightarrow> (login_result dp tokens u d, n, d))))"

text \<open>
  A refresh reads before it writes: \<open>refresh_check\<close> is what it reads, up to \<open>IssueTokens\<close>;
  \<open>refresh_rotate\<close> is the rest. Another request can be served between them.
\<close>

definition refresh_check ::
  "'d auth_deps \<Rightarrow> gotime \<Rightarrow> string \<Rightarrow> 'd \<Rightarrow> auth_error + refresh_session \<times> user" where
  "refresh_check dp now rawToken d =
     (case parse_refresh_token (au_tokens dp) now rawToken of
        Inl _ \<Rightarrow> Inl ErrInvalidRefreshToken
      | Inr cs \<Rightarrow>
          (case ur_get_session (au_repository dp) (rc_session cs) d of
             Inl _ \<Rightarrow> Inl ErrInvalidRefreshToken
           | Inr s \<Rightarrow>
               if fs_expires s < now then Inl ErrInvalidRefreshToken
               else (case ur_user_by_id (au_repository dp) (fs_user s) d of
                       Inl err \<Rightarrow> Inl (ErrAuthFailure err)
                     | Inr u \<Rightarrow> Inr (s, u))))"

definition refresh_rotate ::
  "'d auth_deps \<Rightarrow> gotime \<Rightarrow> refresh_session \<times> user \<Rightarrow> nat \<times> 'd \<Rightarrow> (auth_error + login_result) \<times> nat \<times> 'd" where
  "refresh_rotate dp now = (\<lambda>(s, u) (n, d).
     case issue_tokens (au_tokens dp) (au_gen dp) now u n of
       (Inl err, n) \<Rightarrow> (Inl (ErrAuthFailure err), n, d)
     | (Inr (tokens, newSessionID, refreshExpiresAt), n) \<Rightarrow>
         (case ur_revoke_session (au_repository dp) (fs_id s) newSessionID now d of
            (Some err, d) \<Rightarrow> (Inl (ErrAuthFailure err), n, d)
          | (None, d) \<Rightarrow>
              (case ur_create_session (au_repository dp) (new_session newSessionID u refreshExpiresAt) d of
                 (Some err, d) \<Rightarrow> (Inl (ErrAuthFailure err), n, d)
               | (None, d) \<Rightarrow> (login_result dp tokens u d, n, d))))"

definition refresh ::
  "'d auth_deps \<Rightarrow> gotime \<Rightarrow> string \<Rightarrow> nat \<times> 'd \<Rightarrow> (auth_error + login_result) \<times> nat \<times> 'd" where
  "refresh dp now rawToken = (\<lambda>(n, d).
     case refresh_check dp now rawToken d of
       Inl err \<Rightarrow> (Inl err, n, d)
     | Inr checked \<Rightarrow> refresh_rotate dp now checked (n, d))"

definition current_user :: "'d repository \<Rightarrow> string \<Rightarrow> 'd \<Rightarrow> string + user \<times> membership list" where
  "current_user ops userID d =
     (case ur_user_by_id ops userID d of
        Inl err \<Rightarrow> Inl err
      | Inr u \<Rightarrow>
          (case ur_memberships ops userID d of
             Inl err \<Rightarrow> Inl err
           | Inr memberships \<Rightarrow> Inr (u, memberships)))"

section \<open>The REST interface\<close>

record login_request =
  lg_email :: string
  lg_password :: string

record user_payload =
  up_id :: string
  up_email :: string
  up_name :: string

record token_payload =
  tp_access :: string
  tp_refresh :: string
  tp_type :: string
  tp_expires_in :: int
  tp_user :: user_payload

record json_web_key =
  jk_kty :: string
  jk_alg :: string
  jk_use :: string
  jk_kid :: string
  jk_n :: string
  jk_e :: string

definition user_payload_of :: "user \<Rightarrow> user_payload" where
  "user_payload_of u = \<lparr>up_id = us_id u, up_email = us_email u, up_name = us_name u\<rparr>"

definition token_payload_of :: "login_result \<Rightarrow> token_payload" where
  "token_payload_of lr =
     \<lparr>tp_access = tk_access (lo_tokens lr), tp_refresh = tk_refresh (lo_tokens lr),
      tp_type = tk_type (lo_tokens lr), tp_expires_in = tk_expires_in (lo_tokens lr),
      tp_user = user_payload_of (lo_user lr)\<rparr>"

definition handle_login ::
  "'d auth_deps \<Rightarrow> gotime \<Rightarrow> login_request http_request \<Rightarrow> nat \<times> 'd \<Rightarrow> token_payload http_response \<times> nat \<times> 'd" where
  "handle_login dp now r nd =
     (case hr_body r of
        Inl err \<Rightarrow> (write_error r 400 ''invalid_payload'' err, nd)
      | Inr request \<Rightarrow>
          if trim_space (lg_email request) = '''' \<or> lg_password request = '''' then
            (write_error r 400 ''validation_error'' ''email and password are required'', nd)
          else (case login dp now (lg_email request) (lg_password request) nd of
            (Inl err, nd) \<Rightarrow>
              if err = ErrInvalidCredentials then
                (write_error r 401 ''invalid_credentials'' (auth_error_text err), nd)
              else (write_error r 500 ''internal_error'' (auth_error_text err), nd)
          | (Inr lr, nd) \<Rightarrow> (write_json r 200 (token_payload_of lr), nd)))"

text \<open>The body of a refresh is its one field, \<open>refresh_token\<close>.\<close>

definition handle_refresh ::
  "'d auth_deps \<Rightarrow> gotime \<Rightarrow> string http_request \<Rightarrow> nat \<times> 'd \<Rightarrow> token_payload http_response \<times> nat \<times> 'd" where
  "handle_refresh dp now r nd =
     (case hr_body r of
        Inl err \<Rightarrow> (write_error r 400 ''invalid_payload'' err, nd)
      | Inr refreshToken \<Rightarrow>
          if trim_space refreshToken = '''' then
            (write_error r 400 ''validation_error'' ''refresh_token is required'', nd)
          else (case refresh dp now refreshToken nd of
            (Inl err, nd) \<Rightarrow>
              if err = ErrInvalidRefreshToken then
                (write_error r 401 ''invalid_refresh_token'' (auth_error_text err), nd)
              else (write_error r 500 ''internal_error'' (auth_error_text err), nd)
          | (Inr lr, nd) \<Rightarrow> (write_json r 200 (token_payload_of lr), nd)))"

definition handle_current_user ::
  "'d auth_deps \<Rightarrow> gotime \<Rightarrow> 'b http_request \<Rightarrow> 'd \<Rightarrow>
     (user_payload \<times> (string \<times> role) list) http_response" where
  "handle_current_user dp now r d =
     (let token = header_token (hr_headers r)
      in if token = '''' then write_error r 401 ''missing_token'' ''authorization header is required''
         else (case parse_access_token (au_tokens dp) now token of
           Inl err \<Rightarrow> write_error r 401 ''invalid_token'' err
         | Inr cs \<Rightarrow>
             (case current_user (au_repository dp) (ac_subject cs) d of
                Inl err \<Rightarrow> write_error r 500 ''internal_error'' err
              | Inr (u, memberships) \<Rightarrow>
                  write_json r 200 (user_payload_of u, map (\<lambda>m. (mb_workspace m, mb_role m)) memberships))))"

text \<open>The key set: the one public key, its modulus and exponent in base 64.\<close>

definition token_jwks :: "token_service \<Rightarrow> string \<Rightarrow> string \<Rightarrow> json_web_key list" where
  "token_jwks ts modulus exponent =
     [\<lparr>jk_kty = ''RSA'', jk_alg = ''RS256'', jk_use = ''sig'', jk_kid = ts_key ts,
       jk_n = modulus, jk_e = exponent\<rparr>]"

definition handle_jwks ::
  "token_service \<Rightarrow> string \<Rightarrow> string \<Rightarrow> 'b http_request \<Rightarrow> json_web_key list http_response" where
  "handle_jwks ts modulus exponent r = write_json r 200 (token_jwks ts modulus exponent)"

end
