(* ===== verification/Base64.thy ===== *)
theory Base64
  imports Prelude "HOL-Library.Word"
begin

text \<open>
  What the two ends of the key set do with an RSA key: \<open>base64.RawURLEncoding\<close> of Go's standard
  library, and \<open>big.Int\<close>'s \<open>Bytes\<close> and \<open>SetBytes\<close>. The auth service encodes its public key with them, the
  gateway decodes it.
\<close>

section \<open>Big-endian bytes\<close>

text \<open>\<open>big.Int.Bytes\<close>: the digits of a number to the base 256, no leading zero.\<close>

fun big_bytes :: "nat \<Rightarrow> nat list" where
  "big_bytes n = (if n = 0 then [] else big_bytes (n div 256) @ [n mod 256])"

declare big_bytes.simps [simp del]

definition set_bytes :: "nat list \<Rightarrow> nat" where
  "set_bytes bs = foldl (\<lambda>n b. 256 * n + b) 0 bs"

lemma set_bytes_big_bytes [simp]: "set_bytes (big_bytes n) = n"
proof (induction n rule: big_bytes.induct)
  case (1 n)
  then show ?case
    by (cases "n = 0") (simp_all add: big_bytes.simps [of n] big_bytes.simps [of 0] set_bytes_def)
qed

lemma big_bytes_bound: "b \<in> set (big_bytes n) \<Longrightarrow> b < 256"
proof (induction n rule: big_bytes.induct)
  case (1 n)
  then show ?case
    by (cases "n = 0") (auto simp: big_bytes.simps [of n] big_bytes.simps [of 0])
qed

lemma big_bytes_Nil: "big_bytes n = [] \<longleftrightarrow> n = 0"
  by (simp add: big_bytes.simps [of n])

section \<open>Raw URL encoding\<close>

definition alphabet64 :: string where
  "alphabet64 = ''ABCDEFGHIJKLMNOPQRSTUVWXYZabcdefghijklmnopqrstuvwxyz0123456789-_''"

definition char64 :: "nat \<Rightarrow> char" where
  "char64 i = alphabet64 ! i"

definition value64 :: "char \<Rightarrow> nat option" where
  "value64 c = map_of (zip alphabet64 [0..<64]) c"

lemma length_alphabet64: "length alphabet64 = 64"
  by code_simp

lemma distinct_alphabet64: "distinct alphabet64"
  by code_simp

lemma value64_char64 [simp]: "i < 64 \<Longrightarrow> value64 (char64 i) = Some i"
  using map_of_zip_nth [of alphabet64 "[0..<64]" i]
  by (simp add: value64_def char64_def length_alphabet64 distinct_alphabet64)

text \<open>Three bytes are four characters; one or two that are left over are two or three.\<close>

fun encode64 :: "nat list \<Rightarrow> string" where
  "encode64 (a # b # c # bs) =
     [char64 (a div 4), char64 (a mod 4 * 16 + b div 16), char64 (b mod 16 * 4 + c div 64), char64 (c mod 64)]
     @ encode64 bs"
| "encode64 [a, b] = [char64 (a div 4), char64 (a mod 4 * 16 + b div 16), char64 (b mod 16 * 4)]"
| "encode64 [a] = [char64 (a div 4), char64 (a mod 4 * 16)]"
| "encode64 [] = []"

definition corrupt64 :: string where
  "corrupt64 = ''illegal base64 data''"

text \<open>
  Decoding ignores carriage returns and line feeds. Bits that are left over at the end are dropped,
  a single character that is left over is an error. The offset that Go's error names is left out.
\<close>

fun decode_values :: "nat list \<Rightarrow> string + nat list" where
  "decode_values (a # b # c # d # vs) =
     map_sum id (\<lambda>bs. [a * 4 + b div 16, b mod 16 * 16 + c div 4, c mod 4 * 64 + d] @ bs) (decode_values vs)"
| "decode_values [a, b, c] = Inr [a * 4 + b div 16, b mod 16 * 16 + c div 4]"
| "decode_values [a, b] = Inr [a * 4 + b div 16]"
| "decode_values [a] = Inl corrupt64"
| "decode_values [] = Inr []"

definition decode64 :: "string \<Rightarrow> string + nat list" where
  "decode64 s =
     (let vs = map value64 (filter (\<lambda>c. c \<noteq> CHR 0x0D \<and> c \<noteq> CHR 0x0A) s)
      in if None \<in> set vs then Inl corrupt64 else decode_values (map the vs))"

fun values_of :: "nat list \<Rightarrow> nat list" where
  "values_of (a # b # c # bs) =
     [a div 4, a mod 4 * 16 + b div 16, b mod 16 * 4 + c div 64, c mod 64] @ values_of bs"
| "values_of [a, b] = [a div 4, a mod 4 * 16 + b div 16, b mod 16 * 4]"
| "values_of [a] = [a div 4, a mod 4 * 16]"
| "values_of [] = []"

lemma encode64_values: "encode64 bs = map char64 (values_of bs)"
  by (induction bs rule: values_of.induct) simp_all

lemma values_of_bound: "\<forall>b \<in> set bs. b < 256 \<Longrightarrow> \<forall>v \<in> set (values_of bs). v < 64"
  by (induction bs rule: values_of.induct) auto

lemma decode_values_of: "\<forall>b \<in> set bs. b < 256 \<Longrightarrow> decode_values (values_of bs) = Inr bs"
  by (induction bs rule: values_of.induct) auto

lemma char64_visible:
  assumes "i < 64"
  shows "char64 i \<noteq> CHR 0x0D" and "char64 i \<noteq> CHR 0x0A"
proof -
  have "list_all (\<lambda>c. c \<noteq> CHR 0x0D \<and> c \<noteq> CHR 0x0A) alphabet64" by code_simp
  then show "char64 i \<noteq> CHR 0x0D" and "char64 i \<noteq> CHR 0x0A"
    using assms by (auto simp: list_all_length char64_def length_alphabet64)
qed

lemma decode64_encode64:
  assumes "\<forall>b \<in> set bs. b < 256"
  shows "decode64 (encode64 bs) = Inr bs"
proof -
  let ?vs = "values_of bs"
  have v: "\<forall>v \<in> set ?vs. v < 64" by (rule values_of_bound [OF assms])
  then have f: "filter (\<lambda>c. c \<noteq> CHR 0x0D \<and> c \<noteq> CHR 0x0A) (encode64 bs) = encode64 bs"
    by (auto simp: encode64_values filter_id_conv char64_visible)
  have m: "map value64 (encode64 bs) = map Some ?vs"
    using v by (simp add: encode64_values)
  show ?thesis unfolding decode64_def Let_def f m
    by (simp add: decode_values_of [OF assms] comp_def image_iff)
qed

end
