(* ===== verification/Jwks.thy ===== *)
theory Jwks
  imports Gateway Base64
begin

text \<open>
  The gateway's check of an access token (\<^verbatim>\<open>services/api-gateway/internal/adapters/http/jwks.go\<close>): the
  cache of public keys, when it is fetched again, and the two attempts at a token. The JWT library
  and the HTTP client are parameters; the reads of the clock within one check are one instant.
\<close>

section \<open>Keys\<close>

record rsa_key =
  rk_modulus :: nat
  rk_exponent :: "64 word"

record jwk_key =
  kk_id :: string
  kk_modulus :: string
  kk_exponent :: string

text \<open>The exponent is a Go \<open>int\<close>, into which the bytes are shifted.\<close>

definition decode_public_key :: "jwk_key \<Rightarrow> string + rsa_key" where
  "decode_public_key k =
     (case decode64 (kk_modulus k) of
        Inl err \<Rightarrow> Inl err
      | Inr modulusBytes \<Rightarrow>
          (case decode64 (kk_exponent k) of
             Inl err \<Rightarrow> Inl err
           | Inr exponentBytes \<Rightarrow>
               (let exponent = foldl (\<lambda>e b. push_bit 8 e + word_of_nat b) (0 :: 64 word) exponentBytes
                in if exponent = 0 then Inl ''invalid exponent''
                   else Inr \<lparr>rk_modulus = set_bytes modulusBytes, rk_exponent = exponent\<rparr>)))"

text \<open>A Go map of keys: the pair that was written last is found first.\<close>

type_synonym key_map = "(string \<times> rsa_key) list"

fun decode_keys :: "jwk_key list \<Rightarrow> key_map \<Rightarrow> string + key_map" where
  "decode_keys [] keys = Inr keys"
| "decode_keys (k # ks) keys =
     (case decode_public_key k of
        Inl err \<Rightarrow> Inl err
      | Inr publicKey \<Rightarrow> decode_keys ks ((kk_id k, publicKey) # keys))"

section \<open>The cache\<close>

text \<open>
  What the validator meets: \<open>jw_header\<close> is the key identifier in a token's header, empty where there is
  none, or the library's error for what is no token or is signed with another method than RS256;
  \<open>jw_verify\<close> checks signature, expiry, audience and issuer; \<open>jw_fetch\<close> is what the \<open>n\<close>-th request for
  the key set is answered, whose body decodes to keys or not.
\<close>

datatype fetch_result = FetchFailed string | FetchAnswer int "string + jwk_key list"

record jwt_world =
  jw_header :: "string \<Rightarrow> string + string"
  jw_verify :: "gotime \<Rightarrow> rsa_key \<Rightarrow> string \<Rightarrow> string + claims"
  jw_fetch :: "nat \<Rightarrow> fetch_result"

text \<open>\<open>jv_log\<close> is when each request was sent.\<close>

record jwt_validator =
  jv_ttl :: duration
  jv_last_fetch :: gotime
  jv_keys :: key_map
  jv_log :: "gotime list"

definition new_jwt_validator :: "duration \<Rightarrow> jwt_validator" where
  "new_jwt_validator cacheTTL =
     \<lparr>jv_ttl = (if cacheTTL \<le> 0 then 5 * minute else cacheTTL), jv_last_fetch = zero_time, jv_keys = [],
      jv_log = []\<rparr>"

definition cached_key :: "gotime \<Rightarrow> string \<Rightarrow> jwt_validator \<Rightarrow> rsa_key option" where
  "cached_key now kid v = (if now - jv_last_fetch v > jv_ttl v then None else map_of (jv_keys v) kid)"

definition refresh_keys :: "jwt_world \<Rightarrow> gotime \<Rightarrow> bool \<Rightarrow> jwt_validator \<Rightarrow> string option \<times> jwt_validator" where
  "refresh_keys w now force v =
     (if \<not> force \<and> now - jv_last_fetch v \<le> jv_ttl v \<and> 0 < length (jv_keys v) then (None, v)
      else
        (let answer = jw_fetch w (length (jv_log v));
             v = v\<lparr>jv_log := jv_log v @ [now]\<rparr>
         in case answer of
              FetchFailed err \<Rightarrow> (Some err, v)
            | FetchAnswer status body \<Rightarrow>
                if status < 200 \<or> 300 \<le> status then
                  (Some (''jwks fetch failed with status '' @ decimal status), v)
                else (case body of
                        Inl err \<Rightarrow> (Some err, v)
                      | Inr document \<Rightarrow>
                          (case decode_keys document [] of
                             Inl err \<Rightarrow> (Some err, v)
                           | Inr keys \<Rightarrow> (None, v\<lparr>jv_keys := keys, jv_last_fetch := now\<rparr>)))))"

definition lookup_key :: "jwt_world \<Rightarrow> gotime \<Rightarrow> string \<Rightarrow> jwt_validator \<Rightarrow> (string + rsa_key) \<times> jwt_validator" where
  "lookup_key w now kid v =
     (if kid = '''' then (Inl ''missing kid header'', v)
      else (case cached_key now kid v of
              Some key \<Rightarrow> (Inr key, v)
            | None \<Rightarrow>
                (case refresh_keys w now False v of
                   (Some err, v) \<Rightarrow> (Inl err, v)
                 | (None, v) \<Rightarrow>
                     (case cached_key now kid v of
                        Some key \<Rightarrow> (Inr key, v)
                      | None \<Rightarrow> (Inl ''signing key not found'', v)))))"

section \<open>A token\<close>

text \<open>\<open>jwt.Parse\<close> asks for the key once the header is read.\<close>

definition jwt_parse :: "jwt_world \<Rightarrow> gotime \<Rightarrow> string \<Rightarrow> jwt_validator \<Rightarrow> (string + claims) \<times> jwt_validator" where
  "jwt_parse w now rawToken v =
     (case jw_header w rawToken of
        Inl err \<Rightarrow> (Inl err, v)
      | Inr kid \<Rightarrow>
          (case lookup_key w now kid v of
             (Inl err, v) \<Rightarrow> (Inl err, v)
           | (Inr key, v) \<Rightarrow> (jw_verify w now key rawToken, v)))"

text \<open>
  \<open>parseToken\<close> up to the check of the claims that both of its attempts end with, which
  \<open>validate_access_token\<close> makes.
\<close>

definition parse_token :: "jwt_world \<Rightarrow> gotime \<Rightarrow> string \<Rightarrow> jwt_validator \<Rightarrow> (string + claims) \<times> jwt_validator" where
  "parse_token w now rawToken v =
     (case jwt_parse w now rawToken v of
        (Inr cs, v) \<Rightarrow> (Inr cs, v)
      | (Inl err, v) \<Rightarrow>
          (case refresh_keys w now True v of
             (Some _, v) \<Rightarrow> (Inl err, v)
           | (None, v) \<Rightarrow> jwt_parse w now rawToken v))"

definition validator_access_token ::
  "jwt_world \<Rightarrow> gotime \<Rightarrow> string \<Rightarrow> jwt_validator \<Rightarrow> (string + identity) \<times> jwt_validator" where
  "validator_access_token w now rawToken v =
     (case parse_token w now rawToken v of
        (parsed, v) \<Rightarrow> (validate_access_token (\<lambda>_. parsed) rawToken, v))"

section \<open>Where the keys come from\<close>

text \<open>The keys in the cache are those of a document that a request at \<open>jv_last_fetch\<close> was answered.\<close>

definition keys_fetched :: "jwt_world \<Rightarrow> gotime \<Rightarrow> jwt_validator \<Rightarrow> bool" where
  "keys_fetched w t v \<longleftrightarrow> jv_keys v = [] \<or>
     (\<exists>n document status. n < length (jv_log v) \<and> jv_log v ! n = jv_last_fetch v \<and>
        jw_fetch w n = FetchAnswer status (Inr document) \<and> decode_keys document [] = Inr (jv_keys v))
      \<and> jv_last_fetch v \<le> t"

lemma keys_fetched_later: "keys_fetched w t v \<Longrightarrow> t \<le> now \<Longrightarrow> keys_fetched w now v"
  by (auto simp: keys_fetched_def)

lemma keys_fetched_logged: "keys_fetched w t v \<Longrightarrow> keys_fetched w t (v\<lparr>jv_log := jv_log v @ [now]\<rparr>)"
  unfolding keys_fetched_def by (simp add: nth_append) (metis less_SucI)

lemma keys_fetched_now:
  assumes "jw_fetch w (length l) = FetchAnswer status (Inr document)" and "decode_keys document [] = Inr keys"
  shows "keys_fetched w now (v\<lparr>jv_log := l @ [now], jv_keys := keys, jv_last_fetch := now\<rparr>)"
  unfolding keys_fetched_def using assms by (intro disjI2 conjI exI [of _ "length l"]) auto

lemma refresh_keys_ok:
  assumes "keys_fetched w now v" and "refresh_keys w now force v = (err, v')"
  shows "keys_fetched w now v'" and "jv_ttl v' = jv_ttl v"
  using assms keys_fetched_logged [OF assms(1)] keys_fetched_now [of w "jv_log v" _ _ _ now v]
  by (auto simp: refresh_keys_def Let_def split: if_splits fetch_result.splits sum.splits)

lemma lookup_key_ok:
  assumes "keys_fetched w now v" and "lookup_key w now kid v = (res, v')"
  shows "keys_fetched w now v'" and "jv_ttl v' = jv_ttl v"
    and "res = Inr key \<Longrightarrow> cached_key now kid v' = Some key"
  using assms refresh_keys_ok [OF assms(1)]
  by (auto simp: lookup_key_def split: if_splits option.splits prod.splits)

definition verified_by_cached :: "jwt_world \<Rightarrow> gotime \<Rightarrow> string \<Rightarrow> jwt_validator \<Rightarrow> claims \<Rightarrow> bool" where
  "verified_by_cached w now rawToken v cs \<longleftrightarrow>
     (\<exists>kid key. jw_header w rawToken = Inr kid \<and> cached_key now kid v = Some key \<and>
        jw_verify w now key rawToken = Inr cs)"

lemma jwt_parse_ok:
  assumes "keys_fetched w now v" and "jwt_parse w now rawToken v = (res, v')"
  shows "keys_fetched w now v'" and "jv_ttl v' = jv_ttl v"
    and "res = Inr cs \<Longrightarrow> verified_by_cached w now rawToken v' cs"
  using assms lookup_key_ok [OF assms(1)]
  by (auto simp: jwt_parse_def verified_by_cached_def split: sum.splits prod.splits)

lemma parse_token_ok:
  assumes "keys_fetched w now v" and "parse_token w now rawToken v = (res, v')"
  shows "keys_fetched w now v'" and "jv_ttl v' = jv_ttl v"
    and "res = Inr cs \<Longrightarrow> verified_by_cached w now rawToken v' cs"
proof -
  obtain r1 v1 where p1: "jwt_parse w now rawToken v = (r1, v1)" by (cases "jwt_parse w now rawToken v")
  note o1 = jwt_parse_ok [OF assms(1) p1]
  have "keys_fetched w now v' \<and> jv_ttl v' = jv_ttl v \<and> (res = Inr cs \<longrightarrow> verified_by_cached w now rawToken v' cs)"
  proof (cases r1)
    case (Inr x)
    then show ?thesis using assms(2) p1 o1 by (auto simp: parse_token_def)
  next
    case (Inl x)
    obtain e v2 where p2: "refresh_keys w now True v1 = (e, v2)" by (cases "refresh_keys w now True v1")
    note o2 = refresh_keys_ok [OF o1(1) p2]
    show ?thesis
    proof (cases e)
      case None
      then have "jwt_parse w now rawToken v2 = (res, v')" using assms(2) p1 p2 Inl by (simp add: parse_token_def)
      from jwt_parse_ok [OF o2(1) this] o1 o2 show ?thesis by auto
    next
      case (Some e')
      then show ?thesis using assms(2) p1 p2 Inl o1 o2 by (auto simp: parse_token_def)
    qed
  qed
  then show "keys_fetched w now v'" and "jv_ttl v' = jv_ttl v"
    and "res = Inr cs \<Longrightarrow> verified_by_cached w now rawToken v' cs" by blast+
qed

section \<open>Validators that run\<close>

inductive validator_run :: "jwt_world \<Rightarrow> duration \<Rightarrow> gotime \<Rightarrow> jwt_validator \<Rightarrow> bool" for w ttl where
  started: "validator_run w ttl t (new_jwt_validator ttl)"
| checked: "validator_run w ttl t v \<Longrightarrow> t \<le> now \<Longrightarrow> validator_run w ttl now (snd (validator_access_token w now rawToken v))"

lemma validator_run_ok:
  assumes "validator_run w ttl t v"
  shows "keys_fetched w t v \<and> jv_ttl v = jv_ttl (new_jwt_validator ttl)"
  using assms
proof induction
  case (started t)
  then show ?case by (simp add: keys_fetched_def new_jwt_validator_def)
next
  case (checked t v now rawToken)
  then have "keys_fetched w now v" by (auto intro: keys_fetched_later)
  from parse_token_ok(1,2) [OF this] show ?case
    using checked by (auto simp: validator_access_token_def split: prod.splits)
qed

lemma cached_key_recent:
  assumes "keys_fetched w t v" and "cached_key now kid v = Some key"
  shows "\<exists>n status document keys. n < length (jv_log v) \<and> now - jv_log v ! n \<le> jv_ttl v \<and>
    jw_fetch w n = FetchAnswer status (Inr document) \<and> decode_keys document [] = Inr keys \<and> map_of keys kid = Some key"
  using assms by (force simp: cached_key_def keys_fetched_def split: if_splits)

section \<open>How many requests\<close>

lemma refresh_keys_log: "length (jv_log (snd (refresh_keys w now force v))) \<le> Suc (length (jv_log v))"
  by (auto simp: refresh_keys_def Let_def split: fetch_result.splits sum.splits)

lemma lookup_key_log: "length (jv_log (snd (lookup_key w now kid v))) \<le> Suc (length (jv_log v))"
  using refresh_keys_log [of w now False v]
  by (auto simp: lookup_key_def split: option.splits prod.splits)

lemma jwt_parse_log: "length (jv_log (snd (jwt_parse w now rawToken v))) \<le> Suc (length (jv_log v))"
proof (cases "jw_header w rawToken")
  case (Inr kid)
  obtain r v' where "lookup_key w now kid v = (r, v')" by (cases "lookup_key w now kid v")
  with Inr show ?thesis using lookup_key_log [of w now kid v] by (cases r) (auto simp: jwt_parse_def)
qed (simp add: jwt_parse_def)

lemma parse_token_log: "length (jv_log (snd (parse_token w now rawToken v))) \<le> length (jv_log v) + 3"
proof -
  obtain r1 v1 where p1: "jwt_parse w now rawToken v = (r1, v1)" by (cases "jwt_parse w now rawToken v")
  obtain e v2 where p2: "refresh_keys w now True v1 = (e, v2)" by (cases "refresh_keys w now True v1")
  have "length (jv_log v1) \<le> Suc (length (jv_log v))" and "length (jv_log v2) \<le> Suc (length (jv_log v1))"
    using jwt_parse_log [of w now rawToken v] refresh_keys_log [of w now True v1] p1 p2 by simp_all
  then show ?thesis
    using p1 p2 jwt_parse_log [of w now rawToken v2]
    by (cases r1; cases e) (auto simp: parse_token_def)
qed

end
