(* ===== verification/AuthFacts.thy ===== *)
theory AuthFacts
  imports Auth Jwks
begin

text \<open>
  Lemmas on the auth service and on the gateway's check of its tokens: that a session which can be used stays
  so through logins and refreshes, that no refresh succeeds, and when a token is accepted.
\<close>

section \<open>Sessions that can be used\<close>

context session_repository
begin

lemma live_after_login:
  assumes "au_repository dp = ops" and "login dp now email password (n, d) = (res, n', d')" and "live d i = Some s"
  shows "live d' i = Some s"
proof -
  have "live d1 i = Some s" if "ur_create_session ops new d = (e, d1)" for new e d1
    using created [of new d d1] not_created [of new d _ d1] that assms(3) live_known [OF assms(3)] by (cases e) auto
  then show ?thesis
    using assms(2,3)
    by (auto simp: login_def assms(1) split: sum.splits prod.splits option.splits if_splits)
qed

lemma refresh_checked:
  assumes "au_repository dp = ops" and "refresh_check dp now tok d = Inr (s, u)"
  shows "\<exists>cs. parse_refresh_token (au_tokens dp) now tok = Inr cs \<and> live d (rc_session cs) = Some s \<and> fs_id s = rc_session cs"
  using assms(2) by (auto simp: refresh_check_def assms(1) split: sum.splits if_splits dest: get_live live_id)

end

text \<open>
  What a service does on PostgreSQL while other requests are served, each with failures of its own: logins, and
  the writing halves of refreshes whose reading halves may be anywhere before them.
\<close>

definition on_auth_db :: "auth_db auth_deps \<Rightarrow> pg_fault \<Rightarrow> auth_db auth_deps" where
  "on_auth_db dp fault = dp\<lparr>au_repository := postgres_repository fault\<rparr>"

lemma on_auth_db_repository [simp]: "au_repository (on_auth_db dp fault) = postgres_repository fault"
  by (simp add: on_auth_db_def)

inductive auth_run :: "auth_db auth_deps \<Rightarrow> nat \<times> auth_db \<Rightarrow> nat \<times> auth_db \<Rightarrow> bool" for dp where
  nothing: "auth_run dp nd nd"
| logged_in: "auth_run dp nd nd' \<Longrightarrow> auth_run dp nd (snd (login (on_auth_db dp fault) now email password nd'))"
| rotated: "auth_run dp nd nd' \<Longrightarrow> auth_run dp nd (snd (refresh_rotate (on_auth_db dp fault) now checked nd'))"

text \<open>No rotation gets past the revocation of the old session.\<close>

lemma revocation_refused: "\<exists>err. pg_revoke_session fault i j t d = (Some err, d)"
  by (auto simp: pg_revoke_session_def split: option.splits)

lemma rotate_refused:
  assumes "au_repository dp = postgres_repository fault"
  shows "\<exists>err n'. refresh_rotate dp now (s, u) (n, d) = (Inl (ErrAuthFailure err), n', d)"
proof (cases "issue_tokens (au_tokens dp) (au_gen dp) now u n")
  case (Pair res n')
  show ?thesis
  proof (cases res)
    case (Inl err)
    then show ?thesis using Pair by (simp add: refresh_rotate_def)
  next
    case (Inr y)
    then obtain tokens sid expires where "res = Inr (tokens, sid, expires)" by (cases y) auto
    moreover obtain err where "pg_revoke_session fault (fs_id s) sid now d = (Some err, d)"
      using revocation_refused by blast
    ultimately show ?thesis using Pair assms by (simp add: refresh_rotate_def)
  qed
qed

lemma refresh_refused:
  assumes "au_repository dp = postgres_repository fault"
  shows "\<exists>err n'. refresh dp now tok (n, d) = (Inl err, n', d)
    \<and> (\<forall>c. refresh_check dp now tok d = Inr c \<longrightarrow> err \<noteq> ErrInvalidRefreshToken)"
proof (cases "refresh_check dp now tok d")
  case (Inr c)
  obtain s u where "c = (s, u)" by fastforce
  then show ?thesis using Inr rotate_refused [OF assms, of now s u n d] by (auto simp: refresh_def)
qed (simp add: refresh_def)

lemma auth_run_live:
  "auth_run dp nd nd' \<Longrightarrow> pg_live (snd nd) i = Some s \<Longrightarrow> pg_live (snd nd') i = Some s"
proof (induction rule: auth_run.induct)
  case (logged_in nd nd' fault now email password)
  obtain n d where nd': "nd' = (n, d)" by (cases nd')
  obtain res n' d' where l: "login (on_auth_db dp fault) now email password (n, d) = (res, n', d')"
    by (cases "login (on_auth_db dp fault) now email password (n, d)")
  show ?case using pg_repository.live_after_login [OF on_auth_db_repository l] logged_in nd' l by simp
next
  case (rotated nd nd' fault now checked)
  obtain n d s u where "nd' = (n, d)" "checked = (s, u)" by (cases nd', cases checked)
  then show ?case using rotate_refused [OF on_auth_db_repository, of dp fault now s u n d] rotated by auto
qed

abbreviation no_fault :: pg_fault where
  "no_fault \<equiv> \<lambda>_ _. None"

section \<open>Tokens that are accepted\<close>

lemma cached_key_now: "0 \<le> jv_ttl v \<Longrightarrow> jv_last_fetch v = now \<Longrightarrow> cached_key now kid v = map_of (jv_keys v) kid"
  by (simp add: cached_key_def)

lemma refresh_keys_keeps:
  assumes "refresh_keys w now force v = (err, v')"
  shows "jv_ttl v' = jv_ttl v" and "length (jv_log v) \<le> length (jv_log v')"
  using assms by (auto simp: refresh_keys_def Let_def split: sum.splits fetch_result.splits if_splits)

lemma lookup_key_keeps:
  assumes "lookup_key w now kid v = (res, v')"
  shows "jv_ttl v' = jv_ttl v" and "length (jv_log v) \<le> length (jv_log v')"
  using assms refresh_keys_keeps [of w now False v]
  by (auto simp: lookup_key_def split: prod.splits option.splits if_splits)

lemma jwt_parse_keeps:
  assumes "jwt_parse w now rawToken v = (res, v')"
  shows "jv_ttl v' = jv_ttl v" and "length (jv_log v) \<le> length (jv_log v')"
  using assms by (auto simp: jwt_parse_def split: sum.splits prod.splits dest: lookup_key_keeps)

lemma forced_refresh:
  assumes "jw_fetch w (length (jv_log v)) = FetchAnswer status (Inr document)" and "200 \<le> status" "status < 300"
    and "decode_keys document [] = Inr keys"
  shows "refresh_keys w now True v = (None, v\<lparr>jv_log := jv_log v @ [now], jv_keys := keys, jv_last_fetch := now\<rparr>)"
  using assms by (simp add: refresh_keys_def)

lemma parse_token_published:
  assumes kid: "jw_header w tok = Inr kid" "kid \<noteq> ''''" and ttl: "0 \<le> jv_ttl v"
    and doc: "\<And>n. length (jv_log v) \<le> n \<Longrightarrow> jw_fetch w n = FetchAnswer 200 (Inr document)"
    and key: "decode_keys document [] = Inr keys" "map_of keys kid = Some key"
    and ok: "jw_verify w now key tok = Inr cs"
    and same: "\<And>key' cs'. jw_verify w now key' tok = Inr cs' \<Longrightarrow> cs' = cs"
  shows "fst (parse_token w now tok v) = Inr cs"
proof -
  obtain r1 v1 where p1: "jwt_parse w now tok v = (r1, v1)" by (cases "jwt_parse w now tok v")
  show ?thesis
  proof (cases r1)
    case (Inr cs1)
    then obtain key' where "jw_verify w now key' tok = Inr cs1"
      using p1 kid by (auto simp: jwt_parse_def split: sum.splits prod.splits)
    then show ?thesis using same p1 Inr by (simp add: parse_token_def)
  next
    case (Inl err)
    let ?v2 = "v1\<lparr>jv_log := jv_log v1 @ [now], jv_keys := keys, jv_last_fetch := now\<rparr>"
    have "length (jv_log v) \<le> length (jv_log v1)" and t: "jv_ttl v1 = jv_ttl v"
      using jwt_parse_keeps [OF p1] by simp_all
    then have "refresh_keys w now True v1 = (None, ?v2)" by (intro forced_refresh [OF doc _ _ key(1)]) auto
    moreover have "jwt_parse w now tok ?v2 = (Inr cs, ?v2)"
      using kid ok key(2) ttl t by (simp add: jwt_parse_def lookup_key_def cached_key_now)
    ultimately show ?thesis using p1 Inl by (simp add: parse_token_def)
  qed
qed

section \<open>The published key\<close>

text \<open>What the gateway decodes of the key set that the auth service answers with.\<close>

definition wire_key :: "json_web_key \<Rightarrow> jwk_key" where
  "wire_key k = \<lparr>kk_id = jk_kid k, kk_modulus = jk_n k, kk_exponent = jk_e k\<rparr>"

lemma shifted_bytes:
  "foldl (\<lambda>e b. push_bit 8 e + word_of_nat b) (word_of_nat m :: 64 word) bs
    = word_of_nat (foldl (\<lambda>n b. 256 * n + b) m bs)"
proof (induction bs arbitrary: m)
  case (Cons b bs)
  have "push_bit 8 (word_of_nat m :: 64 word) + word_of_nat b = word_of_nat (256 * m + b)"
    by (simp add: push_bit_eq_mult)
  then show ?case by (simp only: foldl_Cons Cons.IH)
qed simp

lemma published_key_decodes:
  assumes "word_of_nat e \<noteq> (0 :: 64 word)"
  shows "decode_public_key \<lparr>kk_id = kid, kk_modulus = encode64 (big_bytes n), kk_exponent = encode64 (big_bytes e)\<rparr>
    = Inr \<lparr>rk_modulus = n, rk_exponent = word_of_nat e\<rparr>"
proof -
  have "decode64 (encode64 (big_bytes m)) = Inr (big_bytes m)" for m
    by (rule decode64_encode64) (auto dest: big_bytes_bound)
  moreover have "foldl (\<lambda>e b. push_bit 8 e + word_of_nat b) (0 :: 64 word) (big_bytes e) = word_of_nat e"
    using shifted_bytes [of 0 "big_bytes e"] set_bytes_big_bytes [of e] unfolding set_bytes_def by simp
  ultimately show ?thesis using assms by (simp add: decode_public_key_def)
qed

end
