(* ===== verification/AuthProperties.thy ===== *)
theory AuthProperties
  imports AuthFacts
begin

text \<open>
  What the tokens promise: on PostgreSQL no refresh token can be exchanged; an access token that the auth service
  issues is accepted by the gateway, under a key the gateway fetched recently, also after the keys have changed;
  and how often the gateway asks for the keys.
\<close>

section \<open>Samples\<close>

definition sample_user :: user where
  "sample_user = \<lparr>us_id = ''u1'', us_email = ''a@x'', us_name = ''Ann'', us_hash = ''h'', us_status = ''active''\<rparr>"

text \<open>A library whose tokens are the word for the token's type and its identifier.\<close>

definition sample_claims :: "string \<Rightarrow> claims" where
  "sample_claims tok =
     [(''token_type'', JStr (takeWhile (\<lambda>c. c \<noteq> CHR '' '') tok)),
      (''jti'', JStr (drop 1 (dropWhile (\<lambda>c. c \<noteq> CHR '' '') tok)))]"

definition sample_tokens :: token_service where
  "sample_tokens =
     \<lparr>ts_issuer = ''wiki-auth'', ts_audience = ''wiki-api'', ts_access_ttl = 15 * minute,
      ts_refresh_ttl = 30 * 24 * hour, ts_key = ''k1'',
      ts_sign = (\<lambda>_ cs. Inr (claim_as_string cs ''token_type'' @ '' '' @ claim_as_string cs ''jti'')),
      ts_parse = (\<lambda>_ tok. Inr (sample_claims tok))\<rparr>"

definition sample_auth :: "auth_db auth_deps" where
  "sample_auth =
     \<lparr>au_repository = postgres_repository no_fault, au_tokens = sample_tokens, au_compare = (=),
      au_lower = map ascii_lower, au_gen = (\<lambda>n. ''id'' @ decimal (int n))\<rparr>"

definition sample_refresh_session :: refresh_session where
  "sample_refresh_session = new_session ''s1'' sample_user 1000"

definition sample_auth_db :: auth_db where
  "sample_auth_db =
     \<lparr>db_users = [sample_user], db_memberships = [], db_grants = [],
      db_sessions = [\<lparr>sr_session = sample_refresh_session, sr_revoked_at = None, sr_replaced_by = None\<rparr>]\<rparr>"

section \<open>Refresh tokens\<close>

text \<open>
  C34: On PostgreSQL no refresh token is ever exchanged. After any logins and refreshes, with whatever failures, a
  refresh is answered with an error and leaves every table as it was: with 500 where the token, its session and
  its user were found, because the statement that revokes the old session is refused. So no session is ever
  revoked: one that could be used can be used still, until it expires.
\<close>

theorem refresh_never_succeeds:
  assumes "auth_run dp (n0, d0) (n, d)"
  shows "(\<exists>n'. snd (handle_refresh (on_auth_db dp fault) now r (n, d)) = (n', d))
    \<and> hx_status (fst (handle_refresh (on_auth_db dp fault) now r (n, d))) \<in> {400, 401, 500}
    \<and> (\<forall>tok c. hr_body r = Inr tok \<longrightarrow> trim_space tok \<noteq> '''' \<longrightarrow>
         refresh_check (on_auth_db dp fault) now tok d = Inr c \<longrightarrow>
         hx_status (fst (handle_refresh (on_auth_db dp fault) now r (n, d))) = 500)
    \<and> (\<forall>i s. pg_live d0 i = Some s \<longrightarrow> pg_live d i = Some s)"
proof -
  have kept: "\<forall>i s. pg_live d0 i = Some s \<longrightarrow> pg_live d i = Some s" using auth_run_live [OF assms] by simp
  show ?thesis
  proof (cases "hr_body r")
    case (Inl err)
    then show ?thesis using kept by (simp add: handle_refresh_def write_error_def)
  next
    case (Inr tok)
    obtain err n' where "refresh (on_auth_db dp fault) now tok (n, d) = (Inl err, n', d)"
        "\<forall>c. refresh_check (on_auth_db dp fault) now tok d = Inr c \<longrightarrow> err \<noteq> ErrInvalidRefreshToken"
      using refresh_refused [OF on_auth_db_repository] by blast
    then show ?thesis using kept Inr by (auto simp: handle_refresh_def write_error_def)
  qed
qed

text \<open>The token of a session that is there, after a login.\<close>

definition refresh_sample_request :: "string http_request" where
  "refresh_sample_request = \<lparr>hr_headers = (\<lambda>_. []), hr_query = (\<lambda>_. ''''), hr_param = (\<lambda>_. ''''),
     hr_body = Inr ''refresh s1'', hr_request_id = '''', hr_correlation_id = ''''\<rparr>"

lemma refresh_sample_checked:
  "\<exists>c. refresh_check sample_auth 20 ''refresh s1'' (snd (snd (login sample_auth 15 ''A@x'' ''h'' (0, sample_auth_db)))) = Inr c"
proof -
  have "case refresh_check sample_auth 20 ''refresh s1''
      (snd (snd (login sample_auth 15 ''A@x'' ''h'' (0, sample_auth_db)))) of Inl _ \<Rightarrow> False | Inr _ \<Rightarrow> True"
    by code_simp
  then show ?thesis by (auto split: sum.splits)
qed

theorem refresh_never_succeeds_witness:
  "hx_status (fst (handle_refresh sample_auth 20 refresh_sample_request
     (snd (login sample_auth 15 ''A@x'' ''h'' (0, sample_auth_db))))) = 500"
proof -
  obtain n2 d2 where l: "snd (login sample_auth 15 ''A@x'' ''h'' (0, sample_auth_db)) = (n2, d2)"
    by (cases "snd (login sample_auth 15 ''A@x'' ''h'' (0, sample_auth_db))")
  have on: "on_auth_db sample_auth no_fault = sample_auth" by (simp add: on_auth_db_def sample_auth_def)
  have "auth_run sample_auth (0, sample_auth_db)
      (snd (login (on_auth_db sample_auth no_fault) 15 ''A@x'' ''h'' (0, sample_auth_db)))"
    by (rule logged_in) (rule nothing)
  then have "auth_run sample_auth (0, sample_auth_db) (n2, d2)" using l on by simp
  moreover have "trim_space ''refresh s1'' \<noteq> ''''" by code_simp
  moreover have "hr_body refresh_sample_request = Inr ''refresh s1''" by (simp add: refresh_sample_request_def)
  ultimately show ?thesis
    using refresh_never_succeeds [of sample_auth 0 sample_auth_db n2 d2 no_fault 20 refresh_sample_request]
      refresh_sample_checked l on
    by simp
qed

section \<open>Access tokens at the gateway\<close>

text \<open>
  C36: The gateway accepts a token only under a key that it fetched a time before that is not longer
  than the cache's time to live, in whichever sequence of checks and at whichever times: a key that the
  auth service withdraws is not trusted for longer than that.
\<close>

theorem accepted_under_recent_key:
  assumes "validator_run w ttl t v" and "t \<le> now"
    and "validator_access_token w now tok v = (Inr who, v')"
  shows "\<exists>n status document keys kid key cs. now - jv_log v' ! n \<le> jv_ttl (new_jwt_validator ttl) \<and>
    n < length (jv_log v') \<and> jw_fetch w n = FetchAnswer status (Inr document) \<and>
    decode_keys document [] = Inr keys \<and> jw_header w tok = Inr kid \<and> map_of keys kid = Some key \<and>
    jw_verify w now key tok = Inr cs \<and> in_user who = claim_as_string cs ''sub''"
proof -
  have k: "keys_fetched w now v" and t: "jv_ttl v = jv_ttl (new_jwt_validator ttl)"
    using validator_run_ok [OF assms(1)] keys_fetched_later assms(2) by auto
  obtain cs where p: "parse_token w now tok v = (Inr cs, v')" and who: "in_user who = claim_as_string cs ''sub''"
    using assms(3)
    by (auto simp: validator_access_token_def validate_access_token_def validate_access_claims_def
        split: prod.splits sum.splits if_splits)
  from parse_token_ok [OF k p] obtain kid key where "jw_header w tok = Inr kid"
    and c: "cached_key now kid v' = Some key" and "jw_verify w now key tok = Inr cs"
    by (auto simp: verified_by_cached_def)
  moreover from cached_key_recent [OF parse_token_ok(1) [OF k p] c] obtain n status document keys where
    "n < length (jv_log v')" "now - jv_log v' ! n \<le> jv_ttl v'"
    "jw_fetch w n = FetchAnswer status (Inr document)" "decode_keys document [] = Inr keys" "map_of keys kid = Some key"
    by blast
  ultimately show ?thesis using who parse_token_ok(2) [OF k p] t by auto
qed

text \<open>
  The sample gateway meets a library that verifies with one key, published under \<open>k2\<close>.
\<close>

definition sample_key :: jwk_key where
  "sample_key = \<lparr>kk_id = ''k2'', kk_modulus = encode64 (big_bytes 3233), kk_exponent = encode64 (big_bytes 65537)\<rparr>"

definition sample_rsa :: rsa_key where
  "sample_rsa = \<lparr>rk_modulus = 3233, rk_exponent = 65537\<rparr>"

definition sample_access_claims :: claims where
  "sample_access_claims = [(''token_type'', JStr ''access''), (''sub'', JStr ''u1'')]"

definition sample_world :: jwt_world where
  "sample_world =
     \<lparr>jw_header = (\<lambda>tok. if tok = ''tok'' then Inr ''k2'' else Inl ''malformed''),
      jw_verify = (\<lambda>_ key tok. if key = sample_rsa then Inr sample_access_claims else Inl ''signature is invalid''),
      jw_fetch = (\<lambda>_. FetchAnswer 200 (Inr [sample_key]))\<rparr>"

lemma sample_key_decodes: "decode_keys [sample_key] [] = Inr [(''k2'', sample_rsa)]"
  using published_key_decodes [of 65537 "''k2''" 3233] by (simp add: sample_key_def sample_rsa_def)

lemma sample_token_accepted:
  "fst (validator_access_token sample_world 7 ''tok'' (new_jwt_validator 5)) =
     Inr \<lparr>in_user = ''u1'', in_email = '''', in_name = '''', in_workspace = '''', in_roles = []\<rparr>"
proof -
  have "fst (parse_token sample_world 7 ''tok'' (new_jwt_validator 5)) = Inr sample_access_claims"
    by (rule parse_token_published [OF _ _ _ _ sample_key_decodes])
      (auto simp: sample_world_def new_jwt_validator_def split: if_splits)
  then show ?thesis
    by (auto simp: validator_access_token_def validate_access_token_def validate_access_claims_def
        sample_access_claims_def claim_as_string_def split: prod.splits)
qed

theorem accepted_under_recent_key_witness:
  "\<exists>v' n. n < length (jv_log v') \<and> 7 - jv_log v' ! n \<le> 5 \<and>
     snd (validator_access_token sample_world 7 ''tok'' (new_jwt_validator 5)) = v'"
proof -
  obtain v' where v: "validator_access_token sample_world 7 ''tok'' (new_jwt_validator 5) =
      (Inr \<lparr>in_user = ''u1'', in_email = '''', in_name = '''', in_workspace = '''', in_roles = []\<rparr>, v')"
    using sample_token_accepted by (metis prod.collapse)
  from accepted_under_recent_key [OF started [of sample_world 5 0] _ v] show ?thesis
    using v by (auto simp: new_jwt_validator_def)
qed

text \<open>
  One check of a token sends at most three requests for the key set: the lookup of an unknown key
  may send one, the forced refresh after a failure is the second, and the lookup after that can send a
  third where the new key set is empty.
\<close>

theorem key_requests_bounded:
  "length (jv_log (snd (validator_access_token w now tok v))) \<le> length (jv_log v) + 3"
  using parse_token_log [of w now tok v] by (auto simp: validator_access_token_def split: prod.splits)

text \<open>
  C35: An access token that the auth service issues is accepted by every gateway, whatever its cache of
  keys holds, as soon as the key set that the auth service publishes can be fetched: the key survives
  its encoding in base 64, a failure under cached keys forces a fetch, and the identity is that of the
  user. The hypotheses on the library: what the service's key signs names the key in its header,
  verifies under the key while it has not expired, and under no key to other claims.
\<close>

theorem issued_token_admitted:
  assumes issued: "issue_tokens ts gen at u n = (Inr (tk, sessionID, expiresAt), n')"
    and key: "ts_key ts \<noteq> ''''" "word_of_nat e \<noteq> (0 :: 64 word)" and ttl: "0 \<le> jv_ttl v"
    and published: "\<And>k. length (jv_log v) \<le> k \<Longrightarrow> jw_fetch w k = FetchAnswer 200
      (Inr (map wire_key (token_jwks ts (encode64 (big_bytes modulus)) (encode64 (big_bytes e)))))"
    and library: "\<And>cs tok. ts_sign ts (ts_key ts) cs = Inr tok \<Longrightarrow> jw_header w tok = Inr (ts_key ts)"
      "\<And>cs tok x. ts_sign ts (ts_key ts) cs = Inr tok \<Longrightarrow> map_of cs ''exp'' = Some (JInt x) \<Longrightarrow>
        unix_seconds now < x \<Longrightarrow> jw_verify w now \<lparr>rk_modulus = modulus, rk_exponent = word_of_nat e\<rparr> tok = Inr cs"
      "\<And>cs tok key cs'. ts_sign ts (ts_key ts) cs = Inr tok \<Longrightarrow> jw_verify w now key tok = Inr cs' \<Longrightarrow> cs' = cs"
    and live: "unix_seconds now < unix_seconds (at + ts_access_ttl ts)"
  shows "fst (validator_access_token w now (tk_access tk) v) = Inr
    \<lparr>in_user = us_id u, in_email = us_email u, in_name = us_name u, in_workspace = '''', in_roles = []\<rparr>"
proof -
  let ?cs = "access_token_claims ts u at (gen (n + 1))"
  have s: "ts_sign ts (ts_key ts) ?cs = Inr (tk_access tk)"
    using issued by (auto simp: issue_tokens_def Let_def split: sum.splits)
  have k: "decode_keys (map wire_key (token_jwks ts (encode64 (big_bytes modulus)) (encode64 (big_bytes e)))) []
      = Inr [(ts_key ts, \<lparr>rk_modulus = modulus, rk_exponent = word_of_nat e\<rparr>)]"
    using published_key_decodes [OF key(2)] by (simp add: token_jwks_def wire_key_def)
  have "fst (parse_token w now (tk_access tk) v) = Inr ?cs"
  proof (rule parse_token_published [OF library(1) [OF s] key(1) ttl published k])
    show "jw_verify w now \<lparr>rk_modulus = modulus, rk_exponent = word_of_nat e\<rparr> (tk_access tk) = Inr ?cs"
      by (rule library(2) [OF s _ live]) (simp add: access_token_claims_def)
  qed (use library(3) [OF s] in auto)
  then show ?thesis
    by (auto simp: validator_access_token_def validate_access_token_def validate_access_claims_def
        access_token_claims_def claim_as_string_def split: prod.splits)
qed

definition one_token :: "token_service" where
  "one_token = sample_tokens\<lparr>ts_sign := (\<lambda>_ cs.
     if cs = access_token_claims sample_tokens sample_user 0 ''jti1'' then Inr ''A''
     else if cs = refresh_token_claims sample_tokens sample_user 0 ''jti0'' then Inr ''R'' else Inl ''unsupported'')\<rparr>"

definition one_token_world :: jwt_world where
  "one_token_world =
     \<lparr>jw_header = (\<lambda>_. Inr ''k1''),
      jw_verify = (\<lambda>_ key tok. if key = sample_rsa then
         Inr (if tok = ''A'' then access_token_claims sample_tokens sample_user 0 ''jti1''
              else refresh_token_claims sample_tokens sample_user 0 ''jti0'') else Inl ''signature is invalid''),
      jw_fetch = (\<lambda>_. FetchAnswer 200 (Inr
         (map wire_key (token_jwks sample_tokens (encode64 (big_bytes 3233)) (encode64 (big_bytes 65537))))))\<rparr>"

theorem issued_token_admitted_witness:
  "fst (validator_access_token one_token_world (14 * minute) ''A'' (new_jwt_validator minute)) = Inr
    \<lparr>in_user = ''u1'', in_email = ''a@x'', in_name = ''Ann'', in_workspace = '''', in_roles = []\<rparr>"
proof -
  have a: "access_token_claims one_token u t j = access_token_claims sample_tokens u t j"
    "refresh_token_claims one_token u t j = refresh_token_claims sample_tokens u t j" for u t j
    by (simp_all add: access_token_claims_def refresh_token_claims_def one_token_def)
  have ne: "refresh_token_claims sample_tokens sample_user 0 ''jti0'' \<noteq> access_token_claims sample_tokens sample_user 0 ''jti1''"
    by (simp add: access_token_claims_def refresh_token_claims_def)
  have i: "issue_tokens one_token (\<lambda>n. ''jti'' @ decimal (int n)) 0 sample_user 0
      = (Inr (\<lparr>tk_access = ''A'', tk_refresh = ''R'', tk_type = ''Bearer'', tk_expires_in = 900\<rparr>, ''jti0'', 30 * 24 * hour), 2)"
    by code_simp
  have k: "token_jwks one_token m x = token_jwks sample_tokens m x" "ts_key one_token = ''k1''" for m x
    by (simp_all add: token_jwks_def one_token_def sample_tokens_def)
  have r: "\<lparr>rk_modulus = 3233, rk_exponent = 65537\<rparr> = sample_rsa" by (simp add: sample_rsa_def)
  have "fst (validator_access_token one_token_world (14 * minute)
      (tk_access \<lparr>tk_access = ''A'', tk_refresh = ''R'', tk_type = ''Bearer'', tk_expires_in = 900\<rparr>) (new_jwt_validator minute)) = Inr
    \<lparr>in_user = us_id sample_user, in_email = us_email sample_user, in_name = us_name sample_user, in_workspace = '''', in_roles = []\<rparr>"
  proof (rule issued_token_admitted [OF i, of 65537 _ _ 3233])
    show "unix_seconds (14 * minute) < unix_seconds (0 + ts_access_ttl one_token)" by code_simp
  qed (auto simp: one_token_world_def k r new_jwt_validator_def minute_def second_def,
       auto simp: one_token_def ne split: if_splits)
  then show ?thesis by (simp add: sample_user_def)
qed

end
