(* ===== verification/GoPath.thy ===== *)
theory GoPath
  imports Prelude
begin

text \<open>
  What the services use of Go's \<open>path/filepath\<close> on a system whose separator is the slash: \<open>Base\<close>,
  \<open>Clean\<close> and \<open>Join\<close>. There \<open>ToSlash\<close> changes nothing.
\<close>

definition path_separator :: char where
  "path_separator = CHR ''/''"

text \<open>The last element, after slashes at the end are dropped.\<close>

definition path_base :: "string \<Rightarrow> string" where
  "path_base s =
     (if s = '''' then ''.''
      else
        (let stripped = rev (dropWhile (\<lambda>c. c = path_separator) (rev s));
             name = rev (takeWhile (\<lambda>c. c \<noteq> path_separator) (rev stripped))
         in if name = '''' then [path_separator] else name))"

text \<open>
  The elements of a cleaned path: empty ones and dots are dropped, a double dot takes the element
  before it away. In front of it all it stays, unless the path is rooted. The stack is reversed.
\<close>

fun clean_elements :: "bool \<Rightarrow> string list \<Rightarrow> string list \<Rightarrow> string list" where
  "clean_elements rooted [] stack = rev stack"
| "clean_elements rooted (e # es) stack =
     (if e = '''' \<or> e = ''.'' then clean_elements rooted es stack
      else if e = ''..'' then
        (case stack of
           [] \<Rightarrow> clean_elements rooted es (if rooted then [] else [e])
         | last_e # before \<Rightarrow>
             clean_elements rooted es (if last_e = ''..'' then e # stack else before))
      else clean_elements rooted es (e # stack))"

definition path_clean :: "string \<Rightarrow> string" where
  "path_clean s =
     (let rooted = (case s of [] \<Rightarrow> False | c # _ \<Rightarrow> c = path_separator);
          cleaned = join [path_separator] (clean_elements rooted (split_on path_separator s) [])
      in if rooted then path_separator # cleaned else if cleaned = '''' then ''.'' else cleaned)"

definition path_join :: "string list \<Rightarrow> string" where
  "path_join elems =
     (case dropWhile (\<lambda>e. e = '''') elems of
        [] \<Rightarrow> ''''
      | kept \<Rightarrow> path_clean (join [path_separator] kept))"

section \<open>Elements that stay as they are\<close>

definition plain_element :: "string \<Rightarrow> bool" where
  "plain_element e \<longleftrightarrow> e \<noteq> '''' \<and> e \<noteq> ''.'' \<and> e \<noteq> ''..'' \<and> path_separator \<notin> set e"

lemma clean_elements_plain:
  "list_all plain_element es \<Longrightarrow> clean_elements rooted es stack = rev stack @ es"
  by (induction es arbitrary: stack) (auto simp: plain_element_def)

lemma split_join_plain:
  assumes "list_all plain_element es" and "es \<noteq> []"
  shows "split_on path_separator (join [path_separator] es) = es"
  by (rule split_on_join) (use assms in \<open>auto simp: plain_element_def list_all_iff\<close>)

lemma join_plain_head:
  assumes "list_all plain_element (e # es)"
  shows "\<exists>c s. join [path_separator] (e # es) = c # s \<and> c \<noteq> path_separator"
  using assms by (cases e; cases es) (auto simp: plain_element_def)

lemma path_join_plain:
  assumes "list_all plain_element (e # es)"
  shows "path_join (e # es) = join [path_separator] (e # es)"
proof -
  obtain c s where j: "join [path_separator] (e # es) = c # s" "c \<noteq> path_separator"
    using join_plain_head [OF assms] by blast
  have "split_on path_separator (c # s) = e # es"
    using split_join_plain [OF assms] j by simp
  then have "path_clean (c # s) = c # s"
    using clean_elements_plain [OF assms] j by (simp add: path_clean_def)
  then show ?thesis using assms j by (simp add: path_join_def plain_element_def)
qed

lemma join_plain_inj:
  assumes "list_all plain_element es" "list_all plain_element fs" "es \<noteq> []" "fs \<noteq> []"
    and "join [path_separator] es = join [path_separator] fs"
  shows "es = fs"
  using split_join_plain [OF assms(1,3)] split_join_plain [OF assms(2,4)] unfolding assms(5) by (rule trans [OF sym])

end
