(* ===== verification/Files.thy ===== *)
theory Files
  imports Authz GoPath
begin

text \<open>
  The file service: file objects and upload sessions (\<^verbatim>\<open>services/file-service/internal/domain\<close>), the store
  and object store it calls (\<^verbatim>\<open>internal/ports\<close>), its use cases (\<^verbatim>\<open>internal/usecase\<close>), and the in-memory
  store (\<^verbatim>\<open>internal/adapters/memory/store.go\<close>). Completing an upload is cut into what it reads and what
  it writes, because other requests can be served in between.
\<close>

section \<open>Files and uploads\<close>

datatype file_status = FileUploading | FileReady | FileDeleted

fun file_status_string :: "file_status \<Rightarrow> string" where
  "file_status_string FileUploading = ''uploading''"
| "file_status_string FileReady = ''ready''"
| "file_status_string FileDeleted = ''deleted''"

record file_object =
  fo_id :: string
  fo_workspace :: string
  fo_page :: string
  fo_key :: string
  fo_filename :: string
  fo_content_type :: string
  fo_size :: int
  fo_checksum :: string
  fo_status :: file_status
  fo_created_by :: string
  fo_created_at :: gotime
  fo_updated_at :: gotime
  fo_deleted_at :: "gotime option"

record upload_session =
  ul_id :: string
  ul_file :: string
  ul_workspace :: string
  ul_page :: string
  ul_key :: string
  ul_filename :: string
  ul_content_type :: string
  ul_size :: int
  ul_checksum :: string
  ul_expires_at :: gotime
  ul_completed_at :: "gotime option"

record upload_payload =
  lp_upload :: string
  lp_file :: string
  lp_key :: string
  lp_url :: string
  lp_expires_at :: gotime
  lp_headers :: "(string \<times> string) list"

record file_payload =
  fp_file :: string
  fp_key :: string
  fp_filename :: string
  fp_content_type :: string
  fp_size :: int
  fp_status :: file_status
  fp_url :: string

text \<open>Only what is not found is told from other errors of the store.\<close>

datatype file_error =
  ErrFileNotFound | ErrFileForbidden | ErrFileAuthorization string | ErrFileValidation | ErrFileStore string
| ErrObjectStore string

fun file_error_text :: "file_error \<Rightarrow> string" where
  "file_error_text ErrFileNotFound = ''file not found''"
| "file_error_text ErrFileForbidden = ''forbidden''"
| "file_error_text (ErrFileAuthorization err) = err"
| "file_error_text ErrFileValidation = ''validation error''"
| "file_error_text (ErrFileStore err) = err"
| "file_error_text (ErrObjectStore err) = err"

section \<open>Ports\<close>

text \<open>\<open>st_complete\<close> is also given the clock, which the in-memory store reads itself.\<close>

record 's file_store =
  st_create :: "upload_session \<Rightarrow> file_object \<Rightarrow> 's \<Rightarrow> file_error option \<times> 's"
  st_get_upload :: "string \<Rightarrow> 's \<Rightarrow> file_error + upload_session"
  st_complete :: "gotime \<Rightarrow> string \<Rightarrow> file_object \<Rightarrow> 's \<Rightarrow> file_error option \<times> 's"
  st_get_file :: "string \<Rightarrow> 's \<Rightarrow> file_error + file_object"
  st_soft_delete :: "string \<Rightarrow> gotime \<Rightarrow> 's \<Rightarrow> file_error option \<times> 's"

record object_store =
  ob_presign_upload :: "string \<Rightarrow> duration \<Rightarrow> string + string \<times> (string \<times> string) list"
  ob_presign_download :: "string \<Rightarrow> duration \<Rightarrow> string + string"

text \<open>
  The laws the use cases rely on: \<open>visible\<close> are the files that a read finds, \<open>known\<close> the identifiers
  that a file was ever stored under, \<open>invar\<close> what every operation keeps. An operation that reports an
  error has done nothing, or all it does: the answer to it can be lost. The second locale adds what
  makes a deletion final: a new file has a new identifier, and a completion finds its file visible, or
  fails.
\<close>

locale file_storage =
  fixes ops :: "'s file_store" and visible :: "'s \<Rightarrow> string \<Rightarrow> file_object option" and known :: "'s \<Rightarrow> string set"
    and invar :: "'s \<Rightarrow> bool"
  assumes get_visible: "invar s \<Longrightarrow> st_get_file ops i s = Inr f \<Longrightarrow> visible s i = Some f"
    and get_gone: "visible s i = None \<Longrightarrow> \<exists>err. st_get_file ops i s = Inl err"
    and visible_id: "invar s \<Longrightarrow> visible s i = Some f \<Longrightarrow> fo_id f = i"
    and visible_known: "visible s i = Some f \<Longrightarrow> i \<in> known s"
    and created: "st_create ops u f s = (None, s') \<Longrightarrow> fo_status f = FileUploading \<Longrightarrow> fo_deleted_at f = None \<Longrightarrow>
      visible s' = (visible s)(fo_id f := Some f) \<and> known s' = insert (fo_id f) (known s)"
    and not_created: "st_create ops u f s = (Some err, s') \<Longrightarrow> fo_status f = FileUploading \<Longrightarrow>
      fo_deleted_at f = None \<Longrightarrow> visible s' = visible s \<and> known s' = known s \<or>
      visible s' = (visible s)(fo_id f := Some f) \<and> known s' = insert (fo_id f) (known s)"
    and deleted: "st_soft_delete ops i t s = (None, s') \<Longrightarrow>
      visible s' = (visible s)(i := None) \<and> known s' = known s \<and> i \<in> known s"
    and not_deleted: "st_soft_delete ops i t s = (Some err, s') \<Longrightarrow>
      (visible s' = visible s \<or> visible s' = (visible s)(i := None)) \<and> known s' = known s"
    and completed: "invar s \<Longrightarrow> visible s (fo_id f) = Some f \<Longrightarrow>
      st_complete ops now uploadID (f\<lparr>fo_status := FileReady, fo_updated_at := t\<rparr>) s = (None, s') \<Longrightarrow>
      visible s' = (visible s)(fo_id f := Some (f\<lparr>fo_status := FileReady, fo_updated_at := t\<rparr>)) \<and> known s' = known s"
    and not_completed: "invar s \<Longrightarrow> visible s (fo_id f) = Some f \<Longrightarrow>
      st_complete ops now uploadID (f\<lparr>fo_status := FileReady, fo_updated_at := t\<rparr>) s = (Some err, s') \<Longrightarrow>
      (visible s' = visible s \<or>
       visible s' = (visible s)(fo_id f := Some (f\<lparr>fo_status := FileReady, fo_updated_at := t\<rparr>))) \<and> known s' = known s"
    and invar_created: "invar s \<Longrightarrow> invar (snd (st_create ops u f s))"
    and invar_completed: "invar s \<Longrightarrow> invar (snd (st_complete ops now uploadID f s))"
    and invar_deleted: "invar s \<Longrightarrow> invar (snd (st_soft_delete ops i t s))"

locale final_file_storage = file_storage +
  assumes create_fresh: "st_create ops u f s = (err, s') \<Longrightarrow> fo_id f \<notin> known s \<or> s' = s"
    and complete_visible: "st_complete ops now uploadID f s = (err, s') \<Longrightarrow>
      known s' = known s \<and> (\<forall>i. visible s i = None \<longrightarrow> visible s' i = None)"

section \<open>Use cases\<close>

record 's file_deps =
  fd_store :: "'s file_store"
  fd_objects :: object_store
  fd_checker :: "remote_authz option"
  fd_gen :: id_gen

text \<open>Who acts; the page and the workspace come from the file.\<close>

record file_actor =
  fa_user :: string
  fa_roles :: "string list"
  fa_authenticated :: bool

record start_input =
  su_workspace :: string
  su_page :: string
  su_filename :: string
  su_content_type :: string
  su_size :: int
  su_checksum :: string

definition file_subject :: "file_actor \<Rightarrow> string \<Rightarrow> string \<Rightarrow> authorization_subject" where
  "file_subject a workspaceID pageID =
     \<lparr>as_actor = fa_user a, as_workspace = workspaceID, as_page = pageID, as_roles = fa_roles a,
      as_authenticated = fa_authenticated a\<rparr>"

definition file_authorize ::
  "'s file_deps \<Rightarrow> action \<Rightarrow> file_actor \<Rightarrow> string \<Rightarrow> string \<Rightarrow> file_error option" where
  "file_authorize dp action a workspaceID pageID =
     (case service_authorize (fd_checker dp) action (file_subject a workspaceID pageID) of
        AuthzOk \<Rightarrow> None
      | AuthzForbidden \<Rightarrow> Some ErrFileForbidden
      | AuthzError err \<Rightarrow> Some (ErrFileAuthorization err))"

definition upload_ttl :: duration where
  "upload_ttl = 15 * minute"

definition max_file_size :: int where
  "max_file_size = 25 * 1024 * 1024"

definition object_key :: "string \<Rightarrow> string \<Rightarrow> string \<Rightarrow> string" where
  "object_key workspaceID fileID filename = path_join [workspaceID, fileID, path_base filename]"

definition new_upload :: "start_input \<Rightarrow> gotime \<Rightarrow> string \<Rightarrow> string \<Rightarrow> string \<Rightarrow> upload_session" where
  "new_upload input now fileID uploadID objectKey =
     \<lparr>ul_id = uploadID, ul_file = fileID, ul_workspace = su_workspace input, ul_page = su_page input,
      ul_key = objectKey, ul_filename = path_base (su_filename input),
      ul_content_type = su_content_type input, ul_size = su_size input, ul_checksum = su_checksum input,
      ul_expires_at = now + upload_ttl, ul_completed_at = None\<rparr>"

definition new_file :: "start_input \<Rightarrow> file_actor \<Rightarrow> gotime \<Rightarrow> string \<Rightarrow> string \<Rightarrow> file_object" where
  "new_file input a now fileID objectKey =
     \<lparr>fo_id = fileID, fo_workspace = su_workspace input, fo_page = su_page input, fo_key = objectKey,
      fo_filename = path_base (su_filename input), fo_content_type = su_content_type input,
      fo_size = su_size input, fo_checksum = su_checksum input, fo_status = FileUploading,
      fo_created_by = fa_user a, fo_created_at = now, fo_updated_at = now, fo_deleted_at = None\<rparr>"

definition start_invalid :: "start_input \<Rightarrow> bool" where
  "start_invalid input \<longleftrightarrow>
     trim_space (su_workspace input) = '''' \<or> trim_space (su_filename input) = '''' \<or> su_size input \<le> 0 \<or>
     su_size input > max_file_size"

definition start_upload ::
  "'s file_deps \<Rightarrow> gotime \<Rightarrow> file_actor \<Rightarrow> start_input \<Rightarrow> nat \<times> 's \<Rightarrow> (file_error + upload_payload) \<times> nat \<times> 's" where
  "start_upload dp now a input = (\<lambda>(n, s).
     case file_authorize dp ActionFileUpload a (su_workspace input) (su_page input) of
       Some err \<Rightarrow> (Inl err, n, s)
     | None \<Rightarrow>
         if start_invalid input then (Inl ErrFileValidation, n, s)
         else
           (let fileID = fd_gen dp n;
                uploadID = fd_gen dp (n + 1);
                objectKey = object_key (su_workspace input) fileID (su_filename input)
            in case ob_presign_upload (fd_objects dp) objectKey upload_ttl of
                 Inl err \<Rightarrow> (Inl (ErrObjectStore err), n + 2, s)
               | Inr (uploadURL, headers) \<Rightarrow>
                   (case st_create (fd_store dp) (new_upload input now fileID uploadID objectKey)
                           (new_file input a now fileID objectKey) s of
                      (Some err, s) \<Rightarrow> (Inl err, n + 2, s)
                    | (None, s) \<Rightarrow>
                        (Inr \<lparr>lp_upload = uploadID, lp_file = fileID, lp_key = objectKey, lp_url = uploadURL,
                              lp_expires_at = now + upload_ttl, lp_headers = headers\<rparr>, n + 2, s))))"

definition file_payload_of :: "file_object \<Rightarrow> file_status \<Rightarrow> string \<Rightarrow> file_payload" where
  "file_payload_of f status url =
     \<lparr>fp_file = fo_id f, fp_key = fo_key f, fp_filename = fo_filename f, fp_content_type = fo_content_type f,
      fp_size = fo_size f, fp_status = status, fp_url = url\<rparr>"

record complete_input =
  co_upload :: string
  co_page :: string
  co_checksum :: string

text \<open>Completing an upload, up to the write: the file as it will be written.\<close>

definition complete_read ::
  "'s file_deps \<Rightarrow> gotime \<Rightarrow> file_actor \<Rightarrow> complete_input \<Rightarrow> 's \<Rightarrow> file_error + file_object" where
  "complete_read dp now a input s =
     (case st_get_upload (fd_store dp) (co_upload input) s of
        Inl err \<Rightarrow> Inl err
      | Inr session \<Rightarrow>
          (case file_authorize dp ActionFileUpload a (ul_workspace session) (ul_page session) of
             Some err \<Rightarrow> Inl err
           | None \<Rightarrow>
               if ul_page session \<noteq> '''' \<and> co_page input \<noteq> '''' \<and> ul_page session \<noteq> co_page input then
                 Inl ErrFileValidation
               else if ul_checksum session \<noteq> '''' \<and> co_checksum input \<noteq> '''' \<and>
                       ul_checksum session \<noteq> co_checksum input then
                 Inl ErrFileValidation
               else (case st_get_file (fd_store dp) (ul_file session) s of
                       Inl err \<Rightarrow> Inl err
                     | Inr f \<Rightarrow> Inr (f\<lparr>fo_status := FileReady, fo_updated_at := now\<rparr>))))"

definition complete_write ::
  "'s file_deps \<Rightarrow> gotime \<Rightarrow> complete_input \<Rightarrow> file_object \<Rightarrow> 's \<Rightarrow> (file_error + file_payload) \<times> 's" where
  "complete_write dp now input f s =
     (case st_complete (fd_store dp) now (co_upload input) f s of
        (Some err, s) \<Rightarrow> (Inl err, s)
      | (None, s) \<Rightarrow>
          (case ob_presign_download (fd_objects dp) (fo_key f) upload_ttl of
             Inl err \<Rightarrow> (Inl (ErrObjectStore err), s)
           | Inr url \<Rightarrow> (Inr (file_payload_of f (fo_status f) url), s)))"

definition complete_upload ::
  "'s file_deps \<Rightarrow> gotime \<Rightarrow> file_actor \<Rightarrow> complete_input \<Rightarrow> 's \<Rightarrow> (file_error + file_payload) \<times> 's" where
  "complete_upload dp now a input s =
     (case complete_read dp now a input s of
        Inl err \<Rightarrow> (Inl err, s)
      | Inr f \<Rightarrow> complete_write dp now input f s)"

definition get_file :: "'s file_deps \<Rightarrow> file_actor \<Rightarrow> string \<Rightarrow> 's \<Rightarrow> file_error + file_payload" where
  "get_file dp a fileID s =
     (case st_get_file (fd_store dp) fileID s of
        Inl err \<Rightarrow> Inl err
      | Inr f \<Rightarrow>
          (case file_authorize dp ActionFileRead a (fo_workspace f) (fo_page f) of
             Some err \<Rightarrow> Inl err
           | None \<Rightarrow>
               (case ob_presign_download (fd_objects dp) (fo_key f) upload_ttl of
                  Inl err \<Rightarrow> Inl (ErrObjectStore err)
                | Inr url \<Rightarrow> Inr (file_payload_of f (fo_status f) url))))"

text \<open>No file, and no error, where there is none.\<close>

definition get_file_metadata :: "'s file_deps \<Rightarrow> file_actor \<Rightarrow> string \<Rightarrow> 's \<Rightarrow> file_error + file_object option" where
  "get_file_metadata dp a fileID s =
     (case st_get_file (fd_store dp) fileID s of
        Inl err \<Rightarrow> if err = ErrFileNotFound then Inr None else Inl err
      | Inr f \<Rightarrow>
          (case file_authorize dp ActionFileRead a (fo_workspace f) (fo_page f) of
             Some err \<Rightarrow> Inl err
           | None \<Rightarrow> Inr (Some f)))"

definition delete_file ::
  "'s file_deps \<Rightarrow> gotime \<Rightarrow> file_actor \<Rightarrow> string \<Rightarrow> 's \<Rightarrow> (file_error + file_payload) \<times> 's" where
  "delete_file dp now a fileID s =
     (case st_get_file (fd_store dp) fileID s of
        Inl err \<Rightarrow> (Inl err, s)
      | Inr f \<Rightarrow>
          (case file_authorize dp ActionFileUpload a (fo_workspace f) (fo_page f) of
             Some err \<Rightarrow> (Inl err, s)
           | None \<Rightarrow>
               (case st_soft_delete (fd_store dp) (fo_id f) now s of
                  (Some err, s) \<Rightarrow> (Inl err, s)
                | (None, s) \<Rightarrow> (Inr (file_payload_of f FileDeleted ''''), s))))"

end
