(* ===== verification/Rows.thy ===== *)
theory Rows
  imports Prelude
begin

text \<open>
  What the PostgreSQL adapters share: a table is the list of its rows, in no order that means anything;
  statements look for a row, update the rows that satisfy a condition, or insert one.
\<close>

text \<open>A \<open>TIMESTAMPTZ\<close> has microseconds.\<close>

definition stored_time :: "gotime \<Rightarrow> gotime" where
  "stored_time t = t - t mod 1000"

lemma stored_time_idem [simp]: "stored_time (stored_time t) = stored_time t"
  by (simp add: stored_time_def mod_diff_left_eq)

definition update_where :: "('a \<Rightarrow> bool) \<Rightarrow> ('a \<Rightarrow> 'a) \<Rightarrow> 'a list \<Rightarrow> 'a list" where
  "update_where P g rows = map (\<lambda>row. if P row then g row else row) rows"

lemma find_update_where:
  assumes "\<And>row. P row \<Longrightarrow> Q (g row) = R row" and "\<And>row. \<not> P row \<Longrightarrow> Q row = R row"
  shows "find Q (update_where P g rows) = map_option (\<lambda>row. if P row then g row else row) (find R rows)"
  by (induction rows) (auto simp: update_where_def assms)

end
