(* ===== verification/FileStores.thy ===== *)
theory FileStores
  imports Files Rows
begin

text \<open>
  The two stores of the file service: in memory (\<^verbatim>\<open>internal/adapters/memory/store.go\<close>), and on
  PostgreSQL (\<^verbatim>\<open>internal/adapters/postgres/store.go\<close>) as the rows of its two tables, where the database
  can refuse any statement with an error. Both satisfy the laws of the store; only the second one those
  that make a deletion final.
\<close>

section \<open>In memory\<close>

record mem_files =
  mf_files :: "string \<Rightarrow> file_object option"
  mf_uploads :: "string \<Rightarrow> upload_session option"

definition new_mem_files :: mem_files where
  "new_mem_files = \<lparr>mf_files = Map.empty, mf_uploads = Map.empty\<rparr>"

definition mem_create_upload :: "upload_session \<Rightarrow> file_object \<Rightarrow> mem_files \<Rightarrow> file_error option \<times> mem_files" where
  "mem_create_upload u f s =
     (None, s\<lparr>mf_uploads := (mf_uploads s)(ul_id u \<mapsto> u), mf_files := (mf_files s)(fo_id f \<mapsto> f)\<rparr>)"

definition mem_get_upload :: "string \<Rightarrow> mem_files \<Rightarrow> file_error + upload_session" where
  "mem_get_upload uploadID s =
     (case mf_uploads s uploadID of None \<Rightarrow> Inl ErrFileNotFound | Some u \<Rightarrow> Inr u)"

definition mem_complete_upload ::
  "gotime \<Rightarrow> string \<Rightarrow> file_object \<Rightarrow> mem_files \<Rightarrow> file_error option \<times> mem_files" where
  "mem_complete_upload now uploadID f s =
     (case mf_uploads s uploadID of
        None \<Rightarrow> (Some ErrFileNotFound, s)
      | Some u \<Rightarrow>
          (None, s\<lparr>mf_uploads := (mf_uploads s)(uploadID \<mapsto> u\<lparr>ul_completed_at := Some now\<rparr>),
                   mf_files := (mf_files s)(fo_id f \<mapsto> f)\<rparr>))"

definition mem_get_file :: "string \<Rightarrow> mem_files \<Rightarrow> file_error + file_object" where
  "mem_get_file fileID s =
     (case mf_files s fileID of
        None \<Rightarrow> Inl ErrFileNotFound
      | Some f \<Rightarrow> if fo_status f = FileDeleted \<or> fo_deleted_at f \<noteq> None then Inl ErrFileNotFound else Inr f)"

definition mem_soft_delete :: "string \<Rightarrow> gotime \<Rightarrow> mem_files \<Rightarrow> file_error option \<times> mem_files" where
  "mem_soft_delete fileID deletedAt s =
     (case mf_files s fileID of
        None \<Rightarrow> (Some ErrFileNotFound, s)
      | Some f \<Rightarrow>
          (None, s\<lparr>mf_files := (mf_files s)(fileID \<mapsto>
             f\<lparr>fo_status := FileDeleted, fo_deleted_at := Some deletedAt, fo_updated_at := deletedAt\<rparr>)\<rparr>))"

definition memory_file_store :: "mem_files file_store" where
  "memory_file_store =
     \<lparr>st_create = mem_create_upload, st_get_upload = mem_get_upload, st_complete = mem_complete_upload,
      st_get_file = mem_get_file, st_soft_delete = mem_soft_delete\<rparr>"

lemma memory_file_store_simps [simp]:
  "st_create memory_file_store = mem_create_upload" "st_get_upload memory_file_store = mem_get_upload"
  "st_complete memory_file_store = mem_complete_upload" "st_get_file memory_file_store = mem_get_file"
  "st_soft_delete memory_file_store = mem_soft_delete"
  by (simp_all add: memory_file_store_def)

text \<open>What a read finds, and that files are stored under their identifiers.\<close>

definition mem_visible :: "mem_files \<Rightarrow> string \<Rightarrow> file_object option" where
  "mem_visible s i =
     (case mf_files s i of
        None \<Rightarrow> None
      | Some f \<Rightarrow> if fo_status f = FileDeleted \<or> fo_deleted_at f \<noteq> None then None else Some f)"

definition mem_files_ok :: "mem_files \<Rightarrow> bool" where
  "mem_files_ok s \<longleftrightarrow> (\<forall>i f. mf_files s i = Some f \<longrightarrow> fo_id f = i)"

lemma mem_files_okD: "mem_files_ok s \<Longrightarrow> mf_files s i = Some f \<Longrightarrow> fo_id f = i"
  by (simp add: mem_files_ok_def)

lemma mem_get_file_visible: "mem_get_file i s = (case mem_visible s i of None \<Rightarrow> Inl ErrFileNotFound | Some f \<Rightarrow> Inr f)"
  by (auto simp: mem_get_file_def mem_visible_def split: option.splits)

interpretation memory_files: file_storage memory_file_store mem_visible "\<lambda>s. dom (mf_files s)" mem_files_ok
proof (unfold_locales, goal_cases)
  case (1 s i f)
  then show ?case by (auto simp: mem_get_file_visible split: option.splits)
next
  case (2 s i)
  then show ?case by (auto simp: mem_get_file_visible)
next
  case (3 s i f)
  then show ?case by (auto simp: mem_visible_def dest: mem_files_okD split: option.splits if_splits)
next
  case (4 s i f)
  then show ?case by (auto simp: mem_visible_def split: option.splits)
next
  case (5 u f s s')
  then show ?case by (auto simp: mem_create_upload_def mem_visible_def)
next
  case (6 u f s err s')
  then show ?case by (simp add: mem_create_upload_def)
next
  case (7 i t s s')
  then show ?case by (auto simp: mem_soft_delete_def mem_visible_def split: option.splits if_splits)
next
  case (8 i t s err s')
  then show ?case by (auto simp: mem_soft_delete_def split: option.splits)
next
  case (9 s f now uploadID t s')
  then show ?case
    by (auto simp: mem_complete_upload_def mem_visible_def split: option.splits if_splits)
next
  case (10 s f now uploadID t err s')
  then show ?case by (auto simp: mem_complete_upload_def split: option.splits)
next
  case (11 s u f)
  then show ?case by (auto simp: mem_create_upload_def mem_files_ok_def)
next
  case (12 s now uploadID f)
  then show ?case by (auto simp: mem_complete_upload_def mem_files_ok_def split: option.splits)
next
  case (13 s i t)
  then show ?case by (auto simp: mem_soft_delete_def mem_files_ok_def split: option.splits)
qed

section \<open>On PostgreSQL\<close>

text \<open>
  An empty page, checksum or creator is a NULL of the table and reads as empty again, so the rows are
  files and uploads themselves.
\<close>

datatype file_statement =
  InsertFile | InsertUpload | SelectUpload | UpdateUpload | UpdateFile | SelectFile | DeleteFileRow | BeginOrCommit
  | WriteAnswer

type_synonym file_fault = "file_statement \<Rightarrow> string \<Rightarrow> string option"

record file_db =
  fr_files :: "file_object list"
  fr_uploads :: "upload_session list"

text \<open>
  The two inserts are one transaction: where one is refused none is left. Where only the answer to its
  commit is lost, the caller is told of an error and the rows are there.
\<close>

definition pg_create_upload ::
  "file_fault \<Rightarrow> upload_session \<Rightarrow> file_object \<Rightarrow> file_db \<Rightarrow> file_error option \<times> file_db" where
  "pg_create_upload fault u f d =
     (case fault InsertFile (fo_id f) of
        Some err \<Rightarrow> (Some (ErrFileStore err), d)
      | None \<Rightarrow>
          if list_ex (\<lambda>row. fo_id row = fo_id f \<or> fo_key row = fo_key f) (fr_files d) then
            (Some (ErrFileStore ''duplicate key''), d)
          else (case fault InsertUpload (ul_id u) of
            Some err \<Rightarrow> (Some (ErrFileStore err), d)
          | None \<Rightarrow>
              if list_ex (\<lambda>row. ul_id row = ul_id u) (fr_uploads d) then
                (Some (ErrFileStore ''duplicate key''), d)
              else (case fault BeginOrCommit '''' of
                Some err \<Rightarrow> (Some (ErrFileStore err), d)
              | None \<Rightarrow> (map_option ErrFileStore (fault WriteAnswer (fo_id f)),
                                 d\<lparr>fr_files := fr_files d @ [f\<lparr>fo_deleted_at := None\<rparr>],
                                 fr_uploads := fr_uploads d @ [u\<lparr>ul_completed_at := None\<rparr>]\<rparr>))))"

definition pg_get_upload :: "file_fault \<Rightarrow> string \<Rightarrow> file_db \<Rightarrow> file_error + upload_session" where
  "pg_get_upload fault uploadID d =
     (case fault SelectUpload uploadID of
        Some err \<Rightarrow> Inl (ErrFileStore err)
      | None \<Rightarrow> (case find (\<lambda>row. ul_id row = uploadID) (fr_uploads d) of
                   None \<Rightarrow> Inl ErrFileNotFound
                 | Some u \<Rightarrow> Inr u))"

definition pg_complete_upload ::
  "file_fault \<Rightarrow> gotime \<Rightarrow> string \<Rightarrow> file_object \<Rightarrow> file_db \<Rightarrow> file_error option \<times> file_db" where
  "pg_complete_upload fault now uploadID f d =
     (case fault UpdateUpload uploadID of
        Some err \<Rightarrow> (Some (ErrFileStore err), d)
      | None \<Rightarrow>
          if \<not> list_ex (\<lambda>row. ul_id row = uploadID) (fr_uploads d) then (Some ErrFileNotFound, d)
          else (case fault UpdateFile (fo_id f) of
            Some err \<Rightarrow> (Some (ErrFileStore err), d)
          | None \<Rightarrow>
              if \<not> list_ex (\<lambda>row. fo_id row = fo_id f \<and> fo_deleted_at row = None) (fr_files d) then
                (Some ErrFileNotFound, d)
              else (case fault BeginOrCommit '''' of
                Some err \<Rightarrow> (Some (ErrFileStore err), d)
              | None \<Rightarrow>
                  (map_option ErrFileStore (fault WriteAnswer (fo_id f)),
                           d\<lparr>fr_uploads := update_where (\<lambda>row. ul_id row = uploadID)
                             (\<lambda>row. row\<lparr>ul_completed_at := Some (fo_updated_at f)\<rparr>) (fr_uploads d),
                           fr_files := update_where (\<lambda>row. fo_id row = fo_id f \<and> fo_deleted_at row = None)
                             (\<lambda>row. row\<lparr>fo_page := fo_page f, fo_checksum := fo_checksum f,
                                        fo_status := fo_status f, fo_updated_at := fo_updated_at f\<rparr>)
                             (fr_files d)\<rparr>))))"

definition pg_get_file :: "file_fault \<Rightarrow> string \<Rightarrow> file_db \<Rightarrow> file_error + file_object" where
  "pg_get_file fault fileID d =
     (case fault SelectFile fileID of
        Some err \<Rightarrow> Inl (ErrFileStore err)
      | None \<Rightarrow> (case find (\<lambda>row. fo_id row = fileID \<and> fo_deleted_at row = None) (fr_files d) of
                   None \<Rightarrow> Inl ErrFileNotFound
                 | Some f \<Rightarrow> Inr f))"

definition pg_soft_delete :: "file_fault \<Rightarrow> string \<Rightarrow> gotime \<Rightarrow> file_db \<Rightarrow> file_error option \<times> file_db" where
  "pg_soft_delete fault fileID deletedAt d =
     (case fault DeleteFileRow fileID of
        Some err \<Rightarrow> (Some (ErrFileStore err), d)
      | None \<Rightarrow>
          if \<not> list_ex (\<lambda>row. fo_id row = fileID \<and> fo_deleted_at row = None) (fr_files d) then
            (Some ErrFileNotFound, d)
          else
            (map_option ErrFileStore (fault WriteAnswer fileID),
             d\<lparr>fr_files := update_where (\<lambda>row. fo_id row = fileID \<and> fo_deleted_at row = None)
               (\<lambda>row. row\<lparr>fo_status := FileDeleted, fo_deleted_at := Some deletedAt,
                          fo_updated_at := deletedAt\<rparr>) (fr_files d)\<rparr>))"

definition postgres_file_store :: "file_fault \<Rightarrow> file_db file_store" where
  "postgres_file_store fault =
     \<lparr>st_create = pg_create_upload fault, st_get_upload = pg_get_upload fault,
      st_complete = pg_complete_upload fault, st_get_file = pg_get_file fault,
      st_soft_delete = pg_soft_delete fault\<rparr>"

lemma postgres_file_store_simps [simp]:
  "st_create (postgres_file_store fault) = pg_create_upload fault"
  "st_get_upload (postgres_file_store fault) = pg_get_upload fault"
  "st_complete (postgres_file_store fault) = pg_complete_upload fault"
  "st_get_file (postgres_file_store fault) = pg_get_file fault"
  "st_soft_delete (postgres_file_store fault) = pg_soft_delete fault"
  by (simp_all add: postgres_file_store_def)

definition pg_visible :: "file_db \<Rightarrow> string \<Rightarrow> file_object option" where
  "pg_visible d i = find (\<lambda>row. fo_id row = i \<and> fo_deleted_at row = None) (fr_files d)"

definition pg_stored :: "file_db \<Rightarrow> string set" where
  "pg_stored d = fo_id ` set (fr_files d)"

lemma pg_visible_deleted:
  "find (\<lambda>row. fo_id row = k \<and> fo_deleted_at row = None)
     (update_where (\<lambda>row. fo_id row = i \<and> fo_deleted_at row = None)
        (\<lambda>row. row\<lparr>fo_status := FileDeleted, fo_deleted_at := Some t, fo_updated_at := t\<rparr>) rows)
   = (if k = i then None else find (\<lambda>row. fo_id row = k \<and> fo_deleted_at row = None) rows)"
  by (induction rows) (auto simp: update_where_def)

lemma fo_id_update_where:
  assumes "\<And>row. fo_id (g row) = fo_id row"
  shows "fo_id ` set (update_where P g rows) = fo_id ` set rows"
proof -
  have "map fo_id (update_where P g rows) = map fo_id rows" using assms by (simp add: update_where_def)
  then show ?thesis by (metis set_map)
qed

lemma pg_visible_member:
  "pg_visible d i = Some f \<Longrightarrow> f \<in> set (fr_files d) \<and> fo_id f = i \<and> fo_deleted_at f = None"
  by (auto simp: pg_visible_def find_Some_iff)

lemma pg_visible_stored: "pg_visible d i = Some f \<Longrightarrow> i \<in> pg_stored d"
  unfolding pg_stored_def using pg_visible_member by blast

lemma pg_completed:
  assumes "pg_complete_upload fault now uploadID f d = (err, d')" and "err = None \<or> d' \<noteq> d"
  shows "pg_visible d' = (\<lambda>k. map_option (\<lambda>row. if fo_id row = fo_id f
      then row\<lparr>fo_page := fo_page f, fo_checksum := fo_checksum f, fo_status := fo_status f, fo_updated_at := fo_updated_at f\<rparr>
      else row) (pg_visible d k))"
    and "pg_stored d' = pg_stored d"
proof -
  let ?P = "\<lambda>row. fo_id row = fo_id f \<and> fo_deleted_at row = None"
  let ?g = "\<lambda>row. row\<lparr>fo_page := fo_page f, fo_checksum := fo_checksum f, fo_status := fo_status f, fo_updated_at := fo_updated_at f\<rparr>"
  have d': "fr_files d' = update_where ?P ?g (fr_files d)"
    using assms by (auto simp: pg_complete_upload_def split: option.splits if_splits)
  show "pg_visible d' = (\<lambda>k. map_option (\<lambda>row. if fo_id row = fo_id f then ?g row else row) (pg_visible d k))"
  proof
    fix k
    have "pg_visible d' k = map_option (\<lambda>row. if ?P row then ?g row else row) (pg_visible d k)"
      unfolding pg_visible_def d' by (rule find_update_where) auto
    also have "\<dots> = map_option (\<lambda>row. if fo_id row = fo_id f then ?g row else row) (pg_visible d k)"
      by (cases "pg_visible d k") (auto dest: pg_visible_member)
    finally show "pg_visible d' k = map_option (\<lambda>row. if fo_id row = fo_id f then ?g row else row) (pg_visible d k)" .
  qed
  show "pg_stored d' = pg_stored d" unfolding pg_stored_def d' by (rule fo_id_update_where) simp
qed

lemma pg_created:
  assumes "pg_create_upload fault u f s = (err, s')" and "fo_deleted_at f = None"
  shows "err \<noteq> None \<and> s' = s \<or>
    pg_visible s' = (pg_visible s)(fo_id f := Some f) \<and> pg_stored s' = insert (fo_id f) (pg_stored s)"
proof -
  have "err \<noteq> None \<and> s' = s \<or> fo_id f \<notin> pg_stored s \<and> fr_files s' = fr_files s @ [f\<lparr>fo_deleted_at := None\<rparr>]"
    using assms(1) by (auto simp: pg_create_upload_def pg_stored_def list_ex_iff split: option.splits if_splits)
  then show ?thesis
  proof
    assume a: "fo_id f \<notin> pg_stored s \<and> fr_files s' = fr_files s @ [f\<lparr>fo_deleted_at := None\<rparr>]"
    then have "pg_visible s (fo_id f) = None" using pg_visible_stored by (metis not_Some_eq)
    moreover have "f\<lparr>fo_deleted_at := None\<rparr> = f" using assms(2) by simp
    ultimately show ?thesis
      using a by (auto simp: pg_visible_def find_append pg_stored_def assms(2) fun_eq_iff split: option.splits)
  qed blast
qed

lemma pg_deleted:
  assumes "pg_soft_delete fault i t s = (err, s')"
  shows "err \<noteq> None \<and> s' = s \<or>
    pg_visible s' = (pg_visible s)(i := None) \<and> pg_stored s' = pg_stored s \<and> i \<in> pg_stored s"
proof -
  have "err \<noteq> None \<and> s' = s \<or> i \<in> pg_stored s \<and>
    fr_files s' = update_where (\<lambda>row. fo_id row = i \<and> fo_deleted_at row = None)
      (\<lambda>row. row\<lparr>fo_status := FileDeleted, fo_deleted_at := Some t, fo_updated_at := t\<rparr>) (fr_files s)"
    using assms by (auto simp: pg_soft_delete_def list_ex_iff pg_stored_def split: option.splits if_splits)
  moreover have "pg_stored s' = pg_stored s"
    if "fr_files s' = update_where (\<lambda>row. fo_id row = i \<and> fo_deleted_at row = None)
      (\<lambda>row. row\<lparr>fo_status := FileDeleted, fo_deleted_at := Some t, fo_updated_at := t\<rparr>) (fr_files s)"
    unfolding pg_stored_def that by (rule fo_id_update_where) simp
  ultimately show ?thesis by (auto simp: pg_visible_def pg_visible_deleted fun_eq_iff)
qed

interpretation pg_files: final_file_storage "postgres_file_store fault" pg_visible pg_stored "\<lambda>_. True" for fault
proof (unfold_locales, goal_cases)
  case (1 s i f)
  then show ?case by (auto simp: pg_get_file_def pg_visible_def split: option.splits)
next
  case (2 s i)
  then show ?case by (auto simp: pg_get_file_def pg_visible_def split: option.splits)
next
  case (3 s i f)
  then show ?case by (auto dest: pg_visible_member)
next
  case (4 s i f)
  then show ?case by (rule pg_visible_stored)
next
  case (5 u f s s')
  from pg_created [OF 5(1) [unfolded postgres_file_store_simps] 5(3)] show ?case by auto
next
  case (6 u f s err s')
  from pg_created [OF 6(1) [unfolded postgres_file_store_simps] 6(3)] show ?case by auto
next
  case (7 i t s s')
  from pg_deleted [OF 7 [unfolded postgres_file_store_simps]] show ?case by auto
next
  case (8 i t s err s')
  from pg_deleted [OF 8 [unfolded postgres_file_store_simps]] show ?case by auto
next
  case (9 s f now uploadID t s')
  from pg_completed [OF 9(3) [unfolded postgres_file_store_simps]] 9(2) show ?case
    by (auto simp: fun_eq_iff map_option_case dest: pg_visible_member split: option.splits)
next
  case (10 s f now uploadID t err s')
  from pg_completed [OF 10(3) [unfolded postgres_file_store_simps]] 10(2) show ?case
    by (cases "s' = s") (auto simp: fun_eq_iff map_option_case dest: pg_visible_member split: option.splits)
next
  case (14 u f s err s')
  then show ?case by (auto simp: pg_create_upload_def pg_stored_def list_ex_iff split: option.splits if_splits)
next
  case (15 now uploadID f s err s')
  from pg_completed [OF 15 [unfolded postgres_file_store_simps]] show ?case by (cases "s' = s") auto
qed simp_all

end
