(* ===== verification/FileFacts.thy ===== *)
theory FileFacts
  imports FileStores
begin

text \<open>
  What the laws of the stores give the use cases: deleted files stay deleted, over sequences of whole
  requests for any store of the first contract, over any interleaving for one of the second; and what
  an upload leaves.
\<close>

section \<open>Deleted files\<close>

lemma start_upload_state:
  assumes "start_upload dp now a input (n, s) = (res, n', s')"
  obtains "n' = n" "s' = s" | "n' = n + 2" "s' = s"
    | u f err where "n' = n + 2" "st_create (fd_store dp) u f s = (err, s')" "fo_id f = fd_gen dp n"
        "fo_status f = FileUploading" "fo_deleted_at f = None"
proof -
  let ?key = "object_key (su_workspace input) (fd_gen dp n) (su_filename input)"
  have "(n' = n \<and> s' = s) \<or> (n' = n + 2 \<and> s' = s) \<or>
    (\<exists>err. n' = n + 2 \<and> st_create (fd_store dp) (new_upload input now (fd_gen dp n) (fd_gen dp (n + 1)) ?key)
       (new_file input a now (fd_gen dp n) ?key) s = (err, s'))"
    using assms by (auto simp: start_upload_def Let_def split: option.splits if_splits sum.splits prod.splits)
  then show thesis using that by (auto simp: new_file_def)
qed

lemma complete_read_file:
  assumes "complete_read dp now a input s = Inr f"
  obtains f0 where "st_get_file (fd_store dp) (fo_id f) s = Inr f0 \<or> (\<exists>i. st_get_file (fd_store dp) i s = Inr f0)"
    "f = f0\<lparr>fo_status := FileReady, fo_updated_at := now\<rparr>"
  using assms by (auto simp: complete_read_def split: sum.splits option.splits if_splits)

lemma complete_write_state:
  "snd (complete_write dp now input f s) = snd (st_complete (fd_store dp) now (co_upload input) f s)"
  by (auto simp: complete_write_def split: prod.splits option.splits sum.splits)

lemma delete_file_state:
  assumes "delete_file dp now a i s = (res, s')"
  obtains "s' = s" | j err where "st_soft_delete (fd_store dp) j now s = (err, s')"
  using assms by (auto simp: delete_file_def split: sum.splits option.splits prod.splits)

text \<open>Whole requests, one after the other.\<close>

inductive file_run :: "'s file_deps \<Rightarrow> nat \<times> 's \<Rightarrow> nat \<times> 's \<Rightarrow> bool" for dp where
  idle: "file_run dp ns ns"
| started: "file_run dp ns ns' \<Longrightarrow> file_run dp ns (snd (start_upload dp now a input ns'))"
| completed: "file_run dp ns (n', s') \<Longrightarrow> file_run dp ns (n', snd (complete_upload dp now a cinput s'))"
| deleted: "file_run dp ns (n', s') \<Longrightarrow> file_run dp ns (n', snd (delete_file dp now a i s'))"

text \<open>Also what a completion writes that read its file at any time, or what was never read.\<close>

inductive file_race :: "'s file_deps \<Rightarrow> nat \<times> 's \<Rightarrow> nat \<times> 's \<Rightarrow> bool" for dp where
  race_idle: "file_race dp ns ns"
| race_started: "file_race dp ns ns' \<Longrightarrow> file_race dp ns (snd (start_upload dp now a input ns'))"
| race_written: "file_race dp ns (n', s') \<Longrightarrow> file_race dp ns (n', snd (complete_write dp now cinput f s'))"
| race_deleted: "file_race dp ns (n', s') \<Longrightarrow> file_race dp ns (n', snd (delete_file dp now a i s'))"

definition ids_drawn :: "id_gen \<Rightarrow> nat \<Rightarrow> string set \<Rightarrow> bool" where
  "ids_drawn gen n ids \<longleftrightarrow> inj gen \<and> ids \<subseteq> gen ` {..<n}"

lemma ids_drawn_fresh: "ids_drawn gen n ids \<Longrightarrow> gen n \<notin> ids"
  by (auto simp: ids_drawn_def dest: injD)

lemma ids_drawn_insert: "ids_drawn gen n ids \<Longrightarrow> ids_drawn gen (Suc (Suc n)) (insert (gen n) ids)"
  by (fastforce simp: ids_drawn_def)

lemma ids_drawn_later: "ids_drawn gen n ids \<Longrightarrow> ids_drawn gen (Suc (Suc n)) ids"
  by (fastforce simp: ids_drawn_def)

context file_storage
begin

definition gone :: "string \<Rightarrow> 's \<Rightarrow> bool" where
  "gone i s \<longleftrightarrow> i \<in> known s \<and> visible s i = None"

lemma gone_unread: "gone i s \<Longrightarrow> \<exists>err. st_get_file ops i s = Inl err"
  using get_gone by (auto simp: gone_def)

lemma gone_create:
  assumes "st_create ops u f s = (err, s')" "fo_status f = FileUploading" "fo_deleted_at f = None" "fo_id f \<notin> known s"
    and "gone i s"
  shows "gone i s'"
  using assms created [of u f s s'] not_created [of u f s _ s'] by (cases err) (auto simp: gone_def split: if_splits)

lemma gone_delete: "st_soft_delete ops j t s = (err, s') \<Longrightarrow> gone i s \<Longrightarrow> gone i s'"
  using deleted [of j t s s'] not_deleted [of j t s _ s'] by (cases err) (auto simp: gone_def)

lemma delete_gone: "fd_store dp = ops \<Longrightarrow> invar s \<Longrightarrow> delete_file dp now a i s = (Inr p, s') \<Longrightarrow> gone i s'"
  using get_visible visible_id deleted
  by (fastforce simp: delete_file_def gone_def split: sum.splits option.splits prod.splits)

definition run_ok :: "'s file_deps \<Rightarrow> nat \<times> 's \<Rightarrow> bool" where
  "run_ok dp ns \<longleftrightarrow> fd_store dp = ops \<and> invar (snd ns) \<and> ids_drawn (fd_gen dp) (fst ns) (known (snd ns))"

lemma start_step:
  assumes "run_ok dp (n, s)" and "start_upload dp now a input (n, s) = (res, n', s')"
  shows "run_ok dp (n', s')" and "gone i s \<Longrightarrow> gone i s'"
proof -
  have "run_ok dp (n', s') \<and> (gone i s \<longrightarrow> gone i s')"
    using assms(2)
  proof (cases rule: start_upload_state)
    case 1
    then show ?thesis using assms(1) by simp
  next
    case 2
    then show ?thesis using assms(1) by (auto simp: run_ok_def intro: ids_drawn_later)
  next
    case (3 u f err)
    have f: "fo_id f \<notin> known s" using assms(1) 3(3) ids_drawn_fresh by (auto simp: run_ok_def)
    have c: "st_create ops u f s = (err, s')" using 3(2) assms(1) by (simp add: run_ok_def)
    have "invar s'" using invar_created [of s u f] c assms(1) by (simp add: run_ok_def)
    moreover have "ids_drawn (fd_gen dp) n' (known s')"
      using created [of u f s s'] not_created [of u f s _ s'] c 3 assms(1)
      by (cases err) (auto simp: run_ok_def intro: ids_drawn_insert ids_drawn_later)
    ultimately show ?thesis using gone_create [OF c 3(4,5) f] assms(1) by (auto simp: run_ok_def)
  qed
  then show "run_ok dp (n', s')" and "gone i s \<Longrightarrow> gone i s'" by blast+
qed

lemma complete_step:
  assumes "run_ok dp (n, s)" and "complete_upload dp now a input s = (res, s')"
  shows "run_ok dp (n, s')" and "gone i s \<Longrightarrow> gone i s'"
proof -
  have "run_ok dp (n, s') \<and> (gone i s \<longrightarrow> gone i s')"
  proof (cases "complete_read dp now a input s")
    case (Inl err)
    then show ?thesis using assms by (simp add: complete_upload_def)
  next
    case (Inr f)
    from complete_read_file [OF this] obtain f0 k where g: "st_get_file ops k s = Inr f0"
      and f: "f = f0\<lparr>fo_status := FileReady, fo_updated_at := now\<rparr>"
      using assms(1) unfolding run_ok_def by metis
    have inv: "invar s" using assms(1) by (simp add: run_ok_def)
    have v: "visible s (fo_id f0) = Some f0" using get_visible [OF inv g] visible_id [OF inv] by simp
    obtain err where c: "st_complete ops now (co_upload input) f s = (err, s')"
      using assms complete_write_state [of dp now input f s] Inr
      by (metis complete_upload_def run_ok_def prod.collapse snd_conv sum.case(2))
    have "invar s'" using invar_completed [OF inv, of now "co_upload input" f] c by simp
    then show ?thesis
      using completed [OF inv v, of now "co_upload input" now s'] c f assms(1) v
        not_completed [OF inv v, of now "co_upload input" now _ s']
      by (cases err) (auto simp: run_ok_def gone_def)
  qed
  then show "run_ok dp (n, s')" and "gone i s \<Longrightarrow> gone i s'" by blast+
qed

lemma delete_step:
  assumes "run_ok dp (n, s)" and "delete_file dp now a j s = (res, s')"
  shows "run_ok dp (n, s')" and "gone i s \<Longrightarrow> gone i s'"
proof -
  have "run_ok dp (n, s') \<and> (gone i s \<longrightarrow> gone i s')"
    using assms(2)
  proof (cases rule: delete_file_state)
    case 1
    then show ?thesis using assms(1) by simp
  next
    case (2 k err)
    then have d: "st_soft_delete ops k now s = (err, s')" using assms(1) by (simp add: run_ok_def)
    have "invar s'" using invar_deleted [of s k now] d assms(1) by (simp add: run_ok_def)
    moreover have "known s' = known s"
      using deleted [of k now s s'] not_deleted [of k now s _ s'] d by (cases err) auto
    ultimately show ?thesis using gone_delete [OF d] assms(1) by (auto simp: run_ok_def)
  qed
  then show "run_ok dp (n, s')" and "gone i s \<Longrightarrow> gone i s'" by blast+
qed

lemma run_gone:
  assumes "file_run dp ns ns'" and "run_ok dp ns"
  shows "run_ok dp ns' \<and> (gone i (snd ns) \<longrightarrow> gone i (snd ns'))"
  using assms
proof induction
  case (started ns ns' now a input)
  obtain n s res n' s' where p: "ns' = (n, s)" "start_upload dp now a input (n, s) = (res, n', s')"
    by (metis surj_pair)
  then have "run_ok dp (n, s)" using started by simp
  from start_step [OF this p(2)] show ?case using started p by auto
next
  case (completed ns n' s' now a cinput)
  obtain res s'' where c: "complete_upload dp now a cinput s' = (res, s'')" by (metis surj_pair)
  have "run_ok dp (n', s')" using completed by simp
  from complete_step [OF this c] show ?case using completed c by auto
next
  case (deleted ns n' s' now a j)
  obtain res s'' where c: "delete_file dp now a j s' = (res, s'')" by (metis surj_pair)
  have "run_ok dp (n', s')" using deleted by simp
  from delete_step [OF this c] show ?case using deleted c by auto
qed simp

end

context final_file_storage
begin

lemma gone_written:
  assumes "st_complete ops now uploadID f s = (err, s')" and "gone i s"
  shows "gone i s'"
  using assms complete_visible [OF assms(1)] by (auto simp: gone_def)

lemma race_gone:
  assumes "file_race dp ns ns'" and "fd_store dp = ops" and "gone i (snd ns)"
  shows "gone i (snd ns')"
  using assms
proof induction
  case (race_started ns ns' now a input)
  obtain n s res n' s' where p: "ns' = (n, s)" "start_upload dp now a input (n, s) = (res, n', s')"
    by (metis surj_pair)
  have g: "gone i s" using race_started p by simp
  from p(2) have "gone i s'"
  proof (cases rule: start_upload_state)
    case (3 u f err)
    then have c: "st_create ops u f s = (err, s')" using race_started.prems by simp
    show ?thesis using gone_create [OF c 3(4,5) _ g] create_fresh [OF c] g by auto
  qed (use g in auto)
  then show ?case using p by simp
next
  case (race_written ns n' s' now cinput f)
  then show ?case
    using gone_written [of now "co_upload cinput" f s' _ _ i]
    by (cases "st_complete ops now (co_upload cinput) f s'") (auto simp: complete_write_state)
next
  case (race_deleted ns n' s' now a j)
  obtain res s'' where d: "delete_file dp now a j s' = (res, s'')" by (metis surj_pair)
  then show ?case
  proof (cases rule: delete_file_state)
    case (2 k err)
    then show ?thesis using gone_delete race_deleted d by auto
  qed (use race_deleted d in auto)
qed simp

end

end
