(* ===== verification/FileApi.thy ===== *)
theory FileApi
  imports FileFacts Http PageService
begin

text \<open>
  The interfaces of the file service: its REST handlers (\<^verbatim>\<open>services/file-service/api/rest/file_handler.go\<close>),
  its gRPC server (\<^verbatim>\<open>api/grpc/server.go\<close>) and the page service's client of it
  (\<^verbatim>\<open>services/page-service/internal/adapters/file\<close>); and the in-memory object store.
\<close>

section \<open>REST\<close>

record complete_body =
  cb_page_id :: string
  cb_checksum :: string

definition request_actor :: "'b http_request \<Rightarrow> file_actor" where
  "request_actor r =
     \<lparr>fa_user = header_actor (hr_headers r), fa_roles = header_roles (hr_headers r),
      fa_authenticated = is_authenticated (hr_headers r)\<rparr>"

text \<open>Starting and completing an upload answer every other error as a bad request.\<close>

definition upload_error_answer :: "bool \<Rightarrow> 'b http_request \<Rightarrow> file_error \<Rightarrow> 'a http_response" where
  "upload_error_answer tellMissing r err =
     (if err = ErrFileForbidden then write_error r 403 ''forbidden'' (file_error_text err)
      else if tellMissing \<and> err = ErrFileNotFound then write_error r 404 ''not_found'' (file_error_text err)
      else write_error r 400 ''validation_error'' (file_error_text err))"

definition file_error_answer :: "'b http_request \<Rightarrow> file_error \<Rightarrow> 'a http_response" where
  "file_error_answer r err =
     (if err = ErrFileForbidden then write_error r 403 ''forbidden'' (file_error_text err)
      else if err = ErrFileNotFound then write_error r 404 ''not_found'' (file_error_text err)
      else write_error r 500 ''internal_error'' (file_error_text err))"

definition handle_start_upload ::
  "'s file_deps \<Rightarrow> gotime \<Rightarrow> start_input http_request \<Rightarrow> nat \<times> 's \<Rightarrow> upload_payload http_response \<times> nat \<times> 's" where
  "handle_start_upload dp now r ns =
     (case hr_body r of
        Inl err \<Rightarrow> (write_error r 400 ''invalid_payload'' err, ns)
      | Inr input \<Rightarrow>
          (case start_upload dp now (request_actor r) input ns of
             (Inl err, ns) \<Rightarrow> (upload_error_answer False r err, ns)
           | (Inr p, ns) \<Rightarrow> (write_json r 201 p, ns)))"

definition handle_complete_upload ::
  "'s file_deps \<Rightarrow> gotime \<Rightarrow> complete_body http_request \<Rightarrow> 's \<Rightarrow> file_payload http_response \<times> 's" where
  "handle_complete_upload dp now r s =
     (case hr_body r of
        Inl err \<Rightarrow> (write_error r 400 ''invalid_payload'' err, s)
      | Inr body \<Rightarrow>
          (case complete_upload dp now (request_actor r)
                  \<lparr>co_upload = hr_param r ''uploadID'', co_page = cb_page_id body, co_checksum = cb_checksum body\<rparr> s of
             (Inl err, s) \<Rightarrow> (upload_error_answer True r err, s)
           | (Inr p, s) \<Rightarrow> (write_json r 200 p, s)))"

definition handle_get_file :: "'s file_deps \<Rightarrow> 'b http_request \<Rightarrow> 's \<Rightarrow> file_payload http_response" where
  "handle_get_file dp r s =
     (case get_file dp (request_actor r) (hr_param r ''fileID'') s of
        Inl err \<Rightarrow> file_error_answer r err
      | Inr p \<Rightarrow> write_json r 200 p)"

definition handle_delete_file ::
  "'s file_deps \<Rightarrow> gotime \<Rightarrow> 'b http_request \<Rightarrow> 's \<Rightarrow> file_payload http_response \<times> 's" where
  "handle_delete_file dp now r s =
     (case delete_file dp now (request_actor r) (hr_param r ''fileID'') s of
        (Inl err, s) \<Rightarrow> (file_error_answer r err, s)
      | (Inr p, s) \<Rightarrow> (write_json r 200 p, s))"

section \<open>gRPC\<close>

text \<open>The request carries an identity and a page, of which the server reads nothing.\<close>

record metadata_message =
  me_actor :: string
  me_workspace :: string
  me_file :: string
  me_page :: string

definition no_actor :: file_actor where
  "no_actor = \<lparr>fa_user = '''', fa_roles = [], fa_authenticated = False\<rparr>"

definition metadata_of :: "file_object \<Rightarrow> file_metadata" where
  "metadata_of f =
     \<lparr>fm_exists = True, fm_status = file_status_string (fo_status f), fm_filename = fo_filename f,
      fm_content_type = fo_content_type f, fm_size = fo_size f, fm_object_key = fo_key f\<rparr>"

definition no_metadata :: file_metadata where
  "no_metadata =
     \<lparr>fm_exists = False, fm_status = '''', fm_filename = '''', fm_content_type = '''', fm_size = 0,
      fm_object_key = ''''\<rparr>"

text \<open>A status error as its text.\<close>

definition metadata_error :: "file_error \<Rightarrow> string" where
  "metadata_error err =
     ''rpc error: code = '' @ (if err = ErrFileForbidden then ''PermissionDenied'' else ''Internal'') @
     '' desc = '' @ file_error_text err"

definition metadata_server :: "'s file_deps \<Rightarrow> 's \<Rightarrow> metadata_message \<Rightarrow> string + file_metadata" where
  "metadata_server dp s m =
     (case get_file_metadata dp no_actor (me_file m) s of
        Inl err \<Rightarrow> Inl (metadata_error err)
      | Inr None \<Rightarrow> Inr no_metadata
      | Inr (Some f) \<Rightarrow> Inr (metadata_of f))"

text \<open>The page service's client: what its attachments are resolved with.\<close>

definition metadata_client :: "(metadata_message \<Rightarrow> string + file_metadata) \<Rightarrow> file_resolver" where
  "metadata_client call input =
     (case call \<lparr>me_actor = fi_actor input, me_workspace = fi_workspace input, me_file = fi_file input,
                 me_page = fi_page input\<rparr> of
        Inl err \<Rightarrow> Inl err
      | Inr response \<Rightarrow>
          Inr \<lparr>fm_exists = fm_exists response, fm_status = fm_status response, fm_filename = fm_filename response,
               fm_content_type = fm_content_type response, fm_size = fm_size response,
               fm_object_key = fm_object_key response\<rparr>)"

section \<open>The object store in memory\<close>

definition memory_object_store :: object_store where
  "memory_object_store =
     \<lparr>ob_presign_upload = (\<lambda>key expiresIn.
        Inr (''https://files.example.test/upload/'' @ key @ ''?expires_in='' @ decimal (expiresIn div second),
             [(''x-upload-token'', ''memory'')])),
      ob_presign_download = (\<lambda>key expiresIn.
        Inr (''https://files.example.test/download/'' @ key @ ''?expires_in='' @ decimal (expiresIn div second)))\<rparr>"

lemma metadata_file: "metadata_client (metadata_server dp s) input =
   (case get_file_metadata dp no_actor (fi_file input) s of
      Inl err \<Rightarrow> Inl (metadata_error err)
    | Inr None \<Rightarrow> Inr no_metadata
    | Inr (Some f) \<Rightarrow> Inr (metadata_of f))"
  by (simp add: metadata_client_def metadata_server_def split: sum.splits option.splits)

end
