(* ===== verification/FileProperties.thy ===== *)
theory FileProperties
  imports FileApi
begin

text \<open>
  What the file service promises: files are well-formed in every state, an uploaded file can be attached
  to a page, a deleted file stays deleted on PostgreSQL whatever races, and does not in memory; and
  which objects uploads go to.
\<close>

section \<open>Well-formed files\<close>

definition file_typed :: "file_object \<Rightarrow> bool" where
  "file_typed f \<longleftrightarrow>
     0 < fo_size f \<and> fo_size f \<le> max_file_size \<and> trim_space (fo_workspace f) \<noteq> '''' \<and>
     (fo_status f = FileDeleted \<longleftrightarrow> fo_deleted_at f \<noteq> None)"

definition files_typed :: "mem_files \<Rightarrow> bool" where
  "files_typed s \<longleftrightarrow>
     (\<forall>i f. mf_files s i = Some f \<longrightarrow> fo_id f = i \<and> file_typed f) \<and>
     (\<forall>i u. mf_uploads s i = Some u \<longrightarrow> ul_id u = i \<and>
        (\<exists>f. mf_files s (ul_file u) = Some f \<and> fo_workspace f = ul_workspace u \<and> fo_page f = ul_page u \<and>
             fo_key f = ul_key u \<and> fo_size f = ul_size u))"

lemma files_typedD:
  "files_typed s \<Longrightarrow> mf_files s i = Some f \<Longrightarrow> fo_id f = i \<and> file_typed f"
  "files_typed s \<Longrightarrow> mf_uploads s k = Some u \<Longrightarrow> ul_id u = k \<and>
     (\<exists>f. mf_files s (ul_file u) = Some f \<and> fo_workspace f = ul_workspace u \<and> fo_page f = ul_page u \<and>
          fo_key f = ul_key u \<and> fo_size f = ul_size u)"
  by (simp_all add: files_typed_def)

lemma typed_create:
  assumes "files_typed s" and "mf_files s (fo_id f) = None" and "file_typed f" and "ul_file u = fo_id f"
    "fo_workspace f = ul_workspace u" "fo_page f = ul_page u" "fo_key f = ul_key u" "fo_size f = ul_size u"
  shows "files_typed (snd (mem_create_upload u f s))"
proof -
  have "ul_file v \<noteq> fo_id f" if "mf_uploads s k = Some v" for k v
    using files_typedD(2) [OF assms(1) that] assms(2) by auto
  then show ?thesis
    using assms(3-) files_typedD [OF assms(1)] by (auto simp: mem_create_upload_def files_typed_def)
qed

lemma typed_start:
  assumes "files_typed s" and "fd_store dp = memory_file_store" and "fd_gen dp n \<notin> dom (mf_files s)"
  shows "files_typed (snd (snd (start_upload dp now a input (n, s))))"
proof (cases "start_invalid input")
  case False
  let ?key = "object_key (su_workspace input) (fd_gen dp n) (su_filename input)"
  have "files_typed (snd (mem_create_upload (new_upload input now (fd_gen dp n) (fd_gen dp (n + 1)) ?key)
      (new_file input a now (fd_gen dp n) ?key) s))"
    by (rule typed_create [OF assms(1)])
      (use assms(3) False in \<open>auto simp: new_file_def new_upload_def file_typed_def start_invalid_def\<close>)
  then show ?thesis
    using assms(1,2) by (auto simp: start_upload_def Let_def mem_create_upload_def split: option.splits sum.splits)
qed (use assms(1) in \<open>auto simp: start_upload_def split: option.splits\<close>)

text \<open>Replacing a file by one with the same identifier, place and size keeps everything.\<close>

lemma typed_replace:
  assumes "files_typed s" and "mf_files s i = Some f" and "fo_id g = fo_id f" "fo_workspace g = fo_workspace f"
    "fo_page g = fo_page f" "fo_key g = fo_key f" "fo_size g = fo_size f"
    and "fo_status g = FileDeleted \<longleftrightarrow> fo_deleted_at g \<noteq> None"
  shows "files_typed (s\<lparr>mf_files := (mf_files s)(i \<mapsto> g)\<rparr>)"
proof -
  have "fo_id g = i \<and> file_typed g" using files_typedD(1) [OF assms(1,2)] assms(3-8) by (simp add: file_typed_def)
  moreover have "\<exists>h. ((mf_files s)(i \<mapsto> g)) (ul_file u) = Some h \<and> fo_workspace h = ul_workspace u \<and>
      fo_page h = ul_page u \<and> fo_key h = ul_key u \<and> fo_size h = ul_size u"
    if "mf_uploads s k = Some u" for k u
    using files_typedD(2) [OF assms(1) that] assms(2,4-7) by auto
  ultimately show ?thesis using files_typedD [OF assms(1)] by (auto simp: files_typed_def)
qed

lemma typed_uploads:
  assumes "files_typed s" and "mf_uploads s k = Some u"
  shows "files_typed (s\<lparr>mf_uploads := (mf_uploads s)(k \<mapsto> u\<lparr>ul_completed_at := t\<rparr>)\<rparr>)"
  using assms by (auto simp: files_typed_def)

lemma typed_complete:
  assumes "files_typed s" and "fd_store dp = memory_file_store"
  shows "files_typed (snd (complete_upload dp now a input s))"
proof (cases "complete_read dp now a input s")
  case (Inr f)
  then obtain f0 k where g: "mem_get_file k s = Inr f0" and f: "f = f0\<lparr>fo_status := FileReady, fo_updated_at := now\<rparr>"
    using assms(2) by (auto elim!: complete_read_file)
  then have k: "mf_files s k = Some f0" "fo_deleted_at f0 = None" "fo_id f0 = k"
    using files_typedD(1) [OF assms(1)] by (auto simp: mem_get_file_def split: option.splits if_splits)
  have "files_typed (snd (mem_complete_upload now (co_upload input) f s))"
  proof (cases "mf_uploads s (co_upload input)")
    case (Some u)
    let ?s = "s\<lparr>mf_uploads := (mf_uploads s)(co_upload input \<mapsto> u\<lparr>ul_completed_at := Some now\<rparr>)\<rparr>"
    have "files_typed (?s\<lparr>mf_files := (mf_files ?s)(k \<mapsto> f)\<rparr>)"
      by (rule typed_replace [OF typed_uploads [OF assms(1) Some]]) (use k f in auto)
    then show ?thesis using Some k f by (simp add: mem_complete_upload_def)
  qed (simp add: mem_complete_upload_def assms(1))
  then show ?thesis using Inr assms(2) by (simp add: complete_upload_def complete_write_state)
qed (simp add: complete_upload_def assms(1))

lemma typed_delete:
  assumes "files_typed s" and "fd_store dp = memory_file_store"
  shows "files_typed (snd (delete_file dp now a i s))"
proof -
  obtain res s' where d: "delete_file dp now a i s = (res, s')" by (metis surj_pair)
  then have "files_typed s'"
  proof (cases rule: delete_file_state)
    case (2 j err)
    then have "mem_soft_delete j now s = (err, s')" using assms(2) by simp
    then show ?thesis
      using assms(1) typed_replace [OF assms(1), of j]
      by (auto simp: mem_soft_delete_def split: option.splits)
  qed (use assms(1) in simp)
  then show ?thesis using d by simp
qed

text \<open>
  C39: In every state that whole requests can reach from an empty in-memory store, each file is stored under
  its own identifier, belongs to a workspace, has a size within the limit and is marked deleted exactly when
  it has a time of deletion; and each upload names a stored file with its workspace, page, object key and
  size.
\<close>

theorem reachable_files_typed:
  assumes "file_run dp (0, new_mem_files) (n, s)" and "fd_store dp = memory_file_store" and "inj (fd_gen dp)"
  shows "files_typed s"
proof -
  have ok: "memory_files.run_ok dp (0, new_mem_files)"
    using assms(2,3) by (simp add: memory_files.run_ok_def new_mem_files_def mem_files_ok_def ids_drawn_def)
  have "files_typed (snd ns')" if "file_run dp (0, new_mem_files) ns'" for ns'
    using that
  proof (induction "(0 :: nat, new_mem_files)" ns')
    case idle
    then show ?case by (simp add: files_typed_def new_mem_files_def)
  next
    case (started ns' now a input)
    obtain n s where ns': "ns' = (n, s)" by (cases ns')
    then have "fd_gen dp n \<notin> dom (mf_files s)"
      using memory_files.run_gone [OF started(1) ok] by (auto simp: memory_files.run_ok_def dest!: ids_drawn_fresh)
    then show ?case using typed_start started(2) assms(2) ns' by auto
  qed (use typed_complete typed_delete assms(2) in auto)
  then show ?thesis using assms(1) by fastforce
qed

definition sample_files :: "mem_files file_deps" where
  "sample_files =
     \<lparr>fd_store = memory_file_store, fd_objects = memory_object_store, fd_checker = None,
      fd_gen = (\<lambda>n. replicate (Suc n) (CHR ''x''))\<rparr>"

definition sample_upload :: start_input where
  "sample_upload =
     \<lparr>su_workspace = ''w'', su_page = '''', su_filename = ''a/b.txt'', su_content_type = ''text/plain'',
      su_size = 12, su_checksum = ''''\<rparr>"

definition sample_complete :: complete_input where
  "sample_complete = \<lparr>co_upload = ''xx'', co_page = '''', co_checksum = ''''\<rparr>"

definition started_files :: mem_files where
  "started_files = snd (snd (start_upload sample_files 5 no_actor sample_upload (0, new_mem_files)))"

lemma sample_files_simps [simp]:
  "fd_store sample_files = memory_file_store" "fd_checker sample_files = None" "inj (fd_gen sample_files)"
  by (simp_all add: sample_files_def inj_def)

lemma started_run: "file_run sample_files (0, new_mem_files) (2, started_files)"
proof -
  have "fst (snd (start_upload sample_files 5 no_actor sample_upload (0, new_mem_files))) = 2" by code_simp
  then have "snd (start_upload sample_files 5 no_actor sample_upload (0, new_mem_files)) = (2, started_files)"
    unfolding started_files_def by (metis prod.collapse)
  then show ?thesis using file_run.started [OF file_run.idle] by metis
qed

theorem reachable_files_typed_witness:
  "files_typed (snd (delete_file sample_files 7 no_actor ''x'' started_files))"
  by (rule reachable_files_typed [OF file_run.deleted [OF started_run]]) simp_all

section \<open>Attaching\<close>

text \<open>
  What an upload leaves in the tables for good: the name of its file, and the upload that belongs to it;
  and that the file is ready, unless it has been deleted.
\<close>

definition upload_named :: "string \<Rightarrow> string \<Rightarrow> string \<Rightarrow> file_db \<Rightarrow> bool" where
  "upload_named i k name d \<longleftrightarrow>
     i \<in> fo_id ` set (fr_files d) \<and> (\<forall>row \<in> set (fr_files d). fo_id row = i \<longrightarrow> fo_filename row = name) \<and>
     k \<in> ul_id ` set (fr_uploads d) \<and> (\<forall>u \<in> set (fr_uploads d). ul_id u = k \<longrightarrow> ul_file u = i)"

definition upload_ready :: "string \<Rightarrow> file_db \<Rightarrow> bool" where
  "upload_ready i d \<longleftrightarrow>
     (\<forall>row \<in> set (fr_files d). fo_id row = i \<and> fo_deleted_at row = None \<longrightarrow> fo_status row = FileReady)"

lemma created_upload_named:
  assumes "pg_create_upload fault u f d = (None, d')"
  shows "upload_named (fo_id f) (ul_id u) (fo_filename f) d' \<or> ul_file u \<noteq> fo_id f"
  using assms
  by (auto simp: pg_create_upload_def upload_named_def list_ex_iff split: option.splits if_splits)

lemma create_named:
  assumes "pg_create_upload fault u f d = (err, d')" and "upload_named i k name d"
  shows "upload_named i k name d'" and "upload_ready i d \<Longrightarrow> upload_ready i d'"
proof -
  from assms(2) obtain x v where x: "x \<in> set (fr_files d)" "fo_id x = i" and v: "v \<in> set (fr_uploads d)" "ul_id v = k"
    by (auto simp: upload_named_def)
  have "d' = d \<or> (\<forall>row \<in> set (fr_files d). fo_id row \<noteq> fo_id f) \<and> (\<forall>row \<in> set (fr_uploads d). ul_id row \<noteq> ul_id u) \<and>
      d' = d\<lparr>fr_files := fr_files d @ [f\<lparr>fo_deleted_at := None\<rparr>], fr_uploads := fr_uploads d @ [u\<lparr>ul_completed_at := None\<rparr>]\<rparr>"
    using assms(1) by (auto simp: pg_create_upload_def list_ex_iff split: option.splits if_splits)
  then have "d' = d \<or> fo_id f \<noteq> i \<and> ul_id u \<noteq> k \<and>
      d' = d\<lparr>fr_files := fr_files d @ [f\<lparr>fo_deleted_at := None\<rparr>], fr_uploads := fr_uploads d @ [u\<lparr>ul_completed_at := None\<rparr>]\<rparr>"
    using x v by blast
  then show "upload_named i k name d'" and "upload_ready i d \<Longrightarrow> upload_ready i d'"
    using assms(2) by (auto simp: upload_named_def upload_ready_def)
qed

text \<open>What the tables say of it is in the identifiers and names of the rows.\<close>

lemma named_columns:
  "upload_named i k name d \<longleftrightarrow>
     (\<exists>x \<in> set (map (\<lambda>row. (fo_id row, fo_filename row)) (fr_files d)). fst x = i) \<and>
     (\<forall>x \<in> set (map (\<lambda>row. (fo_id row, fo_filename row)) (fr_files d)). fst x = i \<longrightarrow> snd x = name) \<and>
     (\<exists>x \<in> set (map (\<lambda>u. (ul_id u, ul_file u)) (fr_uploads d)). fst x = k) \<and>
     (\<forall>x \<in> set (map (\<lambda>u. (ul_id u, ul_file u)) (fr_uploads d)). fst x = k \<longrightarrow> snd x = i)"
  by (auto simp: upload_named_def)

lemma complete_rows:
  assumes "pg_complete_upload fault now uploadID f d = (err, d')"
  shows "err \<noteq> None \<and> d' = d \<or>
    d' = d\<lparr>fr_uploads := update_where (\<lambda>row. ul_id row = uploadID)
             (\<lambda>row. row\<lparr>ul_completed_at := Some (fo_updated_at f)\<rparr>) (fr_uploads d),
           fr_files := update_where (\<lambda>row. fo_id row = fo_id f \<and> fo_deleted_at row = None)
             (\<lambda>row. row\<lparr>fo_page := fo_page f, fo_checksum := fo_checksum f,
                        fo_status := fo_status f, fo_updated_at := fo_updated_at f\<rparr>) (fr_files d)\<rparr>"
  using assms by (auto simp: pg_complete_upload_def split: option.splits if_splits)

lemma complete_named:
  assumes "pg_complete_upload fault now uploadID f d = (err, d')"
  shows "upload_named i k name d \<Longrightarrow> upload_named i k name d'"
    and "upload_ready i d \<Longrightarrow> fo_status f = FileReady \<Longrightarrow> upload_ready i d'"
    and "err = None \<Longrightarrow> fo_id f = i \<Longrightarrow> fo_status f = FileReady \<Longrightarrow> upload_ready i d'"
proof -
  have "map (\<lambda>row. (fo_id row, fo_filename row)) (fr_files d') = map (\<lambda>row. (fo_id row, fo_filename row)) (fr_files d)"
    "map (\<lambda>u. (ul_id u, ul_file u)) (fr_uploads d') = map (\<lambda>u. (ul_id u, ul_file u)) (fr_uploads d)"
    using complete_rows [OF assms] by (auto simp: update_where_def)
  then have "upload_named i k name d' = upload_named i k name d" by (simp only: named_columns)
  then show "upload_named i k name d \<Longrightarrow> upload_named i k name d'" by simp
  show "upload_ready i d \<Longrightarrow> fo_status f = FileReady \<Longrightarrow> upload_ready i d'"
    and "err = None \<Longrightarrow> fo_id f = i \<Longrightarrow> fo_status f = FileReady \<Longrightarrow> upload_ready i d'"
    using complete_rows [OF assms] by (auto simp: update_where_def upload_ready_def)
qed

lemma delete_named:
  assumes "pg_soft_delete fault j t d = (err, d')"
  shows "upload_named i k name d \<Longrightarrow> upload_named i k name d'" and "upload_ready i d \<Longrightarrow> upload_ready i d'"
proof -
  have d': "d' = d \<or> d' = d\<lparr>fr_files := update_where (\<lambda>row. fo_id row = j \<and> fo_deleted_at row = None)
      (\<lambda>row. row\<lparr>fo_status := FileDeleted, fo_deleted_at := Some t, fo_updated_at := t\<rparr>) (fr_files d)\<rparr>"
    using assms by (auto simp: pg_soft_delete_def split: option.splits if_splits)
  then have "map (\<lambda>row. (fo_id row, fo_filename row)) (fr_files d') = map (\<lambda>row. (fo_id row, fo_filename row)) (fr_files d)"
    "map (\<lambda>u. (ul_id u, ul_file u)) (fr_uploads d') = map (\<lambda>u. (ul_id u, ul_file u)) (fr_uploads d)"
    by (auto simp: update_where_def)
  then have "upload_named i k name d' = upload_named i k name d" by (simp only: named_columns)
  then show "upload_named i k name d \<Longrightarrow> upload_named i k name d'" by simp
  show "upload_ready i d \<Longrightarrow> upload_ready i d'" using d' by (auto simp: update_where_def upload_ready_def)
qed

lemma started_upload_named:
  assumes "fd_store dp = postgres_file_store fault" and "start_upload dp now a input (n, s) = (Inr p, n1, s1)"
  shows "upload_named (lp_file p) (lp_upload p) (path_base (su_filename input)) s1"
  using assms created_upload_named [of fault "new_upload input now (fd_gen dp n) (fd_gen dp (n + 1)) k"
      "new_file input a now (fd_gen dp n) k" s s1 for k]
  by (auto simp: start_upload_def Let_def new_file_def new_upload_def split: option.splits if_splits sum.splits prod.splits)

lemma start_named:
  assumes "fd_store dp = postgres_file_store fault" and "start_upload dp now a input (n, s) = (res, n', s')"
    and "upload_named i k name s"
  shows "upload_named i k name s'" and "upload_ready i s \<Longrightarrow> upload_ready i s'"
proof -
  have "upload_named i k name s' \<and> (upload_ready i s \<longrightarrow> upload_ready i s')"
    using assms(2)
  proof (cases rule: start_upload_state)
    case (3 u f err)
    then have "pg_create_upload fault u f s = (err, s')" using assms(1) by simp
    from create_named [OF this assms(3)] show ?thesis by blast
  qed (use assms(3) in auto)
  then show "upload_named i k name s'" and "upload_ready i s \<Longrightarrow> upload_ready i s'" by blast+
qed

lemma delete_file_named:
  assumes "fd_store dp = postgres_file_store fault" and "upload_named i k name s"
  shows "upload_named i k name (snd (delete_file dp now a j s))"
    and "upload_ready i s \<Longrightarrow> upload_ready i (snd (delete_file dp now a j s))"
proof -
  obtain res s' where d: "delete_file dp now a j s = (res, s')" by (metis surj_pair)
  then have "upload_named i k name s' \<and> (upload_ready i s \<longrightarrow> upload_ready i s')"
  proof (cases rule: delete_file_state)
    case (2 m err)
    then have "pg_soft_delete fault m now s = (err, s')" using assms(1) by simp
    from delete_named [OF this] show ?thesis using assms(2) by blast
  qed (use assms(2) in simp)
  then show "upload_named i k name (snd (delete_file dp now a j s))"
    and "upload_ready i s \<Longrightarrow> upload_ready i (snd (delete_file dp now a j s))" using d by simp_all
qed

lemma written_named:
  assumes "fd_store dp = postgres_file_store fault" and "upload_named i k name s"
  shows "upload_named i k name (snd (complete_write dp now cinput f s))"
    and "upload_ready i s \<Longrightarrow> fo_status f = FileReady \<Longrightarrow> upload_ready i (snd (complete_write dp now cinput f s))"
proof -
  obtain err s' where c: "pg_complete_upload fault now (co_upload cinput) f s = (err, s')" by (metis surj_pair)
  then have "snd (complete_write dp now cinput f s) = s'" using assms(1) by (simp add: complete_write_state)
  then show "upload_named i k name (snd (complete_write dp now cinput f s))"
    and "upload_ready i s \<Longrightarrow> fo_status f = FileReady \<Longrightarrow> upload_ready i (snd (complete_write dp now cinput f s))"
    using complete_named(1,2) [OF c] assms(2) by simp_all
qed

lemma race_named:
  assumes "file_race dp ns ns'" and "fd_store dp = postgres_file_store fault" and "upload_named i k name (snd ns)"
  shows "upload_named i k name (snd ns')"
  using assms
proof induction
  case (race_started ns ns' now a input)
  then show ?case using start_named(1) [OF race_started.prems(1)] by (metis prod.collapse)
qed (use written_named(1) delete_file_named(1) in auto)

lemma complete_upload_named:
  assumes "fd_store dp = postgres_file_store fault" and "upload_named i k name s"
  shows "upload_named i k name (snd (complete_upload dp now a cinput s))"
    and "upload_ready i s \<Longrightarrow> upload_ready i (snd (complete_upload dp now a cinput s))"
  using written_named [OF assms] assms(2)
  by (auto simp: complete_upload_def complete_read_def split: sum.splits option.splits if_splits)

lemma run_named:
  assumes "file_run dp ns ns'" and "fd_store dp = postgres_file_store fault"
    and "upload_named i k name (snd ns)" and "upload_ready i (snd ns)"
  shows "upload_named i k name (snd ns') \<and> upload_ready i (snd ns')"
  using assms
proof induction
  case (started ns ns' now a input)
  then show ?case using start_named [OF started.prems(1)] by (metis prod.collapse)
qed (use complete_upload_named delete_file_named in auto)

lemma completed_upload_ready:
  assumes "fd_store dp = postgres_file_store fault" and "upload_named i (co_upload cinput) name s"
    and "complete_upload dp now a cinput s = (Inr q, s')"
  shows "upload_ready i s'"
proof -
  obtain f where f: "complete_read dp now a cinput s = Inr f" and w: "complete_write dp now cinput f s = (Inr q, s')"
    using assms(3) by (auto simp: complete_upload_def split: sum.splits)
  have "fo_id f = i \<and> fo_status f = FileReady"
    using f assms(1,2)
    by (auto simp: complete_read_def pg_get_upload_def pg_get_file_def upload_named_def find_Some_iff
        split: sum.splits option.splits if_splits)
  moreover have "pg_complete_upload fault now (co_upload cinput) f s = (None, s')"
    using w assms(1) by (auto simp: complete_write_def split: prod.splits option.splits sum.splits)
  ultimately show ?thesis using complete_named(3) by blast
qed

text \<open>Each attachment of the block gets the name.\<close>

definition attached_as :: "string \<Rightarrow> document_block \<Rightarrow> document_block" where
  "attached_as name block =
     (case bk_attachment block of
        None \<Rightarrow> block
      | Some a \<Rightarrow> if at_file a = '''' then block else block\<lparr>bk_attachment := Some (a\<lparr>at_filename := name\<rparr>)\<rparr>)"

lemma hydrate_named:
  assumes "\<And>question. fi_file question = i \<Longrightarrow>
      \<exists>m. files question = Inr m \<and> fm_exists m \<and> fm_status m = ''ready'' \<and> fm_filename m = name"
    and "\<forall>block \<in> set blocks. \<forall>a. bk_attachment block = Some a \<longrightarrow> at_file a = '''' \<or> at_file a = i"
  shows "hydrate_attachments files pageID w actor blocks = (None, map (attached_as name) blocks)"
  using assms(2)
proof (induction blocks)
  case (Cons block blocks)
  then show ?case
    using assms(1) [of "\<lparr>fi_file = i, fi_page = pageID, fi_workspace = w, fi_actor = actor\<rparr>"]
    by (auto simp: attached_as_def split: option.splits)
qed simp

text \<open>
  C38: On PostgreSQL, a file that was uploaded can be attached to a page: after its upload was started and
  completed, with any requests and late halves of completions between the two and any whole requests
  after them, and as long as it can still be read, the page service accepts a document whose attachments
  are that file, with the name it was uploaded under, less its directories, in each of them.
\<close>

theorem uploaded_file_attachable:
  assumes "fd_store dp = postgres_file_store fault"
    and "start_upload dp now a input (n, s) = (Inr p, n1, s1)"
    and "file_race dp (n1, s1) (n2, s2)"
    and "complete_upload dp later b cinput s2 = (Inr q, s3)" and "co_upload cinput = lp_upload p"
    and "file_run dp (n2, s3) (n4, s4)" and "get_file dp c (lp_file p) s4 = Inr g"
    and "\<forall>block \<in> set (dc_blocks d). \<forall>x. bk_attachment block = Some x \<longrightarrow> at_file x = '''' \<or> at_file x = lp_file p"
  shows "fst (validate_and_hydrate (Some (metadata_client (metadata_server dp s4))) d pageID w actor) =
    Inr (d\<lparr>dc_blocks := map (attached_as (path_base (su_filename input))) (dc_blocks d)\<rparr>)"
proof -
  let ?name = "path_base (su_filename input)"
  have "upload_named (lp_file p) (lp_upload p) ?name s2"
    using race_named [OF assms(3,1)] started_upload_named [OF assms(1,2)] by simp
  then have "upload_named (lp_file p) (lp_upload p) ?name s3" and "upload_ready (lp_file p) s3"
    using complete_upload_named(1) [OF assms(1), of "lp_file p" "lp_upload p" ?name s2 later b cinput]
      completed_upload_ready [OF assms(1) _ assms(4)] assms(4,5) by simp_all
  then have ok: "upload_named (lp_file p) (lp_upload p) ?name s4" "upload_ready (lp_file p) s4"
    using run_named [OF assms(6,1)] by simp_all
  obtain f where f: "pg_get_file fault (lp_file p) s4 = Inr f"
    using assms(1,7) by (auto simp: get_file_def split: sum.splits)
  then have "fo_filename f = ?name" "fo_status f = FileReady"
    using ok by (auto simp: pg_get_file_def upload_named_def upload_ready_def find_Some_iff split: option.splits)
  then have "\<exists>m. metadata_client (metadata_server dp s4) question = Inr m \<and> fm_exists m \<and>
      fm_status m = ''ready'' \<and> fm_filename m = ?name" if "fi_file question = lp_file p" for question
    using f assms(1) that
    by (simp add: metadata_file get_file_metadata_def file_authorize_def service_authorize_def file_subject_def
        no_actor_def metadata_of_def)
  from hydrate_named [OF this assms(8)] show ?thesis by (simp add: validate_and_hydrate_def)
qed

definition sample_pg_files :: "file_db file_deps" where
  "sample_pg_files =
     \<lparr>fd_store = postgres_file_store (\<lambda>_ _. None), fd_objects = memory_object_store, fd_checker = None,
      fd_gen = (\<lambda>n. replicate (Suc n) (CHR ''x''))\<rparr>"

definition sample_attaching :: document where
  "sample_attaching =
     sample_document\<lparr>dc_blocks := [sample_block\<lparr>bk_attachment := Some \<lparr>at_file = ''x'', at_block = ''b1'', at_filename = ''?''\<rparr>\<rparr>]\<rparr>"

theorem uploaded_file_attachable_witness:
  "let s1 = snd (snd (start_upload sample_pg_files 5 no_actor sample_upload (0, \<lparr>fr_files = [], fr_uploads = []\<rparr>)));
       s2 = snd (snd (start_upload sample_pg_files 6 no_actor sample_upload (2, s1)));
       s3 = snd (complete_upload sample_pg_files 7 no_actor sample_complete s2);
       s4 = snd (delete_file sample_pg_files 8 no_actor ''xxx'' s3)
   in fst (validate_and_hydrate (Some (metadata_client (metadata_server sample_pg_files s4))) sample_attaching
        ''p'' ''w'' ''u'') =
      Inr (sample_attaching\<lparr>dc_blocks := [sample_block\<lparr>bk_attachment :=
        Some \<lparr>at_file = ''x'', at_block = ''b1'', at_filename = ''b.txt''\<rparr>\<rparr>]\<rparr>)"
proof -
  define s0 where "s0 = \<lparr>fr_files = [], fr_uploads = []\<rparr>"
  define s1 where "s1 = snd (snd (start_upload sample_pg_files 5 no_actor sample_upload (0, s0)))"
  define s2 where "s2 = snd (snd (start_upload sample_pg_files 6 no_actor sample_upload (2, s1)))"
  define s3 where "s3 = snd (complete_upload sample_pg_files 7 no_actor sample_complete s2)"
  define s4 where "s4 = snd (delete_file sample_pg_files 8 no_actor ''xxx'' s3)"
  note defs = s4_def s3_def s2_def s1_def s0_def
  have "(case start_upload sample_pg_files 5 no_actor sample_upload (0, s0) of (res, n, _) \<Rightarrow> n = 2 \<and>
      (case res of Inl _ \<Rightarrow> False | Inr p \<Rightarrow> lp_file p = ''x'' \<and> lp_upload p = ''xx''))"
    unfolding defs by code_simp
  then obtain p where p: "start_upload sample_pg_files 5 no_actor sample_upload (0, s0) = (Inr p, 2, s1)"
    "lp_file p = ''x''" "lp_upload p = ''xx''"
    unfolding s1_def by (auto split: prod.splits sum.splits)
  have "(case start_upload sample_pg_files 6 no_actor sample_upload (2, s1) of (_, n, _) \<Rightarrow> n = 4)"
    unfolding defs by code_simp
  then have "snd (start_upload sample_pg_files 6 no_actor sample_upload (2, s1)) = (4, s2)"
    unfolding s2_def by (auto split: prod.splits)
  then have race: "file_race sample_pg_files (2, s1) (4, s2)" using race_started [OF race_idle] by metis
  have "(case fst (complete_upload sample_pg_files 7 no_actor sample_complete s2) of Inl _ \<Rightarrow> False | Inr _ \<Rightarrow> True)"
    unfolding defs by code_simp
  then obtain q where q: "complete_upload sample_pg_files 7 no_actor sample_complete s2 = (Inr q, s3)"
    unfolding s3_def by (auto split: sum.splits) (metis prod.collapse)
  have run: "file_run sample_pg_files (4, s3) (4, s4)"
    unfolding s4_def by (rule file_run.deleted [OF file_run.idle])
  have "(case get_file sample_pg_files no_actor ''x'' s4 of Inl _ \<Rightarrow> False | Inr _ \<Rightarrow> True)"
    unfolding defs by code_simp
  then obtain g where g: "get_file sample_pg_files no_actor ''x'' s4 = Inr g" by (auto split: sum.splits)
  have b: "path_base (su_filename sample_upload) = ''b.txt''" by code_simp
  have "fst (validate_and_hydrate (Some (metadata_client (metadata_server sample_pg_files s4))) sample_attaching
        ''p'' ''w'' ''u'') =
      Inr (sample_attaching\<lparr>dc_blocks := map (attached_as ''b.txt'') (dc_blocks sample_attaching)\<rparr>)"
    using uploaded_file_attachable [OF _ p(1) race q _ run, of "\<lambda>_ _. None" no_actor g sample_attaching] p(2,3) g b
    by (simp add: sample_pg_files_def sample_complete_def sample_attaching_def)
  then show ?thesis unfolding Let_def defs by (simp add: sample_attaching_def attached_as_def)
qed

section \<open>Deleting\<close>

text \<open>
  C37: On PostgreSQL a deleted file is never read again, whatever uploads, deletions and late halves of
  completions follow, those included that had read the file before it was deleted, and whichever
  statements the database refuses.
\<close>

theorem deleted_file_stays_deleted:
  assumes "fd_store dp = postgres_file_store fault"
    and "delete_file dp now a i s = (Inr p, s1)" and "file_race dp (n, s1) (n2, s2)"
  shows "\<exists>err. get_file dp b i s2 = Inl err"
proof -
  have "pg_files.gone i s1" by (rule pg_files.delete_gone [OF assms(1) TrueI assms(2)])
  then have "pg_files.gone i s2" using pg_files.race_gone [OF assms(3,1)] by simp
  then obtain err where "st_get_file (postgres_file_store fault) i s2 = Inl err" using pg_files.gone_unread by blast
  then show ?thesis using assms(1) by (simp add: get_file_def)
qed

theorem deleted_file_stays_deleted_witness:
  "\<exists>err. get_file sample_pg_files no_actor ''x''
     (snd (complete_write sample_pg_files 8 sample_complete (new_file sample_upload no_actor 5 ''x'' ''k'')
       (snd (delete_file sample_pg_files 7 no_actor ''x''
         (snd (snd (start_upload sample_pg_files 5 no_actor sample_upload (0, \<lparr>fr_files = [], fr_uploads = []\<rparr>)))))))) = Inl err"
proof -
  have "case start_upload sample_pg_files 5 no_actor sample_upload (0, \<lparr>fr_files = [], fr_uploads = []\<rparr>) of (_, _, s) \<Rightarrow>
      (case fst (delete_file sample_pg_files 7 no_actor ''x'' s) of Inl _ \<Rightarrow> False | Inr _ \<Rightarrow> True)"
    by code_simp
  then obtain q s1 where d: "delete_file sample_pg_files 7 no_actor ''x''
      (snd (snd (start_upload sample_pg_files 5 no_actor sample_upload (0, \<lparr>fr_files = [], fr_uploads = []\<rparr>)))) = (Inr q, s1)"
    by (auto split: prod.splits sum.splits) (metis prod.collapse)
  have "file_race sample_pg_files (2, s1) (2, snd (complete_write sample_pg_files 8 sample_complete
      (new_file sample_upload no_actor 5 ''x'' ''k'') s1))"
    by (rule race_written [OF race_idle])
  from deleted_file_stays_deleted [OF _ d this, of "\<lambda>_ _. None"] show ?thesis
    using d by (simp add: sample_pg_files_def)
qed

text \<open>
  In memory it is not: a completion that read its file before another request deleted it and writes
  after it makes the file ready again, because \<open>CompleteUpload\<close> of the in-memory store puts back the
  file that it is given.
\<close>

theorem racing_completion_revives_file:
  assumes "fd_store dp = memory_file_store" and "mem_files_ok s"
    and "complete_read dp now a cinput s = Inr f" and "delete_file dp later b (fo_id f) s = (Inr p, s1)"
  shows "mem_get_file (fo_id f) (snd (complete_write dp now cinput f s1)) = Inr f"
proof -
  from assms(3) obtain f0 k where g: "mem_get_file k s = Inr f0"
    and f: "f = f0\<lparr>fo_status := FileReady, fo_updated_at := now\<rparr>"
    using assms(1) by (auto elim!: complete_read_file)
  obtain u where u: "mf_uploads s (co_upload cinput) = Some u"
    using assms(1,3) by (auto simp: complete_read_def mem_get_upload_def split: option.splits)
  have "mf_uploads s1 = mf_uploads s"
    using assms(1,4)
    by (auto simp: delete_file_def mem_soft_delete_def split: sum.splits option.splits prod.splits)
  then show ?thesis
    using u g f assms(1)
    by (auto simp: complete_write_state mem_complete_upload_def mem_get_file_def split: option.splits if_splits)
qed

theorem racing_completion_revives_file_witness:
  "\<exists>f. complete_read sample_files 6 no_actor sample_complete started_files = Inr f \<and>
     mem_get_file ''x'' (snd (complete_write sample_files 6 sample_complete f
       (snd (delete_file sample_files 7 no_actor ''x'' started_files)))) = Inr f"
proof -
  have "case start_upload sample_files 5 no_actor sample_upload (0, new_mem_files) of (_, _, s) \<Rightarrow>
      (case complete_read sample_files 6 no_actor sample_complete s of Inl _ \<Rightarrow> False
       | Inr f \<Rightarrow> fo_id f = ''x'' \<and> (case fst (delete_file sample_files 7 no_actor ''x'' s) of Inl _ \<Rightarrow> False | Inr _ \<Rightarrow> True))"
    by code_simp
  then obtain f q where c: "complete_read sample_files 6 no_actor sample_complete started_files = Inr f"
    and i: "fo_id f = ''x''" and d: "fst (delete_file sample_files 7 no_actor ''x'' started_files) = Inr q"
    unfolding started_files_def by (auto split: prod.splits sum.splits)
  obtain s1 where d1: "delete_file sample_files 7 no_actor (fo_id f) started_files = (Inr q, s1)"
    using d i by (metis prod.collapse)
  have "mem_files_ok started_files"
    by (simp add: mem_files_ok_def started_files_def start_upload_def sample_files_def memory_object_store_def
        mem_create_upload_def new_file_def new_mem_files_def new_upload_def Let_def split: option.splits)
  from racing_completion_revives_file [OF _ this c d1] show ?thesis using c d1 i by auto
qed

section \<open>Objects\<close>

lemma path_base_cases: "path_base s = [path_separator] \<or> (path_base s \<noteq> '''' \<and> path_separator \<notin> set (path_base s))"
  unfolding path_base_def Let_def by (auto dest: set_takeWhileD simp: path_separator_def)

text \<open>
  The object an upload goes to: workspace, file and name, with a slash between them, so that no two
  files share one; except that the name of the file can take these away. A name that ends in a dot or in
  slashes only gives the object of the file's own directory, and the name of two dots gives the object of
  the whole workspace: all files of a workspace that are uploaded under it go to one object.
\<close>

theorem object_key_of_upload:
  assumes "plain_element workspaceID" and "plain_element fileID"
  shows "object_key workspaceID fileID filename =
    (if path_base filename = ''..'' then workspaceID
     else if path_base filename = ''.'' \<or> path_base filename = ''/'' then workspaceID @ ''/'' @ fileID
     else workspaceID @ ''/'' @ fileID @ ''/'' @ path_base filename)"
proof -
  have w: "workspaceID \<noteq> ''''" "workspaceID \<noteq> ''.''" "workspaceID \<noteq> ''..''" "path_separator \<notin> set workspaceID"
    and i: "fileID \<noteq> ''''" "fileID \<noteq> ''.''" "fileID \<noteq> ''..''" "path_separator \<notin> set fileID"
    using assms by (simp_all add: plain_element_def)
  obtain c v where cv: "workspaceID = c # v" "c \<noteq> path_separator" using w by (cases workspaceID) auto
  let ?b = "path_base filename"
  have k: "object_key workspaceID fileID filename =
      path_clean (workspaceID @ path_separator # fileID @ path_separator # ?b)"
    using w by (simp add: object_key_def path_join_def)
  have split: "split_on path_separator (workspaceID @ path_separator # fileID @ path_separator # ?b) =
      workspaceID # fileID # split_on path_separator ?b"
    using w i by (simp add: split_on_append)
  have clean: "object_key workspaceID fileID filename =
      join [path_separator] (clean_elements False (split_on path_separator ?b) [fileID, workspaceID])"
    if "join [path_separator] (clean_elements False (split_on path_separator ?b) [fileID, workspaceID]) \<noteq> ''''"
  proof -
    have "(case workspaceID @ path_separator # fileID @ path_separator # ?b of [] \<Rightarrow> False | a # _ \<Rightarrow> a = path_separator) = False"
      using cv by simp
    moreover have "clean_elements False (workspaceID # fileID # split_on path_separator ?b) [] =
        clean_elements False (split_on path_separator ?b) [fileID, workspaceID]"
      using w i by simp
    ultimately show ?thesis using that unfolding k path_clean_def split Let_def by simp
  qed
  consider "?b = ''..''" | "?b = ''.''" | "?b = ''/''" | "?b \<noteq> ''..''" "?b \<noteq> ''.''" "?b \<noteq> ''/''" "?b \<noteq> ''''"
      "path_separator \<notin> set ?b"
    using path_base_cases [of filename] by (auto simp: path_separator_def)
  then show ?thesis
  proof cases
    case 1
    then show ?thesis using clean w i by (simp add: path_separator_def)
  next
    case 2
    then show ?thesis using clean w i by (simp add: path_separator_def)
  next
    case 3
    then show ?thesis using clean w i by (simp add: path_separator_def)
  next
    case 4
    then show ?thesis using clean w i by (simp add: split_on_part path_separator_def)
  qed
qed

theorem object_key_of_upload_witness:
  "object_key ''w'' ''f1'' ''..'' = ''w'' \<and> object_key ''w'' ''f2'' ''..'' = ''w''"
  using object_key_of_upload [of "''w''" "''f1''" "''..''"] object_key_of_upload [of "''w''" "''f2''" "''..''"]
  by (simp add: plain_element_def path_separator_def path_base_def Let_def)

end
