(* ===== verification/Search.thy ===== *)
theory Search
  imports Authz "HOL-Library.Multiset" "HOL-Library.Sublist" "HOL-Library.List_Lexorder" "HOL-Library.Char_ord"
begin

text \<open>
  The search service: projections of pages and what is answered from them
  (\<^verbatim>\<open>services/knowledge-graph-search-service/internal/domain/search.go\<close>), the store port
  (\<^verbatim>\<open>internal/ports/store.go\<close>) with the laws that its users rely on, and the use cases with the filter
  that leaves out what the caller may not see (\<^verbatim>\<open>internal/usecase/filter_results.go\<close>,
  \<^verbatim>\<open>search_pages.go\<close>, \<^verbatim>\<open>get_backlinks.go\<close>).
\<close>

section \<open>Data\<close>

text \<open>The slice of embed titles is \<open>None\<close> where it is nil, which PostgreSQL takes for NULL.\<close>

record page_projection =
  pj_page :: string
  pj_workspace :: string
  pj_title :: string
  pj_text :: string
  pj_links :: "string list"
  pj_embeds :: "string list option"
  pj_updated_at :: gotime

record backlink_reference =
  br_page :: string
  br_title :: string
  br_relation :: string

record search_result =
  sr_page :: string
  sr_title :: string
  sr_match :: string
  sr_snippet :: string
  sr_updated_at :: gotime

record backlinks_payload =
  bp_page :: string
  bp_backlinks :: "backlink_reference list"
  bp_related :: "backlink_reference list"

datatype search_error = ErrSearchForbidden | ErrSearchAuthorization string | ErrSearchStore string

fun search_error_text :: "search_error \<Rightarrow> string" where
  "search_error_text ErrSearchForbidden = ''forbidden''"
| "search_error_text (ErrSearchAuthorization err) = err"
| "search_error_text (ErrSearchStore err) = err"

section \<open>Strings and sorting\<close>

text \<open>\<open>strings.Contains(s, sub)\<close>.\<close>

fun str_contains :: "string \<Rightarrow> string \<Rightarrow> bool" where
  "str_contains sub [] = (sub = [])"
| "str_contains sub (c # s) = (take (length sub) (c # s) = sub \<or> str_contains sub s)"

lemma str_contains_sublist: "str_contains sub s \<longleftrightarrow> sublist sub s"
proof (induction s)
  case Nil
  then show ?case by simp
next
  case (Cons c s)
  have "take (length sub) (c # s) = sub \<longleftrightarrow> prefix sub (c # s)"
    by (metis append_eq_conv_conj prefix_def append_take_drop_id)
  then show ?case using Cons by (simp add: sublist_Cons_right)
qed

lemma str_contains_append [intro]: "str_contains sub (xs @ sub @ ys)"
  unfolding str_contains_sublist by (simp add: sublist_appendI)

lemma str_contains_empty [simp]: "str_contains [] s"
  by (simp add: str_contains_sublist)

text \<open>
  \<open>sort.Slice(xs, less)\<close>. It promises a permutation that is sorted; which one among equals is its own
  affair. Here it is the stable one, of an unspecified list (the elements of a Go map in the order of a
  range, the rows of a table), which leaves the order among equals as open as it is in the code.
\<close>

fun insert_slice :: "('a \<Rightarrow> 'a \<Rightarrow> bool) \<Rightarrow> 'a \<Rightarrow> 'a list \<Rightarrow> 'a list" where
  "insert_slice lt x [] = [x]"
| "insert_slice lt x (y # ys) = (if lt x y then x # y # ys else y # insert_slice lt x ys)"

definition sort_slice :: "('a \<Rightarrow> 'a \<Rightarrow> bool) \<Rightarrow> 'a list \<Rightarrow> 'a list" where
  "sort_slice lt xs = fold (insert_slice lt) xs []"

lemma mset_insert_slice: "mset (insert_slice lt x ys) = add_mset x (mset ys)"
  by (induction ys) auto

lemma mset_sort_slice [simp]: "mset (sort_slice lt xs) = mset xs"
proof -
  have "mset (fold (insert_slice lt) xs ys) = mset xs + mset ys" for ys
    by (induction xs arbitrary: ys) (auto simp: mset_insert_slice)
  then show ?thesis by (simp add: sort_slice_def)
qed

lemma set_sort_slice [simp]: "set (sort_slice lt xs) = set xs"
  by (metis mset_sort_slice set_mset_mset)

lemma length_sort_slice [simp]: "length (sort_slice lt xs) = length xs"
  by (metis mset_sort_slice size_mset)

text \<open>What \<open>sort.Slice\<close> asks of its comparison: a strict weak order.\<close>

locale weak_order =
  fixes lt :: "'a \<Rightarrow> 'a \<Rightarrow> bool"
  assumes asym: "lt x y \<Longrightarrow> \<not> lt y x"
    and neg_trans: "\<not> lt x y \<Longrightarrow> \<not> lt y z \<Longrightarrow> \<not> lt x z"
begin

definition ordered :: "'a list \<Rightarrow> bool" where
  "ordered xs \<longleftrightarrow> sorted_wrt (\<lambda>x y. \<not> lt y x) xs"

lemma ordered_insert: "ordered ys \<Longrightarrow> ordered (insert_slice lt x ys)"
proof (induction ys)
  case Nil
  then show ?case by (simp add: ordered_def)
next
  case (Cons y ys)
  then have rest: "ordered (insert_slice lt x ys)" and above_y: "\<forall>z \<in> set ys. \<not> lt z y"
    by (auto simp: ordered_def)
  have set: "set (insert_slice lt x ys) = insert x (set ys)"
    by (metis mset_insert_slice set_mset_add_mset_insert set_mset_mset)
  show ?case
  proof (cases "lt x y")
    case True
    then have "\<not> lt y x" by (rule asym)
    with above_y have "\<forall>z \<in> set ys. \<not> lt z x" using neg_trans True by blast
    with \<open>\<not> lt y x\<close> True Cons.prems show ?thesis by (simp add: ordered_def)
  next
    case False
    with rest above_y set show ?thesis by (simp add: ordered_def)
  qed
qed

lemma ordered_sort: "ordered (sort_slice lt xs)"
proof -
  have "ordered ys \<Longrightarrow> ordered (fold (insert_slice lt) xs ys)" for ys
    by (induction xs arbitrary: ys) (simp_all add: ordered_insert)
  then show ?thesis by (simp add: sort_slice_def ordered_def)
qed

end

text \<open>The comparisons of the in-memory store.\<close>

definition results_less :: "string \<Rightarrow> search_result \<Rightarrow> search_result \<Rightarrow> bool" where
  "results_less sortKey a b \<longleftrightarrow>
     (if sortKey = ''updated_at'' then sr_updated_at b < sr_updated_at a
      else if sr_match a \<noteq> sr_match b then sr_match a < sr_match b
      else sr_updated_at b < sr_updated_at a)"

definition title_less :: "backlink_reference \<Rightarrow> backlink_reference \<Rightarrow> bool" where
  "title_less a b \<longleftrightarrow> br_title a < br_title b"

interpretation by_result: weak_order "results_less sortKey" for sortKey
  by unfold_locales (auto simp: results_less_def split: if_splits)

interpretation by_title: weak_order title_less
  by unfold_locales (auto simp: title_less_def)

section \<open>The store\<close>

record 's search_store =
  ss_upsert :: "page_projection \<Rightarrow> string list \<Rightarrow> 's \<Rightarrow> string option \<times> 's"
  ss_replace_links :: "string \<Rightarrow> string \<Rightarrow> string list \<Rightarrow> 's \<Rightarrow> string option \<times> 's"
  ss_search :: "string \<Rightarrow> string \<Rightarrow> string \<Rightarrow> 's \<Rightarrow> string + search_result list"
  ss_backlinks :: "string \<Rightarrow> string \<Rightarrow> 's \<Rightarrow> string + backlinks_payload"

text \<open>
  What a store promises. \<open>index\<close> is what it knows: for every page its projection, up to the time, of
  which a table keeps the microseconds only, and the pages it links to. An upsert replaces both; new links are taken only for a page that is known in the workspace
  they are for; an operation that fails changes nothing. A search answers with pages of the workspace
  under their titles, and the backlinks of a page are the other pages of the workspace that link to it.
\<close>

type_synonym search_index = "string \<Rightarrow> (page_projection \<times> string set) option"

definition untimed :: "page_projection \<Rightarrow> page_projection" where
  "untimed p = p\<lparr>pj_updated_at := zero_time\<rparr>"

lemma untimed_simps [simp]:
  "pj_page (untimed p) = pj_page p" "pj_workspace (untimed p) = pj_workspace p"
  "pj_title (untimed p) = pj_title p" "pj_text (untimed p) = pj_text p"
  "pj_links (untimed p) = pj_links p" "pj_embeds (untimed p) = pj_embeds p"
  by (simp_all add: untimed_def)

definition put_links :: "string \<Rightarrow> string \<Rightarrow> string set \<Rightarrow> search_index \<Rightarrow> search_index" where
  "put_links w source targets ix =
     (case ix source of
        None \<Rightarrow> ix
      | Some (p, _) \<Rightarrow> if pj_workspace p = w then ix(source \<mapsto> (p, targets)) else ix)"

definition links_to :: "search_index \<Rightarrow> string \<Rightarrow> string \<Rightarrow> string \<Rightarrow> bool" where
  "links_to ix w source target \<longleftrightarrow>
     (case ix source of None \<Rightarrow> False | Some (p, targets) \<Rightarrow> pj_workspace p = w \<and> target \<in> targets)"

text \<open>The targets as they are meant: trimmed, none of them empty.\<close>

definition clean_targets :: "string list \<Rightarrow> bool" where
  "clean_targets targets \<longleftrightarrow> (\<forall>t \<in> set targets. t \<noteq> '''' \<and> trim_space t = t)"

locale search_storage =
  fixes ops :: "'s search_store" and index :: "'s \<Rightarrow> search_index" and invar :: "'s \<Rightarrow> bool"
  assumes upserted: "invar s \<Longrightarrow> clean_targets targets \<Longrightarrow> ss_upsert ops p targets s = (None, s') \<Longrightarrow>
      index s' = (index s)(pj_page p \<mapsto> (untimed p, set targets))"
    and not_upserted: "invar s \<Longrightarrow> clean_targets targets \<Longrightarrow> ss_upsert ops p targets s = (Some err, s') \<Longrightarrow>
      s' = s \<or> index s' = (index s)(pj_page p \<mapsto> (untimed p, set targets))"
    and replaced: "invar s \<Longrightarrow> clean_targets targets \<Longrightarrow> ss_replace_links ops w source targets s = (None, s') \<Longrightarrow>
      index s' = put_links w source (set targets) (index s)"
    and not_replaced: "invar s \<Longrightarrow> clean_targets targets \<Longrightarrow> ss_replace_links ops w source targets s = (Some err, s') \<Longrightarrow>
      s' = s \<or> index s' = put_links w source (set targets) (index s)"
    and invar_upserted: "invar s \<Longrightarrow> invar (snd (ss_upsert ops p targets s))"
    and invar_replaced: "invar s \<Longrightarrow> invar (snd (ss_replace_links ops w source targets s))"
    and found: "invar s \<Longrightarrow> ss_search ops w query sortKey s = Inr results \<Longrightarrow> r \<in> set results \<Longrightarrow>
      \<exists>p T. index s (sr_page r) = Some (p, T) \<and> pj_workspace p = w \<and> sr_title r = pj_title p"
    and backlinks: "invar s \<Longrightarrow> ss_backlinks ops w pageID s = Inr payload \<Longrightarrow> source \<noteq> pageID \<Longrightarrow>
      source \<in> br_page ` set (bp_backlinks payload) \<longleftrightarrow> links_to (index s) w source pageID"

section \<open>What the caller may see\<close>

definition search_require ::
  "remote_authz option \<Rightarrow> action \<Rightarrow> authorization_subject \<Rightarrow> search_error option" where
  "search_require checker action subject =
     (case service_authorize checker action subject of
        AuthzOk \<Rightarrow> None
      | AuthzForbidden \<Rightarrow> Some ErrSearchForbidden
      | AuthzError err \<Rightarrow> Some (ErrSearchAuthorization err))"

definition view_check :: "authorization_subject \<Rightarrow> string \<Rightarrow> check_input" where
  "view_check subject pageID =
     \<lparr>ci_actor = as_actor subject, ci_workspace = as_workspace subject, ci_page = pageID,
      ci_action = ActionPageView\<rparr>"

text \<open>The loop over the results with the decision of the same index; a result beyond the decisions is left out.\<close>

fun keep_allowed :: "decision list \<Rightarrow> 'a list \<Rightarrow> 'a list" where
  "keep_allowed (d # decisions) (x # xs) =
     (if dn_allowed d then x # keep_allowed decisions xs else keep_allowed decisions xs)"
| "keep_allowed _ _ = []"

definition filter_search_results ::
  "remote_authz option \<Rightarrow> authorization_subject \<Rightarrow> search_result list \<Rightarrow> search_error + search_result list" where
  "filter_search_results checker subject results =
     (if results = [] \<or> \<not> as_authenticated subject then Inr results
      else if checker \<noteq> None then
        (case client_batch_authorize checker (map (\<lambda>r. view_check subject (sr_page r)) results) of
           Inl err \<Rightarrow> Inl (ErrSearchAuthorization err)
         | Inr decisions \<Rightarrow>
             if decisions = [] then Inr results else Inr (keep_allowed decisions results))
      else if \<not> allowed (as_roles subject) ActionPageView then Inl ErrSearchForbidden
      else Inr results)"

definition filter_backlinks ::
  "remote_authz option \<Rightarrow> authorization_subject \<Rightarrow> backlinks_payload \<Rightarrow> search_error + backlinks_payload" where
  "filter_backlinks checker subject payload =
     (let references = bp_backlinks payload @ bp_related payload
      in if \<not> as_authenticated subject then Inr payload
         else if references = [] then Inr payload
         else if checker \<noteq> None then
           (case client_batch_authorize checker (map (\<lambda>r. view_check subject (br_page r)) references) of
              Inl err \<Rightarrow> Inl (ErrSearchAuthorization err)
            | Inr decisions \<Rightarrow>
                Inr (payload\<lparr>bp_backlinks := keep_allowed decisions (bp_backlinks payload),
                             bp_related := keep_allowed (drop (length (bp_backlinks payload)) decisions)
                               (bp_related payload)\<rparr>))
         else if \<not> allowed (as_roles subject) ActionPageView then Inl ErrSearchForbidden
         else Inr payload)"

section \<open>Use cases\<close>

record search_input =
  si_workspace :: string
  si_query :: string
  si_sort :: string
  si_actor :: string
  si_roles :: "string list"
  si_authenticated :: bool

record backlinks_input =
  bi_workspace :: string
  bi_page :: string
  bi_actor :: string
  bi_roles :: "string list"
  bi_authenticated :: bool

definition search_subject :: "search_input \<Rightarrow> authorization_subject" where
  "search_subject input =
     \<lparr>as_actor = si_actor input, as_workspace = si_workspace input, as_page = '''',
      as_roles = si_roles input, as_authenticated = si_authenticated input\<rparr>"

definition search_pages ::
  "'s search_store \<Rightarrow> remote_authz option \<Rightarrow> search_input \<Rightarrow> 's \<Rightarrow> search_error + search_result list" where
  "search_pages store checker input s =
     (case search_require checker ActionSearchQuery (search_subject input) of
        Some err \<Rightarrow> Inl err
      | None \<Rightarrow>
          (case ss_search store (si_workspace input) (si_query input) (si_sort input) s of
             Inl err \<Rightarrow> Inl (ErrSearchStore err)
           | Inr results \<Rightarrow> filter_search_results checker (search_subject input) results))"

definition backlinks_subject :: "backlinks_input \<Rightarrow> authorization_subject" where
  "backlinks_subject input =
     \<lparr>as_actor = bi_actor input, as_workspace = bi_workspace input, as_page = bi_page input,
      as_roles = bi_roles input, as_authenticated = bi_authenticated input\<rparr>"

definition get_backlinks ::
  "'s search_store \<Rightarrow> remote_authz option \<Rightarrow> backlinks_input \<Rightarrow> 's \<Rightarrow> search_error + backlinks_payload" where
  "get_backlinks store checker input s =
     (case search_require checker ActionPageView (backlinks_subject input) of
        Some err \<Rightarrow> Inl err
      | None \<Rightarrow>
          (case ss_backlinks store (bi_workspace input) (bi_page input) s of
             Inl err \<Rightarrow> Inl (ErrSearchStore err)
           | Inr payload \<Rightarrow> filter_backlinks checker (backlinks_subject input) payload))"

section \<open>Facts about the filter\<close>

text \<open>What the auth service answers to a check.\<close>

definition viewable :: "remote_authz \<Rightarrow> authorization_subject \<Rightarrow> string \<Rightarrow> bool" where
  "viewable remote subject pageID =
     (case remote (view_check subject pageID) of Inl _ \<Rightarrow> False | Inr d \<Rightarrow> dn_allowed d)"

lemma batch_results_length: "batch_results remote cs = Inr ds \<Longrightarrow> length ds = length cs"
  by (induction cs arbitrary: ds) (auto split: sum.splits)

lemma keep_allowed_filter:
  "batch_results remote (map (\<lambda>x. view_check subject (f x)) xs) = Inr ds \<Longrightarrow>
   keep_allowed ds xs = filter (\<lambda>x. viewable remote subject (f x)) xs"
  by (induction xs arbitrary: ds) (auto simp: viewable_def split: sum.splits)

lemma batch_results_append:
  "batch_results remote (cs @ cs') =
     (case batch_results remote cs of
        Inl err \<Rightarrow> Inl err
      | Inr ds \<Rightarrow> (case batch_results remote cs' of Inl err \<Rightarrow> Inl err | Inr ds' \<Rightarrow> Inr (ds @ ds')))"
  by (induction cs) (auto split: sum.splits)

lemma keep_allowed_append: "length ds = length xs \<Longrightarrow> keep_allowed (ds @ ds') xs = keep_allowed ds xs"
  by (induction ds xs rule: list_induct2) (cases ds', auto)

lemma filter_search_results_remote:
  assumes "as_authenticated subject" and "filter_search_results (Some remote) subject results = Inr shown"
  shows "shown = filter (\<lambda>r. viewable remote subject (sr_page r)) results"
proof (cases "results = []")
  case True
  with assms show ?thesis by (simp add: filter_search_results_def)
next
  case False
  with assms obtain ds where ds: "batch_results remote (map (\<lambda>r. view_check subject (sr_page r)) results) = Inr ds"
    and shown: "shown = (if ds = [] then results else keep_allowed ds results)"
    by (auto simp: filter_search_results_def client_batch_authorize_def split: sum.splits if_splits)
  from batch_results_length [OF ds] False have "ds \<noteq> []" by auto
  with shown keep_allowed_filter [OF ds] show ?thesis by simp
qed

lemma filter_backlinks_remote:
  assumes "as_authenticated subject" and "filter_backlinks (Some remote) subject payload = Inr shown"
  shows "bp_backlinks shown = filter (\<lambda>r. viewable remote subject (br_page r)) (bp_backlinks payload)"
    and "bp_related shown = filter (\<lambda>r. viewable remote subject (br_page r)) (bp_related payload)"
proof -
  let ?c = "\<lambda>r. view_check subject (br_page r)"
  have "bp_backlinks shown = filter (\<lambda>r. viewable remote subject (br_page r)) (bp_backlinks payload) \<and>
        bp_related shown = filter (\<lambda>r. viewable remote subject (br_page r)) (bp_related payload)"
  proof (cases "bp_backlinks payload = [] \<and> bp_related payload = []")
    case True
    with assms show ?thesis by (simp add: filter_backlinks_def)
  next
    case False
    with assms obtain ds where "batch_results remote (map ?c (bp_backlinks payload @ bp_related payload)) = Inr ds"
      and shown: "shown = payload\<lparr>bp_backlinks := keep_allowed ds (bp_backlinks payload),
          bp_related := keep_allowed (drop (length (bp_backlinks payload)) ds) (bp_related payload)\<rparr>"
      by (auto simp: filter_backlinks_def client_batch_authorize_def Let_def split: sum.splits)
    then obtain ds1 ds2 where "ds = ds1 @ ds2"
      and ds1: "batch_results remote (map ?c (bp_backlinks payload)) = Inr ds1"
      and ds2: "batch_results remote (map ?c (bp_related payload)) = Inr ds2"
      by (auto simp: batch_results_append split: sum.splits)
    moreover from batch_results_length [OF ds1] have "length ds1 = length (bp_backlinks payload)" by simp
    ultimately show ?thesis
      using shown keep_allowed_filter [OF ds1] keep_allowed_filter [OF ds2] by (simp add: keep_allowed_append)
  qed
  then show "bp_backlinks shown = filter (\<lambda>r. viewable remote subject (br_page r)) (bp_backlinks payload)"
    and "bp_related shown = filter (\<lambda>r. viewable remote subject (br_page r)) (bp_related payload)" by simp_all
qed

end
