(* ===== verification/SearchStores.thy ===== *)
theory SearchStores
  imports Search Rows
begin

text \<open>
  The stores of the search service: in memory
  (\<^verbatim>\<open>services/knowledge-graph-search-service/internal/adapters/memory/store.go\<close>) and on PostgreSQL
  (\<^verbatim>\<open>internal/adapters/postgres/store.go\<close>), and that both keep the contract \<open>search_storage\<close>.
\<close>

section \<open>In memory\<close>

text \<open>
  A map is the list of its members. In which order a range meets its keys is the runtime's choice:
  \<open>mx_visit\<close>, a permutation. \<open>lower\<close> is \<open>strings.ToLower\<close>.
\<close>

record mem_index =
  mx_pages :: "(string \<times> page_projection) list"
  mx_targets :: "(string \<times> string list) list"
  mx_visit :: "string list \<Rightarrow> string list"

definition zero_projection :: page_projection where
  "zero_projection =
     \<lparr>pj_page = '''', pj_workspace = '''', pj_title = '''', pj_text = '''', pj_links = [], pj_embeds = None,
      pj_updated_at = zero_time\<rparr>"

definition new_mem_index :: "(string list \<Rightarrow> string list) \<Rightarrow> mem_index" where
  "new_mem_index visit = \<lparr>mx_pages = [], mx_targets = [], mx_visit = visit\<rparr>"

text \<open>\<open>s.pages[key]\<close> and \<open>s.targetsByPage[key]\<close>, zero where there is none.\<close>

definition mx_page :: "mem_index \<Rightarrow> string \<Rightarrow> page_projection" where
  "mx_page s k = (case map_of (mx_pages s) k of None \<Rightarrow> zero_projection | Some p \<Rightarrow> p)"

definition mx_links :: "mem_index \<Rightarrow> string \<Rightarrow> string list" where
  "mx_links s k = (case map_of (mx_targets s) k of None \<Rightarrow> [] | Some ts \<Rightarrow> ts)"

definition mem_upsert_page :: "page_projection \<Rightarrow> string list \<Rightarrow> mem_index \<Rightarrow> string option \<times> mem_index" where
  "mem_upsert_page p targets s =
     (None, s\<lparr>mx_pages := kv_put (pj_page p) p (mx_pages s),
              mx_targets := kv_put (pj_page p) targets (mx_targets s)\<rparr>)"

definition mem_replace_page_links ::
  "string \<Rightarrow> string \<Rightarrow> string list \<Rightarrow> mem_index \<Rightarrow> string option \<times> mem_index" where
  "mem_replace_page_links w source targets s =
     (None, (case map_of (mx_pages s) source of
               None \<Rightarrow> s
             | Some p \<Rightarrow>
                 if pj_workspace p = w then s\<lparr>mx_targets := kv_put source targets (mx_targets s)\<rparr> else s))"

definition contains_any :: "(string \<Rightarrow> string) \<Rightarrow> string list \<Rightarrow> string \<Rightarrow> bool" where
  "contains_any lower values needle \<longleftrightarrow> list_ex (\<lambda>v. str_contains needle (lower v)) values"

definition first_match :: "(string \<Rightarrow> string) \<Rightarrow> string list \<Rightarrow> string \<Rightarrow> string" where
  "first_match lower values needle =
     (case find (\<lambda>v. str_contains needle (lower v)) values of None \<Rightarrow> '''' | Some v \<Rightarrow> v)"

definition embed_titles :: "page_projection \<Rightarrow> string list" where
  "embed_titles p = (case pj_embeds p of None \<Rightarrow> [] | Some ts \<Rightarrow> ts)"

text \<open>The switch of \<open>Search\<close>: the type of the match and the snippet.\<close>

definition match_page :: "(string \<Rightarrow> string) \<Rightarrow> string \<Rightarrow> page_projection \<Rightarrow> (string \<times> string) option" where
  "match_page lower needle p =
     (if str_contains needle (lower (pj_title p)) then Some (''title'', pj_title p)
      else if contains_any lower (embed_titles p) needle then
        Some (''embed_reference'', first_match lower (embed_titles p) needle)
      else if contains_any lower (pj_links p) needle then
        Some (''link'', first_match lower (pj_links p) needle)
      else if str_contains needle (lower (pj_text p)) then Some (''content'', pj_text p)
      else None)"

definition page_results :: "(string \<Rightarrow> string) \<Rightarrow> string \<Rightarrow> string \<Rightarrow> page_projection \<Rightarrow> search_result list" where
  "page_results lower w needle p =
     (if pj_workspace p \<noteq> w then []
      else (case match_page lower needle p of
              None \<Rightarrow> []
            | Some (matchType, snippet) \<Rightarrow>
                [\<lparr>sr_page = pj_page p, sr_title = pj_title p, sr_match = matchType, sr_snippet = snippet,
                  sr_updated_at = pj_updated_at p\<rparr>]))"

definition mem_search ::
  "(string \<Rightarrow> string) \<Rightarrow> string \<Rightarrow> string \<Rightarrow> string \<Rightarrow> mem_index \<Rightarrow> string + search_result list" where
  "mem_search lower w query sortKey s =
     (let needle = lower (trim_space query);
          results = concat (map (\<lambda>k. page_results lower w needle (mx_page s k))
            (mx_visit s (map fst (mx_pages s))))
      in Inr (sort_slice (results_less sortKey) results))"

definition count_shared_ids :: "string list \<Rightarrow> string list \<Rightarrow> nat" where
  "count_shared_ids left right =
     (if left = [] \<or> right = [] then 0 else length (filter (\<lambda>v. v \<in> set left) right))"

text \<open>The switch of \<open>GetBacklinks\<close>: how a candidate is related to a page.\<close>

definition relation_with ::
  "(string \<Rightarrow> string) \<Rightarrow> mem_index \<Rightarrow> string \<Rightarrow> string \<Rightarrow> string" where
  "relation_with lower s pageID candidate =
     (if candidate \<in> set (mx_links s pageID) then ''linked_page''
      else if pageID \<in> set (mx_links s candidate) then ''linked_from''
      else if 0 < count_shared_ids (mx_links s pageID) (mx_links s candidate) then ''shared_links''
      else if str_contains (lower (pj_title (mx_page s pageID))) (lower (pj_text (mx_page s candidate))) then
        ''topical_similarity''
      else '''')"

definition backlink_from :: "mem_index \<Rightarrow> string \<Rightarrow> string \<Rightarrow> string \<Rightarrow> backlink_reference list" where
  "backlink_from s w pageID source =
     (if source = pageID then []
      else if pageID \<notin> set (mx_links s source) then []
      else if pj_workspace (mx_page s source) \<noteq> w then []
      else [\<lparr>br_page = source, br_title = pj_title (mx_page s source), br_relation = ''backlink''\<rparr>])"

definition related_to ::
  "(string \<Rightarrow> string) \<Rightarrow> mem_index \<Rightarrow> string \<Rightarrow> string \<Rightarrow> string \<Rightarrow> backlink_reference list" where
  "related_to lower s w pageID candidate =
     (if candidate = pageID \<or> pj_workspace (mx_page s candidate) \<noteq> w then []
      else if relation_with lower s pageID candidate = '''' then []
      else [\<lparr>br_page = candidate, br_title = pj_title (mx_page s candidate),
             br_relation = relation_with lower s pageID candidate\<rparr>])"

definition mem_backlinks ::
  "(string \<Rightarrow> string) \<Rightarrow> string \<Rightarrow> string \<Rightarrow> mem_index \<Rightarrow> string + backlinks_payload" where
  "mem_backlinks lower w pageID s =
     (let backlinks = concat (map (backlink_from s w pageID) (mx_visit s (map fst (mx_targets s))));
          related = concat (map (related_to lower s w pageID) (mx_visit s (map fst (mx_pages s))))
      in Inr \<lparr>bp_page = pageID, bp_backlinks = sort_slice title_less backlinks,
              bp_related = sort_slice title_less related\<rparr>)"

definition memory_search_store :: "(string \<Rightarrow> string) \<Rightarrow> mem_index search_store" where
  "memory_search_store lower =
     \<lparr>ss_upsert = mem_upsert_page, ss_replace_links = mem_replace_page_links, ss_search = mem_search lower,
      ss_backlinks = mem_backlinks lower\<rparr>"

lemma memory_search_store_simps [simp]:
  "ss_upsert (memory_search_store lower) = mem_upsert_page"
  "ss_replace_links (memory_search_store lower) = mem_replace_page_links"
  "ss_search (memory_search_store lower) = mem_search lower"
  "ss_backlinks (memory_search_store lower) = mem_backlinks lower"
  by (simp_all add: memory_search_store_def)

definition mem_index_of :: "mem_index \<Rightarrow> search_index" where
  "mem_index_of s k = map_option (\<lambda>p. (untimed p, set (mx_links s k))) (map_of (mx_pages s) k)"

definition mem_index_ok :: "mem_index \<Rightarrow> bool" where
  "mem_index_ok s \<longleftrightarrow>
     (\<forall>(k, p) \<in> set (mx_pages s). pj_page p = k) \<and> distinct (map fst (mx_pages s)) \<and>
     set (map fst (mx_targets s)) \<subseteq> set (map fst (mx_pages s)) \<and>
     (\<forall>ks. mset (mx_visit s ks) = mset ks)"

lemma kv_put_subset: "set (kv_put k v kvs) \<subseteq> insert (k, v) (set kvs)"
  by (induction k v kvs rule: kv_put.induct) auto

lemma mem_index_ok_visit: "mem_index_ok s \<Longrightarrow> set (mx_visit s ks) = set ks"
  unfolding mem_index_ok_def by (metis set_mset_mset)

lemma mem_index_ok_page: "mem_index_ok s \<Longrightarrow> map_of (mx_pages s) k = Some p \<Longrightarrow> pj_page p = k"
  by (auto simp: mem_index_ok_def dest!: map_of_SomeD)

lemma set_concat_map: "set (concat (map f xs)) = (\<Union>x \<in> set xs. set (f x))"
  by simp

lemma known_key: "k \<in> set (map fst kvs) \<longleftrightarrow> (\<exists>v. map_of kvs k = Some v)"
  by (metis image_set map_of_eq_None_iff not_None_eq)

lemma mem_index_ok_target:
  assumes "mem_index_ok s" and "t \<in> set (mx_links s k)"
  shows "k \<in> set (map fst (mx_targets s))" and "\<exists>p. map_of (mx_pages s) k = Some p"
proof -
  show k: "k \<in> set (map fst (mx_targets s))"
    using assms(2) by (cases "map_of (mx_targets s) k") (simp_all add: mx_links_def known_key del: set_map)
  with assms(1) have "k \<in> set (map fst (mx_pages s))" unfolding mem_index_ok_def by blast
  then show "\<exists>p. map_of (mx_pages s) k = Some p" by (simp only: known_key)
qed

lemma mem_search_member:
  assumes "mem_index_ok s" and "mem_search lower w query sortKey s = Inr results"
  shows "r \<in> set results \<longleftrightarrow>
    (\<exists>k p. map_of (mx_pages s) k = Some p \<and> r \<in> set (page_results lower w (lower (trim_space query)) p))"
proof -
  let ?f = "\<lambda>k. set (page_results lower w (lower (trim_space query)) (mx_page s k))"
  have "set results = (\<Union>k \<in> set (map fst (mx_pages s)). ?f k)"
    using assms(2) mem_index_ok_visit [OF assms(1), of "map fst (mx_pages s)"]
    by (auto simp: mem_search_def Let_def set_concat_map simp del: set_map set_concat)
  then have "r \<in> set results \<longleftrightarrow> (\<exists>k. k \<in> set (map fst (mx_pages s)) \<and> r \<in> ?f k)" by auto
  also have "\<dots> \<longleftrightarrow> (\<exists>k p. map_of (mx_pages s) k = Some p \<and> r \<in> set (page_results lower w (lower (trim_space query)) p))"
    unfolding known_key mx_page_def by (metis option.simps(5))
  finally show ?thesis .
qed

lemma page_results_member:
  "r \<in> set (page_results lower w needle p) \<longleftrightarrow> pj_workspace p = w \<and>
     (\<exists>m snippet. match_page lower needle p = Some (m, snippet) \<and>
        r = \<lparr>sr_page = pj_page p, sr_title = pj_title p, sr_match = m, sr_snippet = snippet,
             sr_updated_at = pj_updated_at p\<rparr>)"
  by (auto simp: page_results_def split: option.splits)

lemma mem_backlinks_set:
  assumes "mem_index_ok s" and "mem_backlinks lower w pageID s = Inr payload"
  shows "set (bp_backlinks payload) = (\<Union>k \<in> set (map fst (mx_targets s)). set (backlink_from s w pageID k))"
    and "set (bp_related payload) = (\<Union>k \<in> set (map fst (mx_pages s)). set (related_to lower s w pageID k))"
  using assms(2) mem_index_ok_visit [OF assms(1), of "map fst (mx_targets s)"]
    mem_index_ok_visit [OF assms(1), of "map fst (mx_pages s)"]
  by (auto simp: mem_backlinks_def Let_def set_concat_map simp del: set_map set_concat)

lemma mem_backlinks_member:
  assumes "mem_index_ok s" and "mem_backlinks lower w pageID s = Inr payload"
  shows "source \<in> br_page ` set (bp_backlinks payload) \<longleftrightarrow>
    source \<noteq> pageID \<and> links_to (mem_index_of s) w source pageID"
proof -
  have "source \<in> br_page ` set (backlink_from s w pageID k) \<longleftrightarrow>
      k = source \<and> source \<noteq> pageID \<and> pageID \<in> set (mx_links s source) \<and> pj_workspace (mx_page s source) = w" for k
    by (auto simp: backlink_from_def)
  then have "source \<in> br_page ` set (bp_backlinks payload) \<longleftrightarrow> source \<in> set (map fst (mx_targets s)) \<and>
      source \<noteq> pageID \<and> pageID \<in> set (mx_links s source) \<and> pj_workspace (mx_page s source) = w"
    unfolding mem_backlinks_set [OF assms] image_UN by auto
  also have "\<dots> \<longleftrightarrow> source \<noteq> pageID \<and> links_to (mem_index_of s) w source pageID"
    using mem_index_ok_target [OF assms(1), of pageID source]
    by (auto simp: links_to_def mem_index_of_def mx_page_def split: option.splits)
  finally show ?thesis .
qed

interpretation memory_search: search_storage "memory_search_store lower" mem_index_of mem_index_ok for lower
proof (unfold_locales, goal_cases)
  case (1 s targets p s')
  then show ?case
    by (auto simp: mem_upsert_page_def mem_index_of_def fun_eq_iff map_of_kv_put mx_links_def)
next
  case (2 s targets p err s')
  then show ?case by (simp add: mem_upsert_page_def)
next
  case (3 s targets w source s')
  then show ?case
    by (auto simp: mem_replace_page_links_def put_links_def mem_index_of_def fun_eq_iff map_of_kv_put mx_links_def
        split: option.splits)
next
  case (4 s targets w source err s')
  then show ?case by (simp add: mem_replace_page_links_def)
next
  case (5 s p targets)
  then show ?case
    using kv_put_subset [of "pj_page p" p "mx_pages s"] distinct_kv_put [of "mx_pages s" "pj_page p" p]
    by (auto simp: mem_upsert_page_def mem_index_ok_def keys_kv_put simp del: set_map)
next
  case (6 s w source targets)
  then show ?case
    by (auto simp: mem_replace_page_links_def mem_index_ok_def keys_kv_put known_key simp del: set_map
        split: option.splits)
next
  case (7 s w query sortKey results r)
  then show ?case
    using mem_search_member [of s lower w query sortKey results r]
    by (auto simp: mem_index_of_def page_results_member dest: mem_index_ok_page)
next
  case (8 s w pageID payload source)
  then show ?case using mem_backlinks_member by simp
qed

section \<open>On PostgreSQL\<close>

text \<open>
  The rows of the two tables, in no particular order. The server's functions are parameters: \<open>ILIKE\<close>,
  the match of a text search query with the search vector of a row, its rank and head line, and the rank
  of a row for the words of a text. A rank is a value of an ordered type with a zero. A statement, or a
  commit, can fail; a commit that was made can lose its answer, and then reports an error too.
\<close>

datatype search_statement =
  UpsertDocument | DeleteEdges | InsertEdge | SelectResults | SelectBacklinks | SelectRelated | SearchCommit | SearchCommitAnswer

type_synonym search_fault = "search_statement \<Rightarrow> string \<Rightarrow> string option"

record link_edge =
  le_source :: string
  le_target :: string
  le_workspace :: string

record search_db =
  dx_documents :: "page_projection list"
  dx_edges :: "link_edge list"

record 'r search_sql =
  sq_ilike :: "string \<Rightarrow> string \<Rightarrow> bool"
  sq_matches :: "page_projection \<Rightarrow> string \<Rightarrow> bool"
  sq_rank :: "page_projection \<Rightarrow> string \<Rightarrow> 'r"
  sq_headline :: "string \<Rightarrow> string \<Rightarrow> string"

text \<open>The loop over the targets, with those seen and the edges so far. The key of the table has no workspace.\<close>

fun insert_edges ::
  "search_fault \<Rightarrow> string \<Rightarrow> string \<Rightarrow> string list \<Rightarrow> string list \<Rightarrow> link_edge list \<Rightarrow> string + link_edge list" where
  "insert_edges fault w source seen [] edges = Inr edges"
| "insert_edges fault w source seen (targetPageID # targets) edges =
     (let t = trim_space targetPageID
      in if t = '''' then insert_edges fault w source seen targets edges
         else if t \<in> set seen then insert_edges fault w source seen targets edges
         else (case fault InsertEdge t of
                 Some err \<Rightarrow> Inl err
               | None \<Rightarrow>
                   if list_ex (\<lambda>e. le_source e = source \<and> le_target e = t) edges then Inl ''duplicate key''
                   else insert_edges fault w source (t # seen) targets
                          (edges @ [\<lparr>le_source = source, le_target = t, le_workspace = w\<rparr>])))"

definition db_replace_links ::
  "search_fault \<Rightarrow> string \<Rightarrow> string \<Rightarrow> string list \<Rightarrow> link_edge list \<Rightarrow> string + link_edge list" where
  "db_replace_links fault w source targets edges =
     (case fault DeleteEdges source of
        Some err \<Rightarrow> Inl err
      | None \<Rightarrow> insert_edges fault w source [] targets
          (filter (\<lambda>e. \<not> (le_workspace e = w \<and> le_source e = source)) edges))"

definition upsert_row :: "page_projection \<Rightarrow> page_projection list \<Rightarrow> page_projection list" where
  "upsert_row p rows =
     (let row = p\<lparr>pj_updated_at := stored_time (pj_updated_at p)\<rparr>
      in if list_ex (\<lambda>r. pj_page r = pj_page p) rows then map (\<lambda>r. if pj_page r = pj_page p then row else r) rows
         else rows @ [row])"

definition db_upsert_page ::
  "search_fault \<Rightarrow> page_projection \<Rightarrow> string list \<Rightarrow> search_db \<Rightarrow> string option \<times> search_db" where
  "db_upsert_page fault p targets d =
     (case fault UpsertDocument (pj_page p) of
        Some err \<Rightarrow> (Some err, d)
      | None \<Rightarrow>
          if pj_embeds p = None then (Some ''null value violates not-null constraint'', d)
          else (case db_replace_links fault (pj_workspace p) (pj_page p) targets (dx_edges d) of
                  Inl err \<Rightarrow> (Some err, d)
                | Inr edges \<Rightarrow>
                    (case fault SearchCommit '''' of
                       Some err \<Rightarrow> (Some err, d)
                     | None \<Rightarrow> (fault SearchCommitAnswer '''',
                                  \<lparr>dx_documents = upsert_row p (dx_documents d), dx_edges = edges\<rparr>))))"

definition db_replace_page_links ::
  "search_fault \<Rightarrow> string \<Rightarrow> string \<Rightarrow> string list \<Rightarrow> search_db \<Rightarrow> string option \<times> search_db" where
  "db_replace_page_links fault w source targets d =
     (case db_replace_links fault w source targets (dx_edges d) of
        Inl err \<Rightarrow> (Some err, d)
      | Inr edges \<Rightarrow>
          (case fault SearchCommit '''' of
             Some err \<Rightarrow> (Some err, d)
           | None \<Rightarrow> (fault SearchCommitAnswer '''', d\<lparr>dx_edges := edges\<rparr>)))"

text \<open>The two statements of \<open>Search\<close>; \<open>%\<close> and \<open>_\<close> in a query are wildcards of the pattern.\<close>

definition like_pattern :: "string \<Rightarrow> string" where
  "like_pattern query = ''%'' @ query @ ''%''"

definition db_latest :: "string \<Rightarrow> search_db \<Rightarrow> search_result list" where
  "db_latest w d =
     map (\<lambda>p. \<lparr>sr_page = pj_page p, sr_title = pj_title p, sr_match = ''content'', sr_snippet = pj_title p,
               sr_updated_at = pj_updated_at p\<rparr>)
       (take 50 (sort_slice (\<lambda>a b. pj_updated_at b < pj_updated_at a)
         (filter (\<lambda>p. pj_workspace p = w) (dx_documents d))))"

definition db_matches :: "'r search_sql \<Rightarrow> string \<Rightarrow> page_projection \<Rightarrow> bool" where
  "db_matches sq query p \<longleftrightarrow>
     sq_matches sq p query \<or> sq_ilike sq (pj_title p) (like_pattern query) \<or>
     list_ex (\<lambda>t. sq_ilike sq t (like_pattern query)) (pj_links p) \<or>
     list_ex (\<lambda>t. sq_ilike sq t (like_pattern query)) (embed_titles p)"

definition db_match_type :: "'r search_sql \<Rightarrow> string \<Rightarrow> page_projection \<Rightarrow> string" where
  "db_match_type sq query p =
     (if sq_ilike sq (pj_title p) (like_pattern query) then ''title''
      else if list_ex (\<lambda>t. sq_ilike sq t (like_pattern query)) (embed_titles p) then ''embed_reference''
      else if list_ex (\<lambda>t. sq_ilike sq t (like_pattern query)) (pj_links p) then ''link''
      else ''content'')"

definition db_snippet :: "'r search_sql \<Rightarrow> string \<Rightarrow> page_projection \<Rightarrow> string" where
  "db_snippet sq query p =
     (if sq_headline sq (pj_text p) query = '''' then pj_title p else sq_headline sq (pj_text p) query)"

definition db_order :: "'r::linorder search_sql \<Rightarrow> string \<Rightarrow> string \<Rightarrow> page_projection \<Rightarrow> page_projection \<Rightarrow> bool" where
  "db_order sq sortKey query a b \<longleftrightarrow>
     (if sortKey = ''updated_at'' then
        pj_updated_at b < pj_updated_at a \<or>
        (pj_updated_at a = pj_updated_at b \<and> sq_rank sq b query < sq_rank sq a query)
      else sq_rank sq b query < sq_rank sq a query \<or>
        (sq_rank sq a query = sq_rank sq b query \<and> pj_updated_at b < pj_updated_at a))"

definition db_search ::
  "search_fault \<Rightarrow> 'r::linorder search_sql \<Rightarrow> string \<Rightarrow> string \<Rightarrow> string \<Rightarrow> search_db \<Rightarrow> string + search_result list" where
  "db_search fault sq w rawQuery sortKey d =
     (let query = trim_space rawQuery
      in case fault SelectResults query of
           Some err \<Rightarrow> Inl err
         | None \<Rightarrow>
             if query = '''' then Inr (db_latest w d)
             else Inr (map (\<lambda>p. \<lparr>sr_page = pj_page p, sr_title = pj_title p, sr_match = db_match_type sq query p,
                                  sr_snippet = db_snippet sq query p, sr_updated_at = pj_updated_at p\<rparr>)
               (take 50 (sort_slice (db_order sq sortKey query)
                 (filter (\<lambda>p. pj_workspace p = w \<and> db_matches sq query p) (dx_documents d))))))"

text \<open>The join of the edges with the documents they come from.\<close>

definition db_backlink_rows :: "string \<Rightarrow> string \<Rightarrow> search_db \<Rightarrow> page_projection list" where
  "db_backlink_rows w pageID d =
     concat (map (\<lambda>e. filter (\<lambda>p. pj_page p = le_source e \<and> pj_workspace p = le_workspace e) (dx_documents d))
       (filter (\<lambda>e. le_workspace e = w \<and> le_target e = pageID) (dx_edges d)))"

definition edge_between :: "search_db \<Rightarrow> string \<Rightarrow> string \<Rightarrow> string \<Rightarrow> bool" where
  "edge_between d w source target \<longleftrightarrow>
     list_ex (\<lambda>e. le_workspace e = w \<and> le_source e = source \<and> le_target e = target) (dx_edges d)"

definition shared_targets :: "search_db \<Rightarrow> string \<Rightarrow> string \<Rightarrow> string \<Rightarrow> nat" where
  "shared_targets d w pageID candidate =
     length (concat (map (\<lambda>e. filter (\<lambda>co. le_workspace co = w \<and> le_source co = pageID \<and> le_target co = le_target e)
         (dx_edges d))
       (filter (\<lambda>e. le_workspace e = w \<and> le_source e = candidate) (dx_edges d))))"

text \<open>The rank of a candidate for the words of the page, zero where the page is not known.\<close>

definition topical_rank :: "'r::zero search_sql \<Rightarrow> search_db \<Rightarrow> string \<Rightarrow> string \<Rightarrow> page_projection \<Rightarrow> 'r" where
  "topical_rank sq d w pageID candidate =
     (case find (\<lambda>p. pj_workspace p = w \<and> pj_page p = pageID) (dx_documents d) of
        None \<Rightarrow> 0
      | Some p \<Rightarrow> sq_rank sq candidate (pj_title p @ '' '' @ pj_text p))"

definition db_relation :: "search_db \<Rightarrow> string \<Rightarrow> string \<Rightarrow> string \<Rightarrow> string" where
  "db_relation d w pageID candidate =
     (if edge_between d w pageID candidate then ''linked_page''
      else if edge_between d w candidate pageID then ''linked_from''
      else if 0 < shared_targets d w pageID candidate then ''shared_links''
      else ''topical_similarity'')"

definition related_order ::
  "'r::{linorder,zero} search_sql \<Rightarrow> search_db \<Rightarrow> string \<Rightarrow> string \<Rightarrow> page_projection \<Rightarrow> page_projection \<Rightarrow> bool" where
  "related_order sq d w pageID a b \<longleftrightarrow>
     (let direct = (\<lambda>p. edge_between d w pageID (pj_page p) \<or> edge_between d w (pj_page p) pageID);
          shared = (\<lambda>p. shared_targets d w pageID (pj_page p));
          rank = topical_rank sq d w pageID
      in if direct a \<noteq> direct b then direct a
         else if shared a \<noteq> shared b then shared b < shared a
         else if rank a \<noteq> rank b then rank b < rank a
         else pj_updated_at b < pj_updated_at a)"

definition db_related_rows ::
  "'r::{linorder,zero} search_sql \<Rightarrow> string \<Rightarrow> string \<Rightarrow> search_db \<Rightarrow> page_projection list" where
  "db_related_rows sq w pageID d =
     take 10 (sort_slice (related_order sq d w pageID)
       (filter (\<lambda>p. pj_workspace p = w \<and> pj_page p \<noteq> pageID \<and>
            (edge_between d w pageID (pj_page p) \<or> edge_between d w (pj_page p) pageID \<or>
             0 < shared_targets d w pageID (pj_page p) \<or> 0 < topical_rank sq d w pageID p))
         (dx_documents d)))"

definition db_backlinks ::
  "search_fault \<Rightarrow> 'r::{linorder,zero} search_sql \<Rightarrow> string \<Rightarrow> string \<Rightarrow> search_db \<Rightarrow> string + backlinks_payload" where
  "db_backlinks fault sq w pageID d =
     (case fault SelectBacklinks pageID of
        Some err \<Rightarrow> Inl err
      | None \<Rightarrow>
          (case fault SelectRelated pageID of
             Some err \<Rightarrow> Inl err
           | None \<Rightarrow>
               Inr \<lparr>bp_page = pageID,
                    bp_backlinks = map (\<lambda>p. \<lparr>br_page = pj_page p, br_title = pj_title p, br_relation = ''backlink''\<rparr>)
                      (sort_slice (\<lambda>a b. pj_updated_at b < pj_updated_at a \<or>
                           (pj_updated_at a = pj_updated_at b \<and> pj_title a < pj_title b))
                        (db_backlink_rows w pageID d)),
                    bp_related = map (\<lambda>p. \<lparr>br_page = pj_page p, br_title = pj_title p,
                                           br_relation = db_relation d w pageID (pj_page p)\<rparr>)
                      (db_related_rows sq w pageID d)\<rparr>))"

definition postgres_search_store :: "search_fault \<Rightarrow> 'r::{linorder,zero} search_sql \<Rightarrow> search_db search_store" where
  "postgres_search_store fault sq =
     \<lparr>ss_upsert = db_upsert_page fault, ss_replace_links = db_replace_page_links fault,
      ss_search = db_search fault sq, ss_backlinks = db_backlinks fault sq\<rparr>"

lemma postgres_search_store_simps [simp]:
  "ss_upsert (postgres_search_store fault sq) = db_upsert_page fault"
  "ss_replace_links (postgres_search_store fault sq) = db_replace_page_links fault"
  "ss_search (postgres_search_store fault sq) = db_search fault sq"
  "ss_backlinks (postgres_search_store fault sq) = db_backlinks fault sq"
  by (simp_all add: postgres_search_store_def)

section \<open>The contract of the PostgreSQL store\<close>

definition db_links :: "search_db \<Rightarrow> string \<Rightarrow> string \<Rightarrow> string set" where
  "db_links d w k = le_target ` {e \<in> set (dx_edges d). le_source e = k \<and> le_workspace e = w}"

definition db_index :: "search_db \<Rightarrow> search_index" where
  "db_index d k =
     map_option (\<lambda>p. (untimed p, db_links d (pj_workspace p) k)) (find (\<lambda>p. pj_page p = k) (dx_documents d))"

definition db_index_ok :: "search_db \<Rightarrow> bool" where
  "db_index_ok d \<longleftrightarrow> distinct (map pj_page (dx_documents d))"

lemma insert_edges_set:
  assumes "insert_edges fault w source seen targets edges = Inr edges'" and "clean_targets targets"
  shows "set edges' = set edges \<union>
    (\<lambda>t. \<lparr>le_source = source, le_target = t, le_workspace = w\<rparr>) ` (set targets - set seen)"
  using assms
proof (induction fault w source seen targets edges rule: insert_edges.induct)
  case (1 fault w source seen edges)
  then show ?case by simp
next
  case (2 fault w source seen t targets edges)
  then have t: "t \<noteq> ''''" "trim_space t = t" and clean: "clean_targets targets" by (auto simp: clean_targets_def)
  show ?case
  proof (cases "t \<in> set seen")
    case True
    with 2 t clean show ?thesis by (auto simp: Let_def)
  next
    case False
    with 2(4) t have "insert_edges fault w source (t # seen) targets
        (edges @ [\<lparr>le_source = source, le_target = t, le_workspace = w\<rparr>]) = Inr edges'"
      by (auto simp: Let_def split: option.splits if_splits)
    moreover from 2(4) t False have "fault InsertEdge t = None"
      and "\<not> list_ex (\<lambda>e. le_source e = source \<and> le_target e = t) edges"
      by (auto simp: Let_def split: option.splits if_splits)
    ultimately show ?thesis using 2(3) [of t] t False clean by auto
  qed
qed

lemma db_replace_links_set:
  assumes "db_replace_links fault w source targets edges = Inr edges'" and "clean_targets targets"
  shows "set edges' = {e \<in> set edges. \<not> (le_workspace e = w \<and> le_source e = source)} \<union>
    (\<lambda>t. \<lparr>le_source = source, le_target = t, le_workspace = w\<rparr>) ` set targets"
  using assms insert_edges_set [of fault w source "[]" targets]
  by (fastforce simp: db_replace_links_def split: option.splits)

lemma db_links_iff:
  "t \<in> db_links d w k \<longleftrightarrow> \<lparr>le_source = k, le_target = t, le_workspace = w\<rparr> \<in> set (dx_edges d)"
proof
  assume "t \<in> db_links d w k"
  then obtain e where "e \<in> set (dx_edges d)" and "le_source e = k" and "le_workspace e = w" and "le_target e = t"
    by (auto simp: db_links_def)
  moreover from this have "e = \<lparr>le_source = k, le_target = t, le_workspace = w\<rparr>" by simp
  ultimately show "\<lparr>le_source = k, le_target = t, le_workspace = w\<rparr> \<in> set (dx_edges d)" by metis
next
  assume "\<lparr>le_source = k, le_target = t, le_workspace = w\<rparr> \<in> set (dx_edges d)"
  then show "t \<in> db_links d w k" unfolding db_links_def by (intro image_eqI) auto
qed

lemma db_links_replaced:
  assumes "db_replace_links fault w source targets (dx_edges d) = Inr edges'" and "clean_targets targets"
  shows "db_links (d\<lparr>dx_edges := edges'\<rparr>) w' k = (if k = source \<and> w' = w then set targets else db_links d w' k)"
  using db_replace_links_set [OF assms] by (auto simp: set_eq_iff db_links_iff)

lemma db_links_documents [simp]: "db_links (d\<lparr>dx_documents := docs\<rparr>) w k = db_links d w k"
  by (simp add: db_links_def)

lemma find_upsert_row:
  "find (\<lambda>r. pj_page r = k) (upsert_row p rows) =
     (if k = pj_page p then Some (p\<lparr>pj_updated_at := stored_time (pj_updated_at p)\<rparr>)
      else find (\<lambda>r. pj_page r = k) rows)"
proof -
  let ?row = "p\<lparr>pj_updated_at := stored_time (pj_updated_at p)\<rparr>"
  have put: "find (\<lambda>r. pj_page r = k) (map (\<lambda>r. if pj_page r = pj_page p then ?row else r) rs) =
      (if k = pj_page p then if list_ex (\<lambda>r. pj_page r = pj_page p) rs then Some ?row else None
       else find (\<lambda>r. pj_page r = k) rs)" for rs
    by (induction rs) auto
  have none: "\<not> list_ex (\<lambda>r. pj_page r = pj_page p) rows \<Longrightarrow> find (\<lambda>r. pj_page r = pj_page p) rows = None"
    by (auto simp: list_ex_iff intro: find_none)
  show ?thesis using put [of rows] none
    by (auto simp: upsert_row_def Let_def find_append split: option.splits)
qed

lemma pages_upsert_row:
  "map pj_page (upsert_row p rows) =
     (if pj_page p \<in> set (map pj_page rows) then map pj_page rows else map pj_page rows @ [pj_page p])"
proof -
  have "list_ex (\<lambda>r. pj_page r = pj_page p) rows \<longleftrightarrow> pj_page p \<in> set (map pj_page rows)"
    by (induction rows) auto
  then show ?thesis by (simp add: upsert_row_def Let_def del: set_map)
qed

lemma db_index_member:
  assumes "db_index_ok d" and "p \<in> set (dx_documents d)"
  shows "db_index d (pj_page p) = Some (untimed p, db_links d (pj_workspace p) (pj_page p))"
  using find_unique [OF assms(1) [unfolded db_index_ok_def] assms(2)] by (simp add: db_index_def)

lemma db_search_member:
  assumes "db_search fault sq w query sortKey d = Inr results" and "r \<in> set results"
  obtains p where "p \<in> set (dx_documents d)" and "pj_workspace p = w" and "sr_page r = pj_page p"
    and "sr_title r = pj_title p"
  using assms by (auto simp: db_search_def db_latest_def Let_def split: option.splits if_splits dest!: in_set_takeD)

lemma db_backlink_rows_member:
  assumes "db_index_ok d"
  shows "source \<in> pj_page ` set (db_backlink_rows w pageID d) \<longleftrightarrow> links_to (db_index d) w source pageID"
proof -
  have "source \<in> pj_page ` set (db_backlink_rows w pageID d) \<longleftrightarrow>
      (\<exists>p \<in> set (dx_documents d). pj_page p = source \<and> pj_workspace p = w \<and> pageID \<in> db_links d w source)"
    (is "?l = ?r")
  proof
    assume ?l
    then obtain e p where "e \<in> set (dx_edges d)" and "le_workspace e = w" and "le_target e = pageID"
      and "p \<in> set (dx_documents d)" and "pj_page p = le_source e" and "pj_workspace p = le_workspace e" and "pj_page p = source"
      by (auto simp: db_backlink_rows_def)
    then show ?r unfolding db_links_def by (intro bexI [of _ p] conjI image_eqI [of _ _ e]) auto
  next
    assume ?r
    then obtain p where p: "p \<in> set (dx_documents d)" "pj_page p = source" "pj_workspace p = w"
      and e: "\<lparr>le_source = source, le_target = pageID, le_workspace = w\<rparr> \<in> set (dx_edges d)"
      by (auto simp: db_links_iff)
    then have "p \<in> set (db_backlink_rows w pageID d)" unfolding db_backlink_rows_def set_concat_map
      by (intro UN_I [OF _ ]) (auto intro: e)
    with p show ?l by blast
  qed
  also have "\<dots> \<longleftrightarrow> links_to (db_index d) w source pageID"
  proof
    assume "\<exists>p \<in> set (dx_documents d). pj_page p = source \<and> pj_workspace p = w \<and> pageID \<in> db_links d w source"
    then show "links_to (db_index d) w source pageID"
      using db_index_member [OF assms] by (auto simp: links_to_def)
  next
    assume "links_to (db_index d) w source pageID"
    then show "\<exists>p \<in> set (dx_documents d). pj_page p = source \<and> pj_workspace p = w \<and> pageID \<in> db_links d w source"
      by (auto simp: links_to_def db_index_def split: option.splits dest!: find_SomeD)
  qed
  finally show ?thesis .
qed

lemma untimed_stored [simp]: "untimed (p\<lparr>pj_updated_at := t\<rparr>) = untimed p"
  by (simp add: untimed_def)

lemma db_upserted:
  assumes "clean_targets targets" and "db_upsert_page fault p targets s = (r, s')"
  shows "db_index s' = (db_index s)(pj_page p \<mapsto> (untimed p, set targets)) \<or> r \<noteq> None \<and> s' = s"
proof (cases "r \<noteq> None \<and> s' = s")
  case False
  then obtain edges where edges: "db_replace_links fault (pj_workspace p) (pj_page p) targets (dx_edges s) = Inr edges"
    and s': "s' = \<lparr>dx_documents = upsert_row p (dx_documents s), dx_edges = edges\<rparr>"
    using assms(2)
    by (cases "fault UpsertDocument (pj_page p)"; cases "pj_embeds p = None"; cases "fault SearchCommit ''''";
        cases "db_replace_links fault (pj_workspace p) (pj_page p) targets (dx_edges s)")
       (auto simp: db_upsert_page_def)
  have "db_links s' w k = db_links (s\<lparr>dx_edges := edges\<rparr>) w k" for w k by (simp add: s' db_links_def)
  with db_links_replaced [OF edges assms(1)]
  have "db_index s' = (db_index s)(pj_page p \<mapsto> (untimed p, set targets))"
    by (auto simp: db_index_def s' find_upsert_row fun_eq_iff)
  then show ?thesis ..
qed simp

lemma db_replaced:
  assumes "clean_targets targets" and "db_replace_page_links fault w source targets s = (r, s')"
  shows "db_index s' = put_links w source (set targets) (db_index s) \<or> r \<noteq> None \<and> s' = s"
proof (cases "r \<noteq> None \<and> s' = s")
  case False
  then obtain edges where edges: "db_replace_links fault w source targets (dx_edges s) = Inr edges"
    and s': "s' = s\<lparr>dx_edges := edges\<rparr>"
    using assms(2)
    by (cases "fault SearchCommit ''''"; cases "db_replace_links fault w source targets (dx_edges s)")
       (auto simp: db_replace_page_links_def)
  have "db_index s' k = put_links w source (set targets) (db_index s) k" for k
    by (cases "k = source"; cases "find (\<lambda>p. pj_page p = source) (dx_documents s)")
       (auto simp: put_links_def db_index_def s' db_links_replaced [OF edges assms(1)] split: option.splits)
  then show ?thesis by blast
qed simp

interpretation postgres_search: search_storage "postgres_search_store fault sq" db_index db_index_ok
  for fault and sq :: "'r::{linorder,zero} search_sql"
proof (unfold_locales, goal_cases)
  case (1 s targets p s')
  then show ?case using db_upserted [of targets fault p s None s'] by simp
next
  case (2 s targets p err s')
  then show ?case using db_upserted [of targets fault p s "Some err" s'] by auto
next
  case (3 s targets w source s')
  then show ?case using db_replaced [of targets fault w source s None s'] by simp
next
  case (4 s targets w source err s')
  then show ?case using db_replaced [of targets fault w source s "Some err" s'] by auto
next
  case (5 s p targets)
  then show ?case
    by (auto simp: db_upsert_page_def db_index_ok_def pages_upsert_row split: option.splits if_splits sum.splits)
next
  case (6 s w source targets)
  then show ?case by (auto simp: db_replace_page_links_def db_index_ok_def split: option.splits sum.splits)
next
  case (7 s w query sortKey results r)
  then show ?case using db_index_member [of s]
    by (auto elim!: db_search_member [of fault sq w query sortKey s results r])
next
  case (8 s w pageID payload source)
  then show ?case
    using db_backlink_rows_member [of s source w pageID]
    by (auto simp: db_backlinks_def image_image split: option.splits)
qed

end
