(* ===== verification/SearchProject.thy ===== *)
theory SearchProject
  imports SearchStores Wire Outbox
begin

text \<open>
  How the search service follows the pages: the projection of page events
  (\<^verbatim>\<open>services/knowledge-graph-search-service/internal/usecase/project_page_events.go\<close>) and the consumer
  that feeds it (\<^verbatim>\<open>internal/adapters/nats_consumer.go\<close>); that a store then holds what the delivered
  events say, and what the page service's own events say of a page.

  A message is a subject and a payload, \<open>None\<close> where it is not JSON. \<open>parse_time\<close> is \<open>time.Parse\<close> with the
  layout \<open>RFC3339Nano\<close>.
\<close>

section \<open>Projecting events\<close>

record search_document =
  sx_page :: string
  sx_workspace :: string
  sx_title :: string
  sx_text :: string
  sx_embeds :: "string list option"
  sx_links :: "(string \<times> string) list list"
  sx_updated_at :: string

text \<open>Decoding into a \<open>[]string\<close> that may stay nil, and into a \<open>map[string]string\<close>, here without its nil.\<close>

definition decode_strings :: "json \<Rightarrow> string list option option" where
  "decode_strings v = (if v = JNull then Some None else map_option Some (decode_slice (decode_string '''') v))"

fun decode_string_members :: "(string \<times> json) list \<Rightarrow> (string \<times> string) list \<Rightarrow> (string \<times> string) list option" where
  "decode_string_members [] m = Some m"
| "decode_string_members ((k, v) # kvs) m =
     (case decode_string '''' v of None \<Rightarrow> None | Some s \<Rightarrow> decode_string_members kvs (kv_put k s m))"

fun decode_string_map :: "json \<Rightarrow> (string \<times> string) list option" where
  "decode_string_map (JObj kvs) = decode_string_members kvs []"
| "decode_string_map JNull = Some []"
| "decode_string_map _ = None"

definition set_search_field :: "string \<Rightarrow> json \<Rightarrow> search_document \<Rightarrow> search_document option" where
  "set_search_field k v x =
     (if is_field ''page_id'' k then map_option (\<lambda>s. x\<lparr>sx_page := s\<rparr>) (decode_string (sx_page x) v)
      else if is_field ''workspace_id'' k then
        map_option (\<lambda>s. x\<lparr>sx_workspace := s\<rparr>) (decode_string (sx_workspace x) v)
      else if is_field ''title'' k then map_option (\<lambda>s. x\<lparr>sx_title := s\<rparr>) (decode_string (sx_title x) v)
      else if is_field ''searchable_text'' k then
        map_option (\<lambda>s. x\<lparr>sx_text := s\<rparr>) (decode_string (sx_text x) v)
      else if is_field ''embedded_titles'' k then map_option (\<lambda>ts. x\<lparr>sx_embeds := ts\<rparr>) (decode_strings v)
      else if is_field ''canonical_links'' k then
        map_option (\<lambda>ls. x\<lparr>sx_links := ls\<rparr>) (decode_slice decode_string_map v)
      else if is_field ''updated_at'' k then
        map_option (\<lambda>s. x\<lparr>sx_updated_at := s\<rparr>) (decode_string (sx_updated_at x) v)
      else Some x)"

definition zero_search_document :: search_document where
  "zero_search_document =
     \<lparr>sx_page = '''', sx_workspace = '''', sx_title = '''', sx_text = '''', sx_embeds = None, sx_links = [],
      sx_updated_at = ''''\<rparr>"

text \<open>\<open>link[key]\<close>, trimmed, of the links where that is not empty.\<close>

definition link_values :: "string \<Rightarrow> (string \<times> string) list list \<Rightarrow> string list" where
  "link_values key links =
     filter (\<lambda>v. v \<noteq> '''') (map (\<lambda>link. trim_space (case map_of link key of None \<Rightarrow> '''' | Some v \<Rightarrow> v)) links)"

definition projection_of :: "(string \<Rightarrow> gotime option) \<Rightarrow> gotime \<Rightarrow> search_document \<Rightarrow> page_projection" where
  "projection_of parse_time occurredAt x =
     \<lparr>pj_page = sx_page x, pj_workspace = sx_workspace x, pj_title = sx_title x, pj_text = sx_text x,
      pj_links = link_values ''target_title'' (sx_links x), pj_embeds = sx_embeds x,
      pj_updated_at = (if sx_updated_at x = '''' then occurredAt
                       else (case parse_time (sx_updated_at x) of None \<Rightarrow> occurredAt | Some t \<Rightarrow> t))\<rparr>"

definition decode_failed :: string where
  "decode_failed = ''json: cannot unmarshal''"

definition project_search_document ::
  "(string \<Rightarrow> gotime option) \<Rightarrow> 's search_store \<Rightarrow> json option \<Rightarrow> gotime \<Rightarrow> 's \<Rightarrow> string option \<times> 's" where
  "project_search_document parse_time store payload occurredAt s =
     (case Option.bind payload (decode_struct set_search_field zero_search_document) of
        None \<Rightarrow> (Some decode_failed, s)
      | Some x \<Rightarrow>
          ss_upsert store (projection_of parse_time occurredAt x) (link_values ''target_page_id'' (sx_links x)) s)"

record link_document =
  lx_page :: string
  lx_workspace :: string
  lx_targets :: "string list"

definition set_target_field :: "string \<Rightarrow> json \<Rightarrow> string \<Rightarrow> string option" where
  "set_target_field k v x = (if is_field ''target_page_id'' k then decode_string x v else Some x)"

definition set_links_field :: "string \<Rightarrow> json \<Rightarrow> link_document \<Rightarrow> link_document option" where
  "set_links_field k v x =
     (if is_field ''page_id'' k then map_option (\<lambda>s. x\<lparr>lx_page := s\<rparr>) (decode_string (lx_page x) v)
      else if is_field ''workspace_id'' k then
        map_option (\<lambda>s. x\<lparr>lx_workspace := s\<rparr>) (decode_string (lx_workspace x) v)
      else if is_field ''links'' k then
        map_option (\<lambda>ts. x\<lparr>lx_targets := ts\<rparr>) (decode_slice (decode_struct set_target_field '''') v)
      else Some x)"

definition zero_link_document :: link_document where
  "zero_link_document = \<lparr>lx_page = '''', lx_workspace = '''', lx_targets = []\<rparr>"

definition project_page_links :: "'s search_store \<Rightarrow> json option \<Rightarrow> 's \<Rightarrow> string option \<times> 's" where
  "project_page_links store payload s =
     (case Option.bind payload (decode_struct set_links_field zero_link_document) of
        None \<Rightarrow> (Some decode_failed, s)
      | Some x \<Rightarrow>
          ss_replace_links store (lx_workspace x) (lx_page x)
            (filter (\<lambda>t. t \<noteq> '''') (map trim_space (lx_targets x))) s)"

definition project ::
  "(string \<Rightarrow> gotime option) \<Rightarrow> 's search_store \<Rightarrow> string \<Rightarrow> json option \<Rightarrow> gotime \<Rightarrow> 's \<Rightarrow> string option \<times> 's" where
  "project parse_time store subject payload occurredAt s =
     (if subject = ''page.draft.saved'' \<or> subject = ''page.published'' then
        project_search_document parse_time store payload occurredAt s
      else if subject = ''page.links.extracted'' then project_page_links store payload s
      else (None, s))"

text \<open>
  The consumer's loop over the messages it gets before its context ends. It gives every message the zero
  time, and drops what the projection fails with.
\<close>

fun consume_pages ::
  "(string \<Rightarrow> gotime option) \<Rightarrow> 's search_store \<Rightarrow> (string \<times> json option) list \<Rightarrow> 's \<Rightarrow> 's" where
  "consume_pages parse_time store [] s = s"
| "consume_pages parse_time store ((subject, payload) # messages) s =
     consume_pages parse_time store messages (snd (project parse_time store subject payload zero_time s))"

section \<open>Trimmed strings\<close>

lemma skip_spaces_idem [simp]: "skip_spaces p1 p2 p3 (skip_spaces p1 p2 p3 s) = skip_spaces p1 p2 p3 s"
  by (induction p1 p2 p3 s rule: skip_spaces.induct) auto

lemma skip_spaces_prefix:
  assumes "skip_spaces p1 p2 p3 s = s" and "prefix t s"
  shows "skip_spaces p1 p2 p3 t = t"
proof -
  have len: "length (skip_spaces p1 p2 p3 u) \<le> length u" for u
    by (induction p1 p2 p3 u rule: skip_spaces.induct) auto
  have drop: "c # u \<noteq> skip_spaces p1 p2 p3 u" and "c # d # u \<noteq> skip_spaces p1 p2 p3 u"
    and "c # d # e # u \<noteq> skip_spaces p1 p2 p3 u" for c d e u
    using len [of u] by (metis impossible_Cons le_SucI length_Cons)+
  then show ?thesis
    using assms
    by (cases "(p1, p2, p3, t)" rule: skip_spaces.cases)
       (auto simp: prefix_def split: if_splits elim!: skip_spaces.elims)
qed

lemma skip_spaces_suffix: "suffix (skip_spaces p1 p2 p3 s) s"
  by (induction p1 p2 p3 s rule: skip_spaces.induct) (auto simp: suffix_Cons)

lemma trim_space_idem [simp]: "trim_space (trim_space s) = trim_space s"
proof -
  have "prefix (trim_right u) u" for u
    unfolding trim_right_def using skip_spaces_suffix by (metis suffix_to_prefix rev_rev_ident)
  then have "trim_left (trim_space s) = trim_space s"
    unfolding trim_space_def trim_left_def using skip_spaces_prefix skip_spaces_idem by metis
  moreover have "trim_right (trim_space s) = trim_space s"
    by (simp add: trim_space_def trim_right_def)
  ultimately show ?thesis by (simp add: trim_space_def)
qed

section \<open>What the events say\<close>

text \<open>
  The specification: a message replaces what is known of its page, or the links of a page known in that
  workspace, or changes nothing. The index after a sequence of messages is what they make of it one
  after the other.
\<close>

datatype index_change =
  PageChanged page_projection "string list" | LinksChanged string string "string list" | Unchanged

definition index_change_of :: "(string \<Rightarrow> gotime option) \<Rightarrow> string \<Rightarrow> json option \<Rightarrow> index_change" where
  "index_change_of parse_time subject payload =
     (if subject = ''page.draft.saved'' \<or> subject = ''page.published'' then
        (case Option.bind payload (decode_struct set_search_field zero_search_document) of
           None \<Rightarrow> Unchanged
         | Some x \<Rightarrow> PageChanged (projection_of parse_time zero_time x) (link_values ''target_page_id'' (sx_links x)))
      else if subject = ''page.links.extracted'' then
        (case Option.bind payload (decode_struct set_links_field zero_link_document) of
           None \<Rightarrow> Unchanged
         | Some x \<Rightarrow> LinksChanged (lx_workspace x) (lx_page x) (filter (\<lambda>t. t \<noteq> '''') (map trim_space (lx_targets x))))
      else Unchanged)"

fun apply_change :: "index_change \<Rightarrow> search_index \<Rightarrow> search_index" where
  "apply_change (PageChanged p targets) ix = ix(pj_page p \<mapsto> (untimed p, set targets))"
| "apply_change (LinksChanged w source targets) ix = put_links w source (set targets) ix"
| "apply_change Unchanged ix = ix"

fun follow_events :: "(string \<Rightarrow> gotime option) \<Rightarrow> (string \<times> json option) list \<Rightarrow> search_index \<Rightarrow> search_index" where
  "follow_events parse_time [] ix = ix"
| "follow_events parse_time ((subject, payload) # messages) ix =
     follow_events parse_time messages (apply_change (index_change_of parse_time subject payload) ix)"

fun concerns :: "index_change \<Rightarrow> string \<Rightarrow> bool" where
  "concerns (PageChanged p targets) k = (pj_page p = k)"
| "concerns (LinksChanged w source targets) k = (source = k)"
| "concerns Unchanged k = False"

lemma apply_change_other: "\<not> concerns c k \<Longrightarrow> apply_change c ix k = ix k"
  by (cases c) (auto simp: put_links_def split: option.splits)

lemma follow_events_append:
  "follow_events parse_time (ms @ ms') ix = follow_events parse_time ms' (follow_events parse_time ms ix)"
  by (induction ms arbitrary: ix) auto

lemma follow_events_other:
  "\<forall>(subject, payload) \<in> set ms. \<not> concerns (index_change_of parse_time subject payload) k \<Longrightarrow>
   follow_events parse_time ms ix k = ix k"
  by (induction ms arbitrary: ix) (auto simp: apply_change_other)

lemma clean_link_values [simp]: "clean_targets (link_values key links)"
  by (auto simp: clean_targets_def link_values_def)

lemma clean_trimmed [simp]: "clean_targets (filter (\<lambda>t. t \<noteq> '''') (map trim_space ts))"
  by (auto simp: clean_targets_def)

context search_storage
begin

lemma project_invar: "invar s \<Longrightarrow> invar (snd (project parse_time ops subject payload occurredAt s))"
  by (auto simp: project_def project_search_document_def project_page_links_def
      intro: invar_upserted invar_replaced split: option.splits)

lemma project_index:
  assumes "invar s" and "project parse_time ops subject payload zero_time s = (r, s')"
  shows "index s' = apply_change (index_change_of parse_time subject payload) (index s) \<or> r \<noteq> None \<and> index s' = index s"
proof (cases r)
  case None
  with assms show ?thesis
    by (auto simp: project_def index_change_of_def project_search_document_def project_page_links_def
        decode_failed_def upserted [OF assms(1) clean_link_values] replaced [OF assms(1) clean_trimmed]
        split: if_splits option.splits)
next
  case (Some err)
  with assms show ?thesis
    by (auto simp: project_def project_search_document_def project_page_links_def
        index_change_of_def dest!: not_upserted [OF assms(1) clean_link_values] not_replaced [OF assms(1) clean_trimmed]
        split: if_splits option.splits)
qed

lemma consume_invar: "invar s \<Longrightarrow> invar (consume_pages parse_time ops messages s)"
  by (induction messages arbitrary: s) (auto simp: project_invar)

text \<open>Where no operation of the store fails the index follows the events.\<close>

lemma project_fails:
  assumes "\<And>p targets s. fst (ss_upsert ops p targets s) = None"
    and "\<And>w source targets s. fst (ss_replace_links ops w source targets s) = None"
    and "fst (project parse_time ops subject payload zero_time s) \<noteq> None"
  shows "index_change_of parse_time subject payload = Unchanged"
  using assms(3)
  by (auto simp: project_def index_change_of_def project_search_document_def project_page_links_def assms(1,2)
      split: if_splits option.splits)

lemma consume_follows:
  assumes "\<And>p targets s. fst (ss_upsert ops p targets s) = None"
    and "\<And>w source targets s. fst (ss_replace_links ops w source targets s) = None"
    and "invar s"
  shows "index (consume_pages parse_time ops messages s) = follow_events parse_time messages (index s)"
  using assms(3)
proof (induction messages arbitrary: s)
  case Nil
  then show ?case by simp
next
  case (Cons m messages)
  obtain subject payload where m: "m = (subject, payload)" by fastforce
  obtain r s' where p: "project parse_time ops subject payload zero_time s = (r, s')" by fastforce
  have "index s' = apply_change (index_change_of parse_time subject payload) (index s)"
  proof (cases "r = None")
    case True
    with project_index [OF Cons.prems p] show ?thesis by simp
  next
    case False
    with p have "fst (project parse_time ops subject payload zero_time s) \<noteq> None" by simp
    then have "index_change_of parse_time subject payload = Unchanged" by (rule project_fails [OF assms(1,2)])
    with project_index [OF Cons.prems p] False show ?thesis by simp
  qed
  moreover have "invar s'" using project_invar [OF Cons.prems] p by (metis snd_conv)
  ultimately show ?case using Cons.IH by (simp add: m p)
qed

end

lemma memory_consume_follows:
  "mem_index_ok s \<Longrightarrow> mem_index_of (consume_pages parse_time (memory_search_store lower) messages s) =
     follow_events parse_time messages (mem_index_of s)"
  by (rule memory_search.consume_follows) (simp_all add: mem_upsert_page_def mem_replace_page_links_def)

section \<open>The page service's events\<close>

lemma search_names:
  "plain_name ''workspace_id''" "plain_name ''revision_no''" "plain_name ''revision_id''" "plain_name ''saved_via''"
  "plain_name ''canonical_links''" "plain_name ''embedded_tables''" "plain_name ''embedded_titles''"
  "plain_name ''attachment_ids''" "plain_name ''searchable_text''" "plain_name ''updated_at''"
  "plain_name ''published_revision_no''" "plain_name ''published_revision_id''" "plain_name ''links''"
  "plain_name ''target_page_id''" "plain_name ''target_title''"
  by code_simp+

lemma decode_canonical_links:
  "decode_slice decode_string_map (canonical_links_json d refs) =
     Some (map (\<lambda>r. [(''target_page_id'', lr_target r), (''block_id'', lr_block r),
                     (''target_title'', link_title_by_block_id d (lr_block r))]) (rf_links refs))"
  by (auto simp: canonical_links_json_def intro!: decode_each_map)

lemma decode_embedded_titles:
  "decode_strings (embedded_titles_json d refs) =
     Some (Some (filter (\<lambda>t. t \<noteq> '''') (map (\<lambda>r. embed_title_by_block_id d (er_block r)) (rf_tables refs))))"
  using decode_each_map [of _ "decode_string ''''" JStr "\<lambda>t. t"]
  by (simp add: decode_strings_def embedded_titles_json_def)

lemma rfc3339_not_empty: "rfc3339_nano t \<noteq> ''''"
  by (simp add: rfc3339_nano_def Let_def split: prod.split)

text \<open>What the event of a saved draft, or of a publication, says of the page.\<close>

definition indexed_page :: "(string \<Rightarrow> gotime option) \<Rightarrow> page \<Rightarrow> page_revision \<Rightarrow> document_references \<Rightarrow> page_projection" where
  "indexed_page parse_time page revision refs =
     \<lparr>pj_page = pg_id page, pj_workspace = pg_workspace page, pj_title = rv_title revision,
      pj_text = flatten_searchable_text (rv_document revision),
      pj_links = filter (\<lambda>t. t \<noteq> '''')
        (map (\<lambda>r. trim_space (link_title_by_block_id (rv_document revision) (lr_block r))) (rf_links refs)),
      pj_embeds = Some (filter (\<lambda>t. t \<noteq> '''')
        (map (\<lambda>r. embed_title_by_block_id (rv_document revision) (er_block r)) (rf_tables refs))),
      pj_updated_at = (case parse_time (rfc3339_nano (rv_created_at revision)) of None \<Rightarrow> zero_time | Some t \<Rightarrow> t)\<rparr>"

definition indexed_targets :: "document_references \<Rightarrow> string list" where
  "indexed_targets refs = filter (\<lambda>t. t \<noteq> '''') (map (\<lambda>r. trim_space (lr_target r)) (rf_links refs))"

lemma link_values_events:
  "link_values ''target_title'' (map (\<lambda>r. [(''target_page_id'', a r), (''block_id'', b r), (''target_title'', c r)]) rs) =
     filter (\<lambda>t. t \<noteq> '''') (map (\<lambda>r. trim_space (c r)) rs)"
  "link_values ''target_page_id'' (map (\<lambda>r. [(''target_page_id'', a r), (''block_id'', b r), (''target_title'', c r)]) rs) =
     filter (\<lambda>t. t \<noteq> '''') (map (\<lambda>r. trim_space (a r)) rs)"
  by (simp_all add: link_values_def comp_def)

lemma decode_draft_saved:
  "decode_struct set_search_field zero_search_document (draft_saved_payload page revision refs) =
     Some \<lparr>sx_page = pg_id page, sx_workspace = pg_workspace page, sx_title = rv_title revision,
       sx_text = flatten_searchable_text (rv_document revision),
       sx_embeds = Some (filter (\<lambda>t. t \<noteq> '''')
         (map (\<lambda>r. embed_title_by_block_id (rv_document revision) (er_block r)) (rf_tables refs))),
       sx_links = map (\<lambda>r. [(''target_page_id'', lr_target r), (''block_id'', lr_block r),
         (''target_title'', link_title_by_block_id (rv_document revision) (lr_block r))]) (rf_links refs),
       sx_updated_at = rfc3339_nano (rv_created_at revision)\<rparr>"
  by (simp add: draft_saved_payload_def set_search_field_def field_simps search_names zero_search_document_def
      decode_canonical_links decode_embedded_titles)

lemma draft_saved_change:
  "index_change_of parse_time ''page.draft.saved'' (Some (draft_saved_payload page revision refs)) =
     PageChanged (indexed_page parse_time page revision refs) (indexed_targets refs)"
  by (simp add: index_change_of_def decode_draft_saved projection_of_def rfc3339_not_empty link_values_events
      indexed_page_def indexed_targets_def)

end
