(* ===== verification/SearchApi.thy ===== *)
theory SearchApi
  imports Search Http
begin

text \<open>
  The REST handlers of the search service
  (\<^verbatim>\<open>services/knowledge-graph-search-service/api/rest/search_handler.go\<close>).
\<close>

text \<open>The \<open>firstNonEmpty\<close> of this service looks at the trimmed value.\<close>

fun first_not_blank :: "string list \<Rightarrow> string" where
  "first_not_blank [] = ''''"
| "first_not_blank (v # vs) = (if trim_space v \<noteq> '''' then v else first_not_blank vs)"

definition search_error_answer :: "'b http_request \<Rightarrow> search_error \<Rightarrow> 'a http_response" where
  "search_error_answer r err =
     (if err = ErrSearchForbidden then write_error r 403 ''forbidden'' (search_error_text err)
      else write_error r 500 ''internal_error'' (search_error_text err))"

definition search_request :: "'b http_request \<Rightarrow> search_input" where
  "search_request r =
     \<lparr>si_workspace = first_not_blank [trim_space (hr_query r ''workspace_id''), header_workspace (hr_headers r)],
      si_query = trim_space (hr_query r ''q''), si_sort = trim_space (hr_query r ''sort''),
      si_actor = header_actor (hr_headers r), si_roles = header_roles (hr_headers r),
      si_authenticated = is_authenticated (hr_headers r)\<rparr>"

definition handle_search ::
  "'s search_store \<Rightarrow> remote_authz option \<Rightarrow> 'b http_request \<Rightarrow> 's \<Rightarrow> search_result list http_response" where
  "handle_search store checker r s =
     (case search_pages store checker (search_request r) s of
        Inl err \<Rightarrow> search_error_answer r err
      | Inr results \<Rightarrow> write_json r 200 results)"

definition backlinks_request :: "'b http_request \<Rightarrow> backlinks_input" where
  "backlinks_request r =
     \<lparr>bi_workspace = header_workspace (hr_headers r), bi_page = hr_param r ''pageID'',
      bi_actor = header_actor (hr_headers r), bi_roles = header_roles (hr_headers r),
      bi_authenticated = is_authenticated (hr_headers r)\<rparr>"

definition handle_backlinks ::
  "'s search_store \<Rightarrow> remote_authz option \<Rightarrow> 'b http_request \<Rightarrow> 's \<Rightarrow> backlinks_payload http_response" where
  "handle_backlinks store checker r s =
     (case get_backlinks store checker (backlinks_request r) s of
        Inl err \<Rightarrow> search_error_answer r err
      | Inr payload \<Rightarrow> write_json r 200 payload)"

end
