(* ===== verification/SearchProperties.thy ===== *)
theory SearchProperties
  imports SearchProject SearchApi PageSamples
begin

text \<open>
  The properties of the search service: what it shows of the pages that events told it of, to whom, and
  that a page that was saved is found once the relay has handed its event over.
\<close>

section \<open>Helpers\<close>

lemma new_mem_index_ok: "\<forall>ks. mset (visit ks) = mset ks \<Longrightarrow> mem_index_ok (new_mem_index visit)"
  by (simp add: mem_index_ok_def new_mem_index_def)

lemma new_mem_index_empty: "mem_index_of (new_mem_index visit) = Map.empty"
  by (simp add: mem_index_of_def new_mem_index_def fun_eq_iff)

fun overwrites :: "index_change \<Rightarrow> string \<Rightarrow> bool" where
  "overwrites (PageChanged p targets) k = (pj_page p = k)"
| "overwrites _ k = False"

lemma apply_change_keeps: "\<not> overwrites c k \<Longrightarrow> map_option fst (apply_change c ix k) = map_option fst (ix k)"
  by (cases c) (auto simp: put_links_def split: option.splits)

lemma follow_events_keeps:
  "\<forall>(subject, payload) \<in> set ms. \<not> overwrites (index_change_of parse_time subject payload) k \<Longrightarrow>
   map_option fst (follow_events parse_time ms ix k) = map_option fst (ix k)"
  by (induction ms arbitrary: ix) (auto simp: apply_change_keeps)

lemma trim_space_empty [simp]: "trim_space '''' = ''''"
  by (simp add: trim_space_def trim_left_def trim_right_def)

text \<open>A page whose title contains the query is found by its title.\<close>

lemma title_found:
  assumes "mem_index_ok s" and "map_option fst (mem_index_of s k) = Some (untimed p)" and "pj_page p = k"
    and "str_contains (lower (trim_space query)) (lower (pj_title p))"
  shows "\<exists>results r. mem_search lower (pj_workspace p) query sortKey s = Inr results \<and> r \<in> set results
    \<and> sr_page r = k \<and> sr_match r = ''title'' \<and> sr_snippet r = pj_title p"
proof -
  obtain q where q: "map_of (mx_pages s) k = Some q" and qp: "untimed q = untimed p"
    using assms(2) by (auto simp: mem_index_of_def)
  have same: "pj_page q = k" "pj_workspace q = pj_workspace p" "pj_title q = pj_title p"
    using arg_cong [OF qp, of pj_page] arg_cong [OF qp, of pj_workspace] arg_cong [OF qp, of pj_title] assms(3)
    by simp_all
  obtain results where results: "mem_search lower (pj_workspace p) query sortKey s = Inr results"
    by (simp add: mem_search_def Let_def)
  let ?r = "\<lparr>sr_page = pj_page q, sr_title = pj_title q, sr_match = ''title'', sr_snippet = pj_title q,
    sr_updated_at = pj_updated_at q\<rparr>"
  have "?r \<in> set (page_results lower (pj_workspace p) (lower (trim_space query)) q)"
    using assms(4) by (auto simp: page_results_member match_page_def same)
  then have "?r \<in> set results" using mem_search_member [OF assms(1) results] q by blast
  with results same show ?thesis by (intro exI [of _ results] exI [of _ ?r]) simp
qed

definition bus_messages :: "outbox_record list \<Rightarrow> (string \<times> json option) list" where
  "bus_messages records = map (\<lambda>r. (ob_event r, Some (ob_payload r))) records"

text \<open>The events of a saved draft in the order of the outbox.\<close>

definition saved_events ::
  "id_gen \<Rightarrow> nat \<Rightarrow> page \<Rightarrow> page_revision \<Rightarrow> document_references \<Rightarrow> gotime \<Rightarrow> outbox_record list" where
  "saved_events gen n page revision refs now =
     fst (build_draft_saved_event gen n page revision refs now)
     # fst (build_reference_events gen (n + 1) page revision refs now)"

section \<open>Samples\<close>

definition indexed_sample :: page where
  "indexed_sample =
     \<lparr>pg_id = ''p'', pg_workspace = ''w'', pg_slug = ''home'', pg_title = ''Home'', pg_status = StatusDraft,
      pg_created_by = ''u'', pg_updated_by = ''u'', pg_draft_id = ''r'', pg_draft_no = 1, pg_published_id = '''',
      pg_published_no = 0, pg_created_at = 1, pg_updated_at = 1\<rparr>"

definition linking_sample :: page_revision where
  "linking_sample =
     \<lparr>rv_id = ''r'', rv_page = ''p'', rv_no = 1, rv_kind = ViewDraft, rv_base = '''', rv_restored_from = '''',
      rv_document = \<lparr>dc_blocks = [(text_block ''b1'' ''see'')\<lparr>bk_link := Some \<lparr>pl_page = '' q'', pl_title = ''Q'', pl_kind = ''''\<rparr>\<rparr>],
                     dc_metadata = None\<rparr>,
      rv_title = ''Release Notes'', rv_created_by = ''u'', rv_created_via = SourceAutosave, rv_created_at = 1\<rparr>"

definition sample_references :: document_references where
  "sample_references = fst (extract_references run_gen 0 (rv_document linking_sample) ''p'' ''r'' 1)"

definition search_sample :: "page_projection list \<Rightarrow> mem_index" where
  "search_sample ps = foldr (\<lambda>p s. snd (mem_upsert_page p [] s)) ps (new_mem_index (\<lambda>ks. ks))"

definition projection_sample :: "string \<Rightarrow> string \<Rightarrow> page_projection" where
  "projection_sample i title =
     \<lparr>pj_page = i, pj_workspace = ''w'', pj_title = title, pj_text = '''', pj_links = [], pj_embeds = Some [], pj_updated_at = 1000\<rparr>"

text \<open>An auth service that lets everybody search and view all pages but \<open>''x''\<close>.\<close>

definition shy_server :: remote_authz where
  "shy_server c = Inr \<lparr>dn_allowed = (ci_page c \<noteq> ''x''), dn_role = '''', dn_permissions = [], dn_denial = ''''\<rparr>"

definition plain_sql :: "int search_sql" where
  "plain_sql = \<lparr>sq_ilike = (\<lambda>_ _. False), sq_matches = (\<lambda>_ _. True), sq_rank = (\<lambda>_ _. 0), sq_headline = (\<lambda>t _. t)\<rparr>"

definition db_sample :: search_db where
  "db_sample =
     \<lparr>dx_documents = [projection_sample ''p'' ''P'', projection_sample ''q'' ''Q'', projection_sample ''x'' ''X''],
      dx_edges = [\<lparr>le_source = ''p'', le_target = ''q'', le_workspace = ''w''\<rparr>,
                  \<lparr>le_source = ''x'', le_target = ''q'', le_workspace = ''w''\<rparr>]\<rparr>"

lemma new_sample_index_ok: "mem_index_ok (new_mem_index (\<lambda>ks. ks))"
  by (simp add: new_mem_index_ok)

section \<open>Saved pages are found\<close>

text \<open>
  C15: from a saved draft to the search: when the event of a draft is pending in the outbox, no later pending
  event rewrites its page, the relay polls often enough to come to it, and the bus takes it, then after
  the consumer has projected what the bus took, a search in the page's workspace for anything in the
  draft's title, in any letter case, finds the page by its title. It does not matter what the index
  held before, what else was pending, and what else the bus took or refused.
\<close>

theorem saved_page_searchable:
  assumes "mem_index_ok ix" and "distinct (map ob_id (ms_outbox s))"
    and "pending (ms_outbox s) = earlier @ event # later"
    and "ob_event event = ''page.draft.saved''" and "ob_payload event = draft_saved_payload page revision refs"
    and "\<forall>e \<in> set later. \<not> overwrites (index_change_of parse_time (ob_event e) (Some (ob_payload e))) (pg_id page)"
    and "length earlier < Suc ticks * nat (if b \<le> 0 then 25 else b)" and "ok (ob_event event) (ob_payload event)"
    and "relay_run (Some memory_outbox_ops) (Some (logging_env ok now)) policy b ticks (s, []) = (err, s', log)"
    and "str_contains (lower (trim_space query)) (lower (rv_title revision))"
  shows "\<exists>results r. mem_search lower (pg_workspace page) query sortKey
      (consume_pages parse_time (memory_search_store lower) (map (\<lambda>(e, p). (e, Some p)) log) ix) = Inr results
    \<and> r \<in> set results \<and> sr_page r = pg_id page \<and> sr_match r = ''title'' \<and> sr_snippet r = rv_title revision"
proof -
  let ?n = "Suc ticks * nat (if b \<le> 0 then 25 else b)" and ?taken = "\<lambda>r. ok (ob_event r) (ob_payload r)"
  let ?rest = "filter ?taken (take (?n - length earlier - 1) later)"
  let ?p = "indexed_page parse_time page revision refs"
  let ?got = "filter ?taken earlier @ event # ?rest"
  let ?s = "consume_pages parse_time (memory_search_store lower) (bus_messages ?got) ix"
  have "filter ?taken (take ?n (earlier @ event # later)) = ?got"
  proof -
    obtain n where "?n = length earlier + Suc n"
      using assms(7) by (metis less_imp_Suc_add add_Suc_right)
    then show ?thesis using assms(8) by simp
  qed
  then have "log = map (\<lambda>r. (ob_event r, ob_payload r)) ?got"
    using relay_run_log(1) [OF assms(2,9)] unfolding assms(3) by simp
  then have log: "map (\<lambda>(e, p). (e, Some p)) log = bus_messages ?got"
    by (simp only: bus_messages_def list.map_comp comp_def prod.case)
  have ok: "mem_index_ok ?s" using assms(1) by (rule memory_search.consume_invar)
  have rest: "\<forall>(subject, payload) \<in> set (bus_messages ?rest).
      \<not> overwrites (index_change_of parse_time subject payload) (pg_id page)"
    using assms(6) by (auto simp: bus_messages_def dest!: in_set_takeD)
  have split: "bus_messages ?got = bus_messages (filter ?taken earlier) @
      [(''page.draft.saved'', Some (draft_saved_payload page revision refs))] @ bus_messages ?rest"
    by (simp only: bus_messages_def assms(4,5) list.map map_append append_Cons append_Nil)
  have "map_option fst (mem_index_of ?s (pg_id page)) = Some (untimed ?p)"
    unfolding memory_consume_follows [OF assms(1)] split follow_events_append follow_events_keeps [OF rest]
    by (simp add: draft_saved_change indexed_page_def)
  from title_found [OF ok this, of lower query sortKey] assms(10) show ?thesis
    by (simp add: log indexed_page_def)
qed

theorem saved_page_searchable_witness:
  "\<exists>log results r. relay_run (Some memory_outbox_ops)
      (Some (logging_env (\<lambda>subject _. subject \<noteq> ''page.links.extracted'') 9)) sample_policy 1 2
      (new_mem_store\<lparr>ms_outbox := saved_events run_gen 1 indexed_sample linking_sample sample_references 3\<rparr>, []) =
      (''context canceled'', log)
    \<and> mem_search (map ascii_lower) ''w'' '' NOTES '' '''' (consume_pages (\<lambda>_. None) (memory_search_store (map ascii_lower))
        (map (\<lambda>(e, p). (e, Some p)) (snd log)) (new_mem_index (\<lambda>ks. ks))) = Inr results
    \<and> r \<in> set results \<and> sr_page r = ''p'' \<and> sr_snippet r = ''Release Notes''"
proof -
  let ?events = "saved_events run_gen 1 indexed_sample linking_sample sample_references 3"
  let ?s = "new_mem_store\<lparr>ms_outbox := ?events\<rparr>"
  have ids: "distinct (map ob_id (ms_outbox ?s))"
    by (simp add: saved_events_def build_draft_saved_event_def build_reference_events_def run_gen_def)
  have pending: "pending (ms_outbox ?s) = [] @ ?events ! 0 # [?events ! 1, ?events ! 2]"
    by (simp add: pending_def saved_events_def build_draft_saved_event_def build_reference_events_def)
  have event: "ob_event (?events ! 0) = ''page.draft.saved''"
    "ob_payload (?events ! 0) = draft_saved_payload indexed_sample linking_sample sample_references"
    by (simp_all add: saved_events_def build_draft_saved_event_def)
  have later: "\<forall>e \<in> set [?events ! 1, ?events ! 2].
      \<not> overwrites (index_change_of (\<lambda>_. None) (ob_event e) (Some (ob_payload e))) (pg_id indexed_sample)"
    by (simp add: saved_events_def build_draft_saved_event_def build_reference_events_def index_change_of_def
        split: option.split)
  have contains: "str_contains (map ascii_lower (trim_space '' NOTES '')) (map ascii_lower (rv_title linking_sample))"
    by code_simp
  let ?ok = "\<lambda>subject _. subject \<noteq> ''page.links.extracted''"
  obtain s' log where run: "relay_run (Some memory_outbox_ops) (Some (logging_env ?ok 9)) sample_policy 1 2 (?s, []) =
      (''context canceled'', s', log)"
    using relay_loop_drains [OF ids, of ?ok 9 sample_policy 1 2 "[]"]
    by (auto simp: relay_run_def simp del: relay_loop.simps)
  have len: "length ([] :: outbox_record list) < Suc 2 * nat (if (1 :: int) \<le> 0 then 25 else 1)" by simp
  have taken: "?ok (ob_event (?events ! 0)) (ob_payload (?events ! 0))" unfolding event by simp
  have names: "pg_workspace indexed_sample = ''w''" "pg_id indexed_sample = ''p''" "rv_title linking_sample = ''Release Notes''"
    by (simp_all add: indexed_sample_def linking_sample_def)
  from saved_page_searchable [where sortKey = "''''" and ok = ?ok, OF new_sample_index_ok ids pending event later len taken run contains]
  show ?thesis unfolding names using run by fastforce
qed

section \<open>Links become backlinks\<close>

definition links_extracted_payload :: "page \<Rightarrow> page_revision \<Rightarrow> document_references \<Rightarrow> json" where
  "links_extracted_payload page revision refs =
     JObj [(''page_id'', JStr (pg_id page)), (''workspace_id'', JStr (pg_workspace page)),
           (''revision_id'', JStr (rv_id revision)),
           (''links'', JArr (map (\<lambda>l. JObj
              [(''target_page_id'', JStr (lr_target l)), (''block_id'', JStr (lr_block l)),
               (''link_kind'', JStr (lr_kind l))]) (rf_links refs)))]"

lemma links_extracted_change:
  "index_change_of parse_time ''page.links.extracted'' (Some (links_extracted_payload page revision refs)) =
     LinksChanged (pg_workspace page) (pg_id page) (indexed_targets refs)"
proof -
  have "decode_each (decode_struct set_target_field '''') (map (\<lambda>l. JObj
      [(''target_page_id'', JStr (lr_target l)), (''block_id'', JStr (lr_block l)), (''link_kind'', JStr (lr_kind l))])
      (rf_links refs)) = Some (map lr_target (rf_links refs))"
    by (rule decode_each_map) (simp add: set_target_field_def field_simps search_names)
  then show ?thesis
    by (simp add: index_change_of_def links_extracted_payload_def set_links_field_def zero_link_document_def field_simps
        search_names indexed_targets_def comp_def)
qed

lemma follow_saved_events:
  "follow_events parse_time (bus_messages (saved_events gen n page revision refs now)) ix =
     ix(pg_id page \<mapsto> (untimed (indexed_page parse_time page revision refs), set (indexed_targets refs)))"
proof -
  have "index_change_of parse_time ''page.attachments.changed'' payload = Unchanged" for payload
    by (simp add: index_change_of_def)
  then show ?thesis
    by (simp add: saved_events_def bus_messages_def build_draft_saved_event_def build_reference_events_def
        draft_saved_change links_extracted_change [unfolded links_extracted_payload_def] put_links_def indexed_page_def
        fun_eq_iff)
qed

lemma indexed_targets_of_document:
  assumes "t \<noteq> ''''"
  shows "t \<in> set (indexed_targets (fst (extract_references gen n d p r now))) \<longleftrightarrow>
    (\<exists>b \<in> set (dc_blocks d). \<exists>l. bk_link b = Some l \<and> trim_space (pl_page l) = t)"
proof -
  let ?refs = "fst (extract_references gen n d p r now)"
  have "map (\<lambda>t. (lr_block t, lr_target t)) (rf_links ?refs) = link_pairs (dc_blocks d)"
    by (simp add: extract_references_def extract_blocks_content no_references_def)
  then have "map snd (map (\<lambda>t. (lr_block t, lr_target t)) (rf_links ?refs)) = map snd (link_pairs (dc_blocks d))"
    by simp
  then have targets: "map lr_target (rf_links ?refs) = map snd (link_pairs (dc_blocks d))"
    by (simp add: comp_def)
  have "set (map snd (link_pairs bs)) = {pl_page l | b l. b \<in> set bs \<and> bk_link b = Some l \<and> pl_page l \<noteq> ''''}" for bs
  proof (induction bs)
    case (Cons b bs)
    have "set (map snd (link_pairs (b # bs))) = pl_page ` set (block_links b) \<union> set (map snd (link_pairs bs))"
      by (auto simp: link_pairs_def)
    moreover have "pl_page ` set (block_links b) = {pl_page l | l. bk_link b = Some l \<and> pl_page l \<noteq> ''''}"
      by (auto simp: block_links_def split: option.splits)
    ultimately show ?case unfolding Cons by auto
  qed (simp add: link_pairs_def)
  with targets have set: "lr_target ` set (rf_links ?refs) =
      {pl_page l | b l. b \<in> set (dc_blocks d) \<and> bk_link b = Some l \<and> pl_page l \<noteq> ''''}"
    by (metis set_map)
  have "t \<in> set (indexed_targets ?refs) \<longleftrightarrow> t \<in> trim_space ` lr_target ` set (rf_links ?refs)"
    using assms by (auto simp: indexed_targets_def)
  also have "\<dots> \<longleftrightarrow> (\<exists>b \<in> set (dc_blocks d). \<exists>l. bk_link b = Some l \<and> pl_page l \<noteq> '''' \<and> trim_space (pl_page l) = t)"
    unfolding set by auto
  also have "\<dots> \<longleftrightarrow> (\<exists>b \<in> set (dc_blocks d). \<exists>l. bk_link b = Some l \<and> trim_space (pl_page l) = t)"
    using assms by (metis trim_space_empty)
  finally show ?thesis .
qed

text \<open>
  C17: links become backlinks: when the events of a saved draft were the last that the search service got
  of the page, the page is among the backlinks of another page exactly if a block of the draft links to
  that page, whatever the index held before and whatever events came in between for other pages.
\<close>

theorem links_become_backlinks:
  assumes "mem_index_ok ix" and "refs = fst (extract_references gen n (rv_document revision) (pg_id page) (rv_id revision) now)"
    and "\<forall>(subject, payload) \<in> set later. \<not> concerns (index_change_of parse_time subject payload) (pg_id page)"
    and "t \<noteq> ''''" and "t \<noteq> pg_id page"
    and "mem_backlinks lower (pg_workspace page) t (consume_pages parse_time (memory_search_store lower)
      (bus_messages (saved_events gen m page revision refs now) @ later) ix) = Inr payload"
  shows "pg_id page \<in> br_page ` set (bp_backlinks payload) \<longleftrightarrow>
    (\<exists>b \<in> set (dc_blocks (rv_document revision)). \<exists>l. bk_link b = Some l \<and> trim_space (pl_page l) = t)"
proof -
  let ?s = "consume_pages parse_time (memory_search_store lower)
      (bus_messages (saved_events gen m page revision refs now) @ later) ix"
  have "mem_index_ok ?s" using assms(1) by (rule memory_search.consume_invar)
  then have "pg_id page \<in> br_page ` set (bp_backlinks payload) \<longleftrightarrow>
      links_to (mem_index_of ?s) (pg_workspace page) (pg_id page) t"
    using mem_backlinks_member assms(5,6) by metis
  also have "mem_index_of ?s (pg_id page) =
      Some (untimed (indexed_page parse_time page revision refs), set (indexed_targets refs))"
    unfolding memory_consume_follows [OF assms(1)] follow_events_append follow_events_other [OF assms(3)] follow_saved_events
    by simp
  then have "links_to (mem_index_of ?s) (pg_workspace page) (pg_id page) t \<longleftrightarrow> t \<in> set (indexed_targets refs)"
    by (simp add: links_to_def indexed_page_def)
  finally show ?thesis using indexed_targets_of_document [OF assms(4)] by (simp add: assms(2))
qed

theorem links_become_backlinks_witness:
  "\<exists>payload. mem_backlinks (map ascii_lower) ''w'' ''q'' (consume_pages (\<lambda>_. None) (memory_search_store (map ascii_lower))
      (bus_messages (saved_events run_gen 1 indexed_sample linking_sample sample_references 1) @ [])
      (new_mem_index (\<lambda>ks. ks))) = Inr payload \<and> ''p'' \<in> br_page ` set (bp_backlinks payload)"
proof -
  obtain payload where payload: "mem_backlinks (map ascii_lower) (pg_workspace indexed_sample) ''q''
      (consume_pages (\<lambda>_. None) (memory_search_store (map ascii_lower))
        (bus_messages (saved_events run_gen 1 indexed_sample linking_sample sample_references 1) @ [])
        (new_mem_index (\<lambda>ks. ks))) = Inr payload"
    by (simp add: mem_backlinks_def Let_def)
  have refs: "sample_references = fst (extract_references run_gen 0 (rv_document linking_sample)
      (pg_id indexed_sample) (rv_id linking_sample) 1)"
    by (simp add: sample_references_def indexed_sample_def linking_sample_def)
  have "trim_space '' q'' = ''q''" by code_simp
  then have "\<exists>b \<in> set (dc_blocks (rv_document linking_sample)). \<exists>l. bk_link b = Some l \<and> trim_space (pl_page l) = ''q''"
    by (simp add: linking_sample_def)
  with payload links_become_backlinks [OF new_sample_index_ok refs _ _ _ payload] show ?thesis
    by (auto simp: indexed_sample_def)
qed

section \<open>What a caller sees\<close>

text \<open>
  C27: what the search shows to an authenticated caller: with the auth service, the results of the store, in
  their order, without those of pages that the auth service does not let the caller view, and nothing
  more. In particular the branch that shows all results where there is no decision is never taken.
\<close>

theorem search_shows_viewable:
  assumes "si_authenticated input" and "search_pages store (Some remote) input s = Inr shown"
  shows "\<exists>results. ss_search store (si_workspace input) (si_query input) (si_sort input) s = Inr results
    \<and> shown = filter (\<lambda>r. viewable remote (search_subject input) (sr_page r)) results"
  using assms filter_search_results_remote [of "search_subject input" remote]
  by (auto simp: search_pages_def search_subject_def split: option.splits sum.splits)

theorem search_shows_viewable_witness:
  "\<exists>results. mem_search (map ascii_lower) ''w'' ''a'' '''' (search_sample [projection_sample ''x'' ''A'', projection_sample ''p'' ''A'']) =
      Inr results
    \<and> [\<lparr>sr_page = ''p'', sr_title = ''A'', sr_match = ''title'', sr_snippet = ''A'', sr_updated_at = 1000\<rparr>] =
      filter (\<lambda>r. viewable shy_server (search_subject
        \<lparr>si_workspace = ''w'', si_query = ''a'', si_sort = '''', si_actor = ''u'', si_roles = [], si_authenticated = True\<rparr>)
        (sr_page r)) results"
proof -
  let ?input = "\<lparr>si_workspace = ''w'', si_query = ''a'', si_sort = '''', si_actor = ''u'', si_roles = [], si_authenticated = True\<rparr>"
  let ?s = "search_sample [projection_sample ''x'' ''A'', projection_sample ''p'' ''A'']"
  have "search_pages (memory_search_store (map ascii_lower)) (Some shy_server) ?input ?s =
      Inr [\<lparr>sr_page = ''p'', sr_title = ''A'', sr_match = ''title'', sr_snippet = ''A'', sr_updated_at = 1000\<rparr>]"
    by code_simp
  from search_shows_viewable [OF _ this] show ?thesis by simp
qed

text \<open>
  the backlinks an authenticated caller gets of a page, on PostgreSQL too, and whatever statements fail:
  the answer shows only pages the auth service lets the caller view, and another page of the
  workspace is shown as a backlink exactly if the index has it linking to the page and the caller may view
  it.
\<close>

theorem backlinks_shown:
  assumes "bi_authenticated input" and "db_index_ok d"
    and "get_backlinks (postgres_search_store fault sq) (Some remote) input d = Inr shown"
    and "source \<noteq> bi_page input"
  shows "source \<in> br_page ` set (bp_backlinks shown) \<longleftrightarrow>
    links_to (db_index d) (bi_workspace input) source (bi_page input) \<and> viewable remote (backlinks_subject input) source"
proof -
  from assms(3) obtain payload
    where found: "ss_backlinks (postgres_search_store fault sq) (bi_workspace input) (bi_page input) d = Inr payload"
      and "filter_backlinks (Some remote) (backlinks_subject input) payload = Inr shown"
    by (auto simp: get_backlinks_def split: option.splits sum.splits)
  moreover have "as_authenticated (backlinks_subject input)" using assms(1) by (simp add: backlinks_subject_def)
  ultimately have "bp_backlinks shown =
      filter (\<lambda>r. viewable remote (backlinks_subject input) (br_page r)) (bp_backlinks payload)"
    by (simp add: filter_backlinks_remote)
  then have "source \<in> br_page ` set (bp_backlinks shown) \<longleftrightarrow>
      source \<in> br_page ` set (bp_backlinks payload) \<and> viewable remote (backlinks_subject input) source"
    by auto
  with postgres_search.backlinks [OF assms(2) found assms(4)] show ?thesis by simp
qed

theorem backlinks_shown_witness:
  "\<exists>shown. get_backlinks (postgres_search_store (\<lambda>_ _. None) plain_sql) (Some shy_server)
      \<lparr>bi_workspace = ''w'', bi_page = ''q'', bi_actor = ''u'', bi_roles = [], bi_authenticated = True\<rparr> db_sample = Inr shown
    \<and> ''p'' \<in> br_page ` set (bp_backlinks shown) \<and> ''x'' \<notin> br_page ` set (bp_backlinks shown)"
proof -
  let ?input = "\<lparr>bi_workspace = ''w'', bi_page = ''q'', bi_actor = ''u'', bi_roles = [], bi_authenticated = True\<rparr>"
  let ?x = "get_backlinks (postgres_search_store (\<lambda>_ _. None) plain_sql) (Some shy_server) ?input db_sample"
  have ok: "db_index_ok db_sample" by (simp add: db_index_ok_def db_sample_def projection_sample_def)
  have "case ?x of Inl _ \<Rightarrow> False | Inr _ \<Rightarrow> True" by code_simp
  then obtain shown where shown: "?x = Inr shown" by (auto split: sum.splits)
  have "links_to (db_index db_sample) ''w'' ''p'' ''q''"
    by (simp add: links_to_def db_index_def db_links_iff db_sample_def projection_sample_def)
  moreover have "viewable shy_server (backlinks_subject ?input) ''p''" "\<not> viewable shy_server (backlinks_subject ?input) ''x''"
    by (simp_all add: viewable_def shy_server_def view_check_def)
  ultimately show ?thesis
    using backlinks_shown [OF _ ok shown, of "''p''"] backlinks_shown [OF _ ok shown, of "''x''"] shown by simp
qed

text \<open>
  projecting an event on PostgreSQL is atomic: whatever statement or commit fails, the index is what the event
  makes of it, or an error is reported and the index is what it was. A commit whose answer was lost reports an
  error for the first.
\<close>

theorem projection_atomic:
  assumes "db_index_ok d" and "project parse_time (postgres_search_store fault sq) subject payload zero_time d = (r, d')"
  shows "db_index d' = apply_change (index_change_of parse_time subject payload) (db_index d)
    \<or> r \<noteq> None \<and> db_index d' = db_index d"
  using assms by (rule postgres_search.project_index)

theorem projection_atomic_witness:
  "let (r, d') = project (\<lambda>_. None) (postgres_search_store (\<lambda>st _. if st = SearchCommit then Some ''lost'' else None) plain_sql)
      ''page.draft.saved'' (Some (draft_saved_payload indexed_sample linking_sample sample_references)) zero_time db_sample
   in db_index d' = apply_change (index_change_of (\<lambda>_. None) ''page.draft.saved''
        (Some (draft_saved_payload indexed_sample linking_sample sample_references))) (db_index db_sample)
      \<or> r \<noteq> None \<and> db_index d' = db_index db_sample"
proof -
  have ok: "db_index_ok db_sample" by (simp add: db_index_ok_def db_sample_def projection_sample_def)
  show ?thesis using projection_atomic [OF ok surjective_pairing] by (simp only: Let_def case_prod_beta)
qed

end
