(* ===== verification/Embeds.thy ===== *)
theory Embeds
  imports PageService Wire
begin

text \<open>
  The MWS integration service: the client of the MWS table service
  (\<^verbatim>\<open>services/mws-integration-service/internal/adapters/mws_client.go\<close>), resolving an embed with its cache
  and its degraded answer (\<^verbatim>\<open>internal/usecase/resolve_embed.go\<close>), the cache (\<^verbatim>\<open>app/app.go\<close>), the gRPC
  server (\<^verbatim>\<open>api/grpc/server.go\<close>) and the page service's client of it
  (\<^verbatim>\<open>services/page-service/internal/adapters/mws\<close>), which resolves the embeds of a page's document.
\<close>

section \<open>The table service\<close>

text \<open>
  The table service answers a GET of a URL with an \<open>Authorization\<close> header, empty where there is none, with
  a status and a body, \<open>None\<close> where that is not JSON, or not at all. A URL that does not parse is no request.
\<close>

datatype mws_error = MwsUnavailable | MwsForbidden | MwsNotFound | MwsOther string

fun mws_error_text :: "mws_error \<Rightarrow> string" where
  "mws_error_text MwsUnavailable = ''mws unavailable''"
| "mws_error_text MwsForbidden = ''mws access denied''"
| "mws_error_text MwsNotFound = ''mws table not found''"
| "mws_error_text (MwsOther err) = err"

type_synonym table_server = "string \<Rightarrow> string \<Rightarrow> (int \<times> json option) option"

record mws_site =
  mw_base :: string
  mw_server :: table_server
  mw_bad_url :: "string \<Rightarrow> string option"

definition new_mws_client :: "string \<Rightarrow> table_server \<Rightarrow> (string \<Rightarrow> string option) \<Rightarrow> mws_site" where
  "new_mws_client baseURL server bad =
     \<lparr>mw_base = rev (dropWhile (\<lambda>c. c = CHR ''/'') (rev baseURL)), mw_server = server, mw_bad_url = bad\<rparr>"

definition table_path :: "string \<Rightarrow> string \<Rightarrow> string" where
  "table_path tableID suffix = ''/tables/'' @ tableID @ ''/'' @ suffix"

text \<open>The request and the classification of its answer; \<open>Inr\<close> is the body of a 200.\<close>

definition mws_get :: "mws_site \<Rightarrow> string \<Rightarrow> string \<Rightarrow> mws_error + json option" where
  "mws_get c path accessToken =
     (let url = mw_base c @ path;
          authorization = (if accessToken = '''' then '''' else ''Bearer '' @ accessToken)
      in case mw_bad_url c url of
           Some err \<Rightarrow> Inl (MwsOther err)
         | None \<Rightarrow>
             (case mw_server c url authorization of
                None \<Rightarrow> Inl MwsUnavailable
              | Some (statusCode, body) \<Rightarrow>
                  if statusCode = 200 then Inr body
                  else if statusCode = 403 \<or> statusCode = 401 then Inl MwsForbidden
                  else if statusCode = 404 then Inl MwsNotFound
                  else Inl MwsUnavailable))"

definition validate_access :: "mws_site \<Rightarrow> string \<Rightarrow> string \<Rightarrow> mws_error option" where
  "validate_access c accessToken tableID =
     (case mws_get c (table_path tableID ''access'') accessToken of Inl err \<Rightarrow> Some err | Inr _ \<Rightarrow> None)"

definition mws_decode_failed :: mws_error where
  "mws_decode_failed = MwsOther ''json: cannot unmarshal''"

definition fetch_schema :: "mws_site \<Rightarrow> string \<Rightarrow> string \<Rightarrow> mws_error + gmap" where
  "fetch_schema c accessToken tableID =
     (case mws_get c (table_path tableID ''schema'') accessToken of
        Inl err \<Rightarrow> Inl err
      | Inr body \<Rightarrow> (case Option.bind body (decode_map None) of
                       None \<Rightarrow> Inl mws_decode_failed | Some m \<Rightarrow> Inr m))"

definition fetch_preview :: "mws_site \<Rightarrow> string \<Rightarrow> string \<Rightarrow> mws_error + gmap list" where
  "fetch_preview c accessToken tableID =
     (case mws_get c (table_path tableID ''preview'') accessToken of
        Inl err \<Rightarrow> Inl err
      | Inr body \<Rightarrow> (case Option.bind body (decode_slice (decode_map None)) of
                       None \<Rightarrow> Inl mws_decode_failed | Some rows \<Rightarrow> Inr rows))"

section \<open>Resolving\<close>

datatype preview_state = PreviewReady | PreviewCached | PreviewDegraded

fun preview_state_string :: "preview_state \<Rightarrow> string" where
  "preview_state_string PreviewReady = ''ready''"
| "preview_state_string PreviewCached = ''cached''"
| "preview_state_string PreviewDegraded = ''degraded''"

record cached_preview =
  cv_table :: string
  cv_title :: string
  cv_schema :: gmap
  cv_rows :: "gmap list"
  cv_fetched_at :: gotime
  cv_expires_at :: gotime

record resolved_embed =
  re_allowed :: bool
  re_table :: string
  re_title :: string
  re_display :: gmap
  re_schema :: gmap
  re_rows :: "gmap list"
  re_preview :: preview_state
  re_ttl_seconds :: int

record embed_request =
  eq_token :: string
  eq_page :: string
  eq_table :: string
  eq_display :: gmap
  eq_allow_degraded :: bool
  eq_title :: string
  eq_force :: bool

text \<open>The cache port, and the resolver: a client, a cache or none, and how long an entry is meant to hold.\<close>

record 'c preview_cache =
  pc_get :: "string \<Rightarrow> 'c \<Rightarrow> string + cached_preview option"
  pc_put :: "cached_preview \<Rightarrow> 'c \<Rightarrow> string option \<times> 'c"

record 'c embed_deps =
  ed_client :: mws_site
  ed_cache :: "'c preview_cache option"
  ed_ttl :: duration

definition new_embed_resolver :: "mws_site \<Rightarrow> 'c preview_cache option \<Rightarrow> duration \<Rightarrow> 'c embed_deps" where
  "new_embed_resolver client cache ttl =
     \<lparr>ed_client = client, ed_cache = cache, ed_ttl = (if ttl \<le> 0 then 5 * minute else ttl)\<rparr>"

text \<open>\<open>int32(r.cacheTTL / time.Second)\<close>: the low 32 bits, signed.\<close>

definition ttl_seconds :: "'c embed_deps \<Rightarrow> int" where
  "ttl_seconds dp = (ed_ttl dp div second + 2 ^ 31) mod 2 ^ 32 - 2 ^ 31"

definition degraded_embed :: "'c embed_deps \<Rightarrow> embed_request \<Rightarrow> resolved_embed" where
  "degraded_embed dp input =
     \<lparr>re_allowed = True, re_table = eq_table input, re_title = first_non_empty [eq_title input, eq_table input],
      re_display = eq_display input, re_schema = None, re_rows = [], re_preview = PreviewDegraded,
      re_ttl_seconds = ttl_seconds dp\<rparr>"

definition degraded_or_error :: "'c embed_deps \<Rightarrow> embed_request \<Rightarrow> mws_error \<Rightarrow> 'c \<Rightarrow> mws_error + resolved_embed" where
  "degraded_or_error dp input err c =
     (if \<not> eq_allow_degraded input then Inl err
      else (case ed_cache dp of
              None \<Rightarrow> Inr (degraded_embed dp input)
            | Some cache \<Rightarrow>
                (case pc_get cache (eq_table input) c of
                   Inl _ \<Rightarrow> Inr (degraded_embed dp input)
                 | Inr None \<Rightarrow> Inr (degraded_embed dp input)
                 | Inr (Some cached) \<Rightarrow>
                     Inr ((degraded_embed dp input)
                       \<lparr>re_title := first_non_empty [cv_title cached, re_title (degraded_embed dp input)],
                        re_schema := cv_schema cached, re_rows := cv_rows cached\<rparr>))))"

definition ready_embed :: "'c embed_deps \<Rightarrow> embed_request \<Rightarrow> gmap \<Rightarrow> gmap list \<Rightarrow> resolved_embed" where
  "ready_embed dp input schema rows =
     \<lparr>re_allowed = True, re_table = eq_table input, re_title = first_non_empty [eq_title input, eq_table input],
      re_display = eq_display input, re_schema = schema, re_rows = rows, re_preview = PreviewReady,
      re_ttl_seconds = ttl_seconds dp\<rparr>"

text \<open>The clock is read twice, and an entry that cannot be stored is dropped.\<close>

definition store_preview ::
  "'c embed_deps \<Rightarrow> gotime \<Rightarrow> gotime \<Rightarrow> resolved_embed \<Rightarrow> 'c \<Rightarrow> 'c" where
  "store_preview dp now now' e c =
     (case ed_cache dp of
        None \<Rightarrow> c
      | Some cache \<Rightarrow>
          snd (pc_put cache
            \<lparr>cv_table = re_table e, cv_title = re_title e, cv_schema = re_schema e, cv_rows = re_rows e,
             cv_fetched_at = now, cv_expires_at = now' + ed_ttl dp\<rparr> c))"

definition resolve_embed ::
  "'c embed_deps \<Rightarrow> gotime \<Rightarrow> gotime \<Rightarrow> embed_request \<Rightarrow> 'c \<Rightarrow> (mws_error + resolved_embed) \<times> 'c" where
  "resolve_embed dp now now' input c =
     (case validate_access (ed_client dp) (eq_token input) (eq_table input) of
        Some err \<Rightarrow> (degraded_or_error dp input err c, c)
      | None \<Rightarrow>
          (case fetch_schema (ed_client dp) (eq_token input) (eq_table input) of
             Inl err \<Rightarrow> (degraded_or_error dp input err c, c)
           | Inr schema \<Rightarrow>
               (case fetch_preview (ed_client dp) (eq_token input) (eq_table input) of
                  Inl err \<Rightarrow> (degraded_or_error dp input err c, c)
                | Inr rows \<Rightarrow>
                    (Inr (ready_embed dp input schema rows),
                     store_preview dp now now' (ready_embed dp input schema rows) c))))"

definition refresh_embed ::
  "'c embed_deps \<Rightarrow> gotime \<Rightarrow> gotime \<Rightarrow> embed_request \<Rightarrow> 'c \<Rightarrow> (mws_error + resolved_embed) \<times> 'c" where
  "refresh_embed dp now now' input c =
     resolve_embed dp now now' (input\<lparr>eq_allow_degraded := True, eq_force := True\<rparr>) c"

section \<open>The cache in memory\<close>

type_synonym mem_previews = "string \<rightharpoonup> cached_preview"

definition memory_preview_cache :: "mem_previews preview_cache" where
  "memory_preview_cache =
     \<lparr>pc_get = (\<lambda>tableID c. Inr (c tableID)), pc_put = (\<lambda>v c. (None, c(cv_table v \<mapsto> v)))\<rparr>"

section \<open>gRPC, and the page service's client\<close>

text \<open>The bytes of the configuration are \<open>None\<close> where there are none, and \<open>Some None\<close> where they are not JSON.\<close>

record embed_message =
  em_token :: string
  em_page :: string
  em_table :: string
  em_display :: "json option option"
  em_force :: bool
  em_allow_degraded :: bool
  em_title :: string

record embed_response =
  ep_allowed :: bool
  ep_title :: string
  ep_schema :: json
  ep_rows :: json
  ep_preview :: string
  ep_ttl_seconds :: int

definition grpc_status :: "string \<Rightarrow> string \<Rightarrow> string" where
  "grpc_status code message = ''rpc error: code = '' @ code @ '' desc = '' @ message"

definition message_display :: "embed_message \<Rightarrow> gmap option" where
  "message_display m =
     (case em_display m of
        None \<Rightarrow> Some (Some [])
      | Some bytes \<Rightarrow> Option.bind bytes (decode_map (Some [])))"

definition embed_server ::
  "'c embed_deps \<Rightarrow> gotime \<Rightarrow> gotime \<Rightarrow> embed_message \<Rightarrow> 'c \<Rightarrow> (string + embed_response) \<times> 'c" where
  "embed_server dp now now' m c =
     (case message_display m of
        None \<Rightarrow> (Inl (grpc_status ''InvalidArgument'' ''json: cannot unmarshal''), c)
      | Some display \<Rightarrow>
          (case resolve_embed dp now now'
                  \<lparr>eq_token = em_token m, eq_page = em_page m, eq_table = em_table m, eq_display = display,
                   eq_allow_degraded = em_allow_degraded m, eq_title = em_title m, eq_force = em_force m\<rparr> c of
             (Inl err, c) \<Rightarrow> (Inl (grpc_status ''Unavailable'' (mws_error_text err)), c)
           | (Inr e, c) \<Rightarrow>
               (Inr \<lparr>ep_allowed = re_allowed e, ep_title = re_title e, ep_schema = json_of_map (re_schema e),
                     ep_rows = JArr (map json_of_map (re_rows e)),
                     ep_preview = preview_state_string (re_preview e), ep_ttl_seconds = re_ttl_seconds e\<rparr>, c)))"

definition refresh_server ::
  "'c embed_deps \<Rightarrow> gotime \<Rightarrow> gotime \<Rightarrow> string \<Rightarrow> string \<Rightarrow> 'c \<Rightarrow> (string + string) \<times> 'c" where
  "refresh_server dp now now' pageID tableID c =
     (case refresh_embed dp now now'
             \<lparr>eq_token = '''', eq_page = pageID, eq_table = tableID, eq_display = None,
              eq_allow_degraded = True, eq_title = '''', eq_force = False\<rparr> c of
        (Inl err, c) \<Rightarrow> (Inl (grpc_status ''Unavailable'' (mws_error_text err)), c)
      | (Inr e, c) \<Rightarrow> (Inr (preview_state_string (re_preview e)), c))"

definition embed_message_of :: "resolve_embed_input \<Rightarrow> embed_message" where
  "embed_message_of input =
     \<lparr>em_token = ri_token input, em_page = ri_page input, em_table = er_table (ri_reference input),
      em_display = Some (Some (json_of_map (er_display (ri_reference input)))), em_force = False,
      em_allow_degraded = ri_allow_degraded input, em_title = ri_title input\<rparr>"

definition embed_client :: "(embed_message \<Rightarrow> string + embed_response) \<Rightarrow> embed_resolver" where
  "embed_client call input =
     (case call (embed_message_of input) of
        Inl err \<Rightarrow> Inl err
      | Inr r \<Rightarrow>
          (case decode_map None (ep_schema r) of
             None \<Rightarrow> Inl ''json: cannot unmarshal''
           | Some schema \<Rightarrow>
               (case decode_slice (decode_map None) (ep_rows r) of
                  None \<Rightarrow> Inl ''json: cannot unmarshal''
                | Some rows \<Rightarrow>
                    Inr \<lparr>te_table = er_table (ri_reference input), te_title = ep_title r,
                         te_display = er_display (ri_reference input), te_preview = ep_preview r,
                         te_schema = schema, te_rows = rows\<rparr>)))"

end
