(* ===== verification/EmbedProperties.thy ===== *)
theory EmbedProperties
  imports Embeds PageQueries PageSamples
begin

text \<open>
  The properties of the MWS integration service: what a resolved embed brings to the page, what a degraded one
  does, and whose data the cache gives out.
\<close>

section \<open>Facts\<close>

lemma decode_rows:
  "\<forall>m \<in> set rows. wf_map m \<Longrightarrow> decode_each (decode_map None) (map json_of_map rows) = Some rows"
  using decode_each_map [of rows "decode_map None" json_of_map "\<lambda>m. m"] by (simp add: decode_json_of_map)

lemma wf_fold_kv_put:
  "distinct (map fst m) \<Longrightarrow> distinct (map fst (fold (\<lambda>(k, v). kv_put k v) kvs m))"
  by (induction kvs arbitrary: m) (auto simp: distinct_kv_put)

lemma decoded_map_wf: "decode_map None v = Some m \<Longrightarrow> wf_map m"
  by (cases v) (auto simp: wf_map_def wf_fold_kv_put)

lemma decoded_each_wf: "decode_each (decode_map None) vs = Some ms \<Longrightarrow> \<forall>m \<in> set ms. wf_map m"
  by (induction vs arbitrary: ms) (auto dest: decoded_map_wf split: option.splits)

lemma decoded_rows_wf: "decode_slice (decode_map None) v = Some ms \<Longrightarrow> \<forall>m \<in> set ms. wf_map m"
  by (cases v) (auto dest: decoded_each_wf)

lemma fetched_wf:
  "fetch_schema c token t = Inr schema \<Longrightarrow> wf_map schema"
  "fetch_preview c token t = Inr rows \<Longrightarrow> \<forall>m \<in> set rows. wf_map m"
  by (auto simp: fetch_schema_def fetch_preview_def dest!: decoded_map_wf decoded_rows_wf
      simp: bind_eq_Some_conv split: sum.splits option.splits)

lemma first_of_two: "first_non_empty [a, b] = (if a = '''' then b else a)"
  by simp

text \<open>What the table service lets a caller with this token have.\<close>

definition table_access :: "mws_site \<Rightarrow> string \<Rightarrow> string \<Rightarrow> (gmap \<times> gmap list) option" where
  "table_access c token t =
     (case (validate_access c token t, fetch_schema c token t, fetch_preview c token t) of
        (None, Inr schema, Inr rows) \<Rightarrow> Some (schema, rows)
      | _ \<Rightarrow> None)"

lemma resolve_embed_cases:
  "resolve_embed dp now now' input c =
     (case table_access (ed_client dp) (eq_token input) (eq_table input) of
        Some (schema, rows) \<Rightarrow>
          (Inr (ready_embed dp input schema rows), store_preview dp now now' (ready_embed dp input schema rows) c)
      | None \<Rightarrow> (fst (resolve_embed dp now now' input c), c))"
  by (auto simp: table_access_def resolve_embed_def split: option.splits sum.splits)

lemma degraded_never_fails: "eq_allow_degraded input \<Longrightarrow> \<exists>e. degraded_or_error dp input err c = Inr e"
  by (auto simp: degraded_or_error_def split: option.splits sum.splits)

lemma resolve_degraded:
  assumes "table_access (ed_client dp) (eq_token input) (eq_table input) = None"
  shows "\<exists>err. resolve_embed dp now now' input c = (degraded_or_error dp input err c, c)"
  using assms by (auto simp: table_access_def resolve_embed_def split: option.splits sum.splits)

lemma message_display_of: "\<exists>m. message_display (embed_message_of input) = Some m"
  by (cases "er_display (ri_reference input)") (auto simp: message_display_def embed_message_of_def json_of_map_def)

text \<open>What the page service's client makes of what was resolved.\<close>

definition descriptor_of :: "resolve_embed_input \<Rightarrow> resolved_embed \<Rightarrow> table_embed_descriptor" where
  "descriptor_of input e =
     \<lparr>te_table = er_table (ri_reference input), te_title = re_title e, te_display = er_display (ri_reference input),
      te_preview = preview_state_string (re_preview e), te_schema = re_schema e, te_rows = re_rows e\<rparr>"

definition request_of :: "resolve_embed_input \<Rightarrow> embed_request" where
  "request_of input =
     \<lparr>eq_token = ri_token input, eq_page = ri_page input, eq_table = er_table (ri_reference input),
      eq_display = (case message_display (embed_message_of input) of None \<Rightarrow> None | Some m \<Rightarrow> m),
      eq_allow_degraded = ri_allow_degraded input, eq_title = ri_title input, eq_force = False\<rparr>"

lemma embed_client_server:
  assumes "wf_map (re_schema e)" and "\<forall>m \<in> set (re_rows e). wf_map m"
    and "resolve_embed dp now now' (request_of input) c = (Inr e, c')"
  shows "embed_client (\<lambda>m. fst (embed_server dp now now' m c)) input = Inr (descriptor_of input e)"
    and "snd (embed_server dp now now' (embed_message_of input) c) = c'"
proof -
  obtain m where m: "message_display (embed_message_of input) = Some m" using message_display_of by blast
  have "embed_server dp now now' (embed_message_of input) c =
      (Inr \<lparr>ep_allowed = re_allowed e, ep_title = re_title e, ep_schema = json_of_map (re_schema e),
            ep_rows = JArr (map json_of_map (re_rows e)), ep_preview = preview_state_string (re_preview e),
            ep_ttl_seconds = re_ttl_seconds e\<rparr>, c')"
    using assms(3) by (simp add: embed_server_def m request_of_def) (simp add: embed_message_of_def)
  then show "embed_client (\<lambda>m. fst (embed_server dp now now' m c)) input = Inr (descriptor_of input e)"
    and "snd (embed_server dp now now' (embed_message_of input) c) = c'"
    by (simp_all add: embed_client_def decode_json_of_map [OF assms(1)] decode_rows [OF assms(2)] descriptor_of_def)
qed

lemma table_access_wf: "table_access c token t = Some (schema, rows) \<Longrightarrow> wf_map schema \<and> (\<forall>m \<in> set rows. wf_map m)"
  by (auto simp: table_access_def dest: fetched_wf split: option.splits sum.splits)

section \<open>Properties\<close>

text \<open>A table service with one table, which only the token \<open>''a''\<close> may read.\<close>

definition one_table :: table_server where
  "one_table url authorization =
     (if authorization \<noteq> ''Bearer a'' then Some (403, None)
      else if url = ''m/tables/t/access'' then Some (200, None)
      else if url = ''m/tables/t/schema'' then Some (200, Some (JObj [(''name'', JStr ''text'')]))
      else if url = ''m/tables/t/preview'' then Some (200, Some (JArr [JObj [(''name'', JStr ''secret'')]]))
      else Some (404, None))"

definition sample_embeds :: "mem_previews embed_deps" where
  "sample_embeds = new_embed_resolver (new_mws_client ''m/'' one_table (\<lambda>_. None)) (Some memory_preview_cache) 0"

definition embed_sample :: "string \<Rightarrow> resolve_embed_input" where
  "embed_sample token =
     \<lparr>ri_page = ''p'', ri_workspace = ''w'', ri_actor = ''u'', ri_token = token, ri_allow_degraded = True,
      ri_reference = \<lparr>er_id = ''e'', er_revision = ''r'', er_page = ''p'', er_block = ''b'', er_table = ''t'',
        er_display = None, er_created = 0\<rparr>, ri_title = ''Table''\<rparr>"

lemma sample_access:
  "table_access (ed_client sample_embeds) ''a'' ''t'' = Some (Some [(''name'', JStr ''text'')], [Some [(''name'', JStr ''secret'')]])"
  "table_access (ed_client sample_embeds) ''b'' ''t'' = None"
  by code_simp+

text \<open>
  What a table service answers to a caller whose bearer token may read a table: it grants the access, and gives
  the schema as a JSON object and the rows as a JSON array. It is asked at these URLs, with this header.
\<close>

definition serves_table :: "table_server \<Rightarrow> string \<Rightarrow> string \<Rightarrow> string \<Rightarrow> gmap \<Rightarrow> gmap list \<Rightarrow> bool" where
  "serves_table server base token t schema rows \<longleftrightarrow>
     (\<exists>body. server (base @ ''/tables/'' @ t @ ''/access'') (''Bearer '' @ token) = Some (200, body)) \<and>
     server (base @ ''/tables/'' @ t @ ''/schema'') (''Bearer '' @ token) = Some (200, Some (json_of_map schema)) \<and>
     server (base @ ''/tables/'' @ t @ ''/preview'') (''Bearer '' @ token) = Some (200, Some (JArr (map json_of_map rows)))"

lemma new_mws_client_base:
  assumes "base = '''' \<or> last base \<noteq> CHR ''/''"
  shows "mw_base (new_mws_client (base @ replicate k (CHR ''/'')) server bad) = base"
proof -
  have "dropWhile (\<lambda>c. c = CHR ''/'') (replicate k (CHR ''/'') @ rev base) = rev base"
    using assms by (induction k) (cases base rule: rev_cases; simp)+
  then show ?thesis by (simp add: new_mws_client_def)
qed

lemma served_table_access:
  assumes "serves_table server base token t schema rows" and "token \<noteq> ''''" and "base = '''' \<or> last base \<noteq> CHR ''/''"
    and "\<forall>suffix. bad (base @ ''/tables/'' @ t @ ''/'' @ suffix) = None" and "wf_map schema" and "\<forall>m \<in> set rows. wf_map m"
  shows "table_access (new_mws_client (base @ replicate k (CHR ''/'')) server bad) token t = Some (schema, rows)"
proof -
  let ?c = "new_mws_client (base @ replicate k (CHR ''/'')) server bad"
  have asked: "mws_get ?c (table_path t suffix) token = Inr body"
    if "server (base @ ''/tables/'' @ t @ ''/'' @ suffix) (''Bearer '' @ token) = Some (200, body)" for suffix body
    using that assms(2,4)
    by (simp add: mws_get_def table_path_def new_mws_client_base [OF assms(3)]) (simp add: new_mws_client_def)
  obtain body where "server (base @ ''/tables/'' @ t @ ''/'' @ ''access'') (''Bearer '' @ token) = Some (200, body)"
    using assms(1) by (auto simp: serves_table_def)
  then have "validate_access ?c token t = None" using asked [of "''access''"] by (simp add: validate_access_def)
  moreover have "fetch_schema ?c token t = Inr schema"
    using asked [of "''schema''"] assms(1) by (simp add: serves_table_def fetch_schema_def decode_json_of_map [OF assms(5)])
  moreover have "fetch_preview ?c token t = Inr rows"
    using asked [of "''preview''"] assms(1) by (simp add: serves_table_def fetch_preview_def decode_rows [OF assms(6)])
  ultimately show ?thesis by (simp add: table_access_def)
qed

text \<open>
  C28: an embed that the caller may read reaches the page as the table service answers it: where the service grants
  the caller's token the access and gives it a schema and rows, the page gets this schema and these rows,
  through the request of the page, the calls to the service with the token in their header, the resolver,
  the encoding of schema and rows as JSON and their decoding by the page service. The table has its
  stored title, or its identifier where none is stored, and is marked ready.
\<close>

theorem embed_reaches_page:
  assumes "ed_client dp = new_mws_client (base @ replicate k (CHR ''/'')) server bad"
    and "base = '''' \<or> last base \<noteq> CHR ''/''" and "ri_token input \<noteq> ''''"
    and "serves_table server base (ri_token input) (er_table (ri_reference input)) schema rows"
    and "\<forall>suffix. bad (base @ ''/tables/'' @ er_table (ri_reference input) @ ''/'' @ suffix) = None"
    and "wf_map schema" and "\<forall>m \<in> set rows. wf_map m"
  shows "embed_client (\<lambda>m. fst (embed_server dp now now' m c)) input =
    Inr \<lparr>te_table = er_table (ri_reference input),
         te_title = (if ri_title input = '''' then er_table (ri_reference input) else ri_title input),
         te_display = er_display (ri_reference input), te_preview = ''ready'', te_schema = schema, te_rows = rows\<rparr>"
proof -
  let ?e = "ready_embed dp (request_of input) schema rows"
  have "table_access (ed_client dp) (ri_token input) (er_table (ri_reference input)) = Some (schema, rows)"
    unfolding assms(1) by (rule served_table_access [OF assms(4,3,2,5-7)])
  then have resolved: "resolve_embed dp now now' (request_of input) c = (Inr ?e, store_preview dp now now' ?e c)"
    using resolve_embed_cases [of dp now now' "request_of input" c] by (simp add: request_of_def)
  have "wf_map (re_schema ?e)" and "\<forall>m \<in> set (re_rows ?e). wf_map m"
    using assms(6,7) by (simp_all add: ready_embed_def)
  from embed_client_server(1) [OF this resolved] show ?thesis
    by (simp add: descriptor_of_def ready_embed_def request_of_def first_of_two del: first_non_empty.simps)
qed

theorem embed_reaches_page_witness:
  "\<exists>d. embed_client (\<lambda>m. fst (embed_server sample_embeds 1 1 m Map.empty)) (embed_sample ''a'') = Inr d
     \<and> te_title d = ''Table'' \<and> te_rows d = [Some [(''name'', JStr ''secret'')]]"
proof -
  have client: "ed_client sample_embeds = new_mws_client (''m'' @ replicate 1 (CHR ''/'')) one_table (\<lambda>_. None)"
    by (simp add: sample_embeds_def new_embed_resolver_def)
  have served: "serves_table one_table ''m'' (ri_token (embed_sample ''a'')) (er_table (ri_reference (embed_sample ''a'')))
      (Some [(''name'', JStr ''text'')]) [Some [(''name'', JStr ''secret'')]]"
    by (simp add: serves_table_def one_table_def embed_sample_def json_of_map_def)
  have wf: "wf_map (Some [(''name'', JStr ''text'')])" "\<forall>m \<in> set [Some [(''name'', JStr ''secret'')]]. wf_map m"
    by (simp_all add: wf_map_def)
  from embed_reaches_page [OF client _ _ served _ wf] show ?thesis by (simp add: embed_sample_def)
qed

text \<open>
  the cache gives a table to callers who may not read it: after somebody who may read a table has resolved
  it, anybody else, whom the table service refuses, gets its schema and its rows with a degraded answer, at
  any later time, since neither the caller nor the expiry of the entry is looked at.
\<close>

theorem cached_rows_without_access:
  assumes "ed_cache dp = Some memory_preview_cache"
    and "table_access (ed_client dp) (ri_token reader) t = Some (schema, rows)" and "er_table (ri_reference reader) = t"
    and "validate_access (ed_client dp) (ri_token other) t = Some MwsForbidden" and "er_table (ri_reference other) = t"
    and "ri_allow_degraded other"
    and "c' = snd (embed_server dp now now' (embed_message_of reader) c)"
  shows "\<exists>d. embed_client (\<lambda>m. fst (embed_server dp later later' m c')) other = Inr d
    \<and> te_schema d = schema \<and> te_rows d = rows \<and> te_preview d = ''degraded''"
proof -
  let ?e = "ready_embed dp (request_of reader) schema rows"
  let ?c = "c(t \<mapsto> \<lparr>cv_table = t, cv_title = re_title ?e, cv_schema = schema, cv_rows = rows,
      cv_fetched_at = now, cv_expires_at = now' + ed_ttl dp\<rparr>)"
  let ?d = "(degraded_embed dp (request_of other))
      \<lparr>re_title := first_non_empty [re_title ?e, re_title (degraded_embed dp (request_of other))],
       re_schema := schema, re_rows := rows\<rparr>"
  note wf = table_access_wf [OF assms(2)]
  have table: "eq_table (request_of reader) = t" "eq_table (request_of other) = t"
    by (simp_all add: request_of_def assms(3,5))
  have resolved: "resolve_embed dp now now' (request_of reader) c = (Inr ?e, store_preview dp now now' ?e c)"
    using resolve_embed_cases [of dp now now' "request_of reader" c] assms(2) table(1) by (simp add: request_of_def)
  have stored: "store_preview dp now now' ?e c = ?c"
    by (simp add: store_preview_def assms(1) memory_preview_cache_def ready_embed_def table)
  have "wf_map (re_schema ?e)" and "\<forall>m \<in> set (re_rows ?e). wf_map m" using wf by (simp_all add: ready_embed_def)
  from embed_client_server(2) [OF this resolved] have c': "c' = ?c" unfolding stored assms(7) .
  have "resolve_embed dp later later' (request_of other) ?c = (Inr ?d, ?c)"
  proof -
    have "eq_allow_degraded (request_of other)" and "eq_token (request_of other) = ri_token other"
      by (simp_all add: request_of_def assms(6))
    then show ?thesis using assms(4)
      by (simp add: resolve_embed_def table degraded_or_error_def assms(1) memory_preview_cache_def
          del: first_non_empty.simps)
  qed
  then have "embed_client (\<lambda>m. fst (embed_server dp later later' m c')) other = Inr (descriptor_of other ?d)"
    unfolding c' by (intro embed_client_server(1)) (use wf in simp_all)
  then show ?thesis by (simp add: descriptor_of_def degraded_embed_def)
qed

theorem cached_rows_without_access_witness:
  "\<exists>d. embed_client (\<lambda>m. fst (embed_server sample_embeds (1000 * minute) (1000 * minute) m
       (snd (embed_server sample_embeds 1 1 (embed_message_of (embed_sample ''a'')) Map.empty)))) (embed_sample ''b'') = Inr d
    \<and> te_rows d = [Some [(''name'', JStr ''secret'')]]"
proof -
  have "ed_cache sample_embeds = Some memory_preview_cache" by (simp add: sample_embeds_def new_embed_resolver_def)
  moreover have "table_access (ed_client sample_embeds) (ri_token (embed_sample ''a'')) ''t'' =
      Some (Some [(''name'', JStr ''text'')], [Some [(''name'', JStr ''secret'')]])"
    using sample_access(1) by (simp add: embed_sample_def)
  moreover have "validate_access (ed_client sample_embeds) (ri_token (embed_sample ''b'')) ''t'' = Some MwsForbidden"
    by code_simp
  ultimately show ?thesis
    using cached_rows_without_access [of sample_embeds "embed_sample ''a''" "''t''" _ _ "embed_sample ''b''" _ 1 1 Map.empty]
    by (fastforce simp: embed_sample_def)
qed

end
