(* ===== verification/PagePostgres.thy ===== *)
theory PagePostgres
  imports PageStore Wire Outbox Rows
begin

text \<open>
  The page store on PostgreSQL (\<^verbatim>\<open>services/page-service/internal/adapters/postgres/page_repository.go\<close>,
  \<^verbatim>\<open>projection_repository.go\<close> and the tables of \<^verbatim>\<open>migrations\<close>): every statement on the rows of the
  tables, with the constraints that refuse it. A statement, or a commit, can also fail on its own: \<open>fault\<close>
  says which do, of a statement and the identifier it is about. A commit that was made can lose its answer
  (\<open>CommitAnswer\<close>): the caller is given an error and the rows are there.

  An empty identifier that the adapter turns into NULL reads as empty again. A document is stored as its JSON.
\<close>

section \<open>Tables\<close>

datatype page_statement =
  SelectPage | SelectRevision | SelectRevisions | SelectIdempotency | SelectReferences | SelectPending
| InsertPage | InsertRevision | InsertIdempotency | UpdatePage | DeleteReferences | InsertReference | InsertOutbox
| UpdateOutbox | CommitPages | CommitAnswer

type_synonym page_fault = "page_statement \<Rightarrow> string \<Rightarrow> string option"

record revision_row =
  rw_id :: string
  rw_page :: string
  rw_no :: int
  rw_kind :: revision_view
  rw_base :: string
  rw_restored_from :: string
  rw_document :: json
  rw_title :: string
  rw_created_by :: string
  rw_created_via :: revision_source
  rw_created_at :: gotime

record outbox_row =
  ox_record :: outbox_record
  ox_last_error :: string

record page_db =
  pr_pages :: "page list"
  pr_revisions :: "revision_row list"
  pr_embedded :: "embedded_table_reference list"
  pr_attachments :: "attachment_reference_record list"
  pr_links :: "page_link_record list"
  pr_idempotencies :: "draft_idempotency list"
  pr_outbox :: "outbox_row list"

definition new_page_db :: page_db where
  "new_page_db = \<lparr>pr_pages = [], pr_revisions = [], pr_embedded = [], pr_attachments = [], pr_links = [],
     pr_idempotencies = [], pr_outbox = []\<rparr>"

definition page_known :: "page_db \<Rightarrow> string \<Rightarrow> bool" where
  "page_known d pageID \<longleftrightarrow> list_ex (\<lambda>p. pg_id p = pageID) (pr_pages d)"

definition revision_known :: "page_db \<Rightarrow> string \<Rightarrow> bool" where
  "revision_known d revisionID \<longleftrightarrow> list_ex (\<lambda>r. rw_id r = revisionID) (pr_revisions d)"

section \<open>Reading\<close>

definition db_get_page :: "page_fault \<Rightarrow> page_db \<Rightarrow> string \<Rightarrow> store_error + page" where
  "db_get_page fault d pageID =
     (case fault SelectPage pageID of
        Some err \<Rightarrow> Inl (ErrStore err)
      | None \<Rightarrow> (case find (\<lambda>p. pg_id p = pageID) (pr_pages d) of None \<Rightarrow> Inl ErrNotFound | Some p \<Rightarrow> Inr p))"

definition revision_of_row :: "revision_row \<Rightarrow> store_error + page_revision" where
  "revision_of_row r =
     (case document_of_json (rw_document r) of
        None \<Rightarrow> Inl (ErrStore ''json: cannot unmarshal'')
      | Some document \<Rightarrow>
          Inr \<lparr>rv_id = rw_id r, rv_page = rw_page r, rv_no = rw_no r, rv_kind = rw_kind r, rv_base = rw_base r,
               rv_restored_from = rw_restored_from r, rv_document = document, rv_title = rw_title r,
               rv_created_by = rw_created_by r, rv_created_via = rw_created_via r,
               rv_created_at = rw_created_at r\<rparr>)"

definition read_revision ::
  "page_fault \<Rightarrow> string \<Rightarrow> (revision_row \<Rightarrow> bool) \<Rightarrow> page_db \<Rightarrow> store_error + page_revision" where
  "read_revision fault revisionID P d =
     (case fault SelectRevision revisionID of
        Some err \<Rightarrow> Inl (ErrStore err)
      | None \<Rightarrow> (case find P (pr_revisions d) of None \<Rightarrow> Inl ErrNotFound | Some r \<Rightarrow> revision_of_row r))"

definition db_get_revision :: "page_fault \<Rightarrow> page_db \<Rightarrow> string \<Rightarrow> revision_view \<Rightarrow> store_error + page_revision" where
  "db_get_revision fault d pageID view =
     (case db_get_page fault d pageID of
        Inl err \<Rightarrow> Inl err
      | Inr page \<Rightarrow>
          let revisionID = (if view = ViewPublished \<and> pg_published_id page \<noteq> '''' then pg_published_id page
                            else pg_draft_id page)
          in read_revision fault revisionID (\<lambda>r. rw_id r = revisionID) d)"

definition db_get_revision_by_id :: "page_fault \<Rightarrow> page_db \<Rightarrow> string \<Rightarrow> string \<Rightarrow> store_error + page_revision" where
  "db_get_revision_by_id fault d pageID revisionID =
     read_revision fault revisionID (\<lambda>r. rw_id r = revisionID \<and> rw_page r = pageID) d"

fun revisions_of_rows :: "revision_row list \<Rightarrow> store_error + page_revision list" where
  "revisions_of_rows [] = Inr []"
| "revisions_of_rows (r # rows) =
     (case revision_of_row r of
        Inl err \<Rightarrow> Inl err
      | Inr revision \<Rightarrow>
          (case revisions_of_rows rows of Inl err \<Rightarrow> Inl err | Inr revisions \<Rightarrow> Inr (revision # revisions)))"

definition db_list_revisions :: "page_fault \<Rightarrow> page_db \<Rightarrow> string \<Rightarrow> store_error + page_revision list" where
  "db_list_revisions fault d pageID =
     (case fault SelectRevisions pageID of
        Some err \<Rightarrow> Inl (ErrStore err)
      | None \<Rightarrow> revisions_of_rows (sort_key (\<lambda>r. - rw_no r) (filter (\<lambda>r. rw_page r = pageID) (pr_revisions d))))"

definition db_list_embedded ::
  "page_fault \<Rightarrow> page_db \<Rightarrow> string \<Rightarrow> store_error + embedded_table_reference list" where
  "db_list_embedded fault d revisionID =
     (case fault SelectReferences revisionID of
        Some err \<Rightarrow> Inl (ErrStore err)
      | None \<Rightarrow> Inr (sort_key er_created (filter (\<lambda>r. er_revision r = revisionID) (pr_embedded d))))"

definition db_list_attachments ::
  "page_fault \<Rightarrow> page_db \<Rightarrow> string \<Rightarrow> store_error + attachment_reference_record list" where
  "db_list_attachments fault d revisionID =
     (case fault SelectReferences revisionID of
        Some err \<Rightarrow> Inl (ErrStore err)
      | None \<Rightarrow> Inr (sort_key ar_created (filter (\<lambda>r. ar_revision r = revisionID) (pr_attachments d))))"

definition db_list_links :: "page_fault \<Rightarrow> page_db \<Rightarrow> string \<Rightarrow> store_error + page_link_record list" where
  "db_list_links fault d revisionID =
     (case fault SelectReferences revisionID of
        Some err \<Rightarrow> Inl (ErrStore err)
      | None \<Rightarrow> Inr (sort_key lr_created (filter (\<lambda>r. lr_revision r = revisionID) (pr_links d))))"

definition db_get_idempotency ::
  "page_fault \<Rightarrow> page_db \<Rightarrow> string \<Rightarrow> string \<Rightarrow> store_error + draft_idempotency option" where
  "db_get_idempotency fault d pageID key =
     (case fault SelectIdempotency pageID of
        Some err \<Rightarrow> Inl (ErrStore err)
      | None \<Rightarrow> Inr (find (\<lambda>i. id_page i = pageID \<and> id_key i = key) (pr_idempotencies d)))"

section \<open>Writing\<close>

text \<open>A statement that a fault or a constraint refuses.\<close>

definition duplicate_key :: store_error where
  "duplicate_key = ErrStore ''duplicate key value violates unique constraint''"

definition not_null :: store_error where
  "not_null = ErrStore ''null value violates not-null constraint''"

definition foreign_key :: store_error where
  "foreign_key = ErrStore ''insert or update violates foreign key constraint''"

definition stored_page :: "page \<Rightarrow> page" where
  "stored_page p = p\<lparr>pg_created_at := stored_time (pg_created_at p), pg_updated_at := stored_time (pg_updated_at p)\<rparr>"

definition revision_row_of :: "page_revision \<Rightarrow> revision_row" where
  "revision_row_of r =
     \<lparr>rw_id = rv_id r, rw_page = rv_page r, rw_no = rv_no r, rw_kind = rv_kind r, rw_base = rv_base r,
      rw_restored_from = rv_restored_from r, rw_document = document_json (rv_document r), rw_title = rv_title r,
      rw_created_by = rv_created_by r, rw_created_via = rv_created_via r,
      rw_created_at = stored_time (rv_created_at r)\<rparr>"

definition insert_revision_row :: "page_fault \<Rightarrow> revision_row \<Rightarrow> page_db \<Rightarrow> store_error option \<times> page_db" where
  "insert_revision_row fault row d =
     (case fault InsertRevision (rw_id row) of
        Some err \<Rightarrow> (Some (ErrStore err), d)
      | None \<Rightarrow>
          if revision_known d (rw_id row) \<or>
             list_ex (\<lambda>r. rw_page r = rw_page row \<and> rw_no r = rw_no row) (pr_revisions d) then
            (Some duplicate_key, d)
          else if \<not> page_known d (rw_page row) \<or>
                  (rw_restored_from row \<noteq> '''' \<and> \<not> revision_known d (rw_restored_from row)) then
            (Some foreign_key, d)
          else (None, d\<lparr>pr_revisions := pr_revisions d @ [row]\<rparr>))"

text \<open>\<open>CreatePage\<close> stores no published revision, and its revision has no base.\<close>

definition db_create_page :: "page_fault \<Rightarrow> page \<Rightarrow> page_revision \<Rightarrow> page_db \<Rightarrow> store_error option \<times> page_db" where
  "db_create_page fault page revision d =
     (case fault InsertPage (pg_id page) of
        Some err \<Rightarrow> (Some (ErrStore err), d)
      | None \<Rightarrow>
          if page_known d (pg_id page) \<or>
             list_ex (\<lambda>p. pg_workspace p = pg_workspace page \<and> pg_slug p = pg_slug page) (pr_pages d) then
            (Some duplicate_key, d)
          else insert_revision_row fault ((revision_row_of revision)\<lparr>rw_base := '''', rw_restored_from := ''''\<rparr>)
            (d\<lparr>pr_pages := pr_pages d @ [(stored_page page)\<lparr>pg_published_id := '''', pg_published_no := 0\<rparr>]\<rparr>))"

definition insert_revision_and_idempotency ::
  "page_fault \<Rightarrow> page_revision \<Rightarrow> draft_idempotency option \<Rightarrow> page_db \<Rightarrow> store_error option \<times> page_db" where
  "insert_revision_and_idempotency fault revision idempotency d =
     (case insert_revision_row fault (revision_row_of revision) d of
        (Some err, d') \<Rightarrow> (Some err, d')
      | (None, d') \<Rightarrow>
          (case idempotency of
             None \<Rightarrow> (None, d')
           | Some i \<Rightarrow>
               if id_key i = '''' then (None, d')
               else (case fault InsertIdempotency (id_page i) of
                       Some err \<Rightarrow> (Some (ErrStore err), d')
                     | None \<Rightarrow>
                         if list_ex (\<lambda>j. id_page j = id_page i \<and> id_key j = id_key i) (pr_idempotencies d') then (None, d')
                         else if \<not> page_known d' (id_page i) \<or> \<not> revision_known d' (id_revision i) then
                           (Some foreign_key, d')
                         else (None, d'\<lparr>pr_idempotencies := pr_idempotencies d' @
                                 [i\<lparr>id_created_at := stored_time (id_created_at i)\<rparr>]\<rparr>))))"

text \<open>An update of the page whose draft head has the expected number; none such is a stale revision.\<close>

definition update_page ::
  "page_fault \<Rightarrow> int \<Rightarrow> string \<Rightarrow> (page \<Rightarrow> page) \<Rightarrow> page_db \<Rightarrow> store_error option \<times> page_db" where
  "update_page fault expected pageID change d =
     (case fault UpdatePage pageID of
        Some err \<Rightarrow> (Some (ErrStore err), d)
      | None \<Rightarrow>
          if \<not> list_ex (\<lambda>p. pg_id p = pageID \<and> pg_draft_no p = expected) (pr_pages d) then (Some ErrStaleRevision, d)
          else (None, d\<lparr>pr_pages := update_where (\<lambda>p. pg_id p = pageID \<and> pg_draft_no p = expected) change (pr_pages d)\<rparr>))"

definition db_save_draft_revision ::
  "page_fault \<Rightarrow> int \<Rightarrow> page \<Rightarrow> page_revision \<Rightarrow> draft_idempotency option \<Rightarrow> page_db \<Rightarrow> store_error option \<times> page_db" where
  "db_save_draft_revision fault expected page revision idempotency d =
     (case update_page fault expected (pg_id page)
             (\<lambda>p. p\<lparr>pg_title := pg_title page, pg_status := pg_status page, pg_updated_by := pg_updated_by page,
                    pg_draft_id := pg_draft_id page, pg_draft_no := pg_draft_no page,
                    pg_updated_at := stored_time (pg_updated_at page)\<rparr>) d of
        (Some err, d) \<Rightarrow> (Some err, d)
      | (None, d) \<Rightarrow> insert_revision_and_idempotency fault revision idempotency d)"

definition db_save_published_revision ::
  "page_fault \<Rightarrow> int \<Rightarrow> page \<Rightarrow> page_revision \<Rightarrow> page_db \<Rightarrow> store_error option \<times> page_db" where
  "db_save_published_revision fault expected page revision d =
     (case update_page fault expected (pg_id page)
             (\<lambda>p. p\<lparr>pg_title := pg_title page, pg_status := pg_status page, pg_updated_by := pg_updated_by page,
                    pg_published_id := pg_published_id page, pg_published_no := pg_published_no page,
                    pg_updated_at := stored_time (pg_updated_at page)\<rparr>) d of
        (Some err, d) \<Rightarrow> (Some err, d)
      | (None, d) \<Rightarrow> insert_revision_and_idempotency fault revision None d)"

definition db_archive_page :: "page_fault \<Rightarrow> int \<Rightarrow> page \<Rightarrow> page_db \<Rightarrow> store_error option \<times> page_db" where
  "db_archive_page fault expected page d =
     update_page fault expected (pg_id page)
       (\<lambda>p. p\<lparr>pg_status := pg_status page, pg_updated_by := pg_updated_by page,
              pg_updated_at := stored_time (pg_updated_at page)\<rparr>) d"

text \<open>
  The loops that insert references one by one into what the deletion left: \<open>full\<close> says whether every column
  that must not be null has a value, \<open>key\<close> is the primary key of a row, \<open>ok\<close> whether the rows it refers to
  exist. A nil map is sent as NULL, which \<open>display_config\<close> refuses.
\<close>

fun insert_rows ::
  "page_fault \<Rightarrow> page_statement \<Rightarrow> ('a \<Rightarrow> bool) \<Rightarrow> ('a \<Rightarrow> string) \<Rightarrow> ('a \<Rightarrow> bool) \<Rightarrow> 'a list \<Rightarrow> 'a list \<Rightarrow>
   store_error + 'a list" where
  "insert_rows fault stmt full key ok [] rows = Inr rows"
| "insert_rows fault stmt full key ok (x # xs) rows =
     (case fault stmt (key x) of
        Some err \<Rightarrow> Inl (ErrStore err)
      | None \<Rightarrow>
          if \<not> full x then Inl not_null
          else if list_ex (\<lambda>r. key r = key x) rows then Inl duplicate_key
          else if \<not> ok x then Inl foreign_key
          else insert_rows fault stmt full key ok xs (rows @ [x]))"

definition replace_rows ::
  "page_fault \<Rightarrow> string \<Rightarrow> ('a \<Rightarrow> string) \<Rightarrow> ('a \<Rightarrow> bool) \<Rightarrow> ('a \<Rightarrow> string) \<Rightarrow> ('a \<Rightarrow> bool) \<Rightarrow> 'a list \<Rightarrow> 'a list \<Rightarrow>
   store_error + 'a list" where
  "replace_rows fault revisionID revision_of full key ok xs rows =
     (case fault DeleteReferences revisionID of
        Some err \<Rightarrow> Inl (ErrStore err)
      | None \<Rightarrow> insert_rows fault InsertReference full key ok xs (filter (\<lambda>r. revision_of r \<noteq> revisionID) rows))"

definition db_replace_embedded ::
  "page_fault \<Rightarrow> string \<Rightarrow> embedded_table_reference list \<Rightarrow> page_db \<Rightarrow> store_error option \<times> page_db" where
  "db_replace_embedded fault revisionID refs d =
     (case replace_rows fault revisionID er_revision (\<lambda>r. er_display r \<noteq> None) er_id
             (\<lambda>r. revision_known d (er_revision r) \<and> page_known d (er_page r))
             (map (\<lambda>r. r\<lparr>er_created := stored_time (er_created r)\<rparr>) refs) (pr_embedded d) of
        Inl err \<Rightarrow> (Some err, d)
      | Inr rows \<Rightarrow> (None, d\<lparr>pr_embedded := rows\<rparr>))"

definition db_replace_attachments ::
  "page_fault \<Rightarrow> string \<Rightarrow> attachment_reference_record list \<Rightarrow> page_db \<Rightarrow> store_error option \<times> page_db" where
  "db_replace_attachments fault revisionID refs d =
     (case replace_rows fault revisionID ar_revision (\<lambda>_. True) ar_id
             (\<lambda>r. revision_known d (ar_revision r) \<and> page_known d (ar_page r))
             (map (\<lambda>r. r\<lparr>ar_created := stored_time (ar_created r)\<rparr>) refs) (pr_attachments d) of
        Inl err \<Rightarrow> (Some err, d)
      | Inr rows \<Rightarrow> (None, d\<lparr>pr_attachments := rows\<rparr>))"

definition db_replace_links_of ::
  "page_fault \<Rightarrow> string \<Rightarrow> page_link_record list \<Rightarrow> page_db \<Rightarrow> store_error option \<times> page_db" where
  "db_replace_links_of fault revisionID refs d =
     (case replace_rows fault revisionID lr_revision (\<lambda>_. True) lr_id
             (\<lambda>r. revision_known d (lr_revision r) \<and> page_known d (lr_source r))
             (map (\<lambda>r. r\<lparr>lr_created := stored_time (lr_created r)\<rparr>) refs) (pr_links d) of
        Inl err \<Rightarrow> (Some err, d)
      | Inr rows \<Rightarrow> (None, d\<lparr>pr_links := rows\<rparr>))"

definition stored_event :: "outbox_record \<Rightarrow> outbox_row" where
  "stored_event r =
     \<lparr>ox_record = r\<lparr>ob_created_at := stored_time (ob_created_at r), ob_available_at := stored_time (ob_available_at r)\<rparr>,
      ox_last_error = ''''\<rparr>"

definition db_outbox_add :: "page_fault \<Rightarrow> outbox_record list \<Rightarrow> page_db \<Rightarrow> store_error option \<times> page_db" where
  "db_outbox_add fault records d =
     (case insert_rows fault InsertOutbox (\<lambda>_. True) (\<lambda>row. ob_id (ox_record row)) (\<lambda>_. True)
             (map stored_event records) (pr_outbox d) of
        Inl err \<Rightarrow> (Some err, d)
      | Inr rows \<Rightarrow> (None, d\<lparr>pr_outbox := rows\<rparr>))"

section \<open>Transactions\<close>

fun db_write :: "page_fault \<Rightarrow> store_write \<Rightarrow> page_db \<Rightarrow> store_error option \<times> page_db" where
  "db_write fault (CreatePage page revision) d = db_create_page fault page revision d"
| "db_write fault (SaveDraftRevision e page revision i) d = db_save_draft_revision fault e page revision i d"
| "db_write fault (SavePublishedRevision e page revision) d = db_save_published_revision fault e page revision d"
| "db_write fault (ArchivePage e page) d = db_archive_page fault e page d"
| "db_write fault (ReplaceEmbeddedTableRefs r refs) d = db_replace_embedded fault r refs d"
| "db_write fault (ReplaceAttachmentRefs r refs) d = db_replace_attachments fault r refs d"
| "db_write fault (ReplacePageLinks r refs) d = db_replace_links_of fault r refs d"
| "db_write fault (OutboxAdd records) d = db_outbox_add fault records d"

fun db_writes :: "page_fault \<Rightarrow> store_write list \<Rightarrow> page_db \<Rightarrow> store_error option \<times> page_db" where
  "db_writes fault [] d = (None, d)"
| "db_writes fault (w # ws) d =
     (case db_write fault w d of
        (Some err, d) \<Rightarrow> (Some err, d)
      | (None, d) \<Rightarrow> db_writes fault ws d)"

text \<open>
  \<open>Execute\<close>: what the function wrote is kept only by the commit. One whose answer is lost has kept it, and
  reports an error all the same.
\<close>

definition db_execute :: "page_fault \<Rightarrow> store_write list \<Rightarrow> page_db \<Rightarrow> store_error option \<times> page_db" where
  "db_execute fault ws d =
     (case db_writes fault ws d of
        (Some err, _) \<Rightarrow> (Some err, d)
      | (None, d') \<Rightarrow>
          (case fault CommitPages '''' of
             Some err \<Rightarrow> (Some (ErrStore err), d)
           | None \<Rightarrow> (map_option ErrStore (fault CommitAnswer ''''), d')))"

text \<open>What a caller is given is its own copy.\<close>

definition postgres_page_ops :: "page_fault \<Rightarrow> page_db store_ops" where
  "postgres_page_ops fault =
     \<lparr>so_get_page = db_get_page fault, so_get_revision = db_get_revision fault,
      so_get_revision_by_id = db_get_revision_by_id fault, so_list_revisions = db_list_revisions fault,
      so_list_embedded = db_list_embedded fault, so_get_idempotency = db_get_idempotency fault,
      so_execute = db_execute fault, so_share = (\<lambda>_ _ _ d. d)\<rparr>"

section \<open>The outbox\<close>

text \<open>A table that does not exist yet (42P01) is an outbox without events; \<open>now\<close> is the server's clock.\<close>

definition message_of_row :: "outbox_row \<Rightarrow> outbox_message" where
  "message_of_row row =
     \<lparr>om_id = ob_id (ox_record row), om_subject = ob_event (ox_record row), om_payload = ob_payload (ox_record row),
      om_headers = [], om_attempts = 0, om_last_error = '''', om_occurred_at = ob_created_at (ox_record row),
      om_available_at = ob_available_at (ox_record row)\<rparr>"

definition db_claim_pending :: "page_fault \<Rightarrow> gotime \<Rightarrow> int \<Rightarrow> page_db \<Rightarrow> string + outbox_message list" where
  "db_claim_pending fault now batchSize d =
     (case fault SelectPending '''' of
        Some err \<Rightarrow> if err = ''42P01'' then Inr [] else Inl err
      | None \<Rightarrow>
          if batchSize < 0 then Inl ''LIMIT must not be negative''
          else Inr (map message_of_row (take (nat batchSize) (sort_key (\<lambda>row. ob_created_at (ox_record row))
            (filter (\<lambda>row. ob_status (ox_record row) = OutboxPending \<and> ob_available_at (ox_record row) \<le> now)
              (pr_outbox d))))))"

definition db_mark_published :: "page_fault \<Rightarrow> string \<Rightarrow> gotime \<Rightarrow> page_db \<Rightarrow> string option \<times> page_db" where
  "db_mark_published fault i publishedAt d =
     (case fault UpdateOutbox i of
        Some err \<Rightarrow> (Some err, d)
      | None \<Rightarrow> (None, d\<lparr>pr_outbox := update_where (\<lambda>row. ob_id (ox_record row) = i)
                 (\<lambda>row. row\<lparr>ox_record := (ox_record row)\<lparr>ob_status := OutboxPublished\<rparr>\<rparr>) (pr_outbox d)\<rparr>))"

definition db_mark_failed :: "page_fault \<Rightarrow> string \<Rightarrow> string \<Rightarrow> gotime \<Rightarrow> page_db \<Rightarrow> string option \<times> page_db" where
  "db_mark_failed fault i lastError nextAttemptAt d =
     (case fault UpdateOutbox i of
        Some err \<Rightarrow> (Some err, d)
      | None \<Rightarrow> (None, d\<lparr>pr_outbox := update_where (\<lambda>row. ob_id (ox_record row) = i)
                 (\<lambda>row. \<lparr>ox_record = (ox_record row)\<lparr>ob_status := OutboxFailed, ob_available_at := stored_time nextAttemptAt\<rparr>,
                         ox_last_error = lastError\<rparr>) (pr_outbox d)\<rparr>))"

definition postgres_outbox_ops :: "page_fault \<Rightarrow> gotime \<Rightarrow> page_db outbox_ops" where
  "postgres_outbox_ops fault now =
     \<lparr>oo_claim = db_claim_pending fault now, oo_mark_published = db_mark_published fault,
      oo_mark_failed = db_mark_failed fault\<rparr>"

end
