(* ===== verification/PagePostgresFacts.thy ===== *)
theory PagePostgresFacts
  imports PagePostgres MemoryStore
begin

text \<open>
  What holds of the page store on PostgreSQL: the constraints of its tables hold after every transaction,
  and a transaction that a use case runs leaves the rows that hold what the in-memory store keeps.
\<close>

section \<open>Inserting\<close>

lemma insert_rows_ok: "insert_rows fault stmt full key ok xs rows = Inr rows' \<Longrightarrow> rows' = rows @ xs"
  by (induction xs arbitrary: rows) (fastforce split: option.splits if_splits)+

lemma insert_rows_distinct:
  "insert_rows fault stmt full key ok xs rows = Inr rows' \<Longrightarrow> distinct (map key rows) \<Longrightarrow> distinct (map key rows')"
proof (induction xs arbitrary: rows)
  case (Cons x xs)
  have fresh: "\<not> list_ex (\<lambda>r. key r = key x) rows" and more: "insert_rows fault stmt full key ok xs (rows @ [x]) = Inr rows'"
    using Cons.prems(1) by (auto split: option.splits if_splits)
  have "distinct (map key (rows @ [x]))" using fresh Cons.prems(2) by (auto simp: list_ex_iff)
  with Cons.IH [OF more] show ?case .
qed simp

lemma insert_rows_refer:
  "insert_rows fault stmt full key ok xs rows = Inr rows' \<Longrightarrow> list_all ok rows \<Longrightarrow> list_all ok rows'"
  by (induction xs arbitrary: rows) (auto split: option.splits if_splits)

lemma replace_rows_ok:
  "replace_rows fault revisionID revision_of full key ok xs rows = Inr rows' \<Longrightarrow>
     rows' = filter (\<lambda>r. revision_of r \<noteq> revisionID) rows @ xs"
  by (auto simp: replace_rows_def dest: insert_rows_ok split: option.splits)

lemma replace_rows_keys:
  assumes "replace_rows fault revisionID revision_of full key ok xs rows = Inr rows'" and "distinct (map key rows)"
  shows "distinct (map key rows')"
  using assms by (auto simp: replace_rows_def distinct_map_filter intro: insert_rows_distinct split: option.splits)

lemma replace_rows_refer:
  assumes "replace_rows fault revisionID revision_of full key ok xs rows = Inr rows'" and "list_all ok rows"
  shows "list_all ok rows'"
proof -
  have "list_all ok (filter (\<lambda>r. revision_of r \<noteq> revisionID) rows)" using assms(2) by (auto simp: list_all_iff)
  with assms(1) show ?thesis by (auto simp: replace_rows_def intro: insert_rows_refer split: option.splits)
qed

section \<open>The constraints of the tables\<close>

text \<open>
  The primary keys, the unique columns and the foreign keys of the migrations. A row of the idempotency table
  is keyed by its page and its key.
\<close>

definition pages_constrained :: "page_db \<Rightarrow> bool" where
  "pages_constrained d \<longleftrightarrow> distinct (map pg_id (pr_pages d))
     \<and> distinct (map (\<lambda>p. (pg_workspace p, pg_slug p)) (pr_pages d))"

definition revisions_constrained :: "page_db \<Rightarrow> bool" where
  "revisions_constrained d \<longleftrightarrow> distinct (map rw_id (pr_revisions d))
     \<and> distinct (map (\<lambda>r. (rw_page r, rw_no r)) (pr_revisions d))
     \<and> list_all (\<lambda>r. page_known d (rw_page r)
          \<and> (rw_restored_from r = '''' \<or> revision_known d (rw_restored_from r))) (pr_revisions d)"

definition references_constrained :: "page_db \<Rightarrow> bool" where
  "references_constrained d \<longleftrightarrow>
       distinct (map er_id (pr_embedded d))
     \<and> list_all (\<lambda>r. revision_known d (er_revision r) \<and> page_known d (er_page r)) (pr_embedded d)
     \<and> distinct (map ar_id (pr_attachments d))
     \<and> list_all (\<lambda>r. revision_known d (ar_revision r) \<and> page_known d (ar_page r)) (pr_attachments d)
     \<and> distinct (map lr_id (pr_links d))
     \<and> list_all (\<lambda>r. revision_known d (lr_revision r) \<and> page_known d (lr_source r)) (pr_links d)"

definition idempotencies_constrained :: "page_db \<Rightarrow> bool" where
  "idempotencies_constrained d \<longleftrightarrow> distinct (map (\<lambda>i. (id_page i, id_key i)) (pr_idempotencies d))
     \<and> list_all (\<lambda>i. page_known d (id_page i) \<and> revision_known d (id_revision i)) (pr_idempotencies d)"

definition constrained :: "page_db \<Rightarrow> bool" where
  "constrained d \<longleftrightarrow> pages_constrained d \<and> revisions_constrained d \<and> references_constrained d
     \<and> idempotencies_constrained d \<and> distinct (map (\<lambda>row. ob_id (ox_record row)) (pr_outbox d))"

lemmas constraint_defs = pages_constrained_def revisions_constrained_def references_constrained_def
  idempotencies_constrained_def

lemma constrained_new: "constrained new_page_db"
  by (simp add: constrained_def constraint_defs new_page_db_def)

text \<open>Nothing is ever removed from the pages or the revisions.\<close>

definition rows_kept :: "page_db \<Rightarrow> page_db \<Rightarrow> bool" where
  "rows_kept d d' \<longleftrightarrow> (\<forall>i. page_known d i \<longrightarrow> page_known d' i) \<and> (\<forall>i. revision_known d i \<longrightarrow> revision_known d' i)"

lemma rows_keptD: "rows_kept d d' \<Longrightarrow> page_known d i \<Longrightarrow> page_known d' i"
    "rows_kept d d' \<Longrightarrow> revision_known d i \<Longrightarrow> revision_known d' i"
  by (auto simp: rows_kept_def)

lemma known_same: "map pg_id (pr_pages d') = map pg_id (pr_pages d) \<Longrightarrow> page_known d' i = page_known d i"
    "map rw_id (pr_revisions d') = map rw_id (pr_revisions d) \<Longrightarrow> revision_known d' i = revision_known d i"
proof -
  assume "map pg_id (pr_pages d') = map pg_id (pr_pages d)"
  then have "i \<in> pg_id ` set (pr_pages d') \<longleftrightarrow> i \<in> pg_id ` set (pr_pages d)" by (metis set_map)
  then show "page_known d' i = page_known d i" by (auto simp: page_known_def list_ex_iff image_iff)
next
  assume "map rw_id (pr_revisions d') = map rw_id (pr_revisions d)"
  then have "i \<in> rw_id ` set (pr_revisions d') \<longleftrightarrow> i \<in> rw_id ` set (pr_revisions d)" by (metis set_map)
  then show "revision_known d' i = revision_known d i" by (auto simp: revision_known_def list_ex_iff image_iff)
qed

lemma references_mono:
  assumes "references_constrained d" and "rows_kept d d'" and "pr_embedded d' = pr_embedded d"
    and "pr_attachments d' = pr_attachments d" and "pr_links d' = pr_links d"
  shows "references_constrained d'"
  using assms(1,3-5) rows_keptD [OF assms(2)] by (auto simp: references_constrained_def list_all_iff)

lemma idempotencies_mono:
  assumes "idempotencies_constrained d" and "rows_kept d d'" and "pr_idempotencies d' = pr_idempotencies d"
  shows "idempotencies_constrained d'"
  using assms(1,3) rows_keptD [OF assms(2)] by (auto simp: idempotencies_constrained_def list_all_iff)

lemma insert_revision_constrained:
  assumes "constrained d" and "insert_revision_row fault row d = (None, d')"
  shows "constrained d'" and "rows_kept d d'" and "d' = d\<lparr>pr_revisions := pr_revisions d @ [row]\<rparr>"
proof -
  show d': "d' = d\<lparr>pr_revisions := pr_revisions d @ [row]\<rparr>"
    using assms(2) by (auto simp: insert_revision_row_def split: option.splits if_splits)
  have new: "\<not> revision_known d (rw_id row)" "page_known d (rw_page row)"
      "\<not> list_ex (\<lambda>r. rw_page r = rw_page row \<and> rw_no r = rw_no row) (pr_revisions d)"
      "rw_restored_from row = '''' \<or> revision_known d (rw_restored_from row)"
    using assms(2) by (auto simp: insert_revision_row_def split: option.splits if_splits)
  have pages: "page_known d' i = page_known d i" for i by (simp add: page_known_def d')
  have revisions: "revision_known d' i \<longleftrightarrow> revision_known d i \<or> i = rw_id row" for i
    by (auto simp: revision_known_def d')
  show kept: "rows_kept d d'" by (simp add: rows_kept_def pages revisions)
  have "revisions_constrained d'"
    using assms(1) new
    by (auto simp: constrained_def revisions_constrained_def d' pages [unfolded d'] revisions [unfolded d']
        list_all_iff list_ex_iff revision_known_def [of d "rw_id row"])
  moreover have "pages_constrained d'" using assms(1) by (simp add: constrained_def pages_constrained_def d')
  moreover have "references_constrained d'"
    using assms(1) by (intro references_mono [OF _ kept]) (auto simp: constrained_def d')
  moreover have "idempotencies_constrained d'"
    using assms(1) by (intro idempotencies_mono [OF _ kept]) (auto simp: constrained_def d')
  ultimately show "constrained d'" using assms(1) by (simp add: constrained_def d')
qed

lemma update_where_map: "(\<And>row. f (g row) = f row) \<Longrightarrow> map f (update_where P g rows) = map f rows"
  by (simp add: update_where_def)

text \<open>An update of a page leaves what the constraints are about.\<close>

lemma update_page_ok:
  "update_page fault expected pageID change d = (None, d') \<Longrightarrow>
     d' = d\<lparr>pr_pages := update_where (\<lambda>p. pg_id p = pageID \<and> pg_draft_no p = expected) change (pr_pages d)\<rparr>
   \<and> (\<exists>p \<in> set (pr_pages d). pg_id p = pageID \<and> pg_draft_no p = expected)"
  by (auto simp: update_page_def list_ex_iff split: option.splits if_splits)

lemma update_page_constrained:
  assumes "constrained d" and "update_page fault expected pageID change d = (None, d')"
    and keeps: "\<And>p. pg_id (change p) = pg_id p" "\<And>p. pg_workspace (change p) = pg_workspace p"
      "\<And>p. pg_slug (change p) = pg_slug p"
  shows "constrained d'" and "rows_kept d d'"
proof -
  note d' = update_page_ok [OF assms(2), THEN conjunct1]
  have ids: "map pg_id (pr_pages d') = map pg_id (pr_pages d)" by (simp add: d' update_where_map keeps)
  have slugs: "map (\<lambda>p. (pg_workspace p, pg_slug p)) (pr_pages d') = map (\<lambda>p. (pg_workspace p, pg_slug p)) (pr_pages d)"
    by (simp add: d' update_where_map keeps)
  have known: "page_known d' i = page_known d i" "revision_known d' i = revision_known d i" for i
    by (rule known_same(1) [OF ids], rule known_same(2)) (simp add: d')
  show kept: "rows_kept d d'" by (simp add: rows_kept_def known)
  have "pages_constrained d'" using assms(1) ids slugs by (simp add: constrained_def pages_constrained_def)
  moreover have "revisions_constrained d'"
    using assms(1) known by (auto simp: constrained_def revisions_constrained_def list_all_iff d')
  moreover have "references_constrained d'"
    using assms(1) by (intro references_mono [OF _ kept]) (auto simp: constrained_def d')
  moreover have "idempotencies_constrained d'"
    using assms(1) by (intro idempotencies_mono [OF _ kept]) (auto simp: constrained_def d')
  ultimately show "constrained d'" using assms(1) by (simp add: constrained_def d')
qed

lemma insert_page_constrained:
  assumes "constrained d" and "\<not> page_known d (pg_id page)"
    and "\<not> list_ex (\<lambda>p. pg_workspace p = pg_workspace page \<and> pg_slug p = pg_slug page) (pr_pages d)"
  shows "constrained (d\<lparr>pr_pages := pr_pages d @ [page]\<rparr>)" (is "constrained ?d")
proof -
  have pages: "page_known ?d i \<longleftrightarrow> page_known d i \<or> i = pg_id page" for i by (auto simp: page_known_def)
  have revisions: "revision_known ?d i = revision_known d i" for i by (simp add: revision_known_def)
  have kept: "rows_kept d ?d" by (simp add: rows_kept_def pages revisions)
  have "pages_constrained ?d"
    using assms by (auto simp: constrained_def pages_constrained_def page_known_def list_ex_iff)
  moreover have "revisions_constrained ?d"
    using assms(1) by (auto simp: constrained_def revisions_constrained_def list_all_iff pages revisions)
  moreover have "references_constrained ?d"
    using assms(1) by (intro references_mono [OF _ kept]) (auto simp: constrained_def)
  moreover have "idempotencies_constrained ?d"
    using assms(1) by (intro idempotencies_mono [OF _ kept]) (auto simp: constrained_def)
  ultimately show ?thesis using assms(1) by (simp add: constrained_def)
qed

lemma insert_idempotency_constrained:
  assumes "constrained d" and "insert_revision_and_idempotency fault revision idempotency d = (None, d')"
  shows "constrained d'"
proof -
  let ?d = "d\<lparr>pr_revisions := pr_revisions d @ [revision_row_of revision]\<rparr>"
  obtain d1 where one: "insert_revision_row fault (revision_row_of revision) d = (None, d1)"
    using assms(2) by (auto simp: insert_revision_and_idempotency_def split: prod.splits option.splits)
  note d1 = insert_revision_constrained [OF assms(1) one]
  have rest: "(case idempotency of None \<Rightarrow> d' = d1
      | Some i \<Rightarrow> d' = d1 \<or>
          (\<not> list_ex (\<lambda>j. id_page j = id_page i \<and> id_key j = id_key i) (pr_idempotencies d1)
           \<and> page_known d1 (id_page i) \<and> revision_known d1 (id_revision i)
           \<and> d' = d1\<lparr>pr_idempotencies := pr_idempotencies d1 @ [i\<lparr>id_created_at := stored_time (id_created_at i)\<rparr>]\<rparr>))"
    using assms(2) by (simp add: insert_revision_and_idempotency_def one split: option.splits if_splits)
  then consider "d' = d1"
    | i where "\<not> list_ex (\<lambda>j. id_page j = id_page i \<and> id_key j = id_key i) (pr_idempotencies d1)"
        "page_known d1 (id_page i)" "revision_known d1 (id_revision i)"
        "d' = d1\<lparr>pr_idempotencies := pr_idempotencies d1 @ [i\<lparr>id_created_at := stored_time (id_created_at i)\<rparr>]\<rparr>"
    by (cases idempotency) auto
  then show ?thesis
  proof cases
    case 1
    then show ?thesis using d1(1) by simp
  next
    case (2 i)
    have pages: "page_known d' k = page_known d1 k" for k by (simp add: page_known_def 2(4))
    have revisions: "revision_known d' k = revision_known d1 k" for k by (simp add: revision_known_def 2(4))
    have kept: "rows_kept d1 d'" by (simp add: rows_kept_def pages revisions)
    have "idempotencies_constrained d'"
      using d1(1) 2 by (auto simp: constrained_def idempotencies_constrained_def list_ex_iff list_all_iff
          pages [unfolded 2(4)] revisions [unfolded 2(4)])
    moreover have "references_constrained d'"
      using d1(1) by (intro references_mono [OF _ kept]) (auto simp: constrained_def 2(4))
    moreover have "revisions_constrained d'"
      using d1(1) by (auto simp: constrained_def revisions_constrained_def list_all_iff 2(4)
          pages [unfolded 2(4)] revisions [unfolded 2(4)])
    ultimately show ?thesis using d1(1) by (simp add: constrained_def pages_constrained_def 2(4))
  qed
qed

text \<open>Replacing the rows of one of the tables of references.\<close>

lemma replace_constrained:
  assumes "constrained d"
  shows "db_replace_embedded fault revisionID tables d = (None, d') \<Longrightarrow> constrained d'"
    and "db_replace_attachments fault revisionID attachments d = (None, d') \<Longrightarrow> constrained d'"
    and "db_replace_links_of fault revisionID links d = (None, d') \<Longrightarrow> constrained d'"
    and "db_outbox_add fault events d = (None, d') \<Longrightarrow> constrained d'"
proof -
  have same: "page_known (d\<lparr>pr_embedded := e, pr_attachments := a, pr_links := l, pr_outbox := ob\<rparr>) i = page_known d i"
      "revision_known (d\<lparr>pr_embedded := e, pr_attachments := a, pr_links := l, pr_outbox := ob\<rparr>) i = revision_known d i"
    for e a l ob i by (simp_all add: page_known_def revision_known_def)
  have known: "page_known (d\<lparr>pr_embedded := e\<rparr>) i = page_known d i" "revision_known (d\<lparr>pr_embedded := e\<rparr>) i = revision_known d i"
      "page_known (d\<lparr>pr_attachments := a\<rparr>) i = page_known d i" "revision_known (d\<lparr>pr_attachments := a\<rparr>) i = revision_known d i"
      "page_known (d\<lparr>pr_links := l\<rparr>) i = page_known d i" "revision_known (d\<lparr>pr_links := l\<rparr>) i = revision_known d i"
      "page_known (d\<lparr>pr_outbox := ob\<rparr>) i = page_known d i" "revision_known (d\<lparr>pr_outbox := ob\<rparr>) i = revision_known d i"
    for e a l ob i by (simp_all add: page_known_def revision_known_def)
  note defs = constrained_def constraint_defs known
  show "constrained d'" if "db_replace_embedded fault revisionID tables d = (None, d')"
    using assms that
    by (auto simp: defs db_replace_embedded_def dest: replace_rows_keys replace_rows_refer split: sum.splits)
  show "constrained d'" if "db_replace_attachments fault revisionID attachments d = (None, d')"
    using assms that
    by (auto simp: defs db_replace_attachments_def dest: replace_rows_keys replace_rows_refer split: sum.splits)
  show "constrained d'" if "db_replace_links_of fault revisionID links d = (None, d')"
    using assms that
    by (auto simp: defs db_replace_links_of_def dest: replace_rows_keys replace_rows_refer split: sum.splits)
  show "constrained d'" if "db_outbox_add fault events d = (None, d')"
    using assms that by (auto simp: defs db_outbox_add_def dest: insert_rows_distinct split: sum.splits)
qed

lemma write_constrained:
  assumes "constrained d" and "db_write fault w d = (None, d')"
  shows "constrained d'"
proof (cases w)
  case (CreatePage page revision)
  let ?p = "(stored_page page)\<lparr>pg_published_id := '''', pg_published_no := 0\<rparr>"
  have "\<not> page_known d (pg_id ?p)"
      "\<not> list_ex (\<lambda>p. pg_workspace p = pg_workspace ?p \<and> pg_slug p = pg_slug ?p) (pr_pages d)"
    and row: "insert_revision_row fault ((revision_row_of revision)\<lparr>rw_base := '''', rw_restored_from := ''''\<rparr>)
        (d\<lparr>pr_pages := pr_pages d @ [?p]\<rparr>) = (None, d')"
    using assms(2) by (auto simp: CreatePage db_create_page_def stored_page_def split: option.splits if_splits)
  from insert_page_constrained [OF assms(1) this(1,2)] row show ?thesis
    by (rule insert_revision_constrained(1))
next
  case (SaveDraftRevision e page revision i)
  then obtain d1 change where "update_page fault e (pg_id page) change d = (None, d1)"
    and keeps: "\<And>p. pg_id (change p) = pg_id p" "\<And>p. pg_workspace (change p) = pg_workspace p"
      "\<And>p. pg_slug (change p) = pg_slug p"
    and two: "insert_revision_and_idempotency fault revision i d1 = (None, d')"
    using assms(2) by (fastforce simp: db_save_draft_revision_def split: prod.splits option.splits)
  from update_page_constrained(1) [OF assms(1) this(1) keeps] two show ?thesis
    by (rule insert_idempotency_constrained)
next
  case (SavePublishedRevision e page revision)
  then obtain d1 change where "update_page fault e (pg_id page) change d = (None, d1)"
    and keeps: "\<And>p. pg_id (change p) = pg_id p" "\<And>p. pg_workspace (change p) = pg_workspace p"
      "\<And>p. pg_slug (change p) = pg_slug p"
    and two: "insert_revision_and_idempotency fault revision None d1 = (None, d')"
    using assms(2) by (fastforce simp: db_save_published_revision_def split: prod.splits option.splits)
  from update_page_constrained(1) [OF assms(1) this(1) keeps] two show ?thesis
    by (rule insert_idempotency_constrained)
next
  case (ArchivePage e page)
  then show ?thesis
    using assms(2) update_page_constrained(1) [OF assms(1)] by (fastforce simp: db_archive_page_def)
qed (use assms(2) replace_constrained [OF assms(1)] in auto)

lemma writes_constrained: "db_writes fault ws d = (None, d') \<Longrightarrow> constrained d \<Longrightarrow> constrained d'"
  by (induction ws arbitrary: d) (auto dest: write_constrained split: prod.splits option.splits)

lemma execute_none: "db_execute fault ws d = (None, d') \<Longrightarrow> db_writes fault ws d = (None, d')"
  by (auto simp: db_execute_def split: prod.splits option.splits)

text \<open>A transaction has taken effect as a whole or not at all, whatever its caller was told.\<close>

lemma execute_changed: "db_execute fault ws d = (e, d') \<Longrightarrow> d' \<noteq> d \<Longrightarrow> db_writes fault ws d = (None, d')"
  by (auto simp: db_execute_def split: prod.splits option.splits)

lemma execute_error:
  "db_execute fault ws d = (Some err, d') \<Longrightarrow> fault CommitAnswer '''' = None \<Longrightarrow> d' = d"
  by (auto simp: db_execute_def split: prod.splits option.splits)

lemma execute_constrained:
  assumes "constrained d" and "db_execute fault ws d = (e, d')"
  shows "constrained d'"
  using assms writes_constrained [OF execute_changed] by metis

section \<open>The rows that hold an in-memory store\<close>

text \<open>
  \<open>held m d\<close>: the rows of \<open>d\<close> are those of the in-memory store \<open>m\<close>, with times rounded as PostgreSQL rounds
  them and documents as JSON; of an event, all but what the relay changes. The idempotency records are left out: the in-memory map joins the page and the
  key with a separator that either may contain, and overwrites where the table keeps the first.
\<close>

definition event_content :: "outbox_row \<Rightarrow> outbox_record" where
  "event_content row = (ox_record row)\<lparr>ob_status := OutboxPending, ob_available_at := 0\<rparr>"

definition held :: "mem_store \<Rightarrow> page_db \<Rightarrow> bool" where
  "held m d \<longleftrightarrow>
     (\<forall>pid. find (\<lambda>p. pg_id p = pid) (pr_pages d) = map_option stored_page (ms_pages m pid))
   \<and> (\<forall>pid. filter (\<lambda>r. rw_page r = pid) (pr_revisions d) = map revision_row_of (ms_revisions m pid))
   \<and> (\<forall>rid. filter (\<lambda>r. er_revision r = rid) (pr_embedded d)
        = map (\<lambda>r. r\<lparr>er_created := stored_time (er_created r)\<rparr>) (ms_embedded m rid))
   \<and> (\<forall>rid. filter (\<lambda>r. ar_revision r = rid) (pr_attachments d)
        = map (\<lambda>r. r\<lparr>ar_created := stored_time (ar_created r)\<rparr>) (ms_attachments m rid))
   \<and> (\<forall>rid. filter (\<lambda>r. lr_revision r = rid) (pr_links d)
        = map (\<lambda>r. r\<lparr>lr_created := stored_time (lr_created r)\<rparr>) (ms_links m rid))
   \<and> map event_content (pr_outbox d) = map (\<lambda>e. event_content (stored_event e)) (ms_outbox m)"

text \<open>What the use cases hand to \<open>Execute\<close>: a step from the page as it is stored, with references of its revision.\<close>

inductive next_writes :: "mem_store \<Rightarrow> store_write list \<Rightarrow> bool" for m where
  next_draft: "ms_pages m (pg_id cur) = Some cur \<Longrightarrow> mem_unused m (rv_id r) \<Longrightarrow> draft_step cur p r idem \<Longrightarrow>
    refer_to (rv_id r) refs \<Longrightarrow> next_writes m (draft_tx base p r idem refs ev)"
| next_publish: "ms_pages m (pg_id cur) = Some cur \<Longrightarrow> mem_unused m (rv_id r) \<Longrightarrow> publish_step cur p r \<Longrightarrow>
    refer_to (rv_id r) refs \<Longrightarrow> next_writes m (publish_tx base p r refs ev)"
| next_create: "mem_unused m (pg_id p) \<Longrightarrow> create_step p r \<Longrightarrow>
    refer_to (rv_id r) refs \<Longrightarrow> next_writes m (create_tx p r refs ev)"
| next_archive: "ms_pages m (pg_id cur) = Some cur \<Longrightarrow> archive_step cur p \<Longrightarrow> next_writes m (archive_tx base p ev)"

lemma held_new: "held new_mem_store new_page_db"
  by (simp add: held_def new_mem_store_def new_page_db_def)

text \<open>A replacement leaves the rows of other revisions as they were.\<close>

lemma filter_replaced:
  assumes "list_all (\<lambda>x. f x = rid) xs"
  shows "filter (\<lambda>x. f x = k) (filter (\<lambda>x. f x \<noteq> rid) rows @ xs) = (if k = rid then xs else filter (\<lambda>x. f x = k) rows)"
proof (cases "k = rid")
  case True
  then show ?thesis using assms by (simp add: list_all_iff)
next
  case False
  have "filter (\<lambda>x. f x = k) xs = []" using assms False by (auto simp: list_all_iff filter_empty_conv)
  moreover have "filter (\<lambda>x. f x = k) (filter (\<lambda>x. f x \<noteq> rid) rows) = filter (\<lambda>x. f x = k) rows"
    using False by (induction rows) auto
  ultimately show ?thesis using False by simp
qed

lemma db_projections:
  assumes "db_writes fault (projection_writes rid refs ev) d = (None, d')"
  shows "d' = d\<lparr>pr_embedded := filter (\<lambda>r. er_revision r \<noteq> rid) (pr_embedded d)
            @ map (\<lambda>r. r\<lparr>er_created := stored_time (er_created r)\<rparr>) (rf_tables refs),
       pr_attachments := filter (\<lambda>r. ar_revision r \<noteq> rid) (pr_attachments d)
            @ map (\<lambda>r. r\<lparr>ar_created := stored_time (ar_created r)\<rparr>) (rf_attachments refs),
       pr_links := filter (\<lambda>r. lr_revision r \<noteq> rid) (pr_links d)
            @ map (\<lambda>r. r\<lparr>lr_created := stored_time (lr_created r)\<rparr>) (rf_links refs),
       pr_outbox := pr_outbox d @ map stored_event ev\<rparr>"
  using assms
  by (auto simp: projection_writes_def db_replace_embedded_def db_replace_attachments_def db_replace_links_of_def
      db_outbox_add_def dest!: replace_rows_ok insert_rows_ok split: prod.splits option.splits sum.splits)

lemma held_projections:
  assumes "held m d" and "refer_to rid refs" and "db_writes fault (projection_writes rid refs ev) d = (None, d')"
  shows "held (put_projections rid refs ev m) d'"
proof -
  note d' = db_projections [OF assms(3)]
  have "list_all (\<lambda>r. er_revision r = rid) (map (\<lambda>r. r\<lparr>er_created := stored_time (er_created r)\<rparr>) (rf_tables refs))"
      "list_all (\<lambda>r. ar_revision r = rid) (map (\<lambda>r. r\<lparr>ar_created := stored_time (ar_created r)\<rparr>) (rf_attachments refs))"
      "list_all (\<lambda>r. lr_revision r = rid) (map (\<lambda>r. r\<lparr>lr_created := stored_time (lr_created r)\<rparr>) (rf_links refs))"
    using assms(2) by (auto simp: refer_to_def list_all_iff)
  note replaced = this [THEN filter_replaced]
  show ?thesis using assms(1)
    by (simp add: held_def d' put_projections_def replaced del: filter_append filter_filter)
qed

lemma held_put_idempotency [simp]: "held (put_idempotency pid idem m) d = held m d"
  by (auto simp: held_def put_idempotency_def split: option.splits)

lemma held_idempotencies [simp]: "held m (d\<lparr>pr_idempotencies := x\<rparr>) = held m d"
  by (simp add: held_def)

lemma held_page: "held m d \<Longrightarrow> ms_pages m pid = Some p \<Longrightarrow> find (\<lambda>p. pg_id p = pid) (pr_pages d) = Some (stored_page p)"
  by (simp add: held_def)

lemma stored_page_simps [simp]:
  "pg_id (stored_page p) = pg_id p" "pg_draft_no (stored_page p) = pg_draft_no p"
  "pg_draft_id (stored_page p) = pg_draft_id p" "pg_published_id (stored_page p) = pg_published_id p"
  by (simp_all add: stored_page_def)

text \<open>An update that finds its row found the page as it is.\<close>

lemma update_page_current:
  assumes "held m d" and "constrained d" and "ms_pages m pid = Some cur"
    and "update_page fault expected pid change d = (None, d')"
  shows "pg_draft_no cur = expected"
proof -
  obtain p where p: "p \<in> set (pr_pages d)" "pg_id p = pid" "pg_draft_no p = expected"
    using update_page_ok [OF assms(4)] by auto
  have "distinct (map pg_id (pr_pages d))" using assms(2) by (simp add: constrained_def pages_constrained_def)
  then have "find (\<lambda>q. pg_id q = pid) (pr_pages d) = Some p" using find_unique [of pg_id "pr_pages d" p] p by simp
  then have "p = stored_page cur" using held_page [OF assms(1,3)] by simp
  with p(3) show ?thesis by simp
qed

lemma held_update_page:
  assumes "held m d" and "constrained d" and "ms_pages m pid = Some cur" and "pg_id p = pid"
    and "update_page fault expected pid change d = (None, d')"
    and "change (stored_page cur) = stored_page p" and "\<And>q. pg_id (change q) = pg_id q"
  shows "held (m\<lparr>ms_pages := (ms_pages m)(pid \<mapsto> p)\<rparr>) d'"
proof -
  let ?P = "\<lambda>q. pg_id q = pid \<and> pg_draft_no q = expected"
  have d': "d' = d\<lparr>pr_pages := update_where ?P change (pr_pages d)\<rparr>" using update_page_ok [OF assms(5)] by blast
  have cur: "find (\<lambda>q. pg_id q = pid) (pr_pages d) = Some (stored_page cur)" by (rule held_page [OF assms(1,3)])
  then have id: "pg_id cur = pid" using find_SomeD by fastforce
  have no: "pg_draft_no cur = expected" by (rule update_page_current [OF assms(1-3,5)])
  have "find (\<lambda>q. pg_id q = k) (pr_pages d') = map_option stored_page (((ms_pages m)(pid \<mapsto> p)) k)" for k
  proof -
    have old: "find (\<lambda>q. pg_id q = k) (pr_pages d) = map_option stored_page (ms_pages m k)"
      using assms(1) by (simp add: held_def)
    have new: "find (\<lambda>q. pg_id q = k) (pr_pages d')
        = map_option (\<lambda>q. if ?P q then change q else q) (find (\<lambda>q. pg_id q = k) (pr_pages d))"
      unfolding d' by (simp, rule find_update_where) (simp_all add: assms(7))
    show ?thesis
    proof (cases "k = pid")
      case True
      then show ?thesis using new assms(6) id no by (simp add: cur)
    next
      case False
      have "pg_id q \<noteq> pid" if "ms_pages m k = Some q" for q
        using find_SomeD [OF held_page [OF assms(1) that]] False by simp
      then show ?thesis unfolding new old using False by (cases "ms_pages m k") simp_all
    qed
  qed
  with assms(1) show ?thesis by (simp add: held_def d')
qed

text \<open>A revision is appended in both, its number being the highest of its page.\<close>

lemma held_insert_revision:
  assumes "held m d" and "insert_revision_row fault (revision_row_of r) d = (None, d')" and "rv_page r = pid"
  shows "held (m\<lparr>ms_revisions := (ms_revisions m)(pid := ms_revisions m pid @ [r])\<rparr>) d'"
proof -
  have d': "d' = d\<lparr>pr_revisions := pr_revisions d @ [revision_row_of r]\<rparr>"
    using assms(2) by (auto simp: insert_revision_row_def split: option.splits if_splits)
  show ?thesis using assms(1,3) by (simp add: held_def d' revision_row_of_def)
qed

lemma insert_idempotency_none:
  assumes "insert_revision_and_idempotency fault r idem d = (None, d')"
  obtains d1 x where "insert_revision_row fault (revision_row_of r) d = (None, d1)"
    and "d' = d1\<lparr>pr_idempotencies := x\<rparr>"
proof -
  obtain d1 where one: "insert_revision_row fault (revision_row_of r) d = (None, d1)"
    using assms by (auto simp: insert_revision_and_idempotency_def split: prod.splits option.splits)
  have "d' = d1 \<or> (\<exists>x. d' = d1\<lparr>pr_idempotencies := x\<rparr>)"
    using assms by (simp add: insert_revision_and_idempotency_def one split: option.splits if_splits) blast+
  then have "\<exists>x. d' = d1\<lparr>pr_idempotencies := x\<rparr>" by (metis page_db.surjective page_db.update_convs(6))
  with one show ?thesis using that by blast
qed

lemma held_put_revision:
  assumes "held m d" and "constrained d" and "ms_pages m (pg_id cur) = Some cur" and "pg_id p = pg_id cur"
    and "update_page fault expected (pg_id cur) change d = (None, d1)"
    and "change (stored_page cur) = stored_page p" and "\<And>q. pg_id (change q) = pg_id q"
    and "insert_revision_and_idempotency fault r idem d1 = (None, d2)" and "rv_page r = pg_id cur"
    and "sort_key rv_no (ms_revisions m (pg_id cur) @ [r]) = ms_revisions m (pg_id cur) @ [r]"
  shows "held (put_revision p r m) d2"
proof -
  let ?m = "m\<lparr>ms_pages := (ms_pages m)(pg_id cur \<mapsto> p)\<rparr>"
  have page: "held ?m d1" by (rule held_update_page [OF assms(1-4,5,6,7)])
  obtain d' x where "insert_revision_row fault (revision_row_of r) d1 = (None, d')"
    and d2: "d2 = d'\<lparr>pr_idempotencies := x\<rparr>"
    using assms(8) by (rule insert_idempotency_none)
  then have "held (?m\<lparr>ms_revisions := (ms_revisions ?m)(pg_id cur := ms_revisions ?m (pg_id cur) @ [r])\<rparr>) d'"
    using held_insert_revision [OF page _ assms(9)] by blast
  moreover have "put_revision p r m
      = ?m\<lparr>ms_revisions := (ms_revisions ?m)(pg_id cur := ms_revisions ?m (pg_id cur) @ [r])\<rparr>"
    using assms(4,10) by (simp add: put_revision_def)
  ultimately show ?thesis by (simp add: d2)
qed

lemma writes_cons_none:
  "db_writes fault (w # ws) d = (None, d') \<Longrightarrow> \<exists>d1. db_write fault w d = (None, d1) \<and> db_writes fault ws d1 = (None, d')"
  by (auto split: prod.splits option.splits)

section \<open>Every transaction runs alike\<close>

lemma held_draft:
  assumes "held m d" and "constrained d" and "mem_inv m" and "ms_pages m (pg_id cur) = Some cur"
    and "mem_unused m (rv_id r)" and step: "draft_step cur p r idem" and "refer_to (rv_id r) refs"
    and "db_writes fault (draft_tx base p r idem refs ev) d = (None, d')"
  shows "\<exists>m'. mem_execute (draft_tx base p r idem refs ev) m = (None, m') \<and> held m' d' \<and> mem_inv m'"
proof -
  have id: "pg_id p = pg_id cur" and page: "rv_page r = pg_id cur"
    using step by (auto simp: draft_step_def same_identity_def)
  define change where "change = (\<lambda>q :: page. q\<lparr>pg_title := pg_title p, pg_status := pg_status p, pg_updated_by := pg_updated_by p,
      pg_draft_id := pg_draft_id p, pg_draft_no := pg_draft_no p, pg_updated_at := stored_time (pg_updated_at p)\<rparr>)"
  obtain d1 d2 where one: "update_page fault base (pg_id cur) change d = (None, d1)"
    and two: "insert_revision_and_idempotency fault r idem d1 = (None, d2)"
    and rest: "db_writes fault (projection_writes (rv_id r) refs ev) d2 = (None, d')"
    using assms(8) id unfolding draft_tx_def change_def
    by (auto simp: db_save_draft_revision_def split: prod.splits option.splits)
  have no: "pg_draft_no cur = base" by (rule update_page_current [OF assms(1,2,4) one])
  have same: "change (stored_page cur) = stored_page p"
    using step by (auto simp: change_def stored_page_def draft_step_def same_identity_def)
  note mem = mem_draft_step [OF assms(3-6)]
  have "held (put_revision p r m) d2"
    by (rule held_put_revision [OF assms(1,2,4) id one same _ two page mem(2)]) (simp add: change_def)
  then have "held (put_projections (rv_id r) refs ev (put_idempotency (pg_id p) idem (put_revision p r m))) d'"
    using held_projections [OF _ assms(7) rest] by simp
  then show ?thesis using assms(4) id no mem(1) by (simp add: mem_draft_tx)
qed

lemma held_publish:
  assumes "held m d" and "constrained d" and "mem_inv m" and "ms_pages m (pg_id cur) = Some cur"
    and "mem_unused m (rv_id r)" and step: "publish_step cur p r" and "refer_to (rv_id r) refs"
    and "db_writes fault (publish_tx base p r refs ev) d = (None, d')"
  shows "\<exists>m'. mem_execute (publish_tx base p r refs ev) m = (None, m') \<and> held m' d' \<and> mem_inv m'"
proof -
  have id: "pg_id p = pg_id cur" and page: "rv_page r = pg_id cur"
    using step by (auto simp: publish_step_def same_identity_def)
  define change where "change = (\<lambda>q :: page. q\<lparr>pg_title := pg_title p, pg_status := pg_status p, pg_updated_by := pg_updated_by p,
      pg_published_id := pg_published_id p, pg_published_no := pg_published_no p,
      pg_updated_at := stored_time (pg_updated_at p)\<rparr>)"
  obtain d1 d2 where one: "update_page fault base (pg_id cur) change d = (None, d1)"
    and two: "insert_revision_and_idempotency fault r None d1 = (None, d2)"
    and rest: "db_writes fault (projection_writes (rv_id r) refs ev) d2 = (None, d')"
    using assms(8) id unfolding publish_tx_def change_def
    by (auto simp: db_save_published_revision_def split: prod.splits option.splits)
  have no: "pg_draft_no cur = base" by (rule update_page_current [OF assms(1,2,4) one])
  have same: "change (stored_page cur) = stored_page p"
    using step by (auto simp: change_def stored_page_def publish_step_def same_identity_def)
  note mem = mem_publish_step [OF assms(3-6)]
  have "held (put_revision p r m) d2"
    by (rule held_put_revision [OF assms(1,2,4) id one same _ two page mem(2)]) (simp add: change_def)
  then have "held (put_projections (rv_id r) refs ev (put_revision p r m)) d'"
    using held_projections [OF _ assms(7) rest] by simp
  then show ?thesis using assms(4) id no mem(1) by (simp add: mem_publish_tx)
qed

lemma held_create:
  assumes "held m d" and "mem_inv m" and "mem_unused m (pg_id p)"
    and step: "create_step p r" and "refer_to (rv_id r) refs"
    and "db_writes fault (create_tx p r refs ev) d = (None, d')"
  shows "\<exists>m'. mem_execute (create_tx p r refs ev) m = (None, m') \<and> held m' d' \<and> mem_inv m'"
proof -
  have none: "ms_pages m (pg_id p) = None" using assms(3) by (simp add: mem_unused_def)
  have pub: "(stored_page p)\<lparr>pg_published_id := '''', pg_published_no := 0\<rparr> = stored_page p"
    and page: "rv_page r = pg_id p"
    using step by (auto simp: create_step_def stored_page_def)
  have row: "(revision_row_of r)\<lparr>rw_base := '''', rw_restored_from := ''''\<rparr> = revision_row_of r"
    using step by (simp add: revision_row_of_def create_step_def)
  let ?d = "d\<lparr>pr_pages := pr_pages d @ [stored_page p]\<rparr>"
  let ?m = "m\<lparr>ms_pages := (ms_pages m)(pg_id p \<mapsto> p)\<rparr>"
  obtain d2 where two: "insert_revision_row fault (revision_row_of r) ?d = (None, d2)"
    and rest: "db_writes fault (projection_writes (rv_id r) refs ev) d2 = (None, d')"
    using assms(6) by (auto simp: create_tx_def db_create_page_def pub row split: prod.splits option.splits if_splits)
  have found: "find (\<lambda>q. pg_id q = k) (pr_pages d) = map_option stored_page (ms_pages m k)" for k
    using assms(1) by (simp add: held_def)
  have "find (\<lambda>q. pg_id q = k) (pr_pages ?d) = map_option stored_page (ms_pages ?m k)" for k
    by (cases "ms_pages m k") (auto simp: find_append found none)
  then have "held ?m ?d" using assms(1) by (simp add: held_def)
  note inserted = held_insert_revision [OF this two page]
  note mem = mem_create_step [OF assms(2,3) step]
  have "?m\<lparr>ms_revisions := (ms_revisions ?m)(pg_id p := ms_revisions ?m (pg_id p) @ [r])\<rparr> = put_revision p r m"
    using mem(2) by (simp add: put_revision_def)
  with inserted have "held (put_revision p r m) d2" by simp
  then have "held (put_projections (rv_id r) refs ev (put_revision p r m)) d'"
    using held_projections [OF _ assms(5) rest] by simp
  then show ?thesis using mem(1) by (simp add: mem_create_tx)
qed

lemma held_archive:
  assumes "held m d" and "constrained d" and "mem_inv m" and "ms_pages m (pg_id cur) = Some cur"
    and step: "archive_step cur p" and "db_writes fault (archive_tx base p ev) d = (None, d')"
  shows "\<exists>m'. mem_execute (archive_tx base p ev) m = (None, m') \<and> held m' d' \<and> mem_inv m'"
proof -
  have id: "pg_id p = pg_id cur" using step by (auto simp: archive_step_def same_identity_def)
  define change where "change = (\<lambda>q :: page. q\<lparr>pg_status := pg_status p, pg_updated_by := pg_updated_by p,
      pg_updated_at := stored_time (pg_updated_at p)\<rparr>)"
  obtain d1 where one: "update_page fault base (pg_id cur) change d = (None, d1)"
    and two: "db_outbox_add fault ev d1 = (None, d')"
    using assms(6) id unfolding archive_tx_def change_def
    by (auto simp: db_archive_page_def split: prod.splits option.splits)
  have no: "pg_draft_no cur = base" by (rule update_page_current [OF assms(1,2,4) one])
  have same: "change (stored_page cur) = stored_page p"
    using step by (auto simp: change_def stored_page_def archive_step_def same_identity_def)
  have d': "d' = d1\<lparr>pr_outbox := pr_outbox d1 @ map stored_event ev\<rparr>"
    using two by (auto simp: db_outbox_add_def dest!: insert_rows_ok split: sum.splits)
  have "held (m\<lparr>ms_pages := (ms_pages m)(pg_id cur \<mapsto> p)\<rparr>) d1"
    by (rule held_update_page [OF assms(1,2,4) id one same]) (simp add: change_def)
  then have "held (m\<lparr>ms_pages := (ms_pages m)(pg_id p \<mapsto> p), ms_outbox := ms_outbox m @ ev\<rparr>) d'"
    using id by (simp add: held_def d')
  then show ?thesis using assms(4) id no mem_archive_step [OF assms(3,4) step] by (simp add: mem_archive_tx)
qed

lemma held_execute:
  assumes "next_writes m ws" and "held m d" and "constrained d" and "mem_inv m"
    and "db_writes fault ws d = (None, d')"
  shows "\<exists>m'. mem_execute ws m = (None, m') \<and> held m' d' \<and> mem_inv m'"
  using assms(1)
proof cases
  case next_draft
  with assms(2-5) show ?thesis using held_draft by blast
next
  case next_publish
  with assms(2-5) show ?thesis using held_publish by blast
next
  case next_create
  with assms(2-5) show ?thesis using held_create by blast
next
  case next_archive
  with assms(2-5) show ?thesis using held_archive by blast
qed

section \<open>Both stores side by side\<close>

text \<open>
  Transactions one after the other, each built from what is stored then, on PostgreSQL with whatever faults and
  on the in-memory store without: a transaction is run on the other if it was acknowledged on PostgreSQL or,
  unacknowledged, has changed its rows.
\<close>

inductive both_run :: "mem_store \<Rightarrow> page_db \<Rightarrow> bool" where
  both_new: "both_run new_mem_store new_page_db"
| both_done: "both_run m d \<Longrightarrow> next_writes m ws \<Longrightarrow> db_execute fault ws d = (e, d') \<Longrightarrow> e = None \<or> d' \<noteq> d \<Longrightarrow>
    both_run (snd (mem_execute ws m)) d'"
| both_refused: "both_run m d \<Longrightarrow> db_execute fault ws d = (Some err, d) \<Longrightarrow> both_run m d"

lemma both_run_held: "both_run m d \<Longrightarrow> held m d \<and> mem_inv m \<and> constrained d"
proof (induction rule: both_run.induct)
  case both_new
  then show ?case by (simp add: held_new mem_inv_new constrained_new)
next
  case (both_done m d ws fault e d')
  have "db_writes fault ws d = (None, d')"
    using both_done.hyps(3,4) execute_none execute_changed by blast
  then obtain m' where "mem_execute ws m = (None, m')" "held m' d'" "mem_inv m'"
    using held_execute both_done by blast
  then show ?case using execute_constrained both_done by auto
qed simp

definition no_page_fault :: page_fault where
  "no_page_fault = (\<lambda>_ _. None)"

text \<open>What a reader is given of a revision: its row, decoded.\<close>

definition read_back :: "store_error + page_revision \<Rightarrow> store_error + page_revision" where
  "read_back res = (case res of Inl err \<Rightarrow> Inl err | Inr r \<Rightarrow> revision_of_row (revision_row_of r))"

lemma read_back_document:
  assumes "wf_document (rv_document r)"
  shows "read_back (Inr r) = Inr (r\<lparr>rv_document := wire_document (rv_document r),
     rv_created_at := stored_time (rv_created_at r)\<rparr>)"
  using document_json_inverse [OF assms] by (simp add: read_back_def revision_of_row_def revision_row_of_def)

lemma find_filter_eq: "find (\<lambda>x. P x \<and> Q x) xs = find P (filter Q xs)"
  by (induction xs) auto

lemma find_map_row: "find (\<lambda>x. rw_id x = i) (map revision_row_of rs) = map_option revision_row_of (find (\<lambda>r. rv_id r = i) rs)"
  by (induction rs) (auto simp: revision_row_of_def)

lemma held_find:
  assumes "held m d"
  shows "find (\<lambda>r. rw_id r = rid \<and> rw_page r = pid) (pr_revisions d)
     = map_option revision_row_of (find (\<lambda>r. rv_id r = rid) (ms_revisions m pid))"
  using assms by (simp add: find_filter_eq held_def find_map_row)

lemma held_find_id:
  assumes "held m d" and "constrained d" and "find (\<lambda>r. rv_id r = rid) (ms_revisions m pid) = Some r"
  shows "find (\<lambda>r. rw_id r = rid) (pr_revisions d) = Some (revision_row_of r)"
proof -
  have "find (\<lambda>r. rw_id r = rid \<and> rw_page r = pid) (pr_revisions d) = Some (revision_row_of r)"
    using held_find [OF assms(1)] assms(3) by simp
  then have "revision_row_of r \<in> set (pr_revisions d)" and id: "rw_id (revision_row_of r) = rid"
    using find_SomeD by fastforce+
  moreover have "distinct (map rw_id (pr_revisions d))"
    using assms(2) by (simp add: constrained_def revisions_constrained_def)
  ultimately show ?thesis using find_unique [of rw_id "pr_revisions d" "revision_row_of r"] by simp
qed

lemma held_get_page:
  assumes "held m d"
  shows "db_get_page no_page_fault d pid = map_sum id stored_page (mem_get_page m pid)"
  using assms by (simp add: db_get_page_def no_page_fault_def mem_get_page_def held_def split: option.splits)

lemma held_get_revision_by_id:
  assumes "held m d"
  shows "db_get_revision_by_id no_page_fault d pid rid = read_back (mem_get_revision_by_id m pid rid)"
  using held_find [OF assms]
  by (simp add: db_get_revision_by_id_def read_revision_def no_page_fault_def mem_get_revision_by_id_def
      read_back_def split: option.splits)

lemma held_get_revision:
  assumes "held m d" and "constrained d" and "mem_inv m"
  shows "db_get_revision no_page_fault d pid view = read_back (mem_get_revision m pid view)"
proof (cases "ms_pages m pid")
  case None
  then show ?thesis using held_get_page [OF assms(1), of pid]
    by (simp add: db_get_revision_def mem_get_page_def mem_get_revision_def read_back_def)
next
  case (Some p)
  define rid where "rid = (if view = ViewPublished \<and> pg_published_id p \<noteq> '''' then pg_published_id p else pg_draft_id p)"
  obtain r where r: "find (\<lambda>x. rv_id x = rid) (ms_revisions m pid) = Some r"
    using mem_heads(1,2) [OF assms(3) Some]
    by (cases "view = ViewPublished \<and> pg_published_id p \<noteq> ''''") (auto simp: rid_def)
  have "mem_get_revision m pid view = Inr r"
    by (rule mem_get_revision_eq [OF Some r]) (simp add: rid_def)
  moreover have "db_get_revision no_page_fault d pid view = revision_of_row (revision_row_of r)"
    using held_get_page [OF assms(1), of pid] held_find_id [OF assms(1,2) r] Some
    by (cases "view = ViewPublished \<and> pg_published_id p \<noteq> ''''")
       (auto simp: db_get_revision_def mem_get_page_def read_revision_def no_page_fault_def rid_def)
  ultimately show ?thesis by (simp add: read_back_def)
qed

lemma sort_key_map: "sort_key f (map g xs) = map g (sort_key (\<lambda>x. f (g x)) xs)"
proof -
  have "insort_key f (g x) (map g ys) = map g (insort_key (\<lambda>x. f (g x)) x ys)" for x ys
    by (induction ys) auto
  then show ?thesis by (induction xs) simp_all
qed

lemma held_list_revisions:
  assumes "held m d"
  shows "db_list_revisions no_page_fault d pid =
     revisions_of_rows (map revision_row_of (sort_key (\<lambda>r. - rv_no r) (ms_revisions m pid)))"
proof -
  have "(\<lambda>x. - rw_no (revision_row_of x)) = (\<lambda>r. - rv_no r)" by (simp add: revision_row_of_def)
  then show ?thesis using assms
    by (simp add: db_list_revisions_def no_page_fault_def held_def sort_key_map)
qed

lemma held_list_references:
  assumes "held m d"
  shows "db_list_embedded no_page_fault d rid
       = Inr (sort_key er_created (map (\<lambda>r. r\<lparr>er_created := stored_time (er_created r)\<rparr>) (ms_embedded m rid)))"
    and "db_list_attachments no_page_fault d rid
       = Inr (sort_key ar_created (map (\<lambda>r. r\<lparr>ar_created := stored_time (ar_created r)\<rparr>) (ms_attachments m rid)))"
    and "db_list_links no_page_fault d rid
       = Inr (sort_key lr_created (map (\<lambda>r. r\<lparr>lr_created := stored_time (lr_created r)\<rparr>) (ms_links m rid)))"
  using assms
  by (simp_all add: held_def db_list_embedded_def db_list_attachments_def db_list_links_def no_page_fault_def)

section \<open>Racing writers\<close>

text \<open>A draft that was stored has moved the draft head of its page.\<close>

lemma db_draft_page:
  assumes "db_execute fault (draft_tx base p r idem refs ev) d = (None, d')"
  shows "pr_pages d' = update_where (\<lambda>q. pg_id q = pg_id p \<and> pg_draft_no q = base)
     (\<lambda>q. q\<lparr>pg_title := pg_title p, pg_status := pg_status p, pg_updated_by := pg_updated_by p,
            pg_draft_id := pg_draft_id p, pg_draft_no := pg_draft_no p,
            pg_updated_at := stored_time (pg_updated_at p)\<rparr>) (pr_pages d)"
proof -
  obtain d1 d2 where one: "update_page fault base (pg_id p)
      (\<lambda>q. q\<lparr>pg_title := pg_title p, pg_status := pg_status p, pg_updated_by := pg_updated_by p,
            pg_draft_id := pg_draft_id p, pg_draft_no := pg_draft_no p,
            pg_updated_at := stored_time (pg_updated_at p)\<rparr>) d = (None, d1)"
    and two: "insert_revision_and_idempotency fault r idem d1 = (None, d2)"
    and rest: "db_writes fault (projection_writes (rv_id r) refs ev) d2 = (None, d')"
    using execute_none [OF assms] unfolding draft_tx_def
    by (auto simp: db_save_draft_revision_def split: prod.splits option.splits)
  have "pr_pages d2 = pr_pages d1"
    using two by (auto elim!: insert_idempotency_none simp: insert_revision_row_def split: option.splits if_splits)
  moreover have "pr_pages d' = pr_pages d2" using db_projections [OF rest] by simp
  ultimately show ?thesis using update_page_ok [OF one] by simp
qed

lemma db_publish_page:
  assumes "db_execute fault (publish_tx base p r refs ev) d = (None, d')"
  shows "pr_pages d' = update_where (\<lambda>q. pg_id q = pg_id p \<and> pg_draft_no q = base)
     (\<lambda>q. q\<lparr>pg_title := pg_title p, pg_status := pg_status p, pg_updated_by := pg_updated_by p,
            pg_published_id := pg_published_id p, pg_published_no := pg_published_no p,
            pg_updated_at := stored_time (pg_updated_at p)\<rparr>) (pr_pages d)"
proof -
  obtain d1 d2 where one: "update_page fault base (pg_id p)
      (\<lambda>q. q\<lparr>pg_title := pg_title p, pg_status := pg_status p, pg_updated_by := pg_updated_by p,
            pg_published_id := pg_published_id p, pg_published_no := pg_published_no p,
            pg_updated_at := stored_time (pg_updated_at p)\<rparr>) d = (None, d1)"
    and two: "insert_revision_and_idempotency fault r None d1 = (None, d2)"
    and rest: "db_writes fault (projection_writes (rv_id r) refs ev) d2 = (None, d')"
    using execute_none [OF assms] unfolding publish_tx_def
    by (auto simp: db_save_published_revision_def split: prod.splits option.splits)
  have "pr_pages d2 = pr_pages d1"
    using two by (auto elim!: insert_idempotency_none simp: insert_revision_row_def split: option.splits if_splits)
  moreover have "pr_pages d' = pr_pages d2" using db_projections [OF rest] by simp
  ultimately show ?thesis using update_page_ok [OF one] by simp
qed

end
