(* ===== verification/PagePostgresContract.thy ===== *)
theory PagePostgresContract
  imports PagePostgresFacts PageProperties Marshalling
begin

text \<open>
  The page store on PostgreSQL keeps the contract of a page store: it is atomic whatever fails, as long as the
  commits that are made are answered; while it can be
  read it keeps what a transaction stores, with times rounded and documents read back from their JSON; while its
  pages can be updated it refuses a transaction that was made for another version of its page.
\<close>

section \<open>What it keeps\<close>

definition stored_revision :: "page_revision \<Rightarrow> page_revision" where
  "stored_revision r = (case revision_of_row (revision_row_of r) of Inr r' \<Rightarrow> r' | Inl err \<Rightarrow> r)"

lemma stored_revision_read: "revision_of_row (revision_row_of r) = Inr (stored_revision r)"
proof -
  obtain d where "document_of_json (document_json (rv_document r)) = Some d" using document_total by blast
  then show ?thesis by (simp add: stored_revision_def revision_of_row_def revision_row_of_def)
qed

lemma read_back_stored [simp]: "read_back (Inr r) = Inr (stored_revision r)" "read_back (Inl err) = Inl err"
  by (simp_all add: read_back_def stored_revision_read)

lemma stored_revision_fields:
  "rv_id (stored_revision r) = rv_id r" "rv_no (stored_revision r) = rv_no r" "rv_kind (stored_revision r) = rv_kind r"
  "rv_page (stored_revision r) = rv_page r"
  "block_texts (rv_document (stored_revision r)) = block_texts (rv_document r)"
proof -
  obtain d where d: "document_of_json (document_json (rv_document r)) = Some d" using document_total by blast
  then have "stored_revision r = r\<lparr>rv_document := d, rv_created_at := stored_time (rv_created_at r)\<rparr>"
    by (simp add: stored_revision_def revision_of_row_def revision_row_of_def)
  then show "rv_id (stored_revision r) = rv_id r" "rv_no (stored_revision r) = rv_no r"
    "rv_kind (stored_revision r) = rv_kind r" "rv_page (stored_revision r) = rv_page r"
    "block_texts (rv_document (stored_revision r)) = block_texts (rv_document r)"
    using document_texts [OF d] by simp_all
qed

lemma read_back_Inr: "read_back x = Inr r \<longleftrightarrow> (\<exists>r0. x = Inr r0 \<and> r = stored_revision r0)"
  by (cases x) auto

section \<open>Its invariant\<close>

text \<open>The identifiers that no row has.\<close>

definition db_unused :: "page_db \<Rightarrow> string \<Rightarrow> bool" where
  "db_unused d i \<longleftrightarrow> \<not> page_known d i \<and> \<not> revision_known d i"

text \<open>An idempotency row names a revision of its page, with the revision's number.\<close>

definition idempotencies_stored :: "page_db \<Rightarrow> bool" where
  "idempotencies_stored d \<longleftrightarrow> list_all (\<lambda>i. list_ex (\<lambda>row. rw_id row = id_revision i \<and> rw_page row = id_page i
     \<and> rw_no row = id_revision_no i) (pr_revisions d)) (pr_idempotencies d)"

text \<open>
  Beside the constraints: the rows are those of a well-formed in-memory store, whose pages have the times that
  the rows have.
\<close>

definition canonical :: "mem_store \<Rightarrow> bool" where
  "canonical m \<longleftrightarrow> (\<forall>pid p. ms_pages m pid = Some p \<longrightarrow> stored_page p = p)"

definition canonise :: "mem_store \<Rightarrow> mem_store" where
  "canonise m = m\<lparr>ms_pages := \<lambda>pid. map_option stored_page (ms_pages m pid)\<rparr>"

definition db_inv :: "page_db \<Rightarrow> bool" where
  "db_inv d \<longleftrightarrow> constrained d \<and> idempotencies_stored d \<and> (\<exists>m. held m d \<and> mem_inv m \<and> canonical m)"

lemma stored_page_idem [simp]: "stored_page (stored_page p) = stored_page p"
  by (simp add: stored_page_def)

lemma canonise_ok:
  assumes "held m d" and "mem_inv m"
  shows "held (canonise m) d" and "mem_inv (canonise m)" and "canonical (canonise m)"
proof -
  have "map_option stored_page (map_option stored_page x) = map_option stored_page x" for x
    by (cases x) simp_all
  then show "held (canonise m) d" using assms(1) by (simp add: held_def canonise_def)
  have "page_ok (canonise m) pid" for pid
  proof -
    have "page_ok m pid" using assms(2) by (simp add: mem_inv_def)
    then show ?thesis
      by (auto simp: page_ok_def canonise_def revisions_ok_def heads_ok_def stored_page_def split: option.splits)
  qed
  moreover have "idempotencies_ok (canonise m)" using assms(2) by (simp add: mem_inv_def idempotencies_ok_def canonise_def)
  ultimately show "mem_inv (canonise m)" by (simp add: mem_inv_def)
  show "canonical (canonise m)" by (auto simp: canonical_def canonise_def)
qed

lemma db_inv_held:
  assumes "db_inv d"
  obtains m where "held m d" and "mem_inv m" and "canonical m" and "constrained d"
  using assms by (auto simp: db_inv_def)

lemma db_inv_intro: "constrained d \<Longrightarrow> idempotencies_stored d \<Longrightarrow> held m d \<Longrightarrow> mem_inv m \<Longrightarrow> db_inv d"
  using canonise_ok [of m d] by (auto simp: db_inv_def)

lemma db_inv_new: "db_inv new_page_db"
  by (rule db_inv_intro [OF constrained_new _ held_new mem_inv_new]) (simp add: idempotencies_stored_def new_page_db_def)

lemma held_unused:
  assumes "held m d"
  shows "db_unused d i \<longleftrightarrow> mem_unused m i"
proof -
  have "page_known d i \<longleftrightarrow> ms_pages m i \<noteq> None"
  proof -
    have "page_known d i \<longleftrightarrow> find (\<lambda>p. pg_id p = i) (pr_pages d) \<noteq> None"
      by (auto simp: page_known_def list_ex_iff find_None_iff)
    then show ?thesis using assms by (simp add: held_def)
  qed
  moreover have "revision_known d i \<longleftrightarrow> (\<exists>pid. i \<in> rv_id ` set (ms_revisions m pid))"
  proof -
    have rows: "{row \<in> set (pr_revisions d). rw_page row = pid} = revision_row_of ` set (ms_revisions m pid)" for pid
      using assms by (metis (mono_tags) held_def set_filter set_map)
    have "revision_known d i \<longleftrightarrow> (\<exists>pid. \<exists>row \<in> {row \<in> set (pr_revisions d). rw_page row = pid}. rw_id row = i)"
      by (auto simp: revision_known_def list_ex_iff)
    also have "\<dots> \<longleftrightarrow> (\<exists>pid. i \<in> rv_id ` set (ms_revisions m pid))"
      unfolding rows by (auto simp: revision_row_of_def image_iff)
    finally show ?thesis .
  qed
  ultimately show ?thesis by (auto simp: db_unused_def mem_unused_def)
qed

section \<open>Idempotency rows\<close>

lemma idempotencies_stored_mono:
  assumes "idempotencies_stored d" and "set (pr_revisions d) \<subseteq> set (pr_revisions d')"
    and "pr_idempotencies d' = pr_idempotencies d"
  shows "idempotencies_stored d'"
  unfolding idempotencies_stored_def list_all_iff list_ex_iff
proof
  fix i assume "i \<in> set (pr_idempotencies d')"
  then have "i \<in> set (pr_idempotencies d)" using assms(3) by simp
  then obtain row where "row \<in> set (pr_revisions d)" "rw_id row = id_revision i \<and> rw_page row = id_page i
      \<and> rw_no row = id_revision_no i"
    using assms(1) unfolding idempotencies_stored_def list_all_iff list_ex_iff by blast
  then show "\<exists>row \<in> set (pr_revisions d'). rw_id row = id_revision i \<and> rw_page row = id_page i
      \<and> rw_no row = id_revision_no i"
    using assms(2) by blast
qed

lemma insert_revision_row_ok:
  "insert_revision_row fault row d = (None, d') \<Longrightarrow> d' = d\<lparr>pr_revisions := pr_revisions d @ [row]\<rparr>"
  by (auto simp: insert_revision_row_def split: option.splits if_splits)

lemma insert_idempotency_stored:
  assumes "idempotencies_stored d" and "idempotency_for r idem"
    and "insert_revision_and_idempotency fault r idem d = (None, d')"
  shows "idempotencies_stored d'"
proof -
  obtain d1 where one: "insert_revision_row fault (revision_row_of r) d = (None, d1)"
    using assms(3) by (auto simp: insert_revision_and_idempotency_def split: prod.splits option.splits)
  note d1 = insert_revision_row_ok [OF one]
  have ok: "idempotencies_stored d1" using assms(1) by (rule idempotencies_stored_mono) (auto simp: d1)
  show ?thesis
  proof (cases "d' = d1")
    case False
    then obtain i where i: "idem = Some i"
      and d': "d' = d1\<lparr>pr_idempotencies := pr_idempotencies d1 @ [i\<lparr>id_created_at := stored_time (id_created_at i)\<rparr>]\<rparr>"
      using assms(3) one by (auto simp: insert_revision_and_idempotency_def split: option.splits if_splits)
    have "revision_row_of r \<in> set (pr_revisions d1)" by (simp add: d1)
    moreover have "rw_id (revision_row_of r) = id_revision i" "rw_page (revision_row_of r) = id_page i"
        "rw_no (revision_row_of r) = id_revision_no i"
      using assms(2) i by (simp_all add: idempotency_for_def revision_row_of_def)
    ultimately have "list_ex (\<lambda>row. rw_id row = id_revision i \<and> rw_page row = id_page i
        \<and> rw_no row = id_revision_no i) (pr_revisions d1)"
      by (auto simp: list_ex_iff)
    with ok show ?thesis by (simp add: idempotencies_stored_def d')
  qed (use ok in simp)
qed

fun idempotent_write :: "store_write \<Rightarrow> bool" where
  "idempotent_write (SaveDraftRevision e page revision i) = idempotency_for revision i"
| "idempotent_write w = True"

lemma update_page_idempotencies:
  assumes "update_page fault expected pid change d = (None, d')" and "idempotencies_stored d"
  shows "idempotencies_stored d'"
  using assms(2) by (rule idempotencies_stored_mono) (simp_all add: update_page_ok [OF assms(1)])

lemma write_idempotencies:
  assumes "db_write fault w d = (None, d')" and "idempotencies_stored d" and "idempotent_write w"
  shows "idempotencies_stored d'"
proof (cases w)
  case (CreatePage page revision)
  then obtain ps where "pr_revisions d' = pr_revisions d @ ps" "pr_idempotencies d' = pr_idempotencies d"
    using assms(1) by (auto simp: db_create_page_def dest!: insert_revision_row_ok split: option.splits if_splits)
  then show ?thesis using assms(2) by (intro idempotencies_stored_mono [OF assms(2)]) auto
next
  case (SaveDraftRevision e page revision i)
  then obtain d1 change where one: "update_page fault e (pg_id page) change d = (None, d1)"
    and two: "insert_revision_and_idempotency fault revision i d1 = (None, d')"
    using assms(1) by (fastforce simp: db_save_draft_revision_def split: prod.splits option.splits)
  have "idempotency_for revision i" using assms(3) SaveDraftRevision by simp
  then show ?thesis by (rule insert_idempotency_stored [OF update_page_idempotencies [OF one assms(2)] _ two])
next
  case (SavePublishedRevision e page revision)
  then obtain d1 change where one: "update_page fault e (pg_id page) change d = (None, d1)"
    and two: "insert_revision_and_idempotency fault revision None d1 = (None, d')"
    using assms(1) by (fastforce simp: db_save_published_revision_def split: prod.splits option.splits)
  show ?thesis
    by (rule insert_idempotency_stored [OF update_page_idempotencies [OF one assms(2)] _ two])
       (simp add: idempotency_for_def)
next
  case (ArchivePage e page)
  then show ?thesis using assms(1,2) by (auto simp: db_archive_page_def intro: update_page_idempotencies)
qed (use assms(1,2) in \<open>auto simp: db_replace_embedded_def db_replace_attachments_def db_replace_links_of_def
       db_outbox_add_def idempotencies_stored_def split: sum.splits\<close>)

lemma writes_idempotencies:
  "db_writes fault ws d = (None, d') \<Longrightarrow> idempotencies_stored d \<Longrightarrow> list_all idempotent_write ws \<Longrightarrow>
     idempotencies_stored d'"
  by (induction ws arbitrary: d) (auto dest: write_idempotencies split: prod.splits option.splits)

lemma idempotent_txs [simp]:
  "list_all idempotent_write (draft_tx base p r idem refs ev) = idempotency_for r idem"
  "list_all idempotent_write (publish_tx base p r refs ev)"
  "list_all idempotent_write (create_tx p r refs ev)"
  "list_all idempotent_write (archive_tx base p ev)"
  by (simp_all add: draft_tx_def publish_tx_def create_tx_def archive_tx_def projection_writes_def)

section \<open>From the rows of one store to the rows of the next\<close>

text \<open>What the in-memory stores have in common, the rows that hold them have in common.\<close>

lemma held_page_read:
  assumes "held m d"
  shows "db_get_page no_page_fault d pid = Inr q \<longleftrightarrow> (\<exists>p. ms_pages m pid = Some p \<and> q = stored_page p)"
  using held_get_page [OF assms, of pid] by (auto simp: mem_get_page_def split: option.splits)

lemma canonical_page_read:
  assumes "held m d" and "canonical m"
  shows "db_get_page no_page_fault d pid = Inr p \<longleftrightarrow> ms_pages m pid = Some p"
proof -
  have "stored_page q = q" if "ms_pages m pid = Some q" for q using assms(2) that unfolding canonical_def by blast
  then show ?thesis using held_page_read [OF assms(1), of pid p] by metis
qed

abbreviation pg_reads :: "page_db store_ops" where
  "pg_reads \<equiv> postgres_page_ops no_page_fault"

lemma postgres_ops_simps [simp]:
  "so_get_page (postgres_page_ops f) = db_get_page f" "so_get_revision (postgres_page_ops f) = db_get_revision f"
  "so_get_revision_by_id (postgres_page_ops f) = db_get_revision_by_id f"
  "so_get_idempotency (postgres_page_ops f) = db_get_idempotency f"
  "so_list_embedded (postgres_page_ops f) = db_list_embedded f"
  "so_execute (postgres_page_ops f) = db_execute f" "so_share (postgres_page_ops f) = (\<lambda>_ _ _ d. d)"
  by (simp_all add: postgres_page_ops_def)

lemma held_keeps:
  assumes "held m d" and "held m' d'"
  shows "keeps_revisions memory_ops m m' \<Longrightarrow> keeps_revisions pg_reads d d'"
    and "other_pages_same memory_ops pid m m' \<Longrightarrow> other_pages_same pg_reads pid d d'"
    and "keeps_unused mem_unused new m m' \<Longrightarrow> keeps_unused db_unused new d d'"
  using assms
  by (auto simp: keeps_revisions_def other_pages_same_def keeps_unused_def held_get_revision_by_id read_back_Inr
      held_get_page held_unused)

text \<open>A transaction that was accepted: the step of the in-memory store, seen in the rows.\<close>

lemma accepted_transaction:
  assumes "db_inv d" and "db_execute fault ws d = (None, d')" and "list_all idempotent_write ws"
    and "\<And>m. held m d \<Longrightarrow> mem_inv m \<Longrightarrow> canonical m \<Longrightarrow> next_writes m ws"
  obtains m m' where "held m d" and "mem_inv m" and "canonical m" and "mem_execute ws m = (None, m')"
    and "held m' d'" and "mem_inv m'" and "constrained d'" and "db_inv d'"
proof -
  obtain m where m: "held m d" "mem_inv m" "canonical m" "constrained d" using assms(1) by (rule db_inv_held)
  obtain m' where m': "mem_execute ws m = (None, m')" "held m' d'" "mem_inv m'"
    using held_execute [OF assms(4) [OF m(1-3)] m(1,4,2) execute_none [OF assms(2)]] by blast
  have d': "constrained d'" by (rule execute_constrained [OF m(4) assms(2)])
  have "idempotencies_stored d'"
    using writes_idempotencies [OF execute_none [OF assms(2)] _ assms(3)] assms(1) by (simp add: db_inv_def)
  with d' m' have "db_inv d'" by (intro db_inv_intro)
  with m m' d' show thesis using that by blast
qed

lemma db_draft_done:
  assumes "db_inv d" and "db_get_page no_page_fault d (pg_id cur) = Inr cur" and "db_unused d (rv_id r)"
    and step: "draft_step cur p r idem" and "refer_to (rv_id r) refs"
    and "db_execute fault (draft_tx base p r idem refs ev) d = (None, d')"
  shows "db_inv d' \<and> db_get_page no_page_fault d' (pg_id cur) = Inr (stored_page p)
     \<and> db_get_revision no_page_fault d' (pg_id cur) ViewDraft = Inr (stored_revision r)
     \<and> db_get_revision_by_id no_page_fault d' (pg_id cur) (rv_id r) = Inr (stored_revision r)
     \<and> keeps_revisions pg_reads d d' \<and> other_pages_same pg_reads (pg_id cur) d d'
     \<and> keeps_unused db_unused {rv_id r} d d'"
proof (rule accepted_transaction [OF assms(1,6)])
  show "list_all idempotent_write (draft_tx base p r idem refs ev)" using step by (simp add: draft_step_def)
  show "next_writes m (draft_tx base p r idem refs ev)" if "held m d" "mem_inv m" "canonical m" for m
    using assms(2,3) that by (intro next_draft [OF _ _ step assms(5)]) (simp_all add: canonical_page_read held_unused)
  fix m m'
  assume m: "held m d" "mem_inv m" "canonical m" and run: "mem_execute (draft_tx base p r idem refs ev) m = (None, m')"
    and m': "held m' d'" "mem_inv m'" "constrained d'" and "db_inv d'"
  have "mem_inv m' \<and> mem_get_page m' (pg_id cur) = Inr p \<and> mem_get_revision m' (pg_id cur) ViewDraft = Inr r
     \<and> mem_get_revision_by_id m' (pg_id cur) (rv_id r) = Inr r \<and> keeps_revisions memory_ops m m'
     \<and> other_pages_same memory_ops (pg_id cur) m m' \<and> keeps_unused mem_unused {rv_id r} m m'"
    using mem.draft_done [of m cur r p idem refs base ev m'] assms(2,3,5) m step run
    by (simp add: canonical_page_read held_unused mem_get_page_iff)
  then show ?thesis
    using held_keeps [OF m(1) m'(1)] \<open>db_inv d'\<close> m'
    by (simp add: held_get_page held_get_revision held_get_revision_by_id)
qed

lemma db_publish_done:
  assumes "db_inv d" and "db_get_page no_page_fault d (pg_id cur) = Inr cur" and "db_unused d (rv_id r)"
    and step: "publish_step cur p r" and "refer_to (rv_id r) refs"
    and "db_execute fault (publish_tx base p r refs ev) d = (None, d')"
  shows "db_inv d' \<and> db_get_page no_page_fault d' (pg_id cur) = Inr (stored_page p)
     \<and> db_get_revision no_page_fault d' (pg_id cur) ViewPublished = Inr (stored_revision r)
     \<and> db_get_revision no_page_fault d' (pg_id cur) ViewDraft = db_get_revision no_page_fault d (pg_id cur) ViewDraft
     \<and> keeps_revisions pg_reads d d' \<and> other_pages_same pg_reads (pg_id cur) d d'
     \<and> keeps_unused db_unused {rv_id r} d d'"
proof (rule accepted_transaction [OF assms(1,6)])
  show "list_all idempotent_write (publish_tx base p r refs ev)" by simp
  show "next_writes m (publish_tx base p r refs ev)" if "held m d" "mem_inv m" "canonical m" for m
    using assms(2,3) that by (intro next_publish [OF _ _ step assms(5)]) (simp_all add: canonical_page_read held_unused)
  fix m m'
  assume m: "held m d" "mem_inv m" "canonical m" and run: "mem_execute (publish_tx base p r refs ev) m = (None, m')"
    and m': "held m' d'" "mem_inv m'" "constrained d'" and "db_inv d'"
  have "constrained d" using assms(1) by (simp add: db_inv_def)
  have "mem_inv m' \<and> mem_get_page m' (pg_id cur) = Inr p \<and> mem_get_revision m' (pg_id cur) ViewPublished = Inr r
     \<and> mem_get_revision m' (pg_id cur) ViewDraft = mem_get_revision m (pg_id cur) ViewDraft
     \<and> keeps_revisions memory_ops m m'
     \<and> other_pages_same memory_ops (pg_id cur) m m' \<and> keeps_unused mem_unused {rv_id r} m m'"
    using mem.publish_done [of m cur r p refs base ev m'] assms(2,3,5) m step run
    by (simp add: canonical_page_read held_unused mem_get_page_iff)
  then show ?thesis
    using held_keeps [OF m(1) m'(1)] \<open>db_inv d'\<close> m' m \<open>constrained d\<close>
    by (simp add: held_get_page held_get_revision)
qed

lemma db_create_done:
  assumes "db_inv d" and "db_unused d (pg_id p)" and "db_unused d (rv_id r)"
    and step: "create_step p r" and "refer_to (rv_id r) refs"
    and "db_execute fault (create_tx p r refs ev) d = (None, d')"
  shows "db_inv d' \<and> db_get_page no_page_fault d' (pg_id p) = Inr (stored_page p)
     \<and> db_get_revision no_page_fault d' (pg_id p) ViewDraft = Inr (stored_revision r)
     \<and> keeps_revisions pg_reads d d' \<and> other_pages_same pg_reads (pg_id p) d d'
     \<and> keeps_unused db_unused {pg_id p, rv_id r} d d'"
proof (rule accepted_transaction [OF assms(1,6)])
  show "list_all idempotent_write (create_tx p r refs ev)" by simp
  show "next_writes m (create_tx p r refs ev)" if "held m d" "mem_inv m" "canonical m" for m
    using assms(2) that by (intro next_create [OF _ step assms(5)]) (simp_all add: held_unused)
  fix m m'
  assume m: "held m d" "mem_inv m" "canonical m" and run: "mem_execute (create_tx p r refs ev) m = (None, m')"
    and m': "held m' d'" "mem_inv m'" "constrained d'" and "db_inv d'"
  have "mem_inv m' \<and> mem_get_page m' (pg_id p) = Inr p \<and> mem_get_revision m' (pg_id p) ViewDraft = Inr r
     \<and> keeps_revisions memory_ops m m'
     \<and> other_pages_same memory_ops (pg_id p) m m' \<and> keeps_unused mem_unused {pg_id p, rv_id r} m m'"
    using mem.create_done [of m p r refs ev m'] assms(2,3,5) m step run by (simp add: held_unused)
  then show ?thesis
    using held_keeps [OF m(1) m'(1)] \<open>db_inv d'\<close> m'
    by (simp add: held_get_page held_get_revision)
qed

lemma db_archive_done:
  assumes "db_inv d" and "db_get_page no_page_fault d (pg_id cur) = Inr cur"
    and step: "archive_step cur p" and "db_execute fault (archive_tx base p ev) d = (None, d')"
  shows "db_inv d' \<and> db_get_page no_page_fault d' (pg_id cur) = Inr (stored_page p)
     \<and> keeps_revisions pg_reads d d' \<and> other_pages_same pg_reads (pg_id cur) d d'
     \<and> keeps_unused db_unused {} d d'"
proof (rule accepted_transaction [OF assms(1,4)])
  show "list_all idempotent_write (archive_tx base p ev)" by simp
  show "next_writes m (archive_tx base p ev)" if "held m d" "mem_inv m" "canonical m" for m
    using assms(2) that by (intro next_archive [OF _ step]) (simp add: canonical_page_read)
  fix m m'
  assume m: "held m d" "mem_inv m" "canonical m" and run: "mem_execute (archive_tx base p ev) m = (None, m')"
    and m': "held m' d'" "mem_inv m'" "constrained d'" and "db_inv d'"
  have "mem_inv m' \<and> mem_get_page m' (pg_id cur) = Inr p \<and> keeps_revisions memory_ops m m'
     \<and> other_pages_same memory_ops (pg_id cur) m m' \<and> keeps_unused mem_unused {} m m'"
    using mem.archive_done [of m cur p base ev m'] assms(2) m step run
    by (simp add: canonical_page_read mem_get_page_iff)
  then show ?thesis
    using held_keeps [OF m(1) m'(1)] \<open>db_inv d'\<close> m' by (simp add: held_get_page)
qed

section \<open>Which statements fail\<close>

text \<open>
  Faults of the statements that write, and of the commit; a statement that reads works. A request whose reads
  fail ends before it writes.
\<close>

fun reading :: "page_statement \<Rightarrow> bool" where
  "reading SelectPage = True"
| "reading SelectRevision = True"
| "reading SelectRevisions = True"
| "reading SelectIdempotency = True"
| "reading SelectReferences = True"
| "reading SelectPending = True"
| "reading _ = False"

definition writing_faults :: "page_fault \<Rightarrow> page_fault" where
  "writing_faults fault = (\<lambda>stmt i. if reading stmt then None else fault stmt i)"

text \<open>Faults of the statements that insert or delete, and of the commit.\<close>

definition inserting_faults :: "page_fault \<Rightarrow> page_fault" where
  "inserting_faults fault = (\<lambda>stmt i. if reading stmt \<or> stmt = UpdatePage then None else fault stmt i)"

lemma inserting_writing: "writing_faults (inserting_faults fault) = inserting_faults fault"
  by (intro ext) (simp add: writing_faults_def inserting_faults_def)

lemma reads_work [simp]:
  "db_get_page (writing_faults f) = db_get_page no_page_fault"
  "db_get_revision (writing_faults f) = db_get_revision no_page_fault"
  "db_get_revision_by_id (writing_faults f) = db_get_revision_by_id no_page_fault"
  "db_get_idempotency (writing_faults f) = db_get_idempotency no_page_fault"
proof -
  show page: "db_get_page (writing_faults f) = db_get_page no_page_fault"
    by (intro ext) (simp add: db_get_page_def writing_faults_def no_page_fault_def)
  have read: "read_revision (writing_faults f) = read_revision no_page_fault"
    by (intro ext) (simp add: read_revision_def writing_faults_def no_page_fault_def)
  show "db_get_revision (writing_faults f) = db_get_revision no_page_fault"
    "db_get_revision_by_id (writing_faults f) = db_get_revision_by_id no_page_fault"
    by (intro ext, simp add: db_get_revision_def db_get_revision_by_id_def page read Let_def split: sum.splits)+
  show "db_get_idempotency (writing_faults f) = db_get_idempotency no_page_fault"
    by (intro ext) (simp add: db_get_idempotency_def writing_faults_def no_page_fault_def)
qed

lemma keeps_reads [simp]:
  "keeps_revisions (postgres_page_ops (writing_faults f)) = keeps_revisions pg_reads"
  "keeps_history (postgres_page_ops (writing_faults f)) = keeps_history pg_reads"
  "other_pages_same (postgres_page_ops (writing_faults f)) = other_pages_same pg_reads"
  by (intro ext, simp add: keeps_revisions_def keeps_history_def other_pages_same_def)+

text \<open>
  Faults among which no commit loses its answer. Only \<open>Execute\<close> can tell: it leaves the same rows, and
  answers otherwise only when an answer was lost.
\<close>

definition answered :: "page_fault \<Rightarrow> page_fault" where
  "answered fault = (\<lambda>stmt i. if stmt = CommitAnswer then None else fault stmt i)"

lemma answered_simps [simp]:
  "answered fault CommitAnswer i = None" "stmt \<noteq> CommitAnswer \<Longrightarrow> answered fault stmt i = fault stmt i"
  by (simp_all add: answered_def)

lemma answered_reads [simp]:
  "db_get_page (answered f) = db_get_page f" "db_get_revision (answered f) = db_get_revision f"
  "db_get_revision_by_id (answered f) = db_get_revision_by_id f"
  "db_list_revisions (answered f) = db_list_revisions f" "db_list_embedded (answered f) = db_list_embedded f"
  "db_get_idempotency (answered f) = db_get_idempotency f"
proof -
  show page: "db_get_page (answered f) = db_get_page f" by (intro ext) (simp add: db_get_page_def)
  have read: "read_revision (answered f) = read_revision f" by (intro ext) (simp add: read_revision_def)
  show "db_get_revision (answered f) = db_get_revision f" "db_get_revision_by_id (answered f) = db_get_revision_by_id f"
    by (intro ext, simp add: db_get_revision_def db_get_revision_by_id_def page read Let_def split: sum.splits)+
  show "db_list_revisions (answered f) = db_list_revisions f" "db_list_embedded (answered f) = db_list_embedded f"
    "db_get_idempotency (answered f) = db_get_idempotency f"
    by (intro ext, simp add: db_list_revisions_def db_list_embedded_def db_get_idempotency_def)+
qed

lemma answered_keeps [simp]:
  "keeps_revisions (postgres_page_ops (answered f)) = keeps_revisions (postgres_page_ops f)"
  "keeps_history (postgres_page_ops (answered f)) = keeps_history (postgres_page_ops f)"
  "other_pages_same (postgres_page_ops (answered f)) = other_pages_same (postgres_page_ops f)"
  by (intro ext, simp add: keeps_revisions_def keeps_history_def other_pages_same_def)+

lemma answered_insert_rows:
  "stmt \<noteq> CommitAnswer \<Longrightarrow> insert_rows (answered f) stmt full key ok xs rows = insert_rows f stmt full key ok xs rows"
  by (induction xs arbitrary: rows) (simp_all split: option.splits)

lemma answered_update [simp]: "update_page (answered f) = update_page f"
  by (intro ext) (simp add: update_page_def)

lemma answered_writes: "db_writes (answered f) ws d = db_writes f ws d"
proof -
  have row: "insert_revision_row (answered f) = insert_revision_row f"
    by (intro ext) (simp add: insert_revision_row_def)
  have rows: "replace_rows (answered f) rid rof full key ok xs rows = replace_rows f rid rof full key ok xs rows"
    for rid and rof :: "'a \<Rightarrow> string" and full key ok xs rows
    by (simp add: replace_rows_def answered_insert_rows split: option.splits)
  have idem: "insert_revision_and_idempotency (answered f) = insert_revision_and_idempotency f"
    by (intro ext) (auto simp: insert_revision_and_idempotency_def row split: prod.splits option.splits)
  have one: "db_write (answered f) w d = db_write f w d" for w d
    by (cases w) (auto simp: db_create_page_def db_save_draft_revision_def db_save_published_revision_def
        db_archive_page_def db_replace_embedded_def db_replace_attachments_def db_replace_links_of_def
        db_outbox_add_def row rows idem answered_insert_rows
        split: prod.splits option.splits)
  show ?thesis by (induction ws arbitrary: d) (simp_all add: one split: prod.splits option.splits)
qed

lemma answered_execute_rows: "snd (db_execute (answered f) ws d) = snd (db_execute f ws d)"
  by (simp add: db_execute_def answered_writes split: prod.splits option.splits)

lemma answered_execute_done: "db_execute f ws d = (None, d') \<Longrightarrow> db_execute (answered f) ws d = (None, d')"
  by (auto simp: db_execute_def answered_writes split: prod.splits option.splits)

lemma answered_execute_same: "f CommitAnswer '''' = None \<Longrightarrow> db_execute (answered f) = db_execute f"
  by (intro ext) (simp add: db_execute_def answered_writes split: prod.splits option.splits)

section \<open>The contract\<close>

text \<open>
  Whatever fails, a transaction that answers an error has changed nothing, unless it was made and only its
  answer was lost.
\<close>

interpretation pg_atomic: atomic_store "postgres_page_ops (answered fault)" "\<lambda>_. True" for fault
  by unfold_locales (simp add: execute_error)

lemma db_heads:
  assumes "db_inv d" and "db_get_page no_page_fault d pid = Inr p"
  shows "pg_id p = pid" and "0 < pg_draft_no p \<and> 0 \<le> pg_published_no p"
    and "\<exists>r. db_get_revision no_page_fault d pid ViewDraft = Inr r
       \<and> db_get_revision_by_id no_page_fault d pid (pg_draft_id p) = Inr r
       \<and> rv_id r = pg_draft_id p \<and> rv_no r = pg_draft_no p \<and> rv_kind r = ViewDraft"
    and "pg_published_id p \<noteq> '''' \<Longrightarrow> \<exists>r. db_get_revision no_page_fault d pid ViewPublished = Inr r
       \<and> rv_id r = pg_published_id p \<and> rv_no r = pg_published_no p \<and> rv_kind r = ViewPublished"
    and "db_get_revision no_page_fault d pid view = Inr r \<Longrightarrow>
       db_get_revision_by_id no_page_fault d pid (rv_id r) = Inr r"
    and "stored_time (pg_created_at p) = pg_created_at p"
proof -
  obtain m where m: "held m d" "mem_inv m" "canonical m" "constrained d" using assms(1) by (rule db_inv_held)
  have p: "mem_get_page m pid = Inr p" using assms(2) m by (simp add: canonical_page_read mem_get_page_iff)
  show "pg_id p = pid" using mem.page_key [OF m(2)] p by simp
  show "0 < pg_draft_no p \<and> 0 \<le> pg_published_no p" using mem.page_numbers [OF m(2)] p by simp
  show "\<exists>r. db_get_revision no_page_fault d pid ViewDraft = Inr r
       \<and> db_get_revision_by_id no_page_fault d pid (pg_draft_id p) = Inr r
       \<and> rv_id r = pg_draft_id p \<and> rv_no r = pg_draft_no p \<and> rv_kind r = ViewDraft"
    using mem.draft_head [OF m(2), of pid p] p m
    by (auto simp: held_get_revision held_get_revision_by_id stored_revision_fields)
  show "\<exists>r. db_get_revision no_page_fault d pid ViewPublished = Inr r
       \<and> rv_id r = pg_published_id p \<and> rv_no r = pg_published_no p \<and> rv_kind r = ViewPublished"
    if "pg_published_id p \<noteq> ''''"
    using mem.published_head [OF m(2), of pid p] p m that
    by (auto simp: held_get_revision stored_revision_fields)
  show "db_get_revision_by_id no_page_fault d pid (rv_id r) = Inr r"
    if "db_get_revision no_page_fault d pid view = Inr r"
    using mem.revision_by_id [OF m(2), of pid p view] p m that
    by (auto simp: held_get_revision held_get_revision_by_id read_back_Inr stored_revision_fields)
  have "stored_page p = p" using p m(3) by (auto simp: canonical_def mem_get_page_iff)
  moreover have "pg_created_at (stored_page p) = stored_time (pg_created_at p)" by (simp add: stored_page_def)
  ultimately show "stored_time (pg_created_at p) = pg_created_at p" by simp
qed

lemma db_idempotency_live:
  assumes "db_inv d" and "db_get_idempotency no_page_fault d pid key = Inr (Some i)"
  shows "\<exists>r. db_get_revision_by_id no_page_fault d (id_page i) (id_revision i) = Inr r \<and> rv_no r = id_revision_no i"
proof -
  have "i \<in> set (pr_idempotencies d)"
    using assms(2) by (auto simp: db_get_idempotency_def no_page_fault_def find_Some_iff)
  then obtain row where row: "row \<in> set (pr_revisions d)" "rw_id row = id_revision i" "rw_page row = id_page i"
      "rw_no row = id_revision_no i"
    using assms(1) by (auto simp: db_inv_def idempotencies_stored_def list_all_iff list_ex_iff)
  obtain m where m: "held m d" "constrained d" using assms(1) by (rule db_inv_held)
  have "row \<in> set (map revision_row_of (ms_revisions m (id_page i)))"
    using row(1,3) m(1) by (metis (mono_tags, lifting) held_def mem_Collect_eq set_filter)
  then obtain r where r: "row = revision_row_of r" by auto
  have "distinct (map rw_id (pr_revisions d))" using m(2) by (simp add: constrained_def revisions_constrained_def)
  then have "find (\<lambda>x. rw_id x = id_revision i) (pr_revisions d) = Some row"
    using find_unique [of rw_id "pr_revisions d" row] row(1,2) by simp
  then have "find (\<lambda>x. rw_id x = id_revision i \<and> rw_page x = id_page i) (pr_revisions d) = Some row"
    using row(3) by (auto simp: find_Some_iff)
  moreover have "rv_no r = id_revision_no i" using row(4) by (simp add: r revision_row_of_def)
  ultimately show ?thesis
    by (simp add: db_get_revision_by_id_def read_revision_def no_page_fault_def r stored_revision_read
        stored_revision_fields)
qed

interpretation pg: page_store "postgres_page_ops (answered (writing_faults fault))" db_inv db_unused stored_page stored_revision
  for fault
proof (unfold_locales, goal_cases)
  case (1 d ws err d')
  then show ?case by (simp add: execute_error)
next
  case (2 p)
  show ?case by (simp add: stored_page_def)
next
  case (3 d pid cur p)
  then show ?case using db_heads(6) [of d pid cur] by (simp add: stored_page_def)
next
  case (4 r)
  show ?case by (simp add: stored_revision_fields)
next
  case (5 d pid p)
  then show ?case using db_heads(1) by simp
next
  case (6 d pid p)
  then show ?case using db_heads(2) by simp
next
  case (7 d pid p)
  then show ?case using db_heads(3) by simp
next
  case (8 d pid p)
  then show ?case using db_heads(4) by simp
next
  case (9 d pid key i)
  then show ?case using db_idempotency_live by simp
next
  case (13 pid rid d blocks)
  show ?case by (simp add: keeps_history_refl)
next
  case (14 d pid p view r)
  then show ?case using db_heads(5) by simp
next
  case (15 d k p)
  then show ?case
    by (auto simp: db_unused_def db_get_page_def no_page_fault_def page_known_def list_ex_iff find_Some_iff
        split: option.splits)
next
  case (16 d cur r p idem refs base ev d')
  then show ?case using db_draft_done [of d cur r p idem refs "answered (writing_faults fault)" base ev d'] by simp
next
  case (17 d cur r p refs base ev d')
  then show ?case using db_publish_done [of d cur r p refs "answered (writing_faults fault)" base ev d'] by simp
next
  case (18 d p r refs ev d')
  then show ?case using db_create_done [of d p r refs "answered (writing_faults fault)" ev d'] by simp
next
  case (19 d cur p base ev d')
  then show ?case using db_archive_done [of d cur p "answered (writing_faults fault)" base ev d'] by simp
qed simp_all

text \<open>While pages can be updated, a transaction for another version is refused as such.\<close>

lemma stale_update:
  assumes "db_inv d" and "db_get_page no_page_fault d pid = Inr cur" and "pg_draft_no cur \<noteq> base"
  shows "update_page (inserting_faults fault) base pid change d = (Some ErrStaleRevision, d)"
proof -
  have "distinct (map pg_id (pr_pages d))"
    using assms(1) by (simp add: db_inv_def constrained_def pages_constrained_def)
  moreover have "find (\<lambda>p. pg_id p = pid) (pr_pages d) = Some cur"
    using assms(2) by (auto simp: db_get_page_def no_page_fault_def split: option.splits)
  ultimately have "\<not> list_ex (\<lambda>p. pg_id p = pid \<and> pg_draft_no p = base) (pr_pages d)"
    using assms(3) find_unique [of pg_id "pr_pages d"] by (auto simp: list_ex_iff)
  then show ?thesis by (simp add: update_page_def inserting_faults_def)
qed

interpretation pg_versioned: versioned_store "postgres_page_ops (answered (inserting_faults fault))" db_inv db_unused
  stored_page stored_revision for fault
proof (rule versioned_store.intro)
  show "page_store (postgres_page_ops (answered (inserting_faults fault))) db_inv db_unused stored_page stored_revision"
    using pg.page_store_axioms [of "inserting_faults fault"] by (simp add: inserting_writing)
  have reads: "db_get_page (inserting_faults fault) = db_get_page no_page_fault"
    using reads_work(1) [of "inserting_faults fault"] by (simp add: inserting_writing)
  show "versioned_store_axioms (postgres_page_ops (answered (inserting_faults fault))) db_inv"
    by unfold_locales
       (simp_all add: reads stale_update db_execute_def answered_writes draft_tx_def publish_tx_def archive_tx_def
         db_save_draft_revision_def db_save_published_revision_def db_archive_page_def)
qed

end
