(* ===== verification/PagePostgresProperties.thy ===== *)
theory PagePostgresProperties
  imports PagePostgresFacts PageSamples
begin

text \<open>
  The properties of the page store on PostgreSQL: it refines the in-memory store, gives every revision number
  of a page once, and refuses a document with a table that has no display configuration.
\<close>

section \<open>Samples\<close>

definition no_references :: document_references where
  "no_references = \<lparr>rf_tables = [], rf_attachments = [], rf_links = []\<rparr>"

definition row_page :: "string \<Rightarrow> int \<Rightarrow> page" where
  "row_page draft n = \<lparr>pg_id = ''p'', pg_workspace = ''w'', pg_slug = ''home'', pg_title = ''Home'',
     pg_status = StatusDraft, pg_created_by = ''u'', pg_updated_by = ''u'', pg_draft_id = draft, pg_draft_no = n,
     pg_published_id = '''', pg_published_no = 0, pg_created_at = 1500, pg_updated_at = 2500\<rparr>"

definition row_revision :: "string \<Rightarrow> int \<Rightarrow> page_revision" where
  "row_revision i n = \<lparr>rv_id = i, rv_page = ''p'', rv_no = n, rv_kind = ViewDraft, rv_base = '''',
     rv_restored_from = '''', rv_document = text_document ''one'', rv_title = ''Home'', rv_created_by = ''u'',
     rv_created_via = SourceAutosave, rv_created_at = 2500\<rparr>"

definition row_event :: outbox_record where
  "row_event = \<lparr>ob_id = ''e1'', ob_aggregate_type = ''page'', ob_aggregate_id = ''p'', ob_event = ''page.created'',
     ob_payload = JNull, ob_status = OutboxPending, ob_created_at = 2500, ob_available_at = 2500\<rparr>"

definition create_writes :: "store_write list" where
  "create_writes = create_tx (row_page ''r1'' 1) (row_revision ''r1'' 1) no_references [row_event]"

definition draft_writes :: "string \<Rightarrow> store_write list" where
  "draft_writes i = draft_tx 1 (row_page i 2) (row_revision i 2) None no_references []"

definition created_db :: page_db where
  "created_db = snd (db_execute no_page_fault create_writes new_page_db)"

definition drafted_db :: page_db where
  "drafted_db = snd (db_execute no_page_fault (draft_writes ''r2'') created_db)"

lemma sample_writes_done:
  "fst (db_execute no_page_fault create_writes new_page_db) = None"
  "fst (db_execute no_page_fault (draft_writes ''r2'') created_db) = None"
  "fst (mem_execute create_writes new_mem_store) = None"
  by code_simp+

lemma created_executed:
  "db_execute no_page_fault create_writes new_page_db = (None, created_db)"
  "db_execute no_page_fault (draft_writes ''r2'') created_db = (None, drafted_db)"
  using sample_writes_done by (auto simp: created_db_def drafted_db_def intro: prod_eqI)

lemma create_next: "next_writes new_mem_store create_writes"
  unfolding create_writes_def
  by (rule next_create)
     (simp_all add: mem_unused_def new_mem_store_def create_step_def refer_to_def row_page_def row_revision_def
       no_references_def)

lemma created_both: "both_run (snd (mem_execute create_writes new_mem_store)) created_db"
  by (rule both_done [OF both_new create_next created_executed(1)]) simp

section \<open>Properties\<close>

text \<open>
  C11: The page store on PostgreSQL refines the in-memory store. After any transactions of the use cases, run
  with whatever failures PostgreSQL has, lost answers of commits included, both answer the reads of pages,
  revisions and references alike: the same page, the same revision by view or by identifier, the same list of
  revisions in the same order, the same tables, attachments and links of a revision, with times rounded to
  microseconds and documents read back from their JSON; references come in the order of their times.
\<close>

theorem postgres_refines_memory:
  assumes "both_run m d"
  shows "db_get_page no_page_fault d pid = map_sum id stored_page (mem_get_page m pid)
     \<and> db_get_revision no_page_fault d pid view = read_back (mem_get_revision m pid view)
     \<and> db_get_revision_by_id no_page_fault d pid rid = read_back (mem_get_revision_by_id m pid rid)
     \<and> (\<forall>revs. mem_list_revisions m pid = Inr revs \<longrightarrow>
          db_list_revisions no_page_fault d pid = revisions_of_rows (map revision_row_of revs))
     \<and> (\<forall>refs. mem_list_embedded m rid = Inr refs \<longrightarrow> db_list_embedded no_page_fault d rid
          = Inr (sort_key er_created (map (\<lambda>r. r\<lparr>er_created := stored_time (er_created r)\<rparr>) refs)))
     \<and> (\<forall>refs. mem_list_attachments m rid = Inr refs \<longrightarrow> db_list_attachments no_page_fault d rid
          = Inr (sort_key ar_created (map (\<lambda>r. r\<lparr>ar_created := stored_time (ar_created r)\<rparr>) refs)))
     \<and> (\<forall>refs. mem_list_links m rid = Inr refs \<longrightarrow> db_list_links no_page_fault d rid
          = Inr (sort_key lr_created (map (\<lambda>r. r\<lparr>lr_created := stored_time (lr_created r)\<rparr>) refs)))"
proof -
  note ok = both_run_held [OF assms]
  show ?thesis
    using ok held_get_page held_get_revision held_get_revision_by_id held_list_revisions held_list_references
    by (simp add: mem_list_revisions_def mem_list_embedded_def mem_list_attachments_def mem_list_links_def)
qed

theorem postgres_refines_memory_witness:
  "\<exists>p. mem_get_page (snd (mem_execute create_writes new_mem_store)) ''p'' = Inr p
     \<and> db_get_page no_page_fault created_db ''p'' = Inr (stored_page p) \<and> pg_updated_at (stored_page p) = 2000"
proof -
  have "mem_get_page (snd (mem_execute create_writes new_mem_store)) ''p'' = Inr (row_page ''r1'' 1)"
    by code_simp
  moreover have "pg_updated_at (stored_page (row_page ''r1'' 1)) = 2000" by code_simp
  ultimately show ?thesis using postgres_refines_memory [OF created_both, of "''p''"] by simp
qed

text \<open>The page and the number of the revision that a write stores.\<close>

fun written_number :: "store_write \<Rightarrow> (string \<times> int) option" where
  "written_number (CreatePage page revision) = Some (rv_page revision, rv_no revision)"
| "written_number (SaveDraftRevision e page revision i) = Some (rv_page revision, rv_no revision)"
| "written_number (SavePublishedRevision e page revision) = Some (rv_page revision, rv_no revision)"
| "written_number w = None"

definition numbered :: "page_db \<Rightarrow> (string \<times> int) set" where
  "numbered d = (\<lambda>r. (rw_page r, rw_no r)) ` set (pr_revisions d)"

lemma insert_revision_numbered:
  "insert_revision_row fault row d = (None, d') \<Longrightarrow>
     (rw_page row, rw_no row) \<notin> numbered d \<and> numbered d' = insert (rw_page row, rw_no row) (numbered d)"
  by (auto simp: insert_revision_row_def numbered_def list_ex_iff split: option.splits if_splits)

lemma insert_idempotency_numbered:
  assumes "insert_revision_and_idempotency fault r idem d = (None, d')"
  shows "(rv_page r, rv_no r) \<notin> numbered d \<and> numbered d' = insert (rv_page r, rv_no r) (numbered d)"
  using assms
proof (rule insert_idempotency_none)
  fix d1 x
  assume "insert_revision_row fault (revision_row_of r) d = (None, d1)" and "d' = d1\<lparr>pr_idempotencies := x\<rparr>"
  then show ?thesis using insert_revision_numbered [of fault "revision_row_of r" d d1]
    by (simp add: numbered_def revision_row_of_def)
qed

lemma update_page_numbered: "update_page fault e pid change d = (None, d') \<Longrightarrow> numbered d' = numbered d"
  by (auto simp: numbered_def dest: update_page_ok)

lemma write_numbered:
  assumes "db_write fault w d = (None, d')"
  shows "(case written_number w of
      None \<Rightarrow> numbered d' = numbered d
    | Some k \<Rightarrow> k \<notin> numbered d \<and> numbered d' = insert k (numbered d))"
proof (cases w)
  case (CreatePage page revision)
  let ?d = "d\<lparr>pr_pages := pr_pages d @ [(stored_page page)\<lparr>pg_published_id := '''', pg_published_no := 0\<rparr>]\<rparr>"
  have "insert_revision_row fault ((revision_row_of revision)\<lparr>rw_base := '''', rw_restored_from := ''''\<rparr>) ?d = (None, d')"
    using assms by (simp add: CreatePage db_create_page_def split: option.splits if_splits)
  from insert_revision_numbered [OF this] show ?thesis
    by (simp add: CreatePage revision_row_of_def numbered_def [of ?d] numbered_def [of d])
next
  case (SaveDraftRevision e page revision i)
  then show ?thesis using assms
    by (auto simp: db_save_draft_revision_def dest!: insert_idempotency_numbered update_page_numbered
        split: prod.splits option.splits)
next
  case (SavePublishedRevision e page revision)
  then show ?thesis using assms
    by (auto simp: db_save_published_revision_def dest!: insert_idempotency_numbered update_page_numbered
        split: prod.splits option.splits)
next
  case (ArchivePage e page)
  then show ?thesis using assms by (simp add: db_archive_page_def update_page_numbered)
qed (use assms in \<open>auto simp: db_replace_embedded_def db_replace_attachments_def db_replace_links_of_def
       db_outbox_add_def numbered_def split: sum.splits\<close>)

lemma writes_numbered:
  "db_writes fault ws d = (None, d') \<Longrightarrow> numbered d \<subseteq> numbered d'
     \<and> (\<forall>w \<in> set ws. \<forall>k. written_number w = Some k \<longrightarrow> k \<in> numbered d' \<and> k \<notin> numbered d)"
proof (induction ws arbitrary: d)
  case (Cons w ws)
  obtain d1 where one: "db_write fault w d = (None, d1)" and more: "db_writes fault ws d1 = (None, d')"
    using writes_cons_none [OF Cons.prems] by blast
  show ?case using write_numbered [OF one] Cons.IH [OF more] by (cases "written_number w") auto
qed simp

text \<open>
  C13: On PostgreSQL no two writers store the same revision number of a page: once a transaction has stored it,
  any other that was planned from the same page, be it a draft, a publication or a restored revision, is refused
  and changes nothing.
\<close>

theorem revision_number_once:
  assumes "db_execute fault1 ws1 d = (None, d1)" and "w1 \<in> set ws1" and "w2 \<in> set ws2"
    and "written_number w1 = Some k" and "written_number w2 = Some k"
  shows "\<exists>err. db_execute fault2 ws2 d1 = (Some err, d1)"
proof (cases "db_execute fault2 ws2 d1")
  case (Pair e d2)
  have stored: "k \<in> numbered d1" using writes_numbered [OF execute_none [OF assms(1)]] assms(2,4) by blast
  show ?thesis
  proof (cases e)
    case None
    then have "k \<notin> numbered d1" using writes_numbered [OF execute_none] Pair assms(3,5) by blast
    with stored show ?thesis by simp
  next
    case (Some err)
    have "d2 = d1"
    proof (rule ccontr)
      assume "d2 \<noteq> d1"
      then have "k \<notin> numbered d1" using writes_numbered [OF execute_changed [OF Pair]] assms(3,5) by blast
      with stored show False by simp
    qed
    with Some show ?thesis using Pair by blast
  qed
qed

text \<open>A publication and a draft that were planned from the same page.\<close>

definition publish_writes :: "store_write list" where
  "publish_writes = publish_tx 1
     ((row_page ''r1'' 1)\<lparr>pg_status := StatusPublished, pg_published_id := ''r3'', pg_published_no := 2\<rparr>)
     ((row_revision ''r3'' 2)\<lparr>rv_kind := ViewPublished\<rparr>) no_references []"

definition published_db :: page_db where
  "published_db = snd (db_execute no_page_fault publish_writes created_db)"

lemma published_executed: "db_execute no_page_fault publish_writes created_db = (None, published_db)"
proof -
  have "fst (db_execute no_page_fault publish_writes created_db) = None" by code_simp
  then show ?thesis by (simp add: published_db_def prod_eq_iff)
qed

theorem revision_number_once_witness:
  "\<exists>err. db_execute no_page_fault (draft_writes ''r2'') published_db = (Some err, published_db)"
  by (rule revision_number_once [OF published_executed,
        of "SavePublishedRevision 1 ((row_page ''r1'' 1)\<lparr>pg_status := StatusPublished, pg_published_id := ''r3'', pg_published_no := 2\<rparr>)
              ((row_revision ''r3'' 2)\<lparr>rv_kind := ViewPublished\<rparr>)"
           "SaveDraftRevision 1 (row_page ''r2'' 2) (row_revision ''r2'' 2) None" _ "(''p'', 2)"])
     (simp_all add: publish_writes_def publish_tx_def draft_writes_def draft_tx_def row_revision_def)

text \<open>It is refused by the unique number, not as a stale revision: the draft head has not moved.\<close>

theorem racing_publication_not_stale:
  "db_execute no_page_fault (draft_writes ''r2'') published_db = (Some duplicate_key, published_db)"
proof -
  have "fst (db_execute no_page_fault (draft_writes ''r2'') published_db) = Some duplicate_key" by code_simp
  then show ?thesis using execute_error [of no_page_fault "draft_writes ''r2''" published_db duplicate_key]
    by (metis no_page_fault_def prod.collapse)
qed

text \<open>
  A document with a table that has no display configuration, which the domain accepts, cannot be stored on
  PostgreSQL: the nil map is sent as NULL, the column is declared NOT NULL, and the transaction is refused.
\<close>

lemma insert_rows_full:
  "insert_rows fault stmt full key ok xs rows = Inr rows' \<Longrightarrow> x \<in> set xs \<Longrightarrow> full x"
  by (induction xs arbitrary: rows) (auto split: option.splits if_splits)

lemma writes_member:
  "db_writes fault ws d = (None, d') \<Longrightarrow> w \<in> set ws \<Longrightarrow> \<exists>d1 d2. db_write fault w d1 = (None, d2)"
  by (induction ws arbitrary: d) (auto split: prod.splits option.splits)

theorem table_without_config_refused:
  assumes "ReplaceEmbeddedTableRefs rid refs \<in> set ws" and "r \<in> set refs" and "er_display r = None"
  shows "\<exists>err. db_execute fault ws d = (Some err, d)"
proof -
  have "\<nexists>d'. db_writes fault ws d = (None, d')"
  proof
    assume "\<exists>d'. db_writes fault ws d = (None, d')"
    then obtain d1 d2 where "db_replace_embedded fault rid refs d1 = (None, d2)"
      using writes_member [OF _ assms(1)] by fastforce
    then obtain rows where "insert_rows fault InsertReference (\<lambda>r. er_display r \<noteq> None) er_id
        (\<lambda>r. revision_known d1 (er_revision r) \<and> page_known d1 (er_page r))
        (map (\<lambda>r. r\<lparr>er_created := stored_time (er_created r)\<rparr>) refs)
        (filter (\<lambda>r. er_revision r \<noteq> rid) (pr_embedded d1)) = Inr rows"
      unfolding db_replace_embedded_def replace_rows_def by (auto split: sum.splits option.splits)
    from insert_rows_full [OF this, of "r\<lparr>er_created := stored_time (er_created r)\<rparr>"]
    have "er_display (r\<lparr>er_created := stored_time (er_created r)\<rparr>) \<noteq> None" using assms(2) by simp
    then show False using assms(3) by simp
  qed
  then show ?thesis by (auto simp: db_execute_def split: prod.splits option.splits)
qed

theorem table_without_config_refused_witness:
  "\<exists>err. db_execute no_page_fault (draft_tx 1 (row_page ''r2'' 2) (row_revision ''r2'' 2) None
     (no_references\<lparr>rf_tables := [\<lparr>er_id = ''t1'', er_revision = ''r2'', er_page = ''p'', er_block = ''b1'',
        er_table = ''tbl'', er_display = None, er_created = 2500\<rparr>]\<rparr>) []) created_db = (Some err, created_db)"
  by (rule table_without_config_refused [of "''r2''"
        "[\<lparr>er_id = ''t1'', er_revision = ''r2'', er_page = ''p'', er_block = ''b1'', er_table = ''tbl'',
           er_display = None, er_created = 2500\<rparr>]" _
        "\<lparr>er_id = ''t1'', er_revision = ''r2'', er_page = ''p'', er_block = ''b1'', er_table = ''tbl'',
           er_display = None, er_created = 2500\<rparr>"])
     (simp_all add: draft_tx_def projection_writes_def row_revision_def)

text \<open>
  A page event that the relay could not deliver is not delivered later on PostgreSQL either: once it is
  marked failed no claim returns it, at whatever time and of whatever size, although the row says when it is
  to be tried again.
\<close>

theorem failed_row_never_claimed:
  assumes "db_mark_failed fault i err t d = (None, d')"
    and "db_claim_pending fault' now n d' = Inr messages"
  shows "i \<notin> om_id ` set messages"
proof
  assume "i \<in> om_id ` set messages"
  then obtain row where row: "row \<in> set (pr_outbox d')" "ob_status (ox_record row) = OutboxPending"
      "ob_id (ox_record row) = i"
    using assms(2)
    by (auto simp: db_claim_pending_def message_of_row_def dest!: in_set_takeD split: option.splits if_splits)
  define failed where "failed = (\<lambda>row :: outbox_row. \<lparr>ox_record =
      (ox_record row)\<lparr>ob_status := OutboxFailed, ob_available_at := stored_time t\<rparr>, ox_last_error = err\<rparr>)"
  have "pr_outbox d' = update_where (\<lambda>row. ob_id (ox_record row) = i) failed (pr_outbox d)"
    using assms(1) by (auto simp: db_mark_failed_def failed_def split: option.splits)
  with row(1) have "row \<in> (\<lambda>old. if ob_id (ox_record old) = i then failed old else old) ` set (pr_outbox d)"
    by (simp add: update_where_def)
  then obtain old where "row = (if ob_id (ox_record old) = i then failed old else old)" by (rule imageE)
  then have "ob_id (ox_record old) = i \<and> row = failed old" using row(3) by (metis)
  then show False using row(2) by (simp add: failed_def)
qed

lemma failed_row_sample:
  "map om_id (case db_claim_pending no_page_fault 9000 10 created_db of Inr ms \<Rightarrow> ms) = [''e1'']"
  "(case db_claim_pending no_page_fault 9000 10 (snd (db_mark_failed no_page_fault ''e1'' ''down'' 5000 created_db)) of
      Inr ms \<Rightarrow> True | Inl _ \<Rightarrow> False)"
  by code_simp+

theorem failed_row_never_claimed_witness:
  "\<exists>ms. db_claim_pending no_page_fault 9000 10 (snd (db_mark_failed no_page_fault ''e1'' ''down'' 5000 created_db)) = Inr ms
     \<and> ''e1'' \<notin> om_id ` set ms"
proof -
  obtain ms where ms: "db_claim_pending no_page_fault 9000 10
      (snd (db_mark_failed no_page_fault ''e1'' ''down'' 5000 created_db)) = Inr ms"
    using failed_row_sample(2) by (auto split: sum.splits)
  have "db_mark_failed no_page_fault ''e1'' ''down'' 5000 created_db
      = (None, snd (db_mark_failed no_page_fault ''e1'' ''down'' 5000 created_db))"
    by (simp add: db_mark_failed_def no_page_fault_def)
  from failed_row_never_claimed [OF this ms] ms show ?thesis by blast
qed

end
