(* ===== verification/PagePostgresService.thy ===== *)
theory PagePostgresService
  imports PagePostgresContract PagePostgresProperties PageBehaviour
begin

text \<open>
  The page service on PostgreSQL: requests one after the other, each with faults of its own, between steps of
  the outbox relay. What \<open>page_store\<close> gives of every store, here of the rows; that revision rows are only ever
  added; and that a request whose commit was made leaves the same rows whether or not it was told so.
\<close>

section \<open>Served on the rows\<close>

definition on_rows :: "(page_db, 'r) deps \<Rightarrow> page_fault \<Rightarrow> (page_db, 'r) deps" where
  "on_rows dp fault = dp\<lparr>dp_store := postgres_page_ops fault\<rparr>"

lemma on_rows_simps [simp]:
  "dp_store (on_rows dp fault) = postgres_page_ops fault" "dp_gen (on_rows dp fault) = dp_gen dp"
  by (simp_all add: on_rows_def)

lemma on_rows_action: "require_action (on_rows dp fault) = require_action dp"
  by (intro ext) (simp add: require_action_def on_rows_def)

text \<open>
  \<open>F\<close> restricts the faults of a request. Between requests the replay window may change, and the relay marks
  events.
\<close>

inductive served_on_rows ::
  "(page_fault \<Rightarrow> page_fault) \<Rightarrow> (page_db, 'r) deps \<Rightarrow> (page_db, 'r) service \<Rightarrow> (page_db, 'r) service \<Rightarrow> bool"
  for F :: "page_fault \<Rightarrow> page_fault" and dp :: "(page_db, 'r) deps" and sv0 :: "(page_db, 'r) service" where
  rows_start: "served_on_rows F dp sv0 sv0"
| rows_serve: "served_on_rows F dp sv0 sv \<Longrightarrow> int (sv_next sv) < max_int64 \<Longrightarrow>
    served_on_rows F dp sv0 (snd (run_request (on_rows dp (F fault)) now q sv))"
| rows_window: "served_on_rows F dp sv0 sv \<Longrightarrow> served_on_rows F dp sv0 (sv\<lparr>sv_replay := r\<rparr>)"
| rows_published: "served_on_rows F dp sv0 sv \<Longrightarrow>
    served_on_rows F dp sv0 (sv\<lparr>sv_store := snd (db_mark_published fault i t (sv_store sv))\<rparr>)"
| rows_failed: "served_on_rows F dp sv0 sv \<Longrightarrow>
    served_on_rows F dp sv0 (sv\<lparr>sv_store := snd (db_mark_failed fault i err t (sv_store sv))\<rparr>)"

inductive_cases served_on_rows_cases: "served_on_rows F dp sv0 sv"

lemma served_on_rows_trans:
  "served_on_rows F dp sv1 sv2 \<Longrightarrow> served_on_rows F dp sv0 sv1 \<Longrightarrow> served_on_rows F dp sv0 sv2"
  by (induction rule: served_on_rows.induct) (auto intro: served_on_rows.intros)

section \<open>Revision and idempotency rows are only added\<close>

definition rows_grow :: "page_db \<Rightarrow> page_db \<Rightarrow> bool" where
  "rows_grow d d' \<longleftrightarrow> (\<exists>xs. pr_revisions d' = pr_revisions d @ xs)
     \<and> (\<exists>xs. pr_idempotencies d' = pr_idempotencies d @ xs)"

lemma rows_grow_refl [simp]: "rows_grow d d"
  by (simp add: rows_grow_def)

lemma rows_grow_same:
  "pr_revisions d' = pr_revisions d \<Longrightarrow> pr_idempotencies d' = pr_idempotencies d \<Longrightarrow> rows_grow d d'"
  by (simp add: rows_grow_def)

lemma rows_grow_trans: "rows_grow d e \<Longrightarrow> rows_grow e f \<Longrightarrow> rows_grow d f"
  by (auto simp: rows_grow_def)

lemma insert_revision_grows: "rows_grow d (snd (insert_revision_row fault row d))"
  by (auto simp: insert_revision_row_def rows_grow_def split: option.splits)

lemma update_page_revisions [simp]:
  "pr_revisions (snd (update_page fault expected pid change d)) = pr_revisions d"
  "pr_idempotencies (snd (update_page fault expected pid change d)) = pr_idempotencies d"
  by (simp_all add: update_page_def split: option.splits)

lemma insert_idempotency_grows: "rows_grow d (snd (insert_revision_and_idempotency fault r idem d))"
  using insert_revision_grows [of d fault "revision_row_of r"]
  by (auto simp: insert_revision_and_idempotency_def rows_grow_def split: prod.splits option.splits)

lemma after_update_grows:
  "rows_grow d (snd (case update_page fault expected pid change d of
      (Some err, d) \<Rightarrow> (Some err, d) | (None, d) \<Rightarrow> insert_revision_and_idempotency fault r idem d))"
proof (cases "update_page fault expected pid change d")
  case (Pair e d1)
  then have "rows_grow d d1"
    using update_page_revisions [of fault expected pid change d] by (intro rows_grow_same) simp_all
  then show ?thesis using Pair rows_grow_trans insert_idempotency_grows by (cases e) auto
qed

lemma write_grows: "rows_grow d (snd (db_write fault w d))"
proof (cases w)
  case (CreatePage page revision)
  let ?d = "d\<lparr>pr_pages := pr_pages d @ [(stored_page page)\<lparr>pg_published_id := '''', pg_published_no := 0\<rparr>]\<rparr>"
  let ?row = "(revision_row_of revision)\<lparr>rw_base := '''', rw_restored_from := ''''\<rparr>"
  have "rows_grow d ?d" by (simp add: rows_grow_same)
  then have "rows_grow d (snd (insert_revision_row fault ?row ?d))"
    using insert_revision_grows by (rule rows_grow_trans)
  then show ?thesis by (simp add: CreatePage db_create_page_def split: option.splits)
next
  case (SaveDraftRevision e page revision i)
  then show ?thesis by (simp add: db_save_draft_revision_def after_update_grows)
next
  case (SavePublishedRevision e page revision)
  then show ?thesis by (simp add: db_save_published_revision_def after_update_grows)
next
  case (ArchivePage e page)
  then show ?thesis by (simp add: db_archive_page_def rows_grow_same)
qed (auto simp: db_replace_embedded_def db_replace_attachments_def db_replace_links_of_def db_outbox_add_def
       rows_grow_same split: sum.splits)

lemma writes_grow: "rows_grow d (snd (db_writes fault ws d))"
proof (induction ws arbitrary: d)
  case (Cons w ws)
  then show ?case using write_grows [of d fault w] rows_grow_trans
    by (cases "db_write fault w d"; cases "fst (db_write fault w d)") auto
qed simp

lemma execute_grows: "rows_grow d (snd (db_execute fault ws d))"
  using writes_grow [of d fault ws]
  by (cases "db_writes fault ws d"; cases "fst (db_writes fault ws d)") (auto simp: db_execute_def split: option.splits)

text \<open>A read of a revision, and of an idempotency row, answers what it answered before.\<close>

lemma grown_idempotency:
  assumes "rows_grow d d'" and "db_get_idempotency no_page_fault d pid key = Inr (Some i)"
  shows "db_get_idempotency no_page_fault d' pid key = Inr (Some i)"
  using assms by (auto simp: rows_grow_def db_get_idempotency_def no_page_fault_def find_append split: option.splits)

lemma grown_read:
  assumes "rows_grow d d'" and "db_get_revision_by_id no_page_fault d pid rid = Inr r"
  shows "db_get_revision_by_id no_page_fault d' pid rid = Inr r"
  using assms
  by (auto simp: rows_grow_def db_get_revision_by_id_def read_revision_def no_page_fault_def find_append
      split: option.splits)

lemma hydrate_same_rows:
  assumes "dp_store dp = postgres_page_ops fault"
  shows "sv_store (snd (hydrate_in_place dp rq p r sv)) = sv_store sv"
  using hydrate_in_place_service [OF prod.collapse [symmetric], of dp rq p r sv] assms by auto

lemma request_grows:
  assumes dp: "dp_store dp = postgres_page_ops fault"
  shows "rows_grow (sv_store sv) (sv_store (snd (run_request dp now q sv)))"
proof -
  note same = hydrate_same_rows [OF dp]
  have after: "sv_store sv1 = sv_store sv" if "hydrate_in_place dp rq p r sv = (res, sv1)"
    for rq :: "'z request_scheme" and p r res sv1
    using same [of rq p r sv] that by simp
  show ?thesis
  proof (cases q)
    case (CreateRequest i)
    then show ?thesis using create_prepare_quiet [of sv dp now i]
      by (cases "create_prepare dp now i sv"; cases "fst (create_prepare dp now i sv)")
         (auto simp: create_page_def create_commit_store quiet_def dp execute_grows)
  next
    case (AutosaveRequest i)
    then show ?thesis using autosave_prepare_quiet [of sv dp now i]
      by (cases "autosave_prepare dp now i sv"; cases "fst (autosave_prepare dp now i sv)")
         (auto simp: autosave_draft_def autosave_commit_store quiet_def dp execute_grows)
  next
    case (CommitRequest i)
    then show ?thesis using commit_prepare_quiet [of sv dp now i]
      by (cases "commit_prepare dp now i sv"; cases "fst (commit_prepare dp now i sv)")
         (auto simp: commit_collaborative_revision_def commit_commit_store quiet_def dp execute_grows)
  next
    case (RestoreRequest i)
    then show ?thesis using restore_prepare_quiet [of sv dp now i]
      by (cases "restore_prepare dp now i sv"; cases "fst (restore_prepare dp now i sv)")
         (auto simp: restore_revision_def restore_commit_store quiet_def dp execute_grows)
  next
    case (PublishRequest i)
    then show ?thesis using publish_prepare_quiet [of sv dp now i]
      by (cases "publish_prepare dp now i sv"; cases "fst (publish_prepare dp now i sv)")
         (auto simp: publish_page_def publish_commit_store quiet_def dp execute_grows)
  next
    case (ArchiveRequest i)
    then show ?thesis using archive_prepare_quiet [of sv dp now i]
      by (cases "archive_prepare dp now i sv"; cases "fst (archive_prepare dp now i sv)")
         (auto simp: archive_page_def archive_commit_store quiet_def dp execute_grows)
  next
    case (GetRequest i)
    then show ?thesis by (auto simp: get_page_def same after split: option.splits sum.splits prod.splits)
  next
    case (HeadRequest i p)
    then show ?thesis by (auto simp: get_revision_head_def same after split: option.splits sum.splits prod.splits)
  next
    case (RecoverRequest i p)
    then show ?thesis by (auto simp: recover_draft_def same after split: option.splits sum.splits prod.splits)
  next
    case (ResumeRequest i)
    then show ?thesis
      by (auto simp: resume_editor_sync_def same after Let_def split: option.splits sum.splits prod.splits)
  qed
qed

lemma relay_revisions [simp]:
  "pr_revisions (snd (db_mark_published fault i t d)) = pr_revisions d"
  "pr_revisions (snd (db_mark_failed fault i err t d)) = pr_revisions d"
  "pr_idempotencies (snd (db_mark_published fault i t d)) = pr_idempotencies d"
  "pr_idempotencies (snd (db_mark_failed fault i err t d)) = pr_idempotencies d"
  by (simp_all add: db_mark_published_def db_mark_failed_def split: option.splits)

lemma served_grows: "served_on_rows F dp sv0 sv \<Longrightarrow> rows_grow (sv_store sv0) (sv_store sv)"
proof (induction rule: served_on_rows.induct)
  case (rows_serve sv fault now q)
  then show ?case using rows_grow_trans request_grows on_rows_simps(1) by blast
next
  case (rows_published sv fault i t)
  then show ?case by (auto simp: rows_grow_def)
next
  case (rows_failed sv fault i err t)
  then show ?case by (auto simp: rows_grow_def)
qed simp_all

section \<open>What a request may do to the rows\<close>

abbreviation db_service_ok :: "id_gen \<Rightarrow> (page_db, 'r) service \<Rightarrow> bool" where
  "db_service_ok \<equiv> service_ok pg_reads db_inv db_unused"

lemma effect_reads [simp]:
  "service_ok (postgres_page_ops (answered f)) = service_ok (postgres_page_ops f)"
  "request_effect (postgres_page_ops (answered f)) = request_effect (postgres_page_ops f)"
  "service_ok (postgres_page_ops (writing_faults f)) = service_ok pg_reads"
  "request_effect (postgres_page_ops (writing_faults f)) = request_effect pg_reads"
  by (intro ext, simp add: service_ok_def request_effect_def pages_evolve_def)+

section \<open>Requests whose commit lost its answer\<close>

text \<open>Until it writes a request does the same; then it leaves the same rows.\<close>

lemmas case_congs = option.case_cong sum.case_cong prod.case_cong if_cong

lemma answered_prepare:
  "create_prepare (on_rows dp (answered f)) = create_prepare (on_rows dp f)"
  "autosave_prepare (on_rows dp (answered f)) = autosave_prepare (on_rows dp f)"
  "commit_prepare (on_rows dp (answered f)) = commit_prepare (on_rows dp f)"
  "restore_prepare (on_rows dp (answered f)) = restore_prepare (on_rows dp f)"
  "publish_prepare (on_rows dp (answered f)) = publish_prepare (on_rows dp f)"
  "archive_prepare (on_rows dp (answered f)) = archive_prepare (on_rows dp f)"
proof -
  have action: "require_action (on_rows dp (answered f)) = require_action (on_rows dp f)"
    by (simp add: on_rows_action)
  have embed: "authorize_embed_usage (on_rows dp (answered f)) = authorize_embed_usage (on_rows dp f)"
    by (intro ext) (simp add: authorize_embed_usage_def action cong: case_congs)
  have copy: "hydrated_copy (on_rows dp (answered f)) rq = hydrated_copy (on_rows dp f) rq" for rq :: "'z request_scheme"
    by (intro ext) (simp add: hydrated_copy_def on_rows_def cong: case_congs)
  have conflict: "build_conflict_payload (on_rows dp (answered f)) = build_conflict_payload (on_rows dp f)"
    by (intro ext) (simp add: build_conflict_payload_def cong: case_congs)
  have before: "saved_before (on_rows dp (answered f)) = saved_before (on_rows dp f)"
    by (intro ext) (simp add: saved_before_def cong: case_congs)
  have field: "dp_embed (on_rows dp f') = dp_embed dp" "dp_hash (on_rows dp f') = dp_hash dp"
    "dp_configured (on_rows dp f') = dp_configured dp" for f'
    by (simp_all add: on_rows_def)
  note same = action embed copy conflict before field
  have guard: "autosave_guard (on_rows dp (answered f)) = autosave_guard (on_rows dp f)"
    by (intro ext) (simp add: autosave_guard_def Let_def same cong: case_congs)
  have base: "autosave_base (on_rows dp (answered f)) = autosave_base (on_rows dp f)"
    by (intro ext) (simp add: autosave_base_def Let_def same cong: case_congs)
  have plan: "autosave_plan (on_rows dp (answered f)) = autosave_plan (on_rows dp f)"
    by (intro ext) (simp add: autosave_plan_def Let_def same cong: case_congs)
  show "autosave_prepare (on_rows dp (answered f)) = autosave_prepare (on_rows dp f)"
    by (intro ext) (simp add: autosave_prepare_def guard base plan cong: case_congs)
  have cguard: "commit_guard (on_rows dp (answered f)) = commit_guard (on_rows dp f)"
    by (intro ext) (simp add: commit_guard_def Let_def same cong: case_congs)
  have cbase: "commit_base (on_rows dp (answered f)) = commit_base (on_rows dp f)"
    by (intro ext) (simp add: commit_base_def Let_def same cong: case_congs)
  have cplan: "commit_plan (on_rows dp (answered f)) = commit_plan (on_rows dp f)"
    by (intro ext) (simp add: commit_plan_def Let_def same cong: case_congs)
  show "commit_prepare (on_rows dp (answered f)) = commit_prepare (on_rows dp f)"
    by (intro ext) (simp add: commit_prepare_def cguard cbase cplan cong: case_congs)
  have "create_guard (on_rows dp (answered f)) = create_guard (on_rows dp f)"
    by (intro ext) (simp add: create_guard_def Let_def same cong: case_congs)
  then show "create_prepare (on_rows dp (answered f)) = create_prepare (on_rows dp f)"
    by (intro ext) (simp add: create_prepare_def Let_def same cong: case_congs)
  have "restore_base (on_rows dp (answered f)) = restore_base (on_rows dp f)"
    by (intro ext) (simp add: restore_base_def Let_def same cong: case_congs)
  then show "restore_prepare (on_rows dp (answered f)) = restore_prepare (on_rows dp f)"
    by (intro ext) (simp add: restore_prepare_def Let_def same cong: case_congs)
  have "publish_base (on_rows dp (answered f)) = publish_base (on_rows dp f)"
    by (intro ext) (simp add: publish_base_def Let_def same cong: case_congs)
  then show "publish_prepare (on_rows dp (answered f)) = publish_prepare (on_rows dp f)"
    by (intro ext) (simp add: publish_prepare_def Let_def same cong: case_congs)
  show "archive_prepare (on_rows dp (answered f)) = archive_prepare (on_rows dp f)"
    by (intro ext) (simp add: archive_prepare_def Let_def same cong: case_congs)
qed

lemma answered_queries:
  "get_page (on_rows dp (answered f)) = get_page (on_rows dp f)"
  "get_revision_head (on_rows dp (answered f)) rq = get_revision_head (on_rows dp f) rq"
  "recover_draft (on_rows dp (answered f)) rq = recover_draft (on_rows dp f) rq"
  "resume_editor_sync (on_rows dp (answered f)) = resume_editor_sync (on_rows dp f)"
proof -
  have field: "dp_embed (on_rows dp f') = dp_embed dp" "dp_files (on_rows dp f') = dp_files dp"
    "dp_replay (on_rows dp f') = dp_replay dp" "dp_encode_token (on_rows dp f') = dp_encode_token dp"
    "dp_decode_token (on_rows dp f') = dp_decode_token dp" for f'
    by (simp_all add: on_rows_def)
  have action: "require_action (on_rows dp (answered f)) = require_action (on_rows dp f)"
    by (simp add: on_rows_action)
  have hydrate: "hydrate_in_place (on_rows dp (answered f)) q = hydrate_in_place (on_rows dp f) q"
    for q :: "'y request_scheme"
    by (intro ext) (simp add: hydrate_in_place_def field)
  have guards: "query_guard (on_rows dp (answered f)) q = query_guard (on_rows dp f) q" for q :: "'y request_scheme"
    by (intro ext) (simp add: query_guard_def action)
  note same = field guards hydrate
  show "get_page (on_rows dp (answered f)) = get_page (on_rows dp f)"
    by (intro ext) (simp add: get_page_def same cong: case_congs)
  show "get_revision_head (on_rows dp (answered f)) rq = get_revision_head (on_rows dp f) rq"
    by (intro ext) (simp add: get_revision_head_def same cong: case_congs)
  show "recover_draft (on_rows dp (answered f)) rq = recover_draft (on_rows dp f) rq"
    by (intro ext) (simp add: recover_draft_def same cong: case_congs)
  have known: "patch_known (on_rows dp (answered f)) = patch_known (on_rows dp f)"
    by (intro ext) (simp add: patch_known_def)
  have entries: "list_replay_entries (on_rows dp (answered f)) = list_replay_entries (on_rows dp f)"
    by (intro ext) (simp add: list_replay_entries_def field)
  have token: "build_resume_token (on_rows dp (answered f)) = build_resume_token (on_rows dp f)"
    by (intro ext) (simp add: build_resume_token_def field)
  have resume: "can_resume_without_reload (on_rows dp (answered f)) = can_resume_without_reload (on_rows dp f)"
    by (intro ext) (simp add: can_resume_without_reload_def parse_resume_token_def field)
  have "resume_editor_sync (on_rows dp (answered f)) input sv = resume_editor_sync (on_rows dp f) input sv" for input sv
    by (simp add: resume_editor_sync_def Let_def same known entries token resume cong: case_congs)
  then show "resume_editor_sync (on_rows dp (answered f)) = resume_editor_sync (on_rows dp f)" by (intro ext)
qed

lemma answered_request:
  "sv_store (snd (run_request (on_rows dp (answered f)) now q sv)) = sv_store (snd (run_request (on_rows dp f) now q sv))"
  "sv_next (snd (run_request (on_rows dp (answered f)) now q sv)) = sv_next (snd (run_request (on_rows dp f) now q sv))"
proof -
  note same = answered_prepare answered_queries answered_execute_rows
  note defs = create_page_def autosave_draft_def commit_collaborative_revision_def restore_revision_def
    publish_page_def archive_page_def
  note stores = create_commit_store autosave_commit_store commit_commit_store restore_commit_store
    publish_commit_store archive_commit_store
  show "sv_store (snd (run_request (on_rows dp (answered f)) now q sv)) = sv_store (snd (run_request (on_rows dp f) now q sv))"
    by (cases q) (simp_all add: defs stores same split: prod.splits sum.splits)
  show "sv_next (snd (run_request (on_rows dp (answered f)) now q sv)) = sv_next (snd (run_request (on_rows dp f) now q sv))"
    by (cases q) (simp_all add: defs stores same split: prod.splits sum.splits)
qed

lemma answered_effect:
  "request_effect ops good unused gen sv (snd (run_request (on_rows dp (answered f)) now q sv))
     = request_effect ops good unused gen sv (snd (run_request (on_rows dp f) now q sv))"
  by (simp add: request_effect_def service_ok_def answered_request)

text \<open>The relay changes nothing but the status of events.\<close>

lemma outbox_inv:
  assumes "db_inv d" and "map event_content ob = map event_content (pr_outbox d)"
  shows "db_inv (d\<lparr>pr_outbox := ob\<rparr>)"
proof -
  have known: "page_known (d\<lparr>pr_outbox := ob\<rparr>) i = page_known d i" "revision_known (d\<lparr>pr_outbox := ob\<rparr>) i = revision_known d i"
    for i by (simp_all add: page_known_def revision_known_def)
  have "map ob_id (map event_content ob) = map ob_id (map event_content (pr_outbox d))" using assms(2) by simp
  then have "map (\<lambda>row. ob_id (ox_record row)) ob = map (\<lambda>row. ob_id (ox_record row)) (pr_outbox d)"
    by (simp add: event_content_def comp_def)
  then have "constrained (d\<lparr>pr_outbox := ob\<rparr>)"
    using assms(1) by (simp add: db_inv_def constrained_def constraint_defs known)
  then show ?thesis using assms by (auto simp: db_inv_def idempotencies_stored_def held_def)
qed

lemma relay_marks:
  "\<exists>ob. snd (db_mark_published fault i t d) = d\<lparr>pr_outbox := ob\<rparr> \<and> map event_content ob = map event_content (pr_outbox d)"
  "\<exists>ob. snd (db_mark_failed fault i err t d) = d\<lparr>pr_outbox := ob\<rparr> \<and> map event_content ob = map event_content (pr_outbox d)"
proof -
  have same: "\<exists>ob. d = d\<lparr>pr_outbox := ob\<rparr> \<and> map event_content ob = map event_content (pr_outbox d)"
    by (rule exI [of _ "pr_outbox d"]) simp
  show "\<exists>ob. snd (db_mark_published fault i t d) = d\<lparr>pr_outbox := ob\<rparr> \<and> map event_content ob = map event_content (pr_outbox d)"
    using same by (auto simp: db_mark_published_def update_where_map event_content_def split: option.splits)
  show "\<exists>ob. snd (db_mark_failed fault i err t d) = d\<lparr>pr_outbox := ob\<rparr> \<and> map event_content ob = map event_content (pr_outbox d)"
    using same by (auto simp: db_mark_failed_def update_where_map event_content_def split: option.splits)
qed

lemma relay_effect:
  assumes "request_effect pg_reads db_inv db_unused gen sv0 sv"
    and "d = (sv_store sv)\<lparr>pr_outbox := ob\<rparr>" and "map event_content ob = map event_content (pr_outbox (sv_store sv))"
  shows "request_effect pg_reads db_inv db_unused gen sv0 (sv\<lparr>sv_store := d\<rparr>)"
proof -
  have reads: "db_get_page no_page_fault d = db_get_page no_page_fault (sv_store sv)"
      "db_get_revision_by_id no_page_fault d = db_get_revision_by_id no_page_fault (sv_store sv)"
    by (intro ext, simp add: assms(2) db_get_page_def db_get_revision_by_id_def read_revision_def
          split: option.splits)+
  have "db_unused d = db_unused (sv_store sv)"
    by (intro ext) (simp add: assms(2) db_unused_def page_known_def revision_known_def)
  moreover have "db_inv (sv_store sv)" using assms(1) by (simp add: request_effect_def service_ok_def)
  then have "db_inv d" using outbox_inv assms(2,3) by blast
  ultimately show ?thesis
    using assms(1) by (simp add: request_effect_def service_ok_def pages_evolve_def keeps_history_def reads)
qed

lemma served_effect:
  assumes "served_on_rows writing_faults dp sv0 sv" and "db_service_ok (dp_gen dp) sv0" and "gen_ok (dp_gen dp)"
  shows "request_effect pg_reads db_inv db_unused (dp_gen dp) sv0 sv"
  using assms(1)
proof (induction rule: served_on_rows.induct)
  case rows_start
  then show ?case using pg.effect_refl [where gen = "dp_gen dp" and sv = sv0] assms(2) by simp
next
  case (rows_serve sv fault now q)
  have "db_service_ok (dp_gen dp) sv" using rows_serve.IH by (simp add: request_effect_def)
  then have "request_effect pg_reads db_inv db_unused (dp_gen dp) sv
      (snd (run_request (on_rows dp (answered (writing_faults fault))) now q sv))"
    using pg.run_request_effect [of fault "on_rows dp (answered (writing_faults fault))" sv now q] rows_serve.hyps(2)
      assms(3)
    by simp
  then have "request_effect pg_reads db_inv db_unused (dp_gen dp) sv
      (snd (run_request (on_rows dp (writing_faults fault)) now q sv))"
    by (simp only: answered_effect)
  with rows_serve.IH show ?case by (rule request_effect_trans)
next
  case (rows_window sv r)
  then show ?case by (auto simp: request_effect_def service_ok_def)
next
  case (rows_published sv fault i t)
  then show ?case using relay_marks(1) relay_effect by metis
next
  case (rows_failed sv fault i err t)
  then show ?case using relay_marks(2) relay_effect by metis
qed

section \<open>Samples\<close>

definition rows_deps :: "(page_db, mem_replay) deps" where
  "rows_deps =
     \<lparr>dp_store = pg_reads, dp_replay = Some memory_replay_ops, dp_embed = None, dp_files = None,
      dp_checker = None, dp_gen = run_gen, dp_configured = True, dp_hash = (\<lambda>_. ''hash''),
      dp_encode_token = (\<lambda>t. rt_page t), dp_decode_token = (\<lambda>_. None)\<rparr>"

definition new_rows :: "'r \<Rightarrow> (page_db, 'r) service" where
  "new_rows r = \<lparr>sv_store = new_page_db, sv_replay = r, sv_next = 0, sv_saves = [],
     sv_conflicts = 0, sv_publications = 0\<rparr>"

lemma new_rows_ok: "db_service_ok gen (new_rows r)"
  by (simp add: service_ok_def new_rows_def db_inv_new)
     (simp add: db_unused_def page_known_def revision_known_def new_page_db_def db_get_page_def no_page_fault_def)

text \<open>The commit of the second save fails, that of the third does not.\<close>

definition commit_fault :: page_fault where
  "commit_fault = (\<lambda>stmt _. if stmt = CommitPages then Some ''connection reset'' else None)"

text \<open>The commit is made, its answer is lost.\<close>

definition lost_fault :: page_fault where
  "lost_fault = (\<lambda>stmt _. if stmt = CommitAnswer then Some ''connection reset'' else None)"

definition rows_page :: "(page_db, mem_replay) service" where
  "rows_page = snd (create_page (on_rows rows_deps (writing_faults no_page_fault)) 10 sample_create (new_rows (new_mem_replay 4 0)))"

definition rows_refused :: "page_error option \<times> (page_db, mem_replay) service" where
  "rows_refused = run_request (on_rows rows_deps (writing_faults commit_fault)) 20
     (AutosaveRequest (sample_autosave ''k'' 1 ''two'')) rows_page"

definition rows_draft :: "(page_db, mem_replay) service" where
  "rows_draft = snd (run_request (on_rows rows_deps (writing_faults no_page_fault)) 30
     (AutosaveRequest (sample_autosave ''k'' 1 ''two'')) (snd rows_refused))"

definition rows_lost :: "(page_error + draft_save_payload) \<times> (page_db, mem_replay) service" where
  "rows_lost = autosave_draft (on_rows rows_deps (writing_faults lost_fault)) 20
     (sample_autosave ''k'' 1 ''two'') rows_page"

lemma rows_samples:
  "sv_next rows_page = 6" "fst rows_refused \<noteq> None" "sv_next (snd rows_refused) = 10"
  "length (pr_revisions (sv_store rows_draft)) = 2"
  by code_simp+

lemma rows_page_served: "served_on_rows writing_faults rows_deps (new_rows (new_mem_replay 4 0)) rows_page"
proof -
  have "served_on_rows writing_faults rows_deps (new_rows (new_mem_replay 4 0))
      (snd (run_request (on_rows rows_deps (writing_faults no_page_fault)) 10 (CreateRequest sample_create)
        (new_rows (new_mem_replay 4 0))))"
    by (rule rows_serve [OF rows_start]) (simp add: new_rows_def max_int64_def)
  then show ?thesis by (simp add: rows_page_def)
qed

lemma rows_draft_served: "served_on_rows writing_faults rows_deps rows_page rows_draft"
proof -
  have "served_on_rows writing_faults rows_deps rows_page (snd rows_refused)"
    unfolding rows_refused_def by (rule rows_serve [OF rows_start]) (simp add: rows_samples max_int64_def)
  then show ?thesis
    unfolding rows_draft_def by (rule rows_serve) (simp add: rows_samples max_int64_def)
qed

lemma rows_page_ok: "db_service_ok run_gen rows_page"
proof -
  have gen: "dp_gen rows_deps = run_gen" by (simp add: rows_deps_def)
  show ?thesis
    using served_effect [OF rows_page_served] new_rows_ok [of run_gen "new_mem_replay 4 0"] gen_ok_run_gen gen
    by (simp add: request_effect_def)
qed

section \<open>Properties\<close>

text \<open>
  C8: On PostgreSQL the history is append-only. A revision that was read once is read again, with the same
  document, number and author, after any sequence of requests and steps of the relay, whatever statements of
  them fail, reads and commits included.
\<close>

theorem postgres_revisions_immutable:
  assumes "served_on_rows F dp sv sv'" and "db_get_revision_by_id no_page_fault (sv_store sv) pid rid = Inr r"
  shows "db_get_revision_by_id no_page_fault (sv_store sv') pid rid = Inr r"
  by (rule grown_read [OF served_grows [OF assms(1)] assms(2)])

lemma rows_page_revision:
  "\<exists>r. db_get_revision_by_id no_page_fault (sv_store rows_page) sample_page ''ii'' = Inr r \<and> rv_no r = 1"
proof -
  have "(case db_get_revision_by_id no_page_fault (sv_store rows_page) sample_page ''ii'' of
      Inl _ \<Rightarrow> False | Inr r \<Rightarrow> rv_no r = 1)"
    by code_simp
  then show ?thesis by (auto split: sum.splits)
qed

theorem postgres_revisions_immutable_witness:
  "\<exists>r. db_get_revision_by_id no_page_fault (sv_store rows_draft) sample_page ''ii'' = Inr r \<and> rv_no r = 1"
  using rows_page_revision postgres_revisions_immutable [OF rows_draft_served] by blast

text \<open>
  C7: In every state that requests reach on PostgreSQL while it can be read, whatever else of them fails, the
  constraints of the tables hold, every page has its draft head among its revisions, and each page that was there
  has kept its identity, its numbers have not gone back, and it has not changed if it was archived.
\<close>

theorem postgres_pages_evolve:
  assumes "served_on_rows writing_faults dp sv sv'" and "db_service_ok (dp_gen dp) sv" and "gen_ok (dp_gen dp)"
    and "db_get_page no_page_fault (sv_store sv) pid = Inr p"
  shows "constrained (sv_store sv') \<and> (\<exists>p' h. db_get_page no_page_fault (sv_store sv') pid = Inr p'
     \<and> db_get_revision no_page_fault (sv_store sv') pid ViewDraft = Inr h
     \<and> rv_id h = pg_draft_id p' \<and> rv_no h = pg_draft_no p' \<and> rv_kind h = ViewDraft
     \<and> same_identity p p' \<and> pg_draft_no p \<le> pg_draft_no p' \<and> pg_published_no p \<le> pg_published_no p'
     \<and> (pg_published_id p \<noteq> '''' \<longrightarrow> pg_published_id p' \<noteq> '''') \<and> (pg_status p = StatusArchived \<longrightarrow> p' = p))"
proof -
  have effect: "request_effect pg_reads db_inv db_unused (dp_gen dp) sv sv'" by (rule served_effect [OF assms(1-3)])
  then have inv: "db_inv (sv_store sv')" by (simp add: request_effect_def service_ok_def)
  obtain p' where p': "db_get_page no_page_fault (sv_store sv') pid = Inr p'" "page_evolution p p'"
    using effect assms(4) by (auto simp: request_effect_def pages_evolve_def)
  obtain h where "db_get_revision no_page_fault (sv_store sv') pid ViewDraft = Inr h"
      "rv_id h = pg_draft_id p'" "rv_no h = pg_draft_no p'" "rv_kind h = ViewDraft"
    using db_heads(3) [OF inv p'(1)] by blast
  then show ?thesis using p' inv by (auto simp: page_evolution_def db_inv_def)
qed

theorem postgres_pages_evolve_witness:
  "\<exists>p'. db_get_page no_page_fault (sv_store rows_draft) sample_page = Inr p' \<and> 1 \<le> pg_draft_no p'"
proof -
  have "case db_get_page no_page_fault (sv_store rows_page) sample_page of Inl _ \<Rightarrow> False | Inr p \<Rightarrow> pg_draft_no p = 1"
    by code_simp
  then obtain p where p: "db_get_page no_page_fault (sv_store rows_page) sample_page = Inr p" "pg_draft_no p = 1"
    by (auto split: sum.splits)
  have gen: "dp_gen rows_deps = run_gen" by (simp add: rows_deps_def)
  show ?thesis
    using postgres_pages_evolve [OF rows_draft_served _ _ p(1)] rows_page_ok gen_ok_run_gen gen p(2) by auto
qed

text \<open>
  C9: A save that was acknowledged on PostgreSQL is durable: the revision that the answer names, with its number,
  is read back with the identifiers, types and texts of the blocks that were sent, then and after any later
  requests and failures.
\<close>

theorem postgres_save_durable:
  assumes "db_service_ok (dp_gen dp) sv" and "gen_ok (dp_gen dp)" and "int (sv_next sv) < max_int64"
    and "fst (autosave_guard (on_rows dp (writing_faults fault)) input sv) = None"
    and "autosave_draft (on_rows dp (writing_faults fault)) now input sv = (Inr payload, sv')"
    and "served_on_rows F dp sv' sv''"
  shows "\<exists>r. db_get_revision_by_id no_page_fault (sv_store sv'') (au_page input) (ds_id payload) = Inr r
     \<and> rv_no r = ds_no payload \<and> rv_kind r = ViewDraft
     \<and> block_texts (rv_document r) = block_texts (au_document input)"
proof -
  let ?dp = "on_rows dp (writing_faults fault)"
  have accepted: "fst (autosave_draft ?dp now input sv) = Inr payload" using assms(5) by simp
  have ok: "service_ok (postgres_page_ops (writing_faults fault)) db_inv db_unused (dp_gen dp) sv" using assms(1) by simp
  have inv: "db_inv (sv_store sv)" using assms(1) by (simp add: service_ok_def)
  show ?thesis
  proof (rule autosave_accepted_cases [OF assms(4) accepted])
    fix cur b plan sv1 s'
    assume cur: "so_get_page (dp_store ?dp) (sv_store sv) (au_page input) = Inr cur"
      and plan: "autosave_plan ?dp now input cur b sv = (Inr plan, sv1)"
      and exec: "so_execute (dp_store ?dp) (draft_tx (au_base input) (wp_page plan) (wp_revision plan)
             (wp_idempotency plan) (wp_references plan) (wp_events plan)) (sv_store sv) = (None, s')"
      and s': "sv_store (snd (autosave_draft ?dp now input sv)) = s'"
      and nxt: "sv_next (snd (autosave_draft ?dp now input sv)) = sv_next sv1"
      and payload: "payload = build_draft_save_payload (au_page input) (wp_revision plan) (wp_descriptors plan)"
    have cur': "so_get_page (postgres_page_ops (answered (writing_faults fault))) (sv_store sv) (au_page input) = Inr cur"
      using cur by simp
    have ok': "service_ok (postgres_page_ops (answered (writing_faults fault))) db_inv db_unused (dp_gen dp) sv"
      using ok by simp
    have exec': "so_execute (postgres_page_ops (answered (writing_faults fault))) (draft_tx (au_base input) (wp_page plan)
             (wp_revision plan) (wp_idempotency plan) (wp_references plan) (wp_events plan)) (sv_store sv) = (None, s')"
      using exec answered_execute_done by simp
    have id: "au_page input = pg_id cur" using db_heads(1) [OF inv, of "au_page input" cur] cur by simp
    note facts = autosave_plan_facts [OF plan id]
    have plan_ok: "draft_plan_ok (dp_gen dp) (sv_next sv) (sv_next sv1) cur plan" using facts(1) by simp
    have "db_get_revision_by_id no_page_fault s' (au_page input) (rv_id (wp_revision plan))
        = Inr (stored_revision (wp_revision plan))"
      using pg.draft_plan_stored(4) [OF ok' assms(2,3) cur' plan_ok exec' s' nxt] by simp
    moreover have "s' = sv_store sv'" using s' assms(5) by simp
    ultimately have "db_get_revision_by_id no_page_fault (sv_store sv'') (au_page input) (rv_id (wp_revision plan))
        = Inr (stored_revision (wp_revision plan))"
      using grown_read [OF served_grows [OF assms(6)]] by simp
    moreover have "rv_kind (wp_revision plan) = ViewDraft" using plan_ok by (simp add: draft_plan_ok_def)
    ultimately show ?thesis
      using payload hydrated_texts [OF facts(4)]
      by (auto simp: build_draft_save_payload_def stored_revision_fields)
  qed
qed

lemma rows_autosave:
  "\<exists>payload sv'. autosave_draft (on_rows rows_deps (writing_faults no_page_fault)) 20 (sample_autosave ''k'' 1 ''two'')
     rows_page = (Inr payload, sv') \<and> ds_no payload = 2"
  "fst (autosave_guard (on_rows rows_deps (writing_faults no_page_fault)) (sample_autosave ''k'' 1 ''two'') rows_page) = None"
proof -
  have "case fst (autosave_draft (on_rows rows_deps (writing_faults no_page_fault)) 20
      (sample_autosave ''k'' 1 ''two'') rows_page) of Inl _ \<Rightarrow> False | Inr payload \<Rightarrow> ds_no payload = 2"
    by code_simp
  then show "\<exists>payload sv'. autosave_draft (on_rows rows_deps (writing_faults no_page_fault)) 20
      (sample_autosave ''k'' 1 ''two'') rows_page = (Inr payload, sv') \<and> ds_no payload = 2"
    by (cases "autosave_draft (on_rows rows_deps (writing_faults no_page_fault)) 20
      (sample_autosave ''k'' 1 ''two'') rows_page") (auto split: sum.splits)
qed code_simp

theorem postgres_save_durable_witness:
  "\<exists>payload sv' r. autosave_draft (on_rows rows_deps (writing_faults no_page_fault)) 20
       (sample_autosave ''k'' 1 ''two'') rows_page = (Inr payload, sv')
     \<and> db_get_revision_by_id no_page_fault (sv_store sv') sample_page (ds_id payload) = Inr r \<and> rv_no r = 2
     \<and> block_texts (rv_document r) = [(''b1'', ''paragraph'', ''two'')]"
proof -
  obtain payload sv' where run: "autosave_draft (on_rows rows_deps (writing_faults no_page_fault)) 20
      (sample_autosave ''k'' 1 ''two'') rows_page = (Inr payload, sv')" "ds_no payload = 2"
    using rows_autosave(1) by blast
  have gen: "dp_gen rows_deps = run_gen" by (simp add: rows_deps_def)
  have page: "au_page (sample_autosave ''k'' 1 ''two'') = sample_page" by (simp add: sample_autosave_def)
  have texts: "block_texts (au_document (sample_autosave ''k'' 1 ''two'')) = [(''b1'', ''paragraph'', ''two'')]"
    by code_simp
  have "int (sv_next rows_page) < max_int64" by (simp add: rows_samples max_int64_def)
  then show ?thesis
    using postgres_save_durable [OF _ _ _ rows_autosave(2) run(1) rows_start] rows_page_ok gen_ok_run_gen gen page run texts
    by metis
qed

text \<open>
  C10: A writing request that is refused on PostgreSQL, whatever statement failed, leaves every table as it was:
  no page, no revision, no reference, no idempotency row and no event of it is left behind. The one exception is
  a commit that was made and whose answer was lost: then the tables are exactly those that the request, accepted,
  would have left.
\<close>

theorem postgres_refused_request:
  assumes "is_write q" and "fst (run_request (on_rows dp fault) now q sv) = Some err"
  shows "sv_store (snd (run_request (on_rows dp fault) now q sv)) = sv_store sv
     \<or> (fault CommitAnswer '''' \<noteq> None
        \<and> fst (run_request (on_rows dp (answered fault)) now q sv) = None
        \<and> sv_store (snd (run_request (on_rows dp fault) now q sv))
            = sv_store (snd (run_request (on_rows dp (answered fault)) now q sv)))"
proof (cases "fst (run_request (on_rows dp (answered fault)) now q sv)")
  case (Some err')
  then have "sv_store (snd (run_request (on_rows dp (answered fault)) now q sv)) = sv_store sv"
    using pg_atomic.refused_request_same_store [where fault = fault and sv = sv
        and dp = "on_rows dp (answered fault)" and q = q and now = now and err = err'] assms(1) by simp
  then show ?thesis by (simp add: answered_request)
next
  case None
  have "fault CommitAnswer '''' \<noteq> None"
  proof
    assume "fault CommitAnswer '''' = None"
    then have "postgres_page_ops (answered fault) = postgres_page_ops fault"
      by (simp add: postgres_page_ops_def answered_execute_same)
    then have "on_rows dp (answered fault) = on_rows dp fault" by (simp add: on_rows_def)
    with None assms(2) show False by simp
  qed
  with None show ?thesis by (simp add: answered_request)
qed

theorem postgres_refused_request_witness: "sv_store (snd rows_refused) = sv_store rows_page"
proof -
  obtain err where "fst rows_refused = Some err" using rows_samples(2) by auto
  moreover have "writing_faults commit_fault CommitAnswer '''' = None" by (simp add: writing_faults_def commit_fault_def)
  ultimately show ?thesis
    using postgres_refused_request [of "AutosaveRequest (sample_autosave ''k'' 1 ''two'')" rows_deps
        "writing_faults commit_fault" 20 rows_page err]
    by (simp add: rows_refused_def)
qed

section \<open>Saves whose answer was lost\<close>

lemma answered_autosave:
  "sv_store (snd (autosave_draft (on_rows dp (answered f)) now input sv)) = sv_store (snd (autosave_draft (on_rows dp f) now input sv))"
  using answered_request(1) [of dp f now "AutosaveRequest input" sv] by simp

text \<open>An autosave after which the rows are others has run its transaction.\<close>

lemma autosave_stored_cases:
  assumes "sv_store (snd (autosave_draft (on_rows dp fault) now input sv)) \<noteq> sv_store sv"
  obtains cur b plan sv1
  where "db_get_page fault (sv_store sv) (au_page input) = Inr cur"
    and "autosave_plan (on_rows dp fault) now input cur b sv = (Inr plan, sv1)"
    and "db_execute (answered fault) (draft_tx (au_base input) (wp_page plan) (wp_revision plan)
           (wp_idempotency plan) (wp_references plan) (wp_events plan)) (sv_store sv)
         = (None, sv_store (snd (autosave_draft (on_rows dp fault) now input sv)))"
proof -
  let ?dp = "on_rows dp fault"
  obtain x sv1 where prep: "autosave_prepare ?dp now input sv = (x, sv1)" by fastforce
  have store: "sv_store sv1 = sv_store sv"
    using autosave_prepare_quiet [of sv ?dp now input] prep by (simp add: quiet_def)
  obtain plan where x: "x = Inr plan" using assms prep store by (cases x) (auto simp: autosave_draft_def)
  obtain cur b where cases: "so_get_page (dp_store ?dp) (sv_store sv) (au_page input) = Inr cur"
      "autosave_plan ?dp now input cur b sv = (Inr plan, sv1)"
    using autosave_prepare_cases [OF prep [unfolded x]] by blast
  let ?tx = "draft_tx (au_base input) (wp_page plan) (wp_revision plan)
           (wp_idempotency plan) (wp_references plan) (wp_events plan)"
  have rows: "sv_store (snd (autosave_draft ?dp now input sv)) = snd (db_execute fault ?tx (sv_store sv))"
    using prep x store by (simp add: autosave_draft_def autosave_commit_store)
  obtain e where exec: "db_execute (answered fault) ?tx (sv_store sv) = (e, sv_store (snd (autosave_draft ?dp now input sv)))"
    using answered_execute_rows [of fault ?tx "sv_store sv"] rows by (metis prod.collapse)
  have "e = None" using execute_error [of "answered fault" ?tx "sv_store sv"] exec assms by (cases e) auto
  with that cases exec show ?thesis by simp
qed

text \<open>The idempotency row that a draft leaves.\<close>

lemma draft_idempotency_row:
  assumes "db_execute fault (draft_tx base p r (Some i) refs ev) d = (None, d')" and "id_key i \<noteq> ''''"
    and "db_get_idempotency no_page_fault d (id_page i) (id_key i) = Inr None"
  shows "\<exists>j. db_get_idempotency no_page_fault d' (id_page i) (id_key i) = Inr (Some j) \<and> id_revision j = id_revision i"
proof -
  obtain d0 d1 change where up: "update_page fault base (pg_id p) change d = (None, d0)"
    and one: "insert_revision_and_idempotency fault r (Some i) d0 = (None, d1)"
    and rest: "db_writes fault (projection_writes (rv_id r) refs ev) d1 = (None, d')"
    using execute_none [OF assms(1)] unfolding draft_tx_def
    by (auto simp: db_save_draft_revision_def split: prod.splits option.splits)
  obtain d2 where row: "insert_revision_row fault (revision_row_of r) d0 = (None, d2)"
    using one by (auto simp: insert_revision_and_idempotency_def split: prod.splits option.splits)
  have "pr_idempotencies d0 = pr_idempotencies d" using update_page_ok [OF up] by simp
  moreover have d2: "pr_idempotencies d2 = pr_idempotencies d0" using insert_revision_row_ok [OF row] by simp
  moreover have none: "\<nexists>j. j \<in> set (pr_idempotencies d) \<and> id_page j = id_page i \<and> id_key j = id_key i"
    using assms(3) by (auto simp: db_get_idempotency_def no_page_fault_def find_None_iff)
  ultimately have "pr_idempotencies d1 = pr_idempotencies d @ [i\<lparr>id_created_at := stored_time (id_created_at i)\<rparr>]"
    using one row assms(2)
    by (auto simp: insert_revision_and_idempotency_def list_ex_iff split: option.splits if_splits)
  moreover have "pr_idempotencies d' = pr_idempotencies d1" using db_projections [OF rest] by simp
  moreover have "find (\<lambda>j. id_page j = id_page i \<and> id_key j = id_key i) (pr_idempotencies d) = None"
    using none by (auto simp: find_None_iff)
  ultimately show ?thesis by (simp add: db_get_idempotency_def no_page_fault_def find_append)
qed

text \<open>A key that was not answered as a repetition has no row.\<close>

lemma new_key_no_row:
  assumes "db_inv (sv_store sv)" and "fst (autosave_guard (on_rows dp (writing_faults fault)) input sv) = None"
    and "trim_space (au_key input) \<noteq> ''''"
  shows "db_get_idempotency no_page_fault (sv_store sv) (au_page input) (trim_space (au_key input)) = Inr None"
proof (cases "db_get_idempotency no_page_fault (sv_store sv) (au_page input) (trim_space (au_key input))")
  case (Inl err)
  then show ?thesis by (simp add: db_get_idempotency_def no_page_fault_def)
next
  case (Inr found)
  show ?thesis
  proof (cases found)
    case (Some i)
    have row: "db_get_idempotency no_page_fault (sv_store sv) (au_page input) (trim_space (au_key input)) = Inr (Some i)"
      using Inr Some by simp
    then have "id_page i = au_page input"
      by (auto simp: db_get_idempotency_def no_page_fault_def find_Some_iff)
    then obtain r where "db_get_revision_by_id no_page_fault (sv_store sv) (au_page input) (id_revision i) = Inr r"
      using db_idempotency_live [OF assms(1) row] by auto
    with row have "saved_before (on_rows dp (writing_faults fault)) (au_page input) (trim_space (au_key input)) sv = Some r"
      by (simp add: saved_before_def)
    then show ?thesis using assms(2,3) by (simp add: autosave_guard_def Let_def split: if_splits option.splits)
  qed (use Inr in simp)
qed

text \<open>
  C12: A client that was not told whether its save was stored on PostgreSQL, because the commit was made and its
  answer lost, can repeat it. Whatever it was told, once the rows were changed by a save with an idempotency key,
  a request with that key for that page which is authorized is answered with the revision that was stored, with
  the texts of the blocks that were sent first, and changes nothing; then and after any later requests and
  failures.
\<close>

theorem lost_answer_recovered:
  assumes "db_service_ok (dp_gen dp) sv" and "gen_ok (dp_gen dp)" and "int (sv_next sv) < max_int64"
    and "fst (autosave_guard (on_rows dp (writing_faults fault)) input sv) = None"
    and "autosave_draft (on_rows dp (writing_faults fault)) now input sv = (reply, sv')"
    and "sv_store sv' \<noteq> sv_store sv" and "trim_space (au_key input) \<noteq> ''''"
    and "served_on_rows F dp sv' sv''"
    and "trim_space (au_key again) = trim_space (au_key input)" and "au_page again = au_page input"
    and "0 < au_base again" and "trim_space (au_page again) \<noteq> ''''"
    and "require_action dp ActionPageEdit (subject_of again (au_page again)) = None"
    and "authorize_embed_usage dp (au_document again) (subject_of again (au_page again)) = None"
  shows "\<exists>cur payload r sv3. db_get_page no_page_fault (sv_store sv) (au_page input) = Inr cur
     \<and> autosave_draft (on_rows dp (writing_faults fault')) later again sv'' = (Inr payload, sv3)
     \<and> sv_store sv3 = sv_store sv''
     \<and> db_get_revision_by_id no_page_fault (sv_store sv'') (au_page input) (ds_id payload) = Inr r
     \<and> rv_no r = ds_no payload \<and> ds_no payload = max (pg_draft_no cur) (pg_published_no cur) + 1
     \<and> block_texts (rv_document r) = block_texts (au_document input)"
proof -
  let ?f = "writing_faults fault" and ?dp = "on_rows dp (writing_faults fault')"
  have inv: "db_inv (sv_store sv)" using assms(1) by (simp add: service_ok_def)
  have "sv_store (snd (autosave_draft (on_rows dp ?f) now input sv)) \<noteq> sv_store sv" using assms(5,6) by simp
  then obtain cur b plan sv1 where cur: "db_get_page ?f (sv_store sv) (au_page input) = Inr cur"
    and plan: "autosave_plan (on_rows dp ?f) now input cur b sv = (Inr plan, sv1)"
    and exec: "db_execute (answered ?f) (draft_tx (au_base input) (wp_page plan) (wp_revision plan)
           (wp_idempotency plan) (wp_references plan) (wp_events plan)) (sv_store sv) = (None, sv_store sv')"
    using autosave_stored_cases assms(5) by (metis snd_conv)
  have id: "au_page input = pg_id cur" using db_heads(1) [OF inv, of "au_page input" cur] cur by simp
  note facts = autosave_plan_facts [OF plan id]
  have plan_ok: "draft_plan_ok (dp_gen dp) (sv_next sv) (sv_next sv1) cur plan" using facts(1) by simp
  obtain i where i: "wp_idempotency plan = Some i" "id_key i = trim_space (au_key input)"
      "id_revision i = rv_id (wp_revision plan)" "id_page i = au_page input"
    using plan_ok facts(6) assms(7) id
    by (auto simp: draft_plan_ok_def idempotency_for_def)
  let ?r = "stored_revision (wp_revision plan)"
  have cur': "so_get_page (postgres_page_ops (answered ?f)) (sv_store sv) (au_page input) = Inr cur"
    and ok': "service_ok (postgres_page_ops (answered ?f)) db_inv db_unused (dp_gen dp) sv"
    using cur assms(1) by simp_all
  note stored = pg.draft_plan_stored [where sv' = "sv'\<lparr>sv_next := sv_next sv1\<rparr>" and s' = "sv_store sv'",
      OF ok' assms(2,3) cur' plan_ok exec [folded postgres_ops_simps(6)]]
  have "db_get_revision_by_id no_page_fault (sv_store sv') (au_page input) (rv_id (wp_revision plan)) = Inr ?r"
    using stored(4) by simp
  then have revision: "db_get_revision_by_id no_page_fault (sv_store sv'') (au_page input) (rv_id (wp_revision plan)) = Inr ?r"
    using grown_read [OF served_grows [OF assms(8)]] by blast
  obtain j where "db_get_idempotency no_page_fault (sv_store sv') (au_page input) (trim_space (au_key input)) = Inr (Some j)"
      and j: "id_revision j = rv_id (wp_revision plan)"
    using draft_idempotency_row [OF exec [unfolded i(1)]] i new_key_no_row [OF inv assms(4,7)] assms(7) by auto
  then have row: "db_get_idempotency no_page_fault (sv_store sv'') (au_page input) (trim_space (au_key input)) = Inr (Some j)"
    using grown_idempotency [OF served_grows [OF assms(8)]] by blast
  have saved: "saved_before ?dp (au_page again) (trim_space (au_key again)) sv'' = Some ?r"
    using row revision j assms(9,10) by (simp add: saved_before_def)
  have allowed: "require_action ?dp ActionPageEdit (subject_of again (au_page again)) = None"
      "authorize_embed_usage ?dp (au_document again) (subject_of again (au_page again)) = None"
    using assms(13,14) by (simp_all add: authorize_embed_usage_def on_rows_action split: if_splits)
  obtain payload where guard: "autosave_guard ?dp again sv'' = (Some (Inr payload), observe_save ''idempotent'' sv'')"
      "ds_id payload = rv_id ?r" "ds_no payload = rv_no ?r"
    using saved allowed assms(7,9,11,12) by (simp add: autosave_guard_def Let_def build_draft_save_payload_def)
  then have "autosave_draft ?dp later again sv'' = (Inr payload, observe_save ''idempotent'' sv'')"
    by (simp add: autosave_draft_def autosave_prepare_def)
  moreover have "rv_no ?r = max (pg_draft_no cur) (pg_published_no cur) + 1"
    using stored(5) by (simp add: stored_revision_fields)
  moreover have "block_texts (rv_document ?r) = block_texts (au_document input)"
    using hydrated_texts [OF facts(4)] by (simp add: stored_revision_fields)
  ultimately show ?thesis using cur revision guard(2,3)
    by (intro exI [of _ cur] exI [of _ payload] exI [of _ ?r] exI [of _ "observe_save ''idempotent'' sv''"])
       (simp add: stored_revision_fields)
qed

lemma rows_lost_samples:
  "case fst rows_lost of Inl err \<Rightarrow> True | Inr payload \<Rightarrow> False"
  "length (pr_revisions (sv_store (snd rows_lost))) = 2" "length (pr_revisions (sv_store rows_page)) = 1"
  "fst (autosave_guard (on_rows rows_deps (writing_faults lost_fault)) (sample_autosave ''k'' 1 ''two'') rows_page) = None"
  by code_simp+

text \<open>The client was given an error; its second attempt, with another base, finds the revision.\<close>

theorem lost_answer_recovered_witness:
  "(\<exists>err. fst rows_lost = Inl err)
   \<and> (\<exists>payload r sv3. autosave_draft (on_rows rows_deps (writing_faults no_page_fault)) 30
        (sample_autosave '' k '' 7 ''other'') (snd rows_lost) = (Inr payload, sv3)
      \<and> sv_store sv3 = sv_store (snd rows_lost)
      \<and> db_get_revision_by_id no_page_fault (sv_store sv3) sample_page (ds_id payload) = Inr r
      \<and> block_texts (rv_document r) = [(''b1'', ''paragraph'', ''two'')])"
proof -
  have gen: "dp_gen rows_deps = run_gen" by (simp add: rows_deps_def)
  have page: "au_page (sample_autosave k n t) = sample_page" for k n t by (simp add: sample_autosave_def)
  have texts: "block_texts (au_document (sample_autosave ''k'' 1 ''two'')) = [(''b1'', ''paragraph'', ''two'')]"
    by code_simp
  have keys: "trim_space (au_key (sample_autosave ''k'' 1 ''two'')) = ''k''"
    "trim_space (au_key (sample_autosave '' k '' 7 ''other'')) = ''k''" "trim_space sample_page \<noteq> ''''"
    "0 < au_base (sample_autosave '' k '' 7 ''other'')"
    by code_simp+
  have allowed: "require_action rows_deps ActionPageEdit (subject_of (sample_autosave '' k '' 7 ''other'') sample_page) = None"
    "authorize_embed_usage rows_deps (au_document (sample_autosave '' k '' 7 ''other''))
       (subject_of (sample_autosave '' k '' 7 ''other'') sample_page) = None"
    by code_simp+
  have "int (sv_next rows_page) < max_int64" by (simp add: rows_samples max_int64_def)
  moreover have "sv_store (snd rows_lost) \<noteq> sv_store rows_page" using rows_lost_samples(2,3) by auto
  moreover have "autosave_draft (on_rows rows_deps (writing_faults lost_fault)) 20 (sample_autosave ''k'' 1 ''two'') rows_page
      = (fst rows_lost, snd rows_lost)" by (simp add: rows_lost_def)
  ultimately have "\<exists>payload r sv3. autosave_draft (on_rows rows_deps (writing_faults no_page_fault)) 30
        (sample_autosave '' k '' 7 ''other'') (snd rows_lost) = (Inr payload, sv3)
      \<and> sv_store sv3 = sv_store (snd rows_lost)
      \<and> db_get_revision_by_id no_page_fault (sv_store (snd rows_lost)) sample_page (ds_id payload) = Inr r
      \<and> block_texts (rv_document r) = [(''b1'', ''paragraph'', ''two'')]"
    using lost_answer_recovered [OF _ _ _ rows_lost_samples(4), of 20 "fst rows_lost" "snd rows_lost" writing_faults
        "snd rows_lost" "sample_autosave '' k '' 7 ''other''" no_page_fault 30]
      rows_page_ok gen_ok_run_gen gen page texts keys allowed rows_start by (metis list.distinct(1))
  then show ?thesis using rows_lost_samples(1) by (metis old.sum.simps(6) sumE)
qed

end
