(* ===== verification/GatewayRoutes.thy ===== *)
theory GatewayRoutes
  imports Gateway
begin

text \<open>
  The routing table of the gateway (\<^verbatim>\<open>services/api-gateway/internal/adapters/http/router.go\<close>): which requests
  it answers itself, which it forwards where, and who has to be asked before; beside it the tables of the
  services behind it. The router is a parameter: of a method and a path it finds a route and the values of the
  route's parameters, or none.
\<close>

section \<open>The table\<close>

datatype upstream =
  AuthUpstream | PageUpstream | CollabUpstream | SearchUpstream | MwsUpstream | FileUpstream

datatype gateway_endpoint = ServeOpenAPI | ProxyTo upstream string bool | WsProxyTo upstream

text \<open>A route registered with \<open>Handle\<close> takes every method.\<close>

record gateway_route =
  gt_method :: "string option"
  gt_pattern :: string
  gt_require_auth :: bool
  gt_action :: "action option"
  gt_endpoint :: gateway_endpoint

definition open_route :: "string \<Rightarrow> string \<Rightarrow> gateway_endpoint \<Rightarrow> gateway_route" where
  "open_route method pattern endpoint =
     \<lparr>gt_method = Some method, gt_pattern = pattern, gt_require_auth = False, gt_action = None,
      gt_endpoint = endpoint\<rparr>"

definition protected_route :: "string option \<Rightarrow> string \<Rightarrow> action option \<Rightarrow> upstream \<Rightarrow> gateway_route" where
  "protected_route method pattern action up =
     \<lparr>gt_method = method, gt_pattern = ''/api/v1'' @ pattern, gt_require_auth = True, gt_action = action,
      gt_endpoint = ProxyTo up ''/api/v1'' True\<rparr>"

definition gateway_routes :: "gateway_route list" where
  "gateway_routes =
     [open_route ''GET'' ''/openapi.yaml'' ServeOpenAPI,
      open_route ''GET'' ''/openapi/public-api.yaml'' ServeOpenAPI,
      open_route ''GET'' ''/.well-known/jwks.json'' (ProxyTo AuthUpstream '''' False),
      \<lparr>gt_method = Some ''GET'', gt_pattern = ''/ws/collab'', gt_require_auth = True, gt_action = None,
       gt_endpoint = WsProxyTo CollabUpstream\<rparr>,
      open_route ''GET'' ''/api/v1/.well-known/jwks.json'' (ProxyTo AuthUpstream ''/api/v1'' False),
      open_route ''POST'' ''/api/v1/auth/login'' (ProxyTo AuthUpstream ''/api/v1'' False),
      open_route ''POST'' ''/api/v1/auth/refresh'' (ProxyTo AuthUpstream ''/api/v1'' False),
      protected_route (Some ''GET'') ''/auth/me'' None AuthUpstream,
      protected_route (Some ''POST'') ''/pages'' (Some ActionPageEdit) PageUpstream,
      protected_route (Some ''GET'') ''/pages/{pageID}'' (Some ActionPageView) PageUpstream,
      protected_route (Some ''POST'') ''/pages/{pageID}/archive'' (Some ActionPageArchive) PageUpstream,
      protected_route (Some ''PATCH'') ''/pages/{pageID}/draft'' (Some ActionPageEdit) PageUpstream,
      protected_route (Some ''GET'') ''/pages/{pageID}/draft/recover'' (Some ActionPageView) PageUpstream,
      protected_route (Some ''POST'') ''/pages/{pageID}/publish'' (Some ActionPagePublish) PageUpstream,
      protected_route (Some ''GET'') ''/pages/{pageID}/versions'' (Some ActionPageView) PageUpstream,
      protected_route (Some ''POST'') ''/pages/{pageID}/versions/{revisionID}/restore''
        (Some ActionPageRestore) PageUpstream,
      protected_route (Some ''GET'') ''/pages/{pageID}/backlinks'' (Some ActionPageView) SearchUpstream,
      protected_route (Some ''GET'') ''/editor/metadata'' (Some ActionPageView) PageUpstream,
      protected_route (Some ''POST'') ''/editor/sync'' (Some ActionPageView) PageUpstream,
      protected_route None ''/search'' (Some ActionSearchQuery) SearchUpstream,
      protected_route None ''/search/*'' (Some ActionSearchQuery) SearchUpstream,
      protected_route (Some ''POST'') ''/files/uploads'' (Some ActionFileUpload) FileUpstream,
      protected_route (Some ''POST'') ''/files/uploads/{uploadID}/complete'' (Some ActionFileUpload) FileUpstream,
      protected_route (Some ''GET'') ''/files/{fileID}'' (Some ActionFileRead) FileUpstream,
      protected_route (Some ''DELETE'') ''/files/{fileID}'' (Some ActionFileUpload) FileUpstream,
      protected_route None ''/mws'' None MwsUpstream,
      protected_route None ''/mws/*'' None MwsUpstream,
      protected_route None ''/collaboration'' None CollabUpstream,
      protected_route None ''/collaboration/*'' None CollabUpstream]"

text \<open>The tables of the services: methods and patterns.\<close>

definition auth_routes :: "(string \<times> string) list" where
  "auth_routes = [(''POST'', ''/auth/login''), (''POST'', ''/auth/refresh''), (''GET'', ''/auth/me''),
     (''GET'', ''/.well-known/jwks.json'')]"

definition page_routes :: "(string \<times> string) list" where
  "page_routes =
     [(''POST'', ''/pages''), (''GET'', ''/pages/{pageID}''), (''POST'', ''/pages/{pageID}/archive''),
      (''PATCH'', ''/pages/{pageID}/draft''), (''GET'', ''/pages/{pageID}/draft/recover''),
      (''POST'', ''/pages/{pageID}/publish''), (''GET'', ''/pages/{pageID}/versions''),
      (''POST'', ''/pages/{pageID}/versions/{revisionID}/restore''), (''GET'', ''/editor/metadata''),
      (''POST'', ''/editor/sync'')]"

definition search_routes :: "(string \<times> string) list" where
  "search_routes = [(''GET'', ''/search''), (''GET'', ''/pages/{pageID}/backlinks'')]"

definition file_routes :: "(string \<times> string) list" where
  "file_routes = [(''POST'', ''/files/uploads''), (''POST'', ''/files/uploads/{uploadID}/complete''),
     (''GET'', ''/files/{fileID}''), (''DELETE'', ''/files/{fileID}'')]"

definition collab_routes :: "(string \<times> string) list" where
  "collab_routes = [(''GET'', ''/ws/collab'')]"

section \<open>A request\<close>

type_synonym route_finder = "string \<Rightarrow> string \<Rightarrow> (gateway_route \<times> (string \<Rightarrow> string)) option"

text \<open>
  What the router promises of the route it finds: it is one of the table, takes the method, and its pattern
  matches the path, segment by segment; a trailing star takes the rest.
\<close>

definition is_route_param :: "string \<Rightarrow> bool" where
  "is_route_param p \<longleftrightarrow> p \<noteq> '''' \<and> hd p = CHR ''{''"

fun segments_match :: "string list \<Rightarrow> string list \<Rightarrow> bool" where
  "segments_match [] ss = (ss = [])"
| "segments_match (p # ps) [] = False"
| "segments_match (p # ps) (s # ss) =
     (if p = ''*'' then ps = [] else (is_route_param p \<or> p = s) \<and> segments_match ps ss)"

definition route_matches :: "gateway_route \<Rightarrow> string \<Rightarrow> string \<Rightarrow> bool" where
  "route_matches route method path \<longleftrightarrow> gt_method route \<in> {None, Some method}
     \<and> segments_match (split_on (CHR ''/'') (gt_pattern route)) (split_on (CHR ''/'') path)"

definition finds_routes :: "route_finder \<Rightarrow> bool" where
  "finds_routes router \<longleftrightarrow> (\<forall>method path route params.
     router method path = Some (route, params) \<longrightarrow> route \<in> set gateway_routes \<and> route_matches route method path)"

text \<open>
  What becomes of a request. A base URL that does not parse has no path, and its proxy answers 500 (in plain
  text; the body is left empty here).
\<close>

datatype 'a gateway_result =
  NoRoute | OpenAPISpec | Answered "'a http_response" | InvalidUpstream | Forwarded upstream string headers

definition serve_endpoint ::
  "(upstream \<Rightarrow> string option) \<Rightarrow> gateway_endpoint \<Rightarrow> identity option \<Rightarrow> string \<Rightarrow> 'b http_request \<Rightarrow> 'a gateway_result" where
  "serve_endpoint target endpoint who path r =
     (case endpoint of
        ServeOpenAPI \<Rightarrow> OpenAPISpec
      | ProxyTo up stripPrefix enrichAuthHeaders \<Rightarrow>
          (case target up of
             None \<Rightarrow> InvalidUpstream
           | Some base \<Rightarrow> Forwarded up (upstream_path base stripPrefix path)
               (proxied_headers enrichAuthHeaders who (hr_headers r)))
      | WsProxyTo up \<Rightarrow>
          (case target up of
             None \<Rightarrow> InvalidUpstream
           | Some base \<Rightarrow> Forwarded up (join_path base (single_joining_slash base path))
               (ws_proxied_headers who r)))"

definition gateway_serve ::
  "route_finder \<Rightarrow> (string \<Rightarrow> string + identity) \<Rightarrow> remote_authz option \<Rightarrow> (upstream \<Rightarrow> string option) \<Rightarrow>
   string \<Rightarrow> string \<Rightarrow> 'b http_request \<Rightarrow> 'a gateway_result" where
  "gateway_serve router validate checker target method path r =
     (case router method path of
        None \<Rightarrow> NoRoute
      | Some (route, params) \<Rightarrow>
          let r = r\<lparr>hr_param := params\<rparr>
          in if \<not> gt_require_auth route then serve_endpoint target (gt_endpoint route) None path r
             else (case require_auth validate r of
                     Inl answer \<Rightarrow> Answered answer
                   | Inr who \<Rightarrow>
                       (case gt_action route of
                          None \<Rightarrow> serve_endpoint target (gt_endpoint route) (Some who) path r
                        | Some action \<Rightarrow>
                            (case gateway_require_action checker action (Some who) r of
                               Some answer \<Rightarrow> Answered answer
                             | None \<Rightarrow> serve_endpoint target (gt_endpoint route) (Some who) path r))))"

section \<open>Facts\<close>

lemma join_split_on: "join [c] (split_on c s) = s"
proof (induction s)
  case (Cons d s)
  have "split_on c s \<noteq> []" by (induction s) (auto split: list.splits)
  then obtain p ps where "split_on c s = p # ps" by (cases "split_on c s") auto
  with Cons show ?case by (cases ps) auto
qed simp

lemma literal_segments:
  "list_all (\<lambda>p. \<not> is_route_param p \<and> p \<noteq> ''*'') ps \<Longrightarrow> segments_match ps ss \<Longrightarrow> ss = ps"
  by (induction ps ss rule: segments_match.induct) auto

text \<open>A pattern without parameters matches itself only.\<close>

lemma literal_pattern:
  assumes "list_all (\<lambda>p. \<not> is_route_param p \<and> p \<noteq> ''*'') (split_on (CHR ''/'') pattern)"
    and "segments_match (split_on (CHR ''/'') pattern) (split_on (CHR ''/'') path)"
  shows "path = pattern"
  using literal_segments [OF assms] by (metis join_split_on)

text \<open>The routes to the page and the file service that a reading action opens.\<close>

definition reading_route :: "gateway_route \<Rightarrow> bool" where
  "reading_route route \<longleftrightarrow>
     (case gt_endpoint route of
        ProxyTo up _ _ \<Rightarrow>
          if up = PageUpstream \<or> up = FileUpstream then
            gt_require_auth route \<and>
            (case gt_action route of
               None \<Rightarrow> False
             | Some a \<Rightarrow> if a \<in> set reader_actions
                 then gt_method route = Some ''GET'' \<or> gt_pattern route = ''/api/v1/editor/sync'' else True)
          else True
      | WsProxyTo up \<Rightarrow> up \<noteq> PageUpstream \<and> up \<noteq> FileUpstream
      | ServeOpenAPI \<Rightarrow> True)"

lemma routes_reading: "list_all reading_route gateway_routes"
  by code_simp

lemma sync_pattern_literal:
  "list_all (\<lambda>p. \<not> is_route_param p \<and> p \<noteq> ''*'') (split_on (CHR ''/'') ''/api/v1/editor/sync'')"
  by code_simp

lemma served_forwarded:
  fixes r :: "'b http_request"
  assumes "(gateway_serve router validate checker target method path r :: 'a gateway_result) = Forwarded up p h"
  obtains route params where "router method path = Some (route, params)"
    and "\<not> gt_require_auth route \<or>
       (\<exists>who. (require_auth validate (r\<lparr>hr_param := params\<rparr>) :: 'a http_response + identity) = Inr who
         \<and> (\<forall>a. gt_action route = Some a \<longrightarrow>
              (gateway_require_action checker a (Some who) (r\<lparr>hr_param := params\<rparr>) :: 'a http_response option) = None))"
    and "(\<exists>prefix enrich. gt_endpoint route = ProxyTo up prefix enrich) \<or> gt_endpoint route = WsProxyTo up"
proof -
  obtain route params where found: "router method path = Some (route, params)"
    using assms by (auto simp: gateway_serve_def split: option.splits)
  let ?r = "r\<lparr>hr_param := params\<rparr>"
  have endpoint: "(\<exists>prefix enrich. gt_endpoint route = ProxyTo up prefix enrich) \<or> gt_endpoint route = WsProxyTo up"
    if "serve_endpoint target (gt_endpoint route) who path ?r = (Forwarded up p h :: 'a gateway_result)" for who
    using that by (auto simp: serve_endpoint_def split: gateway_endpoint.splits option.splits)
  show ?thesis
  proof (cases "gt_require_auth route")
    case False
    then have "serve_endpoint target (gt_endpoint route) None path ?r = (Forwarded up p h :: 'a gateway_result)"
      using assms found by (simp add: gateway_serve_def Let_def)
    then show ?thesis using that found False endpoint by blast
  next
    case True
    then obtain who where who: "(require_auth validate ?r :: 'a http_response + identity) = Inr who"
      using assms found by (auto simp: gateway_serve_def Let_def split: sum.splits)
    show ?thesis
    proof (cases "gt_action route")
      case None
      then have "serve_endpoint target (gt_endpoint route) (Some who) path ?r = (Forwarded up p h :: 'a gateway_result)"
        using assms found True who by (simp add: gateway_serve_def Let_def)
      then show ?thesis using that [OF found _ endpoint] who None by auto
    next
      case (Some a)
      have "(gateway_require_action checker a (Some who) ?r :: 'a http_response option) = None
          \<and> serve_endpoint target (gt_endpoint route) (Some who) path ?r = (Forwarded up p h :: 'a gateway_result)"
        using assms found True who Some by (auto simp: gateway_serve_def Let_def split: option.splits)
      then show ?thesis using that [OF found _ endpoint] who Some by auto
    qed
  qed
qed

lemma reader_admitted:
  assumes "only_reads mems grants (in_user who)"
    and "gateway_require_action (Some (auth_server mems grants)) a (Some who) r = (None :: 'a http_response option)"
  shows "a \<in> set reader_actions"
proof -
  let ?ci = "\<lparr>ci_actor = in_user who, ci_workspace = in_workspace who, ci_page = resolve_page_id r, ci_action = a\<rparr>"
  obtain d where "auth_server mems grants ?ci = Inr d" and "dn_allowed d"
    using assms(2) by (auto simp: gateway_require_action_def client_authorize_def split: sum.splits if_splits)
  then show ?thesis using reader_decision [of mems grants ?ci d] assms(1) by simp
qed

lemma require_auth_user:
  "(require_auth validate r :: 'a http_response + identity) = Inr who \<Longrightarrow>
     \<exists>claimed. validate (header_token (hr_headers r)) = Inr claimed \<and> in_user who = in_user claimed"
  by (auto simp: require_auth_def Let_def split: if_splits sum.splits)

section \<open>Properties\<close>

text \<open>
  C14: Through the gateway a reader only reads. Where the auth service knows the user of the token as a viewer or
  commenter of his workspaces, without a grant to edit a page, every request of his that the gateway forwards to
  the page or the file service is a GET, or the resumption of an editor; whatever page he names in path or query.
\<close>

theorem readers_only_read:
  fixes r :: "'b http_request"
  assumes "finds_routes router" and "validate (header_token (hr_headers r)) = Inr claimed"
    and "only_reads mems grants (in_user claimed)"
    and "(gateway_serve router validate (Some (auth_server mems grants)) target method path r :: 'a gateway_result)
           = Forwarded up p h"
    and "up = PageUpstream \<or> up = FileUpstream"
  shows "method = ''GET'' \<or> path = ''/api/v1/editor/sync''"
  using assms(4)
proof (rule served_forwarded)
  fix route params
  assume found: "router method path = Some (route, params)"
    and auth: "\<not> gt_require_auth route \<or>
       (\<exists>who. (require_auth validate (r\<lparr>hr_param := params\<rparr>) :: 'a http_response + identity) = Inr who
         \<and> (\<forall>a. gt_action route = Some a \<longrightarrow>
              (gateway_require_action (Some (auth_server mems grants)) a (Some who) (r\<lparr>hr_param := params\<rparr>)
                 :: 'a http_response option) = None))"
    and endpoint: "(\<exists>prefix enrich. gt_endpoint route = ProxyTo up prefix enrich) \<or> gt_endpoint route = WsProxyTo up"
  have matches: "route_matches route method path" and "route \<in> set gateway_routes"
    using assms(1) found by (auto simp: finds_routes_def)
  then have "reading_route route" using routes_reading by (simp add: list_all_iff)
  then obtain a where a: "gt_require_auth route" "gt_action route = Some a"
    "a \<in> set reader_actions \<Longrightarrow> gt_method route = Some ''GET'' \<or> gt_pattern route = ''/api/v1/editor/sync''"
    using assms(5) endpoint by (auto simp: reading_route_def split: option.splits if_splits)
  then obtain who where who: "(require_auth validate (r\<lparr>hr_param := params\<rparr>) :: 'a http_response + identity) = Inr who"
    and asked: "(gateway_require_action (Some (auth_server mems grants)) a (Some who) (r\<lparr>hr_param := params\<rparr>)
        :: 'a http_response option) = None"
    using auth by auto
  have "in_user who = in_user claimed" using require_auth_user [OF who] assms(2) by simp
  then have "a \<in> set reader_actions" using reader_admitted [OF _ asked] assms(3) by simp
  then have "gt_method route = Some ''GET'' \<or> gt_pattern route = ''/api/v1/editor/sync''" by (rule a(3))
  then show ?thesis
    using matches literal_pattern [OF sync_pattern_literal] by (auto simp: route_matches_def)
qed

text \<open>A router that takes the first route that matches.\<close>

definition first_route :: route_finder where
  "first_route method path =
     map_option (\<lambda>route. (route, \<lambda>_. '''')) (find (\<lambda>route. route_matches route method path) gateway_routes)"

lemma finds_first_route: "finds_routes first_route"
  by (auto simp: finds_routes_def first_route_def dest: find_SomeD)

definition viewer_memberships :: "string \<Rightarrow> string + membership list" where
  "viewer_memberships user = Inr [\<lparr>mb_workspace = ''w1'', mb_user = user, mb_role = RoleViewer\<rparr>]"

definition gateway_sample :: "string \<Rightarrow> string \<Rightarrow> unit gateway_result" where
  "gateway_sample method path =
     gateway_serve first_route (\<lambda>_. Inr sample_identity)
       (Some (auth_server viewer_memberships (\<lambda>_ _ _. Inr []))) (\<lambda>_. Some '''') method path (sample_http ''keep-alive'')"

lemma gateway_sample_forwarded:
  "(case gateway_sample ''POST'' ''/api/v1/editor/sync'' of
      Forwarded up p h \<Rightarrow> up = PageUpstream \<and> p = ''/editor/sync'' | _ \<Rightarrow> False)"
  "(case gateway_sample ''PATCH'' ''/api/v1/pages/p1/draft'' of Answered a \<Rightarrow> hx_status a = 403 | _ \<Rightarrow> False)"
  by code_simp+

theorem readers_only_read_witness:
  "\<exists>method path h. gateway_sample method path = Forwarded PageUpstream ''/editor/sync'' h
     \<and> method \<noteq> ''GET'' \<and> path = ''/api/v1/editor/sync''"
proof -
  obtain h where h: "gateway_sample ''POST'' ''/api/v1/editor/sync'' = Forwarded PageUpstream ''/editor/sync'' h"
    using gateway_sample_forwarded(1) by (auto split: gateway_result.splits)
  have reads: "only_reads viewer_memberships (\<lambda>_ _ _. Inr []) (in_user sample_identity)"
    by (auto simp: only_reads_def viewer_memberships_def has_grant_def)
  have "''POST'' = ''GET'' \<or> ''/api/v1/editor/sync'' = ''/api/v1/editor/sync''"
    by (rule readers_only_read [OF finds_first_route _ reads h [unfolded gateway_sample_def]]) simp_all
  with h show ?thesis by (intro exI [of _ "''POST''"] exI conjI) auto
qed

text \<open>
  The table of the gateway and those of the services fit. A method and a pattern are served by the auth, the
  page, the file or the search service, or are the socket of the collaboration service, exactly if the gateway
  has a route that forwards them there under the pattern that the service knows; and a route that takes every
  method is one of the three prefixes behind which the search, the table and the collaboration service are.
\<close>

definition forwarded_as :: "upstream \<Rightarrow> gateway_route \<Rightarrow> (string \<times> string) option" where
  "forwarded_as up route =
     (case (gt_endpoint route, gt_method route) of
        (ProxyTo to prefix _, Some method) \<Rightarrow>
          if to = up then Some (method, upstream_path '''' prefix (gt_pattern route)) else None
      | (WsProxyTo to, Some method) \<Rightarrow>
          if to = up then Some (method, join_path '''' (single_joining_slash '''' (gt_pattern route))) else None
      | _ \<Rightarrow> None)"

definition forwarded_routes :: "upstream \<Rightarrow> (string \<times> string) list" where
  "forwarded_routes up = List.map_filter (forwarded_as up) gateway_routes"

definition all_methods_routes :: "string list" where
  "all_methods_routes = map gt_pattern (filter (\<lambda>route. gt_method route = None) gateway_routes)"

theorem tables_fit:
  "set (forwarded_routes AuthUpstream) = set auth_routes
   \<and> set (forwarded_routes PageUpstream) = set page_routes
   \<and> set (forwarded_routes FileUpstream) = set file_routes
   \<and> set (forwarded_routes CollabUpstream) = set collab_routes
   \<and> set search_routes = insert (''GET'', ''/search'') (set (forwarded_routes SearchUpstream))
   \<and> all_methods_routes = map ((@) ''/api/v1'') [''/search'', ''/search/*'', ''/mws'', ''/mws/*'',
        ''/collaboration'', ''/collaboration/*'']"
proof -
  have "forwarded_routes AuthUpstream = [(''GET'', ''/.well-known/jwks.json''), (''GET'', ''/.well-known/jwks.json''),
      (''POST'', ''/auth/login''), (''POST'', ''/auth/refresh''), (''GET'', ''/auth/me'')]"
    and "forwarded_routes PageUpstream = page_routes" and "forwarded_routes FileUpstream = file_routes"
    and "forwarded_routes CollabUpstream = collab_routes"
    and "forwarded_routes SearchUpstream = [(''GET'', ''/pages/{pageID}/backlinks'')]"
    and "all_methods_routes = map ((@) ''/api/v1'') [''/search'', ''/search/*'', ''/mws'', ''/mws/*'',
        ''/collaboration'', ''/collaboration/*'']"
    by code_simp+
  then show ?thesis by (auto simp: auth_routes_def search_routes_def)
qed

end
