(* ===== verification/Redis.thy ===== *)
theory Redis
  imports Prelude
begin

text \<open>
  The part of Redis that the adapters use: keys with a value and a time of expiry, and the commands on them as
  Redis documents them. \<open>'v\<close> is what the text of a string or of an element of a list stands for. Times of the
  server are milliseconds.

  The commands of a pipeline (\<open>MULTI\<close> to \<open>EXEC\<close>) are executed together or, where the server is not reached, not at
  all; where only the answer is lost they were executed and the caller is given an error. A command on a value of
  another kind fails alone.
\<close>

section \<open>Keys\<close>

datatype 'v redis_value = RString 'v | RList "'v list" | RSet "string list"

type_synonym 'v redis = "string \<Rightarrow> ('v redis_value \<times> int option) option"

definition server_ms :: "gotime \<Rightarrow> int" where
  "server_ms now = now div millisecond"

definition key_live :: "int \<Rightarrow> int option \<Rightarrow> bool" where
  "key_live ms expiry = (case expiry of None \<Rightarrow> True | Some e \<Rightarrow> ms \<le> e)"

definition redis_value :: "int \<Rightarrow> string \<Rightarrow> 'v redis \<Rightarrow> ('v redis_value \<times> int option) option" where
  "redis_value ms k db =
     (case db k of None \<Rightarrow> None | Some (v, expiry) \<Rightarrow> if key_live ms expiry then Some (v, expiry) else None)"

definition wrong_type :: string where
  "wrong_type = ''WRONGTYPE Operation against a key holding the wrong kind of value''"

section \<open>Strings\<close>

text \<open>
  \<open>GET\<close>: nil is no value. \<open>SET\<close> with the duration that go-redis was given: a positive one is sent in
  milliseconds, at least one; \<open>-1\<close> (nanosecond) is \<open>KeepTTL\<close>; any other sets no expiry.
\<close>

definition redis_get :: "int \<Rightarrow> string \<Rightarrow> 'v redis \<Rightarrow> string + 'v option" where
  "redis_get ms k db =
     (case redis_value ms k db of
        None \<Rightarrow> Inr None
      | Some (RString v, _) \<Rightarrow> Inr (Some v)
      | Some _ \<Rightarrow> Inl wrong_type)"

definition ttl_ms :: "duration \<Rightarrow> int" where
  "ttl_ms ttl = max 1 (ttl div millisecond)"

definition redis_set :: "int \<Rightarrow> string \<Rightarrow> 'v \<Rightarrow> duration \<Rightarrow> 'v redis \<Rightarrow> string option \<times> 'v redis" where
  "redis_set ms k v ttl db =
     (let expiry = (if 0 < ttl then Some (ms + ttl_ms ttl)
                    else if ttl = -1 then (case redis_value ms k db of Some (_, e) \<Rightarrow> e | None \<Rightarrow> None)
                    else None)
      in (None, db(k \<mapsto> (RString v, expiry))))"

definition redis_del :: "string \<Rightarrow> 'v redis \<Rightarrow> string option \<times> 'v redis" where
  "redis_del k db = (None, db(k := None))"

section \<open>Lists\<close>

text \<open>The elements from \<open>start\<close> to \<open>stop\<close>, both included, negative ones counted from the end.\<close>

definition redis_range :: "int \<Rightarrow> int \<Rightarrow> 'a list \<Rightarrow> 'a list" where
  "redis_range start stop xs =
     (let len = int (length xs);
          start = max 0 (if start < 0 then len + start else start);
          stop = (if stop < 0 then len + stop else min (len - 1) stop)
      in if stop < start then [] else take (nat (stop - start + 1)) (drop (nat start) xs))"

definition redis_rpush :: "int \<Rightarrow> string \<Rightarrow> 'v \<Rightarrow> 'v redis \<Rightarrow> string option \<times> 'v redis" where
  "redis_rpush ms k v db =
     (case redis_value ms k db of
        None \<Rightarrow> (None, db(k \<mapsto> (RList [v], None)))
      | Some (RList xs, expiry) \<Rightarrow> (None, db(k \<mapsto> (RList (xs @ [v]), expiry)))
      | Some _ \<Rightarrow> (Some wrong_type, db))"

definition redis_ltrim :: "int \<Rightarrow> string \<Rightarrow> int \<Rightarrow> int \<Rightarrow> 'v redis \<Rightarrow> string option \<times> 'v redis" where
  "redis_ltrim ms k start stop db =
     (case redis_value ms k db of
        None \<Rightarrow> (None, db)
      | Some (RList xs, expiry) \<Rightarrow>
          let ys = redis_range start stop xs
          in (None, db(k := if ys = [] then None else Some (RList ys, expiry)))
      | Some _ \<Rightarrow> (Some wrong_type, db))"

definition redis_lrange :: "int \<Rightarrow> string \<Rightarrow> int \<Rightarrow> int \<Rightarrow> 'v redis \<Rightarrow> string + 'v list" where
  "redis_lrange ms k start stop db =
     (case redis_value ms k db of
        None \<Rightarrow> Inr []
      | Some (RList xs, _) \<Rightarrow> Inr (redis_range start stop xs)
      | Some _ \<Rightarrow> Inl wrong_type)"

text \<open>\<open>EXPIRE\<close> takes seconds; go-redis sends at least one for a positive duration.\<close>

definition redis_expire :: "int \<Rightarrow> string \<Rightarrow> duration \<Rightarrow> 'v redis \<Rightarrow> string option \<times> 'v redis" where
  "redis_expire ms k ttl db =
     (case redis_value ms k db of
        None \<Rightarrow> (None, db)
      | Some (v, _) \<Rightarrow>
          let secs = (if 0 < ttl \<and> ttl < second then 1 else ttl div second)
          in (None, db(k := if secs \<le> 0 then None else Some (v, Some (ms + secs * 1000)))))"

section \<open>Sets\<close>

definition redis_sadd :: "int \<Rightarrow> string \<Rightarrow> string \<Rightarrow> 'v redis \<Rightarrow> string option \<times> 'v redis" where
  "redis_sadd ms k x db =
     (case redis_value ms k db of
        None \<Rightarrow> (None, db(k \<mapsto> (RSet [x], None)))
      | Some (RSet xs, expiry) \<Rightarrow> (None, db(k \<mapsto> (RSet (if x \<in> set xs then xs else xs @ [x]), expiry)))
      | Some _ \<Rightarrow> (Some wrong_type, db))"

definition redis_srem :: "int \<Rightarrow> string \<Rightarrow> string \<Rightarrow> 'v redis \<Rightarrow> string option \<times> 'v redis" where
  "redis_srem ms k x db =
     (case redis_value ms k db of
        None \<Rightarrow> (None, db)
      | Some (RSet xs, expiry) \<Rightarrow>
          let ys = filter (\<lambda>y. y \<noteq> x) xs
          in (None, db(k := if ys = [] then None else Some (RSet ys, expiry)))
      | Some _ \<Rightarrow> (Some wrong_type, db))"

definition redis_smembers :: "int \<Rightarrow> string \<Rightarrow> 'v redis \<Rightarrow> string + string list" where
  "redis_smembers ms k db =
     (case redis_value ms k db of
        None \<Rightarrow> Inr []
      | Some (RSet xs, _) \<Rightarrow> Inr xs
      | Some _ \<Rightarrow> Inl wrong_type)"

section \<open>Pipelines\<close>

datatype redis_failure = NotReached string | AnswerLost string

fun redis_error :: "redis_failure \<Rightarrow> string" where
  "redis_error (NotReached err) = err"
| "redis_error (AnswerLost err) = err"

text \<open>Every command is executed; the error is the first one's.\<close>

fun redis_exec :: "('v redis \<Rightarrow> string option \<times> 'v redis) list \<Rightarrow> 'v redis \<Rightarrow> string option \<times> 'v redis" where
  "redis_exec [] db = (None, db)"
| "redis_exec (c # cs) db =
     (let (err, db) = c db; (err', db) = redis_exec cs db
      in (if err = None then err' else err, db))"

definition redis_pipeline ::
  "redis_failure option \<Rightarrow> ('v redis \<Rightarrow> string option \<times> 'v redis) list \<Rightarrow> 'v redis \<Rightarrow> string option \<times> 'v redis" where
  "redis_pipeline failure cs db =
     (case failure of
        None \<Rightarrow> redis_exec cs db
      | Some (NotReached err) \<Rightarrow> (Some err, db)
      | Some (AnswerLost err) \<Rightarrow> (Some err, snd (redis_exec cs db)))"

lemma redis_pipeline_cases:
  "redis_pipeline failure cs db = (e, db') \<Longrightarrow>
     db' = snd (redis_exec cs db) \<and> (e = None \<longrightarrow> failure = None \<and> fst (redis_exec cs db) = None) \<or> e \<noteq> None \<and> db' = db"
  by (auto simp: redis_pipeline_def split: option.splits redis_failure.splits)

section \<open>Facts\<close>

lemma redis_range_all [simp]: "redis_range 0 (-1) xs = xs"
  by (auto simp: redis_range_def Let_def)

lemma redis_range_last:
  assumes "0 < n"
  shows "redis_range (- n) (-1) xs = drop (length xs - nat n) xs"
proof (cases "xs = []")
  case False
  have "nat (max 0 (int (length xs) - n)) = length xs - nat n" using assms by (simp add: max_def nat_diff_distrib)
  moreover have "nat (int (length xs) - 1 - max 0 (int (length xs) - n) + 1) = length xs - (length xs - nat n)"
    using assms by (cases "int (length xs) \<le> n") (auto simp: max_def nat_diff_distrib)
  moreover have "\<not> int (length xs) - 1 < max 0 (int (length xs) - n)" using False assms by (cases xs) auto
  ultimately show ?thesis using assms by (simp only: redis_range_def Let_def) simp
qed (simp add: redis_range_def)

lemma redis_value_upd: "redis_value ms k (db(k' := x)) = (if k = k' then
     (case x of None \<Rightarrow> None | Some (v, e) \<Rightarrow> if key_live ms e then Some (v, e) else None) else redis_value ms k db)"
  by (simp add: redis_value_def)

lemma redis_value_SomeD: "redis_value ms k db = Some (v, e) \<Longrightarrow> db k = Some (v, e) \<and> key_live ms e"
  by (auto simp: redis_value_def split: option.splits if_splits)

lemma key_live_None [simp]: "key_live ms None"
  by (simp add: key_live_def)

lemma key_live_mono: "ms \<le> ms' \<Longrightarrow> key_live ms' e \<Longrightarrow> key_live ms e"
  by (auto simp: key_live_def split: option.splits)

end
