(* ===== verification/ReplayRedis.thy ===== *)
theory ReplayRedis
  imports Redis ReplayWindow
begin

text \<open>
  The replay window on Redis (\<^verbatim>\<open>services/page-service/internal/adapters/redis/replay_window_store.go\<close>): a list
  for every page, to which entries are pushed and of which the last ones are kept; the whole list expires. The
  text of an entry is read back as the entry. \<open>unreached\<close> says whether the server is not reached, or its answer lost,
  \<open>rw_server\<close> what its clock reads.
\<close>

record redis_replay =
  rr_db :: "replay_entry redis"
  rr_limit :: int
  rr_server :: int

definition new_redis_replay :: "int \<Rightarrow> int \<Rightarrow> redis_replay" where
  "new_redis_replay limit server = \<lparr>rr_db = Map.empty, rr_limit = (if limit \<le> 0 then 32 else limit), rr_server = server\<rparr>"

definition replay_key :: "string \<Rightarrow> string" where
  "replay_key pageID = ''page:replay-window:'' @ pageID"

definition redis_append ::
  "redis_failure option \<Rightarrow> replay_entry \<Rightarrow> duration \<Rightarrow> redis_replay \<Rightarrow> string option \<times> redis_replay" where
  "redis_append unreached entry ttl s =
     (let key = replay_key (re_page entry);
          (err, db) = redis_pipeline unreached
            ([redis_rpush (rr_server s) key entry, redis_ltrim (rr_server s) key (- rr_limit s) (-1)]
             @ (if 0 < ttl then [redis_expire (rr_server s) key ttl] else [])) (rr_db s)
      in (err, s\<lparr>rr_db := db\<rparr>))"

definition redis_list_since ::
  "redis_failure option \<Rightarrow> redis_replay \<Rightarrow> string \<Rightarrow> int \<Rightarrow> string + replay_entry list" where
  "redis_list_since unreached s pageID fromRevisionNo =
     (case unreached of
        Some failure \<Rightarrow> Inl (redis_error failure)
      | None \<Rightarrow>
          (case redis_lrange (rr_server s) (replay_key pageID) 0 (-1) (rr_db s) of
             Inl err \<Rightarrow> Inl err
           | Inr entries \<Rightarrow> Inr (filter (\<lambda>entry. fromRevisionNo < re_no entry) entries)))"

definition redis_replay_ops :: "redis_failure option \<Rightarrow> redis_replay replay_ops" where
  "redis_replay_ops unreached =
     \<lparr>ro_append = redis_append unreached, ro_list_since = redis_list_since unreached\<rparr>"

lemma redis_replay_ops_simps [simp]:
  "ro_append (redis_replay_ops u) = redis_append u" "ro_list_since (redis_replay_ops u) = redis_list_since u"
  by (simp_all add: redis_replay_ops_def)

lemma replay_key_inj [simp]: "replay_key p = replay_key q \<longleftrightarrow> p = q"
  by (simp add: replay_key_def)

text \<open>Under the key of a page there is nothing, or a list of at most \<open>rr_limit\<close> entries of the page.\<close>

definition page_entries :: "redis_replay \<Rightarrow> string \<Rightarrow> replay_entry list" where
  "page_entries s p = (case redis_value (rr_server s) (replay_key p) (rr_db s) of Some (RList xs, _) \<Rightarrow> xs | _ \<Rightarrow> [])"

definition window_ok :: "int \<Rightarrow> string \<Rightarrow> (replay_entry redis_value \<times> int option) option \<Rightarrow> bool" where
  "window_ok limit p stored = (case stored of
      None \<Rightarrow> True
    | Some (v, _) \<Rightarrow> (\<exists>xs. v = RList xs \<and> length xs \<le> nat limit \<and> (\<forall>e \<in> set xs. re_page e = p)))"

definition redis_replay_inv :: "redis_replay \<Rightarrow> bool" where
  "redis_replay_inv s \<longleftrightarrow> 0 < rr_limit s \<and> (\<forall>p. window_ok (rr_limit s) p (rr_db s (replay_key p)))"

lemma redis_replay_inv_new: "redis_replay_inv (new_redis_replay limit server)"
  by (simp add: redis_replay_inv_def window_ok_def new_redis_replay_def)

lemma redis_replay_value:
  assumes "redis_replay_inv s"
  shows "redis_value (rr_server s) (replay_key p) (rr_db s) = None \<and> page_entries s p = []
     \<or> (\<exists>e. redis_value (rr_server s) (replay_key p) (rr_db s) = Some (RList (page_entries s p), e)
          \<and> length (page_entries s p) \<le> nat (rr_limit s) \<and> (\<forall>x \<in> set (page_entries s p). re_page x = p))"
proof (cases "redis_value (rr_server s) (replay_key p) (rr_db s)")
  case (Some ve)
  then obtain v e where ve: "redis_value (rr_server s) (replay_key p) (rr_db s) = Some (v, e)" by (cases ve) auto
  then have "rr_db s (replay_key p) = Some (v, e)" using redis_value_SomeD by blast
  then obtain xs where "v = RList xs" "length xs \<le> nat (rr_limit s)" "\<forall>x \<in> set xs. re_page x = p"
    using assms by (auto simp: redis_replay_inv_def window_ok_def dest!: spec [where x = p])
  with ve show ?thesis by (auto simp: page_entries_def)
qed (simp add: page_entries_def)

text \<open>What is listed, and what an append leaves under the key of its page.\<close>

lemma redis_list_entries:
  assumes "redis_replay_inv s"
  shows "redis_list_since unreached s p n =
     (case unreached of Some failure \<Rightarrow> Inl (redis_error failure) | None \<Rightarrow> Inr (filter (\<lambda>e. n < re_no e) (page_entries s p)))"
  using redis_replay_value [OF assms, of p]
  by (auto simp: redis_list_since_def redis_lrange_def split: option.splits)

lemma redis_append_reached:
  assumes "redis_replay_inv s"
  shows "\<exists>e. redis_append None entry ttl s = (None, s\<lparr>rr_db := (rr_db s)(replay_key (re_page entry) \<mapsto>
     (RList (keep_last (nat (rr_limit s)) (page_entries s (re_page entry) @ [entry])), e))\<rparr>)
   \<and> key_live (rr_server s) e"
proof -
  let ?k = "replay_key (re_page entry)" and ?es = "page_entries s (re_page entry) @ [entry]"
  have limit: "0 < rr_limit s" using assms by (simp add: redis_replay_inv_def)
  obtain e where push: "redis_rpush (rr_server s) ?k entry (rr_db s) = (None, (rr_db s)(?k \<mapsto> (RList ?es, e)))"
    and live: "key_live (rr_server s) e"
  proof (cases "redis_value (rr_server s) ?k (rr_db s)")
    case None
    then show ?thesis using that [of None] redis_replay_value [OF assms, of "re_page entry"]
      by (simp add: redis_rpush_def)
  next
    case (Some ve)
    then obtain e where "redis_value (rr_server s) ?k (rr_db s) = Some (RList (page_entries s (re_page entry)), e)"
      using redis_replay_value [OF assms, of "re_page entry"] by auto
    then show ?thesis using that [of e] redis_value_SomeD by (fastforce simp: redis_rpush_def)
  qed
  have kept: "redis_range (- rr_limit s) (-1) ?es = keep_last (nat (rr_limit s)) ?es"
    using redis_range_last [OF limit, of ?es] by (simp add: keep_last_def)
  have ne: "keep_last (nat (rr_limit s)) ?es \<noteq> []"
    using limit keep_last_snoc [of "nat (rr_limit s)" entry "page_entries s (re_page entry)"] by auto
  have trim: "redis_ltrim (rr_server s) ?k (- rr_limit s) (-1) ((rr_db s)(?k \<mapsto> (RList ?es, e)))
      = (None, (rr_db s)(?k \<mapsto> (RList (keep_last (nat (rr_limit s)) ?es), e)))"
    using live ne by (simp add: redis_ltrim_def redis_value_upd kept Let_def)
  show ?thesis
  proof (cases "0 < ttl")
    case False
    then show ?thesis using live
      by (intro exI [of _ e]) (simp add: redis_append_def redis_pipeline_def Let_def push trim)
  next
    case True
    define secs where "secs = (if 0 < ttl \<and> ttl < second then 1 else ttl div second)"
    have "0 < secs" using True by (auto simp: secs_def second_def pos_imp_zdiv_pos_iff)
    then have "redis_expire (rr_server s) ?k ttl ((rr_db s)(?k \<mapsto> (RList (keep_last (nat (rr_limit s)) ?es), e)))
        = (None, (rr_db s)(?k \<mapsto> (RList (keep_last (nat (rr_limit s)) ?es), Some (rr_server s + secs * 1000))))"
      using live by (simp add: redis_expire_def redis_value_upd secs_def [symmetric] Let_def)
    moreover have "key_live (rr_server s) (Some (rr_server s + secs * 1000))"
      using \<open>0 < secs\<close> by (simp add: key_live_def)
    ultimately show ?thesis using True
      by (intro exI [of _ "Some (rr_server s + secs * 1000)"])
         (simp add: redis_append_def redis_pipeline_def Let_def push trim)
  qed
qed

lemma redis_append_ran:
  assumes "redis_append unreached entry ttl s = (err, s')" and "s' \<noteq> s"
  shows "s' = snd (redis_append None entry ttl s)"
  using assms
  by (auto simp: redis_append_def redis_pipeline_def Let_def simp del: redis_exec.simps
      split: prod.splits option.splits redis_failure.splits)

lemma redis_append_entries:
  assumes "redis_replay_inv s" and "redis_append unreached entry ttl s = (err, s')"
  shows "redis_replay_inv s' \<and> rr_server s' = rr_server s \<and>
     (s' = s \<or> (page_entries s' (re_page entry)
                  = keep_last (nat (rr_limit s)) (page_entries s (re_page entry) @ [entry])
               \<and> (\<forall>p. p \<noteq> re_page entry \<longrightarrow> page_entries s' p = page_entries s p)))"
proof (cases "s' = s")
  case True
  then show ?thesis using assms(1) by simp
next
  case False
  let ?es = "keep_last (nat (rr_limit s)) (page_entries s (re_page entry) @ [entry])"
  obtain e where s': "s' = s\<lparr>rr_db := (rr_db s)(replay_key (re_page entry) \<mapsto> (RList ?es, e))\<rparr>"
    and live: "key_live (rr_server s) e"
    using redis_append_reached [OF assms(1), of entry ttl] redis_append_ran [OF assms(2) False] by auto
  have "\<forall>x \<in> set ?es. re_page x = re_page entry"
    using redis_replay_value [OF assms(1), of "re_page entry"] keep_last_subset by fastforce
  with assms(1) keep_last_length [of "nat (rr_limit s)"] have "redis_replay_inv s'"
    by (simp add: redis_replay_inv_def s') (simp add: window_ok_def)
  moreover have "page_entries s' (re_page entry) = ?es"
    using live by (simp add: page_entries_def s' redis_value_upd)
  moreover have "page_entries s' p = page_entries s p" if "p \<noteq> re_page entry" for p
    using that by (simp add: page_entries_def s' redis_value_upd)
  ultimately show ?thesis by (auto simp: s')
qed

interpretation redis_window: replay_window "redis_replay_ops unreached" redis_replay_inv for unreached
proof (unfold_locales, unfold redis_replay_ops_simps, goal_cases)
  case (1 r e ttl err r')
  then show ?case using redis_append_entries by blast
next
  case (2 r p n es e)
  then show ?case using redis_replay_value [OF 2(1), of p]
    by (auto simp: redis_list_entries split: option.splits)
next
  case (3 r e ttl err r' p n)
  then show ?case using redis_append_entries [OF 3(1,2)] by (auto simp: redis_list_entries split: option.splits)
next
  case (4 r e ttl err r' n es es' x)
  have "set (page_entries r' (re_page e)) \<subseteq> insert e (set (page_entries r (re_page e)))"
    using redis_append_entries [OF 4(1,2)] keep_last_subset by fastforce
  then show ?case using 4 redis_append_entries [OF 4(1,2)]
    by (auto simp: redis_list_entries split: option.splits)
qed

text \<open>The list of a page is bounded, whatever is appended.\<close>

lemma redis_window_bounded:
  assumes "redis_replay_inv s" and "redis_list_since unreached s p n = Inr es"
  shows "length es \<le> nat (rr_limit s)"
proof -
  have "es = filter (\<lambda>e. n < re_no e) (page_entries s p)"
    using assms(2) by (simp add: redis_list_entries [OF assms(1)] split: option.splits)
  moreover have "length (page_entries s p) \<le> nat (rr_limit s)"
    using redis_replay_value [OF assms(1), of p] by auto
  ultimately show ?thesis using length_filter_le order_trans by blast
qed

end
