(* ===== verification/CollabRedis.thy ===== *)
theory CollabRedis
  imports Redis CollabStores Wire
begin

text \<open>
  Rooms and presence on Redis (\<^verbatim>\<open>services/collaboration-service/internal/adapters/redis\<close>). A room is a string
  under its key; the sessions of a room are a set, its index, beside a string for every session that expires on
  its own. The service's clock and the server's are one, which the server reads in milliseconds; \<open>unreached\<close>
  says of a key whether the server is not reached, or its answer lost.
\<close>

type_synonym redis_fault = "string \<Rightarrow> redis_failure option"

section \<open>Presence\<close>

definition member_redis_key :: "string \<Rightarrow> string \<Rightarrow> string" where
  "member_redis_key roomID sessionID = ''collab:presence:'' @ roomID @ '':'' @ sessionID"

definition room_index_key :: "string \<Rightarrow> string" where
  "room_index_key roomID = ''collab:presence:index:'' @ roomID"

definition redis_upsert ::
  "redis_fault \<Rightarrow> gotime \<Rightarrow> presence_member \<Rightarrow> duration \<Rightarrow> presence_member redis \<Rightarrow>
   string option \<times> presence_member redis" where
  "redis_upsert unreached now member ttl db =
     (let member = member\<lparr>pm_last_seen := now + ttl\<rparr>;
          key = member_redis_key (pm_room member) (pm_session member)
      in redis_pipeline (unreached key)
           [redis_set (server_ms now) key member ttl,
            redis_sadd (server_ms now) (room_index_key (pm_room member)) (pm_session member)] db)"

definition redis_get_member ::
  "redis_fault \<Rightarrow> gotime \<Rightarrow> string \<Rightarrow> string \<Rightarrow> presence_member redis \<Rightarrow> string + presence_member option" where
  "redis_get_member unreached now roomID sessionID db =
     (case unreached (member_redis_key roomID sessionID) of
        Some failure \<Rightarrow> Inl (redis_error failure)
      | None \<Rightarrow> redis_get (server_ms now) (member_redis_key roomID sessionID) db)"

definition redis_touch ::
  "redis_fault \<Rightarrow> string \<Rightarrow> string \<Rightarrow> cursor option \<Rightarrow> selection option \<Rightarrow> gotime \<Rightarrow> duration \<Rightarrow>
   presence_member redis \<Rightarrow> (presence_error + presence_member) \<times> presence_member redis" where
  "redis_touch unreached roomID sessionID c sel seenAt ttl db =
     (case redis_get_member unreached seenAt roomID sessionID db of
        Inl err \<Rightarrow> (Inl (ErrPresence err), db)
      | Inr None \<Rightarrow> (Inl ErrSessionNotFound, db)
      | Inr (Some member) \<Rightarrow>
          let member = member\<lparr>pm_cursor := c\<rparr>;
              member = (if sel \<noteq> None then member\<lparr>pm_selection := sel\<rparr> else member);
              member = member\<lparr>pm_last_seen := seenAt + ttl\<rparr>
          in (case redis_upsert unreached seenAt member ttl db of
                (Some err, db) \<Rightarrow> (Inl (ErrPresence err), db)
              | (None, db) \<Rightarrow> (Inr member, db)))"

text \<open>No index expires, so that it does not matter when a session is taken out of it.\<close>

definition redis_remove ::
  "redis_fault \<Rightarrow> string \<Rightarrow> string \<Rightarrow> presence_member redis \<Rightarrow> string option \<times> presence_member redis" where
  "redis_remove unreached roomID sessionID db =
     redis_pipeline (unreached (member_redis_key roomID sessionID))
       [redis_del (member_redis_key roomID sessionID), redis_srem 0 (room_index_key roomID) sessionID] db"

text \<open>The loop of \<open>List\<close>: a session whose string is gone is taken out of the index, if the server is reached.\<close>

fun redis_members ::
  "redis_fault \<Rightarrow> gotime \<Rightarrow> string \<Rightarrow> string list \<Rightarrow> presence_member redis \<Rightarrow>
   (string + presence_member list) \<times> presence_member redis" where
  "redis_members unreached now roomID [] db = (Inr [], db)"
| "redis_members unreached now roomID (sessionID # sessionIDs) db =
     (case redis_get_member unreached now roomID sessionID db of
        Inl err \<Rightarrow> (Inl err, db)
      | Inr None \<Rightarrow>
          redis_members unreached now roomID sessionIDs
            (snd (redis_pipeline (unreached (room_index_key roomID))
               [redis_srem (server_ms now) (room_index_key roomID) sessionID] db))
      | Inr (Some member) \<Rightarrow>
          (case redis_members unreached now roomID sessionIDs db of
             (Inl err, db) \<Rightarrow> (Inl err, db)
           | (Inr members, db) \<Rightarrow> (Inr (member # members), db)))"

definition redis_list ::
  "redis_fault \<Rightarrow> gotime \<Rightarrow> string \<Rightarrow> presence_member redis \<Rightarrow>
   (string + presence_member list) \<times> presence_member redis" where
  "redis_list unreached now roomID db =
     (case unreached (room_index_key roomID) of
        Some failure \<Rightarrow> (Inl (redis_error failure), db)
      | None \<Rightarrow>
          (case redis_smembers (server_ms now) (room_index_key roomID) db of
             Inl err \<Rightarrow> (Inl err, db)
           | Inr sessionIDs \<Rightarrow> redis_members unreached now roomID sessionIDs db))"

definition redis_presence_ops :: "redis_fault \<Rightarrow> presence_member redis presence_ops" where
  "redis_presence_ops unreached =
     \<lparr>pr_upsert = redis_upsert unreached, pr_touch = redis_touch unreached, pr_remove = redis_remove unreached,
      pr_list = redis_list unreached\<rparr>"

section \<open>Rooms\<close>

text \<open>A room is stored as its fields and the JSON of its document.\<close>

definition room_redis_key :: "string \<Rightarrow> string" where
  "room_redis_key roomID = ''collab:rooms:'' @ roomID"

definition redis_room_get ::
  "redis_fault \<Rightarrow> gotime \<Rightarrow> string \<Rightarrow> (room_state \<times> json) redis \<Rightarrow> string + room_state option" where
  "redis_room_get unreached now roomID db =
     (case unreached (room_redis_key roomID) of
        Some failure \<Rightarrow> Inl (redis_error failure)
      | None \<Rightarrow>
          (case redis_get (server_ms now) (room_redis_key roomID) db of
             Inl err \<Rightarrow> Inl err
           | Inr None \<Rightarrow> Inr None
           | Inr (Some (st, document)) \<Rightarrow>
               (case cdocument_of_json document of
                  None \<Rightarrow> Inl ''json: cannot unmarshal''
                | Some d \<Rightarrow> Inr (Some (st\<lparr>rm_document := d\<rparr>)))))"

definition redis_room_save ::
  "redis_fault \<Rightarrow> gotime \<Rightarrow> room_state \<Rightarrow> duration \<Rightarrow> (room_state \<times> json) redis \<Rightarrow>
   string option \<times> (room_state \<times> json) redis" where
  "redis_room_save unreached now st ttl db =
     (let st = st\<lparr>rm_expires := now + ttl\<rparr>
      in redis_pipeline (unreached (room_redis_key (rm_id st)))
           [redis_set (server_ms now) (room_redis_key (rm_id st)) (st, cdocument_json (rm_document st)) ttl] db)"

definition redis_room_delete ::
  "redis_fault \<Rightarrow> string \<Rightarrow> (room_state \<times> json) redis \<Rightarrow> string option \<times> (room_state \<times> json) redis" where
  "redis_room_delete unreached roomID db =
     redis_pipeline (unreached (room_redis_key roomID)) [redis_del (room_redis_key roomID)] db"

definition redis_room_ops :: "redis_fault \<Rightarrow> (room_state \<times> json) redis room_ops" where
  "redis_room_ops unreached =
     \<lparr>rm_get = redis_room_get unreached, rm_save = redis_room_save unreached, rm_delete = redis_room_delete unreached\<rparr>"

section \<open>Facts about presence\<close>

text \<open>
  The keys of sessions are distinct, and none is that of an index, where the session has no colon and the room
  does not begin with \<open>index:\<close>.
\<close>

definition fits_redis :: "string \<Rightarrow> string \<Rightarrow> bool" where
  "fits_redis roomID sessionID \<longleftrightarrow> CHR '':'' \<notin> set sessionID \<and> take 6 (roomID @ '':'') \<noteq> ''index:''"

lemma snoc_colon_eq:
  "x \<notin> set ys \<Longrightarrow> x \<notin> set ys' \<Longrightarrow> xs @ x # ys = xs' @ x # ys' \<Longrightarrow> xs = xs' \<and> ys = ys'"
  by (auto simp: append_eq_append_conv2 Cons_eq_append_conv append_eq_Cons_conv)

lemma member_key_inj:
  "fits_redis k i \<Longrightarrow> fits_redis k' i' \<Longrightarrow> member_redis_key k i = member_redis_key k' i' \<longleftrightarrow> k = k' \<and> i = i'"
  using snoc_colon_eq [of "CHR '':''" i i' k k'] by (auto simp: member_redis_key_def fits_redis_def)

lemma member_key_index:
  assumes "fits_redis k i"
  shows "member_redis_key k i \<noteq> room_index_key k'"
proof
  assume "member_redis_key k i = room_index_key k'"
  then have eq: "k @ '':'' @ i = ''index:'' @ k'" by (simp add: member_redis_key_def room_index_key_def)
  have "take 6 (k @ '':'') = ''index:''"
  proof (cases "5 \<le> length k")
    case True
    then have "take 6 (k @ '':'') = take 6 (k @ '':'' @ i)" by (simp add: take_Cons')
    then show ?thesis unfolding eq by simp
  next
    case False
    have "(k @ '':'' @ i) ! length k = CHR '':''" by simp
    then have "(''index:'' @ k') ! length k = CHR '':''" unfolding eq .
    moreover have "length k < 5" using False by simp
    ultimately show ?thesis by (auto simp: less_Suc_eq nth_append numeral_eq_Suc)
  qed
  then show False using assms by (simp add: fits_redis_def)
qed

lemma index_key_inj [simp]: "room_index_key k = room_index_key k' \<longleftrightarrow> k = k'"
  by (simp add: room_index_key_def)

definition index_ok :: "string \<Rightarrow> (presence_member redis_value \<times> int option) option \<Rightarrow> bool" where
  "index_ok k stored = (case stored of
      None \<Rightarrow> True
    | Some (v, e) \<Rightarrow> e = None \<and> (\<exists>xs. v = RSet xs \<and> (\<forall>i \<in> set xs. fits_redis k i)))"

definition member_ok :: "string \<Rightarrow> string \<Rightarrow> (presence_member redis_value \<times> int option) option \<Rightarrow> bool" where
  "member_ok k i stored = (case stored of
      None \<Rightarrow> True
    | Some (v, e) \<Rightarrow> (\<exists>m. v = RString m \<and> pm_session m = i \<and> pm_room m = k))"

definition redis_presence_inv :: "presence_member redis \<Rightarrow> bool" where
  "redis_presence_inv db \<longleftrightarrow> (\<forall>k. index_ok k (db (room_index_key k)))
     \<and> (\<forall>k i. fits_redis k i \<longrightarrow> member_ok k i (db (member_redis_key k i)))"

definition index_of :: "presence_member redis \<Rightarrow> string \<Rightarrow> string list" where
  "index_of db k = (case db (room_index_key k) of Some (RSet xs, _) \<Rightarrow> xs | _ \<Rightarrow> [])"

definition redis_live :: "presence_member redis \<Rightarrow> gotime \<Rightarrow> string \<Rightarrow> string set" where
  "redis_live db t k =
     {i \<in> set (index_of db k). redis_value (server_ms t) (member_redis_key k i) db \<noteq> None}"

text \<open>Until when a string that was set lasts.\<close>

definition redis_until :: "gotime \<Rightarrow> duration \<Rightarrow> gotime \<Rightarrow> bool" where
  "redis_until now ttl t \<longleftrightarrow> ttl \<le> 0 \<or> server_ms t \<le> server_ms now + ttl_ms ttl"

lemma redis_presence_inv_empty: "redis_presence_inv Map.empty"
  by (simp add: redis_presence_inv_def index_ok_def member_ok_def)

lemma redis_indexE:
  assumes "redis_presence_inv db"
  obtains "db (room_index_key k) = None" and "index_of db k = []"
    | "db (room_index_key k) = Some (RSet (index_of db k), None)"
proof -
  have "index_ok k (db (room_index_key k))" using assms by (simp add: redis_presence_inv_def)
  then show thesis using that by (auto simp: index_ok_def index_of_def split: option.splits)
qed

lemma index_fits: "redis_presence_inv db \<Longrightarrow> i \<in> set (index_of db k) \<Longrightarrow> fits_redis k i"
proof -
  assume inv: "redis_presence_inv db" and i: "i \<in> set (index_of db k)"
  have "index_ok k (db (room_index_key k))" using inv by (simp add: redis_presence_inv_def)
  then show "fits_redis k i" using i by (auto simp: index_ok_def index_of_def split: option.splits redis_value.splits)
qed

lemma redis_get_member_cases:
  assumes "redis_presence_inv db" and "fits_redis k i" and "redis_get_member unreached now k i db = Inr found"
  shows "(case redis_value (server_ms now) (member_redis_key k i) db of
       None \<Rightarrow> found = None
     | Some (v, e) \<Rightarrow> \<exists>m. found = Some m \<and> pm_session m = i \<and> pm_room m = k)"
proof (cases "redis_value (server_ms now) (member_redis_key k i) db")
  case None
  then show ?thesis using assms(3) by (simp add: redis_get_member_def redis_get_def split: option.splits)
next
  case (Some ve)
  then obtain v e where ve: "redis_value (server_ms now) (member_redis_key k i) db = Some (v, e)" by (cases ve) auto
  then have "member_ok k i (Some (v, e))"
    using assms(1,2) redis_value_SomeD [OF ve] by (metis redis_presence_inv_def)
  then obtain m where "v = RString m" "pm_session m = i" "pm_room m = k" by (auto simp: member_ok_def)
  then show ?thesis using assms(3) ve by (auto simp: redis_get_member_def redis_get_def split: option.splits)
qed

text \<open>Writing the string of a session and putting it into its index.\<close>

definition put_member :: "presence_member \<Rightarrow> int option \<Rightarrow> presence_member redis \<Rightarrow> presence_member redis" where
  "put_member m e db =
     (let xs = index_of db (pm_room m)
      in db(member_redis_key (pm_room m) (pm_session m) \<mapsto> (RString m, e),
            room_index_key (pm_room m) \<mapsto>
              (RSet (if pm_session m \<in> set xs then xs else xs @ [pm_session m]), None)))"

lemma put_member_inv:
  assumes "redis_presence_inv db" and "fits_redis (pm_room m) (pm_session m)"
  shows "redis_presence_inv (put_member m e db)"
proof -
  let ?db = "put_member m e db"
  have "index_ok k (?db (room_index_key k))" for k
    using assms index_fits [OF assms(1)] member_key_index [OF assms(2), of k, symmetric]
    by (auto simp: put_member_def Let_def index_ok_def redis_presence_inv_def)
  moreover have "member_ok k i (?db (member_redis_key k i))" if "fits_redis k i" for k i
    using assms that member_key_index [OF that] member_key_inj [OF that assms(2)]
    by (auto simp: put_member_def Let_def member_ok_def redis_presence_inv_def)
  ultimately show ?thesis by (simp add: redis_presence_inv_def)
qed

lemma put_member_live:
  assumes "redis_presence_inv db" and "fits_redis (pm_room m) (pm_session m)"
  shows "redis_live (put_member m e db) t k = (if k \<noteq> pm_room m then redis_live db t k
     else if key_live (server_ms t) e then insert (pm_session m) (redis_live db t k)
     else redis_live db t k - {pm_session m})"
proof -
  let ?db = "put_member m e db"
  have index: "set (index_of ?db k) = (if k = pm_room m then insert (pm_session m) (set (index_of db k))
      else set (index_of db k))"
    using member_key_index [OF assms(2), of k] by (auto simp: put_member_def Let_def index_of_def)
  have stored: "redis_value (server_ms t) (member_redis_key k i) ?db =
      (if k = pm_room m \<and> i = pm_session m then if key_live (server_ms t) e then Some (RString m, e) else None
       else redis_value (server_ms t) (member_redis_key k i) db)" if "fits_redis k i" for i
    using member_key_index [OF that] member_key_inj [OF that assms(2)]
    by (simp add: put_member_def Let_def redis_value_upd)
  have fits: "i \<in> set (index_of ?db k) \<Longrightarrow> fits_redis k i" for i
    by (rule index_fits [OF put_member_inv [OF assms]])
  have "i \<in> redis_live ?db t k \<longleftrightarrow> i \<in> (if k \<noteq> pm_room m then redis_live db t k
     else if key_live (server_ms t) e then insert (pm_session m) (redis_live db t k)
     else redis_live db t k - {pm_session m})" for i
  proof (cases "i \<in> set (index_of ?db k)")
    case True
    then show ?thesis using stored [OF fits [OF True]] index by (auto simp: redis_live_def)
  next
    case False
    then show ?thesis using index by (auto simp: redis_live_def split: if_splits)
  qed
  then show ?thesis by blast
qed

lemma redis_upsert_reached:
  assumes "redis_presence_inv db" and "fits_redis (pm_room m) (pm_session m)" and "ttl \<noteq> -1"
  shows "redis_upsert (\<lambda>_. None) now m ttl db
    = (None, put_member (m\<lparr>pm_last_seen := now + ttl\<rparr>) (if 0 < ttl then Some (server_ms now + ttl_ms ttl) else None) db)"
  using assms(1)
proof (cases rule: redis_indexE [where k = "pm_room m"])
  case 1
  then show ?thesis using assms(3) member_key_index [OF assms(2), of "pm_room m"]
    by (auto simp: redis_upsert_def redis_pipeline_def redis_set_def redis_sadd_def redis_value_def put_member_def
        Let_def split: option.splits)
next
  case 2
  then show ?thesis using assms(3) member_key_index [OF assms(2), of "pm_room m"]
    by (auto simp: redis_upsert_def redis_pipeline_def redis_set_def redis_sadd_def redis_value_def put_member_def
        Let_def split: option.splits)
qed

lemma redis_upsert_cases:
  "redis_upsert unreached now m ttl db = (e, db') \<Longrightarrow>
     db' = snd (redis_upsert (\<lambda>_. None) now m ttl db) \<or> e \<noteq> None \<and> db' = db"
  by (auto simp: redis_upsert_def redis_pipeline_def Let_def simp del: redis_exec.simps
      split: option.splits redis_failure.splits)

lemma redis_upsert_ok:
  assumes "redis_presence_inv db" and "fits_redis (pm_room m) (pm_session m)"
    and "redis_upsert unreached now m ttl db = (None, db')" and "ttl \<noteq> -1"
  shows "db' = put_member (m\<lparr>pm_last_seen := now + ttl\<rparr>) (if 0 < ttl then Some (server_ms now + ttl_ms ttl) else None) db"
  using redis_upsert_cases [OF assms(3)] redis_upsert_reached [OF assms(1,2,4)] by simp

text \<open>An upsert that reported an error was made, its answer lost, or was not.\<close>

lemma redis_upsert_failed:
  assumes "redis_presence_inv db" and "fits_redis (pm_room m) (pm_session m)" and "ttl \<noteq> -1"
    and "redis_upsert unreached now m ttl db = (Some err, db')"
  shows "db' = db \<or> redis_upsert (\<lambda>_. None) now m ttl db = (None, db')"
  using redis_upsert_cases [OF assms(4)] redis_upsert_reached [OF assms(1-3)] by (auto simp: prod_eq_iff)

lemma until_expiry: "key_live (server_ms t) (if 0 < ttl then Some (server_ms now + ttl_ms ttl) else None) = redis_until now ttl t"
  by (auto simp: key_live_def redis_until_def)

lemma redis_upsert_live:
  assumes "redis_presence_inv db" and "fits_redis (pm_room m) (pm_session m)" and "ttl \<noteq> -1"
    and "redis_upsert unreached now m ttl db = (None, db')"
  shows "redis_presence_inv db' \<and> redis_live db' t k = (if k \<noteq> pm_room m then redis_live db t k
     else if redis_until now ttl t then insert (pm_session m) (redis_live db t k)
     else redis_live db t k - {pm_session m})"
  using put_member_inv [of db "m\<lparr>pm_last_seen := now + ttl\<rparr>"] put_member_live [of db "m\<lparr>pm_last_seen := now + ttl\<rparr>"]
    redis_upsert_ok [OF assms(1,2,4,3)] assms(1,2) by (simp add: until_expiry)

text \<open>Listing takes out of an index only sessions whose strings are gone.\<close>

definition pruned :: "int \<Rightarrow> string \<Rightarrow> presence_member redis \<Rightarrow> presence_member redis \<Rightarrow> bool" where
  "pruned ms k db db' \<longleftrightarrow> redis_presence_inv db'
     \<and> (\<forall>key. key \<noteq> room_index_key k \<longrightarrow> db' key = db key)
     \<and> set (index_of db' k) \<subseteq> set (index_of db k)
     \<and> (\<forall>i \<in> set (index_of db k) - set (index_of db' k). redis_value ms (member_redis_key k i) db = None)"

lemma pruned_refl: "redis_presence_inv db \<Longrightarrow> pruned ms k db db"
  by (simp add: pruned_def)

lemma pruned_member:
  assumes "pruned ms k db db'" and "fits_redis k' i"
  shows "db' (member_redis_key k' i) = db (member_redis_key k' i)"
  using assms member_key_index [OF assms(2), of k] by (simp add: pruned_def)

lemma pruned_trans:
  assumes "redis_presence_inv db" and "pruned ms k db db1" and "pruned ms k db1 db2"
  shows "pruned ms k db db2"
proof -
  have "redis_value ms (member_redis_key k i) db = None"
    if "i \<in> set (index_of db k) - set (index_of db2 k)" for i
  proof (cases "i \<in> set (index_of db1 k)")
    case True
    have "redis_value ms (member_redis_key k i) db1 = None" using assms(3) that True by (auto simp: pruned_def)
    moreover have "fits_redis k i" using index_fits [OF assms(1)] that by blast
    ultimately show ?thesis using pruned_member [OF assms(2)] by (simp add: redis_value_def)
  next
    case False
    then show ?thesis using assms(2) that by (auto simp: pruned_def)
  qed
  then show ?thesis using assms(2,3) by (auto simp: pruned_def)
qed

lemma pruned_live:
  assumes "redis_presence_inv db" and "pruned (server_ms now) k db db'" and "now \<le> t"
  shows "redis_live db' t k' = redis_live db t k'"
proof -
  have inv: "redis_presence_inv db'" using assms(2) by (simp add: pruned_def)
  have member: "redis_value (server_ms t) (member_redis_key k' i) db' = redis_value (server_ms t) (member_redis_key k' i) db"
    if "fits_redis k' i" for i
    using pruned_member [OF assms(2) that] by (simp add: redis_value_def)
  show ?thesis
  proof (cases "k' = k")
    case False
    then have "index_of db' k' = index_of db k'" using assms(2) by (simp add: pruned_def index_of_def)
    then show ?thesis using member index_fits [OF assms(1)] by (auto simp: redis_live_def)
  next
    case True
    have later: "redis_value (server_ms t) key db = None" if "redis_value (server_ms now) key db = None" for key
      using that key_live_mono [of "server_ms now" "server_ms t"] assms(3)
      by (auto simp: redis_value_def server_ms_def millisecond_def zdiv_mono1 split: option.splits if_splits)
    have "i \<in> redis_live db' t k' \<longleftrightarrow> i \<in> redis_live db t k'" for i
    proof (cases "i \<in> set (index_of db k')")
      case True': True
      then show ?thesis
        using member [OF index_fits [OF assms(1) True']] assms(2) later True
        by (cases "i \<in> set (index_of db' k')") (auto simp: redis_live_def pruned_def)
    next
      case False
      then show ?thesis using assms(2) True by (auto simp: redis_live_def pruned_def)
    qed
    then show ?thesis by blast
  qed
qed

lemma index_removed_inv:
  assumes "redis_presence_inv db"
  shows "redis_presence_inv (db(room_index_key k :=
     if filter (\<lambda>y. y \<noteq> i) (index_of db k) = [] then None else Some (RSet (filter (\<lambda>y. y \<noteq> i) (index_of db k)), None)))"
    (is "redis_presence_inv ?db")
proof -
  have "index_ok k' (?db (room_index_key k'))" for k'
    using assms index_fits [OF assms] by (auto simp: index_ok_def redis_presence_inv_def)
  moreover have "member_ok k' j (?db (member_redis_key k' j))" if "fits_redis k' j" for k' j
    using assms that member_key_index [OF that] by (simp add: redis_presence_inv_def)
  ultimately show ?thesis by (simp add: redis_presence_inv_def)
qed

lemma redis_srem_index:
  assumes "redis_presence_inv db"
  shows "fst (redis_srem ms (room_index_key k) i db) = None
     \<and> redis_presence_inv (snd (redis_srem ms (room_index_key k) i db))
     \<and> (\<forall>key. key \<noteq> room_index_key k \<longrightarrow> snd (redis_srem ms (room_index_key k) i db) key = db key)
     \<and> set (index_of (snd (redis_srem ms (room_index_key k) i db)) k) = set (index_of db k) - {i}"
  using assms
proof (cases rule: redis_indexE [where k = k])
  case 1
  then show ?thesis using assms by (auto simp: redis_srem_def redis_value_def)
next
  case 2
  let ?xs = "filter (\<lambda>y. y \<noteq> i) (index_of db k)"
  have "redis_srem ms (room_index_key k) i db
      = (None, db(room_index_key k := if ?xs = [] then None else Some (RSet ?xs, None)))"
    using 2 by (simp add: redis_srem_def redis_value_def Let_def)
  moreover have "index_of (db(room_index_key k := if ?xs = [] then None else Some (RSet ?xs, None))) k = ?xs"
    by (cases "?xs = []") (simp_all add: index_of_def [of "_(_ := _)"])
  ultimately show ?thesis using index_removed_inv [OF assms, of k i] by auto
qed

lemma redis_srem_pruned:
  assumes "redis_presence_inv db" and "redis_value ms (member_redis_key k i) db = None"
  shows "pruned ms k db (snd (redis_pipeline unreached [redis_srem ms' (room_index_key k) i] db))"
  using redis_srem_index [OF assms(1), of ms' k i] assms pruned_refl [OF assms(1)]
  by (auto simp: redis_pipeline_def pruned_def split: option.splits prod.splits redis_failure.splits)

lemma redis_members_facts:
  assumes "redis_presence_inv db" and "\<forall>i \<in> set ids. fits_redis k i"
    and "redis_members unreached now k ids db = (r, db')"
  shows "pruned (server_ms now) k db db' \<and> (\<forall>members. r = Inr members \<longrightarrow>
     pm_session ` set members = {i \<in> set ids. redis_value (server_ms now) (member_redis_key k i) db \<noteq> None})"
  using assms
proof (induction ids arbitrary: db r db')
  case Nil
  then show ?case by (auto simp: pruned_refl)
next
  case (Cons i ids)
  have fits: "fits_redis k i" "\<forall>i \<in> set ids. fits_redis k i" using Cons.prems(2) by auto
  show ?case
  proof (cases "redis_get_member unreached now k i db")
    case (Inl err)
    then show ?thesis using Cons.prems by (auto simp: pruned_refl)
  next
    case (Inr found)
    note cases = redis_get_member_cases [OF Cons.prems(1) fits(1) Inr]
    show ?thesis
    proof (cases found)
      case None
      then have gone: "redis_value (server_ms now) (member_redis_key k i) db = None"
        using cases by (auto split: option.splits)
      let ?db = "snd (redis_pipeline (unreached (room_index_key k))
          [redis_srem (server_ms now) (room_index_key k) i] db)"
      have pr: "pruned (server_ms now) k db ?db" by (rule redis_srem_pruned [OF Cons.prems(1) gone])
      have rest: "redis_members unreached now k ids ?db = (r, db')" using Cons.prems(3) Inr None by simp
      have inv: "redis_presence_inv ?db" using pr by (simp add: pruned_def)
      note ih = Cons.IH [OF inv fits(2) rest]
      have "redis_value (server_ms now) (member_redis_key k j) ?db = redis_value (server_ms now) (member_redis_key k j) db"
        if "j \<in> set ids" for j
        using pruned_member [OF pr, of k j] fits(2) that by (simp add: redis_value_def)
      then show ?thesis using ih pruned_trans [OF Cons.prems(1) pr] gone by auto
    next
      case (Some m)
      then have m: "pm_session m = i" "redis_value (server_ms now) (member_redis_key k i) db \<noteq> None"
        using cases by (auto split: option.splits)
      obtain r' where rest: "redis_members unreached now k ids db = (r', db')"
        and r: "r = (case r' of Inl err \<Rightarrow> Inl err | Inr members \<Rightarrow> Inr (m # members))"
        using Cons.prems(3) Inr Some by (auto split: prod.splits sum.splits)
      show ?thesis using Cons.IH [OF Cons.prems(1) fits(2) rest] m r by (auto split: sum.splits)
    qed
  qed
qed

lemma redis_list_facts:
  assumes "redis_presence_inv db" and "redis_list unreached now k db = (r, db')"
  shows "pruned (server_ms now) k db db' \<and> (\<forall>members. r = Inr members \<longrightarrow>
     set (map pm_session members) = redis_live db now k)"
proof (cases "unreached (room_index_key k)")
  case (Some err)
  then show ?thesis using assms by (auto simp: redis_list_def pruned_refl)
next
  case None
  have members: "redis_smembers (server_ms now) (room_index_key k) db = Inr (index_of db k)"
    using assms(1) by (rule redis_indexE [where k = k]) (simp_all add: redis_smembers_def redis_value_def)
  then have run: "redis_members unreached now k (index_of db k) db = (r, db')"
    using assms(2) None by (simp add: redis_list_def)
  show ?thesis
    using redis_members_facts [OF assms(1) _ run] index_fits [OF assms(1)] by (simp add: redis_live_def)
qed

lemma redis_remove_live:
  assumes "redis_presence_inv db" and "fits_redis k i" and "redis_remove unreached k i db = (None, db')"
  shows "redis_presence_inv db' \<and> redis_live db' t k' = (if k' = k then redis_live db t k' - {i} else redis_live db t k')"
proof -
  let ?db = "db(member_redis_key k i := None)"
  have index: "?db (room_index_key j) = db (room_index_key j)" for j
    using member_key_index [OF assms(2), of j] by auto
  then have index_of: "index_of ?db j = index_of db j" for j by (simp add: index_of_def)
  have inv: "redis_presence_inv ?db"
    using assms(1) index by (auto simp: redis_presence_inv_def member_ok_def)
  have db': "db' = snd (redis_srem 0 (room_index_key k) i ?db)"
    using assms(3) by (auto simp: redis_remove_def redis_pipeline_def redis_del_def Let_def
        split: option.splits prod.splits redis_failure.splits)
  note removed = redis_srem_index [OF inv, of 0 k i, folded db']
  have inv': "redis_presence_inv db'" using removed by blast
  have indices: "set (index_of db' j) = (if j = k then set (index_of db j) - {i} else set (index_of db j))" for j
  proof (cases "j = k")
    case True
    then show ?thesis using removed index_of [of k] by simp
  next
    case False
    then have "db' (room_index_key j) = db (room_index_key j)" using removed index [of j] by simp
    then show ?thesis using False by (simp add: index_of_def)
  qed
  have "redis_value (server_ms t) (member_redis_key j l) db' = redis_value (server_ms t) (member_redis_key j l) db"
    if "fits_redis j l" and "(j, l) \<noteq> (k, i)" for j l
    using that removed member_key_index [OF that(1), of k] member_key_inj [OF that(1) assms(2)]
    by (auto simp: redis_value_def)
  then show ?thesis
    using inv' indices index_fits [OF inv'] index_fits [OF assms(1)] by (auto simp: redis_live_def)
qed

lemma redis_touch_live:
  assumes "redis_presence_inv db" and "fits_redis k i" and "ttl \<noteq> -1"
    and "redis_touch unreached k i c sel seenAt ttl db = (Inr m, db')"
  shows "redis_presence_inv db' \<and> redis_live db' t k' = (if k' \<noteq> k then redis_live db t k'
     else if redis_until seenAt ttl t then insert i (redis_live db t k') else redis_live db t k' - {i})"
proof -
  obtain m0 where m0: "redis_get_member unreached seenAt k i db = Inr (Some m0)"
    and m: "m = (if sel \<noteq> None then m0\<lparr>pm_cursor := c, pm_selection := sel\<rparr> else m0\<lparr>pm_cursor := c\<rparr>)\<lparr>pm_last_seen := seenAt + ttl\<rparr>"
    and up: "redis_upsert unreached seenAt m ttl db = (None, db')"
    using assms(4) by (auto simp: redis_touch_def Let_def split: sum.splits option.splits prod.splits if_splits)
  have "pm_session m0 = i \<and> pm_room m0 = k"
    using redis_get_member_cases [OF assms(1,2) m0] by (auto split: option.splits)
  then have "pm_session m = i" "pm_room m = k" by (auto simp: m)
  then show ?thesis using redis_upsert_live [OF assms(1) _ assms(3) up] assms(2) by simp
qed

lemma redis_touch_failed:
  assumes "redis_presence_inv db" and "fits_redis k i" and "ttl \<noteq> -1"
    and "redis_touch unreached k i c sel seenAt ttl db = (Inl err, db')"
  shows "db' = db \<or> (\<exists>m. redis_touch (\<lambda>_. None) k i c sel seenAt ttl db = (Inr m, db'))"
proof (cases "redis_get_member unreached seenAt k i db")
  case (Inl e)
  then show ?thesis using assms(4) by (simp add: redis_touch_def)
next
  case (Inr found)
  then have reached: "redis_get_member (\<lambda>_. None) seenAt k i db = Inr found"
    by (simp add: redis_get_member_def split: option.splits)
  show ?thesis
  proof (cases found)
    case None
    then show ?thesis using assms(4) Inr by (simp add: redis_touch_def)
  next
    case (Some m0)
    define m where "m = (if sel \<noteq> None then m0\<lparr>pm_cursor := c, pm_selection := sel\<rparr> else m0\<lparr>pm_cursor := c\<rparr>)\<lparr>pm_last_seen := seenAt + ttl\<rparr>"
    have "pm_session m0 = i \<and> pm_room m0 = k"
      using redis_get_member_cases [OF assms(1,2) Inr] Some by (auto split: option.splits)
    then have "pm_session m = i" "pm_room m = k" by (auto simp: m_def)
    moreover obtain e where "redis_upsert unreached seenAt m ttl db = (Some e, db')"
      using assms(4) Inr Some
      by (auto simp: redis_touch_def m_def Let_def split: sum.splits option.splits prod.splits if_splits)
    ultimately consider "db' = db" | "redis_upsert (\<lambda>_. None) seenAt m ttl db = (None, db')"
      using redis_upsert_failed [OF assms(1) _ assms(3)] assms(2) by metis
    then show ?thesis
    proof cases
      case 2
      then have "redis_touch (\<lambda>_. None) k i c sel seenAt ttl db = (Inr m, db')"
        using reached Some by (auto simp: redis_touch_def m_def Let_def)
      then show ?thesis by blast
    qed simp
  qed
qed

section \<open>Facts about rooms\<close>

text \<open>A room that was saved is read back, with its document as JSON keeps it, until its time is over.\<close>

lemma redis_room_saved:
  assumes "redis_room_save unreached now st ttl db = (None, db')" and "ttl \<noteq> -1"
    and "redis_room_get unreached t k db' = Inr found"
  shows "found = (if k \<noteq> rm_id st then (case redis_room_get unreached t k db of Inr old \<Rightarrow> old | Inl _ \<Rightarrow> found)
     else if redis_until now ttl t then
       map_option (\<lambda>d. st\<lparr>rm_expires := now + ttl, rm_document := d\<rparr>) (cdocument_of_json (cdocument_json (rm_document st)))
     else None)"
proof -
  have db': "db' = db(room_redis_key (rm_id st) \<mapsto> (RString (st\<lparr>rm_expires := now + ttl\<rparr>, cdocument_json (rm_document st)),
      if 0 < ttl then Some (server_ms now + ttl_ms ttl) else None))"
    using assms(1,2)
    by (auto simp: redis_room_save_def redis_pipeline_def redis_set_def Let_def split: option.splits redis_failure.splits)
  show ?thesis
  proof (cases "k = rm_id st")
    case True
    then show ?thesis using assms(3) until_expiry [of t ttl now]
      by (auto simp: redis_room_get_def redis_get_def redis_value_def db' split: option.splits if_splits)
  next
    case False
    then have "room_redis_key k \<noteq> room_redis_key (rm_id st)" by (simp add: room_redis_key_def)
    then have same: "redis_get (server_ms t) (room_redis_key k) db' = redis_get (server_ms t) (room_redis_key k) db"
      by (simp add: redis_get_def redis_value_def db')
    have "redis_room_get unreached t k db' = redis_room_get unreached t k db"
      unfolding redis_room_get_def same by (rule refl)
    then have "redis_room_get unreached t k db = Inr found" using assms(3) by simp
    then show ?thesis using False by simp
  qed
qed

section \<open>Presence on Redis is a presence store\<close>

interpretation redis_presence: presence_store "redis_presence_ops unreached" redis_presence_inv redis_live
  fits_redis "\<lambda>ttl. ttl \<noteq> -1" redis_until for unreached
proof (unfold_locales, unfold redis_presence_ops_def presence_ops.simps, goal_cases)
  case (1 s now k members s')
  then show ?case using redis_list_facts by blast
next
  case (2 s now k r s')
  then have pr: "pruned (server_ms now) k s s'" using redis_list_facts by blast
  then have "redis_presence_inv s'" by (simp add: pruned_def)
  then show ?case using pruned_live [OF 2(1) pr] by simp
next
  case (3 s m ttl now s' t k)
  then show ?case by (rule redis_upsert_live)
next
  case (4 s k i s' t k')
  then show ?case by (rule redis_remove_live)
next
  case (5 s k i ttl c sel seenAt m s' t k')
  then show ?case by (rule redis_touch_live)
next
  case (6 s k i ttl c sel seenAt err s' t k')
  from redis_touch_failed [OF 6] consider "s' = s" | m where "redis_touch (\<lambda>_. None) k i c sel seenAt ttl s = (Inr m, s')"
    by blast
  then show ?case
  proof cases
    case 2
    then show ?thesis using redis_touch_live [OF 6(1-3) 2, of t k'] by blast
  qed (use 6(1) in simp)
qed

section \<open>Properties\<close>

text \<open>
  C21: Presence on Redis ends with the time to live. After a session was put into its room, a listing shows it
  exactly until the time to live, in milliseconds of the server, is over, and shows of the others those that
  were there; and a heartbeat that comes later is refused instead of bringing the session back.
\<close>

theorem redis_presence_expires:
  assumes "redis_presence_inv db" and "fits_redis (pm_room m) (pm_session m)" and "0 < ttl"
    and "redis_upsert unreached now m ttl db = (None, db1)"
    and "redis_list unreached t (pm_room m) db1 = (Inr members, db2)"
  shows "(pm_session m \<in> set (map pm_session members) \<longleftrightarrow> server_ms t \<le> server_ms now + ttl_ms ttl)
     \<and> set (map pm_session members) - {pm_session m} = redis_live db t (pm_room m) - {pm_session m}
     \<and> (server_ms now + ttl_ms ttl < server_ms t \<and> unreached (member_redis_key (pm_room m) (pm_session m)) = None \<longrightarrow>
          redis_touch unreached (pm_room m) (pm_session m) c sel t ttl db1 = (Inl ErrSessionNotFound, db1))"
proof -
  have last: "ttl \<noteq> -1" using assms(3) by simp
  note up = redis_upsert_live [OF assms(1,2) last assms(4), of t "pm_room m"]
  have listed: "set (map pm_session members) = redis_live db1 t (pm_room m)"
    using redis_list_facts [OF _ assms(5)] up by blast
  have until: "redis_until now ttl t \<longleftrightarrow> server_ms t \<le> server_ms now + ttl_ms ttl"
    using assms(3) by (simp add: redis_until_def)
  have late: "redis_touch unreached (pm_room m) (pm_session m) c sel t ttl db1 = (Inl ErrSessionNotFound, db1)"
    if "server_ms now + ttl_ms ttl < server_ms t" and "unreached (member_redis_key (pm_room m) (pm_session m)) = None"
  proof -
    have "db1 (member_redis_key (pm_room m) (pm_session m)) =
        Some (RString (m\<lparr>pm_last_seen := now + ttl\<rparr>), Some (server_ms now + ttl_ms ttl))"
      using redis_upsert_ok [OF assms(1,2,4) last] assms(3) member_key_index [OF assms(2), of "pm_room m"]
      by (simp add: put_member_def Let_def)
    then show ?thesis
      using that by (simp add: redis_touch_def redis_get_member_def redis_get_def redis_value_def key_live_def)
  qed
  show ?thesis using up listed until late by auto
qed

definition redis_sample_member :: "string \<Rightarrow> presence_member" where
  "redis_sample_member i = \<lparr>pm_room = ''w::p'', pm_session = i, pm_user = ''u'', pm_name = ''U'', pm_cursor = None,
     pm_selection = None, pm_last_seen = 0, pm_last_patch = '''', pm_workspace = ''w'', pm_page = ''p''\<rparr>"

definition redis_sample :: "presence_member redis" where
  "redis_sample = snd (redis_upsert (\<lambda>_. None) 0 (redis_sample_member ''s1'') (9 * second) Map.empty)"

lemma redis_sample_runs:
  "redis_upsert (\<lambda>_. None) 0 (redis_sample_member ''s1'') (9 * second) Map.empty = (None, redis_sample)"
  "fst (redis_list (\<lambda>_. None) (10 * second) ''w::p''
      (snd (redis_upsert (\<lambda>_. None) second (redis_sample_member ''s2'') (30 * second) redis_sample))) =
    Inr [(redis_sample_member ''s2'')\<lparr>pm_last_seen := 31 * second\<rparr>]"
proof -
  have "fst (redis_upsert (\<lambda>_. None) 0 (redis_sample_member ''s1'') (9 * second) Map.empty) = None" by code_simp
  then show "redis_upsert (\<lambda>_. None) 0 (redis_sample_member ''s1'') (9 * second) Map.empty = (None, redis_sample)"
    by (simp add: redis_sample_def prod_eq_iff)
  show "fst (redis_list (\<lambda>_. None) (10 * second) ''w::p''
      (snd (redis_upsert (\<lambda>_. None) second (redis_sample_member ''s2'') (30 * second) redis_sample))) =
    Inr [(redis_sample_member ''s2'')\<lparr>pm_last_seen := 31 * second\<rparr>]" by code_simp
qed

theorem redis_presence_expires_witness:
  "redis_touch (\<lambda>_. None) ''w::p'' ''s1'' None None (10 * second) (9 * second) redis_sample
     = (Inl ErrSessionNotFound, redis_sample)"
proof -
  have fits: "fits_redis (pm_room (redis_sample_member ''s1'')) (pm_session (redis_sample_member ''s1''))" by code_simp
  obtain members db where listed: "redis_list (\<lambda>_. None) (10 * second) (pm_room (redis_sample_member ''s1'')) redis_sample
      = (Inr members, db)"
  proof -
    have "(case fst (redis_list (\<lambda>_. None) (10 * second) (pm_room (redis_sample_member ''s1'')) redis_sample) of
        Inl _ \<Rightarrow> False | Inr _ \<Rightarrow> True)" by code_simp
    then show thesis using that by (metis (no_types, lifting) old.sum.simps(5) prod.collapse sum.exhaust)
  qed
  have "server_ms 0 + ttl_ms (9 * second) < server_ms (10 * second)" and "0 < 9 * second" by code_simp+
  with redis_presence_expires [OF redis_presence_inv_empty fits _ redis_sample_runs(1) listed, of None None]
  show ?thesis by (simp add: redis_sample_member_def)
qed

end
