(* ===== verification/Environment.thy ===== *)
theory Environment
  imports Http Outbox
begin

text \<open>
  How the processes read their configuration: the helpers that every \<^verbatim>\<open>cmd/server/main.go\<close> has, and what each
  process takes from its environment. \<open>os.Getenv\<close> answers an unset variable with the empty string, so an
  environment is a function. \<open>time.ParseDuration\<close> is a parameter.
\<close>

section \<open>Reading variables\<close>

type_synonym environment = "string \<Rightarrow> string"

definition getenv :: "environment \<Rightarrow> string \<Rightarrow> string \<Rightarrow> string" where
  "getenv env key fallback = (if env key \<noteq> '''' then env key else fallback)"

fun getenv_any :: "environment \<Rightarrow> string \<Rightarrow> string list \<Rightarrow> string" where
  "getenv_any env fallback [] = fallback"
| "getenv_any env fallback (key # keys) =
     (if env key \<noteq> '''' then env key else getenv_any env fallback keys)"

text \<open>\<open>strconv.Atoi\<close>: an optional sign and decimal digits, within 64 bits.\<close>

definition digit_value :: "char \<Rightarrow> int option" where
  "digit_value c = (let n = of_char c - 48 in if 0 \<le> n \<and> n \<le> 9 then Some n else None)"

fun digits_value :: "int \<Rightarrow> string \<Rightarrow> int option" where
  "digits_value n [] = Some n"
| "digits_value n (c # s) = (case digit_value c of None \<Rightarrow> None | Some d \<Rightarrow> digits_value (10 * n + d) s)"

definition unsigned_atoi :: "int \<Rightarrow> string \<Rightarrow> int option" where
  "unsigned_atoi sign s =
     (if s = '''' then None
      else (case digits_value 0 s of
              None \<Rightarrow> None
            | Some n \<Rightarrow> if fits64 (sign * n) then Some (sign * n) else None))"

definition atoi :: "string \<Rightarrow> int option" where
  "atoi s = (case s of
       c # rest \<Rightarrow> if c = CHR ''-'' then unsigned_atoi (-1) rest
                   else if c = CHR ''+'' then unsigned_atoi 1 rest else unsigned_atoi 1 s
     | [] \<Rightarrow> None)"

fun int_from_env_any :: "environment \<Rightarrow> int \<Rightarrow> string list \<Rightarrow> int" where
  "int_from_env_any env fallback [] = fallback"
| "int_from_env_any env fallback (key # keys) =
     (if env key = '''' then int_from_env_any env fallback keys
      else (case atoi (env key) of
              Some port \<Rightarrow> port
            | None \<Rightarrow> int_from_env_any env fallback keys))"

definition port_from_env :: "environment \<Rightarrow> string \<Rightarrow> int \<Rightarrow> int" where
  "port_from_env env key fallback = int_from_env_any env fallback [key]"

definition int_from_env :: "environment \<Rightarrow> string \<Rightarrow> int \<Rightarrow> int" where
  "int_from_env env key fallback =
     (if env key = '''' then fallback
      else (case atoi (env key) of None \<Rightarrow> fallback | Some value \<Rightarrow> value))"

definition gateway_port :: "environment \<Rightarrow> string \<Rightarrow> int \<Rightarrow> int" where
  "gateway_port env key fallback =
     (if env key = '''' then fallback
      else (case atoi (env key) of None \<Rightarrow> fallback | Some port \<Rightarrow> port))"

definition duration_from_env ::
  "(string \<Rightarrow> duration option) \<Rightarrow> environment \<Rightarrow> string \<Rightarrow> duration \<Rightarrow> duration" where
  "duration_from_env parse_duration env key fallback =
     (if env key = '''' then fallback
      else (case parse_duration (env key) of None \<Rightarrow> fallback | Some value \<Rightarrow> value))"

text \<open>\<open>NewLogger\<close>: the level of the log.\<close>

datatype log_level = LevelDebug | LevelInfo | LevelWarn | LevelError

definition log_level_of :: "environment \<Rightarrow> log_level" where
  "log_level_of env =
     (let level = map ascii_upper (trim_space (env ''LOG_LEVEL''))
      in if level = ''DEBUG'' then LevelDebug
         else if level = ''WARN'' then LevelWarn
         else if level = ''ERROR'' then LevelError
         else LevelInfo)"

section \<open>Facts\<close>

text \<open>The helpers of the processes are one function.\<close>

lemma port_helpers_agree:
  "port_from_env env key fallback = int_from_env env key fallback"
  "gateway_port env key fallback = int_from_env env key fallback"
  by (auto simp: port_from_env_def int_from_env_def gateway_port_def split: option.splits)

lemma getenv_single: "getenv env key fallback = getenv_any env fallback [key]"
  by (simp add: getenv_def)

text \<open>The first variable that is set decides; a fallback that is not empty cannot be switched off.\<close>

lemma getenv_any_first:
  "getenv_any env fallback keys =
     (case filter (\<lambda>key. env key \<noteq> '''') keys of [] \<Rightarrow> fallback | key # _ \<Rightarrow> env key)"
  by (induction keys) auto

lemma getenv_any_nonempty: "fallback \<noteq> '''' \<Longrightarrow> getenv_any env fallback keys \<noteq> ''''"
  by (induction keys) auto

lemma digits_value_decimal: "0 \<le> n \<Longrightarrow> digits_value m (decimal n) = Some (m * 10 ^ length (decimal n) + n)"
proof (induction n arbitrary: m rule: decimal.induct)
  case (1 n)
  have digit: "digit_value (digit k) = Some k" if "0 \<le> k" "k < 10" for k
    using that by (simp add: digit_value_def digit_def)
  have append: "digits_value k (s @ [digit d]) =
      (case digits_value k s of None \<Rightarrow> None | Some v \<Rightarrow> Some (10 * v + d))" if "0 \<le> d" "d < 10" for k s d
    using digit [OF that] by (induction s arbitrary: k) (auto split: option.splits)
  show ?case
  proof (cases "n < 10")
    case True
    then show ?thesis using digit [of n] 1(2) by (subst (1 2) decimal.simps) simp
  next
    case False
    have "digits_value m (decimal (n div 10)) = Some (m * 10 ^ length (decimal (n div 10)) + n div 10)"
      using "1.IH" [of m] False by simp
    moreover have "decimal n = decimal (n div 10) @ [digit (n mod 10)]" using False by (subst decimal.simps) simp
    ultimately show ?thesis using append [of "n mod 10" m "decimal (n div 10)"] by (simp add: algebra_simps)
  qed
qed

text \<open>A port written in decimal is read back.\<close>

lemma decimal_not_empty: "decimal n \<noteq> []"
  by (subst decimal.simps) simp

lemma decimal_first_digit: "0 \<le> n \<Longrightarrow> \<exists>k s. decimal n = digit k # s \<and> 0 \<le> k \<and> k < 10"
proof (induction n rule: decimal.induct)
  case (1 n)
  show ?case
  proof (cases "n < 10")
    case True
    then show ?thesis using 1(2) by (subst decimal.simps) auto
  next
    case False
    then have "0 \<le> n div 10" by simp
    then obtain k s where "decimal (n div 10) = digit k # s" "0 \<le> k" "k < 10" using "1.IH" False by blast
    then show ?thesis using False by (subst decimal.simps) auto
  qed
qed

lemma atoi_decimal:
  assumes "0 \<le> n" and "n \<le> max_int64"
  shows "atoi (decimal n) = Some n"
proof -
  obtain k s where first: "decimal n = digit k # s" and k: "0 \<le> k" "k < 10"
    using decimal_first_digit [OF assms(1)] by blast
  have "digit k \<noteq> CHR ''-''" "digit k \<noteq> CHR ''+''"
  proof -
    have code: "(of_char (digit k) :: int) = 48 + k" using k by (simp add: digit_def)
    show "digit k \<noteq> CHR ''-''" using code k by auto
    show "digit k \<noteq> CHR ''+''" using code k by auto
  qed
  then have "atoi (decimal n) = unsigned_atoi 1 (decimal n)" by (simp add: atoi_def first)
  also have "\<dots> = Some n"
    using digits_value_decimal [OF assms(1), of 0] assms decimal_not_empty [of n]
    by (simp add: unsigned_atoi_def fits64_def max_int64_def)
  finally show ?thesis .
qed

end
