(* ===== verification/Startup.thy ===== *)
theory Startup
  imports Environment Editor
begin

text \<open>
  How the services are put together: \<^verbatim>\<open>pkg/transport\<close> opens a database, a Redis, an object store or a bus, the
  \<open>NewApplication\<close> of each service (\<^verbatim>\<open>services/*/app/app.go\<close>) chooses its adapters, and the \<^verbatim>\<open>main\<close> of each
  process does the rest. What the servers outside answer is the record \<open>outside\<close>; a list of resources says what
  is open. An application is the list of its choices.
\<close>

section \<open>Opening\<close>

datatype resource =
    DbPool string
  | RedisClient string string int
  | GrpcConn string
  | NatsConn string

text \<open>Each field answers the error of one call, or the answer of the call.\<close>

record outside =
  ou_parse_config :: "string \<Rightarrow> string option"
  ou_new_pool :: "string \<Rightarrow> string option"
  ou_ping_pool :: "string \<Rightarrow> string option"
  ou_ping_redis :: "string \<Rightarrow> string \<Rightarrow> int \<Rightarrow> string option"
  ou_new_minio :: "string \<Rightarrow> string option"
  ou_bucket_exists :: "string \<Rightarrow> string \<Rightarrow> string + bool"
  ou_make_bucket :: "string \<Rightarrow> string \<Rightarrow> string option"
  ou_connect_nats :: "string \<Rightarrow> string option"
  ou_dial :: "string \<Rightarrow> string option"
  ou_listen :: "int \<Rightarrow> string option"
  ou_subscribe :: "string option"

type_synonym 'a startup = "resource list \<Rightarrow> (string + 'a) \<times> resource list"

definition opens :: "'a \<Rightarrow> 'a startup" where
  "opens x rs = (Inr x, rs)"

definition fails :: "string \<Rightarrow> 'a startup" where
  "fails err rs = (Inl err, rs)"

definition and_then :: "'a startup \<Rightarrow> ('a \<Rightarrow> 'b startup) \<Rightarrow> 'b startup" where
  "and_then m f rs = (case m rs of (Inl err, rs) \<Rightarrow> (Inl err, rs) | (Inr x, rs) \<Rightarrow> f x rs)"

definition unless_error :: "string option \<Rightarrow> unit startup" where
  "unless_error e = (case e of None \<Rightarrow> opens () | Some err \<Rightarrow> fails err)"

definition acquire :: "resource \<Rightarrow> resource startup" where
  "acquire r rs = (Inr r, r # rs)"

definition release :: "resource \<Rightarrow> resource list \<Rightarrow> resource list" where
  "release r rs = remove1 r rs"

text \<open>The pool is closed again when it cannot be pinged.\<close>

definition open_postgres :: "outside \<Rightarrow> string \<Rightarrow> resource startup" where
  "open_postgres w url =
     (if url = '''' then fails ''postgres url is required''
      else and_then (unless_error (ou_parse_config w url)) (\<lambda>_.
           and_then (unless_error (ou_new_pool w url)) (\<lambda>_.
           and_then (acquire (DbPool url)) (\<lambda>pool.
             (case ou_ping_pool w url of
                Some err \<Rightarrow> (\<lambda>rs. (Inl err, release pool rs))
              | None \<Rightarrow> opens pool)))))"

definition open_redis :: "outside \<Rightarrow> string \<Rightarrow> string \<Rightarrow> int \<Rightarrow> resource startup" where
  "open_redis w addr password db =
     (if addr = '''' then fails ''redis addr is required''
      else and_then (acquire (RedisClient addr password db)) (\<lambda>client.
             (case ou_ping_redis w addr password db of
                Some err \<Rightarrow> (\<lambda>rs. (Inl err, release client rs))
              | None \<Rightarrow> opens client)))"

definition open_minio :: "outside \<Rightarrow> string \<Rightarrow> string \<Rightarrow> bool \<Rightarrow> unit startup" where
  "open_minio w endpoint bucket ensure =
     (if endpoint = '''' then fails ''minio endpoint is required''
      else and_then (unless_error (ou_new_minio w endpoint)) (\<lambda>_.
             if ensure \<and> bucket \<noteq> '''' then
               (case ou_bucket_exists w endpoint bucket of
                  Inl err \<Rightarrow> fails err
                | Inr found \<Rightarrow> if found then opens () else unless_error (ou_make_bucket w endpoint bucket))
             else opens ()))"

definition connect_nats :: "outside \<Rightarrow> string \<Rightarrow> resource startup" where
  "connect_nats w url =
     (if url = '''' then fails ''nats url is required''
      else and_then (unless_error (ou_connect_nats w url)) (\<lambda>_. acquire (NatsConn url)))"

section \<open>Applications\<close>

text \<open>Where a service keeps its data, and what its readiness check asks.\<close>

datatype backend = InMemory | OnPostgres string | OnRedis string string int

datatype readiness = AlwaysReady | PingsMemory | PingsPool string | PingsRedis string string int

record page_config =
  pc_database :: string
  pc_redis :: string
  pc_redis_password :: string
  pc_redis_db :: int
  pc_has_auth :: bool
  pc_has_mws :: bool
  pc_has_files :: bool

record page_application =
  pa_store :: backend
  pa_window :: backend
  pa_window_limit :: int
  pa_embeds :: bool
  pa_files :: bool
  pa_configured :: bool
  pa_capabilities :: runtime_capabilities
  pa_ready :: readiness
  pa_close :: "resource list"

text \<open>The replay window is never nil, so resuming is always supported.\<close>

definition page_store_of :: "outside \<Rightarrow> page_config \<Rightarrow> (backend \<times> readiness \<times> resource list) startup" where
  "page_store_of w cfg =
     (if pc_database cfg \<noteq> '''' then
        and_then (open_postgres w (pc_database cfg)) (\<lambda>pool.
          opens (OnPostgres (pc_database cfg), PingsPool (pc_database cfg), [pool]))
      else opens (InMemory, AlwaysReady, []))"

definition page_window_of :: "outside \<Rightarrow> page_config \<Rightarrow> resource list \<Rightarrow> (backend \<times> resource list) startup" where
  "page_window_of w cfg close =
     (if pc_redis cfg \<noteq> '''' then
        and_then (open_redis w (pc_redis cfg) (pc_redis_password cfg) (pc_redis_db cfg)) (\<lambda>client.
          opens (OnRedis (pc_redis cfg) (pc_redis_password cfg) (pc_redis_db cfg), close @ [client]))
      else opens (InMemory, close))"

definition new_page_application :: "outside \<Rightarrow> page_config \<Rightarrow> page_application startup" where
  "new_page_application w cfg =
     and_then (page_store_of w cfg) (\<lambda>(store, ready, close).
     and_then (page_window_of w cfg close) (\<lambda>(window, close).
       opens \<lparr>pa_store = store, pa_window = window, pa_window_limit = 32, pa_embeds = pc_has_mws cfg,
              pa_files = pc_has_files cfg, pa_configured = pc_has_auth cfg,
              pa_capabilities = \<lparr>rc_realtime = True, rc_replay = True, rc_files = True, rc_embeds = True\<rparr>,
              pa_ready = ready, pa_close = close\<rparr>))"

record file_config =
  fc_has_auth :: bool
  fc_database :: string
  fc_endpoint :: string
  fc_access_key :: string
  fc_secret_key :: string
  fc_bucket :: string
  fc_use_ssl :: bool
  fc_public_url :: string

record file_application =
  fa_store :: backend
  fa_minio :: "(string \<times> string \<times> string) option"
  fa_configured :: bool
  fa_ready :: readiness
  fa_close :: "resource list"

definition new_file_application :: "outside \<Rightarrow> file_config \<Rightarrow> file_application startup" where
  "new_file_application w cfg =
     and_then (if fc_database cfg \<noteq> '''' then
                 and_then (open_postgres w (fc_database cfg)) (\<lambda>pool.
                   opens (OnPostgres (fc_database cfg), PingsPool (fc_database cfg), [pool]))
               else opens (InMemory, PingsMemory, [])) (\<lambda>(store, ready, close).
     and_then (if fc_endpoint cfg \<noteq> '''' then
                 and_then (open_minio w (fc_endpoint cfg) (fc_bucket cfg) True) (\<lambda>_.
                   opens (Some (fc_endpoint cfg, fc_bucket cfg, fc_public_url cfg)))
               else opens None) (\<lambda>objects.
       opens \<lparr>fa_store = store, fa_minio = objects, fa_configured = fc_has_auth cfg, fa_ready = ready,
              fa_close = close\<rparr>))"

record collab_config =
  cc_has_page :: bool
  cc_has_auth :: bool
  cc_redis :: string
  cc_redis_password :: string
  cc_redis_db :: int
  cc_heartbeat :: duration
  cc_presence_ttl :: duration

record collab_application =
  ca_rooms :: backend
  ca_presence :: backend
  ca_configured :: bool
  ca_heartbeat :: duration
  ca_presence_ttl :: duration
  ca_ready :: readiness
  ca_close :: "resource list"

definition new_collab_application :: "outside \<Rightarrow> collab_config \<Rightarrow> collab_application startup" where
  "new_collab_application w cfg =
     (let heartbeat = (if cc_heartbeat cfg \<le> 0 then 15 * second else cc_heartbeat cfg);
          ttl = (if cc_presence_ttl cfg \<le> 0 then 45 * second else cc_presence_ttl cfg)
      in if \<not> cc_has_page cfg then fails ''page service client is required''
         else and_then (if cc_redis cfg \<noteq> '''' then
                          and_then (open_redis w (cc_redis cfg) (cc_redis_password cfg) (cc_redis_db cfg)) (\<lambda>client.
                            opens (OnRedis (cc_redis cfg) (cc_redis_password cfg) (cc_redis_db cfg),
                                   PingsRedis (cc_redis cfg) (cc_redis_password cfg) (cc_redis_db cfg), [client]))
                        else opens (InMemory, AlwaysReady, [])) (\<lambda>(stores, ready, close).
                opens \<lparr>ca_rooms = stores, ca_presence = stores, ca_configured = cc_has_auth cfg,
                       ca_heartbeat = heartbeat, ca_presence_ttl = ttl, ca_ready = ready, ca_close = close\<rparr>))"

record search_application =
  sa_store :: backend
  sa_configured :: bool
  sa_ready :: readiness
  sa_close :: "resource list"

definition new_search_application :: "outside \<Rightarrow> bool \<Rightarrow> string \<Rightarrow> search_application startup" where
  "new_search_application w hasAuth database =
     and_then (if database \<noteq> '''' then
                 and_then (open_postgres w database) (\<lambda>pool. opens (OnPostgres database, PingsPool database, [pool]))
               else opens (InMemory, PingsMemory, [])) (\<lambda>(store, ready, close).
       opens \<lparr>sa_store = store, sa_configured = hasAuth, sa_ready = ready, sa_close = close\<rparr>)"

section \<open>Facts\<close>

lemma opening_simps [simp]:
  "opens x rs = (Inr x, rs)" "fails err rs = (Inl err, rs)" "acquire r rs = (Inr r, r # rs)"
  "release r (r # rs) = rs"
  by (simp_all add: opens_def fails_def acquire_def release_def)

lemma and_then_Inr [simp]:
  "and_then m f rs = (Inr y, rs') \<longleftrightarrow> (\<exists>x rs1. m rs = (Inr x, rs1) \<and> f x rs1 = (Inr y, rs'))"
  by (auto simp: and_then_def split: prod.splits sum.splits)

lemma and_then_Inl [simp]:
  "and_then m f rs = (Inl err, rs') \<longleftrightarrow>
     m rs = (Inl err, rs') \<or> (\<exists>x rs1. m rs = (Inr x, rs1) \<and> f x rs1 = (Inl err, rs'))"
  by (auto simp: and_then_def split: prod.splits sum.splits)

lemma unless_error_runs [simp]:
  "unless_error e rs = (Inr u, rs') \<longleftrightarrow> e = None \<and> rs' = rs"
  "unless_error e rs = (Inl err, rs') \<longleftrightarrow> e = Some err \<and> rs' = rs"
  by (auto simp: unless_error_def split: option.splits)

text \<open>What is opened answers; what could not be opened leaves nothing open.\<close>

lemma open_postgres_runs:
  "open_postgres w url rs = (Inr x, rs') \<longleftrightarrow>
     url \<noteq> '''' \<and> ou_parse_config w url = None \<and> ou_new_pool w url = None \<and> ou_ping_pool w url = None
     \<and> x = DbPool url \<and> rs' = DbPool url # rs"
  by (auto simp: open_postgres_def split: option.splits)

lemma open_postgres_closes: "open_postgres w url rs = (Inl err, rs') \<Longrightarrow> rs' = rs"
  by (auto simp: open_postgres_def split: option.splits if_splits)

lemma open_redis_runs:
  "open_redis w addr password db rs = (Inr x, rs') \<longleftrightarrow>
     addr \<noteq> '''' \<and> ou_ping_redis w addr password db = None
     \<and> x = RedisClient addr password db \<and> rs' = RedisClient addr password db # rs"
  by (auto simp: open_redis_def split: option.splits)

lemma open_redis_closes: "open_redis w addr password db rs = (Inl err, rs') \<Longrightarrow> rs' = rs"
  by (auto simp: open_redis_def split: option.splits if_splits)

lemma open_minio_runs:
  "open_minio w endpoint bucket ensure rs = (Inr u, rs') \<longleftrightarrow>
     endpoint \<noteq> '''' \<and> ou_new_minio w endpoint = None \<and> rs' = rs
     \<and> (ensure \<and> bucket \<noteq> '''' \<longrightarrow> (\<exists>found. ou_bucket_exists w endpoint bucket = Inr found
          \<and> (found \<or> ou_make_bucket w endpoint bucket = None)))"
  by (auto simp: open_minio_def split: sum.splits)

lemma open_minio_closes: "open_minio w endpoint bucket ensure rs = (Inl err, rs') \<Longrightarrow> rs' = rs"
  by (auto simp: open_minio_def split: sum.splits if_splits)

lemma connect_nats_runs:
  "connect_nats w url rs = (Inr x, rs') \<longleftrightarrow>
     url \<noteq> '''' \<and> ou_connect_nats w url = None \<and> x = NatsConn url \<and> rs' = NatsConn url # rs"
  by (auto simp: connect_nats_def)

text \<open>The adapters of an application are the ones that its configuration names, and they answered.\<close>

definition database_backend :: "string \<Rightarrow> backend" where
  "database_backend url = (if url = '''' then InMemory else OnPostgres url)"

definition redis_backend :: "string \<Rightarrow> string \<Rightarrow> int \<Rightarrow> backend" where
  "redis_backend addr password db = (if addr = '''' then InMemory else OnRedis addr password db)"

definition database_answers :: "outside \<Rightarrow> string \<Rightarrow> bool" where
  "database_answers w url \<longleftrightarrow> url = '''' \<or> ou_ping_pool w url = None"

definition redis_answers :: "outside \<Rightarrow> string \<Rightarrow> string \<Rightarrow> int \<Rightarrow> bool" where
  "redis_answers w addr password db \<longleftrightarrow> addr = '''' \<or> ou_ping_redis w addr password db = None"

definition nats_answers :: "outside \<Rightarrow> string \<Rightarrow> bool" where
  "nats_answers w url \<longleftrightarrow> url = '''' \<or> ou_connect_nats w url = None"

lemmas backend_defs = database_backend_def redis_backend_def database_answers_def redis_answers_def

lemma page_application_made:
  assumes "new_page_application w cfg rs = (Inr app, rs')"
  shows "pa_store app = database_backend (pc_database cfg)"
    and "pa_window app = redis_backend (pc_redis cfg) (pc_redis_password cfg) (pc_redis_db cfg)"
    and "database_answers w (pc_database cfg)"
    and "redis_answers w (pc_redis cfg) (pc_redis_password cfg) (pc_redis_db cfg)"
    and "pa_configured app = pc_has_auth cfg" and "pa_embeds app = pc_has_mws cfg" and "pa_files app = pc_has_files cfg"
    and "rs' = rev (pa_close app) @ rs"
  using assms
  by (auto simp: new_page_application_def page_store_of_def page_window_of_def open_postgres_runs open_redis_runs
      backend_defs split: if_splits)

lemma file_application_made:
  assumes "new_file_application w cfg rs = (Inr app, rs')"
  shows "fa_store app = database_backend (fc_database cfg)" and "database_answers w (fc_database cfg)"
    and "fa_minio app = None \<longleftrightarrow> fc_endpoint cfg = ''''"
    and "fa_configured app = fc_has_auth cfg" and "rs' = rev (fa_close app) @ rs"
  using assms
  by (auto simp: new_file_application_def open_postgres_runs open_minio_runs backend_defs split: if_splits)

lemma collab_application_made:
  assumes "new_collab_application w cfg rs = (Inr app, rs')"
  shows "ca_rooms app = redis_backend (cc_redis cfg) (cc_redis_password cfg) (cc_redis_db cfg)"
    and "ca_presence app = ca_rooms app"
    and "redis_answers w (cc_redis cfg) (cc_redis_password cfg) (cc_redis_db cfg)"
    and "cc_has_page cfg" and "ca_configured app = cc_has_auth cfg"
    and "0 < ca_heartbeat app" and "0 < ca_presence_ttl app"
    and "rs' = rev (ca_close app) @ rs"
  using assms
  by (auto simp: new_collab_application_def open_redis_runs backend_defs Let_def second_def split: if_splits)

lemma search_application_made:
  assumes "new_search_application w hasAuth database rs = (Inr app, rs')"
  shows "sa_store app = database_backend database" and "database_answers w database"
    and "sa_configured app = hasAuth" and "rs' = rev (sa_close app) @ rs"
  using assms
  by (auto simp: new_search_application_def open_postgres_runs backend_defs split: if_splits)

text \<open>
  An application that cannot be made after its database was opened leaves the pool open: nothing closes it, the
  process exits.
\<close>

lemma failed_application_leaks:
  assumes "new_page_application w cfg rs = (Inl err, rs')" and "pc_database cfg \<noteq> ''''"
    and "open_postgres w (pc_database cfg) rs = (Inr pool, rs1)"
  shows "rs' = DbPool (pc_database cfg) # rs"
  using assms
  by (auto simp: new_page_application_def page_store_of_def page_window_of_def open_postgres_runs
      dest!: open_redis_closes split: if_splits)

text \<open>The readiness of the page service asks its database only.\<close>

lemma page_ready_ignores_redis:
  "new_page_application w cfg rs = (Inr app, rs') \<Longrightarrow>
     pa_ready app = (if pc_database cfg = '''' then AlwaysReady else PingsPool (pc_database cfg))"
  by (auto simp: new_page_application_def page_store_of_def page_window_of_def open_postgres_runs split: if_splits)

end
