(* ===== verification/Platform.thy ===== *)
theory Platform
  imports Http Outbox
begin

text \<open>
  What every process has around its handler: the health endpoints and the end of the HTTP server
  (\<^verbatim>\<open>pkg/transport/httpserver.go\<close>), the group of tasks whose first error ends the process
  (\<^verbatim>\<open>cmd/server/main.go\<close>), and the instrumentation of requests (\<^verbatim>\<open>pkg/observability/metrics.go\<close>).
\<close>

section \<open>Health endpoints\<close>

definition service_root :: "string \<Rightarrow> 'b http_request \<Rightarrow> (string \<times> string) list http_response" where
  "service_root service r = write_json r 200 [(''service'', service), (''status'', ''ok'')]"

definition health_live :: "'b http_request \<Rightarrow> (string \<times> string) list http_response" where
  "health_live r = write_json r 200 [(''status'', ''live'')]"

text \<open>The check of the service is nil, or answers nil or an error.\<close>

definition health_ready :: "string option option \<Rightarrow> 'b http_request \<Rightarrow> (string \<times> string) list http_response" where
  "health_ready readyz r =
     (case readyz of
        Some (Some err) \<Rightarrow> write_json r 503 [(''status'', ''not_ready''), (''error'', err)]
      | _ \<Rightarrow> write_json r 200 [(''status'', ''ready'')])"

section \<open>The end of a server\<close>

text \<open>
  The server ends when its context does, with the error of the shutdown, or when it cannot listen any more.
\<close>

datatype listen_end = ServerClosed | ListenFailed string

datatype server_event = ContextDone "string option" | Listened listen_end

fun run_http_server :: "server_event \<Rightarrow> string option" where
  "run_http_server (ContextDone shutdown) = shutdown"
| "run_http_server (Listened (ListenFailed err)) = Some err"
| "run_http_server (Listened ServerClosed) = None"

text \<open>
  The tasks of the page service: the relay, whose cancellation is no error, and the servers. \<open>Wait\<close> answers the
  first error in the order in which the tasks end.
\<close>

definition relay_task :: "string \<Rightarrow> string option" where
  "relay_task err = (if err = ''context canceled'' then None else Some err)"

fun grpc_task :: "string option \<Rightarrow> string option" where
  "grpc_task None = None"
| "grpc_task (Some err) = (if err = ''grpc: the server has been stopped'' then None else Some err)"

fun group_wait :: "string option list \<Rightarrow> string option" where
  "group_wait [] = None"
| "group_wait (Some err # ended) = Some err"
| "group_wait (None # ended) = group_wait ended"

section \<open>Requests that are counted\<close>

text \<open>
  What a handler does with its response. The recorder keeps the code of the last \<open>WriteHeader\<close>; the connection
  sends the first code that is not informational, and 200 with a body or at the end.
\<close>

datatype writer_call = WriteHeader int | WriteBody | FlushBody

definition recorder_call :: "int \<Rightarrow> writer_call \<Rightarrow> int" where
  "recorder_call status c = (case c of WriteHeader statusCode \<Rightarrow> statusCode | _ \<Rightarrow> status)"

definition recorded_status :: "writer_call list \<Rightarrow> int" where
  "recorded_status calls = foldl recorder_call 200 calls"

fun sent_status :: "writer_call list \<Rightarrow> int" where
  "sent_status [] = 200"
| "sent_status (WriteHeader code # calls) = (if 100 \<le> code \<and> code \<le> 199 \<and> code \<noteq> 101 then sent_status calls else code)"
| "sent_status (WriteBody # calls) = 200"
| "sent_status (FlushBody # calls) = 200"

text \<open>The collectors of a service, by their labels; nothing counts the publications of the outbox.\<close>

record http_metrics =
  mt_requests :: "string \<times> string \<times> int \<Rightarrow> nat"
  mt_durations :: "string \<times> string \<times> int \<Rightarrow> duration list"
  mt_inflight :: "string \<Rightarrow> int"
  mt_dependency :: "string \<Rightarrow> int option"
  mt_outbox :: "string \<Rightarrow> nat"

definition new_metrics :: http_metrics where
  "new_metrics = \<lparr>mt_requests = \<lambda>_. 0, mt_durations = \<lambda>_. [], mt_inflight = \<lambda>_. 0, mt_dependency = \<lambda>_. None,
     mt_outbox = \<lambda>_. 0\<rparr>"

definition set_dependency :: "string \<Rightarrow> bool \<Rightarrow> http_metrics \<Rightarrow> http_metrics" where
  "set_dependency name healthy m = m\<lparr>mt_dependency := (mt_dependency m)(name \<mapsto> if healthy then 1 else 0)\<rparr>"

text \<open>The two halves of \<open>InstrumentHTTP\<close>: before the handler, and the deferred one, which a panic runs too.\<close>

definition request_begins :: "string \<Rightarrow> http_metrics \<Rightarrow> http_metrics" where
  "request_begins route m = m\<lparr>mt_inflight := (mt_inflight m)(route := mt_inflight m route + 1)\<rparr>"

definition request_ends ::
  "string \<Rightarrow> string \<Rightarrow> writer_call list \<Rightarrow> duration \<Rightarrow> http_metrics \<Rightarrow> http_metrics" where
  "request_ends route method calls elapsed m =
     (let labels = (method, route, recorded_status calls)
      in m\<lparr>mt_inflight := (mt_inflight m)(route := mt_inflight m route - 1),
           mt_requests := (mt_requests m)(labels := mt_requests m labels + 1),
           mt_durations := (mt_durations m)(labels := mt_durations m labels @ [elapsed])\<rparr>)"

text \<open>Requests are served at the same time; each one has an identity of its own.\<close>

datatype http_event = Begins nat string string | Ends nat "writer_call list" duration

record instrumented =
  in_open :: "(nat \<times> string \<times> string) list"
  in_metrics :: http_metrics

inductive instrument_step :: "instrumented \<Rightarrow> http_event \<Rightarrow> instrumented \<Rightarrow> bool" where
  begins: "i \<notin> fst ` set (in_open s) \<Longrightarrow>
    instrument_step s (Begins i method route)
      \<lparr>in_open = (i, method, route) # in_open s, in_metrics = request_begins route (in_metrics s)\<rparr>"
| ends: "(i, method, route) \<in> set (in_open s) \<Longrightarrow>
    instrument_step s (Ends i calls elapsed)
      \<lparr>in_open = remove1 (i, method, route) (in_open s), in_metrics = request_ends route method calls elapsed (in_metrics s)\<rparr>"

inductive instrumented_run :: "http_event list \<Rightarrow> instrumented \<Rightarrow> bool" where
  start: "instrumented_run [] \<lparr>in_open = [], in_metrics = new_metrics\<rparr>"
| more: "instrumented_run es s \<Longrightarrow> instrument_step s e s' \<Longrightarrow> instrumented_run (es @ [e]) s'"

section \<open>Facts\<close>

lemma group_wait_some: "group_wait ended = Some err \<Longrightarrow> Some err \<in> set ended"
  by (induction ended rule: group_wait.induct) auto

lemma group_wait_error: "Some err \<in> set ended \<Longrightarrow> group_wait ended \<noteq> None"
  by (induction ended rule: group_wait.induct) auto

text \<open>
  A store that cannot be asked for its pending events once, and the relay ends with the error; so does the
  whole page service, the servers with it.
\<close>

lemma one_poll_ends_relay:
  assumes "oo_claim ops batch (fst sw) = Inl err" and "err \<noteq> ''context canceled''" and "0 < batch"
  shows "relay_run (Some ops) (Some env) policy batch ticks sw = (err, sw)"
  using assms by (cases ticks) (simp_all add: relay_run_def flush_once_def)

lemma one_poll_ends_process:
  assumes "oo_claim ops 50 (fst sw) = Inl err" and "err \<noteq> ''context canceled''"
    and "relay_task (fst (relay_run (Some ops) (Some env) policy 50 ticks sw)) \<in> set ended"
  shows "group_wait ended \<noteq> None"
  using assms one_poll_ends_relay [of ops 50 sw err env policy ticks] group_wait_error [of err ended]
  by (simp add: relay_task_def)

text \<open>The status that is counted is the one that was sent, where the header is written first and once.\<close>

lemma recorded_is_sent:
  assumes "list_all (\<lambda>c. \<nexists>code. c = WriteHeader code) calls"
  shows "recorded_status calls = 200" and "recorded_status (WriteHeader code # calls) = code"
proof -
  have keep: "foldl recorder_call status calls = status" for status
    using assms by (induction calls) (auto simp: recorder_call_def split: writer_call.splits)
  show "recorded_status calls = 200" "recorded_status (WriteHeader code # calls) = code"
    by (simp_all add: recorded_status_def keep recorder_call_def)
qed

text \<open>A second \<open>WriteHeader\<close> is counted though it is not sent.\<close>

lemma recorded_not_sent: "recorded_status [WriteHeader 200, WriteHeader 500] = 500"
  "sent_status [WriteHeader 200, WriteHeader 500] = 200"
  by (simp_all add: recorded_status_def recorder_call_def)

definition on_route :: "string \<Rightarrow> nat \<times> string \<times> string \<Rightarrow> bool" where
  "on_route route q \<longleftrightarrow> snd (snd q) = route"

lemma filter_remove1: "x \<in> set xs \<Longrightarrow> P x \<Longrightarrow> length (filter P (remove1 x xs)) + 1 = length (filter P xs)"
  by (induction xs) auto

lemma filter_remove1_other: "\<not> P x \<Longrightarrow> filter P (remove1 x xs) = filter P xs"
  by (induction xs) auto

text \<open>However the requests interleave, the gauge is the number of open ones.\<close>

lemma inflight_step:
  assumes "instrument_step s e s'" and "mt_inflight (in_metrics s) route = int (length (filter (on_route route) (in_open s)))"
  shows "mt_inflight (in_metrics s') route = int (length (filter (on_route route) (in_open s')))"
  using assms(1)
proof cases
  case (begins i verb r)
  then show ?thesis using assms(2) by (auto simp: request_begins_def on_route_def)
next
  case (ends i verb r calls elapsed)
  show ?thesis
  proof (cases "r = route")
    case True
    then have "int (length (filter (on_route route) (remove1 (i, verb, r) (in_open s)))) + 1 =
        int (length (filter (on_route route) (in_open s)))"
      using filter_remove1 [OF ends(3), of "on_route route"] by (simp add: on_route_def)
    then show ?thesis using ends assms(2) True by (simp add: request_ends_def Let_def)
  next
    case False
    then show ?thesis using ends assms(2)
      by (simp add: request_ends_def Let_def filter_remove1_other on_route_def)
  qed
qed

lemma inflight_counts_open:
  "instrumented_run es s \<Longrightarrow>
     mt_inflight (in_metrics s) route = int (length (filter (on_route route) (in_open s)))"
  by (induction rule: instrumented_run.induct) (auto simp: new_metrics_def intro: inflight_step)

text \<open>Every counted request has its duration.\<close>

lemma durations_counted:
  "instrumented_run es s \<Longrightarrow> length (mt_durations (in_metrics s) labels) = mt_requests (in_metrics s) labels"
proof (induction rule: instrumented_run.induct)
  case (more es s e s')
  from more(2,3) show ?case
    by cases (auto simp: request_begins_def request_ends_def Let_def)
qed (simp add: new_metrics_def)

end
