(* ===== verification/Processes.thy ===== *)
theory Processes
  imports Startup Platform
begin

text \<open>
  The processes: what each \<^verbatim>\<open>cmd/server/main.go\<close> reads from its environment, in which order it opens what it needs,
  and what ends it. An error stops the process; it is the text that the process logs.
\<close>

section \<open>Starting\<close>

definition or_exit :: "string \<Rightarrow> 'a startup \<Rightarrow> 'a startup" where
  "or_exit message m rs = (case m rs of (Inl _, rs) \<Rightarrow> (Inl message, rs) | (Inr x, rs) \<Rightarrow> (Inr x, rs))"

text \<open>
  A connection to another service, where it has an address. Opening it waits for nothing and contacts nobody, so an
  error here is one of the address.
\<close>

definition dial :: "outside \<Rightarrow> string \<Rightarrow> string \<Rightarrow> bool startup" where
  "dial w message addr =
     (if addr \<noteq> '''' then
        or_exit message (and_then (unless_error (ou_dial w addr)) (\<lambda>_.
          and_then (acquire (GrpcConn addr)) (\<lambda>_. opens True)))
      else opens False)"

definition listen_grpc :: "outside \<Rightarrow> int \<Rightarrow> int startup" where
  "listen_grpc w port =
     and_then (or_exit ''failed to listen for grpc'' (unless_error (ou_listen w port))) (\<lambda>_. opens port)"

record page_process =
  pp_app :: page_application
  pp_grpc_port :: int
  pp_relay :: "(string \<times> duration \<times> int) option"
  pp_http_port :: int

definition page_config_of :: "environment \<Rightarrow> bool \<Rightarrow> bool \<Rightarrow> bool \<Rightarrow> page_config" where
  "page_config_of env auth mws files =
     \<lparr>pc_database = env ''PAGE_DATABASE_URL'',
      pc_redis = getenv_any env '''' [''PAGE_REDIS_ADDR'', ''REDIS_ADDR''],
      pc_redis_password = getenv_any env '''' [''PAGE_REDIS_PASSWORD'', ''REDIS_PASSWORD''],
      pc_redis_db = int_from_env_any env 0 [''PAGE_REDIS_DB'', ''REDIS_DB''],
      pc_has_auth = auth, pc_has_mws = mws, pc_has_files = files\<rparr>"

text \<open>The relay runs where there is a bus: every second, fifty events at a time.\<close>

definition page_relay :: "outside \<Rightarrow> environment \<Rightarrow> (string \<times> duration \<times> int) option startup" where
  "page_relay w env =
     (let natsURL = getenv_any env '''' [''PAGE_NATS_URL'', ''NATS_URL'']
      in if natsURL \<noteq> '''' then
           and_then (or_exit ''failed to connect to nats'' (connect_nats w natsURL)) (\<lambda>_.
             opens (Some (natsURL, second, 50)))
         else opens None)"

definition page_main :: "outside \<Rightarrow> environment \<Rightarrow> page_process startup" where
  "page_main w env =
     and_then (dial w ''failed to dial mws integration service''
       (getenv_any env ''127.0.0.1:9095'' [''MWS_INTEGRATION_SERVICE_GRPC_ADDR''])) (\<lambda>mws.
     and_then (dial w ''failed to dial auth service''
       (getenv_any env ''127.0.0.1:9091'' [''AUTH_SERVICE_GRPC_ADDR''])) (\<lambda>auth.
     and_then (dial w ''failed to dial file service'' (getenv_any env '''' [''FILE_SERVICE_GRPC_ADDR''])) (\<lambda>files.
     and_then (or_exit ''failed to initialize page service''
       (new_page_application w (page_config_of env auth mws files))) (\<lambda>app.
     and_then (listen_grpc w (int_from_env_any env 9092 [''PAGE_SERVICE_GRPC_PORT''])) (\<lambda>grpc.
     and_then (page_relay w env) (\<lambda>relay.
       opens \<lparr>pp_app = app, pp_grpc_port = grpc, pp_relay = relay,
              pp_http_port = port_from_env env ''PAGE_SERVICE_PORT'' 8082\<rparr>))))))"

record file_process =
  fp_app :: file_application
  fp_grpc_port :: int
  fp_http_port :: int

definition file_config_of :: "environment \<Rightarrow> bool \<Rightarrow> file_config" where
  "file_config_of env auth =
     \<lparr>fc_has_auth = auth, fc_database = env ''FILE_DATABASE_URL'',
      fc_endpoint = getenv_any env '''' [''FILE_MINIO_ENDPOINT'', ''MINIO_ENDPOINT''],
      fc_access_key = getenv_any env '''' [''FILE_MINIO_ACCESS_KEY_ID'', ''MINIO_ROOT_USER''],
      fc_secret_key = getenv_any env '''' [''FILE_MINIO_SECRET_ACCESS_KEY'', ''MINIO_ROOT_PASSWORD''],
      fc_bucket = getenv_any env ''wiki-files'' [''FILE_MINIO_BUCKET'', ''MINIO_BUCKET_ATTACHMENTS''],
      fc_use_ssl = equal_fold (getenv_any env '''' [''FILE_MINIO_USE_SSL'', ''MINIO_USE_SSL'']) ''true'',
      fc_public_url = getenv_any env '''' [''FILE_MINIO_PUBLIC_BASE_URL'']\<rparr>"

definition file_main :: "outside \<Rightarrow> environment \<Rightarrow> file_process startup" where
  "file_main w env =
     and_then (dial w ''failed to dial auth service'' (getenv env ''AUTH_SERVICE_GRPC_ADDR'' ''127.0.0.1:9091'')) (\<lambda>auth.
     and_then (or_exit ''failed to initialize file service'' (new_file_application w (file_config_of env auth))) (\<lambda>app.
     and_then (listen_grpc w (int_from_env_any env 9096 [''FILE_SERVICE_GRPC_PORT''])) (\<lambda>grpc.
       opens \<lparr>fp_app = app, fp_grpc_port = grpc, fp_http_port = port_from_env env ''FILE_SERVICE_PORT'' 8086\<rparr>)))"

record collab_process =
  cp_app :: collab_application
  cp_refreshes :: "string option"
  cp_http_port :: int

text \<open>Neither interval is set, so the application uses its own.\<close>

definition collab_config_of :: "environment \<Rightarrow> bool \<Rightarrow> bool \<Rightarrow> collab_config" where
  "collab_config_of env page auth =
     \<lparr>cc_has_page = page, cc_has_auth = auth,
      cc_redis = getenv_any env '''' [''COLLABORATION_REDIS_ADDR'', ''REDIS_ADDR''],
      cc_redis_password = getenv_any env '''' [''COLLABORATION_REDIS_PASSWORD'', ''REDIS_PASSWORD''],
      cc_redis_db = int_from_env_any env 0 [''COLLABORATION_REDIS_DB'', ''REDIS_DB''],
      cc_heartbeat = 0, cc_presence_ttl = 0\<rparr>"

text \<open>A consumer of the bus: the service that has one subscribes it.\<close>

definition subscribe_consumer :: "outside \<Rightarrow> string \<Rightarrow> string \<Rightarrow> string option startup" where
  "subscribe_consumer w message natsURL =
     (if natsURL \<noteq> '''' then
        and_then (or_exit ''failed to connect to nats'' (connect_nats w natsURL)) (\<lambda>_.
        and_then (or_exit message (unless_error (ou_subscribe w))) (\<lambda>_. opens (Some natsURL)))
      else opens None)"

definition collab_main :: "outside \<Rightarrow> environment \<Rightarrow> collab_process startup" where
  "collab_main w env =
     and_then (dial w ''failed to dial page service'' (getenv_any env ''127.0.0.1:9092'' [''PAGE_SERVICE_GRPC_ADDR''])) (\<lambda>page.
     and_then (dial w ''failed to dial auth service'' (getenv_any env ''127.0.0.1:9091'' [''AUTH_SERVICE_GRPC_ADDR''])) (\<lambda>auth.
     and_then (or_exit ''failed to initialize collaboration service''
       (new_collab_application w (collab_config_of env page auth))) (\<lambda>app.
     and_then (subscribe_consumer w ''failed to subscribe revision refresh consumer''
       (getenv_any env '''' [''COLLABORATION_NATS_URL'', ''NATS_URL''])) (\<lambda>nats.
       opens \<lparr>cp_app = app, cp_refreshes = nats,
              cp_http_port = port_from_env env ''COLLABORATION_SERVICE_PORT'' 8083\<rparr>))))"

record search_process =
  sp_app :: search_application
  sp_events :: "string option"
  sp_http_port :: int

definition search_main :: "outside \<Rightarrow> environment \<Rightarrow> search_process startup" where
  "search_main w env =
     and_then (dial w ''failed to dial auth service'' (getenv_any env ''127.0.0.1:9091'' [''AUTH_SERVICE_GRPC_ADDR''])) (\<lambda>auth.
     and_then (or_exit ''failed to initialize search service''
       (new_search_application w auth (env ''SEARCH_DATABASE_URL''))) (\<lambda>app.
     and_then (subscribe_consumer w ''failed to subscribe page event consumer''
       (getenv_any env '''' [''SEARCH_NATS_URL'', ''NATS_URL''])) (\<lambda>nats.
       opens \<lparr>sp_app = app, sp_events = nats, sp_http_port = port_from_env env ''SEARCH_SERVICE_PORT'' 8084\<rparr>)))"

record mws_process =
  mp_base_url :: string
  mp_grpc_port :: int
  mp_http_port :: int

definition mws_main :: "outside \<Rightarrow> environment \<Rightarrow> mws_process startup" where
  "mws_main w env =
     and_then (listen_grpc w (port_from_env env ''MWS_INTEGRATION_SERVICE_GRPC_PORT'' 9095)) (\<lambda>grpc.
       opens \<lparr>mp_base_url = getenv_any env ''http://localhost:8090'' [''MWS_BASE_URL'', ''MWS_MOCK_BASE_URL''],
              mp_grpc_port = grpc, mp_http_port = port_from_env env ''MWS_INTEGRATION_SERVICE_PORT'' 8085\<rparr>)"

record token_settings =
  ts_issuer :: string
  ts_audience :: string
  ts_access_ttl :: duration
  ts_refresh_ttl :: duration
  ts_key_id :: string
  ts_private_key :: string

record auth_process =
  ap_database :: string
  ap_tokens :: token_settings
  ap_grpc_port :: int
  ap_http_port :: int

definition token_settings_of :: "(string \<Rightarrow> duration option) \<Rightarrow> environment \<Rightarrow> token_settings" where
  "token_settings_of parse_duration env =
     \<lparr>ts_issuer = getenv env ''JWT_ISSUER'' ''wiki-auth'', ts_audience = getenv env ''JWT_AUDIENCE'' ''wiki-api'',
      ts_access_ttl = duration_from_env parse_duration env ''JWT_ACCESS_TTL'' (15 * 60 * second),
      ts_refresh_ttl = duration_from_env parse_duration env ''JWT_REFRESH_TTL'' (30 * 24 * 3600 * second),
      ts_key_id = getenv env ''JWT_KEY_ID'' ''wiki-local-rsa'', ts_private_key = env ''JWT_PRIVATE_KEY_PEM''\<rparr>"

text \<open>\<open>token_service\<close> is the error of \<open>NewTokenService\<close>. The auth service has no in-memory store.\<close>

definition auth_main ::
  "(token_settings \<Rightarrow> string option) \<Rightarrow> (string \<Rightarrow> duration option) \<Rightarrow> outside \<Rightarrow> environment \<Rightarrow> auth_process startup" where
  "auth_main token_service parse_duration w env =
     and_then (or_exit ''failed to open postgres'' (open_postgres w (env ''AUTH_DATABASE_URL''))) (\<lambda>pool.
     and_then (or_exit ''failed to initialize token service''
       (unless_error (token_service (token_settings_of parse_duration env)))) (\<lambda>_.
     and_then (listen_grpc w (int_from_env env ''AUTH_SERVICE_GRPC_PORT'' 9091)) (\<lambda>grpc.
       opens \<lparr>ap_database = env ''AUTH_DATABASE_URL'', ap_tokens = token_settings_of parse_duration env,
              ap_grpc_port = grpc, ap_http_port = int_from_env env ''AUTH_SERVICE_PORT'' 8081\<rparr>)))"

record gateway_settings =
  gs_auth :: string
  gs_auth_ready :: string
  gs_jwks :: string
  gs_page :: string
  gs_collab :: string
  gs_search :: string
  gs_mws :: string
  gs_file :: string
  gs_openapi :: string
  gs_issuer :: string
  gs_audience :: string
  gs_cache_ttl :: duration

definition gateway_settings_of :: "(string \<Rightarrow> duration option) \<Rightarrow> environment \<Rightarrow> gateway_settings" where
  "gateway_settings_of parse_duration env =
     \<lparr>gs_auth = getenv env ''AUTH_SERVICE_BASE_URL'' ''http://localhost:8081'',
      gs_auth_ready = getenv env ''AUTH_SERVICE_READY_URL'' ''http://localhost:8081/health/ready'',
      gs_jwks = getenv env ''AUTH_SERVICE_JWKS_URL'' ''http://localhost:8081/.well-known/jwks.json'',
      gs_page = getenv env ''PAGE_SERVICE_BASE_URL'' ''http://localhost:8082'',
      gs_collab = getenv env ''COLLABORATION_SERVICE_BASE_URL'' ''http://localhost:8083'',
      gs_search = getenv env ''SEARCH_SERVICE_BASE_URL'' ''http://localhost:8084'',
      gs_mws = getenv env ''MWS_INTEGRATION_SERVICE_BASE_URL'' ''http://localhost:8085'',
      gs_file = getenv env ''FILE_SERVICE_BASE_URL'' ''http://localhost:8086'',
      gs_openapi = getenv env ''GATEWAY_OPENAPI_PATH''
        ''specs/001-wiki-editor-backend/contracts/public-api.openapi.yaml'',
      gs_issuer = getenv env ''JWT_ISSUER'' ''wiki-auth'', gs_audience = getenv env ''JWT_AUDIENCE'' ''wiki-api'',
      gs_cache_ttl = duration_from_env parse_duration env ''AUTH_SERVICE_JWKS_CACHE_TTL'' (5 * 60 * second)\<rparr>"

text \<open>\<open>NewGateway\<close>: the file of the interface is read once; the time to live has a default.\<close>

record gateway_process =
  gp_settings :: gateway_settings
  gp_ttl :: duration
  gp_spec :: string
  gp_configured :: bool
  gp_http_port :: int

definition new_gateway ::
  "(string \<Rightarrow> string + string) \<Rightarrow> gateway_settings \<Rightarrow> bool \<Rightarrow> int \<Rightarrow> string + gateway_process" where
  "new_gateway read_file settings auth port =
     (case read_file (gs_openapi settings) of
        Inl err \<Rightarrow> Inl err
      | Inr spec \<Rightarrow> Inr \<lparr>gp_settings = settings,
          gp_ttl = (if gs_cache_ttl settings \<le> 0 then 5 * 60 * second else gs_cache_ttl settings),
          gp_spec = spec, gp_configured = auth, gp_http_port = port\<rparr>)"

definition gateway_main ::
  "(string \<Rightarrow> string + string) \<Rightarrow> (string \<Rightarrow> duration option) \<Rightarrow> outside \<Rightarrow> environment \<Rightarrow> gateway_process startup" where
  "gateway_main read_file parse_duration w env =
     and_then (dial w ''failed to dial auth service'' (getenv env ''AUTH_SERVICE_GRPC_ADDR'' ''127.0.0.1:9091'')) (\<lambda>auth.
       (case new_gateway read_file (gateway_settings_of parse_duration env) auth (gateway_port env ''GATEWAY_PORT'' 8080) of
          Inl _ \<Rightarrow> fails ''failed to initialize gateway''
        | Inr gateway \<Rightarrow> opens gateway))"

section \<open>Ready\<close>

text \<open>
  The readiness checks that the auth service and the gateway have of their own, which keep a gauge. The gateway
  asks the ready address of the auth service: \<open>made\<close> is the error of making the request, \<open>answer\<close> what the
  client got.
\<close>

definition auth_ready :: "string option \<Rightarrow> http_metrics \<Rightarrow> string option \<times> http_metrics" where
  "auth_ready ping m = (ping, set_dependency ''postgres'' (ping = None) m)"

definition gateway_ready :: "string option \<Rightarrow> string + int \<Rightarrow> http_metrics \<Rightarrow> string option \<times> http_metrics" where
  "gateway_ready made answer m =
     (case made of
        Some err \<Rightarrow> (Some err, set_dependency ''auth-service'' False m)
      | None \<Rightarrow>
          (case answer of
             Inl err \<Rightarrow> (Some err, set_dependency ''auth-service'' False m)
           | Inr statusCode \<Rightarrow>
               let healthy = (200 \<le> statusCode \<and> statusCode < 300)
               in (if healthy then None else Some ''gateway dependency unavailable'',
                   set_dependency ''auth-service'' healthy m)))"

text \<open>The code with which a process ends, by what its group of tasks answered.\<close>

definition exit_code :: "string option list \<Rightarrow> int" where
  "exit_code ended = (case group_wait ended of None \<Rightarrow> 0 | Some err \<Rightarrow> 1)"

section \<open>Facts\<close>

text \<open>The gateway that reaches the auth service is ready exactly when the database of the auth service answers.\<close>

lemma gateway_ready_iff_auth_database:
  "fst (gateway_ready None (Inr (hx_status (health_ready (Some (fst (auth_ready ping m))) r))) m') = None \<longleftrightarrow> ping = None"
  by (cases ping) (simp_all add: gateway_ready_def auth_ready_def health_ready_def write_json_def Let_def)

lemma ready_gauges:
  "mt_dependency (snd (gateway_ready made answer m)) ''auth-service'' =
     Some (if fst (gateway_ready made answer m) = None then 1 else 0)"
  "mt_dependency (snd (auth_ready ping m)) ''postgres'' = Some (if fst (auth_ready ping m) = None then 1 else 0)"
  by (auto simp: gateway_ready_def auth_ready_def set_dependency_def Let_def split: option.splits sum.splits)

text \<open>One poll of the outbox that the store refuses ends the page service with all its servers.\<close>

lemma one_poll_exits:
  assumes "oo_claim ops 50 (fst sw) = Inl err" and "err \<noteq> ''context canceled''"
    and "relay_task (fst (relay_run (Some ops) (Some relay) policy 50 ticks sw)) \<in> set ended"
  shows "exit_code ended = 1"
  using one_poll_ends_process [OF assms] by (auto simp: exit_code_def)

lemma or_exit_runs [simp]:
  "or_exit message m rs = (Inr x, rs') \<longleftrightarrow> m rs = (Inr x, rs')"
  by (auto simp: or_exit_def split: prod.splits sum.splits)

lemma dial_runs [simp]:
  "dial w message addr rs = (Inr b, rs') \<longleftrightarrow>
     b = (addr \<noteq> '''') \<and> (addr \<noteq> '''' \<longrightarrow> ou_dial w addr = None) \<and> rs' = (if addr = '''' then rs else GrpcConn addr # rs)"
  by (auto simp: dial_def)

lemma listen_grpc_runs [simp]:
  "listen_grpc w port rs = (Inr p, rs') \<longleftrightarrow> ou_listen w port = None \<and> p = port \<and> rs' = rs"
  by (auto simp: listen_grpc_def)

lemma page_relay_runs:
  assumes "page_relay w env rs = (Inr relay, rs')"
  shows "relay = (let url = getenv_any env '''' [''PAGE_NATS_URL'', ''NATS_URL'']
     in if url = '''' then None else Some (url, second, 50))"
    and "nats_answers w (getenv_any env '''' [''PAGE_NATS_URL'', ''NATS_URL''])"
  using assms by (auto simp: page_relay_def Let_def connect_nats_runs nats_answers_def split: if_splits)

lemma subscribe_consumer_runs:
  "subscribe_consumer w message url rs = (Inr nats, rs') \<Longrightarrow>
     nats = (if url = '''' then None else Some url) \<and> (url \<noteq> '''' \<longrightarrow> ou_connect_nats w url = None \<and> ou_subscribe w = None)"
  by (auto simp: subscribe_consumer_def connect_nats_runs split: if_splits)

lemma page_main_cases:
  assumes "page_main w env rs = (Inr proc, rs')"
  shows "\<exists>app rs1 rs2 rs3.
     new_page_application w (page_config_of env True True (env ''FILE_SERVICE_GRPC_ADDR'' \<noteq> '''')) rs1 = (Inr app, rs2)
     \<and> page_relay w env rs2 = (Inr (pp_relay proc), rs3) \<and> pp_app proc = app"
proof -
  have fsvc: "getenv_any env '''' [''FILE_SERVICE_GRPC_ADDR''] = env ''FILE_SERVICE_GRPC_ADDR''" by simp
  have clients: "getenv_any env ''127.0.0.1:9095'' [''MWS_INTEGRATION_SERVICE_GRPC_ADDR''] \<noteq> ''''"
      "getenv_any env ''127.0.0.1:9091'' [''AUTH_SERVICE_GRPC_ADDR''] \<noteq> ''''"
    by (rule getenv_any_nonempty, simp)+
  obtain app rs1 rs2 rs3 relay where
    "new_page_application w (page_config_of env True True (env ''FILE_SERVICE_GRPC_ADDR'' \<noteq> '''')) rs1 = (Inr app, rs2)"
    "page_relay w env rs2 = (Inr relay, rs3)" "pp_app proc = app" "pp_relay proc = relay"
    using assms unfolding page_main_def and_then_Inr or_exit_runs dial_runs listen_grpc_runs fsvc opens_def
    using clients by fastforce
  then show ?thesis by blast
qed

text \<open>
  What a service that starts works on: the servers that its environment names, which have answered. The page
  service and the others that ask for permissions always have an authorization client, for the address has a
  default that is not empty.
\<close>

lemma page_main_made:
  assumes "page_main w env rs = (Inr proc, rs')"
  shows "pa_store (pp_app proc) = database_backend (env ''PAGE_DATABASE_URL'')"
    and "database_answers w (env ''PAGE_DATABASE_URL'')"
    and "pa_window (pp_app proc) = redis_backend (getenv_any env '''' [''PAGE_REDIS_ADDR'', ''REDIS_ADDR''])
      (getenv_any env '''' [''PAGE_REDIS_PASSWORD'', ''REDIS_PASSWORD''])
      (int_from_env_any env 0 [''PAGE_REDIS_DB'', ''REDIS_DB''])"
    and "redis_answers w (getenv_any env '''' [''PAGE_REDIS_ADDR'', ''REDIS_ADDR''])
      (getenv_any env '''' [''PAGE_REDIS_PASSWORD'', ''REDIS_PASSWORD''])
      (int_from_env_any env 0 [''PAGE_REDIS_DB'', ''REDIS_DB''])"
    and "pa_configured (pp_app proc)" and "pa_embeds (pp_app proc)"
    and "pa_files (pp_app proc) \<longleftrightarrow> env ''FILE_SERVICE_GRPC_ADDR'' \<noteq> ''''"
    and "pp_relay proc = (let url = getenv_any env '''' [''PAGE_NATS_URL'', ''NATS_URL'']
      in if url = '''' then None else Some (url, second, 50))"
    and "nats_answers w (getenv_any env '''' [''PAGE_NATS_URL'', ''NATS_URL''])"
proof -
  obtain app rs1 rs2 rs3 where
    app: "new_page_application w (page_config_of env True True (env ''FILE_SERVICE_GRPC_ADDR'' \<noteq> '''')) rs1 = (Inr app, rs2)"
    and relay: "page_relay w env rs2 = (Inr (pp_relay proc), rs3)" and proc: "pp_app proc = app"
    using page_main_cases [OF assms] by blast
  note made = page_application_made [OF app]
  show "pa_store (pp_app proc) = database_backend (env ''PAGE_DATABASE_URL'')"
    "database_answers w (env ''PAGE_DATABASE_URL'')"
    "pa_window (pp_app proc) = redis_backend (getenv_any env '''' [''PAGE_REDIS_ADDR'', ''REDIS_ADDR''])
      (getenv_any env '''' [''PAGE_REDIS_PASSWORD'', ''REDIS_PASSWORD''])
      (int_from_env_any env 0 [''PAGE_REDIS_DB'', ''REDIS_DB''])"
    "redis_answers w (getenv_any env '''' [''PAGE_REDIS_ADDR'', ''REDIS_ADDR''])
      (getenv_any env '''' [''PAGE_REDIS_PASSWORD'', ''REDIS_PASSWORD''])
      (int_from_env_any env 0 [''PAGE_REDIS_DB'', ''REDIS_DB''])"
    "pa_configured (pp_app proc)" "pa_embeds (pp_app proc)"
    "pa_files (pp_app proc) \<longleftrightarrow> env ''FILE_SERVICE_GRPC_ADDR'' \<noteq> ''''"
    using made proc by (simp_all add: page_config_of_def)
  show "pp_relay proc = (let url = getenv_any env '''' [''PAGE_NATS_URL'', ''NATS_URL'']
      in if url = '''' then None else Some (url, second, 50))"
    "nats_answers w (getenv_any env '''' [''PAGE_NATS_URL'', ''NATS_URL''])"
    using relay page_relay_runs by blast+
qed

text \<open>The auth service does not start without its database.\<close>

lemma auth_main_needs_database:
  "auth_main token_service parse_duration w env rs = (Inr proc, rs') \<Longrightarrow>
     env ''AUTH_DATABASE_URL'' \<noteq> '''' \<and> ou_ping_pool w (env ''AUTH_DATABASE_URL'') = None
     \<and> ap_database proc = env ''AUTH_DATABASE_URL''"
  by (auto simp: auth_main_def open_postgres_runs)

section \<open>Properties\<close>

definition everything_up :: outside where
  "everything_up = \<lparr>ou_parse_config = \<lambda>_. None, ou_new_pool = \<lambda>_. None, ou_ping_pool = \<lambda>_. None,
     ou_ping_redis = \<lambda>_ _ _. None, ou_new_minio = \<lambda>_. None, ou_bucket_exists = \<lambda>_ _. Inr True,
     ou_make_bucket = \<lambda>_ _. None, ou_connect_nats = \<lambda>_. None, ou_dial = \<lambda>_. None, ou_listen = \<lambda>_. None,
     ou_subscribe = None\<rparr>"

definition sample_env :: environment where
  "sample_env = (\<lambda>key. if key = ''PAGE_DATABASE_URL'' then ''postgres://db/pages''
     else if key = ''REDIS_ADDR'' then ''redis:6379'' else if key = ''REDIS_DB'' then ''2''
     else if key = ''PAGE_REDIS_DB'' then ''two'' else if key = ''NATS_URL'' then ''nats://bus'' else '''')"

text \<open>
  C40: No silent fallback. A page service that has started keeps pages where its environment says, in PostgreSQL
  where a database is named and in memory only where none is, and the same holds of the replay window and Redis;
  the database and Redis have answered its ping where they are named; its outbox is relayed exactly if a
  bus is named, to that bus, to which the process has connected, every second and fifty events at a time;
  it is set up to ask the auth service for permissions and the table service for embeds whatever the
  environment is, and the file service where its address is named. These three services have not been
  contacted: their connections are opened without waiting.
\<close>

theorem page_process_backends:
  assumes "page_main w env [] = (Inr proc, rs)"
  shows "pa_store (pp_app proc) = database_backend (env ''PAGE_DATABASE_URL'')
     \<and> database_answers w (env ''PAGE_DATABASE_URL'')
     \<and> (let addr = getenv_any env '''' [''PAGE_REDIS_ADDR'', ''REDIS_ADDR''];
            password = getenv_any env '''' [''PAGE_REDIS_PASSWORD'', ''REDIS_PASSWORD''];
            db = int_from_env_any env 0 [''PAGE_REDIS_DB'', ''REDIS_DB'']
        in pa_window (pp_app proc) = redis_backend addr password db \<and> redis_answers w addr password db)
     \<and> pa_configured (pp_app proc) \<and> pa_embeds (pp_app proc)
     \<and> (pa_files (pp_app proc) \<longleftrightarrow> env ''FILE_SERVICE_GRPC_ADDR'' \<noteq> '''')
     \<and> (let url = getenv_any env '''' [''PAGE_NATS_URL'', ''NATS_URL'']
        in pp_relay proc = (if url = '''' then None else Some (url, second, 50)) \<and> nats_answers w url)"
  using page_main_made [OF assms] by (simp add: Let_def del: getenv_any.simps int_from_env_any.simps)

theorem page_process_backends_witness:
  "\<exists>proc rs. page_main everything_up sample_env [] = (Inr proc, rs)
     \<and> pa_store (pp_app proc) = OnPostgres ''postgres://db/pages''
     \<and> pa_window (pp_app proc) = OnRedis ''redis:6379'' '''' 2 \<and> pa_configured (pp_app proc)"
proof -
  have "case fst (page_main everything_up sample_env []) of Inl _ \<Rightarrow> False | Inr _ \<Rightarrow> True" by code_simp
  then obtain proc rs where run: "page_main everything_up sample_env [] = (Inr proc, rs)"
    by (cases "page_main everything_up sample_env []") (auto split: sum.splits)
  have "database_backend (sample_env ''PAGE_DATABASE_URL'') = OnPostgres ''postgres://db/pages''"
      "redis_backend (getenv_any sample_env '''' [''PAGE_REDIS_ADDR'', ''REDIS_ADDR''])
        (getenv_any sample_env '''' [''PAGE_REDIS_PASSWORD'', ''REDIS_PASSWORD''])
        (int_from_env_any sample_env 0 [''PAGE_REDIS_DB'', ''REDIS_DB'']) = OnRedis ''redis:6379'' '''' 2"
    by code_simp+
  with page_process_backends [OF run] run show ?thesis by (metis (no_types, lifting))
qed

end
