(* ===== verification/Adapters.thy ===== *)
theory Adapters
  imports Outbox Files
begin

text \<open>
  The adapters between the ports of the services and the servers outside: the publisher of the outbox on NATS
  (\<^verbatim>\<open>pkg/messaging/nats.go\<close>), and the object store of the file service on MinIO
  (\<^verbatim>\<open>internal/adapters/minio/object_store.go\<close>). The client libraries are the records \<open>nats_conn\<close> and \<open>minio_client\<close>.
\<close>

section \<open>NATS\<close>

record nats_message =
  nm_subject :: string
  nm_data :: json
  nm_header :: "(string \<times> string) list"

record 'w nats_conn =
  nc_publish :: "nats_message \<Rightarrow> 'w \<Rightarrow> string option \<times> 'w"
  nc_flush :: "duration \<Rightarrow> 'w \<Rightarrow> string option \<times> 'w"

definition set_headers :: "(string \<times> string) list \<Rightarrow> (string \<times> string) list" where
  "set_headers headers = foldl (\<lambda>h kv. kv_put (fst kv) (snd kv) h) [] headers"

definition nats_publish ::
  "'w nats_conn option \<Rightarrow> string \<Rightarrow> json \<Rightarrow> (string \<times> string) list \<Rightarrow> 'w \<Rightarrow> string option \<times> 'w" where
  "nats_publish conn subject payload headers w =
     (case conn of
        None \<Rightarrow> (Some ''nats connection is nil'', w)
      | Some nc \<Rightarrow>
          (case nc_publish nc \<lparr>nm_subject = subject, nm_data = payload, nm_header = set_headers headers\<rparr> w of
             (Some err, w) \<Rightarrow> (Some err, w)
           | (None, w) \<Rightarrow> nc_flush nc (2 * second) w))"

text \<open>\<open>PublishJSON\<close> checks the subject and does not wait for the server.\<close>

definition publish_json ::
  "'w nats_conn option \<Rightarrow> string \<Rightarrow> string + json \<Rightarrow> (string \<times> string) list \<Rightarrow> 'w \<Rightarrow> string option \<times> 'w" where
  "publish_json conn subject marshalled headers w =
     (case conn of
        None \<Rightarrow> (Some ''nats connection is nil'', w)
      | Some nc \<Rightarrow>
          if subject = '''' then (Some ''subject is required'', w)
          else (case marshalled of
                  Inl err \<Rightarrow> (Some err, w)
                | Inr body \<Rightarrow> nc_publish nc \<lparr>nm_subject = subject, nm_data = body, nm_header = set_headers headers\<rparr> w))"

section \<open>MinIO\<close>

text \<open>\<open>url.URL\<close>: the parts that the adapter touches, and the rest of it.\<close>

record 'r url =
  url_scheme :: string
  url_host :: string
  url_path :: string
  url_rest :: 'r

record 'r minio_client =
  mc_presign_put :: "string \<Rightarrow> string \<Rightarrow> duration \<Rightarrow> string + 'r url"
  mc_presign_get :: "string \<Rightarrow> string \<Rightarrow> duration \<Rightarrow> string + 'r url"

record 'r minio_store =
  mo_client :: "'r minio_client"
  mo_bucket :: string
  mo_public :: "'r url option"

text \<open>\<open>parse\<close> and \<open>render\<close> are \<open>url.Parse\<close> and \<open>URL.String\<close>.\<close>

definition new_object_store ::
  "(string \<Rightarrow> string + 'r url) \<Rightarrow> 'r minio_client \<Rightarrow> string \<Rightarrow> string \<Rightarrow> 'r minio_store" where
  "new_object_store parse client bucket publicBaseURL =
     (let store = \<lparr>mo_client = client, mo_bucket = bucket, mo_public = None\<rparr>
      in if publicBaseURL = '''' then store
         else (case parse publicBaseURL of
                 Inr parsed \<Rightarrow>
                   if url_scheme parsed \<noteq> '''' \<and> url_host parsed \<noteq> '''' then store\<lparr>mo_public := Some parsed\<rparr> else store
               | Inl err \<Rightarrow> store))"

definition trim_right_slash :: "string \<Rightarrow> string" where
  "trim_right_slash s = rev (dropWhile (\<lambda>c. c = CHR ''/'') (rev s))"

definition public_target :: "'r minio_store \<Rightarrow> 'r url \<Rightarrow> 'r url" where
  "public_target s source =
     (case mo_public s of
        None \<Rightarrow> source
      | Some base \<Rightarrow>
          let moved = source\<lparr>url_scheme := url_scheme base, url_host := url_host base\<rparr>
          in if url_path base \<noteq> '''' \<and> url_path base \<noteq> ''/''
             then moved\<lparr>url_path := trim_right_slash (url_path base) @ url_path source\<rparr> else moved)"

definition minio_object_store :: "('r url \<Rightarrow> string) \<Rightarrow> 'r minio_store \<Rightarrow> object_store" where
  "minio_object_store render s =
     \<lparr>ob_presign_upload = \<lambda>objectKey expiresIn.
        (case mc_presign_put (mo_client s) (mo_bucket s) objectKey expiresIn of
           Inl err \<Rightarrow> Inl err
         | Inr urlValue \<Rightarrow> Inr (render (public_target s urlValue), [])),
      ob_presign_download = \<lambda>objectKey expiresIn.
        (case mc_presign_get (mo_client s) (mo_bucket s) objectKey expiresIn of
           Inl err \<Rightarrow> Inl err
         | Inr urlValue \<Rightarrow> Inr (render (public_target s urlValue)))\<rparr>"

section \<open>Facts\<close>

text \<open>A message that was published was taken and flushed; without a connection nothing is sent.\<close>

lemma nats_published:
  assumes "nats_publish conn subject payload headers w = (None, w')"
  obtains nc w1 where "conn = Some nc"
    and "nc_publish nc \<lparr>nm_subject = subject, nm_data = payload, nm_header = set_headers headers\<rparr> w = (None, w1)"
    and "nc_flush nc (2 * second) w1 = (None, w')"
  using assms by (auto simp: nats_publish_def split: option.splits prod.splits)

lemma set_headers_of: "distinct (map fst headers) \<Longrightarrow> map_of (set_headers headers) = map_of headers"
proof (induction headers rule: rev_induct)
  case (snoc kv headers)
  have put: "map_of (kv_put k v h) = (map_of h)(k \<mapsto> v)" for k v and h :: "(string \<times> string) list"
    by (induction h) (auto simp: fun_eq_iff)
  show ?case using snoc by (auto simp: set_headers_def put fun_eq_iff map_of_eq_None_iff [symmetric] map_add_def
      split: option.splits)
qed (simp add: set_headers_def)

text \<open>A download goes to the public host, with the path of the object under the public path.\<close>

lemma public_target_fields:
  assumes "mo_public s = Some base"
  shows "url_scheme (public_target s u) = url_scheme base" and "url_host (public_target s u) = url_host base"
    and "url_rest (public_target s u) = url_rest u"
    and "\<exists>prefix. url_path (public_target s u) = prefix @ url_path u \<and> (prefix = [] \<or> last prefix \<noteq> CHR ''/'')"
proof -
  have trimmed: "trim_right_slash p = [] \<or> last (trim_right_slash p) \<noteq> CHR ''/''" for p
    using hd_dropWhile [of "\<lambda>c. c = CHR ''/''" "rev p"]
    by (cases "dropWhile (\<lambda>c. c = CHR ''/'') (rev p)") (auto simp: trim_right_slash_def last_rev)
  show "url_scheme (public_target s u) = url_scheme base" "url_host (public_target s u) = url_host base"
    "url_rest (public_target s u) = url_rest u"
    using assms by (simp_all add: public_target_def Let_def)
  show "\<exists>prefix. url_path (public_target s u) = prefix @ url_path u \<and> (prefix = [] \<or> last prefix \<noteq> CHR ''/'')"
    using assms trimmed [of "url_path base"] by (auto simp: public_target_def Let_def intro: exI [of _ "[]"])
qed

lemma public_base_usable:
  "mo_public (new_object_store parse client bucket publicBaseURL) = Some base \<Longrightarrow>
     url_scheme base \<noteq> '''' \<and> url_host base \<noteq> ''''"
  by (auto simp: new_object_store_def Let_def split: if_splits sum.splits)

end
