(* ===== verification/Rpc.thy ===== *)
theory Rpc
  imports Prelude
begin

text \<open>
  The glue of the gRPC contracts (\<^verbatim>\<open>pkg/contracts/*\<close>): the clients, the handlers that decode a message and
  hand it to the server, and the descriptors that name them. Messages travel as JSON (\<^verbatim>\<open>pkg/transport/grpcjson.go\<close>);
  the gRPC library, which looks up the service and the method of a path, is \<open>rpc_dispatch\<close>.
\<close>

section \<open>Handlers and clients\<close>

type_synonym ('i, 'o, 's) rpc_method = "'i \<Rightarrow> 's \<Rightarrow> (string + 'o) \<times> 's"
type_synonym ('i, 'o, 's) rpc_interceptor = "string \<Rightarrow> 'i \<Rightarrow> ('i, 'o, 's) rpc_method \<Rightarrow> 's \<Rightarrow> (string + 'o) \<times> 's"
type_synonym ('i, 'o, 's) rpc_handler =
  "string + 'i \<Rightarrow> ('i, 'o, 's) rpc_interceptor option \<Rightarrow> ('i, 'o, 's) rpc_method \<Rightarrow> 's \<Rightarrow> (string + 'o) \<times> 's"
type_synonym ('i, 'o, 's) rpc_invoke = "string \<Rightarrow> string list \<Rightarrow> 'i \<Rightarrow> 's \<Rightarrow> (string + 'o) \<times> 's"

definition unary_handler :: "string \<Rightarrow> ('i, 'o, 's) rpc_handler" where
  "unary_handler fullMethod dec interceptor srv s =
     (case dec of
        Inl err \<Rightarrow> (Inl err, s)
      | Inr message \<Rightarrow>
          (case interceptor of
             None \<Rightarrow> srv message s
           | Some intercept \<Rightarrow> intercept fullMethod message srv s))"

text \<open>A client asks for the content subtype \<open>json\<close> before the options of the caller.\<close>

definition unary_client ::
  "string \<Rightarrow> ('i, 'o, 's) rpc_invoke \<Rightarrow> string list \<Rightarrow> ('i, 'o, 's) rpc_method" where
  "unary_client path invoke opts message s =
     (case invoke path (''json'' # opts) message s of
        (Inl err, s) \<Rightarrow> (Inl err, s)
      | (Inr reply, s) \<Rightarrow> (Inr reply, s))"

text \<open>The JSON codec of a message and of its reply, and a handler on the wire.\<close>

record ('i, 'o) json_codec =
  jc_request :: "'i \<Rightarrow> json"
  jc_parse :: "json \<Rightarrow> string + 'i"
  jc_reply :: "'o \<Rightarrow> json"
  jc_read :: "json \<Rightarrow> string + 'o"

definition on_wire ::
  "('i, 'o) json_codec \<Rightarrow> ('i, 'o, 's) rpc_handler \<Rightarrow> ('i, 'o, 's) rpc_method \<Rightarrow> (json, json, 's) rpc_method" where
  "on_wire codec handler srv body s =
     (case handler (jc_parse codec body) None srv s of
        (Inl err, s) \<Rightarrow> (Inl err, s)
      | (Inr reply, s) \<Rightarrow> (Inr (jc_reply codec reply), s))"

record 's service_desc =
  sd_name :: string
  sd_methods :: "(string \<times> (json, json, 's) rpc_method) list"

definition rpc_dispatch :: "'s service_desc list \<Rightarrow> string \<Rightarrow> (json, json, 's) rpc_method" where
  "rpc_dispatch descs path body s =
     (case map_of (concat (map (\<lambda>d. map (\<lambda>(m, h). (''/'' @ sd_name d @ ''/'' @ m, h)) (sd_methods d)) descs)) path of
        None \<Rightarrow> (Inl (''unknown method '' @ path), s)
      | Some handler \<Rightarrow> handler body s)"

definition connected :: "('i, 'o) json_codec \<Rightarrow> 's service_desc list \<Rightarrow> ('i, 'o, 's) rpc_invoke" where
  "connected codec descs path opts message s =
     (case rpc_dispatch descs path (jc_request codec message) s of
        (Inl err, s) \<Rightarrow> (Inl err, s)
      | (Inr body, s) \<Rightarrow> (jc_read codec body, s))"

section \<open>The contracts\<close>

definition authorize_handler :: "('i, 'o, 's) rpc_handler" where
  "authorize_handler = unary_handler ''/wiki.auth.v1.AuthorizationService/Authorize''"

definition authorize_call :: "('i, 'o, 's) rpc_invoke \<Rightarrow> string list \<Rightarrow> ('i, 'o, 's) rpc_method" where
  "authorize_call = unary_client ''/wiki.auth.v1.AuthorizationService/Authorize''"

definition batch_authorize_handler :: "('i, 'o, 's) rpc_handler" where
  "batch_authorize_handler = unary_handler ''/wiki.auth.v1.AuthorizationService/BatchAuthorize''"

definition batch_authorize_call :: "('i, 'o, 's) rpc_invoke \<Rightarrow> string list \<Rightarrow> ('i, 'o, 's) rpc_method" where
  "batch_authorize_call = unary_client ''/wiki.auth.v1.AuthorizationService/BatchAuthorize''"

definition authorization_service ::
  "(('i1, 'o1) json_codec \<times> ('i1, 'o1, 's) rpc_method) \<Rightarrow> (('i2, 'o2) json_codec \<times> ('i2, 'o2, 's) rpc_method) \<Rightarrow> 's service_desc" where
  "authorization_service m1 m2 =
     \<lparr>sd_name = ''wiki.auth.v1.AuthorizationService'',
      sd_methods = [
        (''Authorize'', on_wire (fst m1) authorize_handler (snd m1)),
        (''BatchAuthorize'', on_wire (fst m2) batch_authorize_handler (snd m2))]\<rparr>"

definition get_head_handler :: "('i, 'o, 's) rpc_handler" where
  "get_head_handler = unary_handler ''/wiki.page.v1.PageRevisionService/GetRevisionHead''"

definition get_head_call :: "('i, 'o, 's) rpc_invoke \<Rightarrow> string list \<Rightarrow> ('i, 'o, 's) rpc_method" where
  "get_head_call = unary_client ''/wiki.page.v1.PageRevisionService/GetRevisionHead''"

definition commit_revision_handler :: "('i, 'o, 's) rpc_handler" where
  "commit_revision_handler = unary_handler ''/wiki.page.v1.PageRevisionService/CommitCollaborativeRevision''"

definition commit_revision_call :: "('i, 'o, 's) rpc_invoke \<Rightarrow> string list \<Rightarrow> ('i, 'o, 's) rpc_method" where
  "commit_revision_call = unary_client ''/wiki.page.v1.PageRevisionService/CommitCollaborativeRevision''"

definition page_revision_service ::
  "(('i1, 'o1) json_codec \<times> ('i1, 'o1, 's) rpc_method) \<Rightarrow> (('i2, 'o2) json_codec \<times> ('i2, 'o2, 's) rpc_method) \<Rightarrow> 's service_desc" where
  "page_revision_service m1 m2 =
     \<lparr>sd_name = ''wiki.page.v1.PageRevisionService'',
      sd_methods = [
        (''GetRevisionHead'', on_wire (fst m1) get_head_handler (snd m1)),
        (''CommitCollaborativeRevision'', on_wire (fst m2) commit_revision_handler (snd m2))]\<rparr>"

definition get_metadata_handler :: "('i, 'o, 's) rpc_handler" where
  "get_metadata_handler = unary_handler ''/wiki.file.v1.FileMetadataService/GetFileMetadata''"

definition get_metadata_call :: "('i, 'o, 's) rpc_invoke \<Rightarrow> string list \<Rightarrow> ('i, 'o, 's) rpc_method" where
  "get_metadata_call = unary_client ''/wiki.file.v1.FileMetadataService/GetFileMetadata''"

definition file_metadata_service ::
  "(('i1, 'o1) json_codec \<times> ('i1, 'o1, 's) rpc_method) \<Rightarrow> 's service_desc" where
  "file_metadata_service m1 =
     \<lparr>sd_name = ''wiki.file.v1.FileMetadataService'',
      sd_methods = [
        (''GetFileMetadata'', on_wire (fst m1) get_metadata_handler (snd m1))]\<rparr>"

definition resolve_embed_handler :: "('i, 'o, 's) rpc_handler" where
  "resolve_embed_handler = unary_handler ''/wiki.mws.v1.MWSIntegrationService/ResolveEmbed''"

definition resolve_embed_call :: "('i, 'o, 's) rpc_invoke \<Rightarrow> string list \<Rightarrow> ('i, 'o, 's) rpc_method" where
  "resolve_embed_call = unary_client ''/wiki.mws.v1.MWSIntegrationService/ResolveEmbed''"

definition refresh_preview_handler :: "('i, 'o, 's) rpc_handler" where
  "refresh_preview_handler = unary_handler ''/wiki.mws.v1.MWSIntegrationService/RefreshEmbedPreview''"

definition refresh_preview_call :: "('i, 'o, 's) rpc_invoke \<Rightarrow> string list \<Rightarrow> ('i, 'o, 's) rpc_method" where
  "refresh_preview_call = unary_client ''/wiki.mws.v1.MWSIntegrationService/RefreshEmbedPreview''"

definition mws_integration_service ::
  "(('i1, 'o1) json_codec \<times> ('i1, 'o1, 's) rpc_method) \<Rightarrow> (('i2, 'o2) json_codec \<times> ('i2, 'o2, 's) rpc_method) \<Rightarrow> 's service_desc" where
  "mws_integration_service m1 m2 =
     \<lparr>sd_name = ''wiki.mws.v1.MWSIntegrationService'',
      sd_methods = [
        (''ResolveEmbed'', on_wire (fst m1) resolve_embed_handler (snd m1)),
        (''RefreshEmbedPreview'', on_wire (fst m2) refresh_preview_handler (snd m2))]\<rparr>"

section \<open>Facts\<close>

text \<open>A codec whose messages and replies are read as they were written.\<close>

definition faithful :: "('i, 'o) json_codec \<Rightarrow> bool" where
  "faithful codec \<longleftrightarrow> (\<forall>x. jc_parse codec (jc_request codec x) = Inr x) \<and> (\<forall>y. jc_read codec (jc_reply codec y) = Inr y)"

lemma on_wire_faithful:
  assumes "faithful codec"
  shows "(case on_wire codec (unary_handler path) srv (jc_request codec x) s of
       (Inl err, s) \<Rightarrow> (Inl err, s) | (Inr body, s) \<Rightarrow> (jc_read codec body, s)) = srv x s"
  using assms
  by (cases "srv x s"; cases "fst (srv x s)") (auto simp: on_wire_def unary_handler_def faithful_def)

text \<open>
  Each client reaches the method of the server that has its name,
  and gets its answer; a message that cannot be decoded does not reach the server.
\<close>

lemma undecoded_message: "unary_handler path (Inl err) interceptor srv s = (Inl err, s)"
  by (simp add: unary_handler_def)

lemma authorize_reaches_server:
  "faithful (fst m1) \<Longrightarrow>
     authorize_call (connected (fst m1) [authorization_service m1 m2]) opts x s = snd m1 x s"
  using on_wire_faithful [of "fst m1" "''/wiki.auth.v1.AuthorizationService/Authorize''" "snd m1" x s]
  by (auto simp: authorize_call_def authorization_service_def authorize_handler_def unary_client_def connected_def rpc_dispatch_def
      split: prod.splits sum.splits)

lemma batch_authorize_reaches_server:
  "faithful (fst m2) \<Longrightarrow>
     batch_authorize_call (connected (fst m2) [authorization_service m1 m2]) opts x s = snd m2 x s"
  using on_wire_faithful [of "fst m2" "''/wiki.auth.v1.AuthorizationService/BatchAuthorize''" "snd m2" x s]
  by (auto simp: batch_authorize_call_def authorization_service_def batch_authorize_handler_def unary_client_def connected_def rpc_dispatch_def
      split: prod.splits sum.splits)

lemma get_head_reaches_server:
  "faithful (fst m1) \<Longrightarrow>
     get_head_call (connected (fst m1) [page_revision_service m1 m2]) opts x s = snd m1 x s"
  using on_wire_faithful [of "fst m1" "''/wiki.page.v1.PageRevisionService/GetRevisionHead''" "snd m1" x s]
  by (auto simp: get_head_call_def page_revision_service_def get_head_handler_def unary_client_def connected_def rpc_dispatch_def
      split: prod.splits sum.splits)

lemma commit_revision_reaches_server:
  "faithful (fst m2) \<Longrightarrow>
     commit_revision_call (connected (fst m2) [page_revision_service m1 m2]) opts x s = snd m2 x s"
  using on_wire_faithful [of "fst m2" "''/wiki.page.v1.PageRevisionService/CommitCollaborativeRevision''" "snd m2" x s]
  by (auto simp: commit_revision_call_def page_revision_service_def commit_revision_handler_def unary_client_def connected_def rpc_dispatch_def
      split: prod.splits sum.splits)

lemma get_metadata_reaches_server:
  "faithful (fst m1) \<Longrightarrow>
     get_metadata_call (connected (fst m1) [file_metadata_service m1]) opts x s = snd m1 x s"
  using on_wire_faithful [of "fst m1" "''/wiki.file.v1.FileMetadataService/GetFileMetadata''" "snd m1" x s]
  by (auto simp: get_metadata_call_def file_metadata_service_def get_metadata_handler_def unary_client_def connected_def rpc_dispatch_def
      split: prod.splits sum.splits)

lemma resolve_embed_reaches_server:
  "faithful (fst m1) \<Longrightarrow>
     resolve_embed_call (connected (fst m1) [mws_integration_service m1 m2]) opts x s = snd m1 x s"
  using on_wire_faithful [of "fst m1" "''/wiki.mws.v1.MWSIntegrationService/ResolveEmbed''" "snd m1" x s]
  by (auto simp: resolve_embed_call_def mws_integration_service_def resolve_embed_handler_def unary_client_def connected_def rpc_dispatch_def
      split: prod.splits sum.splits)

lemma refresh_preview_reaches_server:
  "faithful (fst m2) \<Longrightarrow>
     refresh_preview_call (connected (fst m2) [mws_integration_service m1 m2]) opts x s = snd m2 x s"
  using on_wire_faithful [of "fst m2" "''/wiki.mws.v1.MWSIntegrationService/RefreshEmbedPreview''" "snd m2" x s]
  by (auto simp: refresh_preview_call_def mws_integration_service_def refresh_preview_handler_def unary_client_def connected_def rpc_dispatch_def
      split: prod.splits sum.splits)

end
