(* ===== verification/RoomSync.thy ===== *)
theory RoomSync
  imports CollabRefresh Outbox
begin

text \<open>
  From a saved draft to the open rooms: the relay of the page service publishes the pending events, the consumer
  of the collaboration service (\<^verbatim>\<open>internal/adapters/nats_consumer.go\<close>) refreshes the rooms of their pages.
\<close>

section \<open>The consumer\<close>

text \<open>
  The two subjects are subscribed apart, so their messages come in any order; each one is handled as a whole.
  A message whose data is not JSON is \<open>None\<close>.
\<close>

definition refresh_subjects :: "string list" where
  "refresh_subjects = [''page.draft.saved'', ''page.published'']"

fun deliver ::
  "('r, 'p, 'q) collab_deps \<Rightarrow> request_context \<Rightarrow> gotime \<Rightarrow> (string \<times> json option) list \<Rightarrow> ('r, 'p, 'q) collab \<Rightarrow>
   ('r, 'p, 'q) collab" where
  "deliver ck cx now [] sv = sv"
| "deliver ck cx now ((subject, message) # messages) sv =
     deliver ck cx now messages
       (if subject \<in> set refresh_subjects then refresh_on_message ck cx now False message sv else sv)"

definition changed_page_of :: "json option \<Rightarrow> changed_page option" where
  "changed_page_of message = Option.bind message (decode_struct set_changed_field \<lparr>cg_page = '''', cg_workspace = ''''\<rparr>)"

text \<open>No message names a workspace with a colon.\<close>

definition colon_free_message :: "json option \<Rightarrow> bool" where
  "colon_free_message message = (case changed_page_of message of None \<Rightarrow> True | Some x \<Rightarrow> colon_free (cg_workspace x))"

lemma draft_saved_page:
  "changed_page_of (Some (draft_saved_payload page revision refs)) =
     Some \<lparr>cg_page = pg_id page, cg_workspace = pg_workspace page\<rparr>"
proof -
  have names: "is_field ''page_id'' ''page_id''" "is_field ''workspace_id'' ''workspace_id''" "\<not> is_field ''page_id'' ''workspace_id''"
    by (code_simp, code_simp, code_simp)
  have others: "set_changed_field k v x = Some x"
    if "k \<in> {''revision_no'', ''revision_id'', ''title'', ''saved_via'', ''canonical_links'', ''embedded_tables'',
      ''embedded_titles'', ''attachment_ids'', ''searchable_text'', ''updated_at''}" for k v x
  proof -
    have "list_all (\<lambda>k. \<not> is_field ''page_id'' k \<and> \<not> is_field ''workspace_id'' k) [''revision_no'', ''revision_id'',
        ''title'', ''saved_via'', ''canonical_links'', ''embedded_tables'', ''embedded_titles'', ''attachment_ids'',
        ''searchable_text'', ''updated_at'']" by code_simp
    then show ?thesis using that by (auto simp: set_changed_field_def)
  qed
  show ?thesis
    by (simp add: changed_page_of_def draft_saved_payload_def others set_changed_field_def [of "''page_id''"]
        set_changed_field_def [of "''workspace_id''"] names)
qed

section \<open>Heads\<close>

text \<open>The head of a page, as far as a room holds it.\<close>

definition head_is :: "mem_store \<Rightarrow> string \<Rightarrow> page_revision \<Rightarrow> bool" where
  "head_is s p r \<longleftrightarrow> (\<exists>page r'. mem_get_page s p = Inr page \<and> mem_get_revision s p ViewDraft = Inr r'
     \<and> rv_id r' = rv_id r \<and> rv_no r' = rv_no r \<and> block_texts (rv_document r') = block_texts (rv_document r))"

definition room_at_head :: "page_revision \<Rightarrow> room_state \<Rightarrow> bool" where
  "room_at_head r st \<longleftrightarrow> rm_revision st = rv_id r \<and> rm_no st = rv_no r
     \<and> cblock_texts (rm_document st) = block_texts (rv_document r)"

lemma client_head_pages:
  assumes "client_head (grpc_get_revision_head dp) i q = (res, q')" and "dp_store dp = memory_ops"
  shows "mem_get_page (sv_store q') = mem_get_page (sv_store q)"
proof -
  have share: "mem_get_page (mem_share x y bs s) = mem_get_page s" for x y bs s
    by (auto simp: fun_eq_iff mem_get_page_def mem_share_def)
  have hydrated: "mem_get_page (sv_store sv') = mem_get_page (sv_store q)"
    if "hydrate_in_place dp rq p r q = (res', sv')" for rq :: request and p r res' sv'
    using hydrate_in_place_service [OF that] assms(2) by (auto simp: share)
  obtain rq :: request and p r where "get_revision_head dp rq p q = (r, q')"
    using assms(1) by (auto simp: client_head_def grpc_get_revision_head_def split: prod.splits sum.splits option.splits)
  then show ?thesis
    using hydrated by (auto simp: get_revision_head_def split: option.splits sum.splits prod.splits)
qed

lemma head_is_kept:
  assumes "head_is s p r" and "mem_inv s" and "mem_inv s'" and "keeps_history memory_ops s s'"
    and "mem_get_page s' = mem_get_page s"
  shows "head_is s' p r"
proof -
  obtain page r' where page: "mem_get_page s p = Inr page" and r': "mem_get_revision s p ViewDraft = Inr r'"
    and eq: "rv_id r' = rv_id r" "rv_no r' = rv_no r" "block_texts (rv_document r') = block_texts (rv_document r)"
    using assms(1) by (auto simp: head_is_def)
  have old: "mem_get_revision_by_id s p (pg_draft_id page) = Inr r'"
    using mem.draft_head [OF assms(2), of p page] page r' by auto
  have page': "mem_get_page s' p = Inr page" using page assms(5) by simp
  obtain r'' where r'': "mem_get_revision s' p ViewDraft = Inr r''"
      "mem_get_revision_by_id s' p (pg_draft_id page) = Inr r''"
    using mem.draft_head [OF assms(3), of p page] page' by auto
  obtain d where "mem_get_revision_by_id s' p (pg_draft_id page) = Inr (r'\<lparr>rv_document := d\<rparr>)"
      "block_texts d = block_texts (rv_document r')"
    by (rule kept_revision [OF assms(4) old])
  with r'' have "r'' = r'\<lparr>rv_document := d\<rparr>" "block_texts d = block_texts (rv_document r')" by simp_all
  then show ?thesis using page' r'' eq by (auto simp: head_is_def)
qed

text \<open>What the page service answers is the head; and it answers, where the page is there and attachments can be read.\<close>

lemma read_head:
  assumes "client_head (grpc_get_revision_head dp) (head_request cx p w a) q = (Inr head, q')"
    and "head_is (sv_store q) p r" and "dp_store dp = memory_ops"
  shows "room_at_head r (room_of_head p w head)"
proof -
  obtain rq :: request and h where run: "get_revision_head dp rq p q = (Inr h, q')"
    and doc: "cdocument_of_json (document_json (hp_document h)) = Some (ph_document head)"
    and no: "ph_no head = hp_no h" "ph_revision head = hp_revision h"
    using assms(1) by (auto elim!: client_head_Inr simp: head_request_def)
  obtain r1 r2 where r1: "mem_get_revision (sv_store q) p ViewDraft = Inr r1"
    and hyd: "hydrate_in_place dp rq p r1 q = (Inr r2, q')"
    and h: "hp_no h = rv_no r2" "hp_revision h = rv_id r2" "hp_document h = rv_document r2"
    using run assms(3) by (auto simp: get_revision_head_def split: option.splits sum.splits prod.splits)
  show ?thesis
    using hydrate_in_place_revision [OF hyd] assms(2) r1 h no head_texts [OF doc]
    by (auto simp: room_at_head_def room_of_head_def head_is_def)
qed

lemma decode_member_maps:
  "decode_map m (embed_json e) \<noteq> None" "decode_map m (link_json l) \<noteq> None" "decode_map m (attachment_json a) \<noteq> None"
  by (simp_all add: embed_json_def link_json_def attachment_json_def)

lemma cdocument_total: "cdocument_of_json (document_json d) \<noteq> None"
proof -
  have strings: "set_block_field k (JStr s) b \<noteq> None" if "k \<in> {''id'', ''type'', ''text''}" for k s b
    using that by (auto simp: set_block_field_def field_simps)
  have maps: "set_block_field k v b \<noteq> None" if "\<And>m. decode_map m v \<noteq> None" "k \<in> {''attrs'', ''embed'', ''link'', ''attachment''}"
    for k v b
    using that(2) that(1) [simplified] by (auto simp: set_block_field_def field_simps)
  have "decode_struct set_block_field x (block_json b) \<noteq> None" for x b
    unfolding block_json_def decode_struct.simps
    by (rule decode_members_total)
       (simp add: opt_string_def opt_map_def opt_member_def strings [simplified] maps [OF decode_member_maps(1), simplified]
         maps [OF decode_member_maps(2), simplified] maps [OF decode_member_maps(3), simplified]
         maps [of "JObj kvs" for kvs, simplified] split: option.splits)
  then have "decode_each (decode_struct set_block_field zero_block) (map block_json (dc_blocks d)) \<noteq> None"
    by (intro decode_each_total)
  then show ?thesis
    unfolding cdocument_of_json_def document_json_def decode_struct.simps
    by (intro decode_members_total) (auto simp: set_cdocument_field_def member_defs split: option.splits)
qed

definition attachments_readable :: "('s, 'r) deps \<Rightarrow> string \<Rightarrow> string \<Rightarrow> bool" where
  "attachments_readable dp p w \<longleftrightarrow> (\<forall>d. \<exists>d'. fst (validate_and_hydrate (dp_files dp) d p w '''') = Inr d')"

lemma head_answered:
  assumes "head_is (sv_store q) p r" and "attachments_readable dp p w" and "dp_store dp = memory_ops"
  shows "\<exists>head q'. client_head (grpc_get_revision_head dp) (head_request cx p w '''') q = (Inr head, q')"
proof -
  obtain page r' where r': "mem_get_page (sv_store q) p = Inr page" "mem_get_revision (sv_store q) p ViewDraft = Inr r'"
    using assms(1) by (auto simp: head_is_def)
  let ?rq = "grpc_request (identity_of (rx_request cx) (rx_correlation cx) '''' w)"
  have guard: "query_guard dp ?rq p = None"
    by (simp add: query_guard_def require_action_def subject_of_def grpc_request_def authorize_def authorizer_allowed_def)
  obtain d' blocks where "validate_and_hydrate (dp_files dp) (rv_document r') p w '''' = (Inr d', blocks)"
    using assms(2) by (metis attachments_readable_def prod.collapse)
  then have "hydrate_in_place dp ?rq p r' q =
      (Inr (r'\<lparr>rv_document := d'\<rparr>), q\<lparr>sv_store := mem_share p (rv_id r') blocks (sv_store q)\<rparr>)"
    using assms(3) by (simp add: hydrate_in_place_def grpc_request_def identity_of_def)
  then obtain h q' where "get_revision_head dp ?rq p q = (Inr h, q')"
    using guard r' assms(3) by (simp add: get_revision_head_def)
  moreover obtain c where "cdocument_of_json (document_json (hp_document h)) = Some c" using cdocument_total by blast
  ultimately show ?thesis
    by (auto simp: client_head_def grpc_get_revision_head_def head_request_def)
qed

section \<open>One message\<close>

text \<open>
  The room is open, and the page service has the page with this head.
\<close>

definition room_waits ::
  "id_gen \<Rightarrow> gotime \<Rightarrow> string \<Rightarrow> string \<Rightarrow> page_revision \<Rightarrow> (mem_rooms, mem_presence, (mem_store, 'r) service) collab \<Rightarrow> bool" where
  "room_waits gen t w p r sv \<longleftrightarrow> collab_ok gen sv \<and> head_is (sv_store (cl_page sv)) p r
     \<and> mem_room (cl_rooms sv) t (room_key w p) \<noteq> None"

definition room_shows ::
  "gotime \<Rightarrow> string \<Rightarrow> string \<Rightarrow> page_revision \<Rightarrow> (mem_rooms, mem_presence, (mem_store, 'r) service) collab \<Rightarrow> bool" where
  "room_shows t w p r sv \<longleftrightarrow> (\<exists>st. mem_room (cl_rooms sv) t (room_key w p) = Some st \<and> room_at_head r st)"

lemma mem_room_found: "mem_room_get t k rooms = Inr (mem_room rooms t k)"
  by (auto simp: mem_room_get_def mem_room_def split: option.splits)

lemma saved_room:
  "mem_room (rooms(rm_id st \<mapsto> st\<lparr>rm_expires := t + 45 * second\<rparr>)) t k =
     (if k = rm_id st then Some (st\<lparr>rm_expires := t + 45 * second\<rparr>) else mem_room rooms t k)"
  by (simp add: mem_room_def expired_def second_def)

text \<open>What a refresh of any page does to the rooms and the page service.\<close>

lemma refresh_cases:
  assumes "refresh_existing_room (collab_with dp now gen) cx t p' w' (45 * second) sv = (e, sv')"
  obtains (untouched) "mem_room (cl_rooms sv) t (room_key w' p') = None" and "sv' = sv"
  | (failed) err q where "client_head (grpc_get_revision_head dp) (head_request cx p' w' '''') (cl_page sv) = (Inl err, q)"
      and "sv' = sv\<lparr>cl_page := q\<rparr>"
  | (saved) head q where "client_head (grpc_get_revision_head dp) (head_request cx p' w' '''') (cl_page sv) = (Inr head, q)"
      and "sv' = sv\<lparr>cl_page := q, cl_rooms := (cl_rooms sv)(room_key w' p' \<mapsto>
             (room_of_head p' w' head)\<lparr>rm_expires := t + 45 * second\<rparr>)\<rparr>"
proof (cases "mem_room (cl_rooms sv) t (room_key w' p')")
  case None
  then have "refresh_existing_room (collab_with dp now gen) cx t p' w' (45 * second) sv = (None, sv)"
    by (simp add: refresh_existing_room_def refresh_read_def mem_room_found refresh_save_def)
  then have "sv' = sv" using assms by simp
  with None show thesis by (rule untouched)
next
  case (Some old)
  obtain h q where head: "client_head (grpc_get_revision_head dp) (head_request cx p' w' '''') (cl_page sv) = (h, q)" by fastforce
  have id: "rm_id (room_of_head p' w' x) = room_key w' p'" for x by (simp add: room_of_head_def)
  have read: "refresh_read (collab_with dp now gen) cx t p' w' (45 * second) sv =
      (case h of Inl err \<Rightarrow> (Inl (CollabPage err), sv\<lparr>cl_page := q\<rparr>)
       | Inr found_head \<Rightarrow> (Inr (Some (room_of_head p' w' found_head, 45 * second)), sv\<lparr>cl_page := q\<rparr>))"
    using Some head by (simp add: refresh_read_def mem_room_found refresh_snapshot_def second_def split: sum.splits)
  show thesis
  proof (cases h)
    case (Inl err)
    then have "sv' = sv\<lparr>cl_page := q\<rparr>" using assms read by (simp add: refresh_existing_room_def)
    with head [unfolded Inl] show thesis by (rule failed)
  next
    case (Inr found_head)
    then have "sv' = sv\<lparr>cl_page := q, cl_rooms := (cl_rooms sv)(room_key w' p' \<mapsto>
        (room_of_head p' w' found_head)\<lparr>rm_expires := t + 45 * second\<rparr>)\<rparr>"
      using assms read
      by (simp add: refresh_existing_room_def refresh_save_def save_room_then_def mem_room_save_def id)
    with head [unfolded Inr] show thesis by (rule saved)
  qed
qed

lemma head_read_keeps:
  assumes "client_head (grpc_get_revision_head dp) i (cl_page sv) = (h, q)" and "dp_store dp = memory_ops"
    and "collab_ok (dp_gen dp) sv" and "head_is (sv_store (cl_page sv)) p r"
  shows "mem_service_ok (dp_gen dp) q" and "head_is (sv_store q) p r"
proof -
  have ok: "mem_service_ok (dp_gen dp) (cl_page sv)" using assms(3) by (simp add: collab_ok_def)
  show q: "mem_service_ok (dp_gen dp) q" using client_head_keeps [OF assms(1) ok assms(2)] by simp
  show "head_is (sv_store q) p r"
    using head_is_kept [OF assms(4)] ok q client_head_kept [OF assms(1) ok assms(2)] client_head_pages [OF assms(1,2)]
    by (simp add: service_ok_def)
qed

lemma refresh_keeps_waiting:
  assumes "room_waits (dp_gen dp) t w p r sv" and "dp_store dp = memory_ops" and "colon_free w" and "colon_free w'"
    and "refresh_existing_room (collab_with dp now gen) cx t p' w' (45 * second) sv = (e, sv')"
  shows "room_waits (dp_gen dp) t w p r sv' \<and> (room_shows t w p r sv \<longrightarrow> room_shows t w p r sv')"
  using assms(5)
proof (cases rule: refresh_cases)
  case untouched
  then show ?thesis using assms(1) by simp
next
  case (failed err q)
  then show ?thesis
    using assms(1) head_read_keeps [OF failed(1) assms(2), of p r] by (simp add: room_waits_def room_shows_def collab_ok_def)
next
  case (saved head q)
  let ?st = "(room_of_head p' w' head)\<lparr>rm_expires := t + 45 * second\<rparr>"
  have id: "rm_id (room_of_head p' w' head) = room_key w' p'" by (simp add: room_of_head_def)
  have head: "head_is (sv_store (cl_page sv)) p r" "collab_ok (dp_gen dp) sv" using assms(1) by (simp_all add: room_waits_def)
  note q = head_read_keeps [OF saved(1) assms(2) head(2,1)]
  have rooms: "mem_room (cl_rooms sv') t k = (if k = room_key w' p' then Some ?st else mem_room (cl_rooms sv) t k)" for k
    using saved(2) saved_room [of "cl_rooms sv" "room_of_head p' w' head" t k] by (simp add: id)
  have "mem_rooms_keyed (cl_rooms sv')" using saved(2) head(2) by (simp add: collab_ok_def mem_rooms_keyed_def id)
  then have ok: "collab_ok (dp_gen dp) sv'" using saved(2) head(2) q(1) by (simp add: collab_ok_def)
  have shows': "room_shows t w p r sv'" if "room_key w p = room_key w' p'"
  proof -
    have same: "w = w' \<and> p = p'" using room_key_inj [OF that assms(3,4)] .
    then have "room_at_head r (room_of_head p' w' head)" using read_head [OF saved(1) _ assms(2)] head(1) by simp
    then show ?thesis using rooms [of "room_key w p"] that by (simp add: room_shows_def room_at_head_def)
  qed
  show ?thesis
  proof (cases "room_key w p = room_key w' p'")
    case True
    then show ?thesis using shows' ok q(2) saved(2) rooms [of "room_key w p"] by (simp add: room_waits_def)
  next
    case False
    then show ?thesis using assms(1) ok q(2) saved(2) rooms [of "room_key w p"] by (simp add: room_waits_def room_shows_def)
  qed
qed

lemma refresh_shows_head:
  assumes "room_waits (dp_gen dp) t w p r sv" and "dp_store dp = memory_ops" and "attachments_readable dp p w"
    and "refresh_existing_room (collab_with dp now gen) cx t p w (45 * second) sv = (e, sv')"
  shows "room_shows t w p r sv'"
proof -
  have head: "head_is (sv_store (cl_page sv)) p r" using assms(1) by (simp add: room_waits_def)
  obtain hd q where ans: "client_head (grpc_get_revision_head dp) (head_request cx p w '''') (cl_page sv) = (Inr hd, q)"
    using head_answered [OF head assms(3,2)] by blast
  from assms(4) show ?thesis
  proof (cases rule: refresh_cases)
    case untouched
    then show ?thesis using assms(1) by (simp add: room_waits_def)
  next
    case (failed err q)
    then show ?thesis using ans by simp
  next
    case (saved head' q)
    have "room_at_head r (room_of_head p w head')" using read_head [OF saved(1) head assms(2)] .
    then show ?thesis
      using saved(2) saved_room [of "cl_rooms sv" "room_of_head p w head'" t "room_key w p"]
      by (simp add: room_shows_def room_at_head_def room_of_head_def)
  qed
qed

section \<open>All messages\<close>

lemma message_refreshes:
  "refresh_on_message ck cx t False message sv =
     (case changed_page_of message of
        None \<Rightarrow> sv
      | Some x \<Rightarrow> if cg_page x = '''' \<or> cg_workspace x = '''' then sv
          else snd (refresh_existing_room ck cx t (cg_page x) (cg_workspace x) (45 * second) sv))"
  by (simp add: refresh_on_message_def changed_page_of_def)

lemma message_keeps:
  assumes "room_waits (dp_gen dp) t w p r sv" and "dp_store dp = memory_ops" and "colon_free w"
    and "colon_free_message message"
  shows "room_waits (dp_gen dp) t w p r (refresh_on_message (collab_with dp now gen) cx t False message sv)
     \<and> (room_shows t w p r sv \<longrightarrow>
          room_shows t w p r (refresh_on_message (collab_with dp now gen) cx t False message sv))"
proof (cases "changed_page_of message")
  case (Some x)
  then have "colon_free (cg_workspace x)" using assms(4) by (simp add: colon_free_message_def)
  then show ?thesis
    using refresh_keeps_waiting [OF assms(1-3) _ prod.collapse [symmetric], of "cg_workspace x" now gen cx "cg_page x"]
      Some assms(1)
    by (simp add: message_refreshes)
qed (use assms(1) in \<open>simp add: message_refreshes\<close>)

lemma deliver_keeps:
  assumes "room_waits (dp_gen dp) t w p r sv" and "dp_store dp = memory_ops" and "colon_free w"
    and "list_all (\<lambda>(subject, message). colon_free_message message) messages"
  shows "room_shows t w p r sv \<longrightarrow> room_shows t w p r (deliver (collab_with dp now gen) cx t messages sv)"
  using assms(1,4)
proof (induction messages arbitrary: sv)
  case (Cons m messages)
  obtain subject message where m: "m = (subject, message)" by fastforce
  show ?case
    using Cons.IH [of "if subject \<in> set refresh_subjects
        then refresh_on_message (collab_with dp now gen) cx t False message sv else sv"]
      message_keeps [OF Cons.prems(1) assms(2,3), of message now gen cx] Cons.prems
    by (auto simp: m)
qed simp

lemma deliver_shows_head:
  assumes "room_waits (dp_gen dp) t w p r sv" and "dp_store dp = memory_ops" and "colon_free w"
    and "list_all (\<lambda>(subject, message). colon_free_message message) messages"
    and "attachments_readable dp p w" and "p \<noteq> ''''" and "w \<noteq> ''''"
    and "(subject, message) \<in> set messages" and "subject \<in> set refresh_subjects"
    and "changed_page_of message = Some \<lparr>cg_page = p, cg_workspace = w\<rparr>"
  shows "room_shows t w p r (deliver (collab_with dp now gen) cx t messages sv)"
  using assms(1,4,8)
proof (induction messages arbitrary: sv)
  case (Cons m messages)
  obtain subject' message' where m: "m = (subject', message')" by fastforce
  let ?sv = "if subject' \<in> set refresh_subjects
      then refresh_on_message (collab_with dp now gen) cx t False message' sv else sv"
  have waits: "room_waits (dp_gen dp) t w p r ?sv"
    using message_keeps [OF Cons.prems(1) assms(2,3), of message' now gen cx] Cons.prems m by auto
  show ?case
  proof (cases "m = (subject, message)")
    case True
    then have "room_shows t w p r ?sv"
      using refresh_shows_head [OF Cons.prems(1) assms(2,5) prod.collapse [symmetric], of now gen cx] assms(6,7,9,10) m
      by (simp add: message_refreshes)
    then show ?thesis using deliver_keeps [OF waits assms(2,3)] Cons.prems m by auto
  next
    case False
    then show ?thesis using Cons.IH [OF waits] Cons.prems m by auto
  qed
qed simp

section \<open>From the outbox to the rooms\<close>

text \<open>The event makes the consumer refresh the room of this page; the events of a saved draft do.\<close>

definition refreshes_room :: "string \<Rightarrow> string \<Rightarrow> outbox_record \<Rightarrow> bool" where
  "refreshes_room p w event \<longleftrightarrow> ob_event event \<in> set refresh_subjects
     \<and> changed_page_of (Some (ob_payload event)) = Some \<lparr>cg_page = p, cg_workspace = w\<rparr>"

lemma draft_saved_refreshes:
  "ob_event event = ''page.draft.saved'' \<Longrightarrow> ob_payload event = draft_saved_payload page revision refs \<Longrightarrow>
     refreshes_room (pg_id page) (pg_workspace page) event"
  by (simp add: refreshes_room_def draft_saved_page refresh_subjects_def)

definition with_outbox ::
  "outbox_record list \<Rightarrow> (mem_rooms, mem_presence, (mem_store, 'r) service) collab \<Rightarrow>
   (mem_rooms, mem_presence, (mem_store, 'r) service) collab" where
  "with_outbox ob sv = sv\<lparr>cl_page := (cl_page sv)\<lparr>sv_store := (sv_store (cl_page sv))\<lparr>ms_outbox := ob\<rparr>\<rparr>\<rparr>"

lemma outbox_reads [simp]:
  "mem_get_page (s\<lparr>ms_outbox := ob\<rparr>) = mem_get_page s" "mem_get_revision (s\<lparr>ms_outbox := ob\<rparr>) = mem_get_revision s"
  "mem_unused (s\<lparr>ms_outbox := ob\<rparr>) = mem_unused s" "page_ok (s\<lparr>ms_outbox := ob\<rparr>) = page_ok s"
  by (intro ext, simp add: mem_get_page_def mem_get_revision_def mem_unused_def page_ok_def Let_def split: option.splits)+

lemma with_outbox_inv [simp]: "mem_inv (s\<lparr>ms_outbox := ob\<rparr>) = mem_inv s"
  by (simp add: mem_inv_def idempotencies_ok_def)

lemma outbox_waits: "room_waits gen t w p r sv \<Longrightarrow> room_waits gen t w p r (with_outbox ob sv)"
  by (simp add: room_waits_def with_outbox_def collab_ok_def service_ok_def head_is_def)

lemma relay_publishes:
  assumes "distinct (map ob_id (ms_outbox s))" and "pending (ms_outbox s) = earlier @ event # later"
    and "length earlier < Suc ticks * nat (if b \<le> 0 then 25 else b)" and "ok (ob_event event) (ob_payload event)"
    and "relay_run (Some memory_outbox_ops) (Some (logging_env ok at)) policy b ticks (s, []) = (err, s', log)"
  shows "(ob_event event, ob_payload event) \<in> set log"
proof -
  let ?n = "Suc ticks * nat (if b \<le> 0 then 25 else b)"
  obtain n where "?n = length earlier + Suc n" using assms(3) by (metis less_imp_Suc_add add_Suc_right)
  then have "event \<in> set (take ?n (earlier @ event # later))" by simp
  then show ?thesis using relay_run_log(1) [OF assms(1,5)] assms(4) unfolding assms(2) by auto
qed

text \<open>
  C16: Open rooms follow their pages, with both services on their in-memory stores, where the attachments of the
  page can be read and its workspace has no colon. When a draft of the page was saved or published,
  whoever did it, its event is pending, the relay polls often enough to come to it and the bus takes it,
  then after the collaboration service has handled the messages that the bus took, in any order, repeated
  or mixed with others that name no workspace with a colon, an open room of the page holds the draft head
  of the page: its identifier, its number and its texts, whatever it held before.
\<close>

theorem saved_draft_reaches_rooms:
  assumes "collab_ok (dp_gen dp) sv" and "dp_store dp = memory_ops" and "attachments_readable dp p w"
    and "p \<noteq> ''''" and "w \<noteq> ''''" and "colon_free w"
    and "mem_room (cl_rooms sv) t (room_key w p) \<noteq> None"
    and "mem_get_page s p = Inr cur" and "s = sv_store (cl_page sv)" and "distinct (map ob_id (ms_outbox s))"
    and "pending (ms_outbox s) = earlier @ event # later"
    and "length earlier < Suc ticks * nat (if b \<le> 0 then 25 else b)" and "ok (ob_event event) (ob_payload event)"
    and "refreshes_room p w event"
    and "relay_run (Some memory_outbox_ops) (Some (logging_env ok at)) policy b ticks (s, []) = (err, s', log)"
    and "set (map (\<lambda>(subject, payload). (subject, Some payload)) log) \<subseteq> set messages"
    and "list_all (\<lambda>(subject, message). colon_free_message message) messages"
  shows "\<exists>head st. mem_get_revision s p ViewDraft = Inr head
     \<and> mem_room (cl_rooms (deliver (collab_with dp now gen) cx t messages (with_outbox (ms_outbox s') sv))) t (room_key w p) = Some st
     \<and> rm_revision st = rv_id head \<and> rm_no st = rv_no head
     \<and> cblock_texts (rm_document st) = block_texts (rv_document head)"
proof -
  have inv: "mem_inv s" using assms(1,9) by (simp add: collab_ok_def service_ok_def)
  obtain r where r: "mem_get_revision s p ViewDraft = Inr r" using mem.draft_head [OF inv, of p cur] assms(8) by auto
  have "room_waits (dp_gen dp) t w p r sv" using assms(1,7,8,9) r by (auto simp: room_waits_def head_is_def)
  then have waits: "room_waits (dp_gen dp) t w p r (with_outbox (ms_outbox s') sv)" by (rule outbox_waits)
  have "(ob_event event, Some (ob_payload event)) \<in> set messages"
    using relay_publishes [OF assms(10-13,15)] assms(16) by force
  from deliver_shows_head [OF waits assms(2,6,17,3,4,5) this] assms(14)
  have "room_shows t w p r (deliver (collab_with dp now gen) cx t messages (with_outbox (ms_outbox s') sv))"
    by (simp add: refreshes_room_def)
  then show ?thesis using r by (auto simp: room_shows_def room_at_head_def)
qed

definition saved_collab :: "(mem_rooms, mem_presence, (mem_store, mem_replay) service) collab" where
  "saved_collab = open_collab\<lparr>cl_page := snd (run_request sample_deps 25 (AutosaveRequest (sample_autosave ''k'' 1 ''two''))
     (cl_page open_collab))\<rparr>"

definition saved_outbox :: "outbox_record list" where
  "saved_outbox = filter (\<lambda>r. ob_status r = OutboxPending) (ms_outbox (sv_store (cl_page saved_collab)))"

lemma saved_steps:
  "case (saved_collab, ()) of (sv, _) \<Rightarrow> (case (sv_store (cl_page sv), ()) of (s, _) \<Rightarrow>
     (case (filter (\<lambda>r. ob_status r = OutboxPending) (ms_outbox s), ()) of (pend, _) \<Rightarrow>
        mem_room (cl_rooms sv) 30 (room_key ''w'' sample_page) \<noteq> None
      \<and> distinct (map ob_id (ms_outbox s)) \<and> length pend = 7 \<and> refreshes_room sample_page ''w'' (pend ! 1)
      \<and> list_all (\<lambda>r. colon_free_message (Some (ob_payload r))) pend
      \<and> (case mem_get_page s sample_page of Inl _ \<Rightarrow> False | Inr _ \<Rightarrow> True)
      \<and> (case mem_get_revision s sample_page ViewDraft of
           Inl _ \<Rightarrow> False | Inr r \<Rightarrow> rv_no r = 2 \<and> block_texts (rv_document r) = [(''b1'', ''paragraph'', ''two'')])))"
  by code_simp

lemmas saved_facts = saved_steps [unfolded prod.case, folded saved_outbox_def]

lemma saved_collab_ok: "collab_ok run_gen saved_collab"
proof -
  have "int (sv_next (cl_page open_collab)) < max_int64" by code_simp
  then have "mem_service_ok run_gen (snd (run_request sample_deps 25 (AutosaveRequest (sample_autosave ''k'' 1 ''two''))
      (cl_page open_collab)))"
    using mem.run_request_effect [of sample_deps "cl_page open_collab" 25 "AutosaveRequest (sample_autosave ''k'' 1 ''two'')"]
      sample_collab_ok gen_ok_run_gen
    by (simp add: collab_ok_def request_effect_def sample_deps_def)
  then show ?thesis using sample_collab_ok by (simp add: saved_collab_def collab_ok_def)
qed

theorem saved_draft_reaches_rooms_witness:
  "\<exists>err s' log st. relay_run (Some memory_outbox_ops) (Some (logging_env (\<lambda>_ _. True) 28)) sample_policy 2 1
      (sv_store (cl_page saved_collab), []) = (err, s', log)
    \<and> mem_room (cl_rooms (deliver (collab_with sample_deps 30 run_gen) sample_context 30
        (rev (map (\<lambda>(subject, payload). (subject, Some payload)) log)) (with_outbox (ms_outbox s') saved_collab))) 30
        (room_key ''w'' sample_page) = Some st
    \<and> rm_no st = 2 \<and> cblock_texts (rm_document st) = [(''b1'', ''paragraph'', ''two'')]"
proof -
  let ?s = "sv_store (cl_page saved_collab)"
  obtain err s' log where run: "relay_run (Some memory_outbox_ops) (Some (logging_env (\<lambda>_ _. True) 28)) sample_policy 2 1 (?s, []) =
      (err, s', log)"
    by (metis prod_cases3)
  let ?messages = "rev (map (\<lambda>(subject, payload). (subject, Some payload)) log)"
  obtain cur where cur: "mem_get_page ?s sample_page = Inr cur" using saved_facts by (auto split: sum.splits)
  have ids: "distinct (map ob_id (ms_outbox ?s))" using saved_facts by blast
  have "log = map (\<lambda>r. (ob_event r, ob_payload r)) (take 4 saved_outbox)"
    using relay_run_log(1) [OF ids run] by (simp add: saved_outbox_def pending_def)
  moreover have "list_all (\<lambda>r. colon_free_message (Some (ob_payload r))) saved_outbox" using saved_facts by blast
  ultimately have free: "list_all (\<lambda>(subject, message). colon_free_message message) ?messages"
    by (auto simp: list_all_iff dest!: in_set_takeD)
  have len: "1 < length saved_outbox" using saved_facts by simp
  have pend: "pending (ms_outbox ?s) = take 1 saved_outbox @ saved_outbox ! 1 # drop 2 saved_outbox"
    using id_take_nth_drop [OF len] by (simp add: saved_outbox_def pending_def numeral_2_eq_2)
  have ok: "collab_ok (dp_gen sample_deps) saved_collab" using saved_collab_ok by (simp add: sample_deps_def)
  have deps: "dp_store sample_deps = memory_ops" "attachments_readable sample_deps sample_page ''w''"
    by (simp_all add: sample_deps_def attachments_readable_def validate_and_hydrate_def)
  have names: "sample_page \<noteq> ''''" "(''w'' :: string) \<noteq> ''''" "colon_free ''w''"
    by (simp_all add: sample_page_def colon_free_def)
  have room: "mem_room (cl_rooms saved_collab) 30 (room_key ''w'' sample_page) \<noteq> None"
    and event: "refreshes_room sample_page ''w'' (saved_outbox ! 1)" using saved_facts by blast+
  have batch: "length (take 1 saved_outbox) < Suc 1 * nat (if (2 :: int) \<le> 0 then 25 else 2)" by simp
  have "set (map (\<lambda>(subject, payload). (subject, Some payload)) log) \<subseteq> set ?messages" by simp
  from saved_draft_reaches_rooms [OF ok deps names room cur refl ids pend batch TrueI event run this free, of 30 run_gen sample_context]
  obtain head st where "mem_get_revision ?s sample_page ViewDraft = Inr head"
    "mem_room (cl_rooms (deliver (collab_with sample_deps 30 run_gen) sample_context 30 ?messages
        (with_outbox (ms_outbox s') saved_collab))) 30 (room_key ''w'' sample_page) = Some st"
    "rm_no st = rv_no head" "cblock_texts (rm_document st) = block_texts (rv_document head)"
    by blast
  moreover from this(1) have "rv_no head = 2" "block_texts (rv_document head) = [(''b1'', ''paragraph'', ''two'')]"
    using saved_facts by simp_all
  ultimately show ?thesis using run by auto
qed

end
