(* ===== verification/Spec2Isabelle.thy ===== *)
theory Spec2Isabelle
  imports PageRaces Outbox Editor PageApi SocketProperties CollabRefresh AuthProperties FileProperties
    SearchProperties EmbedProperties PagePostgresService GatewayRoutes
    ReplayRedis CollabRedis Processes Adapters Rpc RoomSync
begin

text \<open>
  The backend of a wiki editor (Go): an API gateway, a page service that keeps pages and their
  revisions, a collaboration service that keeps rooms in which several clients edit one page, an auth
  service, a file service, a search service that follows the page events, and an integration service for the
  tables of another system (MWS). This library models all of them.

  How the parts interact. A request reaches the gateway, which checks its access token against the keys
  that the auth service publishes and forwards it with identity headers (\<^verbatim>\<open>Gateway\<close>, \<^verbatim>\<open>Jwks\<close>, \<^verbatim>\<open>Http\<close>).
  The page service authorizes it (\<^verbatim>\<open>Authz\<close>), reads the page, builds the new revision and its events,
  and stores all of it in one transaction that compares the head it started from; the events wait in an
  outbox that a relay publishes. A websocket goes to the collaboration service: a client joins the room of
  a page, its patches are applied to the room's document and committed through the page service's gRPC
  interface, and what was accepted is sent to all clients of the room. Changes that come from elsewhere
  are published by the relay and make the collaboration service refresh the room; the search service
  projects the same events into its index of pages and links. Attachments and embedded tables of a document
  are resolved through the gRPC interfaces of the file service and the integration service.

  \<^bold>\<open>Theories\<close> (each opens with what it holds; \<^verbatim>\<open>src/services/\<close> is left out of the paths).

  \<^item> \<^verbatim>\<open>Prelude\<close>: integers that wrap at 64 bits, times, JSON values, strings, lists, supplies of identifiers.
  \<^item> \<^verbatim>\<open>Authz\<close>: \<^verbatim>\<open>src/pkg/authz\<close>, the auth service's roles, grants and authorizer, and the checks the
    services make.
  \<^item> \<^verbatim>\<open>Document\<close>, \<^verbatim>\<open>PageModel\<close>, \<^verbatim>\<open>Slug\<close>: \<^verbatim>\<open>page-service/internal/domain\<close> and the event builders of
    \<^verbatim>\<open>internal/usecase\<close>.
  \<^item> \<^verbatim>\<open>PageStore\<close>, \<^verbatim>\<open>StoreContract\<close>, \<^verbatim>\<open>MemoryStore\<close>, \<^verbatim>\<open>ReplayWindow\<close>: the ports as records of operations,
    their laws as locales, the in-memory adapters, and the interpretations that show the laws for them.
    The contract of a page store has three layers: \<open>atomic_store\<close> (a refused transaction changes nothing),
    \<open>page_store\<close> (what an accepted one stores, as the adapter keeps it) and \<open>versioned_store\<close> (a transaction
    for another version of its page is refused).
  \<^item> \<^verbatim>\<open>Rows\<close>, \<^verbatim>\<open>PagePostgres\<close>, \<^verbatim>\<open>PagePostgresFacts\<close>, \<^verbatim>\<open>PagePostgresProperties\<close>: the page store on
    PostgreSQL (\<^verbatim>\<open>page-service/internal/adapters/postgres\<close>) as the rows of its tables, with constraints and
    faults, as a refinement of the in-memory store.
  \<^item> \<^verbatim>\<open>PagePostgresContract\<close>, \<^verbatim>\<open>PagePostgresService\<close>: the contract interpreted on these rows, \<open>atomic_store\<close>
    under all faults, \<open>page_store\<close> while rows can be read, \<open>versioned_store\<close> while pages can also be
    updated, and the page service run on them, with faults and the relay between its requests.
  \<^item> \<^verbatim>\<open>Redis\<close>, \<^verbatim>\<open>ReplayRedis\<close>, \<^verbatim>\<open>CollabRedis\<close>: the commands of Redis that the adapters use, and the replay
    window, presence and rooms on it (\<^verbatim>\<open>internal/adapters/redis\<close> of the page and the collaboration service),
    the first two as further interpretations of the contracts of their ports.
  \<^item> \<^verbatim>\<open>PageService\<close>, \<^verbatim>\<open>PageCommands\<close>, \<^verbatim>\<open>PageQueries\<close>: the use cases. A writing use case is cut at its
    transaction into what it reads and prepares and what it commits, so that other requests can be placed
    between the two halves.
  \<^item> \<^verbatim>\<open>PageCommandFacts\<close>, \<^verbatim>\<open>PageReachability\<close>, \<^verbatim>\<open>PageSamples\<close>, \<^verbatim>\<open>PageProperties\<close>, \<^verbatim>\<open>PageBehaviour\<close>, \<^verbatim>\<open>PageRaces\<close>:
    what each use case does on each branch, the invariant over all sequences of requests, what accepted,
    refused and repeated requests leave, and what racing requests do to each other.
  \<^item> \<^verbatim>\<open>Outbox\<close>: \<^verbatim>\<open>src/pkg/messaging\<close>, retries and the relay, with the store's side of it.
  \<^item> \<^verbatim>\<open>Editor\<close>: the editor's catalogue and the capabilities it tells.
  \<^item> \<^verbatim>\<open>Json\<close>, \<^verbatim>\<open>Wire\<close>, \<^verbatim>\<open>Marshalling\<close>: decoding of JSON into structs, documents on the wire between the
    services, and that every marshalled document is decoded, with its texts.
  \<^item> \<^verbatim>\<open>Http\<close>, \<^verbatim>\<open>PageRest\<close>, \<^verbatim>\<open>PageApi\<close>: requests and answers, every REST handler of the page service, and
    what a client can reach through them.
  \<^item> \<^verbatim>\<open>Gateway\<close>, \<^verbatim>\<open>GatewayRoutes\<close>, \<^verbatim>\<open>Base64\<close>, \<^verbatim>\<open>Jwks\<close>: \<^verbatim>\<open>api-gateway/internal/adapters/http\<close>, and the routes of
    the services behind it.
  \<^item> \<^verbatim>\<open>CollabPatch\<close>, \<^verbatim>\<open>CollabStores\<close>, \<^verbatim>\<open>CollabSession\<close>, \<^verbatim>\<open>CollabFacts\<close>: \<^verbatim>\<open>collaboration-service/internal\<close>:
    patches, rooms and presence, joining, heartbeats, submitting and refreshing.
  \<^item> \<^verbatim>\<open>PageGrpc\<close>, \<^verbatim>\<open>CollabPage\<close>, \<^verbatim>\<open>CollabRefresh\<close>, \<^verbatim>\<open>RoomSync\<close>: the two services composed, through
    \<^verbatim>\<open>page-service/api/grpc/server.go\<close> and \<^verbatim>\<open>collaboration-service/internal/adapters\<close>, and the way of a saved
    draft from the outbox into the open rooms.
  \<^item> \<^verbatim>\<open>CollabSocket\<close>, \<^verbatim>\<open>SocketFacts\<close>, \<^verbatim>\<open>SocketProperties\<close>: \<^verbatim>\<open>collaboration-service/api/websocket/handler.go\<close>.
  \<^item> \<^verbatim>\<open>Auth\<close>, \<^verbatim>\<open>AuthFacts\<close>, \<^verbatim>\<open>AuthProperties\<close>: \<^verbatim>\<open>auth-service\<close>, and its tokens at the gateway.
  \<^item> \<^verbatim>\<open>GoPath\<close>, \<^verbatim>\<open>Files\<close>, \<^verbatim>\<open>FileStores\<close>, \<^verbatim>\<open>FileFacts\<close>, \<^verbatim>\<open>FileApi\<close>, \<^verbatim>\<open>FileProperties\<close>: \<^verbatim>\<open>file-service\<close>: uploads,
    downloads and deletions, both stores as interpretations of one contract, REST, gRPC and the page
    service's client.
  \<^item> \<^verbatim>\<open>Search\<close>, \<^verbatim>\<open>SearchStores\<close>, \<^verbatim>\<open>SearchProject\<close>, \<^verbatim>\<open>SearchApi\<close>, \<^verbatim>\<open>SearchProperties\<close>:
    \<^verbatim>\<open>knowledge-graph-search-service\<close>: the filter and the use cases, both stores as interpretations of one
    contract, the projection of events as a refinement of what the events say, REST, and the way of a
    saved draft from the outbox into the search results.
  \<^item> \<^verbatim>\<open>Embeds\<close>, \<^verbatim>\<open>EmbedProperties\<close>: \<^verbatim>\<open>mws-integration-service\<close> and the page service's client of it.
  \<^item> \<^verbatim>\<open>Environment\<close>, \<^verbatim>\<open>Startup\<close>, \<^verbatim>\<open>Processes\<close>: what each \<^verbatim>\<open>cmd/server/main.go\<close> reads from its environment, how
    \<^verbatim>\<open>src/pkg/transport\<close> opens servers, the choices of \<^verbatim>\<open>app/app.go\<close>, and what stops a process.
  \<^item> \<^verbatim>\<open>Platform\<close>: the health endpoints and the end of a server (\<^verbatim>\<open>src/pkg/transport/httpserver.go\<close>), and requests
    that are counted while they interleave (\<^verbatim>\<open>src/pkg/observability\<close>).
  \<^item> \<^verbatim>\<open>Adapters\<close>, \<^verbatim>\<open>Rpc\<close>: publishing on NATS, addresses of objects on MinIO, and the glue of the gRPC contracts
    (\<^verbatim>\<open>src/pkg/contracts\<close>).

  \<^bold>\<open>How code and model correspond.\<close> A struct is a record whose fields have a short prefix; an interface that
  a use case calls is a record of operations, an adapter a value of it. State is passed explicitly:
  operations return a result, an error of a datatype or a value, and the new state. A pointer that may be
  nil is an option. \<open>int64\<close> counters wrap where the code can reach the limit; times and durations are
  integers of nanoseconds. A Go map is a function, or a list of pairs where its size or order is
  observed. One request is one sequence of steps; what another request can do in between is modelled where
  the code holds no lock (the two halves of a use case, of a refresh of a room and of a refresh of tokens).

  \<^bold>\<open>What the lemmas show.\<close> History is append-only and the invariant of pages holds in every reachable state;
  every use case is described on success and on refusal; concurrent writers are serialised by the comparison
  of the head, except where the in-memory store lets a stale page overwrite flags; documents survive the
  wire; rooms hold the texts of stored revisions, and open ones get a saved draft once the relay has come to
  its event; clients registered in a room are open connections; the gateway forwards the identity of the
  token, as long as the request does not name an identity header in \<open>Connection\<close>, and trusts keys for the
  time to live of its cache; no refresh token is exchanged on PostgreSQL, where the statement that
  revokes a session is refused; an uploaded file can be attached, and a deleted one stays deleted on
  PostgreSQL; the relay empties the outbox; the page store on PostgreSQL answers the reads of pages,
  revisions and references as the in-memory one and stores a revision number once; whatever fails there, a
  refused request leaves no trace, unless its commit was made and the answer lost, after which the client can
  repeat it; an acknowledged one is read back later, and no revision is ever changed; a service that
  starts works on the database, the Redis and the bus that its environment names; a reader gets nothing but
  reading requests through the gateway, and the page service refuses him every other; presence on Redis
  ends with its time to live; what was saved can be searched, what a page links to knows it as a
  backlink, and nobody sees a result that the auth service does not let him view. Theorems that state what
  the code does wrong are marked as findings in the manifest of the development.

  \<^bold>\<open>Failures.\<close> Each statement on a database can fail with an error, and so can the beginning of a
  transaction; a failing transaction is rolled back. A commit, a command of Redis and a write of the file service
  can also take effect while the answer to it is lost: the caller is then told of an error although the
  data has changed. Connections that break in the middle of reading a result are errors of the statement.

  \<^bold>\<open>Bounds.\<close> Revision numbers are taken to be below \<open>2^63 - 1\<close> where the next one is computed. The relay's loop
  runs for a given number of ticks, and its statements hold for every number. Every other loop of the code
  is a recursion on a list or a count, and a total function here. The invariant of the rooms is stated
  for workspaces without a colon, because the key of a room joins workspace and page with two colons, and for
  patches with fresh identifiers, because a repeated one breaks it. The lists of the clients of a room are
  described for runs in which no client that is in a room joins again, because one that does stays in the
  list of its old room. The code refuses none of these.

  \<^bold>\<open>Parameters.\<close> What lies outside \<^verbatim>\<open>src/\<close> is an argument of the definitions: signing of tokens, bcrypt,
  \<open>strings.ToLower\<close> beyond ASCII and \<open>time.Parse\<close> where they are used on arbitrary text, the text
  search and \<open>ILIKE\<close> of PostgreSQL, the faults of a database, the object store, the table service, the
  message bus, the router that finds a route of the gateway, \<open>url.Parse\<close> and \<open>time.ParseDuration\<close> where a process starts. The statements hold for all of them unless a hypothesis says otherwise.

  \<^bold>\<open>Not modelled.\<close>
  The PostgreSQL and Redis adapters are modelled as rows of tables and keys of a server, not as SQL and a
  protocol. A column of type UUID takes any string here, where PostgreSQL refuses what is not one; JSONB
  gives back the JSON value that was stored, where PostgreSQL reorders keys; rows with the same time keep
  the order of their insertion in an \<open>ORDER BY\<close>, where PostgreSQL promises none. A number that Go decodes
  into \<open>any\<close> is an exact integer here, and a \<open>float64\<close> there. A join reads and saves a room in one
  step, except in the runs of \<^verbatim>\<open>CollabRefresh\<close>, which cut it in two. JSON as text is left out. Of the processes, signals, goroutines, logging and the wiring of handlers
  to routers are left out; a server is what it answers when it is opened, and the error with which it ends.
\<close>

end
